(* ===== verification/Ops_Prelude.thy ===== *)
theory Ops_Prelude
  imports Main "HOL-Library.Char_ord" "HOL-Library.List_Lexorder" "HOL-Library.Product_Lexorder"
begin

text \<open>
  Prelude of the Hubinet Ops development: the exceptions of the authority core as values, the
  result and transaction combinators every operation is written with, the text and identifier
  checks the modules share (\<open>_require_text\<close>, \<open>_require_uuid\<close>, \<open>_require_evidence_digest\<close>,
  \<open>_require_positive_integer\<close>), and the generic lemmas on results, keyed row lists and
  sequence numbers that the component proofs rest on.

  Text is a list of characters; a character stands for one code point below 256, so
  \<open>length\<close> counts what Python's \<open>len\<close> counts on such text.
\<close>

named_theorems op_defs \<open>definitions of the authority operations\<close>
named_theorems frame_simps \<open>what a primitive write leaves alone\<close>

section \<open>Exceptions as values\<close>

text \<open>
  The exception classes of \<open>models.py\<close>, of the modules below it and of the Python runtime that
  an authority operation can raise. The constructors that carry a string keep the message. A
  \<open>HelperError\<close> is a \<open>SnapshotError\<close> of the host helpers, with its classification, its message and what
  it says of submission; \<open>Killed\<close> is the end of a process by force.
\<close>

datatype exn =
    AuthorityConflict string
  | HealthContractRevisionConflict string
  | PackageUpdateIssuanceRefused string string
  | SnapshotSubmissionRefusedBeforeCallback string
  | MutationSubmissionRefusedBeforeCallback string
  | RollbackSubmissionRefusedBeforeCallback string
  | PackageMutationEvidenceNotAccepted string
  | PackageUpdateExecutionAuthorityTemporarilyUnavailable string
  | PackageUpdateHealthContextChanged string
  | AuthorityNotFound string
  | AuthorityInvariantError string
  | ProductUpdateFenceError string
  | ValueError string
  | TypeError string
  | IntegrityError string
  | StopIteration
  | OverflowError string
  | HostError string
  | HelperError string string string
  | OSError string
  | Killed

text \<open>\<open>isinstance(exc, AuthorityConflict)\<close>: the class and its subclasses.\<close>

fun is_authority_conflict :: "exn \<Rightarrow> bool" where
  "is_authority_conflict (AuthorityConflict _) = True"
| "is_authority_conflict (HealthContractRevisionConflict _) = True"
| "is_authority_conflict (PackageUpdateIssuanceRefused _ _) = True"
| "is_authority_conflict (SnapshotSubmissionRefusedBeforeCallback _) = True"
| "is_authority_conflict (MutationSubmissionRefusedBeforeCallback _) = True"
| "is_authority_conflict (RollbackSubmissionRefusedBeforeCallback _) = True"
| "is_authority_conflict (PackageMutationEvidenceNotAccepted _) = True"
| "is_authority_conflict (PackageUpdateExecutionAuthorityTemporarilyUnavailable _) = True"
| "is_authority_conflict (PackageUpdateHealthContextChanged _) = True"
| "is_authority_conflict _ = False"

fun is_integrity_error :: "exn \<Rightarrow> bool" where
  "is_integrity_error (IntegrityError _) = True"
| "is_integrity_error _ = False"

type_synonym 'a result = "exn + 'a"

section \<open>Results\<close>

definition bindE :: "'a result \<Rightarrow> ('a \<Rightarrow> 'b result) \<Rightarrow> 'b result" where
  "bindE m f = (case m of Inl e \<Rightarrow> Inl e | Inr x \<Rightarrow> f x)"

text \<open>\<open>if not condition: raise exc\<close>, then go on.\<close>

definition checkE :: "bool \<Rightarrow> exn \<Rightarrow> 'a result \<Rightarrow> 'a result" where
  "checkE b e k = (if b then k else Inl e)"

lemma bindE_simps [simp]:
  "bindE (Inl e) f = Inl e"
  "bindE (Inr x) f = f x"
  by (simp_all add: bindE_def)

lemma checkE_simps [simp]:
  "checkE True e k = k"
  "checkE False e k = Inl e"
  by (simp_all add: checkE_def)

lemma bindE_Inr_iff: "bindE m f = Inr y \<longleftrightarrow> (\<exists>x. m = Inr x \<and> f x = Inr y)"
  by (cases m) auto

lemma bindE_Inl_iff: "bindE m f = Inl e \<longleftrightarrow> m = Inl e \<or> (\<exists>x. m = Inr x \<and> f x = Inl e)"
  by (cases m) auto

lemma checkE_Inr_iff: "checkE b e k = Inr y \<longleftrightarrow> b \<and> k = Inr y"
  by (auto simp: checkE_def)

lemma checkE_Inl_iff: "checkE b e k = Inl x \<longleftrightarrow> (\<not> b \<and> e = x) \<or> (b \<and> k = Inl x)"
  by (auto simp: checkE_def)

lemmas result_iffs = bindE_Inr_iff bindE_Inl_iff checkE_Inr_iff checkE_Inl_iff

text \<open>
  \<open>InventoryAuthorityStore._transaction\<close>: commit when the body returns, roll back and re-raise
  when it raises.
\<close>

definition transaction :: "('s \<Rightarrow> ('a \<times> 's) result) \<Rightarrow> 's \<Rightarrow> 's \<times> 'a result" where
  "transaction body s = (case body s of Inl e \<Rightarrow> (s, Inl e) | Inr (a, s') \<Rightarrow> (s', Inr a))"

text \<open>What the caller does after the \<open>with\<close> block, over the committed state.\<close>

definition afterwards :: "'s \<times> 'a result \<Rightarrow> ('a \<Rightarrow> 's \<Rightarrow> 'b result) \<Rightarrow> 's \<times> 'b result" where
  "afterwards r k = (fst r, bindE (snd r) (\<lambda>a. k a (fst r)))"

text \<open>Arguments checked before the transaction opens.\<close>

definition precheck :: "'a result \<Rightarrow> ('a \<Rightarrow> 's \<times> 'b result) \<Rightarrow> 's \<Rightarrow> 's \<times> 'b result" where
  "precheck m k s = (case m of Inl e \<Rightarrow> (s, Inl e) | Inr x \<Rightarrow> k x)"

lemma transaction_eq:
  "transaction body s = (s', r) \<longleftrightarrow>
     (case r of Inl e \<Rightarrow> s' = s \<and> body s = Inl e | Inr a \<Rightarrow> body s = Inr (a, s'))"
  by (auto simp: transaction_def split: sum.splits prod.splits)

lemma fst_afterwards [simp]: "fst (afterwards r k) = fst r"
  by (simp add: afterwards_def)

lemma fst_transaction_cases:
  obtains (rolled_back) e where "body s = Inl e" "fst (transaction body s) = s"
  | (committed) a s' where "body s = Inr (a, s')" "fst (transaction body s) = s'"
  by (cases "body s") (auto simp: transaction_def)

lemma fst_precheck_cases:
  obtains (refused) e where "m = Inl e" "fst (precheck m k s) = s"
  | (passed) x where "m = Inr x" "fst (precheck m k s) = fst (k x)"
  by (cases m) (auto simp: precheck_def)

section \<open>Python text\<close>

text \<open>\<open>str.isspace\<close> of one character, for code points below 256.\<close>

definition py_isspace :: "char \<Rightarrow> bool" where
  "py_isspace c \<longleftrightarrow> (let n = of_char c :: nat in
     (9 \<le> n \<and> n \<le> 13) \<or> (28 \<le> n \<and> n \<le> 32) \<or> n = 133 \<or> n = 160)"

definition is_control :: "char \<Rightarrow> bool" where
  "is_control c \<longleftrightarrow> (of_char c :: nat) < 32 \<or> (of_char c :: nat) = 127"

text \<open>
  \<open>_require_text\<close>: bounded text that is not blank and holds no control character.
  \<open>value.strip()\<close> is non-empty exactly when some character is not a space.
\<close>

definition is_text :: "nat \<Rightarrow> string \<Rightarrow> bool" where
  "is_text max_length v \<longleftrightarrow>
     (\<exists>c \<in> set v. \<not> py_isspace c) \<and> length v \<le> max_length \<and> (\<forall>c \<in> set v. \<not> is_control c)"

definition require_text :: "string \<Rightarrow> string \<Rightarrow> nat \<Rightarrow> string result" where
  "require_text v field max_length =
     checkE (is_text max_length v) (ValueError (field @ '' must be bounded non-empty text'')) (Inr v)"

definition optional_bounded_text :: "string option \<Rightarrow> string \<Rightarrow> nat \<Rightarrow> string option result" where
  "optional_bounded_text v field max_length =
     (case v of None \<Rightarrow> Inr None
      | Some t \<Rightarrow> bindE (require_text t field max_length) (\<lambda>x. Inr (Some x)))"

definition require_positive_integer :: "int \<Rightarrow> string \<Rightarrow> int result" where
  "require_positive_integer v field =
     checkE (0 < v) (ValueError (field @ '' must be a positive integer'')) (Inr v)"

lemma require_text_Inr [simp]: "require_text v f n = Inr w \<longleftrightarrow> w = v \<and> is_text n v"
  by (auto simp: require_text_def checkE_def)

lemma is_text_nonempty: "is_text n v \<Longrightarrow> v \<noteq> []"
  by (auto simp: is_text_def)

section \<open>Hexadecimal text and canonical UUIDs\<close>

definition is_lower_hex :: "char \<Rightarrow> bool" where
  "is_lower_hex c \<longleftrightarrow> c \<in> set ''0123456789abcdef''"

definition is_hex_digest :: "nat \<Rightarrow> string \<Rightarrow> bool" where
  "is_hex_digest n v \<longleftrightarrow> length v = n \<and> list_all is_lower_hex v"

text \<open>
  The canonical form of a UUID: what \<open>str(uuid.UUID(value)) == value\<close> and \<open>parsed.int != 0\<close>
  accept, that is lowercase hexadecimal groups of 8, 4, 4, 4 and 12 digits, not all zero.
\<close>

fun uuid_shape :: "nat \<Rightarrow> string \<Rightarrow> bool" where
  "uuid_shape i [] \<longleftrightarrow> i = 36"
| "uuid_shape i (c # cs) \<longleftrightarrow>
     (if i = 8 \<or> i = 13 \<or> i = 18 \<or> i = 23 then c = CHR ''-'' else is_lower_hex c)
     \<and> uuid_shape (Suc i) cs"

definition is_canonical_uuid :: "string \<Rightarrow> bool" where
  "is_canonical_uuid v \<longleftrightarrow> uuid_shape 0 v \<and> (\<exists>c \<in> set v. c \<noteq> CHR ''-'' \<and> c \<noteq> CHR ''0'')"

definition require_uuid :: "string \<Rightarrow> string \<Rightarrow> string result" where
  "require_uuid v field =
     checkE (is_canonical_uuid v)
       (ValueError (field @ '' must be a canonical lowercase hyphenated non-NIL UUID'')) (Inr v)"

definition require_evidence_digest :: "string \<Rightarrow> string result" where
  "require_evidence_digest v =
     checkE (is_hex_digest 64 v) (ValueError ''prepared evidence digest is invalid'') (Inr v)"

definition require_package_plan_fingerprint :: "string \<Rightarrow> string result" where
  "require_package_plan_fingerprint v =
     checkE (is_hex_digest 64 v)
       (ValueError ''reviewed_plan_fingerprint must be a lowercase SHA-256 fingerprint'') (Inr v)"

lemma require_uuid_Inr [simp]: "require_uuid v f = Inr w \<longleftrightarrow> w = v \<and> is_canonical_uuid v"
  by (auto simp: require_uuid_def checkE_def)

lemma require_evidence_digest_Inr [simp]:
  "require_evidence_digest v = Inr w \<longleftrightarrow> w = v \<and> is_hex_digest 64 v"
  by (auto simp: require_evidence_digest_def checkE_def)

lemma uuid_shape_length: "uuid_shape i v \<Longrightarrow> i + length v = 36"
  by (induction i v rule: uuid_shape.induct) auto

lemma canonical_uuid_length: "is_canonical_uuid v \<Longrightarrow> length v = 36"
  using uuid_shape_length[of 0 v] by (simp add: is_canonical_uuid_def)

section \<open>Rows\<close>

text \<open>\<open>SELECT ... WHERE key = ?\<close> on a primary key, as \<open>fetchone()\<close> sees it.\<close>

definition row_by :: "('r \<Rightarrow> 'k) \<Rightarrow> 'k \<Rightarrow> 'r list \<Rightarrow> 'r option" where
  "row_by key k rows = find (\<lambda>r. key r = k) rows"

text \<open>\<open>UPDATE ... SET ... WHERE ...\<close>: the rows after, and \<open>rowcount\<close>.\<close>

definition rows_update :: "('r \<Rightarrow> bool) \<Rightarrow> ('r \<Rightarrow> 'r) \<Rightarrow> 'r list \<Rightarrow> 'r list" where
  "rows_update w s rows = map (\<lambda>r. if w r then s r else r) rows"

definition rows_matched :: "('r \<Rightarrow> bool) \<Rightarrow> 'r list \<Rightarrow> nat" where
  "rows_matched w rows = length (filter w rows)"

text \<open>\<open>SELECT COALESCE(MAX(column), 0) ...\<close> over the selected rows.\<close>

definition max_or_zero :: "nat list \<Rightarrow> nat" where
  "max_or_zero ns = foldr max ns 0"

lemma row_by_Some_key: "row_by key k rows = Some r \<Longrightarrow> r \<in> set rows \<and> key r = k"
  by (auto simp: row_by_def find_Some_iff)

lemma row_by_None: "row_by key k rows = None \<longleftrightarrow> k \<notin> key ` set rows"
  by (auto simp: row_by_def find_None_iff)

lemma row_by_unique:
  assumes "distinct (map key rows)" "r \<in> set rows"
  shows "row_by key (key r) rows = Some r"
  using assms by (induction rows) (auto simp: row_by_def)

lemma row_by_Some_iff:
  "distinct (map key rows) \<Longrightarrow> row_by key k rows = Some r \<longleftrightarrow> r \<in> set rows \<and> key r = k"
  using row_by_unique[of key rows r] row_by_Some_key[of key k rows r] by auto

lemma row_by_append:
  "row_by key k (xs @ ys) = (case row_by key k xs of None \<Rightarrow> row_by key k ys | Some r \<Rightarrow> Some r)"
  by (induction xs) (auto simp: row_by_def)

lemma row_by_rows_update:
  assumes "\<And>r. key (s r) = key r"
  shows "row_by key k (rows_update w s rows) =
           map_option (\<lambda>r. if w r then s r else r) (row_by key k rows)"
  using assms by (induction rows) (auto simp: row_by_def rows_update_def)

lemma length_rows_update [simp]: "length (rows_update w s rows) = length rows"
  by (simp add: rows_update_def)

lemma map_rows_update_key:
  assumes "\<And>r. key (s r) = key r"
  shows "map key (rows_update w s rows) = map key rows"
  using assms by (simp add: rows_update_def)

lemma set_rows_update:
  "r' \<in> set (rows_update w s rows) \<longleftrightarrow>
     (\<exists>r \<in> set rows. r' = (if w r then s r else r))"
  by (auto simp: rows_update_def)

lemma rows_matched_one:
  assumes "distinct (map key rows)" "r \<in> set rows" "w r" "\<And>x. w x \<Longrightarrow> key x = key r"
  shows "rows_matched w rows = 1"
  using assms(1,2)
proof (induction rows)
  case (Cons x xs)
  show ?case
  proof (cases "x = r")
    case True
    with Cons.prems(1) have "key r \<notin> key ` set xs" by simp
    then have "\<forall>y \<in> set xs. key y \<noteq> key r" by (metis imageI)
    with assms(4) have "filter w xs = []" by (auto simp: filter_empty_conv)
    with True assms(3) show ?thesis by (simp add: rows_matched_def)
  next
    case False
    with Cons.prems have r: "r \<in> set xs" and "key x \<noteq> key r" by auto
    with assms(4) have "\<not> w x" by metis
    with Cons.IH[OF _ r] Cons.prems(1) show ?thesis by (simp add: rows_matched_def)
  qed
qed simp

lemma max_or_zero_ge: "n \<in> set ns \<Longrightarrow> n \<le> max_or_zero ns"
  by (induction ns) (auto simp: max_or_zero_def)

lemma max_or_zero_Suc_notin: "Suc (max_or_zero ns) \<notin> set ns"
  using max_or_zero_ge[of "Suc (max_or_zero ns)" ns] by auto

lemma foldr_max_base: "foldr max xs (k::nat) = max (foldr max xs 0) k"
  by (induction xs) auto

lemma max_or_zero_snoc: "max_or_zero (xs @ [x]) = max (max_or_zero xs) x"
  unfolding max_or_zero_def by (simp add: foldr_max_base[of xs x])

lemma max_or_zero_upt: "max_or_zero [1..<Suc n] = n"
proof (induction n)
  case 0
  show ?case by (simp add: max_or_zero_def)
next
  case (Suc n)
  have "[1..<Suc (Suc n)] = [1..<Suc n] @ [Suc n]" by simp
  then show ?case using Suc.IH by (simp only: max_or_zero_snoc)
qed

lemma distinct_map_snoc:
  "distinct (map f (xs @ [x])) \<longleftrightarrow> distinct (map f xs) \<and> f x \<notin> f ` set xs"
  by auto

end
