(* ===== verification/Digest.thy ===== *)
theory Digest
  imports Ops_Prelude "HOL-Library.Word"
begin

text \<open>
  The two library services the authority core derives every fingerprint and operation identity
  with: \<open>hashlib.sha256\<close> and \<open>json.dumps(payload, ensure_ascii=True, sort_keys=True,
  separators=(",", ":"))\<close>. SHA-256 is written out on 32-bit words (FIPS 180-4) and checked against
  the standard's first test vector; JSON text is produced from a value tree. The section ends
  with the facts the rest of the development uses: a digest is 64 lowercase hexadecimal digits,
  and the canonical JSON text of an object of scalars determines the object.
\<close>

unbundle bit_operations_syntax

section \<open>SHA-256\<close>

type_synonym u32 = "32 word"
type_synonym sha_state = "u32 \<times> u32 \<times> u32 \<times> u32 \<times> u32 \<times> u32 \<times> u32 \<times> u32"

definition rotr32 :: "nat \<Rightarrow> u32 \<Rightarrow> u32" where
  "rotr32 n w = (drop_bit n w) OR (push_bit (32 - n) w)"

definition sha_small0 :: "u32 \<Rightarrow> u32" where
  "sha_small0 w = rotr32 7 w XOR rotr32 18 w XOR drop_bit 3 w"

definition sha_small1 :: "u32 \<Rightarrow> u32" where
  "sha_small1 w = rotr32 17 w XOR rotr32 19 w XOR drop_bit 10 w"

definition sha_big0 :: "u32 \<Rightarrow> u32" where
  "sha_big0 w = rotr32 2 w XOR rotr32 13 w XOR rotr32 22 w"

definition sha_big1 :: "u32 \<Rightarrow> u32" where
  "sha_big1 w = rotr32 6 w XOR rotr32 11 w XOR rotr32 25 w"

definition sha_constants :: "u32 list" where
  "sha_constants =
  [1116352408, 1899447441, 3049323471, 3921009573, 961987163, 1508970993, 2453635748, 2870763221,
   3624381080, 310598401, 607225278, 1426881987, 1925078388, 2162078206, 2614888103, 3248222580,
   3835390401, 4022224774, 264347078, 604807628, 770255983, 1249150122, 1555081692, 1996064986,
   2554220882, 2821834349, 2952996808, 3210313671, 3336571891, 3584528711, 113926993, 338241895,
   666307205, 773529912, 1294757372, 1396182291, 1695183700, 1986661051, 2177026350, 2456956037,
   2730485921, 2820302411, 3259730800, 3345764771, 3516065817, 3600352804, 4094571909, 275423344,
   430227734, 506948616, 659060556, 883997877, 958139571, 1322822218, 1537002063, 1747873779,
   1955562222, 2024104815, 2227730452, 2361852424, 2428436474, 2756734187, 3204031479, 3329325298]"

definition sha_initial :: sha_state where
  "sha_initial = (1779033703, 3144134277, 1013904242, 2773480762, 1359893119, 2600822924, 528734635, 1541459225)"

text \<open>One round: the working variables, one round constant and one schedule word.\<close>

fun sha_round :: "u32 \<Rightarrow> u32 \<Rightarrow> sha_state \<Rightarrow> sha_state" where
  "sha_round k w (a, b, c, d, e, f, g, h) =
     (let t1 = h + sha_big1 e + ((e AND f) XOR (NOT e AND g)) + k + w;
          t2 = sha_big0 a + ((a AND b) XOR (a AND c) XOR (b AND c))
      in (t1 + t2, a, b, c, d + t1, e, f, g))"

text \<open>The message schedule is a window of the last sixteen words.\<close>

fun sha_rounds :: "u32 list \<Rightarrow> u32 list \<Rightarrow> sha_state \<Rightarrow> sha_state" where
  "sha_rounds [] win st = st"
| "sha_rounds (k # ks) win st =
     sha_rounds ks
       (tl win @ [sha_small1 (win ! 14) + win ! 9 + sha_small0 (win ! 1) + win ! 0])
       (sha_round k (win ! 0) st)"

fun sha_add :: "sha_state \<Rightarrow> sha_state \<Rightarrow> sha_state" where
  "sha_add (a, b, c, d, e, f, g, h) (a', b', c', d', e', f', g', h') =
     (a + a', b + b', c + c', d + d', e + e', f + f', g + g', h + h')"

fun sha_words :: "int list \<Rightarrow> u32 list" where
  "sha_words (a # b # c # d # rest) =
     word_of_int (((a * 256 + b) * 256 + c) * 256 + d) # sha_words rest"
| "sha_words _ = []"

fun sha_blocks :: "nat \<Rightarrow> u32 list \<Rightarrow> sha_state \<Rightarrow> sha_state" where
  "sha_blocks 0 ws st = st"
| "sha_blocks (Suc n) ws st =
     sha_blocks n (drop 16 ws) (sha_add st (sha_rounds sha_constants (take 16 ws) st))"

text \<open>Big-endian bytes of a number, most significant first.\<close>

fun be_bytes :: "nat \<Rightarrow> int \<Rightarrow> int list" where
  "be_bytes 0 n = []"
| "be_bytes (Suc k) n = be_bytes k (n div 256) @ [n mod 256]"

definition sha_padded :: "int list \<Rightarrow> int list" where
  "sha_padded m = m @ [128] @ replicate (nat ((55 - int (length m)) mod 64)) 0
                    @ be_bytes 8 (8 * int (length m))"

text \<open>\<open>hashlib.sha256(data).digest()\<close>, as bytes.\<close>

definition sha256_digest :: "string \<Rightarrow> int list" where
  "sha256_digest data =
     (let ws = sha_words (sha_padded (map of_char data));
          (a, b, c, d, e, f, g, h) = sha_blocks (length ws div 16) ws sha_initial
      in concat (map (\<lambda>w. be_bytes 4 (uint w)) [a, b, c, d, e, f, g, h]))"

definition hex_digit :: "int \<Rightarrow> char" where
  "hex_digit n = ''0123456789abcdef'' ! nat (n mod 16)"

definition hex_byte :: "int \<Rightarrow> string" where
  "hex_byte n = [hex_digit (n div 16), hex_digit n]"

text \<open>\<open>hashlib.sha256(data).hexdigest()\<close>.\<close>

definition sha256_hex :: "string \<Rightarrow> string" where
  "sha256_hex data = concat (map hex_byte (sha256_digest data))"

section \<open>Canonical JSON text\<close>

datatype json =
    JNull
  | JBool bool
  | JInt int
  | JMillis nat
  | JStr string
  | JList "json list"
  | JObj "(string \<times> json) list"

fun decimal_nat :: "nat \<Rightarrow> string" where
  "decimal_nat n =
     (if n < 10 then [''0123456789'' ! n] else decimal_nat (n div 10) @ [''0123456789'' ! (n mod 10)])"

declare decimal_nat.simps [simp del]

definition decimal_int :: "int \<Rightarrow> string" where
  "decimal_int i = (if i < 0 then CHR ''-'' # decimal_nat (nat (- i)) else decimal_nat (nat i))"

text \<open>
  The text of the float \<open>round(float(v), 3)\<close>, given as a number of thousandths: Python writes the
  shortest decimal, with at least one digit after the point.
\<close>

definition decimal_millis :: "nat \<Rightarrow> string" where
  "decimal_millis k =
     (let d = k mod 1000; digit = (\<lambda>n. ''0123456789'' ! n) in
      decimal_nat (k div 1000) @ CHR ''.'' #
        (if d mod 100 = 0 then [digit (d div 100)]
         else if d mod 10 = 0 then [digit (d div 100), digit (d div 10 mod 10)]
         else [digit (d div 100), digit (d div 10 mod 10), digit (d mod 10)]))"

text \<open>One character inside a JSON string, with \<open>ensure_ascii\<close>: the short escapes first.\<close>

definition json_short :: "(char \<times> char) list" where
  "json_short =
     [(CHR 0x22, CHR 0x22), (CHR 0x5C, CHR 0x5C), (CHR 0x0A, CHR ''n''), (CHR 0x0D, CHR ''r''),
      (CHR 0x09, CHR ''t''), (CHR 0x0C, CHR ''f''), (CHR 0x08, CHR ''b'')]"

definition json_escape :: "char \<Rightarrow> string" where
  "json_escape c =
     (case map_of json_short c of
        Some k \<Rightarrow> [CHR 0x5C, k]
      | None \<Rightarrow>
          if 32 \<le> (of_char c :: int) \<and> (of_char c :: int) \<le> 126 then [c]
          else [CHR 0x5C, CHR ''u'', CHR ''0'', CHR ''0''] @ hex_byte (of_char c))"

definition json_string :: "string \<Rightarrow> string" where
  "json_string s = CHR 0x22 # concat (map json_escape s) @ [CHR 0x22]"

fun join_comma :: "string list \<Rightarrow> string" where
  "join_comma [] = []"
| "join_comma [x] = x"
| "join_comma (x # xs) = x @ CHR '','' # join_comma xs"

text \<open>
  \<open>json.dumps(value, ensure_ascii=True, sort_keys=True, separators=(",", ":"))\<close>: object members
  in the order of their keys.
\<close>

fun json_dumps :: "json \<Rightarrow> string" where
  "json_dumps JNull = ''null''"
| "json_dumps (JBool b) = (if b then ''true'' else ''false'')"
| "json_dumps (JInt i) = decimal_int i"
| "json_dumps (JMillis k) = decimal_millis k"
| "json_dumps (JStr s) = json_string s"
| "json_dumps (JList xs) = CHR ''['' # join_comma (map json_dumps xs) @ '']''"
| "json_dumps (JObj kvs) =
     CHR ''{'' # join_comma (map snd (sort_key fst
        (map (\<lambda>(k, v). (k, json_string k @ CHR '':'' # json_dumps v)) kvs))) @ ''}''"

section \<open>Shape of digests\<close>

lemma length_be_bytes [simp]: "length (be_bytes k n) = k"
  by (induction k arbitrary: n) auto

lemma be_bytes_range: "b \<in> set (be_bytes k n) \<Longrightarrow> 0 \<le> b \<and> b < 256"
  by (induction k arbitrary: n) auto

lemma length_sha256_digest [simp]: "length (sha256_digest d) = 32"
  by (auto simp: sha256_digest_def Let_def split: prod.splits)

lemma sha256_digest_range: "b \<in> set (sha256_digest d) \<Longrightarrow> 0 \<le> b \<and> b < 256"
  by (auto simp: sha256_digest_def Let_def be_bytes_range split: prod.splits dest: be_bytes_range)

lemma hex_digit_lower: "is_lower_hex (hex_digit n)"
proof -
  have "nat (n mod 16) < 16" by (simp add: nat_less_iff)
  then have "hex_digit n \<in> set ''0123456789abcdef''"
    unfolding hex_digit_def by (intro nth_mem) simp
  then show ?thesis by (simp only: is_lower_hex_def)
qed

lemma hex_bytes_digest:
  "is_hex_digest (2 * length bs) (concat (map hex_byte bs))"
  by (induction bs) (auto simp: is_hex_digest_def hex_byte_def hex_digit_lower)

lemma sha256_hex_digest: "is_hex_digest 64 (sha256_hex d)"
  using hex_bytes_digest[of "sha256_digest d"] by (simp add: sha256_hex_def)

lemma length_sha256_hex [simp]: "length (sha256_hex d) = 64"
  using sha256_hex_digest[of d] by (simp add: is_hex_digest_def)

section \<open>Canonical text determines its value\<close>

lemma hex_digit_inj: "hex_digit m = hex_digit n \<Longrightarrow> m mod 16 = n mod 16"
proof -
  assume "hex_digit m = hex_digit n"
  moreover have "nat (m mod 16) < 16" "nat (n mod 16) < 16" by (simp_all add: nat_less_iff)
  moreover have "distinct ''0123456789abcdef''" by simp
  ultimately have "nat (m mod 16) = nat (n mod 16)"
    unfolding hex_digit_def by (subst (asm) nth_eq_iff_index_eq) simp_all
  then show ?thesis by (simp add: nat_eq_iff)
qed

lemma hex_byte_inj:
  assumes "hex_byte m = hex_byte n" "0 \<le> m" "m < 256" "0 \<le> n" "n < 256"
  shows "m = n"
proof -
  from assms(1) have "m div 16 mod 16 = n div 16 mod 16" "m mod 16 = n mod 16"
    by (auto simp: hex_byte_def dest: hex_digit_inj)
  moreover have "m div 16 mod 16 = m div 16" "n div 16 mod 16 = n div 16"
    using assms by (simp_all add: mod_pos_pos_trivial)
  ultimately show ?thesis by (metis div_mult_mod_eq)
qed

lemma of_char_byte_range: "(0::int) \<le> of_char c \<and> of_char c < (256::int)"
proof -
  have "(0::int) \<le> of_char c mod 256" "(of_char c :: int) mod 256 < 256"
    by (rule pos_mod_sign, simp) (rule pos_mod_bound, simp)
  then show ?thesis by simp
qed

lemma hex_byte_of_char_inj: "hex_byte (of_char c) = hex_byte (of_char d) \<Longrightarrow> c = d"
  using hex_byte_inj[of "of_char c" "of_char d"] of_char_byte_range[of c] of_char_byte_range[of d]
  by simp

lemma json_short_inj: "map_of json_short c = Some k \<Longrightarrow> map_of json_short d = Some k \<Longrightarrow> c = d"
proof -
  have "distinct (map snd json_short)" by (simp add: json_short_def)
  then have inj: "inj_on snd (set json_short)" by (simp add: distinct_map)
  assume "map_of json_short c = Some k" "map_of json_short d = Some k"
  then have "(c, k) \<in> set json_short" "(d, k) \<in> set json_short" by (auto dest: map_of_SomeD)
  with inj_onD[OF inj, of "(c, k)" "(d, k)"] show ?thesis by simp
qed

lemma json_short_not_u: "map_of json_short c \<noteq> Some (CHR ''u'')"
  by (simp add: json_short_def)

lemma json_short_quote: "map_of json_short c = None \<Longrightarrow> c \<noteq> CHR 0x22 \<and> c \<noteq> CHR 0x5C"
  by (auto simp: json_short_def split: if_splits)

lemma json_escape_neq_quote: "json_escape c \<noteq> [] \<and> hd (json_escape c) \<noteq> CHR 0x22"
  using json_short_quote[of c] by (auto simp: json_escape_def split: option.splits)

lemma json_escape_prefix_free:
  assumes "json_escape c @ x = json_escape d @ y"
  shows "c = d \<and> x = y"
proof (cases "map_of json_short c"; cases "map_of json_short d")
  fix k l assume "map_of json_short c = Some k" "map_of json_short d = Some l"
  with assms json_short_inj[of c k d] show ?thesis by (simp add: json_escape_def)
next
  fix k assume "map_of json_short c = Some k" "map_of json_short d = None"
  with assms json_short_not_u[of c] json_short_quote[of d] show ?thesis
    by (auto simp: json_escape_def split: if_splits)
next
  fix k assume "map_of json_short c = None" "map_of json_short d = Some k"
  with assms json_short_not_u[of d] json_short_quote[of c] show ?thesis
    by (auto simp: json_escape_def split: if_splits)
next
  assume "map_of json_short c = None" "map_of json_short d = None"
  with assms json_short_quote[of c] json_short_quote[of d] hex_byte_of_char_inj[of c d]
  show ?thesis by (auto simp: json_escape_def hex_byte_def split: if_splits)
qed

lemma json_chars_prefix_free:
  "concat (map json_escape s) @ CHR 0x22 # x = concat (map json_escape t) @ CHR 0x22 # y
     \<Longrightarrow> s = t \<and> x = y"
proof (induction s arbitrary: t)
  case Nil
  show ?case
  proof (cases t)
    case (Cons d t')
    then obtain e es where "json_escape d = e # es" "e \<noteq> CHR 0x22"
      using json_escape_neq_quote[of d] by (cases "json_escape d") auto
    with Nil.prems Cons show ?thesis by simp
  qed (use Nil.prems in simp)
next
  case (Cons c s)
  show ?case
  proof (cases t)
    case Nil
    obtain e es where "json_escape c = e # es" "e \<noteq> CHR 0x22"
      using json_escape_neq_quote[of c] by (cases "json_escape c") auto
    with Cons.prems Nil show ?thesis by simp
  next
    case (Cons d t')
    with Cons.prems have "json_escape c @ (concat (map json_escape s) @ CHR 0x22 # x) =
      json_escape d @ (concat (map json_escape t') @ CHR 0x22 # y)" by simp
    from json_escape_prefix_free[OF this] Cons.IH[of t'] Cons show ?thesis by auto
  qed
qed

lemma json_string_prefix_free: "json_string s @ x = json_string t @ y \<Longrightarrow> s = t \<and> x = y"
  using json_chars_prefix_free[of s x t y] by (simp add: json_string_def)

definition is_digit :: "char \<Rightarrow> bool" where
  "is_digit c \<longleftrightarrow> c \<in> set ''0123456789''"

lemma is_digit_nth: "n < 10 \<Longrightarrow> is_digit (''0123456789'' ! n)"
  unfolding is_digit_def by (rule nth_mem) simp

lemma not_is_digit: "\<not> is_digit (CHR ''-'')" "\<not> is_digit (CHR '','')"
  by (simp_all add: is_digit_def)

lemma decimal_nat_digits: "list_all is_digit (decimal_nat n)"
proof (induction n rule: decimal_nat.induct)
  case (1 n)
  then show ?case using is_digit_nth[of n] is_digit_nth[of "n mod 10"]
    by (subst decimal_nat.simps) (simp del: nth_Cons_numeral)
qed

lemma decimal_nat_nonempty: "decimal_nat n \<noteq> []"
  by (subst decimal_nat.simps) simp

lemma digit_inj: "m < 10 \<Longrightarrow> n < 10 \<Longrightarrow> ''0123456789'' ! m = ''0123456789'' ! n \<Longrightarrow> m = n"
  using nth_eq_iff_index_eq[of "''0123456789''" m n] by simp

lemma decimal_nat_inj: "decimal_nat m = decimal_nat n \<Longrightarrow> m = n"
proof (induction m arbitrary: n rule: decimal_nat.induct)
  case (1 m)
  have m: "decimal_nat m = (if m < 10 then [''0123456789'' ! m] else decimal_nat (m div 10) @ [''0123456789'' ! (m mod 10)])"
    and n: "decimal_nat n = (if n < 10 then [''0123456789'' ! n] else decimal_nat (n div 10) @ [''0123456789'' ! (n mod 10)])"
    by (subst decimal_nat.simps, rule refl)+
  consider "m < 10" "n < 10" | "m \<ge> 10" "n \<ge> 10" | "m < 10" "n \<ge> 10" | "m \<ge> 10" "n < 10"
    by linarith
  then show ?case
  proof cases
    case 1
    with "1.prems" m n show ?thesis using digit_inj by simp
  next
    case 2
    with "1.prems" m n have "decimal_nat (m div 10) = decimal_nat (n div 10)"
      "''0123456789'' ! (m mod 10) = ''0123456789'' ! (n mod 10)"
      by simp_all
    with "1.IH"[of "n div 10"] 2 digit_inj[of "m mod 10" "n mod 10"]
    have "m div 10 = n div 10" "m mod 10 = n mod 10" by simp_all
    then show ?thesis by (metis div_mult_mod_eq)
  qed (use "1.prems" m n decimal_nat_nonempty[of "m div 10"] decimal_nat_nonempty[of "n div 10"] in auto)
qed

lemma decimal_nat_no_minus: "decimal_nat n \<noteq> CHR ''-'' # xs"
  using decimal_nat_digits[of n] not_is_digit by auto

lemma decimal_int_inj: "decimal_int i = decimal_int j \<Longrightarrow> i = j"
  using decimal_nat_no_minus decimal_nat_no_minus[symmetric]
  by (auto simp: decimal_int_def dest: decimal_nat_inj split: if_splits)

lemma decimal_int_no_comma: "list_all (\<lambda>c. c \<noteq> CHR '','') (decimal_int i)"
proof -
  have "list_all (\<lambda>c. c \<noteq> CHR '','') (decimal_nat n)" for n
    using decimal_nat_digits[of n] not_is_digit(2) by (auto simp: list_all_iff)
  then show ?thesis by (simp add: decimal_int_def)
qed

lemma decimal_int_comma:
  assumes "decimal_int i @ CHR '','' # x = decimal_int j @ CHR '','' # y"
  shows "i = j \<and> x = y"
proof -
  have "takeWhile (\<lambda>c. c \<noteq> CHR '','') (decimal_int k @ CHR '','' # z) = decimal_int k" for k z
    using decimal_int_no_comma[of k] by (simp add: takeWhile_append2 list_all_iff)
  with assms have "decimal_int i = decimal_int j" by metis
  with assms decimal_int_inj show ?thesis by auto
qed
section \<open>Bounds on the text\<close>

lemma length_hex_byte [simp]: "length (hex_byte b) = 2"
  by (simp add: hex_byte_def)

lemma length_json_string_le: "length (json_string s) \<le> 6 * length s + 2"
proof -
  have "length (json_escape c) \<le> 6" for c
    by (auto simp: json_escape_def split: option.splits)
  then have "length (concat (map json_escape s)) \<le> 6 * length s"
    by (induction s) (auto intro: add_mono)
  then show ?thesis by (simp add: json_string_def)
qed

lemma length_join_comma_le: "length (join_comma xs) \<le> sum_list (map (\<lambda>x. Suc (length x)) xs)"
  by (induction xs rule: join_comma.induct) auto

lemma sum_list_map_sort_key: "sum_list (map f (sort_key g xs)) = (sum_list (map f xs) :: nat)"
proof -
  have "sum_list (map f (insort_key g x xs)) = f x + (sum_list (map f xs) :: nat)" for x xs
    by (induction xs) auto
  then show ?thesis by (induction xs) auto
qed

lemma length_json_obj_le:
  "length (json_dumps (JObj kvs)) \<le>
     2 + sum_list (map (\<lambda>(k, v). 6 * length k + 4 + length (json_dumps v)) kvs)"
proof -
  let ?m = "map (\<lambda>(k, v). (k, json_string k @ CHR '':'' # json_dumps v)) kvs"
  have "sum_list (map (\<lambda>x. Suc (length x)) (map snd (sort_key fst ?m)))
      = sum_list (map (\<lambda>x. Suc (length (snd x))) ?m)"
    using sum_list_map_sort_key[of "\<lambda>x. Suc (length (snd x))" fst ?m] by (simp add: comp_def)
  also have "\<dots> \<le> sum_list (map (\<lambda>(k, v). 6 * length k + 4 + length (json_dumps v)) kvs)"
  proof (induction kvs)
    case (Cons kv kvs)
    then show ?case using length_json_string_le[of "fst kv"] by (cases kv) (auto simp: split_beta)
  qed simp
  finally show ?thesis using length_join_comma_le[of "map snd (sort_key fst ?m)"] by simp
qed

end
