(* ===== verification/Json_Codec.thy ===== *)
theory Json_Codec
  imports Digest "HOL-Library.AList"
begin

text \<open>
  \<open>json.loads\<close> on text: the scanner of the standard library with its strictness about control characters,
  leading zeros and trailing data, and the round trip with \<open>json.dumps(sort_keys=True)\<close>.

  Text has code points below 256 and numbers are integers or natural numbers of thousandths, as in the
  rest of the development: an escape for a higher code point, any other float and the words \<open>NaN\<close> and \<open>Infinity\<close>
  are refused here. The scanner's recursion is bounded by fuel, one unit per character and one more,
  which is enough because every call consumes a character.
\<close>

section \<open>The scanner\<close>

definition is_json_space :: "char \<Rightarrow> bool" where
  "is_json_space c \<longleftrightarrow> c \<in> {CHR 0x20, CHR 0x09, CHR 0x0A, CHR 0x0D}"

definition skip_space :: "string \<Rightarrow> string" where
  "skip_space cs = dropWhile is_json_space cs"

definition json_unescape :: "(char \<times> char) list" where
  "json_unescape = (CHR ''/'', CHR ''/'') # map (\<lambda>(c, k). (k, c)) json_short"

definition hex_value :: "char \<Rightarrow> nat option" where
  "hex_value c =
     (let n = of_char c :: nat in
      if 48 \<le> n \<and> n \<le> 57 then Some (n - 48)
      else if 97 \<le> n \<and> n \<le> 102 then Some (n - 87)
      else if 65 \<le> n \<and> n \<le> 70 then Some (n - 55) else None)"

text \<open>The four digits after a backslash and a u.\<close>

definition unicode_escape :: "char \<Rightarrow> char \<Rightarrow> char \<Rightarrow> char \<Rightarrow> char option" where
  "unicode_escape a b c d =
     (case (hex_value a, hex_value b, hex_value c, hex_value d) of
        (Some w, Some x, Some y, Some z) \<Rightarrow> if w = 0 \<and> x = 0 then Some (char_of (16 * y + z)) else None
      | _ \<Rightarrow> None)"

text \<open>The text after an opening quote: the decoded string and what follows its closing quote.\<close>

fun scan_string :: "string \<Rightarrow> (string \<times> string) option" where
  "scan_string [] = None"
| "scan_string (c # cs) =
     (if c = CHR 0x22 then Some ([], cs)
      else if c = CHR 0x5C then
        (case cs of
           [] \<Rightarrow> None
         | e # es \<Rightarrow>
             if e = CHR ''u'' then
               (case es of
                  h1 # h2 # h3 # h4 # rest \<Rightarrow>
                    (case unicode_escape h1 h2 h3 h4 of
                       None \<Rightarrow> None
                     | Some d \<Rightarrow> map_option (map_prod (Cons d) id) (scan_string rest))
                | _ \<Rightarrow> None)
             else (case map_of json_unescape e of
                     None \<Rightarrow> None
                   | Some d \<Rightarrow> map_option (map_prod (Cons d) id) (scan_string es)))
      else if (of_char c :: nat) < 32 then None
      else map_option (map_prod (Cons c) id) (scan_string cs))"

definition json_digit_value :: "char \<Rightarrow> nat" where
  "json_digit_value c = of_char c - 48"

definition digits_value :: "string \<Rightarrow> nat" where
  "digits_value ds = foldl (\<lambda>n d. 10 * n + json_digit_value d) 0 ds"

definition scan_digits :: "string \<Rightarrow> string \<times> string" where
  "scan_digits cs = (takeWhile is_digit cs, dropWhile is_digit cs)"

text \<open>\<open>(\.[0-9]+)?\<close> and \<open>([eE][-+]?[0-9]+)?\<close>.\<close>

definition scan_fraction :: "string \<Rightarrow> string \<times> string" where
  "scan_fraction cs =
     (case cs of CHR ''.'' # d # ds \<Rightarrow> if is_digit d then scan_digits (d # ds) else ([], cs) | _ \<Rightarrow> ([], cs))"

definition scan_exponent :: "string \<Rightarrow> int option \<times> string" where
  "scan_exponent cs =
     (case cs of
        e # r \<Rightarrow>
          if e = CHR ''e'' \<or> e = CHR ''E'' then
            (let neg = (take 1 r = ''-''); body = (if neg \<or> take 1 r = ''+'' then tl r else r) in
             case scan_digits body of
               ([], _) \<Rightarrow> (None, cs)
             | (ds, rest) \<Rightarrow> (Some (if neg then - int (digits_value ds) else int (digits_value ds)), rest))
          else (None, cs)
      | [] \<Rightarrow> (None, cs))"

text \<open>A float as thousandths, where it is a natural number of them.\<close>

definition thousandths :: "bool \<Rightarrow> nat \<Rightarrow> int \<Rightarrow> json option" where
  "thousandths neg m e =
     (if neg \<and> m \<noteq> 0 then None
      else if 0 \<le> e + 3 then Some (JMillis (m * 10 ^ nat (e + 3)))
      else if m mod 10 ^ nat (- (e + 3)) = 0 then Some (JMillis (m div 10 ^ nat (- (e + 3)))) else None)"

text \<open>An integer has at most 4300 digits.\<close>

definition scan_number :: "string \<Rightarrow> (json \<times> string) option" where
  "scan_number cs =
     (let neg = (take 1 cs = ''-''); r = (if neg then tl cs else cs) in
      case scan_digits r of
        ([], _) \<Rightarrow> None
      | (d # ds, rest) \<Rightarrow>
          (let (whole, r1) = (if d = CHR ''0'' then (''0'', tl r) else (d # ds, rest));
               (frac, r2) = scan_fraction r1;
               (e, r3) = scan_exponent r2 in
           if frac = [] \<and> e = None then
             (if length whole \<le> 4300
              then Some (JInt (if neg then - int (digits_value whole) else int (digits_value whole)), r3) else None)
           else map_option (\<lambda>v. (v, r3))
             (thousandths neg (digits_value (whole @ frac)) (case_option 0 id e - int (length frac)))))"

text \<open>A word at the head of the text, and what follows it.\<close>

definition strip_word :: "string \<Rightarrow> string \<Rightarrow> string option" where
  "strip_word w cs = (if take (length w) cs = w then Some (drop (length w) cs) else None)"

text \<open>An object keeps the last value of a repeated key.\<close>

definition json_object :: "(string \<times> json) list \<Rightarrow> json" where
  "json_object kvs = JObj (foldl (\<lambda>d (k, v). AList.update k v d) [] kvs)"

fun scan_value :: "nat \<Rightarrow> string \<Rightarrow> (json \<times> string) option"
  and scan_items :: "nat \<Rightarrow> string \<Rightarrow> (json list \<times> string) option"
  and scan_members :: "nat \<Rightarrow> string \<Rightarrow> ((string \<times> json) list \<times> string) option" where
  "scan_value 0 cs = None"
| "scan_value (Suc n) cs =
     (case cs of
        [] \<Rightarrow> None
      | c # r \<Rightarrow>
          if c = CHR 0x22 then map_option (map_prod JStr id) (scan_string r)
          else if c = CHR ''{'' then
            (case strip_word ''}'' (skip_space r) of
               Some r' \<Rightarrow> Some (JObj [], r')
             | None \<Rightarrow> map_option (map_prod json_object id) (scan_members n (skip_space r)))
          else if c = CHR ''['' then
            (case strip_word '']'' (skip_space r) of
               Some r' \<Rightarrow> Some (JList [], r')
             | None \<Rightarrow> map_option (map_prod JList id) (scan_items n (skip_space r)))
          else
            (case strip_word ''null'' cs of
               Some r' \<Rightarrow> Some (JNull, r')
             | None \<Rightarrow>
                 (case strip_word ''true'' cs of
                    Some r' \<Rightarrow> Some (JBool True, r')
                  | None \<Rightarrow>
                      (case strip_word ''false'' cs of
                         Some r' \<Rightarrow> Some (JBool False, r')
                       | None \<Rightarrow> scan_number cs))))"
| "scan_items 0 cs = None"
| "scan_items (Suc n) cs =
     (case scan_value n cs of
        None \<Rightarrow> None
      | Some (v, r) \<Rightarrow>
          (case skip_space r of
             [] \<Rightarrow> None
           | c # r' \<Rightarrow>
               if c = CHR '']'' then Some ([v], r')
               else if c = CHR '','' then map_option (map_prod (Cons v) id) (scan_items n (skip_space r'))
               else None))"
| "scan_members 0 cs = None"
| "scan_members (Suc n) cs =
     (case strip_word [CHR 0x22] cs of
        None \<Rightarrow> None
      | Some r \<Rightarrow>
          (case scan_string r of
             None \<Rightarrow> None
           | Some (k, r1) \<Rightarrow>
               (case strip_word '':'' (skip_space r1) of
                  None \<Rightarrow> None
                | Some r2 \<Rightarrow>
                    (case scan_value n (skip_space r2) of
                       None \<Rightarrow> None
                     | Some (v, r3) \<Rightarrow>
                         (case skip_space r3 of
                            [] \<Rightarrow> None
                          | c # r4 \<Rightarrow>
                              if c = CHR ''}'' then Some ([(k, v)], r4)
                              else if c = CHR '','' then map_option (map_prod (Cons (k, v)) id) (scan_members n (skip_space r4))
                              else None)))))"

definition json_loads :: "string \<Rightarrow> json option" where
  "json_loads cs =
     (case scan_value (Suc (length cs)) (skip_space cs) of
        None \<Rightarrow> None
      | Some (v, r) \<Rightarrow> if skip_space r = [] then Some v else None)"

section \<open>Strings read back\<close>

lemma hex_value_digit: "hex_value (hex_digit n) = Some (nat (n mod 16))"
proof -
  have all: "list_all (\<lambda>k. hex_value (''0123456789abcdef'' ! k) = Some k) [0..<16]" by code_simp
  have "nat (n mod 16) < 16" by (simp add: nat_less_iff)
  with all show ?thesis by (simp only: hex_digit_def list_all_iff set_upt) simp
qed

lemma unicode_escape_byte: "unicode_escape (CHR ''0'') (CHR ''0'') (hex_digit (of_char c div 16)) (hex_digit (of_char c)) = Some c"
proof -
  have zero: "hex_value (CHR ''0'') = Some 0" by (simp add: hex_value_def)
  have r: "0 \<le> (of_char c :: int)" "(of_char c :: int) < 256" using of_char_byte_range[of c] by auto
  have "nat (of_char c div 16 mod 16) = (of_char c :: nat) div 16" "nat (of_char c mod 16) = (of_char c :: nat) mod 16"
    using r by (simp_all add: nat_div_distrib nat_mod_distrib mod_pos_pos_trivial)
  then have "16 * nat (of_char c div 16 mod 16) + nat (of_char c mod 16) = (of_char c :: nat)" by simp
  then show ?thesis by (simp add: unicode_escape_def zero hex_value_digit)
qed

lemma short_unescape: "map_of json_short c = Some k \<Longrightarrow> k \<noteq> CHR ''u'' \<and> map_of json_unescape k = Some c"
  by (auto simp: json_short_def json_unescape_def split: if_splits)

lemma scan_escape: "scan_string (json_escape c @ rest) = map_option (map_prod (Cons c) id) (scan_string rest)"
proof (cases "map_of json_short c")
  case (Some k)
  with short_unescape[OF Some] show ?thesis by (simp add: json_escape_def)
next
  case None
  show ?thesis
  proof (cases "32 \<le> (of_char c :: int) \<and> (of_char c :: int) \<le> 126")
    case True
    then have "(32 :: int) \<le> of_char c" by blast
    then have "int 32 \<le> int (of_char c)" by (simp only: of_nat_of_char of_nat_numeral)
    then have "\<not> (of_char c :: nat) < 32" by (simp only: of_nat_le_iff not_less)
    moreover have "json_escape c = [c]" using True None by (simp add: json_escape_def)
    ultimately show ?thesis using json_short_quote[OF None] by simp
  next
    case False
    then have "json_escape c = [CHR 0x5C, CHR ''u'', CHR ''0'', CHR ''0'', hex_digit (of_char c div 16), hex_digit (of_char c)]"
      unfolding json_escape_def None hex_byte_def by (simp only: option.case if_False append.simps)
    then show ?thesis by (simp add: unicode_escape_byte)
  qed
qed

lemma scan_json_chars: "scan_string (concat (map json_escape s) @ CHR 0x22 # rest) = Some (s, rest)"
  by (induction s) (simp_all add: scan_escape)

section \<open>Numbers read back\<close>

lemma digit_value_nth: "n < 10 \<Longrightarrow> json_digit_value (''0123456789'' ! n) = n"
proof -
  have "list_all (\<lambda>k. json_digit_value (''0123456789'' ! k) = k) [0..<10]" by code_simp
  then show "n < 10 \<Longrightarrow> json_digit_value (''0123456789'' ! n) = n" by (simp only: list_all_iff set_upt) simp
qed

lemma digits_value_decimal: "digits_value (decimal_nat n) = n"
proof (induction n rule: decimal_nat.induct)
  case (1 n)
  show ?case
  proof (cases "n < 10")
    case True
    then show ?thesis by (subst decimal_nat.simps) (simp add: digits_value_def digit_value_nth del: nth_Cons_numeral)
  next
    case False
    then show ?thesis using "1.IH"[OF False] digit_value_nth[of "n mod 10"]
      by (subst decimal_nat.simps) (simp add: digits_value_def del: nth_Cons_numeral)
  qed
qed

lemma decimal_nat_head: "decimal_nat n = d # ds \<Longrightarrow> is_digit d \<and> (d = CHR ''0'' \<longrightarrow> ds = [])"
proof (induction n arbitrary: ds rule: decimal_nat.induct)
  case (1 n)
  have dig: "list_all is_digit (d # ds)" using decimal_nat_digits[of n] "1.prems" by simp
  show ?case
  proof (cases "n < 10")
    case True
    with "1.prems" show ?thesis using dig by (subst (asm) decimal_nat.simps) simp
  next
    case False
    with "1.prems" have split: "decimal_nat (n div 10) @ [''0123456789'' ! (n mod 10)] = d # ds"
      using decimal_nat.simps[of n] by simp
    then obtain es where es: "decimal_nat (n div 10) = d # es" using decimal_nat_nonempty[of "n div 10"]
      by (cases "decimal_nat (n div 10)") auto
    have "d \<noteq> CHR ''0''"
    proof
      assume zero: "d = CHR ''0''"
      with "1.IH"[OF False es] es have "decimal_nat (n div 10) = ''0''" by simp
      with digits_value_decimal[of "n div 10"] have "n div 10 = 0" by (simp add: digits_value_def json_digit_value_def)
      with False show False by simp
    qed
    with dig show ?thesis by simp
  qed
qed

text \<open>What may follow a value in canonical text.\<close>

definition delimited :: "string \<Rightarrow> bool" where
  "delimited r \<longleftrightarrow> (case r of [] \<Rightarrow> True | c # _ \<Rightarrow> c \<in> {CHR '','', CHR '']'', CHR ''}''})"

lemma delimited_scan:
  assumes "delimited r"
  shows "takeWhile is_digit r = []" "dropWhile is_digit r = r" "scan_fraction r = ([], r)" "scan_exponent r = (None, r)"
    "skip_space r = r"
  using assms by (cases r; auto simp: delimited_def is_digit_def scan_fraction_def scan_exponent_def skip_space_def is_json_space_def)+

lemma scan_digits_decimal: "delimited r \<Longrightarrow> scan_digits (decimal_nat n @ r) = (decimal_nat n, r)"
  using decimal_nat_digits[of n] delimited_scan(1,2)[of r]
  by (simp add: scan_digits_def list_all_iff takeWhile_append dropWhile_append)

lemma scan_whole:
  assumes "delimited r" "length (decimal_nat n) \<le> 4300"
  shows "scan_number (decimal_nat n @ r) = Some (JInt (int n), r)" "scan_number (CHR ''-'' # decimal_nat n @ r) = Some (JInt (- int n), r)"
proof -
  obtain d ds where d: "decimal_nat n = d # ds" using decimal_nat_nonempty[of n] by (cases "decimal_nat n") auto
  note head = decimal_nat_head[OF d]
  then have "d \<noteq> CHR ''-''" using not_is_digit by auto
  moreover have "scan_digits (d # ds @ r) = (d # ds, r)" using scan_digits_decimal[OF assms(1), of n] d by simp
  moreover have "digits_value (d # ds) = n" using digits_value_decimal[of n] d by simp
  ultimately show "scan_number (decimal_nat n @ r) = Some (JInt (int n), r)"
    "scan_number (CHR ''-'' # decimal_nat n @ r) = Some (JInt (- int n), r)"
    using head assms d by (auto simp: scan_number_def Let_def delimited_scan)
qed

lemma scan_decimal_int:
  assumes "delimited r" "length (decimal_nat (nat \<bar>i\<bar>)) \<le> 4300"
  shows "scan_number (decimal_int i @ r) = Some (JInt i, r)"
  using scan_whole[OF assms] by (cases "i < 0") (auto simp: decimal_int_def)

section \<open>The round trip\<close>

text \<open>Values of bounded integers and text whose objects have their keys in order.\<close>

fun json_plain :: "json \<Rightarrow> bool" where
  "json_plain (JInt i) \<longleftrightarrow> length (decimal_nat (nat \<bar>i\<bar>)) \<le> 4300"
| "json_plain (JMillis k) \<longleftrightarrow> False"
| "json_plain (JList xs) \<longleftrightarrow> list_all json_plain xs"
| "json_plain (JObj kvs) \<longleftrightarrow> sorted_wrt (<) (map fst kvs) \<and> list_all (\<lambda>kv. json_plain (snd kv)) kvs"
| "json_plain _ \<longleftrightarrow> True"

lemma json_object_distinct: "distinct (map fst kvs) \<Longrightarrow> json_object kvs = JObj kvs"
proof -
  have new: "k \<notin> fst ` set d \<Longrightarrow> AList.update k v d = d @ [(k, v)]" for k :: string and v :: json and d
    by (induction d) auto
  have "distinct (map fst (d @ kvs)) \<Longrightarrow> foldl (\<lambda>d (k, v). AList.update k v d) d kvs = d @ kvs" for d
    by (induction kvs arbitrary: d) (auto simp: new)
  then show "distinct (map fst kvs) \<Longrightarrow> json_object kvs = JObj kvs" by (simp add: json_object_def)
qed

lemma dumps_sorted:
  assumes "sorted_wrt (<) (map fst kvs)"
  shows "json_dumps (JObj kvs) = CHR ''{'' # join_comma (map (\<lambda>kv. json_string (fst kv) @ CHR '':'' # json_dumps (snd kv)) kvs) @ ''}''"
proof -
  have "sorted (map fst (map (\<lambda>(k, v). (k, json_string k @ CHR '':'' # json_dumps v)) kvs))"
    using assms by (auto simp: strict_sorted_iff comp_def split_beta)
  then show ?thesis by (simp add: sort_key_id_if_sorted split_beta comp_def)
qed

lemma decimal_int_head: "\<exists>c cs. decimal_int i = c # cs \<and> c \<in> set ''-0123456789''"
proof -
  have "\<exists>c cs. decimal_nat n = c # cs \<and> is_digit c" for n
    using decimal_nat_nonempty[of n] decimal_nat_digits[of n] by (cases "decimal_nat n") auto
  then show ?thesis by (fastforce simp: decimal_int_def is_digit_def)
qed

lemma dumps_head:
  assumes "json_plain j"
  shows "\<exists>c cs. json_dumps j = c # cs \<and> \<not> is_json_space c \<and> c \<noteq> CHR '']''"
proof (cases j)
  case (JInt i)
  from decimal_int_head[of i] obtain c cs where "decimal_int i = c # cs" "c \<in> set ''-0123456789''" by blast
  with JInt show ?thesis by (auto simp: is_json_space_def)
qed (use assms in \<open>auto simp: json_string_def is_json_space_def\<close>)

lemma skip_dumps: "json_plain j \<Longrightarrow> skip_space (json_dumps j @ r) = json_dumps j @ r"
  using dumps_head[of j] by (auto simp: skip_space_def)

text \<open>A list of values that each read back.\<close>

definition reads_back :: "json \<Rightarrow> bool" where
  "reads_back j \<longleftrightarrow> (\<forall>n r. length (json_dumps j) < n \<longrightarrow> delimited r \<longrightarrow> scan_value n (json_dumps j @ r) = Some (j, r))"

lemma scan_items_ok:
  assumes "xs \<noteq> []" "\<forall>x \<in> set xs. json_plain x \<and> reads_back x" "length (join_comma (map json_dumps xs)) + 1 < n"
  shows "scan_items n (join_comma (map json_dumps xs) @ CHR '']'' # r) = Some (xs, r)"
  using assms
proof (induction xs arbitrary: n rule: induct_list012)
  case (2 x)
  then obtain m where "n = Suc m" by (cases n) auto
  with 2 show ?case by (simp add: reads_back_def delimited_def skip_space_def is_json_space_def)
next
  case (3 x y zs)
  then obtain m where m: "n = Suc m" by (cases n) auto
  let ?rest = "join_comma (map json_dumps (y # zs)) @ CHR '']'' # r"
  have "scan_value m (json_dumps x @ CHR '','' # ?rest) = Some (x, CHR '','' # ?rest)"
    using 3(3-) m by (simp add: reads_back_def delimited_def)
  moreover have "skip_space ?rest = ?rest"
    using 3(4) skip_dumps[of y] by (cases zs) auto
  moreover have "scan_items m ?rest = Some (y # zs, r)" using "3.IH"(2)[of m] 3(4,5) m by simp
  moreover have "skip_space (CHR '','' # ?rest) = CHR '','' # ?rest" by (simp add: skip_space_def is_json_space_def)
  ultimately show ?case by (simp add: m)
qed simp

lemma scan_members_ok:
  assumes "kvs \<noteq> []" "\<forall>kv \<in> set kvs. json_plain (snd kv) \<and> reads_back (snd kv)"
    "length (join_comma (map (\<lambda>kv. json_string (fst kv) @ CHR '':'' # json_dumps (snd kv)) kvs)) + 1 < n"
  shows "scan_members n (join_comma (map (\<lambda>kv. json_string (fst kv) @ CHR '':'' # json_dumps (snd kv)) kvs) @ CHR ''}'' # r) = Some (kvs, r)"
  using assms
proof (induction kvs arbitrary: n rule: induct_list012)
  case (2 kv)
  then obtain m where "n = Suc m" by (cases n) auto
  with 2 show ?case
    by (cases kv) (simp add: reads_back_def delimited_def skip_space_def is_json_space_def json_string_def strip_word_def scan_json_chars skip_dumps[unfolded skip_space_def])
next
  case (3 kv lw kvs)
  then obtain m where m: "n = Suc m" by (cases n) auto
  let ?rest = "join_comma (map (\<lambda>kv. json_string (fst kv) @ CHR '':'' # json_dumps (snd kv)) (lw # kvs)) @ CHR ''}'' # r"
  have "scan_value m (json_dumps (snd kv) @ CHR '','' # ?rest) = Some (snd kv, CHR '','' # ?rest)"
    using 3(3-) m by (simp add: reads_back_def delimited_def)
  moreover have "skip_space ?rest = ?rest" by (cases kvs) (auto simp: skip_space_def is_json_space_def json_string_def)
  moreover have "scan_members m ?rest = Some (lw # kvs, r)" using "3.IH"(2)[of m] 3(4,5) m by simp
  moreover have "skip_space (CHR '','' # ?rest) = CHR '','' # ?rest" by (simp add: skip_space_def is_json_space_def)
  moreover have "skip_space (json_dumps (snd kv) @ CHR '','' # ?rest) = json_dumps (snd kv) @ CHR '','' # ?rest"
    using 3(4) by (simp add: skip_dumps)
  moreover have "skip_space (CHR '':'' # x) = CHR '':'' # x" for x by (simp add: skip_space_def is_json_space_def)
  ultimately show ?case by (cases kv) (simp add: m json_string_def strip_word_def scan_json_chars)
qed simp

lemma scan_word_none:
  assumes "c \<in> set ''-0123456789''"
  shows "strip_word ''null'' (c # cs) = None" "strip_word ''true'' (c # cs) = None" "strip_word ''false'' (c # cs) = None"
    "c \<noteq> CHR 0x22" "c \<noteq> CHR ''{''" "c \<noteq> CHR ''[''"
  using assms by (auto simp: strip_word_def)

lemma reads_backI:
  "(\<And>m r. length (json_dumps j) \<le> m \<Longrightarrow> delimited r \<Longrightarrow> scan_value (Suc m) (json_dumps j @ r) = Some (j, r)) \<Longrightarrow> reads_back j"
  unfolding reads_back_def by (metis Suc_le_D Suc_le_mono less_eq_Suc_le)

lemma plain_reads_back: "json_plain j \<Longrightarrow> reads_back j"
proof (induction j rule: json_dumps.induct)
  case 1
  show ?case by (rule reads_backI) (simp add: strip_word_def)
next
  case (2 b)
  show ?case by (rule reads_backI) (simp add: strip_word_def)
next
  case (5 t)
  show ?case by (rule reads_backI) (simp add: json_string_def scan_json_chars)
next
  case (3 i)
  obtain c cs where c: "decimal_int i = c # cs" "c \<in> set ''-0123456789''" using decimal_int_head[of i] by blast
  show ?case
  proof (rule reads_backI)
    fix m r assume "delimited r"
    with 3 scan_decimal_int have "scan_number (decimal_int i @ r) = Some (JInt i, r)" by simp
    then show "scan_value (Suc m) (json_dumps (JInt i) @ r) = Some (JInt i, r)"
      using c(1) scan_word_none[OF c(2)] by simp
  qed
next
  case (6 xs)
  then have ok: "\<forall>x \<in> set xs. json_plain x \<and> reads_back x" by (simp add: list_all_iff)
  show ?case
  proof (rule reads_backI)
    fix m r assume n: "length (json_dumps (JList xs)) \<le> m" "delimited r"
    show "scan_value (Suc m) (json_dumps (JList xs) @ r) = Some (JList xs, r)"
    proof (cases xs)
      case Nil
      then show ?thesis by (simp add: skip_space_def is_json_space_def strip_word_def)
    next
      case (Cons x ys)
      from ok Cons dumps_head[of x] obtain c cs where c: "json_dumps x = c # cs" "\<not> is_json_space c" "c \<noteq> CHR '']''" by auto
      let ?t = "join_comma (map json_dumps xs) @ CHR '']'' # r"
      have "\<exists>t. ?t = c # t" using Cons c(1) by (cases ys) auto
      then obtain t where "?t = c # t" by blast
      then have "skip_space ?t = ?t" "strip_word '']'' ?t = None" using c(2,3) by (simp_all add: skip_space_def strip_word_def)
      with scan_items_ok[OF _ ok, of m r] Cons n show ?thesis by simp
    qed
  qed
next
  case (7 kvs)
  then have ok: "\<forall>kv \<in> set kvs. json_plain (snd kv) \<and> reads_back (snd kv)" and so: "sorted_wrt (<) (map fst kvs)"
    by (auto simp: list_all_iff)
  from so have dist: "distinct (map fst kvs)" by (simp add: strict_sorted_iff)
  note dumps = dumps_sorted[OF so]
  show ?case
  proof (rule reads_backI)
    fix m r assume n: "length (json_dumps (JObj kvs)) \<le> m" "delimited r"
    let ?t = "join_comma (map (\<lambda>kv. json_string (fst kv) @ CHR '':'' # json_dumps (snd kv)) kvs) @ CHR ''}'' # r"
    show "scan_value (Suc m) (json_dumps (JObj kvs) @ r) = Some (JObj kvs, r)"
    proof (cases kvs)
      case Nil
      then show ?thesis by (simp add: skip_space_def is_json_space_def strip_word_def)
    next
      case (Cons kv lws)
      have "\<exists>t. ?t = CHR 0x22 # t" using Cons by (cases lws) (auto simp: json_string_def)
      then obtain t where "?t = CHR 0x22 # t" by blast
      then have "skip_space ?t = ?t" "strip_word ''}'' ?t = None" by (simp_all add: skip_space_def is_json_space_def strip_word_def)
      moreover have "scan_members m ?t = Some (kvs, r)"
        by (rule scan_members_ok[OF _ ok]) (use n(1) in \<open>simp_all add: Cons dumps[unfolded Cons] del: json_dumps.simps\<close>)
      ultimately show ?thesis unfolding dumps by (simp add: json_object_distinct[OF dist])
    qed
  qed
qed simp

theorem json_round_trip: "json_plain j \<Longrightarrow> json_loads (json_dumps j) = Some j"
proof -
  assume plain: "json_plain j"
  then have "scan_value (Suc (length (json_dumps j))) (json_dumps j @ []) = Some (j, [])"
    using plain_reads_back[OF plain] unfolding reads_back_def
    by (elim allE[of _ "Suc (length (json_dumps j))"] allE[of _ "[]"]) (simp add: delimited_def del: append_Nil2 scan_value.simps)
  then show ?thesis using skip_dumps[OF plain, of "[]"] by (simp add: json_loads_def skip_space_def)
qed

text \<open>An object in any order of its keys reads back sorted.\<close>

lemma map_sort_key: "(\<And>x. h (g x) = f x) \<Longrightarrow> map g (sort_key f xs) = sort_key h (map g xs)"
proof -
  assume key: "\<And>x. h (g x) = f x"
  have "map g (insort_key f x ys) = insort_key h (g x) (map g ys)" for x ys
    by (induction ys) (simp_all add: key)
  then show ?thesis by (induction xs) simp_all
qed

lemma json_object_round_trip:
  assumes "distinct (map fst kvs)" "\<forall>kv \<in> set kvs. json_plain (snd kv)"
  shows "json_loads (json_dumps (JObj kvs)) = Some (JObj (sort_key fst kvs))"
proof -
  let ?g = "\<lambda>(k, v). (k, json_string k @ CHR '':'' # json_dumps v)"
  have "sort_key fst (map ?g (sort_key fst kvs)) = map ?g (sort_key fst kvs)"
    by (rule sort_key_id_if_sorted) (simp add: comp_def split_beta)
  moreover have "map ?g (sort_key fst kvs) = sort_key fst (map ?g kvs)"
    by (rule map_sort_key) (simp add: split_beta)
  ultimately have "json_dumps (JObj kvs) = json_dumps (JObj (sort_key fst kvs))" by simp
  moreover have "json_plain (JObj (sort_key fst kvs))"
    using assms by (simp add: strict_sorted_iff list_all_iff distinct_map)
  ultimately show ?thesis using json_round_trip by metis
qed

section \<open>Canonical text is printable\<close>

definition printable :: "char \<Rightarrow> bool" where
  "printable c \<longleftrightarrow> 32 \<le> (of_char c :: nat) \<and> (of_char c :: nat) \<le> 126"

lemma hex_digit_printable: "printable (hex_digit n)"
proof -
  have "list_all printable ''0123456789abcdef''" by code_simp
  moreover have "hex_digit n \<in> set ''0123456789abcdef''" using hex_digit_lower[of n] by (simp only: is_lower_hex_def)
  ultimately show ?thesis by (simp only: list_all_iff)
qed

lemma digit_printable: "is_digit c \<Longrightarrow> printable c"
proof -
  have "list_all printable ''0123456789''" by code_simp
  then show "is_digit c \<Longrightarrow> printable c" by (simp only: list_all_iff is_digit_def)
qed

lemma escape_printable: "list_all printable (json_escape c)"
proof (cases "map_of json_short c")
  case None
  show ?thesis
  proof (cases "32 \<le> (of_char c :: int) \<and> (of_char c :: int) \<le> 126")
    case True
    then have "int 32 \<le> int (of_char c) \<and> int (of_char c) \<le> int 126" by (simp only: of_nat_of_char of_nat_numeral)
    then have "printable c" by (simp only: of_nat_le_iff printable_def)
    then show ?thesis using True None by (simp add: json_escape_def)
  next
    case False
    have "list_all printable [CHR 0x5C, CHR ''u'', CHR ''0'', CHR ''0'']" by code_simp
    with False None show ?thesis
      unfolding json_escape_def None hex_byte_def by (simp only: option.case if_False) (simp add: hex_digit_printable)
  qed
next
  case (Some k)
  have "list_all (\<lambda>(c, k). printable k \<and> printable (CHR 0x5C)) json_short" by code_simp
  with map_of_SomeD[OF Some] Some show ?thesis by (auto simp: json_escape_def list_all_iff)
qed

lemma string_printable: "list_all printable (json_string s)"
proof -
  have "printable (CHR 0x22)" by code_simp
  then show ?thesis using escape_printable by (auto simp: json_string_def list_all_iff)
qed

lemma decimal_int_printable: "list_all printable (decimal_int i)"
proof -
  have "printable (CHR ''-'')" by code_simp
  moreover have "list_all printable (decimal_nat n)" for n
    using decimal_nat_digits[of n] digit_printable by (auto simp: list_all_iff)
  ultimately show ?thesis by (simp add: decimal_int_def)
qed

end
