(* ===== verification/Ops_Models.thy ===== *)
theory Ops_Models
  imports Ops_Prelude
begin

text \<open>
  The value objects of \<open>app/inventory/models.py\<close>: its enumerations as datatypes with the source's
  members, the durable checkpoint order with \<open>checkpoint_rank\<close>, the aggregation of probe outcomes
  into a contract verdict, and the records of the rows the package update authority works on.

  A timestamp is the instant it denotes, in microseconds. The fourteen context columns that a
  package scan run and a package update job have in common, and that the code compares as one
  block (\<open>_package_scan_context_matches_job\<close>), are the record \<open>scan_context\<close>; the columns of a
  job that the schema freezes at issuance are the record \<open>job_issuance\<close>.
\<close>

type_synonym time = int
type_synonym uuid = string

section \<open>Enumerations\<close>

datatype package_scan_lifecycle = SCAN_RUNNING | SCAN_COMPLETED

datatype package_scan_outcome = SCAN_SUCCESS | SCAN_FAILED | SCAN_INTERRUPTED

datatype package_scan_failure =
    GUEST_UNAVAILABLE | UNSUPPORTED_RESOURCE_TYPE | UNSUPPORTED_OS | PACKAGE_MANAGER_BUSY
  | METADATA_REFRESH_FAILED | SIMULATION_FAILED | TIMEOUT | MALFORMED_PLAN | STALE_TARGET
  | EXECUTION_FAILED

datatype job_status =
    ACTIVE | SUCCEEDED | BLOCKED | FAILED | ROLLED_BACK | INTERRUPTED | MANUAL_INTERVENTION

datatype host_submission_state =
    SNAP_ABSENT | SNAP_INTENT | SNAP_SEALED_NOT_SUBMITTED | SNAP_SUBMITTED | SNAP_TASK_KNOWN
  | SNAP_TERMINAL

datatype host_mutation_state =
    MUT_ABSENT | MUT_INTENT | MUT_SEALED_NOT_SUBMITTED | MUT_SUBMITTED | MUT_TERMINAL_SUCCESS
  | MUT_TERMINAL_FAILURE

datatype host_rollback_state =
    RB_ABSENT | RB_INTENT | RB_SEALED_NOT_SUBMITTED | RB_SUBMITTED | RB_TASK_KNOWN | RB_TERMINAL

datatype checkpoint =
    ISSUED | PREFLIGHT_PASSED | SNAPSHOT_MAY_HAVE_STARTED | SNAPSHOT_CONFIRMED
  | MUTATION_MAY_HAVE_STARTED | MUTATION_COMPLETED | HEALTH_STARTED | HEALTH_COMPLETED
  | ROLLBACK_MAY_HAVE_STARTED | ROLLBACK_COMPLETED

definition CHECKPOINT_ORDER :: "checkpoint list" where
  "CHECKPOINT_ORDER =
     [ISSUED, PREFLIGHT_PASSED, SNAPSHOT_MAY_HAVE_STARTED, SNAPSHOT_CONFIRMED,
      MUTATION_MAY_HAVE_STARTED, MUTATION_COMPLETED, HEALTH_STARTED, HEALTH_COMPLETED,
      ROLLBACK_MAY_HAVE_STARTED, ROLLBACK_COMPLETED]"

text \<open>\<open>_CHECKPOINT_RANKS\<close>: \<open>enumerate(CHECKPOINT_ORDER, start=1)\<close> as a lookup.\<close>

definition checkpoint_rank :: "checkpoint \<Rightarrow> nat" where
  "checkpoint_rank c = (case map_of (zip CHECKPOINT_ORDER [1..<11]) c of Some n \<Rightarrow> n | None \<Rightarrow> 0)"

lemma checkpoint_rank_simps [simp]:
  "checkpoint_rank ISSUED = 1"
  "checkpoint_rank PREFLIGHT_PASSED = 2"
  "checkpoint_rank SNAPSHOT_MAY_HAVE_STARTED = 3"
  "checkpoint_rank SNAPSHOT_CONFIRMED = 4"
  "checkpoint_rank MUTATION_MAY_HAVE_STARTED = 5"
  "checkpoint_rank MUTATION_COMPLETED = 6"
  "checkpoint_rank HEALTH_STARTED = 7"
  "checkpoint_rank HEALTH_COMPLETED = 8"
  "checkpoint_rank ROLLBACK_MAY_HAVE_STARTED = 9"
  "checkpoint_rank ROLLBACK_COMPLETED = 10"
  by (simp_all add: checkpoint_rank_def CHECKPOINT_ORDER_def upt_rec)

text \<open>The rank is a total order on checkpoints: two checkpoints never share a rank.\<close>

lemma checkpoint_rank_inj: "checkpoint_rank a = checkpoint_rank b \<longleftrightarrow> a = b"
  by (cases a; cases b) auto

instantiation checkpoint :: linorder
begin

definition less_eq_checkpoint :: "checkpoint \<Rightarrow> checkpoint \<Rightarrow> bool" where
  "less_eq_checkpoint a b \<longleftrightarrow> checkpoint_rank a \<le> checkpoint_rank b"

definition less_checkpoint :: "checkpoint \<Rightarrow> checkpoint \<Rightarrow> bool" where
  "less_checkpoint a b \<longleftrightarrow> checkpoint_rank a < checkpoint_rank b"

instance
  by standard (auto simp: less_eq_checkpoint_def less_checkpoint_def checkpoint_rank_inj)

end

fun checkpoint_value :: "checkpoint \<Rightarrow> string" where
  "checkpoint_value ISSUED = ''issued''"
| "checkpoint_value PREFLIGHT_PASSED = ''preflight_passed''"
| "checkpoint_value SNAPSHOT_MAY_HAVE_STARTED = ''snapshot_may_have_started''"
| "checkpoint_value SNAPSHOT_CONFIRMED = ''snapshot_confirmed''"
| "checkpoint_value MUTATION_MAY_HAVE_STARTED = ''mutation_may_have_started''"
| "checkpoint_value MUTATION_COMPLETED = ''mutation_completed''"
| "checkpoint_value HEALTH_STARTED = ''health_started''"
| "checkpoint_value HEALTH_COMPLETED = ''health_completed''"
| "checkpoint_value ROLLBACK_MAY_HAVE_STARTED = ''rollback_may_have_started''"
| "checkpoint_value ROLLBACK_COMPLETED = ''rollback_completed''"

datatype event_level = INFO | WARNING | ERROR

datatype event_type =
    EV_JOB_ISSUED | EV_RESTART_INTERRUPTED | EV_PREFLIGHT_PASSED | EV_SNAPSHOT_INTENT_RECORDED
  | EV_SNAPSHOT_TASK_OBSERVED | EV_SNAPSHOT_CONFIRMED | EV_SNAPSHOT_OUTCOME_UNCERTAIN
  | EV_SNAPSHOT_FAILED | EV_SNAPSHOT_BLOCKED_BEFORE_SUBMISSION
  | EV_SNAPSHOT_RETAINED_AUTHORITY_STALE | EV_EXECUTION_PLAN_VERIFIED
  | EV_EXECUTION_PLAN_MISMATCH | EV_EXECUTION_AUTHORITY_STALE_RELEASED
  | EV_MUTATION_MAY_HAVE_STARTED | EV_MUTATION_SUBMITTED | EV_MUTATION_TERMINAL_FAILURE
  | EV_MUTATION_OUTCOME_UNCERTAIN | EV_MUTATION_COMPLETED
  | EV_MUTATION_BLOCKED_BEFORE_SUBMISSION | EV_HEALTH_STARTED | EV_HEALTH_PASSED
  | EV_POST_UPDATE_SCAN_REQUESTED | EV_HEALTH_FAILED | EV_HEALTH_OUTCOME_UNKNOWN
  | EV_ROLLBACK_MAY_HAVE_STARTED | EV_ROLLBACK_SUBMITTED | EV_ROLLBACK_TASK_OBSERVED
  | EV_ROLLBACK_OUTCOME_UNCERTAIN | EV_ROLLBACK_TERMINAL_FAILURE | EV_ROLLBACK_COMPLETED
  | EV_ROLLBACK_BLOCKED_BEFORE_SUBMISSION

datatype execution_outcome = MATCHED | MISMATCHED | AUTHORITY_STALE

datatype mutation_arm_outcome = ARMED_NOW | ALREADY_ARMED

datatype health_probe_kind = SYSTEMD_UNIT_ACTIVE | GUEST_OPERATIONAL

fun probe_kind_value :: "health_probe_kind \<Rightarrow> string" where
  "probe_kind_value SYSTEMD_UNIT_ACTIVE = ''systemd_unit_active''"
| "probe_kind_value GUEST_OPERATIONAL = ''guest_operational''"

datatype probe_outcome = PROBE_PASSED | PROBE_FAILED | PROBE_UNKNOWN

fun probe_outcome_value :: "probe_outcome \<Rightarrow> string" where
  "probe_outcome_value PROBE_PASSED = ''passed''"
| "probe_outcome_value PROBE_FAILED = ''failed''"
| "probe_outcome_value PROBE_UNKNOWN = ''unknown''"

datatype health_outcome = HEALTH_PASSED | HEALTH_FAILED | HEALTH_UNKNOWN

fun health_outcome_value :: "health_outcome \<Rightarrow> string" where
  "health_outcome_value HEALTH_PASSED = ''passed''"
| "health_outcome_value HEALTH_FAILED = ''failed''"
| "health_outcome_value HEALTH_UNKNOWN = ''unknown''"

definition DEFINITIVE_HEALTH_OUTCOMES :: "health_outcome list" where
  "DEFINITIVE_HEALTH_OUTCOMES = [HEALTH_PASSED, HEALTH_FAILED]"

definition aggregate_health_outcome :: "probe_outcome list \<Rightarrow> health_outcome result" where
  "aggregate_health_outcome outcomes =
     checkE (outcomes \<noteq> [])
       (AuthorityInvariantError ''a health contract verdict requires at least one probe result'')
       (if list_ex (\<lambda>x. x = PROBE_FAILED) outcomes then Inr HEALTH_FAILED
        else if list_all (\<lambda>x. x = PROBE_PASSED) outcomes then Inr HEALTH_PASSED
        else Inr HEALTH_UNKNOWN)"

datatype source_health = HEALTHY | SOURCE_UNAVAILABLE | DEGRADED | CONFIGURATION_ERROR | HEALTH_NOT_YET_OBSERVED

datatype source_freshness = FRESH | STALE | FRESHNESS_NOT_YET_OBSERVED

datatype health_origin = DISCOVERY_RUN | CONTROLLED_CONTEXT_TRANSITION | TIME_EXPIRY | INITIAL_ORIGIN

section \<open>Rows\<close>

record scan_context =
  cx_resource_id :: uuid
  cx_inventory_source_id :: uuid
  cx_committed_source_config_revision :: int
  cx_committed_endpoint_id :: uuid
  cx_committed_canonical_transport_locator :: string
  cx_committed_canonicalization_contract_version :: int
  cx_committed_transport_trust_revision :: int
  cx_provider_contract_version :: int
  cx_expected_binding_id :: uuid
  cx_expected_locator_generation :: int
  cx_expected_resource_continuity_revision :: int
  cx_expected_vmid :: int
  cx_expected_node_id :: uuid
  cx_expected_node_name :: string

record package =
  pkg_name :: string
  pkg_architecture :: string
  pkg_installed_version :: string
  pkg_candidate_version :: string
  pkg_origin :: "string option"
  pkg_description :: "string option"
  pkg_security :: "bool option"

record scan_run =
  scan_run_id :: uuid
  scan_ctx :: scan_context
  scan_attempt_sequence :: nat
  scan_started_at :: time
  scan_lifecycle :: package_scan_lifecycle
  scan_completed_at :: "time option"
  scan_outcome :: "package_scan_outcome option"
  scan_failure_class :: "package_scan_failure option"
  scan_error_message :: "string option"
  scan_os_id :: "string option"
  scan_os_version :: "string option"
  scan_pending_count :: "nat option"
  scan_plan_fingerprint :: "string option"
  scan_reboot_required :: "bool option"

text \<open>A row of \<open>package_scan_packages\<close> and of \<open>package_update_job_packages\<close>: owner, index, package.\<close>

record package_row =
  prow_owner :: uuid
  prow_index :: nat
  prow_package :: package

record approval =
  appr_resource_id :: uuid
  approval_id :: uuid
  appr_reviewed_scan_run_id :: uuid
  appr_plan_fingerprint :: string
  appr_approved_at :: time

record health_probe =
  probe_kind :: health_probe_kind
  probe_target :: "string option"

record health_contract =
  hc_resource_id :: uuid
  hc_revision :: int
  hc_fingerprint :: string
  hc_created_at :: time
  hc_updated_at :: time
  hc_probes :: "health_probe list"

record job_health_probe =
  jp_index :: nat
  jp_kind :: health_probe_kind
  jp_target :: "string option"

record probe_result =
  pr_index :: nat
  pr_outcome :: probe_outcome
  pr_checked_at :: time
  pr_reason :: string

record health_probe_observation =
  obs_index :: nat
  obs_kind :: health_probe_kind
  obs_target :: "string option"
  obs_outcome :: probe_outcome
  obs_reason :: string

record job_issuance =
  job_id :: uuid
  request_id :: uuid
  issued_at :: time
  issuance_sequence :: nat
  job_approval_id :: uuid
  approval_reviewed_scan_run_id :: uuid
  approved_plan_fingerprint :: string
  approval_approved_at :: time
  current_plan_scan_run_id :: uuid
  job_ctx :: scan_context
  expected_resource_type :: string
  package_count :: nat
  health_contract_revision :: int
  frozen_contract_fingerprint :: string
  health_contract_probe_count :: nat

record job =
  iss :: job_issuance
  status :: job_status
  job_checkpoint :: checkpoint
  snapshot_operation_id :: "string option"
  snapshot_name :: "string option"
  snapshot_intent_recorded_at :: "time option"
  snapshot_task_upid :: "string option"
  snapshot_confirmed_at :: "time option"
  mutation_operation_id :: "string option"
  mutation_may_have_started_at :: "time option"
  accepted_prepared_evidence_digest :: "string option"
  mutation_completed_at :: "time option"
  health_started_at :: "time option"
  health_completed_at :: "time option"
  job_health_outcome :: "health_outcome option"
  rollback_operation_id :: "string option"
  rollback_may_have_started_at :: "time option"
  rollback_task_upid :: "string option"
  rollback_completed_at :: "time option"
  terminalized_at :: "time option"
  terminal_reason :: "string option"

abbreviation jid :: "job \<Rightarrow> uuid" where
  "jid j \<equiv> job_id (iss j)"

abbreviation jctx :: "job \<Rightarrow> scan_context" where
  "jctx j \<equiv> job_ctx (iss j)"

abbreviation job_resource_id :: "job \<Rightarrow> uuid" where
  "job_resource_id j \<equiv> cx_resource_id (job_ctx (iss j))"

text \<open>The row an issuance inserts: active, at the first checkpoint, every later fact NULL.\<close>

definition issued_job :: "job_issuance \<Rightarrow> job" where
  "issued_job i =
     \<lparr>iss = i, status = ACTIVE, job_checkpoint = ISSUED,
      snapshot_operation_id = None, snapshot_name = None, snapshot_intent_recorded_at = None,
      snapshot_task_upid = None, snapshot_confirmed_at = None, mutation_operation_id = None,
      mutation_may_have_started_at = None, accepted_prepared_evidence_digest = None,
      mutation_completed_at = None, health_started_at = None, health_completed_at = None,
      job_health_outcome = None, rollback_operation_id = None,
      rollback_may_have_started_at = None, rollback_task_upid = None,
      rollback_completed_at = None, terminalized_at = None, terminal_reason = None\<rparr>"

text \<open>One package as the approval sees it: name, architecture, installed and candidate version.\<close>

type_synonym material = "string \<times> string \<times> string \<times> string"

definition package_material :: "package \<Rightarrow> material" where
  "package_material p =
     (pkg_name p, pkg_architecture p, pkg_installed_version p, pkg_candidate_version p)"

record snapshot_ownership =
  own_protocol :: int
  own_kind :: string
  own_job_id :: uuid
  own_resource_id :: uuid
  own_resource_continuity_revision :: int
  own_inventory_source_id :: uuid
  own_backend_instance_id :: uuid

record observed_snapshot =
  os_name :: string
  os_description :: string
  os_is_current_pseudo_entry :: bool
  os_incomplete :: bool
  os_snaptime :: "int option"
  os_parent :: "string option"
  os_ownership :: "snapshot_ownership option"
  os_ownership_malformed :: bool

section \<open>The contract verdict\<close>

lemma aggregate_failed_iff:
  "aggregate_health_outcome os = Inr HEALTH_FAILED \<longleftrightarrow> PROBE_FAILED \<in> set os"
  by (auto simp: aggregate_health_outcome_def checkE_def list_ex_iff list_all_iff)

lemma aggregate_passed_iff:
  "aggregate_health_outcome os = Inr HEALTH_PASSED \<longleftrightarrow> os \<noteq> [] \<and> set os \<subseteq> {PROBE_PASSED}"
  by (auto simp: aggregate_health_outcome_def checkE_def list_ex_iff list_all_iff)

lemma aggregate_unknown_iff:
  "aggregate_health_outcome os = Inr HEALTH_UNKNOWN \<longleftrightarrow>
     PROBE_UNKNOWN \<in> set os \<and> PROBE_FAILED \<notin> set os"
proof -
  have "\<not> set os \<subseteq> {PROBE_PASSED} \<and> PROBE_FAILED \<notin> set os \<longleftrightarrow>
        PROBE_UNKNOWN \<in> set os \<and> PROBE_FAILED \<notin> set os"
    by (metis empty_iff insert_iff probe_outcome.exhaust probe_outcome.distinct(3) subsetD subsetI)
  then show ?thesis
    by (auto simp: aggregate_health_outcome_def checkE_def list_ex_iff list_all_iff)
qed

end
