(* ===== verification/Operation_Identity.thy ===== *)
theory Operation_Identity
  imports Ops_Models Digest
begin

text \<open>
  Deterministic job-owned operation identities and snapshot ownership metadata:
  \<open>app/inventory/snapshot_identity.py\<close>, \<open>mutation_identity.py\<close> and \<open>rollback_identity.py\<close>.
  Each identity is a domain-separated SHA-256 of the canonical JSON of the job's immutable
  identity. The locale \<open>operation_identity\<close> is the contract the three derivations share: a
  hashed text that determines the key. Its interpretations show that two different jobs can
  only share an operation id through a collision of the truncated digest on two different texts.
\<close>

section \<open>Snapshot names\<close>

definition PVE_SNAPSHOT_NAME_MAX_LENGTH :: nat where "PVE_SNAPSHOT_NAME_MAX_LENGTH = 40"
definition PVE_RESERVED_SNAPSHOT_NAMES :: "string list" where
  "PVE_RESERVED_SNAPSHOT_NAMES = [''current'', ''vzdump'']"
definition SNAPSHOT_NAME_PREFIX :: string where "SNAPSHOT_NAME_PREFIX = ''hubinet-preupd-''"
definition SNAPSHOT_METADATA_PROTOCOL :: int where "SNAPSHOT_METADATA_PROTOCOL = 1"
definition SNAPSHOT_METADATA_MARKER :: string where
  "SNAPSHOT_METADATA_MARKER = ''hubinet-ops-snapshot-v1''"
definition SNAPSHOT_METADATA_TOKEN :: string where "SNAPSHOT_METADATA_TOKEN = ''hubinet-ops-snapshot''"
definition SNAPSHOT_KIND_PRE_UPDATE :: string where "SNAPSHOT_KIND_PRE_UPDATE = ''pre_update''"
definition SNAPSHOT_DESCRIPTION_HEADLINE :: string where
  "SNAPSHOT_DESCRIPTION_HEADLINE = ''Hubinet Ops job-owned pre-update snapshot - do not delete manually''"
definition SNAPSHOT_DESCRIPTION_MAX_LENGTH :: nat where "SNAPSHOT_DESCRIPTION_MAX_LENGTH = 600"

definition snapshot_name_domain :: string where
  "snapshot_name_domain = ''hubinet-ops/package-update/pre-update-snapshot-name/v1''"
definition snapshot_operation_domain :: string where
  "snapshot_operation_domain = ''hubinet-ops/package-update/snapshot-operation-id/v1''"
definition mutation_operation_domain :: string where
  "mutation_operation_domain = ''hubinet-ops/package-update/package-mutation-operation-id/v1''"
definition rollback_operation_domain :: string where
  "rollback_operation_domain = ''hubinet-ops/package-update/rollback-operation-id/v1''"

definition is_ascii_letter :: "char \<Rightarrow> bool" where
  "is_ascii_letter c \<longleftrightarrow> (let n = of_char c :: nat in (65 \<le> n \<and> n \<le> 90) \<or> (97 \<le> n \<and> n \<le> 122))"

definition is_name_char :: "char \<Rightarrow> bool" where
  "is_name_char c \<longleftrightarrow> is_ascii_letter c \<or> (let n = of_char c :: nat in 48 \<le> n \<and> n \<le> 57)
                     \<or> c = CHR ''_'' \<or> c = CHR ''-''"

text \<open>\<open>str.lower\<close> on the ASCII letters, which is all a name that passed the pattern contains.\<close>

definition ascii_lower :: "char \<Rightarrow> char" where
  "ascii_lower c = (let n = of_char c :: nat in if 65 \<le> n \<and> n \<le> 90 then char_of (n + 32) else c)"

text \<open>\<open>PVE_CONFIGID_RE.fullmatch\<close>: a letter, then at least one name character.\<close>

definition pve_configid_match :: "string \<Rightarrow> bool" where
  "pve_configid_match v \<longleftrightarrow>
     (case v of c # d # cs \<Rightarrow> is_ascii_letter c \<and> list_all is_name_char (d # cs) | _ \<Rightarrow> False)"

definition validate_pve_snapshot_name :: "string \<Rightarrow> string result" where
  "validate_pve_snapshot_name v =
     checkE (pve_configid_match v \<and> length v \<le> PVE_SNAPSHOT_NAME_MAX_LENGTH
             \<and> map ascii_lower v \<notin> set PVE_RESERVED_SNAPSHOT_NAMES)
       (ValueError ''snapshot name is not a valid PVE snapshot name'') (Inr v)"

section \<open>Operation ids\<close>

text \<open>
  \<open>str(uuid.UUID(bytes=digest[:16], version=5))\<close>: the sixteen bytes with the version nibble and
  the variant bits overwritten, printed in the canonical groups.
\<close>

definition uuid5_bytes :: "int list \<Rightarrow> int list" where
  "uuid5_bytes digest =
     (let bs = take 16 digest in bs[6 := bs ! 6 mod 16 + 80, 8 := bs ! 8 mod 64 + 128])"

definition uuid_text :: "int list \<Rightarrow> string" where
  "uuid_text bs = (let h = concat (map hex_byte bs) in
     take 8 h @ ''-'' @ take 4 (drop 8 h) @ ''-'' @ take 4 (drop 12 h) @ ''-''
     @ take 4 (drop 16 h) @ ''-'' @ drop 20 h)"

definition operation_uuid :: "string \<Rightarrow> string" where
  "operation_uuid data = uuid_text (uuid5_bytes (sha256_digest data))"

type_synonym job_key = "uuid \<times> uuid \<times> uuid \<times> int"

text \<open>\<open>_identity_payload\<close>: the checked members and their canonical JSON.\<close>

definition identity_json :: "job_key \<Rightarrow> json" where
  "identity_json k = (case k of (backend, job, res, continuity) \<Rightarrow>
     JObj [(''backend_instance_id'', JStr backend), (''job_id'', JStr job),
           (''resource_id'', JStr res), (''resource_continuity_revision'', JInt continuity)])"

definition require_job_key :: "job_key \<Rightarrow> unit result" where
  "require_job_key k = (case k of (backend, job, res, continuity) \<Rightarrow>
     bindE (require_uuid backend ''backend_instance_id'') (\<lambda>_.
     bindE (require_uuid job ''job_id'') (\<lambda>_.
     bindE (require_uuid res ''resource_id'') (\<lambda>_.
     bindE (require_positive_integer continuity ''resource_continuity_revision'') (\<lambda>_. Inr ())))))"

definition newline :: string where "newline = [CHR 0x0A]"

definition snapshot_name_text :: "job_key \<Rightarrow> string" where
  "snapshot_name_text k = snapshot_name_domain @ newline @ json_dumps (identity_json k)"

definition snapshot_operation_text :: "job_key \<Rightarrow> string" where
  "snapshot_operation_text k = snapshot_operation_domain @ newline @ json_dumps (identity_json k)"

definition mutation_operation_text :: "job_key \<Rightarrow> string" where
  "mutation_operation_text k = mutation_operation_domain @ newline @ json_dumps (identity_json k)"

definition derive_pre_update_snapshot_identity :: "job_key \<Rightarrow> (string \<times> string) result" where
  \<comment> \<open>the operation id and the snapshot name\<close>
  "derive_pre_update_snapshot_identity k =
     bindE (require_job_key k) (\<lambda>_.
     bindE (validate_pve_snapshot_name
              (SNAPSHOT_NAME_PREFIX @ take 24 (sha256_hex (snapshot_name_text k)))) (\<lambda>name.
     bindE (require_uuid (operation_uuid (snapshot_operation_text k)) ''snapshot_operation_id'') (\<lambda>oid.
       Inr (oid, name))))"

definition derive_package_mutation_identity :: "job_key \<Rightarrow> string result" where
  "derive_package_mutation_identity k =
     bindE (require_job_key k) (\<lambda>_.
       require_uuid (operation_uuid (mutation_operation_text k)) ''mutation_operation_id'')"

type_synonym rollback_key = "job_key \<times> string \<times> string"

definition rollback_json :: "rollback_key \<Rightarrow> json" where
  "rollback_json k = (case k of ((backend, job, res, continuity), operation, name) \<Rightarrow>
     JObj [(''backend_instance_id'', JStr backend), (''job_id'', JStr job),
           (''resource_id'', JStr res), (''resource_continuity_revision'', JInt continuity),
           (''snapshot_operation_id'', JStr operation), (''snapshot_name'', JStr name)])"

definition rollback_operation_text :: "rollback_key \<Rightarrow> string" where
  "rollback_operation_text k = rollback_operation_domain @ newline @ json_dumps (rollback_json k)"

definition derive_package_rollback_identity :: "job_key \<Rightarrow> string \<Rightarrow> string \<Rightarrow> string result" where
  "derive_package_rollback_identity k operation name =
     checkE (name \<noteq> []) (ValueError ''snapshot_name must be a non-empty string'')
    (bindE (require_job_key k) (\<lambda>_.
     bindE (require_uuid operation ''snapshot_operation_id'') (\<lambda>_.
       require_uuid (operation_uuid (rollback_operation_text (k, operation, name)))
         ''rollback_operation_id'')))"

section \<open>Ownership metadata\<close>

definition build_snapshot_ownership ::
    "uuid \<Rightarrow> uuid \<Rightarrow> int \<Rightarrow> uuid \<Rightarrow> uuid \<Rightarrow> snapshot_ownership result" where
  "build_snapshot_ownership job res continuity source backend =
     bindE (require_uuid job ''job_id'') (\<lambda>_.
     bindE (require_uuid res ''resource_id'') (\<lambda>_.
     bindE (require_positive_integer continuity ''resource_continuity_revision'') (\<lambda>_.
     bindE (require_uuid source ''inventory_source_id'') (\<lambda>_.
     bindE (require_uuid backend ''backend_instance_id'') (\<lambda>_.
       Inr \<lparr>own_protocol = SNAPSHOT_METADATA_PROTOCOL, own_kind = SNAPSHOT_KIND_PRE_UPDATE,
            own_job_id = job, own_resource_id = res, own_resource_continuity_revision = continuity,
            own_inventory_source_id = source, own_backend_instance_id = backend\<rparr>)))))"

definition ownership_json :: "snapshot_ownership \<Rightarrow> json" where
  "ownership_json w =
     JObj [(''protocol'', JInt (own_protocol w)), (''kind'', JStr (own_kind w)),
           (''job_id'', JStr (own_job_id w)), (''resource_id'', JStr (own_resource_id w)),
           (''resource_continuity_revision'', JInt (own_resource_continuity_revision w)),
           (''inventory_source_id'', JStr (own_inventory_source_id w)),
           (''backend_instance_id'', JStr (own_backend_instance_id w))]"

definition encode_snapshot_description :: "snapshot_ownership \<Rightarrow> string result" where
  "encode_snapshot_description w =
     bindE (require_positive_integer (own_protocol w) ''protocol'') (\<lambda>_.
     bindE (require_uuid (own_job_id w) ''job_id'') (\<lambda>_.
     bindE (require_uuid (own_resource_id w) ''resource_id'') (\<lambda>_.
     bindE (require_positive_integer (own_resource_continuity_revision w) ''resource_continuity_revision'') (\<lambda>_.
     bindE (require_uuid (own_inventory_source_id w) ''inventory_source_id'') (\<lambda>_.
     bindE (require_uuid (own_backend_instance_id w) ''backend_instance_id'') (\<lambda>_.
     let payload = json_dumps (ownership_json w);
         description = SNAPSHOT_DESCRIPTION_HEADLINE @ newline @ SNAPSHOT_METADATA_MARKER @ '' '' @ payload
     in checkE (own_kind w = SNAPSHOT_KIND_PRE_UPDATE)
          (ValueError ''snapshot ownership kind is not pre-update'')
       (checkE (own_protocol w = SNAPSHOT_METADATA_PROTOCOL)
          (ValueError ''snapshot ownership protocol is unsupported'')
       (checkE (length description \<le> SNAPSHOT_DESCRIPTION_MAX_LENGTH)
          (ValueError ''snapshot description exceeds its bound'')
       (checkE (\<forall>c \<in> set payload. 32 \<le> (of_char c :: nat) \<and> (of_char c :: nat) \<le> 126)
          (ValueError ''snapshot description payload must be ASCII text'')
       (Inr description))))))))))"

text \<open>\<open>SNAPSHOT_METADATA_TOKEN in description\<close>.\<close>

fun contains :: "string \<Rightarrow> string \<Rightarrow> bool" where
  "contains needle [] \<longleftrightarrow> needle = []"
| "contains needle (c # cs) \<longleftrightarrow> take (length needle) (c # cs) = needle \<or> contains needle cs"

definition looks_like_hubinet_snapshot :: "string \<Rightarrow> bool" where
  "looks_like_hubinet_snapshot description = contains SNAPSHOT_METADATA_TOKEN description"

section \<open>Identities are canonical\<close>

lemma is_hex_digest_name: "is_hex_digest n v \<Longrightarrow> list_all is_name_char v"
proof -
  have "list_all is_name_char ''0123456789abcdef''"
    by (simp add: is_name_char_def is_ascii_letter_def)
  then have "is_lower_hex c \<Longrightarrow> is_name_char c" for c
    by (auto simp: is_lower_hex_def list_all_iff)
  then show "is_hex_digest n v \<Longrightarrow> list_all is_name_char v"
    by (auto simp: is_hex_digest_def list_all_iff)
qed

lemma is_hex_digest_take: "is_hex_digest n v \<Longrightarrow> k \<le> n \<Longrightarrow> is_hex_digest k (take k v)"
  by (auto simp: is_hex_digest_def list_all_iff dest: in_set_takeD)

lemma validate_hubinet_name:
  assumes "is_hex_digest 24 h"
  shows "validate_pve_snapshot_name (SNAPSHOT_NAME_PREFIX @ h) = Inr (SNAPSHOT_NAME_PREFIX @ h)"
proof -
  have len: "length h = 24" using assms by (simp add: is_hex_digest_def)
  have "length (map ascii_lower (SNAPSHOT_NAME_PREFIX @ h)) = 39"
    by (simp add: len SNAPSHOT_NAME_PREFIX_def)
  then have "map ascii_lower (SNAPSHOT_NAME_PREFIX @ h) \<notin> set PVE_RESERVED_SNAPSHOT_NAMES"
    by (auto simp: PVE_RESERVED_SNAPSHOT_NAMES_def simp del: length_map map_append)
  moreover have "pve_configid_match (SNAPSHOT_NAME_PREFIX @ h)"
    using is_hex_digest_name[OF assms]
    by (simp add: pve_configid_match_def SNAPSHOT_NAME_PREFIX_def is_ascii_letter_def is_name_char_def)
  ultimately show ?thesis
    by (simp add: validate_pve_snapshot_name_def PVE_SNAPSHOT_NAME_MAX_LENGTH_def len SNAPSHOT_NAME_PREFIX_def)
qed

lemma hex_digit_five: "hex_digit ((b mod 16 + 80) div 16) = CHR ''5''"
proof -
  have "(b mod 16 + 80) div 16 = 5" using pos_mod_bound[of 16 b] pos_mod_sign[of 16 b] by linarith
  then show ?thesis by (simp add: hex_digit_def)
qed

lemma is_lower_hex_five: "is_lower_hex (CHR ''5'')"
  by (simp add: is_lower_hex_def)

lemma list16:
  assumes "length xs = 16"
  obtains a b c d e f g h i j k l m n p q where "xs = [a, b, c, d, e, f, g, h, i, j, k, l, m, n, p, q]"
  using assms by (auto simp: numeral_eq_Suc length_Suc_conv)

lemma operation_uuid_canonical: "is_canonical_uuid (operation_uuid data)"
proof -
  have "length (take 16 (sha256_digest data)) = 16" by simp
  then obtain a b c d e f g h i j k l m n p q where
    bs: "take 16 (sha256_digest data) = [a, b, c, d, e, f, g, h, i, j, k, l, m, n, p, q]"
    by (rule list16)
  show ?thesis
    unfolding operation_uuid_def uuid5_bytes_def uuid_text_def is_canonical_uuid_def bs
    by (simp add: hex_byte_def hex_digit_lower hex_digit_five is_lower_hex_five Let_def numeral_eq_Suc)
qed

lemma length_operation_uuid [simp]: "length (operation_uuid data) = 36"
  by (rule canonical_uuid_length) (rule operation_uuid_canonical)

lemma require_operation_uuid [simp]: "require_uuid (operation_uuid data) f = Inr (operation_uuid data)"
  by (simp add: operation_uuid_canonical)

definition job_key_ok :: "job_key \<Rightarrow> bool" where
  "job_key_ok k = (case k of (backend, job, res, continuity) \<Rightarrow>
     is_canonical_uuid backend \<and> is_canonical_uuid job \<and> is_canonical_uuid res \<and> 0 < continuity)"

lemma require_job_key_Inr: "require_job_key k = Inr u \<longleftrightarrow> job_key_ok k"
  by (auto simp: require_job_key_def job_key_ok_def result_iffs require_positive_integer_def
      split: prod.splits)

definition snapshot_identity_of :: "job_key \<Rightarrow> string \<times> string" where
  "snapshot_identity_of k =
     (operation_uuid (snapshot_operation_text k),
      SNAPSHOT_NAME_PREFIX @ take 24 (sha256_hex (snapshot_name_text k)))"

lemma derive_snapshot_identity_Inr:
  "derive_pre_update_snapshot_identity k = Inr i \<longleftrightarrow> job_key_ok k \<and> i = snapshot_identity_of k"
  using validate_hubinet_name[OF is_hex_digest_take[OF sha256_hex_digest, of 24 "snapshot_name_text k"]]
  by (auto simp: derive_pre_update_snapshot_identity_def snapshot_identity_of_def result_iffs
      require_job_key_Inr)

lemma derive_mutation_identity_Inr:
  "derive_package_mutation_identity k = Inr i \<longleftrightarrow>
     job_key_ok k \<and> i = operation_uuid (mutation_operation_text k)"
  by (auto simp: derive_package_mutation_identity_def result_iffs require_job_key_Inr)

lemma derive_rollback_identity_Inr:
  "derive_package_rollback_identity k operation name = Inr i \<longleftrightarrow>
     name \<noteq> [] \<and> job_key_ok k \<and> is_canonical_uuid operation
     \<and> i = operation_uuid (rollback_operation_text (k, operation, name))"
  by (auto simp: derive_package_rollback_identity_def result_iffs require_job_key_Inr)

section \<open>Different jobs, different texts\<close>

locale operation_identity =
  fixes domain :: string
    and body :: "'k \<Rightarrow> string"
    and hashed :: "'k \<Rightarrow> string"
  assumes text_eq: "hashed k = domain @ newline @ body k"
    and body_inj: "body k = body k' \<Longrightarrow> k = k'"
    and domain_one_line: "CHR 0x0A \<notin> set domain"
begin

lemma text_inj: "hashed k = hashed k' \<Longrightarrow> k = k'"
  by (auto simp: text_eq dest: body_inj)

lemma text_domain: "takeWhile (\<lambda>c. c \<noteq> CHR 0x0A) (hashed k) = domain"
proof -
  have "\<And>c. c \<in> set domain \<Longrightarrow> c \<noteq> CHR 0x0A" using domain_one_line by auto
  then have "takeWhile (\<lambda>c. c \<noteq> CHR 0x0A) (domain @ newline @ body k)
      = domain @ takeWhile (\<lambda>c. c \<noteq> CHR 0x0A) (newline @ body k)"
    by (rule takeWhile_append2)
  then show ?thesis by (simp add: text_eq newline_def)
qed

lemma shared_id_is_collision:
  assumes "operation_uuid (hashed k) = operation_uuid (hashed k')" "k \<noteq> k'"
  shows "\<exists>x y. x \<noteq> y \<and> operation_uuid x = operation_uuid y"
  using assms text_inj by blast

end

lemma identity_json_text:
  "json_dumps (identity_json (b, j, r, c)) =
     ''{'' @ json_string ''backend_instance_id'' @ '':'' @ json_string b @ '',''
     @ json_string ''job_id'' @ '':'' @ json_string j @ '',''
     @ json_string ''resource_continuity_revision'' @ '':'' @ decimal_int c @ '',''
     @ json_string ''resource_id'' @ '':'' @ json_string r @ ''}''"
  by (simp add: identity_json_def)

text \<open>Reading the members back, one at a time: the fixed text in between carries no information.\<close>

lemma json_text_member:
  "lead @ json_string a @ rest = lead @ json_string a' @ rest' \<longleftrightarrow> a = a' \<and> rest = rest'"
  using json_string_prefix_free[of a rest a' rest'] by auto

lemma json_int_member:
  "lead @ decimal_int c @ '','' @ rest = lead @ decimal_int c' @ '','' @ rest' \<longleftrightarrow> c = c' \<and> rest = rest'"
  using decimal_int_comma[of c rest c' rest'] by auto

lemmas json_members = json_text_member[of "[]", simplified] json_int_member[of "[]", simplified]

lemma identity_body_inj: "json_dumps (identity_json k) = json_dumps (identity_json k') \<Longrightarrow> k = k'"
  by (cases k; cases k') (simp only: identity_json_text same_append_eq json_members
      append_Cons append_Nil list.inject simp_thms prod.inject)

lemma rollback_json_text:
  "json_dumps (rollback_json ((b, j, r, c), x, n)) =
     ''{'' @ json_string ''backend_instance_id'' @ '':'' @ json_string b @ '',''
     @ json_string ''job_id'' @ '':'' @ json_string j @ '',''
     @ json_string ''resource_continuity_revision'' @ '':'' @ decimal_int c @ '',''
     @ json_string ''resource_id'' @ '':'' @ json_string r @ '',''
     @ json_string ''snapshot_name'' @ '':'' @ json_string n @ '',''
     @ json_string ''snapshot_operation_id'' @ '':'' @ json_string x @ ''}''"
  by (simp add: rollback_json_def)

lemma rollback_body_inj: "json_dumps (rollback_json k) = json_dumps (rollback_json k') \<Longrightarrow> k = k'"
proof -
  obtain b j r c x n where k: "k = ((b, j, r, c), x, n)" by (metis prod.exhaust)
  obtain b' j' r' c' x' n' where k': "k' = ((b', j', r', c'), x', n')" by (metis prod.exhaust)
  assume "json_dumps (rollback_json k) = json_dumps (rollback_json k')"
  then show "k = k'"
    unfolding k k' by (simp only: rollback_json_text same_append_eq json_members
      append_Cons append_Nil list.inject simp_thms prod.inject)
qed

interpretation snapshot_name_id: operation_identity
  snapshot_name_domain "\<lambda>k. json_dumps (identity_json k)" snapshot_name_text
  by unfold_locales
    (auto simp: snapshot_name_text_def snapshot_name_domain_def dest: identity_body_inj)

interpretation snapshot_operation_id: operation_identity
  snapshot_operation_domain "\<lambda>k. json_dumps (identity_json k)" snapshot_operation_text
  by unfold_locales
    (auto simp: snapshot_operation_text_def snapshot_operation_domain_def dest: identity_body_inj)

interpretation mutation_operation_id: operation_identity
  mutation_operation_domain "\<lambda>k. json_dumps (identity_json k)" mutation_operation_text
  by unfold_locales
    (auto simp: mutation_operation_text_def mutation_operation_domain_def dest: identity_body_inj)

interpretation rollback_operation_id: operation_identity
  rollback_operation_domain "\<lambda>k. json_dumps (rollback_json k)" rollback_operation_text
  by unfold_locales
    (auto simp: rollback_operation_text_def rollback_operation_domain_def dest: rollback_body_inj)

lemma operation_domains_distinct:
  "distinct [snapshot_name_domain, snapshot_operation_domain, mutation_operation_domain, rollback_operation_domain]"
  by (simp add: snapshot_name_domain_def snapshot_operation_domain_def mutation_operation_domain_def
      rollback_operation_domain_def)

lemma operation_texts_disjoint:
  "mutation_operation_text k \<noteq> rollback_operation_text k2"
  "snapshot_operation_text k \<noteq> mutation_operation_text k1"
  "snapshot_operation_text k \<noteq> rollback_operation_text k2"
  "snapshot_name_text k \<noteq> snapshot_operation_text k1"
  using operation_domains_distinct mutation_operation_id.text_domain[of k]
    mutation_operation_id.text_domain[of k1] rollback_operation_id.text_domain[of k2]
    snapshot_operation_id.text_domain[of k] snapshot_operation_id.text_domain[of k1]
    snapshot_name_id.text_domain[of k]
  by auto

end
