(* ===== verification/Package_Plan.thy ===== *)
theory Package_Plan
  imports Ops_Models Digest "HOL-Library.Multiset"
begin

text \<open>
  The approved package plan: validation, canonical order and fingerprint
  (\<open>_validate_package_plan\<close>, \<open>package_plan_fingerprint\<close>, \<open>_require_architecture\<close> of
  \<open>app/inventory/authority.py\<close>) and the canonical PVE task identifier (\<open>_require_pve_upid\<close>).
  A regular expression whose parts exclude its separator is modelled on the parts of the split
  text. The lemmas show that an accepted plan is the same packages in strictly increasing
  (name, architecture) order and that the fingerprint does not see the order of declaration.
\<close>

fun split_on :: "char \<Rightarrow> string \<Rightarrow> string list" where
  "split_on s [] = [[]]"
| "split_on s (c # cs) =
     (if c = s then [] # split_on s cs
      else (case split_on s cs of [] \<Rightarrow> [[c]] | p # ps \<Rightarrow> (c # p) # ps))"

definition is_lower_alpha :: "char \<Rightarrow> bool" where
  "is_lower_alpha c \<longleftrightarrow> (let n = of_char c :: nat in 97 \<le> n \<and> n \<le> 122)"

definition is_ascii_digit :: "char \<Rightarrow> bool" where
  "is_ascii_digit c \<longleftrightarrow> (let n = of_char c :: nat in 48 \<le> n \<and> n \<le> 57)"

definition is_upper_alpha :: "char \<Rightarrow> bool" where
  "is_upper_alpha c \<longleftrightarrow> (let n = of_char c :: nat in 65 \<le> n \<and> n \<le> 90)"

definition is_any_hex :: "char \<Rightarrow> bool" where
  "is_any_hex c \<longleftrightarrow> c \<in> set ''0123456789abcdefABCDEF''"

text \<open>\<open>[a-z][a-z0-9]*(-[a-z0-9]+)*\<close>\<close>

definition architecture_match :: "string \<Rightarrow> bool" where
  "architecture_match v \<longleftrightarrow>
     (case v of [] \<Rightarrow> False | c # _ \<Rightarrow> is_lower_alpha c)
     \<and> list_all (\<lambda>p. p \<noteq> [] \<and> list_all (\<lambda>c. is_lower_alpha c \<or> is_ascii_digit c) p) (split_on (CHR ''-'') v)"

definition require_architecture :: "string \<Rightarrow> string result" where
  "require_architecture v =
     checkE (2 \<le> length v \<and> length v \<le> 32 \<and> architecture_match v)
       (ValueError ''architecture must be a bounded lowercase dpkg architecture'') (Inr v)"

definition upid_node_match :: "string \<Rightarrow> bool" where
  "upid_node_match p \<longleftrightarrow>
     p \<noteq> [] \<and> list_all (\<lambda>c. is_lower_alpha c \<or> is_upper_alpha c \<or> is_ascii_digit c \<or> c = CHR ''-'') p
     \<and> hd p \<noteq> CHR ''-'' \<and> last p \<noteq> CHR ''-''"

definition upid_hex :: "nat \<Rightarrow> nat \<Rightarrow> string \<Rightarrow> bool" where
  "upid_hex a b p \<longleftrightarrow> a \<le> length p \<and> length p \<le> b \<and> list_all is_any_hex p"

definition upid_word :: "string \<Rightarrow> bool" where
  "upid_word p \<longleftrightarrow> list_all (\<lambda>c. \<not> py_isspace c \<and> c \<noteq> CHR ''/'') p"

text \<open>\<open>_PVE_UPID_RE.fullmatch\<close>: nine parts, none of which holds a colon.\<close>

definition pve_upid_match :: "string \<Rightarrow> bool" where
  "pve_upid_match v \<longleftrightarrow>
     (case split_on (CHR '':'') v of
        [tag, node, pid, pstart, starttime, worker, ident, user, rest] \<Rightarrow>
          tag = ''UPID'' \<and> upid_node_match node \<and> upid_hex 8 8 pid \<and> upid_hex 8 9 pstart
          \<and> upid_hex 8 8 starttime \<and> upid_word worker \<and> worker \<noteq> [] \<and> upid_word ident
          \<and> upid_word user \<and> user \<noteq> [] \<and> rest = []
      | _ \<Rightarrow> False)"

definition require_pve_upid :: "string \<Rightarrow> string result" where
  "require_pve_upid v =
     checkE (length v \<le> 300 \<and> pve_upid_match v)
       (ValueError ''task_upid must be a canonical PVE UPID'') (Inr v)"

section \<open>Plan validation and fingerprint\<close>

definition plan_key :: "package \<Rightarrow> string \<times> string" where
  "plan_key p = (pkg_name p, pkg_architecture p)"

text \<open>The loop of \<open>_validate_package_plan\<close>, with the identities seen so far.\<close>

fun validate_packages :: "(string \<times> string) list \<Rightarrow> package list \<Rightarrow> package list result" where
  "validate_packages seen [] = Inr []"
| "validate_packages seen (p # ps) =
     bindE (require_text (pkg_name p) ''package_name'' 300) (\<lambda>name.
     bindE (require_architecture (pkg_architecture p)) (\<lambda>architecture.
     bindE (require_text (pkg_installed_version p) ''installed_version'' 500) (\<lambda>installed.
     bindE (require_text (pkg_candidate_version p) ''candidate_version'' 500) (\<lambda>candidate.
     checkE ((name, architecture) \<notin> set seen)
       (ValueError ''package plan contains a duplicate (package_name, architecture)'')
    (checkE (pkg_security p \<in> {Some True, None})
       (ValueError ''package security must be true or unknown'')
    (bindE (optional_bounded_text (pkg_origin p) ''origin'' 500) (\<lambda>origin.
     bindE (optional_bounded_text (pkg_description p) ''description'' 500) (\<lambda>description.
     bindE (validate_packages ((name, architecture) # seen) ps) (\<lambda>rest.
       Inr (\<lparr>pkg_name = name, pkg_architecture = architecture, pkg_installed_version = installed,
             pkg_candidate_version = candidate, pkg_origin = origin, pkg_description = description,
             pkg_security = pkg_security p\<rparr> # rest))))))))))"

definition validate_package_plan :: "package list \<Rightarrow> package list result" where
  "validate_package_plan packages =
     bindE (validate_packages [] packages) (\<lambda>normalized. Inr (sort_key plan_key normalized))"

definition package_json :: "package \<Rightarrow> json" where
  "package_json p =
     JObj [(''architecture'', JStr (pkg_architecture p)),
           (''candidate_version'', JStr (pkg_candidate_version p)),
           (''installed_version'', JStr (pkg_installed_version p)),
           (''package_name'', JStr (pkg_name p))]"

definition package_plan_fingerprint :: "package list \<Rightarrow> string result" where
  "package_plan_fingerprint packages =
     bindE (validate_package_plan packages) (\<lambda>canonical.
       Inr (sha256_hex (json_dumps (JList (map package_json canonical)))))"

section \<open>What validation accepts\<close>

definition package_ok :: "package \<Rightarrow> bool" where
  "package_ok p \<longleftrightarrow>
     is_text 300 (pkg_name p) \<and> 2 \<le> length (pkg_architecture p) \<and> length (pkg_architecture p) \<le> 32
     \<and> architecture_match (pkg_architecture p)
     \<and> is_text 500 (pkg_installed_version p) \<and> is_text 500 (pkg_candidate_version p)
     \<and> pkg_security p \<in> {Some True, None}
     \<and> (case pkg_origin p of None \<Rightarrow> True | Some t \<Rightarrow> is_text 500 t)
     \<and> (case pkg_description p of None \<Rightarrow> True | Some t \<Rightarrow> is_text 500 t)"

lemma optional_bounded_text_Inr [simp]:
  "optional_bounded_text v f n = Inr w \<longleftrightarrow>
     w = v \<and> (case v of None \<Rightarrow> True | Some t \<Rightarrow> is_text n t)"
  by (cases v) (auto simp: optional_bounded_text_def result_iffs)

lemma require_architecture_Inr [simp]:
  "require_architecture v = Inr w \<longleftrightarrow>
     w = v \<and> 2 \<le> length v \<and> length v \<le> 32 \<and> architecture_match v"
  by (auto simp: require_architecture_def checkE_def)

lemma validate_packages_Inr:
  "validate_packages seen ps = Inr qs \<longleftrightarrow>
     qs = ps \<and> list_all package_ok ps \<and> distinct (map plan_key ps)
     \<and> set (map plan_key ps) \<inter> set seen = {}"
proof (induction ps arbitrary: seen qs)
  case (Cons p ps)
  have *: "validate_packages seen (p # ps) = Inr qs \<longleftrightarrow>
      package_ok p \<and> plan_key p \<notin> set seen
      \<and> (\<exists>rest. validate_packages (plan_key p # seen) ps = Inr rest \<and> qs = p # rest)"
    by (auto simp: result_iffs package_ok_def plan_key_def)
  show ?case unfolding * by (auto simp: Cons.IH)
qed auto

lemma validate_package_plan_Inr:
  "validate_package_plan ps = Inr qs \<longleftrightarrow>
     qs = sort_key plan_key ps \<and> list_all package_ok ps \<and> distinct (map plan_key ps)"
  by (auto simp: validate_package_plan_def result_iffs validate_packages_Inr)

lemma require_pve_upid_Inr [simp]:
  "require_pve_upid v = Inr w \<longleftrightarrow> w = v \<and> length v \<le> 300 \<and> pve_upid_match v"
  by (auto simp: require_pve_upid_def checkE_def)

lemma validate_package_plan_mset:
  assumes "mset ps = mset qs" "validate_package_plan ps = Inr cs"
  shows "validate_package_plan qs = Inr cs"
proof -
  from assms(2) have ok: "list_all package_ok ps" "distinct (map plan_key ps)"
    and cs: "cs = sort_key plan_key ps"
    by (auto simp: validate_package_plan_Inr)
  have inj: "inj_on plan_key (set ps)" and "distinct ps"
    using ok(2) by (auto simp: distinct_map)
  then have "sort_key plan_key ps = sort_key plan_key qs"
    using assms(1) by (intro sort_key_inj_key_eq) auto
  moreover have "list_all package_ok qs" "distinct (map plan_key qs)"
    using ok assms(1) inj mset_eq_imp_distinct_iff[OF assms(1)] mset_eq_setD[OF assms(1)]
    by (auto simp: list_all_iff distinct_map)
  ultimately show ?thesis using cs by (simp add: validate_package_plan_Inr)
qed

lemma package_plan_fingerprint_mset:
  assumes "mset ps = mset qs" "package_plan_fingerprint ps = Inr fp"
  shows "package_plan_fingerprint qs = Inr fp"
  using assms validate_package_plan_mset[OF assms(1)]
  by (auto simp: package_plan_fingerprint_def result_iffs)

lemma package_plan_fingerprint_hex:
  "package_plan_fingerprint ps = Inr fp \<Longrightarrow> is_hex_digest 64 fp"
  by (auto simp: package_plan_fingerprint_def result_iffs sha256_hex_digest)

end
