(* ===== verification/Snapshot_Description.thy ===== *)
theory Snapshot_Description
  imports Json_Codec Operation_Identity Package_Plan
begin

text \<open>
  The ownership metadata in the description of a snapshot, on both sides of the privilege boundary:
  \<open>parse_snapshot_description\<close> of \<open>app/inventory/snapshot_identity.py\<close>, and the identity, the description and
  the parser that \<open>deploy/hubinet-package-snapshot-helper.py\<close> keeps for itself. A parsed claim is the record of
  its fields on both sides.
\<close>

section \<open>Text\<close>

definition py_strip :: "string \<Rightarrow> string" where
  "py_strip v = rev (dropWhile py_isspace (rev (dropWhile py_isspace v)))"

definition starts_with :: "string \<Rightarrow> string \<Rightarrow> bool" where
  "starts_with p v \<longleftrightarrow> take (length p) v = p"

text \<open>\<open>replace("\r\n", "\n").replace("\r", "\n")\<close>.\<close>

fun normalize_newlines :: "string \<Rightarrow> string" where
  "normalize_newlines [] = []"
| "normalize_newlines (c # cs) =
     (if c = CHR 0x0D then (case cs of d # ds \<Rightarrow> if d = CHR 0x0A then CHR 0x0A # normalize_newlines ds
                                                    else CHR 0x0A # normalize_newlines cs
                            | [] \<Rightarrow> [CHR 0x0A])
      else c # normalize_newlines cs)"

section \<open>Reading typed fields\<close>

text \<open>\<open>value == n\<close> for a decoded value and an int: \<open>True\<close> and \<open>1.0\<close> equal 1 in Python.\<close>

fun json_equals_int :: "json \<Rightarrow> int \<Rightarrow> bool" where
  "json_equals_int (JInt i) n \<longleftrightarrow> i = n"
| "json_equals_int (JBool b) n \<longleftrightarrow> (if b then 1 else 0) = n"
| "json_equals_int (JMillis k) n \<longleftrightarrow> int k = 1000 * n"
| "json_equals_int _ n \<longleftrightarrow> False"

definition uuid_field :: "exn \<Rightarrow> json \<Rightarrow> uuid result" where
  "uuid_field e v = (case v of JStr t \<Rightarrow> checkE (is_canonical_uuid t) e (Inr t) | _ \<Rightarrow> Inl e)"

definition positive_field :: "exn \<Rightarrow> json \<Rightarrow> int result" where
  "positive_field e v = (case v of JInt i \<Rightarrow> checkE (0 < i) e (Inr i) | _ \<Rightarrow> Inl e)"

definition not_canonical :: "string \<Rightarrow> exn" where
  "not_canonical field = ValueError (field @ '' must be a canonical UUID'')"

definition not_positive :: "string \<Rightarrow> exn" where
  "not_positive field = ValueError (field @ '' must be a positive integer'')"

definition OWNERSHIP_FIELDS :: "string list" where
  "OWNERSHIP_FIELDS =
     [''job_id'', ''resource_id'', ''resource_continuity_revision'', ''inventory_source_id'', ''backend_instance_id'']"

definition OWNERSHIP_KEYS :: "string list" where
  "OWNERSHIP_KEYS = ''protocol'' # ''kind'' # OWNERSHIP_FIELDS"

definition dict_get :: "(string \<times> json) list \<Rightarrow> string \<Rightarrow> json" where
  "dict_get kvs k = (case map_of kvs k of None \<Rightarrow> JNull | Some v \<Rightarrow> v)"

text \<open>The five typed fields of a claim, in the order the constructor reads them.\<close>

definition ownership_of :: "(string \<times> json) list \<Rightarrow> snapshot_ownership result" where
  "ownership_of kvs =
     bindE (uuid_field (not_canonical ''job_id'') (dict_get kvs ''job_id'')) (\<lambda>job.
     bindE (uuid_field (not_canonical ''resource_id'') (dict_get kvs ''resource_id'')) (\<lambda>res.
     bindE (positive_field (not_positive ''resource_continuity_revision'') (dict_get kvs ''resource_continuity_revision'')) (\<lambda>continuity.
     bindE (uuid_field (not_canonical ''inventory_source_id'') (dict_get kvs ''inventory_source_id'')) (\<lambda>source.
     bindE (uuid_field (not_canonical ''backend_instance_id'') (dict_get kvs ''backend_instance_id'')) (\<lambda>backend.
       Inr \<lparr>own_protocol = SNAPSHOT_METADATA_PROTOCOL, own_kind = SNAPSHOT_KIND_PRE_UPDATE,
            own_job_id = job, own_resource_id = res, own_resource_continuity_revision = continuity,
            own_inventory_source_id = source, own_backend_instance_id = backend\<rparr>)))))"

definition marker_lines :: "string \<Rightarrow> string list" where
  "marker_lines description =
     filter (starts_with SNAPSHOT_METADATA_MARKER)
       (map py_strip (split_on (CHR 0x0A) (normalize_newlines description)))"

section \<open>The backend's parser\<close>

definition parse_claim_line :: "string \<Rightarrow> snapshot_ownership option result" where
  "parse_claim_line line =
     (let remainder = drop (length SNAPSHOT_METADATA_MARKER) line in
      checkE (starts_with '' '' remainder) (ValueError ''snapshot marker line is malformed'')
     (case json_loads (py_strip remainder) of
        None \<Rightarrow> Inl (ValueError ''snapshot ownership metadata is not valid JSON'')
      | Some (JObj payload) \<Rightarrow>
          checkE (set (map fst payload) = set OWNERSHIP_KEYS)
            (ValueError ''snapshot ownership metadata does not have the exact expected shape'')
         (checkE (json_equals_int (dict_get payload ''protocol'') SNAPSHOT_METADATA_PROTOCOL)
            (ValueError ''snapshot ownership protocol is unsupported'')
         (checkE (dict_get payload ''kind'' = JStr SNAPSHOT_KIND_PRE_UPDATE)
            (ValueError ''snapshot ownership kind is not pre-update'')
         (bindE (ownership_of payload) (\<lambda>w. Inr (Some w)))))
      | Some _ \<Rightarrow> Inl (ValueError ''snapshot ownership metadata does not have the exact expected shape'')))"

definition parse_snapshot_description :: "json \<Rightarrow> snapshot_ownership option result" where
  "parse_snapshot_description value =
     (case value of
        JStr description \<Rightarrow>
          if \<not> looks_like_hubinet_snapshot description then Inr None
          else (case marker_lines description of
             [line] \<Rightarrow> parse_claim_line line
           | _ \<Rightarrow> Inl (ValueError ''snapshot description does not carry exactly one Hubinet marker line''))
      | _ \<Rightarrow> Inr None)"

section \<open>The helper's identity, description and parser\<close>

definition helper_identity_json :: "job_key \<Rightarrow> json" where
  "helper_identity_json k = (case k of (backend, job, res, continuity) \<Rightarrow>
     JObj [(''backend_instance_id'', JStr backend), (''job_id'', JStr job),
           (''resource_id'', JStr res), (''resource_continuity_revision'', JInt continuity)])"

definition derive_snapshot_identity :: "job_key \<Rightarrow> string \<times> string" where
  "derive_snapshot_identity k =
     (let payload = json_dumps (helper_identity_json k);
          name_digest = sha256_hex (''hubinet-ops/package-update/pre-update-snapshot-name/v1'' @ [CHR 0x0A] @ payload);
          snapshot_name = ''hubinet-preupd-'' @ take 24 name_digest in
      (operation_uuid (''hubinet-ops/package-update/snapshot-operation-id/v1'' @ [CHR 0x0A] @ payload), snapshot_name))"

definition build_snapshot_description :: "snapshot_ownership \<Rightarrow> string" where
  "build_snapshot_description w =
     (let payload = json_dumps (JObj
        [(''protocol'', JInt 1), (''kind'', JStr ''pre_update''),
         (''job_id'', JStr (own_job_id w)), (''resource_id'', JStr (own_resource_id w)),
         (''resource_continuity_revision'', JInt (own_resource_continuity_revision w)),
         (''inventory_source_id'', JStr (own_inventory_source_id w)),
         (''backend_instance_id'', JStr (own_backend_instance_id w))]) in
      ''Hubinet Ops job-owned pre-update snapshot - do not delete manually'' @ [CHR 0x0A]
        @ ''hubinet-ops-snapshot-v1'' @ '' '' @ payload)"

text \<open>The helper checks the four identifiers before the revision.\<close>

definition helper_ownership_of :: "(string \<times> json) list \<Rightarrow> snapshot_ownership result" where
  "helper_ownership_of kvs =
     bindE (uuid_field (not_canonical ''job_id'') (dict_get kvs ''job_id'')) (\<lambda>job.
     bindE (uuid_field (not_canonical ''resource_id'') (dict_get kvs ''resource_id'')) (\<lambda>res.
     bindE (uuid_field (not_canonical ''inventory_source_id'') (dict_get kvs ''inventory_source_id'')) (\<lambda>source.
     bindE (uuid_field (not_canonical ''backend_instance_id'') (dict_get kvs ''backend_instance_id'')) (\<lambda>backend.
     bindE (positive_field (not_positive ''resource_continuity_revision'') (dict_get kvs ''resource_continuity_revision'')) (\<lambda>continuity.
       Inr \<lparr>own_protocol = 1, own_kind = ''pre_update'',
            own_job_id = job, own_resource_id = res, own_resource_continuity_revision = continuity,
            own_inventory_source_id = source, own_backend_instance_id = backend\<rparr>)))))"

definition helper_claim_line :: "string \<Rightarrow> snapshot_ownership option result" where
  "helper_claim_line line =
     (let remainder = drop (length ''hubinet-ops-snapshot-v1'') line in
      checkE (starts_with '' '' remainder) (ValueError ''snapshot marker line is malformed'')
     (case json_loads (py_strip remainder) of
        None \<Rightarrow> Inl (ValueError ''snapshot metadata is not valid JSON'')
      | Some (JObj payload) \<Rightarrow>
          checkE (set (map fst payload) = set OWNERSHIP_KEYS)
            (ValueError ''snapshot metadata does not have the exact shape'')
         (checkE (json_equals_int (dict_get payload ''protocol'') 1)
            (ValueError ''snapshot metadata protocol is unsupported'')
         (checkE (dict_get payload ''kind'' = JStr ''pre_update'')
            (ValueError ''snapshot metadata kind is not pre-update'')
         (bindE (helper_ownership_of payload) (\<lambda>w. Inr (Some w)))))
      | Some _ \<Rightarrow> Inl (ValueError ''snapshot metadata does not have the exact shape'')))"

definition helper_parse_description :: "json \<Rightarrow> snapshot_ownership option result" where
  "helper_parse_description value =
     (case value of
        JStr description \<Rightarrow>
          if \<not> contains ''hubinet-ops-snapshot'' description then Inr None
          else (case marker_lines description of
             [line] \<Rightarrow> helper_claim_line line
           | _ \<Rightarrow> Inl (ValueError ''snapshot metadata is not exactly one marker line''))
      | _ \<Rightarrow> Inr None)"

section \<open>What is built is read back\<close>

lemma contains_prefix: "contains n (n @ ys)"
  by (cases "n @ ys") (metis append_is_Nil_conv contains.simps(1), metis append_eq_conv_conj contains.simps(2))

lemma contains_later: "contains n ys \<Longrightarrow> contains n (xs @ ys)"
  by (induction xs) auto

lemma normalize_plain: "CHR 0x0D \<notin> set v \<Longrightarrow> normalize_newlines v = v"
  by (induction v) auto

lemma split_on_none: "s \<notin> set v \<Longrightarrow> split_on s v = [v]"
  by (induction v) auto

lemma split_on_once: "s \<notin> set a \<Longrightarrow> s \<notin> set b \<Longrightarrow> split_on s (a @ s # b) = [a, b]"
  by (induction a) (auto simp: split_on_none)

lemma strip_bounded: "v \<noteq> [] \<Longrightarrow> \<not> py_isspace (hd v) \<Longrightarrow> \<not> py_isspace (last v) \<Longrightarrow> py_strip v = v"
proof -
  assume v: "v \<noteq> []" "\<not> py_isspace (hd v)" "\<not> py_isspace (last v)"
  have "dropWhile py_isspace v = v" using v by (cases v) auto
  moreover have "dropWhile py_isspace (rev v) = rev v" using v(1,3) by (cases "rev v") (auto simp: hd_rev[symmetric])
  ultimately show "py_strip v = v" by (simp add: py_strip_def)
qed

lemma strip_leading: "py_isspace c \<Longrightarrow> py_strip (c # v) = py_strip v"
  by (simp add: py_strip_def)

text \<open>The payload of a claim: printable, an object, between braces.\<close>

definition claim_members :: "snapshot_ownership \<Rightarrow> (string \<times> json) list" where
  "claim_members w =
     [(''protocol'', JInt 1), (''kind'', JStr ''pre_update''), (''job_id'', JStr (own_job_id w)),
      (''resource_id'', JStr (own_resource_id w)), (''resource_continuity_revision'', JInt (own_resource_continuity_revision w)),
      (''inventory_source_id'', JStr (own_inventory_source_id w)), (''backend_instance_id'', JStr (own_backend_instance_id w))]"

definition claim_payload :: "snapshot_ownership \<Rightarrow> string" where
  "claim_payload w = json_dumps (JObj (claim_members w))"

lemma join_comma_printable: "\<forall>x \<in> set xs. list_all printable x \<Longrightarrow> list_all printable (join_comma xs)"
proof -
  have "printable (CHR '','')" by code_simp
  then show "\<forall>x \<in> set xs. list_all printable x \<Longrightarrow> list_all printable (join_comma xs)"
    by (induction xs rule: join_comma.induct) auto
qed

lemma claim_payload_printable: "list_all printable (claim_payload w)"
proof -
  let ?line = "\<lambda>(k, v). (k, json_string k @ CHR '':'' # json_dumps v)"
  have p: "printable (CHR ''{'')" "printable (CHR ''}'')" "printable (CHR '':'')" by code_simp+
  have "list_all printable (json_dumps (snd kv))" if "kv \<in> set (claim_members w)" for kv
    using that string_printable decimal_int_printable by (auto simp: claim_members_def)
  then have "\<forall>x \<in> set (map snd (sort_key fst (map ?line (claim_members w)))). list_all printable x"
    using p(3) string_printable by (fastforce simp: list_all_iff)
  from join_comma_printable[OF this] p show ?thesis by (simp add: claim_payload_def)
qed

lemma claim_payload_shape: "\<exists>t. claim_payload w = CHR ''{'' # t @ ''}''"
  by (auto simp: claim_payload_def)

lemma claim_keys_distinct: "distinct (map fst (claim_members w))"
  by (simp add: claim_members_def)

lemma claim_payload_loads:
  assumes "length (decimal_nat (nat \<bar>own_resource_continuity_revision w\<bar>)) \<le> 4300"
  shows "json_loads (claim_payload w) = Some (JObj (sort_key fst (claim_members w)))"
proof -
  have "length (decimal_nat 1) \<le> 4300" by code_simp
  with assms have "\<forall>kv \<in> set (claim_members w). json_plain (snd kv)" by (simp add: claim_members_def)
  from json_object_round_trip[OF claim_keys_distinct this] show ?thesis by (simp add: claim_payload_def)
qed

lemma dict_get_sorted:
  assumes "distinct (map fst kvs)"
  shows "dict_get (sort_key fst kvs) k = dict_get kvs k"
proof -
  have "map_of (sort_key fst kvs) = map_of kvs"
    by (rule map_of_eqI) (use assms in \<open>auto simp: distinct_map map_of_eq_Some_iff\<close>)
  then show ?thesis by (simp add: dict_get_def)
qed

text \<open>An ownership that the backend's encoder accepts.\<close>

definition encodable :: "snapshot_ownership \<Rightarrow> bool" where
  "encodable w \<longleftrightarrow>
     own_protocol w = 1 \<and> own_kind w = ''pre_update'' \<and> 0 < own_resource_continuity_revision w
     \<and> is_canonical_uuid (own_job_id w) \<and> is_canonical_uuid (own_resource_id w)
     \<and> is_canonical_uuid (own_inventory_source_id w) \<and> is_canonical_uuid (own_backend_instance_id w)
     \<and> length (build_snapshot_description w) \<le> 600"

lemma build_payload:
  "build_snapshot_description w =
     ''Hubinet Ops job-owned pre-update snapshot - do not delete manually'' @ CHR 0x0A # ''hubinet-ops-snapshot-v1 '' @ claim_payload w"
  by (simp add: build_snapshot_description_def claim_payload_def claim_members_def)

lemma encode_Inr: "encode_snapshot_description w = Inr d \<longleftrightarrow> encodable w \<and> d = build_snapshot_description w"
proof -
  let ?d = "SNAPSHOT_DESCRIPTION_HEADLINE @ newline @ SNAPSHOT_METADATA_MARKER @ '' '' @ json_dumps (ownership_json w)"
  have j: "own_protocol w = 1 \<Longrightarrow> own_kind w = ''pre_update'' \<Longrightarrow> json_dumps (ownership_json w) = claim_payload w"
    by (simp add: ownership_json_def claim_payload_def claim_members_def)
  then have d: "own_protocol w = 1 \<Longrightarrow> own_kind w = ''pre_update'' \<Longrightarrow> ?d = build_snapshot_description w"
    by (simp add: build_payload SNAPSHOT_DESCRIPTION_HEADLINE_def newline_def SNAPSHOT_METADATA_MARKER_def)
  have "\<forall>c \<in> set (claim_payload w). 32 \<le> (of_char c :: nat) \<and> (of_char c :: nat) \<le> 126"
    by (rule claim_payload_printable[unfolded list_all_iff printable_def])
  with j have a: "own_protocol w = 1 \<Longrightarrow> own_kind w = ''pre_update'' \<Longrightarrow>
      \<forall>c \<in> set (json_dumps (ownership_json w)). 32 \<le> (of_char c :: nat) \<and> (of_char c :: nat) \<le> 126" by simp
  have "encode_snapshot_description w = Inr d \<longleftrightarrow>
     (0 < own_protocol w \<and> is_canonical_uuid (own_job_id w) \<and> is_canonical_uuid (own_resource_id w)
      \<and> 0 < own_resource_continuity_revision w \<and> is_canonical_uuid (own_inventory_source_id w)
      \<and> is_canonical_uuid (own_backend_instance_id w)) \<and> own_kind w = ''pre_update'' \<and> own_protocol w = 1
     \<and> length ?d \<le> 600 \<and> (\<forall>c \<in> set (json_dumps (ownership_json w)). 32 \<le> (of_char c :: nat) \<and> (of_char c :: nat) \<le> 126)
     \<and> d = ?d"
    unfolding encode_snapshot_description_def Let_def require_positive_integer_def SNAPSHOT_KIND_PRE_UPDATE_def
      SNAPSHOT_METADATA_PROTOCOL_def SNAPSHOT_DESCRIPTION_MAX_LENGTH_def
    by (simp only: bindE_Inr_iff checkE_Inr_iff require_uuid_Inr sum.inject) (simp only: ex_simps simp_thms conj_assoc; blast)
  also have "\<dots> \<longleftrightarrow> encodable w \<and> d = build_snapshot_description w"
  proof (cases "own_protocol w = 1 \<and> own_kind w = ''pre_update''")
    case True
    then show ?thesis unfolding encodable_def d[OF conjunct1[OF True] conjunct2[OF True]]
      using a[OF conjunct1[OF True] conjunct2[OF True]] by auto
  next
    case False
    then show ?thesis unfolding encodable_def by blast
  qed
  finally show ?thesis .
qed

text \<open>The claim is the only marker line.\<close>

lemma printable_clean: "list_all printable v \<Longrightarrow> CHR 0x0A \<notin> set v \<and> CHR 0x0D \<notin> set v"
proof -
  have "\<not> printable (CHR 0x0A)" "\<not> printable (CHR 0x0D)" by code_simp+
  then show "list_all printable v \<Longrightarrow> CHR 0x0A \<notin> set v \<and> CHR 0x0D \<notin> set v" by (auto simp: list_all_iff)
qed

lemma marker_lines_build: "marker_lines (build_snapshot_description w) = [''hubinet-ops-snapshot-v1 '' @ claim_payload w]"
proof -
  let ?h = "''Hubinet Ops job-owned pre-update snapshot - do not delete manually''"
  let ?m = "''hubinet-ops-snapshot-v1 '' @ claim_payload w"
  have c: "CHR 0x0A \<notin> set (claim_payload w)" "CHR 0x0D \<notin> set (claim_payload w)"
    using printable_clean[OF claim_payload_printable] by auto
  obtain t where t: "claim_payload w = CHR ''{'' # t @ ''}''" using claim_payload_shape by blast
  have n: "normalize_newlines (build_snapshot_description w) = ?h @ CHR 0x0A # ?m"
    using c(2) by (subst normalize_plain) (simp_all add: build_payload)
  have sp: "split_on (CHR 0x0A) (?h @ CHR 0x0A # ?m) = [?h, ?m]"
    by (rule split_on_once) (use c(1) in simp_all)
  have s: "py_strip ?h = ?h" by code_simp
  have m: "py_strip ?m = ?m" by (rule strip_bounded) (simp_all add: t py_isspace_def)
  show ?thesis
    unfolding marker_lines_def n sp list.map s m by (simp add: starts_with_def SNAPSHOT_METADATA_MARKER_def)
qed

lemma claim_get:
  "dict_get (sort_key fst (claim_members w)) k = dict_get (claim_members w) k"
  by (rule dict_get_sorted) (rule claim_keys_distinct)

lemma join_comma_member: "x \<in> set xs \<Longrightarrow> length x \<le> length (join_comma xs)"
  by (induction xs rule: join_comma.induct) auto

lemma revision_in_payload: "length (decimal_nat (nat \<bar>own_resource_continuity_revision w\<bar>)) \<le> length (claim_payload w)"
proof -
  let ?r = "own_resource_continuity_revision w"
  let ?line = "\<lambda>(k, v). (k, json_string k @ CHR '':'' # json_dumps v)"
  let ?key = "''resource_continuity_revision''"
  have "(?key, JInt ?r) \<in> set (claim_members w)" by (simp add: claim_members_def)
  then have "json_string ?key @ CHR '':'' # json_dumps (JInt ?r) \<in> set (map snd (sort_key fst (map ?line (claim_members w))))"
    by force
  from join_comma_member[OF this]
  have "length (decimal_int ?r) \<le> length (claim_payload w)" by (simp add: claim_payload_def)
  moreover have "length (decimal_nat (nat \<bar>?r\<bar>)) \<le> length (decimal_int ?r)" by (simp add: decimal_int_def)
  ultimately show ?thesis by simp
qed

lemma claim_line_read:
  assumes "encodable w"
  shows "parse_claim_line (''hubinet-ops-snapshot-v1 '' @ claim_payload w) = Inr (Some w)"
    and "helper_claim_line (''hubinet-ops-snapshot-v1 '' @ claim_payload w) = Inr (Some w)"
proof -
  obtain t where t: "claim_payload w = CHR ''{'' # t @ ''}''" using claim_payload_shape by blast
  have strip: "py_strip (CHR '' '' # claim_payload w) = claim_payload w"
    by (subst strip_leading, simp add: py_isspace_def, rule strip_bounded) (simp_all add: t py_isspace_def)
  have "length (claim_payload w) \<le> 600" using assms by (simp add: encodable_def build_payload)
  then have loads: "json_loads (claim_payload w) = Some (JObj (sort_key fst (claim_members w)))"
    using claim_payload_loads revision_in_payload[of w] by simp
  have keys: "fst ` set (claim_members w) = set OWNERSHIP_KEYS"
    by (auto simp: claim_members_def OWNERSHIP_KEYS_def OWNERSHIP_FIELDS_def)
  have fields: "dict_get (claim_members w) ''protocol'' = JInt 1" "dict_get (claim_members w) ''kind'' = JStr ''pre_update''"
    "dict_get (claim_members w) ''job_id'' = JStr (own_job_id w)" "dict_get (claim_members w) ''resource_id'' = JStr (own_resource_id w)"
    "dict_get (claim_members w) ''resource_continuity_revision'' = JInt (own_resource_continuity_revision w)"
    "dict_get (claim_members w) ''inventory_source_id'' = JStr (own_inventory_source_id w)"
    "dict_get (claim_members w) ''backend_instance_id'' = JStr (own_backend_instance_id w)"
    by (simp_all add: claim_members_def dict_get_def)
  note facts = strip loads keys claim_get fields starts_with_def uuid_field_def positive_field_def
  show "parse_claim_line (''hubinet-ops-snapshot-v1 '' @ claim_payload w) = Inr (Some w)"
    using assms by (simp add: parse_claim_line_def ownership_of_def encodable_def facts SNAPSHOT_METADATA_MARKER_def
        SNAPSHOT_METADATA_PROTOCOL_def SNAPSHOT_KIND_PRE_UPDATE_def)
  show "helper_claim_line (''hubinet-ops-snapshot-v1 '' @ claim_payload w) = Inr (Some w)"
    using assms by (simp add: helper_claim_line_def helper_ownership_of_def encodable_def facts)
qed

lemma build_is_claimed: "contains ''hubinet-ops-snapshot'' (build_snapshot_description w)"
proof -
  have "contains ''hubinet-ops-snapshot'' (''hubinet-ops-snapshot'' @ ''-v1 '' @ claim_payload w)" by (rule contains_prefix)
  from contains_later[OF this, of "''Hubinet Ops job-owned pre-update snapshot - do not delete manually'' @ [CHR 0x0A]"]
  show ?thesis by (simp add: build_payload del: contains.simps)
qed

lemma parse_build:
  assumes "encodable w"
  shows "parse_snapshot_description (JStr (build_snapshot_description w)) = Inr (Some w)"
    and "helper_parse_description (JStr (build_snapshot_description w)) = Inr (Some w)"
  using claim_line_read[OF assms] build_is_claimed[of w]
  by (simp_all only: parse_snapshot_description_def helper_parse_description_def looks_like_hubinet_snapshot_def
      SNAPSHOT_METADATA_TOKEN_def marker_lines_build json.case list.case if_True if_False not_True_eq_False)

text \<open>What a parser accepts is a claim of the helper's own fields.\<close>

lemma parsed_ownership: "ownership_of kvs = Inr w \<longleftrightarrow> helper_ownership_of kvs = Inr w"
  by (auto simp: ownership_of_def helper_ownership_of_def bindE_Inr_iff SNAPSHOT_METADATA_PROTOCOL_def SNAPSHOT_KIND_PRE_UPDATE_def)

lemma parsers_agree: "parse_snapshot_description d = Inr x \<longleftrightarrow> helper_parse_description d = Inr x"
proof -
  have line: "parse_claim_line l = Inr y \<longleftrightarrow> helper_claim_line l = Inr y" for l y
    by (auto simp: parse_claim_line_def helper_claim_line_def Let_def checkE_Inr_iff bindE_Inr_iff parsed_ownership
        SNAPSHOT_METADATA_PROTOCOL_def SNAPSHOT_KIND_PRE_UPDATE_def SNAPSHOT_METADATA_MARKER_def
        split: option.splits json.splits)
  show ?thesis
    by (auto simp: parse_snapshot_description_def helper_parse_description_def looks_like_hubinet_snapshot_def line
        SNAPSHOT_METADATA_TOKEN_def split: json.splits list.splits)
qed

lemma helper_identity: "derive_snapshot_identity k = snapshot_identity_of k"
  by (simp add: derive_snapshot_identity_def snapshot_identity_of_def snapshot_operation_text_def snapshot_name_text_def
      helper_identity_json_def identity_json_def newline_def snapshot_name_domain_def snapshot_operation_domain_def
      SNAPSHOT_NAME_PREFIX_def Let_def split: prod.splits del: json_dumps.simps)

end
