(* ===== verification/Host_Runtime.thy ===== *)
theory Host_Runtime
  imports Snapshot_Description
begin

text \<open>
  What the host helpers under \<open>deploy/\<close> share: actions on the state of the PVE host, the durable journal and
  the captured output of one operation, the lease of a VMID, and the detached executor that runs the physical
  command. Each helper has such a state of its own, in its own directory.

  One call of a helper is one action, from its first read under the lease of its VMID to its answer, and only a
  detached executor outlives it, holding that lease until it ends. That no other call of the same operation runs
  in between is the lease for calls that name the same VMID; calls that name another, and the lines a call still
  runs once its executor has ended, are taken as serialized too. The outcome of everything outside the helper is
  an argument: the answers of \<open>pvesh\<close>, whether a file could be written, whether the process was killed there,
  whether the executor came up. A file holding JSON is its decoded value, \<open>None\<close> where it does not decode.
\<close>

section \<open>Commands\<close>

text \<open>A byte is a character.\<close>

record command_result =
  cr_returncode :: int
  cr_stdout :: string
  cr_stderr :: string
  cr_timed_out :: bool
  cr_output_exceeded :: bool

definition continuation :: "char \<Rightarrow> nat option" where
  "continuation c = (let n = of_char c :: nat in if 128 \<le> n \<and> n < 192 then Some (n - 128) else None)"

text \<open>\<open>bytes.decode("utf-8")\<close>; a code point above 255 is outside the model's text.\<close>

fun utf8_decode :: "string \<Rightarrow> string option" where
  "utf8_decode [] = Some []"
| "utf8_decode (b # bs) =
     (let n = of_char b :: nat in
      if n < 128 then map_option (Cons b) (utf8_decode bs)
      else if n = 194 \<or> n = 195 then
        (case bs of
           [] \<Rightarrow> None
         | c # cs \<Rightarrow>
             (case continuation c of
                None \<Rightarrow> None
              | Some k \<Rightarrow> map_option (Cons (char_of (64 * (n - 192) + k))) (utf8_decode cs)))
      else None)"

definition decoded_json :: "string \<Rightarrow> json option" where
  "decoded_json bytes = Option.bind (utf8_decode bytes) json_loads"

text \<open>
  The task identity in the answer of \<open>pvesh create\<close>: the whole text, or the one JSON string that ends it, with no
  other task named before. A candidate is the text before its quote and the decoded string.
\<close>

fun upid_candidates :: "string \<Rightarrow> string \<Rightarrow> (string \<times> string) list" where
  "upid_candidates before [] = []"
| "upid_candidates before (c # cs) =
     (if c = CHR 0x22 then
        (case scan_string cs of
           Some (v, rest) \<Rightarrow> if pve_upid_match v \<and> py_strip rest = [] then [(before, v)] else []
         | None \<Rightarrow> [])
      else []) @ upid_candidates (before @ [c]) cs"

definition extract_upid_text :: "string \<Rightarrow> string option" where
  "extract_upid_text bytes =
     (case utf8_decode bytes of
        None \<Rightarrow> None
      | Some txt \<Rightarrow>
          (let stripped = py_strip txt in
           if pve_upid_match stripped then Some stripped
           else (case upid_candidates [] txt of
                   [(before, upid)] \<Rightarrow> if contains ''UPID:'' before then None else Some upid
                 | _ \<Rightarrow> None)))"

section \<open>The state of the host\<close>

record host_state =
  host_journal :: "uuid \<Rightarrow> json option option"
  host_stdout :: "uuid \<Rightarrow> string option"
  host_stderr :: "uuid \<Rightarrow> string option"
  host_marker :: "uuid \<Rightarrow> json option option"
  host_running :: "(uuid \<times> int) list"
  host_launches :: "(uuid \<times> string list) list"

text \<open>
  The executors that were released and still run hold the lease of their VMID. \<open>host_launches\<close> lists every
  physical command an executor was permitted to start; no definition reads it.
\<close>

datatype write_fate = Written | ShortWrite | WriteFailed | WriteFailedAfterReplace | KilledBeforeReplace | KilledAfterReplace

datatype handoff = ExecutorReady | ExecutorNotForked | ExecutorSilent

text \<open>
  \<open>env_pve n\<close> answers the n-th command of the call, \<open>env_guest n\<close> the n-th in the guest with its standard input; \<open>None\<close>
  is a command that could not be run.
\<close>

record host_env =
  env_pve :: "nat \<Rightarrow> string list \<Rightarrow> command_result option"
  env_guest :: "nat \<Rightarrow> string list \<Rightarrow> string \<Rightarrow> command_result option"
  env_write :: "nat \<Rightarrow> write_fate"
  env_lease_opens :: bool
  env_journal_readable :: bool
  env_capture_readable :: bool
  env_removed :: nat
  env_handoff :: handoff
  env_released :: bool
  env_finished :: "command_result option"

section \<open>Actions\<close>

text \<open>What an action did to the host stays when it raises.\<close>

type_synonym 'a action = "host_state \<Rightarrow> 'a result \<times> host_state"

definition act_ret :: "'a \<Rightarrow> 'a action" where
  "act_ret x s = (Inr x, s)"

definition act_raise :: "exn \<Rightarrow> 'a action" where
  "act_raise e s = (Inl e, s)"

definition act_lift :: "'a result \<Rightarrow> 'a action" where
  "act_lift r s = (r, s)"

definition act_bind :: "'a action \<Rightarrow> ('a \<Rightarrow> 'b action) \<Rightarrow> 'b action" where
  "act_bind m f s = (case m s of (Inl e, s') \<Rightarrow> (Inl e, s') | (Inr x, s') \<Rightarrow> f x s')"

definition act_need :: "bool \<Rightarrow> exn \<Rightarrow> 'a action \<Rightarrow> 'a action" where
  "act_need b e k = (if b then k else act_raise e)"

definition act_get :: "(host_state \<Rightarrow> 'a result) \<Rightarrow> 'a action" where
  "act_get f s = (f s, s)"

definition act_try :: "'a action \<Rightarrow> (exn \<Rightarrow> 'a action) \<Rightarrow> 'a action" where
  "act_try m h s = (case m s of (Inl e, s') \<Rightarrow> h e s' | (Inr x, s') \<Rightarrow> (Inr x, s'))"

section \<open>Durable files\<close>

definition put_journal :: "uuid \<Rightarrow> json option \<Rightarrow> host_state \<Rightarrow> host_state" where
  "put_journal i f s = s\<lparr>host_journal := (host_journal s)(i := Some f)\<rparr>"

text \<open>
  An atomic replacement with the sync of its directory. A short write that the writer does not notice leaves
  text that does not decode.
\<close>

definition replace_journal :: "write_fate \<Rightarrow> uuid \<Rightarrow> (string \<times> json) list \<Rightarrow> unit action" where
  "replace_journal fate i record s =
     (case fate of
        Written \<Rightarrow> (Inr (), put_journal i (Some (JObj record)) s)
      | ShortWrite \<Rightarrow> (Inr (), put_journal i None s)
      | WriteFailed \<Rightarrow> (Inl (OSError ''journal write failed''), s)
      | WriteFailedAfterReplace \<Rightarrow> (Inl (OSError ''journal directory sync failed''), put_journal i (Some (JObj record)) s)
      | KilledBeforeReplace \<Rightarrow> (Inl Killed, s)
      | KilledAfterReplace \<Rightarrow> (Inl Killed, put_journal i (Some (JObj record)) s))"

definition capture_metadata :: "command_result \<Rightarrow> (string \<times> json) list" where
  "capture_metadata r =
     [(''capture_version'', JInt 1), (''returncode'', JInt (cr_returncode r)), (''timed_out'', JBool (cr_timed_out r)),
      (''output_exceeded'', JBool (cr_output_exceeded r)),
      (''stdout_size'', JInt (int (length (cr_stdout r)))), (''stdout_sha256'', JStr (sha256_hex (cr_stdout r))),
      (''stderr_size'', JInt (int (length (cr_stderr r)))), (''stderr_sha256'', JStr (sha256_hex (cr_stderr r)))]"

text \<open>The two streams, then the marker; \<open>n\<close> files are published before the executor ends.\<close>

definition write_completed_capture :: "nat \<Rightarrow> uuid \<Rightarrow> command_result \<Rightarrow> host_state \<Rightarrow> host_state" where
  "write_completed_capture n i r s =
     s\<lparr>host_stdout := (if 1 \<le> n then (host_stdout s)(i := Some (cr_stdout r)) else host_stdout s),
       host_stderr := (if 2 \<le> n then (host_stderr s)(i := Some (cr_stderr r)) else host_stderr s),
       host_marker := (if 3 \<le> n then (host_marker s)(i := Some (Some (JObj (capture_metadata r)))) else host_marker s)\<rparr>"

definition MAX_CAPTURE_OUTPUT_BYTES :: int where
  "MAX_CAPTURE_OUTPUT_BYTES = 512 * 1024"

text \<open>One stream against the size and the digest its marker states.\<close>

definition captured_stream :: "(string \<times> json) list \<Rightarrow> string \<Rightarrow> string option \<Rightarrow> string option" where
  "captured_stream metadata name file =
     (case (dict_get metadata (name @ ''_size''), dict_get metadata (name @ ''_sha256''), file) of
        (JInt sz, JStr digest, Some payload) \<Rightarrow>
          if 0 \<le> sz \<and> sz \<le> MAX_CAPTURE_OUTPUT_BYTES + 1 \<and> length digest = 64
             \<and> int (length payload) = sz \<and> sha256_hex payload = digest
          then Some payload else None
      | _ \<Rightarrow> None)"

definition read_completed_capture :: "host_env \<Rightarrow> uuid \<Rightarrow> host_state \<Rightarrow> command_result option" where
  "read_completed_capture env i s =
     (if \<not> env_capture_readable env then None
      else case host_marker s i of
        Some (Some (JObj metadata)) \<Rightarrow>
          if \<not> json_equals_int (dict_get metadata ''capture_version'') 1 then None
          else (case (captured_stream metadata ''stdout'' (host_stdout s i), captured_stream metadata ''stderr'' (host_stderr s i),
                      dict_get metadata ''returncode'', dict_get metadata ''timed_out'', dict_get metadata ''output_exceeded'') of
             (Some out, Some err, JInt code, JBool timed_out, JBool exceeded) \<Rightarrow>
               Some \<lparr>cr_returncode = code, cr_stdout = out, cr_stderr = err, cr_timed_out = timed_out, cr_output_exceeded = exceeded\<rparr>
           | _ \<Rightarrow> None)
      | _ \<Rightarrow> None)"

text \<open>The streams and the marker are removed in turn; \<open>env_removed\<close> counts the removals that succeeded.\<close>

definition cleanup_capture :: "host_env \<Rightarrow> uuid \<Rightarrow> unit action" where
  "cleanup_capture env i s =
     (let n = env_removed env;
          s' = s\<lparr>host_stdout := (if 1 \<le> n then (host_stdout s)(i := None) else host_stdout s),
                 host_stderr := (if 2 \<le> n then (host_stderr s)(i := None) else host_stderr s),
                 host_marker := (if 3 \<le> n then (host_marker s)(i := None) else host_marker s)\<rparr>
      in (if 4 \<le> n then Inr () else Inl (OSError ''capture removal failed''), s'))"

section \<open>Leases and executors\<close>

definition with_lease :: "host_env \<Rightarrow> exn \<Rightarrow> int \<Rightarrow> 'a action \<Rightarrow> 'a action" where
  "with_lease env busy vmid k =
     act_need (env_lease_opens env) (OSError ''lease file'')
    (act_bind (act_get (\<lambda>s. Inr (vmid \<in> snd ` set (host_running s)))) (\<lambda>held. act_need (\<not> held) busy k))"

text \<open>
  The executor that was released: it starts the physical command and may already have ended, with its
  output published, when the helper goes on.
\<close>

definition start_executor :: "host_env \<Rightarrow> uuid \<Rightarrow> int \<Rightarrow> string list \<Rightarrow> unit action" where
  "start_executor env i vmid argv s =
     (if env_released env then
        (let s1 = s\<lparr>host_launches := host_launches s @ [(i, argv)]\<rparr> in
         case env_finished env of
           Some r \<Rightarrow> (Inr (), write_completed_capture 3 i r s1)
         | None \<Rightarrow> (Inr (), s1\<lparr>host_running := host_running s1 @ [(i, vmid)]\<rparr>))
      else (Inr (), s))"

text \<open>
  The submission barrier: the executor is ready, then the record \<open>submitted\<close> is durable, then the executor is
  released. A failure to write that record abandons the executor; a kill there leaves it to read the end of its pipe.
\<close>

definition submit_detached ::
    "host_env \<Rightarrow> write_fate \<Rightarrow> (handoff \<Rightarrow> exn) \<Rightarrow> exn \<Rightarrow> uuid \<Rightarrow> int \<Rightarrow> (string \<times> json) list \<Rightarrow> string list \<Rightarrow> unit action" where
  "submit_detached env fate no_runner not_journaled i vmid record argv =
     act_need (env_handoff env = ExecutorReady) (no_runner (env_handoff env))
    (act_bind (act_try (replace_journal fate i record)
                 (\<lambda>e. act_raise (if e = Killed then Killed else not_journaled)))
       (\<lambda>_. start_executor env i vmid argv))"

text \<open>An executor that still runs publishes the first \<open>n\<close> files of its capture and ends, releasing its lease.\<close>

definition finish_executor :: "nat \<Rightarrow> uuid \<times> int \<Rightarrow> command_result \<Rightarrow> host_state \<Rightarrow> host_state" where
  "finish_executor n x r s = (write_completed_capture n (fst x) r s)\<lparr>host_running := removeAll x (host_running s)\<rparr>"

definition capture_ended :: "uuid \<times> int \<Rightarrow> host_state \<Rightarrow> host_state \<Rightarrow> bool" where
  "capture_ended x s s' \<longleftrightarrow> (\<exists>n r. s' = finish_executor n x r s)"

section \<open>Reading typed values\<close>

fun json_truthy :: "json \<Rightarrow> bool" where
  "json_truthy JNull \<longleftrightarrow> False"
| "json_truthy (JBool b) \<longleftrightarrow> b"
| "json_truthy (JInt i) \<longleftrightarrow> i \<noteq> 0"
| "json_truthy (JMillis k) \<longleftrightarrow> k \<noteq> 0"
| "json_truthy (JStr t) \<longleftrightarrow> t \<noteq> []"
| "json_truthy (JList xs) \<longleftrightarrow> xs \<noteq> []"
| "json_truthy (JObj kvs) \<longleftrightarrow> kvs \<noteq> []"

text \<open>\<open>isinstance(value, dict) and set(value) == keys\<close>.\<close>

definition exact_object :: "string list \<Rightarrow> exn \<Rightarrow> json \<Rightarrow> (string \<times> json) list result" where
  "exact_object keys e v =
     (case v of JObj kvs \<Rightarrow> checkE (set (map fst kvs) = set keys) e (Inr kvs) | _ \<Rightarrow> Inl e)"

text \<open>\<open>NODE_RE.fullmatch\<close>: a letter or digit, then at most 62 letters, digits, dots and hyphens.\<close>

definition is_node_char :: "char \<Rightarrow> bool" where
  "is_node_char c \<longleftrightarrow> is_lower_alpha c \<or> is_upper_alpha c \<or> is_ascii_digit c"

definition pve_node_match :: "string \<Rightarrow> bool" where
  "pve_node_match v \<longleftrightarrow>
     (case v of [] \<Rightarrow> False
      | c # cs \<Rightarrow> is_node_char c \<and> length cs \<le> 62 \<and> list_all (\<lambda>d. is_node_char d \<or> d = CHR ''.'' \<or> d = CHR ''-'') cs)"

definition pve_snapshot_name_match :: "string \<Rightarrow> bool" where
  "pve_snapshot_name_match v \<longleftrightarrow> pve_configid_match v \<and> length v \<le> 40"

definition is_reserved_name :: "string \<Rightarrow> bool" where
  "is_reserved_name v \<longleftrightarrow> map ascii_lower v \<in> {''current'', ''vzdump''}"

definition opt_member :: "string \<Rightarrow> json option \<Rightarrow> (string \<times> json) list" where
  "opt_member k v = (case v of None \<Rightarrow> [] | Some x \<Rightarrow> [(k, x)])"

definition str_or_empty :: "string option \<Rightarrow> string" where
  "str_or_empty v = (case v of None \<Rightarrow> [] | Some t \<Rightarrow> t)"

text \<open>\<open>str(n)\<close> inside an argument of \<open>pvesh\<close>.\<close>

definition lxc_path :: "string \<Rightarrow> int \<Rightarrow> string \<Rightarrow> string" where
  "lxc_path node vmid rest = ''/nodes/'' @ node @ ''/lxc/'' @ decimal_int vmid @ rest"

end
