(* ===== verification/Snapshot_Helper.thy ===== *)
theory Snapshot_Helper
  imports Host_Runtime
begin

text \<open>
  \<open>deploy/hubinet-package-snapshot-helper.py\<close>: the typed request, the journal of one snapshot operation, the
  bounded reads of PVE, the evidence for the job's own snapshot, and the three operations. Answers are JSON
  objects. The test-only path that runs the command in the helper itself is left out.
\<close>

section \<open>Requests\<close>

record snapshot_request =
  sq_operation :: string
  sq_vmid :: int
  sq_node :: string
  sq_id :: uuid
  sq_name :: string
  sq_ownership :: snapshot_ownership

definition INSPECT_SNAPSHOT :: string where "INSPECT_SNAPSHOT = ''inspect_job_snapshot_state''"
definition ENSURE_SNAPSHOT :: string where "ENSURE_SNAPSHOT = ''ensure_pre_update_snapshot_submitted''"
definition SEAL_SNAPSHOT :: string where "SEAL_SNAPSHOT = ''seal_operation_never_submitted''"

definition snapshot_error :: "string \<Rightarrow> string \<Rightarrow> exn" where
  "snapshot_error classification message = HelperError classification message ''may_have_been_submitted''"

definition request_target :: "json \<Rightarrow> (int \<times> string) result" where
  "request_target v =
     bindE (exact_object [''vmid'', ''expected_node''] (ValueError ''target must have the exact snapshot-operation shape'') v) (\<lambda>target.
     bindE (case dict_get target ''vmid'' of
              JInt n \<Rightarrow> checkE (100 \<le> n \<and> n \<le> 999999999) (ValueError ''vmid must be a valid PVE integer VMID'') (Inr n)
            | _ \<Rightarrow> Inl (ValueError ''vmid must be a valid PVE integer VMID'')) (\<lambda>vmid.
     case dict_get target ''expected_node'' of
       JStr node \<Rightarrow> checkE (pve_node_match node) (ValueError ''expected_node is invalid'') (Inr (vmid, node))
     | _ \<Rightarrow> Inl (ValueError ''expected_node is invalid'')))"

definition request_snapshot_identity :: "json \<Rightarrow> (uuid \<times> string) result" where
  "request_snapshot_identity v =
     bindE (exact_object [''snapshot_operation_id'', ''snapshot_name''] (ValueError ''operation_identity must have the exact shape'') v) (\<lambda>identity.
     bindE (uuid_field (not_canonical ''snapshot_operation_id'') (dict_get identity ''snapshot_operation_id'')) (\<lambda>oid.
     case dict_get identity ''snapshot_name'' of
       JStr name \<Rightarrow> checkE (pve_snapshot_name_match name \<and> \<not> is_reserved_name name)
                      (ValueError ''snapshot_name is not a valid PVE snapshot name'') (Inr (oid, name))
     | _ \<Rightarrow> Inl (ValueError ''snapshot_name is not a valid PVE snapshot name'')))"

definition request_ownership :: "json \<Rightarrow> snapshot_ownership result" where
  "request_ownership v =
     bindE (exact_object OWNERSHIP_FIELDS (ValueError ''ownership must have the exact shape'') v) ownership_of"

definition ownership_key :: "snapshot_ownership \<Rightarrow> job_key" where
  "ownership_key w =
     (own_backend_instance_id w, own_job_id w, own_resource_id w, own_resource_continuity_revision w)"

definition validate_request :: "json \<Rightarrow> snapshot_request result" where
  "validate_request v =
     bindE (exact_object [''request_version'', ''operation'', ''target'', ''operation_identity'', ''ownership'']
              (ValueError ''request must have the exact snapshot-operation shape'') v) (\<lambda>payload.
     checkE (json_equals_int (dict_get payload ''request_version'') 1) (ValueError ''unknown host-control request version'')
    (bindE (case dict_get payload ''operation'' of
              JStr opn \<Rightarrow> checkE (opn \<in> {INSPECT_SNAPSHOT, ENSURE_SNAPSHOT, SEAL_SNAPSHOT}) (ValueError ''unknown host-control operation'') (Inr opn)
            | _ \<Rightarrow> Inl (ValueError ''unknown host-control operation'')) (\<lambda>operation.
     bindE (request_target (dict_get payload ''target'')) (\<lambda>(vmid, node).
     bindE (request_snapshot_identity (dict_get payload ''operation_identity'')) (\<lambda>(oid, name).
     bindE (request_ownership (dict_get payload ''ownership'')) (\<lambda>w.
     checkE (derive_snapshot_identity (ownership_key w) = (oid, name))
       (ValueError ''operation identity does not match its own ownership derivation'')
       (Inr \<lparr>sq_operation = operation, sq_vmid = vmid, sq_node = node, sq_id = oid, sq_name = name, sq_ownership = w\<rparr>)))))))"

definition request_ownership_json :: "snapshot_ownership \<Rightarrow> json" where
  "request_ownership_json w =
     JObj [(''job_id'', JStr (own_job_id w)), (''resource_id'', JStr (own_resource_id w)),
           (''resource_continuity_revision'', JInt (own_resource_continuity_revision w)),
           (''inventory_source_id'', JStr (own_inventory_source_id w)),
           (''backend_instance_id'', JStr (own_backend_instance_id w))]"

definition snapshot_request_fingerprint :: "snapshot_request \<Rightarrow> string" where
  "snapshot_request_fingerprint q =
     sha256_hex (json_dumps (JObj
       [(''vmid'', JInt (sq_vmid q)), (''expected_node'', JStr (sq_node q)), (''snapshot_operation_id'', JStr (sq_id q)),
        (''snapshot_name'', JStr (sq_name q)), (''ownership'', request_ownership_json (sq_ownership q))]))"

section \<open>The journal\<close>

type_synonym journal_record = "(string \<times> json) list"

definition JOURNAL_PHASES :: "string list" where
  "JOURNAL_PHASES = [''intent'', ''sealed_not_submitted'', ''submitted'', ''task_known'', ''terminal'']"

definition record_phase :: "journal_record \<Rightarrow> string" where
  "record_phase record = (case dict_get record ''phase'' of JStr p \<Rightarrow> p | _ \<Rightarrow> [])"

definition is_upid_value :: "json \<Rightarrow> bool" where
  "is_upid_value v = (case v of JStr t \<Rightarrow> pve_upid_match t | _ \<Rightarrow> False)"

definition snapshot_record_check :: "uuid \<Rightarrow> json option \<Rightarrow> journal_record result" where
  "snapshot_record_check i file =
     (case file of
        None \<Rightarrow> Inl (snapshot_error ''journal_corrupt'' ''snapshot operation journal is corrupt'')
      | Some (JObj record) \<Rightarrow>
          checkE (json_equals_int (dict_get record ''journal_version'') 1
                  \<and> dict_get record ''snapshot_operation_id'' = JStr i
                  \<and> record_phase record \<in> set JOURNAL_PHASES
                  \<and> (case dict_get record ''request_fingerprint'' of JStr t \<Rightarrow> True | _ \<Rightarrow> False))
            (snapshot_error ''journal_corrupt'' ''snapshot operation journal is corrupt'')
         (checkE (\<not> (record_phase record \<in> {''intent'', ''sealed_not_submitted'', ''submitted''}
                     \<and> (dict_get record ''task_upid'' \<noteq> JNull \<or> dict_get record ''outcome'' \<noteq> JNull)))
            (snapshot_error ''journal_corrupt'' ''snapshot operation journal phase carries incompatible evidence'')
         (checkE (\<not> (record_phase record = ''task_known'' \<and> \<not> is_upid_value (dict_get record ''task_upid'')))
            (snapshot_error ''journal_corrupt'' ''snapshot operation journal records a task without its identity'')
         (checkE (\<not> (record_phase record = ''terminal'' \<and> dict_get record ''outcome'' \<noteq> JStr ''completed''))
            (snapshot_error ''journal_corrupt''
               ''snapshot operation journal records a terminal phase with an outcome this writer contract never produces'')
            (Inr record))))
      | Some _ \<Rightarrow> Inl (snapshot_error ''journal_corrupt'' ''snapshot operation journal is corrupt''))"

definition read_snapshot_journal :: "host_env \<Rightarrow> uuid \<Rightarrow> journal_record option action" where
  "read_snapshot_journal env i =
     act_get (\<lambda>s. case host_journal s i of
        None \<Rightarrow> Inr None
      | Some file \<Rightarrow>
          checkE (env_journal_readable env) (snapshot_error ''journal_unreadable'' ''snapshot operation journal is unreadable'')
            (bindE (snapshot_record_check i file) (\<lambda>record. Inr (Some record))))"

definition new_snapshot_record :: "snapshot_request \<Rightarrow> string \<Rightarrow> journal_record" where
  "new_snapshot_record q phase =
     [(''journal_version'', JInt 1), (''snapshot_operation_id'', JStr (sq_id q)),
      (''request_fingerprint'', JStr (snapshot_request_fingerprint q)), (''vmid'', JInt (sq_vmid q)),
      (''expected_node'', JStr (sq_node q)), (''snapshot_name'', JStr (sq_name q)), (''phase'', JStr phase)]"

text \<open>\<open>{**record, key: value, ...}\<close>.\<close>

definition record_with :: "journal_record \<Rightarrow> (string \<times> json) list \<Rightarrow> journal_record" where
  "record_with record kvs = foldl (\<lambda>d (k, v). AList.update k v d) record kvs"

section \<open>Reading PVE\<close>

definition snapshot_command :: "host_env \<Rightarrow> nat \<Rightarrow> string list \<Rightarrow> command_result result" where
  "snapshot_command env n argv =
     (case env_pve env n argv of
        None \<Rightarrow> Inl (OSError ''command could not be run'')
      | Some r \<Rightarrow>
          checkE (\<not> cr_timed_out r) (snapshot_error ''timeout'' ''PVE command timed out'')
         (checkE (\<not> cr_output_exceeded r) (snapshot_error ''execution_failed'' ''PVE command output exceeded its bound'') (Inr r)))"

definition snapshot_json_command :: "host_env \<Rightarrow> nat \<Rightarrow> string list \<Rightarrow> string \<Rightarrow> json result" where
  "snapshot_json_command env n argv what =
     bindE (snapshot_command env n argv) (\<lambda>r.
     checkE (cr_returncode r = 0) (snapshot_error ''execution_failed'' (''could not read '' @ what))
    (case decoded_json (cr_stdout r) of
       None \<Rightarrow> Inl (snapshot_error ''execution_failed'' (what @ '' was malformed''))
     | Some v \<Rightarrow> Inr v))"

text \<open>The members of the rows that are objects.\<close>

definition object_rows :: "json list \<Rightarrow> (string \<times> json) list list" where
  "object_rows rows = concat (map (\<lambda>r. case r of JObj kvs \<Rightarrow> [kvs] | _ \<Rightarrow> []) rows)"

definition revalidate_live_target :: "host_env \<Rightarrow> nat \<Rightarrow> int \<Rightarrow> string \<Rightarrow> unit result" where
  "revalidate_live_target env n vmid node =
     bindE (snapshot_json_command env n [''pvesh'', ''get'', ''/cluster/resources'', ''--type'', ''vm'', ''--output-format'', ''json'']
              ''current PVE target state'') (\<lambda>v.
     case v of
       JList rows \<Rightarrow>
         (case filter (\<lambda>row. json_equals_int (dict_get row ''vmid'') vmid) (object_rows rows) of
            [row] \<Rightarrow>
              checkE (dict_get row ''type'' = JStr ''lxc'')
                (snapshot_error ''unsupported_resource_type'' ''current PVE resource is not an LXC guest'')
             (checkE (dict_get row ''node'' = JStr node) (snapshot_error ''stale_target'' ''guest node changed after job issuance'')
             (checkE (dict_get row ''status'' \<in> {JStr ''running'', JStr ''stopped''})
                (snapshot_error ''guest_unavailable'' ''guest status is not snapshot-ready'') (Inr ())))
          | _ \<Rightarrow> Inl (snapshot_error ''guest_unavailable'' ''guest is missing or ambiguous''))
     | _ \<Rightarrow> Inl (snapshot_error ''execution_failed'' ''current PVE target state was malformed''))"

definition read_local_node :: "host_env \<Rightarrow> nat \<Rightarrow> string result" where
  "read_local_node env n =
     bindE (snapshot_json_command env n [''pvesh'', ''get'', ''/cluster/status'', ''--output-format'', ''json'']
              ''local PVE node identity'') (\<lambda>v.
     case v of
       JList rows \<Rightarrow>
         (case map (\<lambda>row. dict_get row ''name'')
                 (filter (\<lambda>row. dict_get row ''type'' = JStr ''node'' \<and> json_equals_int (dict_get row ''local'') 1) (object_rows rows)) of
            [JStr name] \<Rightarrow>
              checkE (pve_node_match name) (snapshot_error ''execution_failed'' ''local PVE node identity was ambiguous'') (Inr name)
          | _ \<Rightarrow> Inl (snapshot_error ''execution_failed'' ''local PVE node identity was ambiguous''))
     | _ \<Rightarrow> Inl (snapshot_error ''execution_failed'' ''local PVE node identity was malformed''))"

definition read_container_lock :: "host_env \<Rightarrow> nat \<Rightarrow> int \<Rightarrow> string \<Rightarrow> string option result" where
  "read_container_lock env n vmid node =
     bindE (snapshot_json_command env n [''pvesh'', ''get'', lxc_path node vmid ''/config'', ''--output-format'', ''json'']
              ''current PVE container configuration'') (\<lambda>v.
     case v of
       JObj config \<Rightarrow>
         (case dict_get config ''lock'' of
            JNull \<Rightarrow> Inr None
          | JStr t \<Rightarrow> Inr (Some t)
          | _ \<Rightarrow> Inl (snapshot_error ''execution_failed'' ''current PVE container lock was malformed''))
     | _ \<Rightarrow> Inl (snapshot_error ''execution_failed'' ''current PVE container configuration was malformed''))"

definition LISTING_MALFORMED :: exn where
  "LISTING_MALFORMED = snapshot_error ''execution_failed'' ''current PVE snapshot listing was malformed''"

definition listing_entry :: "(string \<times> json) list \<Rightarrow> (string \<times> json) list" where
  "listing_entry row =
     [(''name'', dict_get row ''name''),
      (''description'', if json_truthy (dict_get row ''description'') then dict_get row ''description'' else JStr [])]
     @ (case dict_get row ''snaptime'' of JInt n \<Rightarrow> [(''snaptime'', JInt n)] | JBool b \<Rightarrow> [(''snaptime'', JBool b)] | _ \<Rightarrow> [])
     @ (case dict_get row ''parent'' of JStr t \<Rightarrow> [(''parent'', JStr t)] | _ \<Rightarrow> [])
     @ (case dict_get row ''snapstate'' of JStr t \<Rightarrow> if t \<noteq> [] then [(''snapstate'', JStr t)] else [] | _ \<Rightarrow> [])"

fun listing_entries :: "json list \<Rightarrow> (string \<times> json) list list result" where
  "listing_entries [] = Inr []"
| "listing_entries (row # rows) =
     (case row of
        JObj kvs \<Rightarrow>
          checkE (case dict_get kvs ''name'' of JStr t \<Rightarrow> True | _ \<Rightarrow> False) LISTING_MALFORMED
            (bindE (listing_entries rows) (\<lambda>es. Inr (listing_entry kvs # es)))
      | _ \<Rightarrow> Inl LISTING_MALFORMED)"

definition list_snapshots :: "host_env \<Rightarrow> nat \<Rightarrow> int \<Rightarrow> string \<Rightarrow> (string \<times> json) list list result" where
  "list_snapshots env n vmid node =
     bindE (snapshot_json_command env n [''pvesh'', ''get'', lxc_path node vmid ''/snapshot'', ''--output-format'', ''json'']
              ''current PVE snapshot listing'') (\<lambda>v.
     case v of
       JList rows \<Rightarrow> checkE (length rows \<le> 512) LISTING_MALFORMED (listing_entries rows)
     | _ \<Rightarrow> Inl LISTING_MALFORMED)"

definition read_task_status :: "host_env \<Rightarrow> nat \<Rightarrow> string \<Rightarrow> string \<Rightarrow> (string \<times> json) list result" where
  "read_task_status env n node upid =
     checkE (pve_upid_match upid) (snapshot_error ''execution_failed'' ''PVE task identity was malformed'')
    (bindE (snapshot_json_command env n
              [''pvesh'', ''get'', ''/nodes/'' @ node @ ''/tasks/'' @ upid @ ''/status'', ''--output-format'', ''json''] ''PVE task status'') (\<lambda>v.
     case v of
       JObj st \<Rightarrow>
         checkE (dict_get st ''status'' \<in> {JStr ''running'', JStr ''stopped''})
           (snapshot_error ''execution_failed'' ''PVE task status was malformed'')
           (Inr ([(''upid'', JStr upid), (''status'', dict_get st ''status'')]
              @ (case dict_get st ''exitstatus'' of JStr t \<Rightarrow> if t \<noteq> [] then [(''exitstatus'', JStr (take 200 t))] else [] | _ \<Rightarrow> [])))
     | _ \<Rightarrow> Inl (snapshot_error ''execution_failed'' ''PVE task status was malformed'')))"

text \<open>\<open>str.isdigit\<close> on code points below 256: the ten digits and the three superscripts.\<close>

definition exit_isdigit :: "string \<Rightarrow> bool" where
  "exit_isdigit v \<longleftrightarrow> v \<noteq> [] \<and> list_all (\<lambda>c. is_ascii_digit c \<or> c \<in> {CHR 0xB2, CHR 0xB3, CHR 0xB9}) v"

definition task_is_error :: "(string \<times> json) list \<Rightarrow> bool" where
  "task_is_error st =
     (case dict_get st ''exitstatus'' of
        JStr t \<Rightarrow> t = [] \<or> (t \<noteq> ''OK'' \<and> \<not> (starts_with ''WARNINGS: '' t \<and> exit_isdigit (drop (length ''WARNINGS: '') t)))
      | _ \<Rightarrow> True)"

section \<open>The job's own snapshot\<close>

datatype snapshot_evidence = EvPresent | EvIncomplete | EvAmbiguous | EvAbsent

definition evidence_value :: "snapshot_evidence \<Rightarrow> string" where
  "evidence_value e =
     (case e of EvPresent \<Rightarrow> ''present'' | EvIncomplete \<Rightarrow> ''incomplete'' | EvAmbiguous \<Rightarrow> ''ambiguous'' | EvAbsent \<Rightarrow> ''absent'')"

definition same_ownership :: "snapshot_ownership \<Rightarrow> snapshot_ownership \<Rightarrow> bool" where
  "same_ownership a b \<longleftrightarrow> request_ownership_json a = request_ownership_json b"

fun evidence_loop :: "snapshot_request \<Rightarrow> nat \<Rightarrow> (string \<times> json) list list \<Rightarrow> snapshot_evidence" where
  "evidence_loop q matches [] = (if matches = 1 then EvPresent else if 1 < matches then EvAmbiguous else EvAbsent)"
| "evidence_loop q matches (entry # es) =
     (if dict_get entry ''name'' = JStr ''current'' then evidence_loop q matches es
      else case helper_parse_description (dict_get entry ''description'') of
        Inl _ \<Rightarrow> EvAmbiguous
      | Inr parsed \<Rightarrow>
          if dict_get entry ''name'' \<noteq> JStr (sq_name q) then
            (if (case parsed of None \<Rightarrow> False | Some w \<Rightarrow> own_job_id w = own_job_id (sq_ownership q)) then EvAmbiguous
             else evidence_loop q matches es)
          else (case parsed of
                  None \<Rightarrow> EvAmbiguous
                | Some w \<Rightarrow>
                    if json_truthy (dict_get entry ''snapstate'') then EvIncomplete
                    else if \<not> same_ownership w (sq_ownership q) then EvAmbiguous
                    else evidence_loop q (matches + 1) es))"

definition owned_snapshot_evidence :: "(string \<times> json) list list \<Rightarrow> snapshot_request \<Rightarrow> snapshot_evidence" where
  "owned_snapshot_evidence listing q = evidence_loop q 0 listing"

definition is_in_flight :: "string option \<Rightarrow> bool" where
  "is_in_flight lock \<longleftrightarrow> (case lock of None \<Rightarrow> False | Some t \<Rightarrow> t \<in> {''snapshot'', ''snapshot-delete'', ''rollback''})"

section \<open>Answers\<close>

definition response ::
    "snapshot_request \<Rightarrow> string \<Rightarrow> json option \<Rightarrow> (string \<times> json) list option \<Rightarrow> (string \<times> json) list list option \<Rightarrow> string \<Rightarrow> string
      \<Rightarrow> (string \<times> json) list" where
  "response q outcome upid task listing reason state =
     [(''response_version'', JInt 1), (''ok'', JBool True), (''operation'', JStr (sq_operation q)),
      (''snapshot_operation_id'', JStr (sq_id q)), (''outcome'', JStr outcome)]
     @ opt_member ''task_upid'' upid @ opt_member ''task'' (map_option JObj task)
     @ opt_member ''snapshots'' (map_option (\<lambda>l. JList (map JObj l)) listing)
     @ [(''reason'', JStr (take 500 reason)), (''submission_state'', JStr state)]"

definition record_upid :: "journal_record \<Rightarrow> string option" where
  "record_upid record = (case dict_get record ''task_upid'' of JStr t \<Rightarrow> Some t | _ \<Rightarrow> None)"

definition SEALED_REASON :: string where
  "SEALED_REASON = ''host durably sealed this snapshot operation before submission''"

definition sealed_response :: "snapshot_request \<Rightarrow> (string \<times> json) list" where
  "sealed_response q = response q ''not_submitted'' None None None SEALED_REASON ''sealed_not_submitted''"

section \<open>Operations\<close>

definition extract_upid :: "command_result \<Rightarrow> string option" where
  "extract_upid r =
     (if cr_returncode r \<noteq> 0 \<or> cr_timed_out r \<or> cr_output_exceeded r then None else extract_upid_text (cr_stdout r))"

text \<open>The n-th write of the call records the task; the capture is then removed.\<close>

definition promote_completed_capture :: "host_env \<Rightarrow> nat \<Rightarrow> snapshot_request \<Rightarrow> journal_record \<Rightarrow> string option action" where
  "promote_completed_capture env n q record =
     act_bind (act_get (\<lambda>s. Inr (read_completed_capture env (sq_id q) s))) (\<lambda>captured.
     case Option.bind captured extract_upid of
       None \<Rightarrow> act_ret None
     | Some upid \<Rightarrow>
         act_bind (replace_journal (env_write env n) (sq_id q)
             (record_with record [(''phase'', JStr ''task_known''), (''task_upid'', JStr upid)])) (\<lambda>_.
         act_bind (cleanup_capture env (sq_id q)) (\<lambda>_. act_ret (Some upid))))"

definition matching_record :: "host_env \<Rightarrow> snapshot_request \<Rightarrow> (journal_record option \<Rightarrow> 'a action) \<Rightarrow> 'a action" where
  "matching_record env q k =
     act_bind (read_snapshot_journal env (sq_id q)) (\<lambda>found.
     act_need (case found of None \<Rightarrow> True
               | Some record \<Rightarrow> dict_get record ''request_fingerprint'' = JStr (snapshot_request_fingerprint q))
       (snapshot_error ''operation_request_mismatch'' ''this operation identity was journaled with a different request'')
       (k found))"

definition LEASE_BUSY :: exn where
  "LEASE_BUSY = snapshot_error ''operation_in_progress'' ''another snapshot operation holds this guest's lease''"

definition inspected_outcome :: "snapshot_evidence \<Rightarrow> string" where
  "inspected_outcome e = (case e of EvPresent \<Rightarrow> ''completed'' | EvAbsent \<Rightarrow> ''absent'' | _ \<Rightarrow> ''uncertain'')"

definition EVIDENCE_REASON :: "snapshot_evidence \<Rightarrow> string" where
  "EVIDENCE_REASON e = ''canonical job-owned snapshot evidence: '' @ evidence_value e"

text \<open>The reads of PVE: the task and the listing, or the lock and the listing where no task is known.\<close>

definition inspect_reads ::
    "host_env \<Rightarrow> snapshot_request \<Rightarrow> string \<Rightarrow> string option
      \<Rightarrow> (string \<times> string \<times> (string \<times> json) list option \<times> (string \<times> json) list list) result" where
  "inspect_reads env q state upid =
     (if state = ''submitted'' \<and> upid = None then
        bindE (read_container_lock env 0 (sq_vmid q) (sq_node q)) (\<lambda>lock.
        bindE (list_snapshots env 1 (sq_vmid q) (sq_node q)) (\<lambda>listing.
        let evidence = owned_snapshot_evidence listing q in
        if is_in_flight lock
        then Inr (''uncertain'', ''taskless submitted recovery is blocked by an in-flight PVE operation ('' @ str_or_empty lock @ '')'',
                  None, listing)
        else Inr (inspected_outcome evidence, EVIDENCE_REASON evidence, None, listing)))
      else
        bindE (list_snapshots env 0 (sq_vmid q) (sq_node q)) (\<lambda>listing.
        bindE (case upid of None \<Rightarrow> Inr None
               | Some u \<Rightarrow> bindE (read_task_status env 1 (sq_node q) u) (\<lambda>t. Inr (Some t))) (\<lambda>task.
        let evidence = owned_snapshot_evidence listing q;
            failed = (case task of None \<Rightarrow> False | Some t \<Rightarrow> dict_get t ''status'' = JStr ''stopped'' \<and> task_is_error t);
            outcome = (if failed then ''failed''
                       else if state \<in> {''absent'', ''intent''} \<and> evidence = EvPresent then ''uncertain''
                       else inspected_outcome evidence)
        in Inr (outcome, EVIDENCE_REASON evidence, task, listing))))"

definition inspect_unsealed ::
    "host_env \<Rightarrow> snapshot_request \<Rightarrow> journal_record option \<Rightarrow> string \<Rightarrow> (string \<times> json) list action" where
  "inspect_unsealed env q found phase =
     act_bind (if phase = ''submitted''
               then act_bind (promote_completed_capture env 0 q (the found)) (\<lambda>upid.
                      act_ret (case upid of Some u \<Rightarrow> (''task_known'', Some u) | None \<Rightarrow> (phase, record_upid (the found))))
               else act_ret (phase, Option.bind found record_upid)) (\<lambda>(state, upid).
     act_try
       (act_bind (act_lift (inspect_reads env q state upid)) (\<lambda>(outcome, reason, task, listing).
          act_ret (response q outcome (map_option JStr upid) task (Some listing) reason state)))
       (\<lambda>e. case e of
          HelperError classification message submission \<Rightarrow>
            if state \<in> {''absent'', ''intent''}
            then act_ret (response q ''not_submitted'' None None None
                   (''host journal was still pre-submission while a PVE read failed ('' @ classification @ '')'') state)
            else act_raise e
        | _ \<Rightarrow> act_raise e))"

definition inspect :: "host_env \<Rightarrow> snapshot_request \<Rightarrow> (string \<times> json) list action" where
  "inspect env q =
     with_lease env LEASE_BUSY (sq_vmid q) (matching_record env q (\<lambda>found.
     let state = (case found of None \<Rightarrow> ''absent'' | Some record \<Rightarrow> record_phase record) in
     if state = ''sealed_not_submitted'' then act_ret (sealed_response q)
     else inspect_unsealed env q found state))"

definition seal_found :: "host_env \<Rightarrow> snapshot_request \<Rightarrow> journal_record option \<Rightarrow> (string \<times> json) list action" where
  "seal_found env q found =
     (case found of
        None \<Rightarrow>
          act_bind (replace_journal (env_write env 0) (sq_id q) (new_snapshot_record q ''sealed_not_submitted''))
            (\<lambda>_. act_ret (sealed_response q))
      | Some record \<Rightarrow>
          if record_phase record = ''intent'' then
            act_bind (replace_journal (env_write env 0) (sq_id q) (record_with record [(''phase'', JStr ''sealed_not_submitted'')]))
              (\<lambda>_. act_ret (sealed_response q))
          else if record_phase record \<noteq> ''sealed_not_submitted'' then
            act_ret (response q ''uncertain'' (map_option JStr (record_upid record)) None None
              ''snapshot operation crossed submission before it could be sealed'' (record_phase record))
          else act_ret (sealed_response q))"

definition seal_never_submitted :: "host_env \<Rightarrow> snapshot_request \<Rightarrow> (string \<times> json) list action" where
  "seal_never_submitted env q = with_lease env LEASE_BUSY (sq_vmid q) (matching_record env q (seal_found env q))"

text \<open>
  \<open>str(record.get(key, default))\<close>. A member that is a float, a list or an object, which no writer produces, reads as
  the default.
\<close>

definition record_text :: "journal_record \<Rightarrow> string \<Rightarrow> string \<Rightarrow> string" where
  "record_text record key fallback =
     (case map_of record key of
        Some (JStr t) \<Rightarrow> t
      | Some (JInt i) \<Rightarrow> decimal_int i
      | Some (JBool b) \<Rightarrow> (if b then ''True'' else ''False'')
      | Some JNull \<Rightarrow> ''None''
      | _ \<Rightarrow> fallback)"

definition finalize_snapshot :: "host_env \<Rightarrow> snapshot_request \<Rightarrow> journal_record \<Rightarrow> (string \<times> json) list action" where
  "finalize_snapshot env q record =
     act_bind (act_lift (list_snapshots env 0 (sq_vmid q) (sq_node q))) (\<lambda>listing.
     act_ret (response q (record_text record ''outcome'' ''uncertain'')
       (if dict_get record ''task_upid'' = JNull then None else Some (dict_get record ''task_upid'')) None (Some listing)
       (record_text record ''reason'' ''replayed journaled outcome'') ''terminal''))"

definition recover_submitted_without_task :: "host_env \<Rightarrow> snapshot_request \<Rightarrow> journal_record \<Rightarrow> (string \<times> json) list action" where
  "recover_submitted_without_task env q record =
     act_bind (act_lift (read_container_lock env 0 (sq_vmid q) (sq_node q))) (\<lambda>lock.
     act_bind (act_lift (list_snapshots env 1 (sq_vmid q) (sq_node q))) (\<lambda>listing.
     let evidence = owned_snapshot_evidence listing q in
     if is_in_flight lock then
       act_ret (response q ''uncertain'' None None (Some listing)
         (''a snapshot request was submitted for this operation and the guest is still locked ('' @ str_or_empty lock @ '')'') ''submitted'')
     else if evidence = EvPresent then
       act_bind (replace_journal (env_write env 1) (sq_id q)
           (record_with record [(''phase'', JStr ''terminal''), (''outcome'', JStr ''completed''),
              (''reason'', JStr ''recovered: canonical job-owned snapshot present'')])) (\<lambda>_.
       act_ret (response q ''completed'' None None (Some listing) ''recovered: canonical job-owned snapshot present'' ''terminal''))
     else
       act_ret (response q ''uncertain'' None None (Some listing)
         (''a snapshot request was submitted for this operation but its task identity was never recorded (canonical evidence: ''
            @ evidence_value evidence @ '')'') ''submitted'')))"

definition snapshot_argv :: "snapshot_request \<Rightarrow> string list" where
  "snapshot_argv q =
     [''pvesh'', ''--noproxy'', ''create'', lxc_path (sq_node q) (sq_vmid q) ''/snapshot'', ''--snapname'', sq_name q,
      ''--description'', build_snapshot_description (sq_ownership q), ''--output-format'', ''json'']"

definition not_submitted :: "exn \<Rightarrow> exn" where
  "not_submitted e = (case e of HelperError c m s \<Rightarrow> HelperError c m ''not_submitted'' | _ \<Rightarrow> e)"

text \<open>The reads before submission; a failure there is reported as not submitted.\<close>

definition pre_submission_reads ::
    "host_env \<Rightarrow> snapshot_request \<Rightarrow> (string option \<times> (string \<times> json) list list option) result" where
  "pre_submission_reads env q =
     (case bindE (revalidate_live_target env 0 (sq_vmid q) (sq_node q)) (\<lambda>_.
           bindE (read_local_node env 1) (\<lambda>local.
           checkE (local = sq_node q) (snapshot_error ''stale_target'' ''target guest is not owned by this local PVE node'')
          (bindE (read_container_lock env 2 (sq_vmid q) (sq_node q)) (\<lambda>lock.
           if is_in_flight lock then Inr (lock, None)
           else bindE (list_snapshots env 3 (sq_vmid q) (sq_node q)) (\<lambda>listing. Inr (lock, Some listing)))))) of
        Inl e \<Rightarrow> Inl (not_submitted e)
      | Inr x \<Rightarrow> Inr x)"

definition no_runner :: "handoff \<Rightarrow> exn" where
  "no_runner h = HelperError ''execution_failed''
     (if h = ExecutorNotForked then ''host could not establish the detached snapshot runner''
      else ''detached snapshot runner did not confirm it was ready'') ''not_submitted''"

definition NOT_JOURNALED :: exn where
  "NOT_JOURNALED = HelperError ''execution_failed'' ''host could not durably journal this snapshot submission'' ''not_submitted''"

text \<open>The submission barrier, and what is known of the task when the call returns.\<close>

definition submit_snapshot :: "host_env \<Rightarrow> snapshot_request \<Rightarrow> journal_record \<Rightarrow> (string \<times> json) list action" where
  "submit_snapshot env q record =
     (let submitted = record_with record [(''phase'', JStr ''submitted'')] in
      act_bind (submit_detached env (env_write env 1) no_runner NOT_JOURNALED (sq_id q) (sq_vmid q) submitted (snapshot_argv q)) (\<lambda>_.
      act_bind (promote_completed_capture env 2 q submitted) (\<lambda>upid.
      case upid of
        None \<Rightarrow>
          act_ret (response q ''uncertain'' None None None
            ''snapshot submitted to detached host runner; exact task identity awaits durable capture recovery'' ''submitted'')
      | Some u \<Rightarrow>
          act_bind (replace_journal (env_write env 3) (sq_id q)
              (record_with submitted [(''phase'', JStr ''task_known''), (''task_upid'', JStr u)])) (\<lambda>_.
          act_ret (response q ''uncertain'' (Some (JStr u)) None None
            ''snapshot submission recorded; inspect the operation to observe task completion'' ''task_known'')))))"

text \<open>The canonical evidence decides between the recorded completion, a refusal and a submission.\<close>

definition submit_unless_present ::
    "host_env \<Rightarrow> snapshot_request \<Rightarrow> journal_record \<Rightarrow> (string \<times> json) list list \<Rightarrow> (string \<times> json) list action" where
  "submit_unless_present env q record listing =
     (let evidence = owned_snapshot_evidence listing q in
      if evidence = EvPresent then
        act_bind (replace_journal (env_write env 1) (sq_id q)
            (record_with record [(''phase'', JStr ''terminal''), (''outcome'', JStr ''completed''),
               (''reason'', JStr ''canonical job-owned snapshot already present'')])) (\<lambda>_.
        act_ret (response q ''completed'' None None (Some listing) ''canonical job-owned snapshot already present'' ''terminal''))
      else if evidence \<noteq> EvAbsent then
        act_ret (response q ''uncertain'' None None (Some listing)
          (''canonical state is not a clean absence for this operation ('' @ evidence_value evidence @ ''); refusing to submit'') ''intent'')
      else
        act_bind (act_lift (revalidate_live_target env 4 (sq_vmid q) (sq_node q))) (\<lambda>_. submit_snapshot env q record))"

definition ensure_from_intent :: "host_env \<Rightarrow> snapshot_request \<Rightarrow> journal_record \<Rightarrow> (string \<times> json) list action" where
  "ensure_from_intent env q record =
     act_need (record_phase record = ''intent'')
       (snapshot_error ''journal_corrupt'' ''snapshot operation left its pre-submission phase unexpectedly'')
    (act_bind (act_lift (pre_submission_reads env q)) (\<lambda>(lock, found).
     case found of
       None \<Rightarrow>
         act_ret (response q ''uncertain'' None None None
           (''guest is locked by an in-flight PVE operation ('' @ str_or_empty lock @ '')'') ''intent'')
     | Some listing \<Rightarrow> submit_unless_present env q record listing))"

definition ensure_recorded :: "host_env \<Rightarrow> snapshot_request \<Rightarrow> journal_record \<Rightarrow> (string \<times> json) list action" where
  "ensure_recorded env q record =
     (let phase = record_phase record in
      if phase = ''terminal'' then finalize_snapshot env q record
      else if phase = ''task_known'' then
        act_ret (response q ''uncertain'' (map_option JStr (record_upid record)) None None
          ''snapshot submission already recorded; inspect the operation to observe task completion'' ''task_known'')
      else if phase = ''submitted'' then
        act_bind (promote_completed_capture env 0 q record) (\<lambda>upid.
        case upid of
          Some u \<Rightarrow>
            act_ret (response q ''uncertain'' (Some (JStr u)) None None
              ''completed pvesh capture yielded the exact task identity'' ''task_known'')
        | None \<Rightarrow> recover_submitted_without_task env q record)
      else if phase = ''sealed_not_submitted'' then act_ret (sealed_response q)
      else if phase \<noteq> ''intent'' then
        act_raise (snapshot_error ''journal_corrupt'' ''snapshot operation journal is in an unrecognized phase'')
      else ensure_from_intent env q record)"

definition ensure_submitted :: "host_env \<Rightarrow> snapshot_request \<Rightarrow> (string \<times> json) list action" where
  "ensure_submitted env q =
     with_lease env LEASE_BUSY (sq_vmid q) (matching_record env q (\<lambda>found.
     case found of
       None \<Rightarrow>
         (let record = new_snapshot_record q ''intent'' in
          act_bind (replace_journal (env_write env 0) (sq_id q) record) (\<lambda>_. ensure_from_intent env q record))
     | Some record \<Rightarrow> ensure_recorded env q record))"

definition error_response :: "snapshot_request \<Rightarrow> string \<Rightarrow> string \<Rightarrow> string \<Rightarrow> (string \<times> json) list" where
  "error_response q classification message submission =
     [(''response_version'', JInt 1), (''ok'', JBool False), (''operation'', JStr (sq_operation q)),
      (''snapshot_operation_id'', JStr (sq_id q)),
      (''error'', JObj [(''classification'', JStr classification), (''message'', JStr (take 500 message)),
                        (''submission'', JStr submission)])]"

definition handle_request :: "host_env \<Rightarrow> json \<Rightarrow> (string \<times> json) list action" where
  "handle_request env payload =
     act_bind (act_lift (validate_request payload)) (\<lambda>q.
     act_try
       (if sq_operation q = INSPECT_SNAPSHOT then inspect env q
        else if sq_operation q = SEAL_SNAPSHOT then seal_never_submitted env q
        else ensure_submitted env q)
       (\<lambda>e. case e of
          HelperError classification message submission \<Rightarrow> act_ret (error_response q classification message submission)
        | _ \<Rightarrow> act_raise e))"

end
