(* ===== verification/Rollback_Helper.thy ===== *)
theory Rollback_Helper
  imports Snapshot_Helper
begin

text \<open>
  \<open>deploy/hubinet-package-rollback-helper.py\<close>: the typed request, the journal of one rollback operation, the
  preflight that refuses what PVE would refuse and what is not the job's own snapshot, the three operations and
  the answer on standard output. Its journal directory, and so its host state, is its own. The test-only
  path that runs the command in the helper itself is left out. Of the two texts the helper has for an identifier
  it refuses, the model has one.
\<close>

section \<open>Requests\<close>

record rollback_ownership =
  rbo_job_id :: uuid
  rbo_resource_id :: uuid
  rbo_resource_continuity_revision :: int
  rbo_binding_id :: uuid
  rbo_locator_generation :: int
  rbo_backend_instance_id :: uuid

record host_rollback_request =
  rq_operation :: string
  rq_vmid :: int
  rq_node :: string
  rq_id :: uuid
  rq_snapshot_operation_id :: uuid
  rq_name :: string
  rq_ownership :: rollback_ownership
  rq_expected :: snapshot_ownership

definition INSPECT_ROLLBACK :: string where "INSPECT_ROLLBACK = ''inspect_rollback_state''"
definition SUBMIT_ROLLBACK :: string where "SUBMIT_ROLLBACK = ''submit_same_job_rollback''"
definition SEAL_ROLLBACK :: string where "SEAL_ROLLBACK = ''seal_rollback_never_submitted''"

definition rollback_error :: "string \<Rightarrow> string \<Rightarrow> exn" where
  "rollback_error classification message = HelperError classification message ''may_have_been_submitted''"

definition rollback_refusal :: "string \<Rightarrow> string \<Rightarrow> exn" where
  "rollback_refusal classification message = HelperError classification message ''not_submitted''"

definition parse_snapshot_ownership :: "json \<Rightarrow> string \<Rightarrow> snapshot_ownership result" where
  "parse_snapshot_ownership v what =
     bindE (exact_object OWNERSHIP_KEYS (ValueError (what @ '' does not have the exact expected shape'')) v) (\<lambda>payload.
     checkE (json_equals_int (dict_get payload ''protocol'') 1) (ValueError (what @ '' protocol is unsupported''))
    (checkE (dict_get payload ''kind'' = JStr ''pre_update'') (ValueError (what @ '' kind is not pre-update''))
    (helper_ownership_of payload)))"

definition rollback_claim_line :: "string \<Rightarrow> snapshot_ownership option result" where
  "rollback_claim_line line =
     (let remainder = drop (length ''hubinet-ops-snapshot-v1'') line in
      checkE (starts_with '' '' remainder) (ValueError ''snapshot marker line is malformed'')
     (case json_loads (py_strip remainder) of
        None \<Rightarrow> Inl (ValueError ''snapshot metadata is not valid JSON'')
      | Some v \<Rightarrow> bindE (parse_snapshot_ownership v ''snapshot metadata'') (\<lambda>w. Inr (Some w))))"

definition rollback_parse_description :: "json \<Rightarrow> snapshot_ownership option result" where
  "rollback_parse_description value =
     (case value of
        JStr description \<Rightarrow>
          if \<not> contains ''hubinet-ops-snapshot'' description then Inr None
          else (case marker_lines description of
             [line] \<Rightarrow> rollback_claim_line line
           | _ \<Rightarrow> Inl (ValueError ''snapshot metadata is not exactly one marker line''))
      | _ \<Rightarrow> Inr None)"

definition rollback_request_target :: "json \<Rightarrow> (int \<times> string) result" where
  "rollback_request_target v =
     bindE (exact_object [''vmid'', ''expected_node''] (ValueError ''target does not have the exact expected shape'') v) (\<lambda>target.
     bindE (positive_field (not_positive ''vmid'') (dict_get target ''vmid'')) (\<lambda>vmid.
     checkE (100 \<le> vmid \<and> vmid \<le> 999999999) (ValueError ''vmid is outside the supported PVE range'')
    (case dict_get target ''expected_node'' of
       JStr node \<Rightarrow> checkE (pve_node_match node) (ValueError ''expected_node is invalid'') (Inr (vmid, node))
     | _ \<Rightarrow> Inl (ValueError ''expected_node is invalid''))))"

definition rollback_identity :: "json \<Rightarrow> (uuid \<times> uuid \<times> string) result" where
  "rollback_identity v =
     bindE (exact_object [''rollback_operation_id'', ''snapshot_name'', ''snapshot_operation_id'']
              (ValueError ''operation_identity does not have the exact expected shape'') v) (\<lambda>identity.
     bindE (uuid_field (not_canonical ''rollback_operation_id'') (dict_get identity ''rollback_operation_id'')) (\<lambda>rid.
     bindE (uuid_field (not_canonical ''snapshot_operation_id'') (dict_get identity ''snapshot_operation_id'')) (\<lambda>sid.
     case dict_get identity ''snapshot_name'' of
       JStr name \<Rightarrow>
         checkE (pve_snapshot_name_match name) (ValueError ''snapshot_name is not a valid PVE snapshot name'')
        (checkE (\<not> is_reserved_name name) (ValueError ''snapshot_name is a PVE-reserved name'') (Inr (rid, sid, name)))
     | _ \<Rightarrow> Inl (ValueError ''snapshot_name is not a valid PVE snapshot name''))))"

definition ROLLBACK_OWNERSHIP_FIELDS :: "string list" where
  "ROLLBACK_OWNERSHIP_FIELDS =
     [''job_id'', ''resource_id'', ''resource_continuity_revision'', ''binding_id'', ''locator_generation'', ''backend_instance_id'']"

definition rollback_ownership_of :: "json \<Rightarrow> rollback_ownership result" where
  "rollback_ownership_of v =
     bindE (exact_object ROLLBACK_OWNERSHIP_FIELDS (ValueError ''ownership does not have the exact expected shape'') v) (\<lambda>kvs.
     bindE (uuid_field (not_canonical ''job_id'') (dict_get kvs ''job_id'')) (\<lambda>job.
     bindE (uuid_field (not_canonical ''resource_id'') (dict_get kvs ''resource_id'')) (\<lambda>res.
     bindE (positive_field (not_positive ''resource_continuity_revision'') (dict_get kvs ''resource_continuity_revision'')) (\<lambda>continuity.
     bindE (uuid_field (not_canonical ''binding_id'') (dict_get kvs ''binding_id'')) (\<lambda>binding.
     bindE (positive_field (not_positive ''locator_generation'') (dict_get kvs ''locator_generation'')) (\<lambda>generation.
     bindE (uuid_field (not_canonical ''backend_instance_id'') (dict_get kvs ''backend_instance_id'')) (\<lambda>backend.
       Inr \<lparr>rbo_job_id = job, rbo_resource_id = res, rbo_resource_continuity_revision = continuity, rbo_binding_id = binding,
            rbo_locator_generation = generation, rbo_backend_instance_id = backend\<rparr>)))))))"

text \<open>The claim that is expected on the snapshot is of the job and the resource incarnation of the operation.\<close>

definition expects_own_snapshot :: "rollback_ownership \<Rightarrow> snapshot_ownership \<Rightarrow> bool" where
  "expects_own_snapshot b w \<longleftrightarrow>
     own_job_id w = rbo_job_id b \<and> own_resource_id w = rbo_resource_id b
     \<and> own_resource_continuity_revision w = rbo_resource_continuity_revision b
     \<and> own_backend_instance_id w = rbo_backend_instance_id b"

definition parse_request :: "json \<Rightarrow> host_rollback_request result" where
  "parse_request v =
     bindE (case v of JObj kvs \<Rightarrow> Inr kvs | _ \<Rightarrow> Inl (ValueError ''request must be a JSON object'')) (\<lambda>payload.
     checkE (set (map fst payload) =
               {''request_version'', ''operation'', ''target'', ''operation_identity'', ''ownership'', ''expected_snapshot_ownership''})
       (ValueError ''request does not have the exact expected shape'')
    (checkE (json_equals_int (dict_get payload ''request_version'') 1) (ValueError ''unsupported request version'')
    (bindE (case dict_get payload ''operation'' of
              JStr opn \<Rightarrow> checkE (opn \<in> {INSPECT_ROLLBACK, SUBMIT_ROLLBACK, SEAL_ROLLBACK}) (ValueError ''unsupported operation'') (Inr opn)
            | _ \<Rightarrow> Inl (ValueError ''unsupported operation'')) (\<lambda>operation.
     bindE (rollback_request_target (dict_get payload ''target'')) (\<lambda>(vmid, node).
     bindE (rollback_identity (dict_get payload ''operation_identity'')) (\<lambda>(rid, sid, name).
     bindE (rollback_ownership_of (dict_get payload ''ownership'')) (\<lambda>own.
     bindE (parse_snapshot_ownership (dict_get payload ''expected_snapshot_ownership'') ''expected_snapshot_ownership'') (\<lambda>expected.
     checkE (expects_own_snapshot own expected)
       (ValueError ''expected_snapshot_ownership does not describe this operation's own job and resource incarnation'')
       (Inr \<lparr>rq_operation = operation, rq_vmid = vmid, rq_node = node, rq_id = rid, rq_snapshot_operation_id = sid, rq_name = name,
            rq_ownership = own, rq_expected = expected\<rparr>)))))))))"

definition rollback_ownership_json :: "rollback_ownership \<Rightarrow> json" where
  "rollback_ownership_json b =
     JObj [(''job_id'', JStr (rbo_job_id b)), (''resource_id'', JStr (rbo_resource_id b)),
           (''resource_continuity_revision'', JInt (rbo_resource_continuity_revision b)), (''binding_id'', JStr (rbo_binding_id b)),
           (''locator_generation'', JInt (rbo_locator_generation b)), (''backend_instance_id'', JStr (rbo_backend_instance_id b))]"

definition rollback_fingerprint :: "host_rollback_request \<Rightarrow> string" where
  "rollback_fingerprint q =
     sha256_hex (json_dumps (JObj
       [(''rollback_operation_id'', JStr (rq_id q)), (''snapshot_operation_id'', JStr (rq_snapshot_operation_id q)),
        (''snapshot_name'', JStr (rq_name q)), (''vmid'', JInt (rq_vmid q)), (''expected_node'', JStr (rq_node q)),
        (''ownership'', rollback_ownership_json (rq_ownership q)),
        (''expected_snapshot_ownership'', ownership_json (rq_expected q)), (''start'', JInt 0)]))"

section \<open>The journal\<close>

definition rollback_record_check :: "uuid \<Rightarrow> json option \<Rightarrow> journal_record result" where
  "rollback_record_check i file =
     (case file of
        None \<Rightarrow> Inl (rollback_error ''journal_corrupt'' ''rollback operation journal is corrupt'')
      | Some (JObj record) \<Rightarrow>
          checkE (json_equals_int (dict_get record ''journal_version'') 1
                  \<and> dict_get record ''rollback_operation_id'' = JStr i
                  \<and> record_phase record \<in> set JOURNAL_PHASES
                  \<and> (case dict_get record ''request_fingerprint'' of JStr t \<Rightarrow> True | _ \<Rightarrow> False)
                  \<and> (case dict_get record ''vmid'' of JInt n \<Rightarrow> True | _ \<Rightarrow> False))
            (rollback_error ''journal_corrupt'' ''rollback operation journal is corrupt'')
         (checkE (\<not> (record_phase record \<in> {''intent'', ''sealed_not_submitted'', ''submitted''}
                     \<and> (dict_get record ''task_upid'' \<noteq> JNull \<or> dict_get record ''outcome'' \<noteq> JNull)))
            (rollback_error ''journal_corrupt'' ''rollback operation journal phase carries incompatible evidence'')
         (checkE (\<not> (record_phase record \<in> {''task_known'', ''terminal''} \<and> \<not> is_upid_value (dict_get record ''task_upid'')))
            (rollback_error ''journal_corrupt'' ''rollback operation journal records a task without its identity'')
         (checkE (\<not> (record_phase record = ''terminal'' \<and> dict_get record ''outcome'' \<notin> {JStr ''completed'', JStr ''failed''}))
            (rollback_error ''journal_corrupt''
               ''rollback operation journal records a terminal phase with an outcome this writer contract never produces'')
            (Inr record))))
      | Some _ \<Rightarrow> Inl (rollback_error ''journal_corrupt'' ''rollback operation journal is corrupt''))"

definition read_rollback_journal :: "host_env \<Rightarrow> uuid \<Rightarrow> journal_record option action" where
  "read_rollback_journal env i =
     act_get (\<lambda>s. case host_journal s i of
        None \<Rightarrow> Inr None
      | Some file \<Rightarrow>
          checkE (env_journal_readable env) (rollback_error ''journal_unreadable'' ''rollback operation journal is unreadable'')
            (bindE (rollback_record_check i file) (\<lambda>record. Inr (Some record))))"

text \<open>\<open>_write_all\<close>: a short write is continued, and one that makes no progress is a failure.\<close>

definition whole_write :: "write_fate \<Rightarrow> write_fate" where
  "whole_write fate = (if fate = ShortWrite then WriteFailed else fate)"

definition write_rollback :: "host_env \<Rightarrow> nat \<Rightarrow> host_rollback_request \<Rightarrow> journal_record \<Rightarrow> unit action" where
  "write_rollback env n q record = replace_journal (whole_write (env_write env n)) (rq_id q) record"

definition rollback_record :: "host_rollback_request \<Rightarrow> string \<Rightarrow> string option \<Rightarrow> string option \<Rightarrow> journal_record" where
  "rollback_record q phase upid outcome =
     [(''journal_version'', JInt 1), (''rollback_operation_id'', JStr (rq_id q)), (''phase'', JStr phase),
      (''request_fingerprint'', JStr (rollback_fingerprint q)), (''vmid'', JInt (rq_vmid q))]
     @ opt_member ''task_upid'' (map_option JStr upid) @ opt_member ''outcome'' (map_option JStr outcome)"

definition require_same_request :: "journal_record \<Rightarrow> host_rollback_request \<Rightarrow> unit result" where
  "require_same_request record q =
     checkE (dict_get record ''request_fingerprint'' = JStr (rollback_fingerprint q))
       (rollback_error ''request_mismatch'' ''an operation with this identity was journaled for a different request'')
    (checkE (json_equals_int (dict_get record ''vmid'') (rq_vmid q))
       (rollback_error ''request_mismatch'' ''an operation with this identity was journaled for a different VMID'') (Inr ()))"

section \<open>Reading PVE\<close>

definition rollback_command :: "host_env \<Rightarrow> nat \<Rightarrow> string list \<Rightarrow> command_result result" where
  "rollback_command env n argv =
     (case env_pve env n argv of
        None \<Rightarrow> Inl (OSError ''command could not be run'')
      | Some r \<Rightarrow>
          checkE (\<not> cr_timed_out r) (rollback_error ''timeout'' ''PVE command timed out'')
         (checkE (\<not> cr_output_exceeded r) (rollback_error ''execution_failed'' ''PVE command output exceeded its bound'') (Inr r)))"

definition rollback_json_command :: "host_env \<Rightarrow> nat \<Rightarrow> string list \<Rightarrow> string \<Rightarrow> json result" where
  "rollback_json_command env n argv what =
     bindE (rollback_command env n argv) (\<lambda>r.
     checkE (cr_returncode r = 0) (rollback_error ''execution_failed'' (''could not read '' @ what))
    (case decoded_json (cr_stdout r) of
       None \<Rightarrow> Inl (rollback_error ''execution_failed'' (what @ '' was malformed''))
     | Some v \<Rightarrow> Inr v))"

text \<open>
  \<open>str(value) == text\<close> for a text that is a node name or \<open>lxc\<close>: the text of a list or of an object is neither. A
  float is printed with its thousandths, as \<open>repr\<close> does below 10 to the 16.
\<close>

fun text_equals :: "json \<Rightarrow> string \<Rightarrow> bool" where
  "text_equals (JStr t) v \<longleftrightarrow> t = v"
| "text_equals JNull v \<longleftrightarrow> ''None'' = v"
| "text_equals (JBool b) v \<longleftrightarrow> (if b then ''True'' else ''False'') = v"
| "text_equals (JInt i) v \<longleftrightarrow> decimal_int i = v"
| "text_equals (JMillis k) v \<longleftrightarrow> decimal_millis k = v"
| "text_equals (JList xs) v \<longleftrightarrow> False"
| "text_equals (JObj kvs) v \<longleftrightarrow> False"

definition rollback_live_target :: "host_env \<Rightarrow> nat \<Rightarrow> int \<Rightarrow> string \<Rightarrow> unit result" where
  "rollback_live_target env n vmid node =
     bindE (rollback_json_command env n [''pvesh'', ''get'', ''/cluster/resources'', ''--type'', ''vm'', ''--output-format'', ''json'']
              ''current PVE target state'') (\<lambda>v.
     case v of
       JList rows \<Rightarrow>
         (case filter (\<lambda>row. json_equals_int (dict_get row ''vmid'') vmid) (object_rows rows) of
            [row] \<Rightarrow>
              checkE (text_equals (dict_get row ''type'') ''lxc'')
                (rollback_error ''unsupported_resource_type'' ''current PVE resource is not an LXC guest'')
             (checkE (text_equals (dict_get row ''node'') node)
                (rollback_error ''stale_target'' ''current PVE resource is not on the expected node'') (Inr ()))
          | _ \<Rightarrow> Inl (rollback_error ''stale_target'' ''current PVE state does not contain exactly this VMID''))
     | _ \<Rightarrow> Inl (rollback_error ''execution_failed'' ''current PVE target state was malformed''))"

definition rollback_local_node :: "host_env \<Rightarrow> nat \<Rightarrow> string result" where
  "rollback_local_node env n =
     bindE (rollback_json_command env n [''pvesh'', ''get'', ''/cluster/status'', ''--output-format'', ''json'']
              ''local PVE node identity'') (\<lambda>v.
     case v of
       JList rows \<Rightarrow>
         (case map (\<lambda>row. dict_get row ''name'')
                 (filter (\<lambda>row. dict_get row ''type'' = JStr ''node'' \<and> json_equals_int (dict_get row ''local'') 1) (object_rows rows)) of
            [JStr name] \<Rightarrow>
              checkE (pve_node_match name) (rollback_error ''execution_failed'' ''local PVE node identity was ambiguous'') (Inr name)
          | _ \<Rightarrow> Inl (rollback_error ''execution_failed'' ''local PVE node identity was ambiguous''))
     | _ \<Rightarrow> Inl (rollback_error ''execution_failed'' ''local PVE node identity was malformed''))"

definition config_lock :: "(string \<times> json) list \<Rightarrow> string option result" where
  "config_lock config =
     (case dict_get config ''lock'' of
        JNull \<Rightarrow> Inr None
      | JStr t \<Rightarrow> Inr (Some t)
      | _ \<Rightarrow> Inl (rollback_error ''execution_failed'' ''current container configuration lock was malformed''))"

definition config_template :: "(string \<times> json) list \<Rightarrow> bool result" where
  "config_template config =
     (let template = dict_get config ''template'' in
      checkE (case template of JNull \<Rightarrow> True | JBool b \<Rightarrow> False | _ \<Rightarrow> json_equals_int template 0 \<or> json_equals_int template 1)
        (rollback_error ''execution_failed'' ''current container configuration template flag was malformed'')
        (Inr (json_equals_int template 1)))"

definition read_config_preflight :: "host_env \<Rightarrow> nat \<Rightarrow> int \<Rightarrow> string \<Rightarrow> (string option \<times> bool) result" where
  "read_config_preflight env n vmid node =
     bindE (rollback_json_command env n [''pvesh'', ''get'', lxc_path node vmid ''/config'', ''--output-format'', ''json'']
              ''current container configuration'') (\<lambda>v.
     case v of
       JObj config \<Rightarrow> bindE (config_lock config) (\<lambda>lock. bindE (config_template config) (\<lambda>template. Inr (lock, template)))
     | _ \<Rightarrow> Inl (rollback_error ''execution_failed'' ''current container configuration was malformed''))"

definition read_snapshot_listing :: "host_env \<Rightarrow> nat \<Rightarrow> int \<Rightarrow> string \<Rightarrow> (string \<times> json) list list result" where
  "read_snapshot_listing env n vmid node =
     bindE (rollback_json_command env n [''pvesh'', ''get'', lxc_path node vmid ''/snapshot'', ''--output-format'', ''json'']
              ''current snapshot listing'') (\<lambda>v.
     case v of
       JList rows \<Rightarrow>
         checkE (length (object_rows rows) = length rows)
           (rollback_error ''execution_failed'' ''current snapshot listing was malformed'') (Inr (object_rows rows))
     | _ \<Rightarrow> Inl (rollback_error ''execution_failed'' ''current snapshot listing was malformed''))"

definition rollback_task_status :: "host_env \<Rightarrow> nat \<Rightarrow> string \<Rightarrow> string \<Rightarrow> (string \<times> json) list result" where
  "rollback_task_status env n node upid =
     bindE (rollback_json_command env n
              [''pvesh'', ''get'', ''/nodes/'' @ node @ ''/tasks/'' @ upid @ ''/status'', ''--output-format'', ''json''] ''PVE task status'') (\<lambda>v.
     case v of JObj st \<Rightarrow> Inr st | _ \<Rightarrow> Inl (rollback_error ''execution_failed'' ''PVE task status was malformed''))"

text \<open>\<open>None\<close> is a task that has not ended or cannot be classified.\<close>

definition task_is_terminal_success :: "(string \<times> json) list \<Rightarrow> bool option" where
  "task_is_terminal_success st =
     (if dict_get st ''status'' \<noteq> JStr ''stopped'' then None
      else case dict_get st ''exitstatus'' of
        JStr t \<Rightarrow>
          if t = [] then None
          else if t = ''OK'' then Some True
          else if starts_with ''WARNINGS: '' t \<and> drop (length ''WARNINGS: '') t \<noteq> []
                  \<and> list_all is_ascii_digit (drop (length ''WARNINGS: '') t) then Some True
          else if t = ''unexpected status'' then None
          else Some False
      | _ \<Rightarrow> None)"

section \<open>The target snapshot\<close>

text \<open>One row of the listing: a refusal, or whether it is a match.\<close>

definition rollbackable_row :: "string \<Rightarrow> snapshot_ownership \<Rightarrow> (string \<times> json) list \<Rightarrow> bool result" where
  "rollbackable_row name expected row =
     (if dict_get row ''name'' = JStr ''current'' then Inr False
      else case rollback_parse_description (dict_get row ''description'') of
        Inl _ \<Rightarrow> Inl (rollback_refusal ''snapshot_ownership_malformed''
          ''canonical PVE state contains malformed Hubinet snapshot metadata; job-owned snapshot ownership is ambiguous'')
      | Inr claim \<Rightarrow>
          if dict_get row ''name'' \<noteq> JStr name then
            checkE (\<not> (case claim of None \<Rightarrow> False | Some w \<Rightarrow> own_job_id w = own_job_id expected))
              (rollback_refusal ''snapshot_ownership_ambiguous'' ''another snapshot claims this job under a different name'')
              (Inr False)
          else
            checkE (\<not> json_truthy (dict_get row ''snapstate''))
              (rollback_refusal ''snapshot_incomplete'' ''the target snapshot is incomplete and PVE would refuse to roll back'')
           (checkE (claim \<noteq> None)
              (rollback_refusal ''snapshot_ownership_absent'' ''the target snapshot carries no Hubinet ownership metadata'')
           (checkE (claim = Some expected)
              (rollback_refusal ''snapshot_ownership_mismatch'' ''the target snapshot does not carry this job's exact ownership metadata'')
              (Inr True))))"

fun rollbackable_loop :: "string \<Rightarrow> snapshot_ownership \<Rightarrow> nat \<Rightarrow> (string \<times> json) list list \<Rightarrow> unit result" where
  "rollbackable_loop name expected matches [] =
     checkE (matches = 1)
       (rollback_refusal ''snapshot_absent'' ''canonical PVE state does not contain exactly this job's snapshot'') (Inr ())"
| "rollbackable_loop name expected matches (row # rows) =
     bindE (rollbackable_row name expected row) (\<lambda>hit. rollbackable_loop name expected (if hit then matches + 1 else matches) rows)"

definition require_target_snapshot_is_rollbackable ::
    "(string \<times> json) list list \<Rightarrow> string \<Rightarrow> snapshot_ownership \<Rightarrow> unit result" where
  "require_target_snapshot_is_rollbackable snapshots name expected = rollbackable_loop name expected 0 snapshots"

section \<open>Answers\<close>

definition phase_response ::
    "host_rollback_request \<Rightarrow> string \<Rightarrow> string \<Rightarrow> string option \<Rightarrow> (string \<times> json) list option \<Rightarrow> (string \<times> json) list list option \<Rightarrow> string
      \<Rightarrow> (string \<times> json) list" where
  "phase_response q phase outcome upid task snapshots reason =
     [(''response_version'', JInt 1), (''ok'', JBool True), (''rollback_operation_id'', JStr (rq_id q)),
      (''outcome'', JStr outcome), (''rollback_state'', JStr phase)]
     @ opt_member ''task_upid'' (map_option JStr upid) @ opt_member ''task'' (map_option JObj task)
     @ opt_member ''snapshots'' (map_option (\<lambda>l. JList (map JObj l)) snapshots)
     @ [(''reason'', JStr (take 500 reason))]"

section \<open>Operations\<close>

definition promote_rollback_capture :: "host_env \<Rightarrow> nat \<Rightarrow> host_rollback_request \<Rightarrow> string option action" where
  "promote_rollback_capture env n q =
     act_bind (act_get (\<lambda>s. Inr (read_completed_capture env (rq_id q) s))) (\<lambda>captured.
     case Option.bind captured extract_upid of
       None \<Rightarrow> act_ret None
     | Some upid \<Rightarrow>
         act_bind (write_rollback env n q (rollback_record q ''task_known'' (Some upid) None)) (\<lambda>_.
         act_bind (cleanup_capture env (rq_id q)) (\<lambda>_. act_ret (Some upid))))"

definition resolve_task :: "host_env \<Rightarrow> host_rollback_request \<Rightarrow> string \<Rightarrow> string \<Rightarrow> (string \<times> json) list action" where
  "resolve_task env q phase upid =
     act_bind (act_lift (rollback_task_status env 0 (rq_node q) upid)) (\<lambda>st.
     case task_is_terminal_success st of
       None \<Rightarrow>
         act_ret (phase_response q phase ''uncertain'' (Some upid) (Some st) None
           (if dict_get st ''status'' = JStr ''running'' then ''PVE rollback task is still running''
            else ''PVE rollback task status could not be classified''))
     | Some False \<Rightarrow>
         act_bind (if phase \<noteq> ''terminal'' then write_rollback env 1 q (rollback_record q ''terminal'' (Some upid) (Some ''failed''))
                   else act_ret ()) (\<lambda>_.
         act_ret (phase_response q ''terminal'' ''failed'' (Some upid) (Some st) None
           ''PVE rollback task reached a terminal error state''))
     | Some True \<Rightarrow>
         act_bind (act_lift (read_snapshot_listing env 1 (rq_vmid q) (rq_node q))) (\<lambda>snapshots.
         act_bind (if phase \<noteq> ''terminal'' then write_rollback env 1 q (rollback_record q ''terminal'' (Some upid) (Some ''completed''))
                   else act_ret ()) (\<lambda>_.
         act_ret (phase_response q ''terminal'' ''completed'' (Some upid) (Some st) (Some snapshots)
           ''PVE rollback task reached a terminal non-error state''))))"

definition resolve_post_submission :: "host_env \<Rightarrow> host_rollback_request \<Rightarrow> journal_record \<Rightarrow> (string \<times> json) list action" where
  "resolve_post_submission env q record =
     act_bind (if record_phase record = ''submitted'' \<and> record_upid record = None
               then act_bind (promote_rollback_capture env 0 q) (\<lambda>upid.
                      act_ret (if upid = None then record_phase record else ''task_known'', upid))
               else act_ret (record_phase record, record_upid record)) (\<lambda>(phase, found).
     case found of
       None \<Rightarrow>
         act_ret (phase_response q phase ''uncertain'' None None None
           ''rollback was submitted but no PVE task identity was captured; canonical state cannot distinguish this rollback from an earlier one'')
     | Some upid \<Rightarrow> resolve_task env q phase upid)"

definition ROLLBACK_LEASE_BUSY :: exn where
  "ROLLBACK_LEASE_BUSY = rollback_error ''operation_in_progress'' ''another rollback operation holds this guest's lease''"

definition inspect_found :: "host_env \<Rightarrow> host_rollback_request \<Rightarrow> journal_record option \<Rightarrow> (string \<times> json) list action" where
  "inspect_found env q found =
     (case found of
        None \<Rightarrow>
          act_ret (phase_response q ''absent'' ''uncertain'' None None None ''no rollback operation is journaled for this identity'')
      | Some record \<Rightarrow>
          act_bind (act_lift (require_same_request record q)) (\<lambda>_.
          if record_phase record = ''intent'' then
            act_ret (phase_response q ''intent'' ''uncertain'' None None None ''rollback intent is journaled but nothing was submitted'')
          else if record_phase record = ''sealed_not_submitted'' then
            act_ret (phase_response q ''sealed_not_submitted'' ''not_submitted'' None None None
              ''this rollback operation is durably sealed as never submitted'')
          else resolve_post_submission env q record))"

definition inspect_rollback_state :: "host_env \<Rightarrow> host_rollback_request \<Rightarrow> (string \<times> json) list action" where
  "inspect_rollback_state env q =
     with_lease env ROLLBACK_LEASE_BUSY (rq_vmid q) (act_bind (read_rollback_journal env (rq_id q)) (inspect_found env q))"

definition seal_rollback :: "host_env \<Rightarrow> host_rollback_request \<Rightarrow> (string \<times> json) list action" where
  "seal_rollback env q =
     act_bind (write_rollback env 0 q (rollback_record q ''sealed_not_submitted'' None None)) (\<lambda>_.
     act_ret (phase_response q ''sealed_not_submitted'' ''not_submitted'' None None None
       ''this rollback operation is now durably sealed as never submitted''))"

definition seal_rollback_found :: "host_env \<Rightarrow> host_rollback_request \<Rightarrow> journal_record option \<Rightarrow> (string \<times> json) list action" where
  "seal_rollback_found env q found =
     (case found of
        None \<Rightarrow> seal_rollback env q
      | Some record \<Rightarrow>
          act_bind (act_lift (require_same_request record q)) (\<lambda>_.
          if record_phase record = ''sealed_not_submitted'' then
            act_ret (phase_response q ''sealed_not_submitted'' ''not_submitted'' None None None
              ''this rollback operation was already durably sealed'')
          else if record_phase record \<noteq> ''intent'' then
            act_raise (rollback_error ''already_submitted'' ''this rollback operation is already past its submission boundary'')
          else seal_rollback env q))"

definition seal_rollback_never_submitted :: "host_env \<Rightarrow> host_rollback_request \<Rightarrow> (string \<times> json) list action" where
  "seal_rollback_never_submitted env q =
     with_lease env ROLLBACK_LEASE_BUSY (rq_vmid q) (act_bind (read_rollback_journal env (rq_id q)) (seal_rollback_found env q))"

text \<open>Everything that is refused before the record \<open>submitted\<close>.\<close>

definition rollback_preflight :: "host_env \<Rightarrow> host_rollback_request \<Rightarrow> unit result" where
  "rollback_preflight env q =
     bindE (rollback_live_target env 0 (rq_vmid q) (rq_node q)) (\<lambda>_.
     bindE (read_config_preflight env 1 (rq_vmid q) (rq_node q)) (\<lambda>(lock, template).
     checkE (\<not> template)
       (rollback_refusal ''unsupported_resource_type'' ''the container is a template and PVE would refuse to roll back'')
    (checkE (lock = None)
       (rollback_refusal ''operation_in_progress''
          (''the container configuration is locked ('' @ (if str_or_empty lock = [] then ''empty'' else str_or_empty lock)
            @ '') and PVE would refuse to roll back''))
    (bindE (read_snapshot_listing env 2 (rq_vmid q) (rq_node q)) (\<lambda>snapshots.
     bindE (require_target_snapshot_is_rollbackable snapshots (rq_name q) (rq_expected q)) (\<lambda>_.
     bindE (rollback_local_node env 3) (\<lambda>local.
     checkE (local = rq_node q) (rollback_refusal ''stale_target'' ''target guest is not owned by this local PVE node'')
       (rollback_live_target env 4 (rq_vmid q) (rq_node q)))))))))"

definition rollback_argv :: "host_rollback_request \<Rightarrow> string list" where
  "rollback_argv q =
     [''pvesh'', ''--noproxy'', ''create'', lxc_path (rq_node q) (rq_vmid q) (''/snapshot/'' @ rq_name q @ ''/rollback''),
      ''--start'', ''0'', ''--output-format'', ''json'']"

definition no_rollback_runner :: "handoff \<Rightarrow> exn" where
  "no_rollback_runner h = rollback_refusal ''execution_failed''
     (if h = ExecutorNotForked then ''host could not establish the detached rollback runner''
      else ''detached rollback runner did not confirm it was ready'')"

definition ROLLBACK_NOT_JOURNALED :: exn where
  "ROLLBACK_NOT_JOURNALED = rollback_refusal ''execution_failed'' ''host could not durably journal this rollback submission''"

definition submit_rollback :: "host_env \<Rightarrow> host_rollback_request \<Rightarrow> (string \<times> json) list action" where
  "submit_rollback env q =
     act_bind (submit_detached env (whole_write (env_write env 1)) no_rollback_runner ROLLBACK_NOT_JOURNALED (rq_id q) (rq_vmid q)
                (rollback_record q ''submitted'' None None) (rollback_argv q)) (\<lambda>_.
     act_bind (promote_rollback_capture env 2 q) (\<lambda>upid.
     case upid of
       None \<Rightarrow>
         act_ret (phase_response q ''submitted'' ''uncertain'' None None None
           ''rollback submitted to detached host runner; exact task identity awaits durable capture recovery'')
     | Some u \<Rightarrow>
         act_bind (write_rollback env 3 q (rollback_record q ''task_known'' (Some u) None)) (\<lambda>_.
         act_ret (phase_response q ''task_known'' ''uncertain'' (Some u) None None ''rollback submitted; PVE task identity captured''))))"

definition submit_found :: "host_env \<Rightarrow> host_rollback_request \<Rightarrow> journal_record option \<Rightarrow> (string \<times> json) list action" where
  "submit_found env q found =
     act_bind (act_lift (case found of None \<Rightarrow> Inr () | Some record \<Rightarrow> require_same_request record q)) (\<lambda>_.
     let phase = (case found of None \<Rightarrow> ''intent'' | Some record \<Rightarrow> record_phase record) in
     if phase = ''sealed_not_submitted'' then
       act_raise (rollback_refusal ''sealed_not_submitted'' ''this rollback operation is durably sealed as never submitted'')
     else if phase \<noteq> ''intent'' then resolve_post_submission env q (the found)
     else
       act_bind (act_lift (rollback_preflight env q)) (\<lambda>_.
       act_bind (if found = None then write_rollback env 0 q (rollback_record q ''intent'' None None) else act_ret ()) (\<lambda>_.
       submit_rollback env q)))"

definition submit_same_job_rollback :: "host_env \<Rightarrow> host_rollback_request \<Rightarrow> (string \<times> json) list action" where
  "submit_same_job_rollback env q =
     with_lease env ROLLBACK_LEASE_BUSY (rq_vmid q) (act_bind (read_rollback_journal env (rq_id q)) (submit_found env q))"

section \<open>Entry point\<close>

definition rollback_dispatch :: "host_env \<Rightarrow> host_rollback_request \<Rightarrow> (string \<times> json) list action" where
  "rollback_dispatch env q =
     (if rq_operation q = INSPECT_ROLLBACK then inspect_rollback_state env q
      else if rq_operation q = SEAL_ROLLBACK then seal_rollback_never_submitted env q
      else submit_same_job_rollback env q)"

definition rollback_failure :: "json \<Rightarrow> (string \<times> json) list \<Rightarrow> (string \<times> json) list" where
  "rollback_failure oid error =
     [(''response_version'', JInt 1), (''ok'', JBool False), (''rollback_operation_id'', oid), (''error'', JObj error)]"

definition exn_text :: "exn \<Rightarrow> string" where
  "exn_text e = (case e of ValueError t \<Rightarrow> t | HelperError c t sub \<Rightarrow> t | _ \<Rightarrow> [])"

text \<open>
  The answer on standard output to a request that decoded: every failure is an answer, and only a kill
  leaves none.
\<close>

definition rollback_serve :: "host_env \<Rightarrow> json \<Rightarrow> (string \<times> json) list action" where
  "rollback_serve env payload =
     (case parse_request payload of
        Inl e \<Rightarrow> act_ret (rollback_failure JNull [(''classification'', JStr ''malformed_request''), (''message'', JStr (take 500 (exn_text e)))])
      | Inr q \<Rightarrow>
          act_try (rollback_dispatch env q) (\<lambda>e.
            case e of
              Killed \<Rightarrow> act_raise Killed
            | HelperError classification message submission \<Rightarrow>
                act_ret (rollback_failure (JStr (rq_id q)) [(''classification'', JStr classification),
                  (''message'', JStr (take 500 message)), (''submission'', JStr submission)])
            | _ \<Rightarrow>
                act_ret (rollback_failure (JStr (rq_id q)) [(''classification'', JStr ''execution_failed''),
                  (''message'', JStr ''rollback boundary failed''), (''submission'', JStr ''may_have_been_submitted'')])))"

definition rollback_main :: "host_env \<Rightarrow> string \<Rightarrow> (string \<times> json) list action" where
  "rollback_main env raw =
     (if 8192 < length raw
      then act_ret (rollback_failure JNull [(''classification'', JStr ''request_too_large''),
             (''message'', JStr ''request exceeded its structural bound'')])
      else case decoded_json raw of
        None \<Rightarrow> act_ret (rollback_failure JNull [(''classification'', JStr ''malformed_request''),
             (''message'', JStr ''request was not valid JSON'')])
      | Some payload \<Rightarrow> rollback_serve env payload)"

end
