(* ===== verification/Mutation_Helper.thy ===== *)
theory Mutation_Helper
  imports Rollback_Helper
begin

text \<open>
  \<open>deploy/hubinet-package-mutation-helper.py\<close>: the typed request with the approved packages, the journal of one
  mutation operation, the commands in the guest, the action gate that is staged there, the read-only
  preparation, and the inspection, the seal and the execution. The runner of the package command writes the terminal
  record itself, when it ends. The framing of standard input in \<open>main\<close> is left out.
\<close>

section \<open>Text\<close>

text \<open>\<open>str.splitlines\<close>.\<close>

definition is_line_break :: "char \<Rightarrow> bool" where
  "is_line_break c \<longleftrightarrow> (let n = of_char c :: nat in (10 \<le> n \<and> n \<le> 13) \<or> (28 \<le> n \<and> n \<le> 30) \<or> n = 133)"

fun py_splitlines :: "string \<Rightarrow> string list" where
  "py_splitlines [] = []"
| "py_splitlines (c # cs) =
     (if is_line_break c then
        (case cs of d # ds \<Rightarrow> if c = CHR 0x0D \<and> d = CHR 0x0A then [] # py_splitlines ds else [] # py_splitlines cs
         | [] \<Rightarrow> [[]])
      else (case py_splitlines cs of [] \<Rightarrow> [[c]] | p # ps \<Rightarrow> (c # p) # ps))"

text \<open>\<open>str.split()\<close>.\<close>

fun split_space :: "string \<Rightarrow> string list" where
  "split_space [] = [[]]"
| "split_space (c # cs) =
     (if py_isspace c then [] # split_space cs
      else (case split_space cs of [] \<Rightarrow> [[c]] | p # ps \<Rightarrow> (c # p) # ps))"

definition py_words :: "string \<Rightarrow> string list" where
  "py_words v = filter (\<lambda>p. p \<noteq> []) (split_space v)"

section \<open>Requests\<close>

record approved_package =
  ap_name :: string
  ap_architecture :: string
  ap_installed :: string
  ap_candidate :: string

record mutation_context =
  mc_backend_instance_id :: uuid
  mc_job_id :: uuid
  mc_resource_id :: uuid
  mc_binding_id :: uuid
  mc_locator_generation :: int
  mc_resource_continuity_revision :: int

record host_mutation_request =
  mq_operation :: string
  mq_vmid :: int
  mq_node :: string
  mq_context :: mutation_context
  mq_id :: uuid
  mq_fingerprint :: string
  mq_packages :: "approved_package list"
  mq_prepared :: "string option"

definition PREPARE_MUTATION :: string where "PREPARE_MUTATION = ''prepare_exact_package_mutation''"
definition EXECUTE_MUTATION :: string where "EXECUTE_MUTATION = ''execute_exact_package_mutation''"
definition SEAL_MUTATION :: string where "SEAL_MUTATION = ''seal_mutation_never_submitted''"
definition INSPECT_MUTATION :: string where "INSPECT_MUTATION = ''inspect_package_mutation_state''"

text \<open>A \<open>MutationError\<close> says nothing of submission.\<close>

definition mutation_error :: "string \<Rightarrow> string \<Rightarrow> exn" where
  "mutation_error classification message = HelperError classification message []"

definition bounded_field :: "string \<Rightarrow> nat \<Rightarrow> json \<Rightarrow> string result" where
  "bounded_field field max_length v =
     (case v of
        JStr t \<Rightarrow> checkE (py_strip t \<noteq> [] \<and> length t \<le> max_length) (ValueError (field @ '' is invalid'')) (Inr t)
      | _ \<Rightarrow> Inl (ValueError (field @ '' is invalid'')))"

definition approved_package_json :: "approved_package \<Rightarrow> json" where
  "approved_package_json p =
     JObj [(''architecture'', JStr (ap_architecture p)), (''candidate_version'', JStr (ap_candidate p)),
           (''installed_version'', JStr (ap_installed p)), (''package_name'', JStr (ap_name p))]"

definition plan_fingerprint :: "approved_package list \<Rightarrow> string" where
  "plan_fingerprint packages =
     sha256_hex (json_dumps (JList (map approved_package_json (sort_key (\<lambda>p. (ap_name p, ap_architecture p)) packages))))"

text \<open>The digest of the backend's plan, on the material the helper is sent.\<close>

definition approved_of :: "package \<Rightarrow> approved_package" where
  "approved_of p = \<lparr>ap_name = pkg_name p, ap_architecture = pkg_architecture p, ap_installed = pkg_installed_version p,
     ap_candidate = pkg_candidate_version p\<rparr>"

lemma plan_fingerprint_backend:
  assumes "package_plan_fingerprint ps = Inr fp"
  shows "plan_fingerprint (map approved_of ps) = fp"
proof -
  obtain qs where q: "validate_package_plan ps = Inr qs" and fp: "fp = sha256_hex (json_dumps (JList (map package_json qs)))"
    using assms by (auto simp: package_plan_fingerprint_def bindE_Inr_iff)
  have "map approved_of (sort_key plan_key ps) = sort_key (\<lambda>p. (ap_name p, ap_architecture p)) (map approved_of ps)"
    by (rule map_sort_key) (simp add: approved_of_def plan_key_def)
  moreover have "approved_package_json (approved_of p) = package_json p" for p
    by (simp add: approved_of_def approved_package_json_def package_json_def)
  ultimately show ?thesis
    using q fp by (simp add: plan_fingerprint_def validate_package_plan_Inr flip: map_map)
      (metis (no_types, lifting) comp_apply map_eq_conv map_map)
qed

definition approved_row :: "json \<Rightarrow> approved_package result" where
  "approved_row v =
     bindE (exact_object [''package_name'', ''architecture'', ''installed_version'', ''candidate_version'']
              (ValueError ''expected_packages row has the wrong shape'') v) (\<lambda>row.
     bindE (bounded_field ''package_name'' 300 (dict_get row ''package_name'')) (\<lambda>name.
     bindE (case dict_get row ''architecture'' of
              JStr t \<Rightarrow> checkE (architecture_match t) (ValueError ''expected_packages row architecture is invalid'') (Inr t)
            | _ \<Rightarrow> Inl (ValueError ''expected_packages row architecture is invalid'')) (\<lambda>architecture.
     bindE (bounded_field ''installed_version'' 500 (dict_get row ''installed_version'')) (\<lambda>installed.
     bindE (bounded_field ''candidate_version'' 500 (dict_get row ''candidate_version'')) (\<lambda>candidate.
       Inr \<lparr>ap_name = name, ap_architecture = architecture, ap_installed = installed, ap_candidate = candidate\<rparr>)))))"

fun approved_rows :: "(string \<times> string) list \<Rightarrow> json list \<Rightarrow> approved_package list result" where
  "approved_rows seen [] = Inr []"
| "approved_rows seen (row # rows) =
     bindE (approved_row row) (\<lambda>p.
     checkE ((ap_name p, ap_architecture p) \<notin> set seen)
       (ValueError ''expected_packages contains a duplicate (package_name, architecture)'')
    (bindE (approved_rows ((ap_name p, ap_architecture p) # seen) rows) (\<lambda>ps. Inr (p # ps))))"

definition validate_expected_packages :: "json \<Rightarrow> approved_package list result" where
  "validate_expected_packages v =
     (case v of
        JList rows \<Rightarrow>
          checkE (rows \<noteq> []) (ValueError ''expected_packages must be a non-empty list'')
         (checkE (length rows \<le> 5000) (ValueError ''expected_packages exceeded its structural bound'') (approved_rows [] rows))
      | _ \<Rightarrow> Inl (ValueError ''expected_packages must be a non-empty list''))"

definition mutation_target :: "json \<Rightarrow> (int \<times> string) result" where
  "mutation_target v =
     bindE (exact_object [''vmid'', ''expected_node''] (ValueError ''target must have the exact package-mutation shape'') v) (\<lambda>target.
     bindE (case dict_get target ''vmid'' of
              JInt n \<Rightarrow> checkE (100 \<le> n \<and> n \<le> 999999999) (ValueError ''vmid must be a valid PVE integer VMID'') (Inr n)
            | _ \<Rightarrow> Inl (ValueError ''vmid must be a valid PVE integer VMID'')) (\<lambda>vmid.
     case dict_get target ''expected_node'' of
       JStr node \<Rightarrow> checkE (pve_node_match node) (ValueError ''expected_node is invalid'') (Inr (vmid, node))
     | _ \<Rightarrow> Inl (ValueError ''expected_node is invalid'')))"

definition mutation_context_of :: "json \<Rightarrow> mutation_context result" where
  "mutation_context_of v =
     bindE (exact_object [''backend_instance_id'', ''job_id'', ''resource_id'', ''binding_id'', ''locator_generation'',
              ''resource_continuity_revision''] (ValueError ''context must have the exact package-mutation shape'') v) (\<lambda>kvs.
     bindE (uuid_field (not_canonical ''backend_instance_id'') (dict_get kvs ''backend_instance_id'')) (\<lambda>backend.
     bindE (uuid_field (not_canonical ''job_id'') (dict_get kvs ''job_id'')) (\<lambda>job.
     bindE (uuid_field (not_canonical ''resource_id'') (dict_get kvs ''resource_id'')) (\<lambda>res.
     bindE (uuid_field (not_canonical ''binding_id'') (dict_get kvs ''binding_id'')) (\<lambda>binding.
     bindE (positive_field (not_positive ''locator_generation'') (dict_get kvs ''locator_generation'')) (\<lambda>generation.
     bindE (positive_field (not_positive ''resource_continuity_revision'') (dict_get kvs ''resource_continuity_revision'')) (\<lambda>continuity.
       Inr \<lparr>mc_backend_instance_id = backend, mc_job_id = job, mc_resource_id = res, mc_binding_id = binding,
            mc_locator_generation = generation, mc_resource_continuity_revision = continuity\<rparr>)))))))"

definition mutation_identity :: "json \<Rightarrow> (uuid \<times> string) result" where
  "mutation_identity v =
     bindE (exact_object [''mutation_operation_id'', ''plan_fingerprint'']
              (ValueError ''operation_identity must have the exact package-mutation shape'') v) (\<lambda>identity.
     bindE (uuid_field (not_canonical ''mutation_operation_id'') (dict_get identity ''mutation_operation_id'')) (\<lambda>oid.
     case dict_get identity ''plan_fingerprint'' of
       JStr t \<Rightarrow> checkE (is_hex_digest 64 t) (ValueError ''plan_fingerprint is invalid'') (Inr (oid, t))
     | _ \<Rightarrow> Inl (ValueError ''plan_fingerprint is invalid'')))"

definition prepared_digest :: "string \<Rightarrow> json \<Rightarrow> string option result" where
  "prepared_digest operation v =
     (if operation = EXECUTE_MUTATION then
        (case v of
           JStr t \<Rightarrow> checkE (is_hex_digest 64 t) (ValueError ''prepared_evidence_digest is invalid'') (Inr (Some t))
         | _ \<Rightarrow> Inl (ValueError ''prepared_evidence_digest is invalid''))
      else checkE (v = JNull) (ValueError ''prepared_evidence_digest is only meaningful when executing'') (Inr None))"

definition validate_mutation_request :: "json \<Rightarrow> host_mutation_request result" where
  "validate_mutation_request v =
     bindE (exact_object [''request_version'', ''operation'', ''target'', ''context'', ''operation_identity'', ''expected_packages'',
              ''prepared_evidence_digest''] (ValueError ''request must have the exact package-mutation shape'') v) (\<lambda>payload.
     checkE (json_equals_int (dict_get payload ''request_version'') 1) (ValueError ''unsupported request version'')
    (bindE (case dict_get payload ''operation'' of
              JStr opn \<Rightarrow> checkE (opn \<in> {PREPARE_MUTATION, EXECUTE_MUTATION, SEAL_MUTATION, INSPECT_MUTATION})
                            (ValueError ''unknown host-control operation'') (Inr opn)
            | _ \<Rightarrow> Inl (ValueError ''unknown host-control operation'')) (\<lambda>operation.
     bindE (mutation_target (dict_get payload ''target'')) (\<lambda>(vmid, node).
     bindE (mutation_context_of (dict_get payload ''context'')) (\<lambda>context.
     bindE (mutation_identity (dict_get payload ''operation_identity'')) (\<lambda>(oid, fingerprint).
     bindE (validate_expected_packages (dict_get payload ''expected_packages'')) (\<lambda>packages.
     checkE (plan_fingerprint packages = fingerprint)
       (ValueError ''expected_packages do not hash to the declared plan_fingerprint'')
    (bindE (prepared_digest operation (dict_get payload ''prepared_evidence_digest'')) (\<lambda>prepared.
       Inr \<lparr>mq_operation = operation, mq_vmid = vmid, mq_node = node, mq_context = context, mq_id = oid,
            mq_fingerprint = fingerprint, mq_packages = packages, mq_prepared = prepared\<rparr>)))))))))"

definition mutation_context_json :: "mutation_context \<Rightarrow> json" where
  "mutation_context_json c =
     JObj [(''backend_instance_id'', JStr (mc_backend_instance_id c)), (''job_id'', JStr (mc_job_id c)),
           (''resource_id'', JStr (mc_resource_id c)), (''binding_id'', JStr (mc_binding_id c)),
           (''locator_generation'', JInt (mc_locator_generation c)),
           (''resource_continuity_revision'', JInt (mc_resource_continuity_revision c))]"

definition mutation_request_fingerprint :: "host_mutation_request \<Rightarrow> string" where
  "mutation_request_fingerprint q =
     sha256_hex (json_dumps (JObj
       [(''vmid'', JInt (mq_vmid q)), (''expected_node'', JStr (mq_node q)), (''mutation_operation_id'', JStr (mq_id q)),
        (''plan_fingerprint'', JStr (mq_fingerprint q)), (''context'', mutation_context_json (mq_context q))]))"

section \<open>The action gate\<close>

text \<open>The identifier in these paths is that of a validated request.\<close>

definition guest_staging_directory :: "uuid \<Rightarrow> string" where
  "guest_staging_directory i = ''/run/hubinet-ops/package-mutation/'' @ i"

definition guest_verifier_path :: "uuid \<Rightarrow> string" where
  "guest_verifier_path i = guest_staging_directory i @ ''/verify-action-set''"

definition guest_manifest_path :: "uuid \<Rightarrow> string" where
  "guest_manifest_path i = guest_staging_directory i @ ''/expected-actions''"

definition MUTATION_BASE_OPTIONS :: "string list" where
  "MUTATION_BASE_OPTIONS =
     [''env'', ''LC_ALL=C'', ''DEBIAN_FRONTEND=noninteractive'', ''apt-get'', ''-y'',
      ''-o'', ''APT::Get::Upgrade-Allow-New=false'', ''-o'', ''APT::Get::Remove=false'', ''-o'', ''APT::Get::Force-Yes=false'',
      ''-o'', ''APT::Get::allow-downgrades=false'', ''-o'', ''APT::Get::allow-remove-essential=false'',
      ''-o'', ''APT::Get::allow-change-held-packages=false'', ''-o'', ''APT::Get::AllowUnauthenticated=false'',
      ''-o'', ''APT::Ignore-Hold=false'', ''-o'', ''Dpkg::Options::=--force-confdef'', ''-o'', ''Dpkg::Options::=--force-confold'']"

definition mutation_argv :: "uuid \<Rightarrow> string list" where
  "mutation_argv i =
     MUTATION_BASE_OPTIONS
     @ [''-o'', ''DPkg::Pre-Install-Pkgs::='' @ guest_verifier_path i,
        ''-o'', ''DPkg::Tools::Options::'' @ guest_verifier_path i @ ''::Version=3'', ''upgrade'']"

definition MANIFEST_HEADER :: string where
  "MANIFEST_HEADER = ''hubinet-ops-package-mutation-actions v1''"

definition manifest_name_match :: "string \<Rightarrow> bool" where
  "manifest_name_match v \<longleftrightarrow>
     (case v of [] \<Rightarrow> False | c # cs \<Rightarrow> is_node_char c \<and> list_all (\<lambda>d. is_node_char d \<or> d \<in> set ''+._-'') cs)"

definition manifest_version_match :: "string \<Rightarrow> bool" where
  "manifest_version_match v \<longleftrightarrow>
     (case v of [] \<Rightarrow> False | c # cs \<Rightarrow> is_node_char c \<and> list_all (\<lambda>d. is_node_char d \<or> d \<in> set ''+.~:_-'') cs)"

definition action_line :: "approved_package \<Rightarrow> string \<Rightarrow> string" where
  "action_line p act =
     ap_name p @ '' '' @ ap_installed p @ '' '' @ ap_architecture p @ '' - < '' @ ap_candidate p @ '' '' @ ap_architecture p @ '' - '' @ act"

definition malformed_plan :: "string \<Rightarrow> exn" where
  "malformed_plan message = mutation_error ''malformed_plan'' message"

fun manifest_lines :: "approved_package list \<Rightarrow> string list result" where
  "manifest_lines [] = Inr []"
| "manifest_lines (p # ps) =
     checkE (manifest_name_match (ap_name p)) (malformed_plan ''approved package name cannot be expressed as an exact action'')
    (checkE (architecture_match (ap_architecture p))
       (malformed_plan ''approved package architecture cannot be expressed as an exact action'')
    (checkE (manifest_version_match (ap_installed p) \<and> manifest_version_match (ap_candidate p))
       (malformed_plan ''approved package version cannot be expressed as an exact action'')
    (checkE (ap_installed p \<noteq> ap_candidate p) (malformed_plan ''approved package material is not an upgrade'')
    (bindE (manifest_lines ps) (\<lambda>ls. Inr (action_line p ''UNPACK'' # action_line p ''CONFIGURE'' # ls))))))"

definition unlines :: "string list \<Rightarrow> string" where
  "unlines ls = concat (map (\<lambda>l. l @ [CHR 0x0A]) ls)"

definition build_expected_action_manifest :: "uuid \<Rightarrow> approved_package list \<Rightarrow> string result" where
  "build_expected_action_manifest i packages =
     bindE (manifest_lines packages) (\<lambda>ls. Inr (unlines ((MANIFEST_HEADER @ '' '' @ i) # ls)))"

text \<open>The text of the gate, a script of the guest's shell.\<close>

definition build_action_set_verifier :: "uuid \<Rightarrow> string" where
  "build_action_set_verifier i =
     unlines
       [
        ''#!/bin/sh'',
        ''# Hubinet Ops exact package-mutation action gate.'',
        ''#'',
        ''# Generated per operation by deploy/hubinet-package-mutation-helper.py and'',
        ''# staged into this guest'' @ [CHR 0x27] @ ''s tmpfs. Never edited in place, never reused across'',
        ''# operations. Refusing here aborts APT before dpkg receives any package'',
        ''# operation.'',
        ''set -u'',
        ''LC_ALL=C'',
        ''export LC_ALL'',
        [],
        ''OPERATION='' @ [CHR 0x27] @ i @ [CHR 0x27],
        ''DIR='' @ [CHR 0x27] @ guest_staging_directory i @ [CHR 0x27],
        ''MANIFEST=\"$DIR/'' @ ''expected-actions'' @ ''\"'',
        ''WANT=\"$DIR/expected.sorted\"'',
        ''GOT=\"$DIR/observed.sorted\"'',
        [],
        ''refuse() {'',
        ''    echo \"hubinet-ops: refusing package mutation before dpkg: $1\" >&2'',
        ''    exit 1'',
        ''}'',
        [],
        ''[ -f \"$MANIFEST\" ] || refuse \"expected action manifest is missing\"'',
        [],
        ''# The manifest header binds these bytes to exactly this operation, so a'',
        ''# leftover manifest from any other operation can never authorize this one.'',
        ''IFS= read -r header < \"$MANIFEST\" || refuse \"expected action manifest is empty\"'',
        ''[ \"$header\" = \"'' @ MANIFEST_HEADER @ '' $OPERATION\" ] ||'',
        ''    refuse \"expected action manifest belongs to another operation\"'',
        [],
        ''# 1. Protocol. APT silently falls back to its highest supported version when'',
        ''#    a newer one is requested, and a hook command it cannot key an option to'',
        ''#    simply gets Version 1, so the marker is REQUIRED to read Version 3.'',
        ''IFS= read -r protocol || refuse \"hook protocol stream was empty\"'',
        ''[ \"$protocol\" = \"VERSION 3\" ] ||'',
        ''    refuse \"hook protocol is not Version 3\"'',
        [],
        ''# 2. APT'' @ [CHR 0x27] @ ''s configuration space, terminated by one empty line. Every special'',
        ''#    character in it is %-encoded, so no key or value can contain a raw'',
        ''#    newline and this terminator is unambiguous.'',
        ''saw_blank=no'',
        ''while IFS= read -r line; do'',
        ''    if [ -z \"$line\" ]; then'',
        ''        saw_blank=yes'',
        ''        break'',
        ''    fi'',
        ''done'',
        ''[ \"$saw_blank\" = yes ] || refuse \"hook protocol stream had no action section\"'',
        [],
        ''# 3. The exact action stream APT is about to hand dpkg, normalized into the'',
        ''#    manifest'' @ [CHR 0x27] @ ''s own canonical form.'',
        ''while read -r pkg oldv olda oldm dir newv newa newm action rest; do'',
        ''    [ -n \"$pkg\" ] || continue'',
        ''    [ -z \"$rest\" ] || refuse \"action record has unexpected trailing fields\"'',
        ''    [ -n \"$oldm\" ] && [ -n \"$newm\" ] && [ -n \"$action\" ] ||'',
        ''        refuse \"action record is truncated\"'',
        ''    for multiarch in \"$oldm\" \"$newm\"; do'',
        ''        case \"$multiarch\" in'',
        ''            same|foreign|allowed|none) ;;'',
        ''            *) refuse \"action record has an unknown MultiArch type\" ;;'',
        ''        esac'',
        ''    done'',
        ''    case \"$action\" in'',
        ''        '' @ [CHR 0x27] @ ''**CONFIGURE**'' @ [CHR 0x27] @ '') class=CONFIGURE ;;'',
        ''        '' @ [CHR 0x27] @ ''**REMOVE**'' @ [CHR 0x27] @ '') refuse \"APT planned to remove an installed package\" ;;'',
        ''        /*.deb) class=UNPACK ;;'',
        ''        *) refuse \"APT planned an action this product does not perform\" ;;'',
        ''    esac'',
        ''    printf '' @ [CHR 0x27] @ ''%s %s %s - %s %s %s - %s'' @ [CHR 0x5C] @ ''n'' @ [CHR 0x27] @ '' '' @ [CHR 0x5C],
        ''        \"$pkg\" \"$oldv\" \"$olda\" \"$dir\" \"$newv\" \"$newa\" \"$class\"'',
        ''done > \"$GOT.raw\" || refuse \"could not read the resolved action stream\"'',
        [],
        ''# 4. Exact action-set equality against the authority-accepted material.'',
        ''#    Both sides are sorted here, in this guest, under the same collation, so'',
        ''#    the comparison is an exact multiset equality that does not depend on'',
        ''#    the order APT happens to plan its transaction in.'',
        ''tail -n +2 \"$MANIFEST\" | sort > \"$WANT\" ||'',
        ''    refuse \"could not read the approved action set\"'',
        ''sort < \"$GOT.raw\" > \"$GOT\" || refuse \"could not order the resolved action set\"'',
        ''[ -s \"$WANT\" ] || refuse \"approved action set is empty\"'',
        ''[ -s \"$GOT\" ] || refuse \"resolved action set is empty\"'',
        [],
        ''exec 3< \"$WANT\" || refuse \"could not open the approved action set\"'',
        ''exec 4< \"$GOT\" || refuse \"could not open the resolved action set\"'',
        ''while :; do'',
        ''    want='' @ [CHR 0x27] @ [CHR 0x27],
        ''    got='' @ [CHR 0x27] @ [CHR 0x27],
        ''    IFS= read -r want <&3'',
        ''    want_read=$?'',
        ''    IFS= read -r got <&4'',
        ''    got_read=$?'',
        ''    if [ \"$want_read\" -ne 0 ] && [ \"$got_read\" -ne 0 ]; then'',
        ''        break'',
        ''    fi'',
        ''    [ \"$want_read\" -eq 0 ] && [ \"$got_read\" -eq 0 ] ||'',
        ''        refuse \"resolved action set is not the approved action set\"'',
        ''    [ \"$want\" = \"$got\" ] ||'',
        ''        refuse \"resolved action differs from the approved plan\"'',
        ''done'',
        ''exec 3<&-'',
        ''exec 4<&-'',
        [],
        ''exit 0'']"

section \<open>The journal\<close>

definition MUTATION_PHASES :: "string list" where
  "MUTATION_PHASES = [''intent'', ''sealed_not_submitted'', ''submitted'', ''terminal_success'', ''terminal_failure'']"

definition is_terminal :: "string \<Rightarrow> bool" where
  "is_terminal phase \<longleftrightarrow> phase \<in> {''terminal_success'', ''terminal_failure''}"

definition result_is_success :: "(string \<times> json) list \<Rightarrow> bool" where
  "result_is_success evidence \<longleftrightarrow>
     json_equals_int (dict_get evidence ''exit_code'') 0 \<and> dict_get evidence ''timed_out'' = JBool False
     \<and> json_truthy (dict_get evidence ''post_installed_inventory'') \<and> json_truthy (dict_get evidence ''post_native_architecture'')"

definition is_json_text :: "json \<Rightarrow> bool" where
  "is_json_text v = (case v of JStr t \<Rightarrow> True | _ \<Rightarrow> False)"

definition is_json_int :: "json \<Rightarrow> bool" where
  "is_json_int v = (case v of JInt t \<Rightarrow> True | _ \<Rightarrow> False)"

definition is_json_bool :: "json \<Rightarrow> bool" where
  "is_json_bool v = (case v of JBool t \<Rightarrow> True | _ \<Rightarrow> False)"

definition CORRUPT_MUTATION_JOURNAL :: exn where
  "CORRUPT_MUTATION_JOURNAL = mutation_error ''journal_corrupt'' ''package mutation journal is corrupt''"

definition result_check :: "string \<Rightarrow> json \<Rightarrow> unit result" where
  "result_check phase v =
     (if phase \<in> {''intent'', ''sealed_not_submitted'', ''submitted''}
      then checkE (v = JNull)
             (mutation_error ''journal_corrupt'' ''package mutation journal phase carries incompatible evidence'') (Inr ())
      else case v of
        JObj evidence \<Rightarrow>
          checkE (is_json_int (dict_get evidence ''exit_code'') \<and> is_json_text (dict_get evidence ''pre_installed_inventory'')
                  \<and> is_json_text (dict_get evidence ''post_installed_inventory'') \<and> is_json_text (dict_get evidence ''post_native_architecture'')
                  \<and> is_json_bool (dict_get evidence ''timed_out''))
            (mutation_error ''journal_corrupt'' ''package mutation journal records a terminal phase without its result evidence'')
         (checkE ((phase = ''terminal_success'') = result_is_success evidence)
            (mutation_error ''journal_corrupt'' ''package mutation journal terminal phase contradicts its own recorded result'') (Inr ()))
      | _ \<Rightarrow> Inl (mutation_error ''journal_corrupt'' ''package mutation journal records a terminal phase without its result evidence''))"

definition mutation_record_check :: "uuid \<Rightarrow> json option \<Rightarrow> journal_record result" where
  "mutation_record_check i file =
     (case file of
        Some (JObj record) \<Rightarrow>
          checkE (json_equals_int (dict_get record ''journal_version'') 1
                  \<and> dict_get record ''mutation_operation_id'' = JStr i
                  \<and> record_phase record \<in> set MUTATION_PHASES
                  \<and> is_json_text (dict_get record ''request_fingerprint'') \<and> is_json_int (dict_get record ''vmid''))
            CORRUPT_MUTATION_JOURNAL
         (bindE (result_check (record_phase record) (dict_get record ''result'')) (\<lambda>_.
          let digest = dict_get record ''prepared_evidence_digest'' in
          checkE ((record_phase record = ''intent'') = is_json_text digest \<and> (digest = JNull \<or> is_json_text digest))
            (mutation_error ''journal_corrupt'' ''package mutation journal phase contradicts its prepared evidence binding'')
            (Inr record)))
      | _ \<Rightarrow> Inl CORRUPT_MUTATION_JOURNAL)"

definition read_mutation_journal :: "host_env \<Rightarrow> uuid \<Rightarrow> journal_record option action" where
  "read_mutation_journal env i =
     act_get (\<lambda>s. case host_journal s i of
        None \<Rightarrow> Inr None
      | Some file \<Rightarrow>
          checkE (env_journal_readable env) (mutation_error ''journal_unreadable'' ''package mutation journal is unreadable'')
            (bindE (mutation_record_check i file) (\<lambda>record. Inr (Some record))))"

text \<open>\<open>_require_matching_request\<close> on the record that was read.\<close>

definition matching_mutation :: "host_env \<Rightarrow> host_mutation_request \<Rightarrow> (journal_record option \<Rightarrow> 'a action) \<Rightarrow> 'a action" where
  "matching_mutation env q k =
     act_bind (read_mutation_journal env (mq_id q)) (\<lambda>found.
     act_need (case found of None \<Rightarrow> True
               | Some record \<Rightarrow> dict_get record ''request_fingerprint'' = JStr (mutation_request_fingerprint q))
       (mutation_error ''operation_request_mismatch'' ''this operation identity was journaled with a different request'')
       (k found))"

definition write_mutation :: "host_env \<Rightarrow> nat \<Rightarrow> host_mutation_request \<Rightarrow> journal_record \<Rightarrow> unit action" where
  "write_mutation env n q record = replace_journal (whole_write (env_write env n)) (mq_id q) record"

definition mutation_record :: "host_mutation_request \<Rightarrow> string \<Rightarrow> (string \<times> json) list \<Rightarrow> journal_record" where
  "mutation_record q phase extra =
     [(''journal_version'', JInt 1), (''mutation_operation_id'', JStr (mq_id q)),
      (''request_fingerprint'', JStr (mutation_request_fingerprint q)), (''vmid'', JInt (mq_vmid q)),
      (''expected_node'', JStr (mq_node q)), (''phase'', JStr phase)] @ extra"

section \<open>Commands\<close>

definition bounded_result :: "command_result option \<Rightarrow> command_result result" where
  "bounded_result answer =
     (case answer of
        None \<Rightarrow> Inl (OSError ''command could not be run'')
      | Some r \<Rightarrow>
          checkE (\<not> cr_timed_out r) (mutation_error ''timeout'' ''package mutation command timed out'')
         (checkE (\<not> cr_output_exceeded r) (mutation_error ''execution_failed'' ''package mutation command output exceeded its bound'') (Inr r)))"

definition mutation_json_command :: "host_env \<Rightarrow> nat \<Rightarrow> string list \<Rightarrow> string \<Rightarrow> string \<Rightarrow> json list result" where
  "mutation_json_command env n argv unread malformed =
     bindE (bounded_result (env_pve env n argv)) (\<lambda>r.
     checkE (cr_returncode r = 0) (mutation_error ''execution_failed'' unread)
    (case decoded_json (cr_stdout r) of
       Some (JList rows) \<Rightarrow> Inr rows
     | _ \<Rightarrow> Inl (mutation_error ''execution_failed'' malformed)))"

definition mutation_local_node :: "host_env \<Rightarrow> string result" where
  "mutation_local_node env =
     bindE (mutation_json_command env 0 [''pvesh'', ''get'', ''/cluster/status'', ''--output-format'', ''json'']
              ''could not read local PVE cluster status'' ''local PVE cluster status was malformed'') (\<lambda>rows.
     case map (\<lambda>row. dict_get row ''name'')
            (filter (\<lambda>row. dict_get row ''type'' = JStr ''node'' \<and> json_equals_int (dict_get row ''local'') 1) (object_rows rows)) of
       [JStr name] \<Rightarrow>
         checkE (pve_node_match name) (mutation_error ''execution_failed'' ''local PVE node identity is ambiguous'') (Inr name)
     | _ \<Rightarrow> Inl (mutation_error ''execution_failed'' ''local PVE node identity is ambiguous''))"

definition mutation_live_target :: "host_env \<Rightarrow> nat \<Rightarrow> int \<Rightarrow> string \<Rightarrow> unit result" where
  "mutation_live_target env n vmid node =
     bindE (mutation_json_command env n [''pvesh'', ''get'', ''/cluster/resources'', ''--type'', ''vm'', ''--output-format'', ''json'']
              ''could not read current PVE target state'' ''current PVE target state was malformed'') (\<lambda>rows.
     case filter (\<lambda>row. json_equals_int (dict_get row ''vmid'') vmid) (object_rows rows) of
       [row] \<Rightarrow>
         checkE (dict_get row ''type'' = JStr ''lxc'')
           (mutation_error ''unsupported_resource_type'' ''current PVE resource is not an LXC guest'')
        (checkE (dict_get row ''node'' = JStr node) (mutation_error ''stale_target'' ''guest node changed after job issuance'')
        (checkE (dict_get row ''status'' = JStr ''running'') (mutation_error ''guest_unavailable'' ''guest is not running'') (Inr ())))
     | _ \<Rightarrow> Inl (mutation_error ''guest_unavailable'' ''guest is missing or unavailable''))"

definition guest_argv :: "int \<Rightarrow> string list \<Rightarrow> string list" where
  "guest_argv vmid tail = [''pct'', ''exec'', decimal_int vmid, ''--''] @ tail"

text \<open>The n-th command in the guest of a call, after its own revalidation of the target.\<close>

definition run_guest_command :: "host_env \<Rightarrow> nat \<Rightarrow> host_mutation_request \<Rightarrow> string \<Rightarrow> string list \<Rightarrow> string \<Rightarrow> command_result result" where
  "run_guest_command env n q local tail input =
     bindE (mutation_live_target env n (mq_vmid q) (mq_node q)) (\<lambda>_.
     checkE (mq_node q = local) (mutation_error ''stale_target'' ''target guest is not owned by this local PVE node'')
       (bounded_result (env_guest env n (guest_argv (mq_vmid q) tail) input)))"

definition decode_output :: "command_result \<Rightarrow> (string \<times> string) result" where
  "decode_output r =
     (case (utf8_decode (cr_stdout r), utf8_decode (cr_stderr r)) of
        (Some out, Some err) \<Rightarrow> Inr (out, err)
      | _ \<Rightarrow> Inl (mutation_error ''execution_failed'' ''package mutation command output was not UTF-8''))"

definition package_failure :: "string \<Rightarrow> string \<Rightarrow> exn" where
  "package_failure stage err =
     (let lowered = map ascii_lower err in
      if list_ex (\<lambda>p. contains p lowered)
           [''could not get lock'', ''unable to acquire the dpkg frontend lock'', ''is another process using it'', ''could not open lock file'']
      then mutation_error ''package_manager_busy'' ''APT or dpkg is busy''
      else if stage = ''metadata_refresh'' then mutation_error ''metadata_refresh_failed'' ''APT metadata refresh failed''
      else mutation_error ''simulation_failed'' ''APT upgrade simulation failed'')"

text \<open>
  \<open>APT_VERSION_RE.fullmatch\<close>: three numbers, an optional suffix, and the architecture in parentheses. The
  groups of digits cannot be shortened, nor the suffix, so there is one way to match.
\<close>

definition take_number :: "string \<Rightarrow> (string \<times> string) option" where
  "take_number v = (let d = takeWhile is_ascii_digit v in if d = [] then None else Some (d, drop (length d) v))"

definition take_char :: "char \<Rightarrow> string \<Rightarrow> string option" where
  "take_char c v = (case v of [] \<Rightarrow> None | d # ds \<Rightarrow> if d = c then Some ds else None)"

definition apt_suffix_rest :: "string \<Rightarrow> string" where
  "apt_suffix_rest v =
     (case v of [] \<Rightarrow> []
      | c # cs \<Rightarrow> if c \<in> set ''~+.-'' then dropWhile (\<lambda>d. is_node_char d \<or> d \<in> set ''.+:~-'') cs else v)"

definition apt_architecture_match :: "string \<Rightarrow> bool" where
  "apt_architecture_match v \<longleftrightarrow>
     starts_with '' ('' v \<and> length v \<ge> 4 \<and> last v = CHR '')''
     \<and> list_all (\<lambda>c. is_node_char c \<or> c \<in> set ''_-'') (butlast (drop 2 v))"

definition apt_version_groups :: "string \<Rightarrow> (string \<times> string \<times> string) option" where
  "apt_version_groups v =
     (if \<not> starts_with ''apt '' v then None
      else Option.bind (take_number (drop 4 v)) (\<lambda>(major, r1). Option.bind (take_char (CHR ''.'') r1) (\<lambda>r2.
           Option.bind (take_number r2) (\<lambda>(minor, r3). Option.bind (take_char (CHR ''.'') r3) (\<lambda>r4.
           Option.bind (take_number r4) (\<lambda>(patch, r5).
             if apt_architecture_match (apt_suffix_rest r5) then Some (major, minor, patch) else None))))))"

definition parse_apt_version :: "string \<Rightarrow> (nat \<times> nat \<times> nat) result" where
  "parse_apt_version v =
     (case py_splitlines v of
        [] \<Rightarrow> Inl (mutation_error ''execution_failed'' ''guest APT version output was malformed'')
      | l # ls \<Rightarrow>
          (case apt_version_groups l of
             None \<Rightarrow> Inl (mutation_error ''execution_failed'' ''guest APT version output was malformed'')
           | Some (a, b, c) \<Rightarrow>
               checkE (list_all (\<lambda>d. length d \<le> 4300) [a, b, c]) (ValueError ''Exceeds the limit for integer string conversion'')
                 (Inr (digits_value a, digits_value b, digits_value c))))"

definition apt_version_too_old :: "nat \<times> nat \<times> nat \<Rightarrow> bool" where
  "apt_version_too_old v =
     (case v of (a, b, c) \<Rightarrow> a < 2 \<or> (a = 2 \<and> (b < 1 \<or> (b = 1 \<and> c < 16))))"

section \<open>The inventory of the guest\<close>

definition DPKG_UNFINISHED_STATUS_WORDS :: "string list" where
  "DPKG_UNFINISHED_STATUS_WORDS =
     [''half-installed'', ''unpacked'', ''half-configured'', ''triggers-awaited'', ''triggers-pending'']"

definition MALFORMED_INVENTORY :: exn where
  "MALFORMED_INVENTORY = mutation_error ''malformed_plan'' ''guest installed package inventory is malformed''"

text \<open>The installed versions and the identities with an unfinished status, in the order of the lines.\<close>

fun dpkg_rows ::
    "(string \<times> string) list \<Rightarrow> string list \<Rightarrow> (((string \<times> string) \<times> string) list \<times> string list) result" where
  "dpkg_rows seen [] = Inr ([], [])"
| "dpkg_rows seen (l # ls) =
     (if l = [] then dpkg_rows seen ls
      else case split_on (CHR 0x09) l of
        [name, architecture, version, word] \<Rightarrow>
          checkE (name \<noteq> [] \<and> architecture_match architecture) MALFORMED_INVENTORY
         (checkE ((name, architecture) \<notin> set seen)
            (mutation_error ''malformed_plan'' ''guest installed package inventory contains a duplicate (package_name, architecture)'')
         (bindE (dpkg_rows ((name, architecture) # seen) ls) (\<lambda>(installed, unfinished).
            if word \<in> set DPKG_UNFINISHED_STATUS_WORDS then Inr (installed, (name @ '':'' @ architecture) # unfinished)
            else if word \<noteq> ''installed'' then Inr (installed, unfinished)
            else Inr (((name, architecture), version) # installed, unfinished))))
      | _ \<Rightarrow> Inl MALFORMED_INVENTORY)"

definition parse_dpkg_inventory :: "string \<Rightarrow> (((string \<times> string) \<times> string) list \<times> string list) result" where
  "parse_dpkg_inventory v = dpkg_rows [] (py_splitlines v)"

definition drifted :: "((string \<times> string) \<times> string) list \<Rightarrow> approved_package list \<Rightarrow> approved_package list" where
  "drifted installed packages =
     filter (\<lambda>p. map_of installed (ap_name p, ap_architecture p) \<noteq> Some (ap_installed p)) packages"

definition NATIVE_ARCHITECTURE_ARGV :: "string list" where
  "NATIVE_ARCHITECTURE_ARGV = [''env'', ''LC_ALL=C'', ''dpkg'', ''--print-architecture'']"

definition INSTALLED_INVENTORY_ARGV :: "string list" where
  "INSTALLED_INVENTORY_ARGV =
     [''env'', ''LC_ALL=C'', ''dpkg-query'', ''-W'',
      ''-f=${Package}'' @ [CHR 0x5C] @ ''t${Architecture}'' @ [CHR 0x5C] @ ''t${Version}'' @ [CHR 0x5C] @ ''t${db:Status-Status}'' @ [CHR 0x5C] @ ''n'']"

text \<open>The two reads are the commands \<open>n\<close> and \<open>n + 1\<close> of the call.\<close>

definition read_guest_state :: "host_env \<Rightarrow> nat \<Rightarrow> host_mutation_request \<Rightarrow> string \<Rightarrow> (string \<times> string) result" where
  "read_guest_state env n q local =
     bindE (run_guest_command env n q local NATIVE_ARCHITECTURE_ARGV []) (\<lambda>native.
     bindE (decode_output native) (\<lambda>(architecture, _).
     checkE (cr_returncode native = 0) (mutation_error ''execution_failed'' ''could not determine guest native architecture'')
    (bindE (run_guest_command env (n + 1) q local INSTALLED_INVENTORY_ARGV []) (\<lambda>inventory.
     bindE (decode_output inventory) (\<lambda>(installed, _).
     checkE (cr_returncode inventory = 0) (mutation_error ''execution_failed'' ''could not read guest installed package inventory'')
       (Inr (architecture, installed)))))))"

section \<open>Staging the gate\<close>

definition stage_step :: "host_env \<Rightarrow> nat \<Rightarrow> host_mutation_request \<Rightarrow> string \<Rightarrow> string list \<Rightarrow> string \<Rightarrow> string \<Rightarrow> string result" where
  "stage_step env n q local tail input failure =
     bindE (run_guest_command env n q local tail input) (\<lambda>r.
     checkE (cr_returncode r = 0) (mutation_error ''execution_failed'' failure)
    (bindE (decode_output r) (\<lambda>(out, _). Inr out)))"

fun staged_digests :: "string list \<Rightarrow> (string \<times> string) list result" where
  "staged_digests [] = Inr []"
| "staged_digests (l # ls) =
     (if py_strip l = [] then staged_digests ls
      else case py_words l of
        [digest, path] \<Rightarrow>
          checkE (is_hex_digest 64 digest)
            (mutation_error ''execution_failed'' ''guest returned a malformed staged action gate digest'')
            (bindE (staged_digests ls) (\<lambda>ds. Inr (if path \<in> fst ` set ds then ds else (path, digest) # ds)))
      | _ \<Rightarrow> Inl (mutation_error ''execution_failed'' ''guest returned a malformed staged action gate digest''))"

text \<open>The commands 2 to 7 of an execution; a later line of the digests overrides an earlier one.\<close>

definition stage_action_set_gate :: "host_env \<Rightarrow> host_mutation_request \<Rightarrow> string \<Rightarrow> unit result" where
  "stage_action_set_gate env q local =
     (let i = mq_id q; manifest_path = guest_manifest_path i; verifier_path = guest_verifier_path i;
          verifier = build_action_set_verifier i;
          run = (\<lambda>n tail input failure. stage_step env n q local ([''env'', ''LC_ALL=C''] @ tail) input failure) in
      bindE (build_expected_action_manifest i (mq_packages q)) (\<lambda>manifest.
      bindE (run 2 [''rm'', ''-rf'', ''/run/hubinet-ops/package-mutation''] []
               ''could not clear the guest package-mutation staging root'') (\<lambda>_.
      bindE (run 3 [''mkdir'', ''-p'', ''-m'', ''0700'', guest_staging_directory i] []
               ''could not create the guest package-mutation staging directory'') (\<lambda>_.
      bindE (run 4 [''dd'', ''of='' @ manifest_path, ''status=none''] manifest ''could not stage the approved action manifest'') (\<lambda>_.
      bindE (run 5 [''dd'', ''of='' @ verifier_path, ''status=none''] verifier ''could not stage the package-mutation action gate'') (\<lambda>_.
      bindE (run 6 [''chmod'', ''0500'', verifier_path] [] ''could not make the package-mutation action gate executable'') (\<lambda>_.
      bindE (run 7 [''sha256sum'', manifest_path, verifier_path] []
               ''could not verify the staged package-mutation action gate'') (\<lambda>observed.
      bindE (staged_digests (py_splitlines observed)) (\<lambda>digests.
      checkE (set digests = {(manifest_path, sha256_hex manifest), (verifier_path, sha256_hex verifier)})
        (mutation_error ''mutation_state_mismatch'' ''staged package-mutation action gate does not match this operation'')
        (Inr ()))))))))))"

section \<open>Operations\<close>

definition mutation_response ::
    "host_mutation_request \<Rightarrow> string \<Rightarrow> bool \<Rightarrow> string option \<Rightarrow> json option \<Rightarrow> (string \<times> json) list" where
  "mutation_response q state running reason evidence =
     [(''response_version'', JInt 1), (''ok'', JBool True), (''context'', mutation_context_json (mq_context q)),
      (''mutation_operation_id'', JStr (mq_id q)), (''operation_state'', JStr state), (''running'', JBool running)]
     @ opt_member ''reason'' (map_option (\<lambda>t. JStr (take 500 t)) reason) @ opt_member ''evidence'' evidence"

definition terminal_evidence :: "journal_record \<Rightarrow> json option" where
  "terminal_evidence record = (if is_terminal (record_phase record) then Some (dict_get record ''result'') else None)"

definition MUTATION_LEASE_BUSY :: exn where
  "MUTATION_LEASE_BUSY = mutation_error ''operation_in_progress'' ''another package mutation operation holds this guest's lease''"

definition lease_is_held :: "host_env \<Rightarrow> int \<Rightarrow> bool action" where
  "lease_is_held env vmid =
     act_try (with_lease env MUTATION_LEASE_BUSY vmid (act_ret False))
       (\<lambda>e. if e = MUTATION_LEASE_BUSY then act_ret True else act_raise e)"

definition inspect_mutation :: "host_env \<Rightarrow> host_mutation_request \<Rightarrow> (string \<times> json) list action" where
  "inspect_mutation env q =
     matching_mutation env q (\<lambda>found.
     let state = (case found of None \<Rightarrow> ''absent'' | Some record \<Rightarrow> record_phase record) in
     act_bind (if state = ''submitted'' then lease_is_held env (mq_vmid q) else act_ret False) (\<lambda>running.
     act_ret (mutation_response q state running (if running then Some ''a package mutation is running right now'' else None)
       (Option.bind found terminal_evidence))))"

definition SEALED_MUTATION_REASON :: string where
  "SEALED_MUTATION_REASON = ''host durably sealed this package mutation before submission''"

definition sealed_mutation_response :: "host_mutation_request \<Rightarrow> (string \<times> json) list" where
  "sealed_mutation_response q = mutation_response q ''sealed_not_submitted'' False (Some SEALED_MUTATION_REASON) None"

definition seal_mutation_found :: "host_env \<Rightarrow> host_mutation_request \<Rightarrow> journal_record option \<Rightarrow> (string \<times> json) list action" where
  "seal_mutation_found env q found =
     (case found of
        None \<Rightarrow>
          act_bind (write_mutation env 0 q (mutation_record q ''sealed_not_submitted'' [])) (\<lambda>_. act_ret (sealed_mutation_response q))
      | Some record \<Rightarrow>
          if record_phase record = ''intent'' then
            act_bind (write_mutation env 0 q (record_with (AList.delete ''prepared_evidence_digest'' record)
                        [(''phase'', JStr ''sealed_not_submitted'')])) (\<lambda>_. act_ret (sealed_mutation_response q))
          else if record_phase record \<noteq> ''sealed_not_submitted'' then
            act_ret (mutation_response q (record_phase record) False
              (Some ''package mutation crossed submission before it could be sealed'') (terminal_evidence record))
          else act_ret (sealed_mutation_response q))"

definition seal_mutation_never_submitted :: "host_env \<Rightarrow> host_mutation_request \<Rightarrow> (string \<times> json) list action" where
  "seal_mutation_never_submitted env q =
     with_lease env MUTATION_LEASE_BUSY (mq_vmid q) (matching_mutation env q (seal_mutation_found env q))"

definition evidence_digest :: "(string \<times> json) list \<Rightarrow> string" where
  "evidence_digest evidence = sha256_hex (json_dumps (JObj evidence))"

text \<open>The read-only evidence of a preparation: the commands 0 to 5 of the call.\<close>

definition prepare_evidence :: "host_env \<Rightarrow> host_mutation_request \<Rightarrow> (string \<times> json) list result" where
  "prepare_evidence env q =
     bindE (mutation_local_node env) (\<lambda>local.
     bindE (run_guest_command env 0 q local [''env'', ''LC_ALL=C'', ''cat'', ''/etc/os-release''] []) (\<lambda>os.
     bindE (decode_output os) (\<lambda>(os_release, _).
     checkE (cr_returncode os = 0) (mutation_error ''guest_unavailable'' ''guest OS release metadata is unavailable'')
    (bindE (run_guest_command env 1 q local [''env'', ''LC_ALL=C'', ''apt-get'', ''--version''] []) (\<lambda>apt.
     bindE (decode_output apt) (\<lambda>(apt_version, _).
     checkE (cr_returncode apt = 0) (mutation_error ''execution_failed'' ''could not determine guest APT version'')
    (bindE (parse_apt_version apt_version) (\<lambda>version.
     checkE (\<not> apt_version_too_old version)
       (mutation_error ''unsupported_os'' ''guest APT version does not support strict metadata refresh'')
    (bindE (run_guest_command env 2 q local
              [''env'', ''LC_ALL=C'', ''DEBIAN_FRONTEND=noninteractive'', ''apt-get'', ''update'', ''-qq'', ''--error-on=any''] []) (\<lambda>update.
     bindE (decode_output update) (\<lambda>(_, update_err).
     checkE (cr_returncode update = 0) (package_failure ''metadata_refresh'' update_err)
    (bindE (run_guest_command env 3 q local
              [''env'', ''LC_ALL=C'', ''DEBIAN_FRONTEND=noninteractive'', ''apt-get'', ''-s'', ''upgrade''] []) (\<lambda>simulation.
     bindE (decode_output simulation) (\<lambda>(simulation_out, simulation_err).
     checkE (cr_returncode simulation = 0) (package_failure ''simulation'' simulation_err)
    (bindE (read_guest_state env 4 q local) (\<lambda>(architecture, inventory).
       Inr [(''os_release'', JStr os_release), (''native_architecture'', JStr architecture),
            (''installed_inventory'', JStr inventory), (''simulation_stdout'', JStr simulation_out)]))))))))))))))))"

definition prepare_mutation :: "host_env \<Rightarrow> host_mutation_request \<Rightarrow> (string \<times> json) list action" where
  "prepare_mutation env q =
     with_lease env MUTATION_LEASE_BUSY (mq_vmid q) (matching_mutation env q (\<lambda>found.
     case found of
       Some record \<Rightarrow>
         act_ret (mutation_response q (record_phase record) False (Some ''package mutation operation is past preparation'')
           (terminal_evidence record))
     | None \<Rightarrow>
         act_bind (act_lift (prepare_evidence env q)) (\<lambda>evidence.
         act_ret (mutation_response q ''absent'' False (Some ''fresh execution-time evidence prepared; no package changed'')
           (Some (JObj (evidence @ [(''prepared_evidence_digest'', JStr (evidence_digest evidence))])))))))"

text \<open>The fences before the record \<open>submitted\<close>; what the runner is given of the state before.\<close>

definition execute_preflight :: "host_env \<Rightarrow> host_mutation_request \<Rightarrow> (string \<times> string \<times> string) result" where
  "execute_preflight env q =
     bindE (mutation_local_node env) (\<lambda>local.
     bindE (read_guest_state env 0 q local) (\<lambda>(architecture, inventory).
     bindE (parse_dpkg_inventory inventory) (\<lambda>(installed, unfinished).
     checkE (unfinished = [])
       (mutation_error ''mutation_state_mismatch''
          (''guest has unfinished dpkg package state; refusing to mutate ('' @ decimal_nat (length unfinished) @ '' package(s))''))
    (checkE (drifted installed (mq_packages q) = [])
       (mutation_error ''mutation_state_mismatch''
          (''guest installed package state no longer matches the approved plan for ''
            @ decimal_nat (length (drifted installed (mq_packages q))) @ '' package(s)''))
    (bindE (stage_action_set_gate env q local) (\<lambda>_. Inr (local, architecture, inventory)))))))"

definition no_mutation_runner :: "handoff \<Rightarrow> exn" where
  "no_mutation_runner h = mutation_error ''execution_failed''
     (if h = ExecutorNotForked then ''host could not establish the detached runner'' else ''detached runner did not confirm it was ready'')"

definition MUTATION_NOT_JOURNALED :: exn where
  "MUTATION_NOT_JOURNALED = mutation_error ''execution_failed'' ''host could not durably journal this mutation submission''"

definition execute_submit :: "host_env \<Rightarrow> host_mutation_request \<Rightarrow> (string \<times> json) list action" where
  "execute_submit env q =
     act_bind (submit_detached (env\<lparr>env_finished := None\<rparr>) (whole_write (env_write env 1)) no_mutation_runner MUTATION_NOT_JOURNALED
                (mq_id q) (mq_vmid q) (mutation_record q ''submitted'' []) (guest_argv (mq_vmid q) (mutation_argv (mq_id q)))) (\<lambda>_.
     act_ret (mutation_response q ''submitted'' True (Some ''package mutation submitted to a detached host runner'') None))"

definition execute_recorded :: "host_env \<Rightarrow> host_mutation_request \<Rightarrow> journal_record \<Rightarrow> (string \<times> json) list action" where
  "execute_recorded env q record =
     (let phase = record_phase record in
      if phase = ''sealed_not_submitted'' then act_ret (sealed_mutation_response q)
      else if is_terminal phase then
        act_ret (mutation_response q phase False (Some ''package mutation already reached a terminal result'')
          (Some (dict_get record ''result'')))
      else if phase = ''submitted'' then
        act_ret (mutation_response q ''submitted'' False
          (Some ''package mutation was already submitted; inspect the operation to observe its terminal result'') None)
      else if phase \<noteq> ''intent'' then
        act_raise (mutation_error ''journal_corrupt'' ''package mutation journal is in an unrecognized phase'')
      else
        act_need (dict_get record ''prepared_evidence_digest'' = (case mq_prepared q of None \<Rightarrow> JNull | Some d \<Rightarrow> JStr d))
          (mutation_error ''mutation_state_mismatch''
             ''package mutation request does not carry the exact prepared evidence this operation journaled'')
       (act_bind (act_lift (execute_preflight env q)) (\<lambda>_. execute_submit env q)))"

definition execute_found :: "host_env \<Rightarrow> host_mutation_request \<Rightarrow> journal_record option \<Rightarrow> (string \<times> json) list action" where
  "execute_found env q found =
     (case found of
        None \<Rightarrow>
          (let record = mutation_record q ''intent'' [(''prepared_evidence_digest'', case mq_prepared q of None \<Rightarrow> JNull | Some d \<Rightarrow> JStr d)] in
           act_bind (write_mutation env 0 q record) (\<lambda>_. execute_recorded env q record))
      | Some record \<Rightarrow> execute_recorded env q record)"

definition execute_mutation :: "host_env \<Rightarrow> host_mutation_request \<Rightarrow> (string \<times> json) list action" where
  "execute_mutation env q =
     with_lease env MUTATION_LEASE_BUSY (mq_vmid q) (matching_mutation env q (execute_found env q))"

section \<open>The runner\<close>

text \<open>
  The exit code, whether the command timed out, and the retained output. The name of the class of an
  exception that is no \<open>MutationError\<close> is \<open>OSError\<close>.
\<close>

definition mutation_outcome :: "host_env \<Rightarrow> host_mutation_request \<Rightarrow> string \<Rightarrow> int \<times> bool \<times> string" where
  "mutation_outcome env q local =
     (case run_guest_command env 0 q local (mutation_argv (mq_id q)) [] of
        Inl (HelperError classification message _) \<Rightarrow> (1, classification = ''timeout'', take 65536 message)
      | Inl _ \<Rightarrow> (1, False, ''package mutation runner failed: OSError'')
      | Inr r \<Rightarrow>
          (case decode_output r of
             Inl e \<Rightarrow> (cr_returncode r, False, ''package mutation command output was not UTF-8'')
           | Inr (out, err) \<Rightarrow> (cr_returncode r, False, drop (length (out @ err) - 65536) (out @ err))))"

definition run_mutation :: "host_env \<Rightarrow> host_mutation_request \<Rightarrow> string \<Rightarrow> string \<Rightarrow> string \<Rightarrow> unit action" where
  "run_mutation env q local pre_architecture pre_inventory =
     (case mutation_outcome env q local of (exit_code, timed_out, output_tail) \<Rightarrow>
      act_bind (case read_guest_state env 1 q local of
                  Inr post \<Rightarrow> act_ret post
                | Inl (HelperError classification message _) \<Rightarrow> act_ret ([], [])
                | Inl e \<Rightarrow> act_raise e) (\<lambda>(post_architecture, post_inventory).
      let evidence = [(''exit_code'', JInt exit_code), (''timed_out'', JBool timed_out), (''output_tail'', JStr output_tail),
                      (''pre_native_architecture'', JStr pre_architecture), (''pre_installed_inventory'', JStr pre_inventory),
                      (''post_native_architecture'', JStr post_architecture), (''post_installed_inventory'', JStr post_inventory)] in
      write_mutation env 0 q (mutation_record q (if result_is_success evidence then ''terminal_success'' else ''terminal_failure'')
        [(''result'', JObj evidence)])))"

text \<open>The end of the runner of a validated request: with its terminal record, or killed before.\<close>

definition mutation_ended :: "uuid \<times> int \<Rightarrow> host_state \<Rightarrow> host_state \<Rightarrow> bool" where
  "mutation_ended x s s' \<longleftrightarrow>
     (\<exists>env payload q local architecture inventory. validate_mutation_request payload = Inr q \<and> x = (mq_id q, mq_vmid q)
        \<and> s' = (snd (run_mutation env q local architecture inventory s))\<lparr>host_running := removeAll x (host_running s)\<rparr>)"

section \<open>Entry point\<close>

definition mutation_failure :: "host_mutation_request \<Rightarrow> string \<Rightarrow> string \<Rightarrow> (string \<times> json) list" where
  "mutation_failure q classification message =
     [(''response_version'', JInt 1), (''ok'', JBool False), (''context'', mutation_context_json (mq_context q)),
      (''mutation_operation_id'', JStr (mq_id q)),
      (''error'', JObj [(''classification'', JStr classification), (''message'', JStr (take 500 message))])]"

definition mutation_dispatch :: "host_env \<Rightarrow> host_mutation_request \<Rightarrow> (string \<times> json) list action" where
  "mutation_dispatch env q =
     (if mq_operation q = INSPECT_MUTATION then inspect_mutation env q
      else if mq_operation q = SEAL_MUTATION then seal_mutation_never_submitted env q
      else if mq_operation q = PREPARE_MUTATION then prepare_mutation env q
      else execute_mutation env q)"

definition handle_mutation :: "host_env \<Rightarrow> json \<Rightarrow> (string \<times> json) list action" where
  "handle_mutation env payload =
     act_bind (act_lift (validate_mutation_request payload)) (\<lambda>q.
     act_try (mutation_dispatch env q)
       (\<lambda>e. case e of
          HelperError classification message _ \<Rightarrow> act_ret (mutation_failure q classification message)
        | _ \<Rightarrow> act_raise e))"

end
