(* ===== verification/Host_Safety.thy ===== *)
theory Host_Safety
  imports Host_Runtime
begin

text \<open>
  At most one physical command per operation, for every helper that keeps its journal the way the model of
  \<open>Host_Runtime\<close> does. A file is a bar to submission once it no longer says \<open>intent\<close>, and commits its operation once
  it says neither \<open>intent\<close> nor \<open>sealed_not_submitted\<close>. An action is quiet when it starts no command and lifts neither; a
  call that starts a command finds no bar and leaves the operation committed.
\<close>

section \<open>Bars\<close>

definition journal_says :: "string \<Rightarrow> json option \<Rightarrow> bool" where
  "journal_says phase file \<longleftrightarrow>
     (case file of Some (JObj record) \<Rightarrow> dict_get record ''phase'' = JStr phase | _ \<Rightarrow> False)"

definition barred :: "host_state \<Rightarrow> uuid \<Rightarrow> bool" where
  "barred s i \<longleftrightarrow> (case host_journal s i of None \<Rightarrow> False | Some file \<Rightarrow> \<not> journal_says ''intent'' file)"

definition committed :: "host_state \<Rightarrow> uuid \<Rightarrow> bool" where
  "committed s i \<longleftrightarrow>
     (case host_journal s i of None \<Rightarrow> False
      | Some file \<Rightarrow> \<not> journal_says ''intent'' file \<and> \<not> journal_says ''sealed_not_submitted'' file)"

lemma committed_barred: "committed s i \<Longrightarrow> barred s i"
  by (auto simp: committed_def barred_def split: option.splits)

definition keeps_bars :: "host_state \<Rightarrow> host_state \<Rightarrow> bool" where
  "keeps_bars s s' \<longleftrightarrow> (\<forall>i. (barred s i \<longrightarrow> barred s' i) \<and> (committed s i \<longrightarrow> committed s' i))"

definition quiet :: "host_state \<Rightarrow> host_state \<Rightarrow> bool" where
  "quiet s s' \<longleftrightarrow> host_launches s' = host_launches s \<and> host_running s' = host_running s \<and> keeps_bars s s'"

definition launched :: "uuid \<Rightarrow> int \<Rightarrow> string list \<Rightarrow> host_state \<Rightarrow> host_state \<Rightarrow> bool" where
  "launched i vmid argv s s' \<longleftrightarrow>
     host_launches s' = host_launches s @ [(i, argv)]
     \<and> (host_running s' = host_running s \<or> host_running s' = host_running s @ [(i, vmid)])
     \<and> keeps_bars s s' \<and> committed s' i"

lemma keeps_bars_refl [intro, simp]: "keeps_bars s s"
  by (simp add: keeps_bars_def)

lemma keeps_bars_trans: "keeps_bars s t \<Longrightarrow> keeps_bars t u \<Longrightarrow> keeps_bars s u"
  by (simp add: keeps_bars_def)

lemma quiet_refl [intro, simp]: "quiet s s"
  by (simp add: quiet_def)

lemma quiet_trans: "quiet s t \<Longrightarrow> quiet t u \<Longrightarrow> quiet s u"
  by (auto simp: quiet_def intro: keeps_bars_trans)

lemma launched_quiet: "launched i v argv s t \<Longrightarrow> quiet t u \<Longrightarrow> launched i v argv s u"
  by (auto simp: launched_def quiet_def keeps_bars_def)

lemma quiet_launched: "quiet s t \<Longrightarrow> launched i v argv t u \<Longrightarrow> launched i v argv s u"
  by (auto simp: launched_def quiet_def keeps_bars_def)

lemma quiet_frame:
  "host_journal s' = host_journal s \<Longrightarrow> host_launches s' = host_launches s \<Longrightarrow> host_running s' = host_running s \<Longrightarrow> quiet s s'"
  by (simp add: quiet_def keeps_bars_def barred_def committed_def)

section \<open>Quiet actions\<close>

definition always_quiet :: "'a action \<Rightarrow> bool" where
  "always_quiet m \<longleftrightarrow> (\<forall>s. quiet s (snd (m s)))"

named_theorems quiet_intros

lemma quiet_ret [quiet_intros]: "always_quiet (act_ret x)"
  by (simp add: always_quiet_def act_ret_def)

lemma quiet_raise [quiet_intros]: "always_quiet (act_raise e)"
  by (simp add: always_quiet_def act_raise_def)

lemma quiet_lift [quiet_intros]: "always_quiet (act_lift r)"
  by (simp add: always_quiet_def act_lift_def)

lemma quiet_get [quiet_intros]: "always_quiet (act_get f)"
  by (simp add: always_quiet_def act_get_def)

lemma quiet_need [quiet_intros]: "(b \<Longrightarrow> always_quiet k) \<Longrightarrow> always_quiet (act_need b e k)"
  by (simp add: act_need_def quiet_raise)

lemma quiet_if [quiet_intros]: "(b \<Longrightarrow> always_quiet k) \<Longrightarrow> (\<not> b \<Longrightarrow> always_quiet l) \<Longrightarrow> always_quiet (if b then k else l)"
  by simp

lemma quiet_bind [quiet_intros]:
  assumes "always_quiet m" "\<And>x. always_quiet (f x)"
  shows "always_quiet (act_bind m f)"
  unfolding always_quiet_def
proof
  fix s
  show "quiet s (snd (act_bind m f s))"
  proof (cases "m s")
    case (Pair r s')
    have "quiet s s'" using assms(1) Pair by (metis always_quiet_def snd_conv)
    moreover have "quiet s' (snd (f x s'))" for x using assms(2) by (simp add: always_quiet_def)
    ultimately show ?thesis using Pair by (auto simp: act_bind_def intro: quiet_trans split: sum.splits)
  qed
qed

lemma quiet_try [quiet_intros]:
  assumes "always_quiet m" "\<And>e. always_quiet (h e)"
  shows "always_quiet (act_try m h)"
  unfolding always_quiet_def
proof
  fix s
  show "quiet s (snd (act_try m h s))"
  proof (cases "m s")
    case (Pair r s')
    have "quiet s s'" using assms(1) Pair by (metis always_quiet_def snd_conv)
    moreover have "quiet s' (snd (h e s'))" for e using assms(2) by (simp add: always_quiet_def)
    ultimately show ?thesis using Pair by (auto simp: act_try_def intro: quiet_trans split: sum.splits)
  qed
qed

lemma quiet_cleanup [quiet_intros]: "always_quiet (cleanup_capture env i)"
  by (auto simp: always_quiet_def cleanup_capture_def Let_def intro!: quiet_frame)

text \<open>A record past \<open>intent\<close> and \<open>sealed_not_submitted\<close> may always be written, any other where nothing is barred yet.\<close>

definition crossing :: "(string \<times> json) list \<Rightarrow> bool" where
  "crossing record \<longleftrightarrow> dict_get record ''phase'' \<notin> {JStr ''intent'', JStr ''sealed_not_submitted''}"

lemma put_journal_bars:
  "barred (put_journal i f s) j = (if j = i then \<not> journal_says ''intent'' f else barred s j)"
  "committed (put_journal i f s) j =
     (if j = i then \<not> journal_says ''intent'' f \<and> \<not> journal_says ''sealed_not_submitted'' f else committed s j)"
  by (simp_all add: put_journal_def barred_def committed_def)

lemma put_journal_quiet:
  assumes "f = None \<or> (\<exists>record. f = Some (JObj record) \<and> crossing record) \<or> \<not> barred s i"
  shows "quiet s (put_journal i f s)"
proof -
  have "barred s i \<Longrightarrow> \<not> journal_says ''intent'' f \<and> \<not> journal_says ''sealed_not_submitted'' f"
    using assms by (auto simp: journal_says_def crossing_def)
  then have "keeps_bars s (put_journal i f s)"
    unfolding keeps_bars_def put_journal_bars using committed_barred by auto
  then show ?thesis by (simp add: quiet_def put_journal_def)
qed

lemma replace_quiet:
  "crossing record \<or> \<not> barred s i \<Longrightarrow> quiet s (snd (replace_journal fate i record s))"
  by (cases fate) (auto simp: replace_journal_def intro: put_journal_quiet)

lemma quiet_replace [quiet_intros]: "crossing record \<Longrightarrow> always_quiet (replace_journal fate i record)"
  by (simp add: always_quiet_def replace_quiet)

lemma replace_crossing_committed:
  "crossing record \<Longrightarrow> replace_journal fate i record s = (Inr x, s') \<Longrightarrow> committed s' i"
  by (cases fate) (auto simp: replace_journal_def put_journal_bars journal_says_def crossing_def)

section \<open>Leases and submissions\<close>

lemma lease_cases:
  "with_lease env busy vmid k s = (r, s') \<Longrightarrow>
     s' = s \<and> (\<exists>e. r = Inl e) \<or> vmid \<notin> snd ` set (host_running s) \<and> k s = (r, s')"
  by (auto simp: with_lease_def act_need_def act_bind_def act_get_def act_raise_def split: if_splits)

lemma quiet_lease [quiet_intros]: "always_quiet k \<Longrightarrow> always_quiet (with_lease env busy vmid k)"
  unfolding with_lease_def by (intro quiet_need quiet_bind quiet_get)

lemma start_executor_cases:
  assumes "start_executor env i vmid argv s = (r, s')" "committed s i"
  shows "quiet s s' \<or> launched i vmid argv s s'"
proof -
  have "keeps_bars s s'" "committed s' i"
    using assms by (auto simp: start_executor_def write_completed_capture_def Let_def keeps_bars_def barred_def committed_def
        split: if_splits option.splits)
  then show ?thesis using assms(1)
    by (auto simp: start_executor_def write_completed_capture_def Let_def launched_def split: if_splits option.splits)
qed

lemma submit_detached_cases:
  assumes "submit_detached env fate none unwritten i vmid record argv s = (r, s')" "crossing record"
  shows "quiet s s' \<or> launched i vmid argv s s'"
proof -
  obtain w s1 where w: "replace_journal fate i record s = (w, s1)" by fastforce
  have q: "quiet s s1" using replace_quiet[of "record" s i fate] assms(2) w by simp
  show ?thesis
  proof (cases w)
    case (Inl e)
    then show ?thesis using assms(1) w q
      by (auto simp: submit_detached_def act_need_def act_bind_def act_try_def act_raise_def split: if_splits)
  next
    case (Inr x)
    then have "committed s1 i" using w assms(2) replace_crossing_committed by blast
    moreover have "s' = s \<or> start_executor env i vmid argv s1 = (r, s')"
      using assms(1) w Inr by (auto simp: submit_detached_def act_need_def act_bind_def act_try_def act_raise_def split: if_splits)
    ultimately show ?thesis using start_executor_cases q quiet_trans quiet_launched by blast
  qed
qed

text \<open>An action that starts at most the command of one operation.\<close>

definition may_launch :: "uuid \<Rightarrow> int \<Rightarrow> string list \<Rightarrow> 'a action \<Rightarrow> bool" where
  "may_launch i vmid argv m \<longleftrightarrow> (\<forall>s. quiet s (snd (m s)) \<or> launched i vmid argv s (snd (m s)))"

lemma may_launch_cases: "may_launch i v argv m \<Longrightarrow> m s = (r, s') \<Longrightarrow> quiet s s' \<or> launched i v argv s s'"
  by (metis may_launch_def snd_conv)

lemma always_quiet_step: "always_quiet m \<Longrightarrow> m s = (r, s') \<Longrightarrow> quiet s s'"
  by (metis always_quiet_def snd_conv)

lemma quiet_may_launch: "always_quiet m \<Longrightarrow> may_launch i v argv m"
  by (simp add: may_launch_def always_quiet_def)

lemma launch_need: "(b \<Longrightarrow> may_launch i v argv k) \<Longrightarrow> may_launch i v argv (act_need b e k)"
  by (simp add: act_need_def quiet_may_launch quiet_raise)

lemma launch_after:
  assumes "always_quiet m" "\<And>x. may_launch i v argv (f x)"
  shows "may_launch i v argv (act_bind m f)"
  unfolding may_launch_def
proof
  fix s
  obtain r t where t: "m s = (r, t)" by fastforce
  have "quiet s t" using always_quiet_step[OF assms(1) t] .
  moreover have "quiet t (snd (f x t)) \<or> launched i v argv t (snd (f x t))" for x using assms(2) by (simp add: may_launch_def)
  ultimately show "quiet s (snd (act_bind m f s)) \<or> launched i v argv s (snd (act_bind m f s))"
    using t by (auto simp: act_bind_def intro: quiet_trans quiet_launched split: sum.splits)
qed

lemma launch_then:
  assumes "may_launch i v argv m" "\<And>x. always_quiet (f x)"
  shows "may_launch i v argv (act_bind m f)"
  unfolding may_launch_def
proof
  fix s
  obtain r t where t: "m s = (r, t)" by fastforce
  have "quiet s t \<or> launched i v argv s t" using may_launch_cases[OF assms(1) t] .
  moreover have "quiet t (snd (f x t))" for x using assms(2) by (simp add: always_quiet_def)
  ultimately show "quiet s (snd (act_bind m f s)) \<or> launched i v argv s (snd (act_bind m f s))"
    using t by (auto simp: act_bind_def intro: quiet_trans launched_quiet split: sum.splits)
qed

lemma launch_submit: "crossing record \<Longrightarrow> may_launch i v argv (submit_detached env fate none unwritten i v record argv)"
  using submit_detached_cases unfolding may_launch_def by (metis prod.collapse)

lemma launch_if: "(b \<Longrightarrow> may_launch i v argv k) \<Longrightarrow> (\<not> b \<Longrightarrow> may_launch i v argv l) \<Longrightarrow> may_launch i v argv (if b then k else l)"
  by simp

section \<open>Answers\<close>

definition yields :: "('a \<Rightarrow> bool) \<Rightarrow> 'a action \<Rightarrow> bool" where
  "yields P m \<longleftrightarrow> (\<forall>s x s'. m s = (Inr x, s') \<longrightarrow> P x)"

named_theorems yields_intros

lemma yields_ret [yields_intros]: "P x \<Longrightarrow> yields P (act_ret x)"
  by (simp add: yields_def act_ret_def)

lemma yields_raise [yields_intros]: "yields P (act_raise e)"
  by (simp add: yields_def act_raise_def)

lemma yields_need [yields_intros]: "(b \<Longrightarrow> yields P k) \<Longrightarrow> yields P (act_need b e k)"
  by (simp add: act_need_def yields_raise)

lemma yields_if [yields_intros]: "(b \<Longrightarrow> yields P k) \<Longrightarrow> (\<not> b \<Longrightarrow> yields P l) \<Longrightarrow> yields P (if b then k else l)"
  by simp

lemma yields_bind_from:
  "yields Q m \<Longrightarrow> (\<And>x. Q x \<Longrightarrow> yields P (f x)) \<Longrightarrow> yields P (act_bind m f)"
  unfolding yields_def act_bind_def by (auto split: prod.splits sum.splits) blast

lemma yields_bind [yields_intros]: "(\<And>x. yields P (f x)) \<Longrightarrow> yields P (act_bind m f)"
  by (auto simp: yields_def act_bind_def split: prod.splits sum.splits)

lemma yields_try [yields_intros]: "yields P m \<Longrightarrow> (\<And>e. yields P (h e)) \<Longrightarrow> yields P (act_try m h)"
  by (auto simp: yields_def act_try_def split: prod.splits sum.splits)

section \<open>Runs of a host\<close>

text \<open>
  A host serves the calls of one helper. Between two calls an executor may end, having published some prefix of
  its capture, and the host may be restarted, which ends every executor and releases every lease.
\<close>

datatype 'a host_event = Answered json "'a result" | ExecutorEnded uuid | Restarted

inductive host_step ::
    "(host_env \<Rightarrow> json \<Rightarrow> 'a action) \<Rightarrow> (uuid \<times> int \<Rightarrow> host_state \<Rightarrow> host_state \<Rightarrow> bool)
      \<Rightarrow> host_state \<Rightarrow> 'a host_event \<Rightarrow> host_state \<Rightarrow> bool" for helper ended where
  answered: "helper env payload s = (answer, s') \<Longrightarrow> host_step helper ended s (Answered payload answer) s'"
| executor_ended: "x \<in> set (host_running s) \<Longrightarrow> ended x s s' \<Longrightarrow> host_step helper ended s (ExecutorEnded (fst x)) s'"
| restarted: "host_step helper ended s Restarted (s\<lparr>host_running := []\<rparr>)"

inductive host_run ::
    "(host_env \<Rightarrow> json \<Rightarrow> 'a action) \<Rightarrow> (uuid \<times> int \<Rightarrow> host_state \<Rightarrow> host_state \<Rightarrow> bool)
      \<Rightarrow> host_state \<Rightarrow> 'a host_event list \<Rightarrow> host_state \<Rightarrow> bool" for helper ended where
  nil: "host_run helper ended s [] s"
| snoc: "host_run helper ended s es t \<Longrightarrow> host_step helper ended t e u \<Longrightarrow> host_run helper ended s (es @ [e]) u"

inductive_cases host_stepE: "host_step helper ended s e s'"

lemma capture_ended_quiet:
  "capture_ended x s s' \<Longrightarrow> host_launches s' = host_launches s \<and> host_running s' = removeAll x (host_running s) \<and> keeps_bars s s'"
  by (auto simp: capture_ended_def finish_executor_def write_completed_capture_def keeps_bars_def barred_def committed_def)

text \<open>
  The contract of a helper that submits: \<open>permits payload\<close> is the operation, the VMID and the command that a request may
  start, \<open>ended\<close> what an executor does when it ends, \<open>seals i answer\<close> that the answer declares the operation \<open>i\<close> sealed.
\<close>

locale submitting_helper =
  fixes helper :: "host_env \<Rightarrow> json \<Rightarrow> 'a action"
    and ended :: "uuid \<times> int \<Rightarrow> host_state \<Rightarrow> host_state \<Rightarrow> bool"
    and permits :: "json \<Rightarrow> (uuid \<times> int \<times> string list) option"
    and seals :: "uuid \<Rightarrow> 'a \<Rightarrow> bool"
  assumes effect: "helper env payload s = (reply, s') \<Longrightarrow>
      quiet s s' \<or> (\<exists>i vmid argv. permits payload = Some (i, vmid, argv) \<and> vmid \<notin> snd ` set (host_running s)
                       \<and> \<not> barred s i \<and> launched i vmid argv s s')"
    and seal: "helper env payload s = (Inr answer, s') \<Longrightarrow> seals i answer \<Longrightarrow> quiet s s' \<and> \<not> committed s i \<and> barred s' i"
    and ending: "ended x s s' \<Longrightarrow>
      host_launches s' = host_launches s \<and> host_running s' = removeAll x (host_running s) \<and> keeps_bars s s'"
begin

definition safe :: "'a host_event list \<Rightarrow> host_state \<Rightarrow> bool" where
  "safe es s \<longleftrightarrow>
     distinct (map fst (host_launches s)) \<and> distinct (map snd (host_running s))
     \<and> (\<forall>(i, argv) \<in> set (host_launches s). committed s i
          \<and> (\<exists>payload answer vmid. Answered payload answer \<in> set es \<and> permits payload = Some (i, vmid, argv)))
     \<and> (\<forall>payload answer i. Answered payload (Inr answer) \<in> set es \<longrightarrow> seals i answer \<longrightarrow>
          barred s i \<and> i \<notin> fst ` set (host_launches s))"

lemma safe_start: "host_launches s = [] \<Longrightarrow> host_running s = [] \<Longrightarrow> safe [] s"
  by (simp add: safe_def)

lemma safe_answered_quiet:
  assumes "safe es s" "quiet s s'" "\<And>a i. answer = Inr a \<Longrightarrow> seals i a \<Longrightarrow> barred s' i \<and> i \<notin> fst ` set (host_launches s)"
  shows "safe (es @ [Answered payload answer]) s'"
proof -
  have bars: "barred s i \<Longrightarrow> barred s' i" "committed s i \<Longrightarrow> committed s' i" for i
    using assms(2) by (auto simp: quiet_def keeps_bars_def)
  have l: "host_launches s' = host_launches s" "host_running s' = host_running s" using assms(2) by (auto simp: quiet_def)
  show ?thesis
    unfolding safe_def l
  proof (intro conjI)
    show "distinct (map fst (host_launches s))" "distinct (map snd (host_running s))" using assms(1) by (auto simp: safe_def)
    show "\<forall>(i, argv) \<in> set (host_launches s). committed s' i \<and> (\<exists>p a vmid. Answered p a \<in> set (es @ [Answered payload answer])
            \<and> permits p = Some (i, vmid, argv))"
      using assms(1) bars(2) unfolding safe_def by fastforce
    show "\<forall>p a i. Answered p (Inr a) \<in> set (es @ [Answered payload answer]) \<longrightarrow> seals i a \<longrightarrow>
            barred s' i \<and> i \<notin> fst ` set (host_launches s)"
      using assms(1,3) bars(1) unfolding safe_def by auto
  qed
qed

lemma safe_answered_launch:
  assumes "safe es s" "permits payload = Some (i, vmid, argv)" "vmid \<notin> snd ` set (host_running s)" "\<not> barred s i"
    and "launched i vmid argv s s'" and "\<And>a j. answer = Inr a \<Longrightarrow> \<not> seals j a"
  shows "safe (es @ [Answered payload answer]) s'"
proof -
  have bars: "barred s j \<Longrightarrow> barred s' j" "committed s j \<Longrightarrow> committed s' j" for j
    using assms(5) by (auto simp: launched_def keeps_bars_def)
  have l: "host_launches s' = host_launches s @ [(i, argv)]" "committed s' i" using assms(5) by (auto simp: launched_def)
  have "i \<notin> fst ` set (host_launches s)" using assms(1,4) committed_barred by (force simp: safe_def)
  moreover have "distinct (map snd (host_running s'))" using assms(1,3,5) by (auto simp: safe_def launched_def)
  ultimately show ?thesis
    unfolding safe_def l(1)
  proof (intro conjI)
    assume i: "i \<notin> fst ` set (host_launches s)"
    show "distinct (map fst (host_launches s @ [(i, argv)]))" using assms(1) i by (auto simp: safe_def)
    show "\<forall>(j, av) \<in> set (host_launches s @ [(i, argv)]). committed s' j
            \<and> (\<exists>p a v. Answered p a \<in> set (es @ [Answered payload answer]) \<and> permits p = Some (j, v, av))"
      using assms(1,2) bars(2) l(2) unfolding safe_def by fastforce
    show "\<forall>p a j. Answered p (Inr a) \<in> set (es @ [Answered payload answer]) \<longrightarrow> seals j a \<longrightarrow>
            barred s' j \<and> j \<notin> fst ` set (host_launches s @ [(i, argv)])"
      using assms(1,4,6) bars(1) unfolding safe_def by auto
  qed
qed

lemma safe_other:
  assumes "safe es s" "keeps_bars s s'" "host_launches s' = host_launches s"
    and "distinct (map snd (host_running s'))" "\<And>p a. e \<noteq> Answered p a"
  shows "safe (es @ [e]) s'"
proof -
  have bars: "barred s i \<Longrightarrow> barred s' i" "committed s i \<Longrightarrow> committed s' i" for i
    using assms(2) by (auto simp: keeps_bars_def)
  have mem: "Answered p a \<in> set (es @ [e]) \<longleftrightarrow> Answered p a \<in> set es" for p a using assms(5)[of p a] by auto
  show ?thesis unfolding safe_def assms(3) mem
  proof (intro conjI)
    show "distinct (map fst (host_launches s))" "distinct (map snd (host_running s'))" using assms(1,4) by (auto simp: safe_def)
    show "\<forall>(i, argv) \<in> set (host_launches s). committed s' i
        \<and> (\<exists>p a vmid. Answered p a \<in> set es \<and> permits p = Some (i, vmid, argv))"
      using assms(1) bars(2) unfolding safe_def by fastforce
    show "\<forall>p a i. Answered p (Inr a) \<in> set es \<longrightarrow> seals i a \<longrightarrow> barred s' i \<and> i \<notin> fst ` set (host_launches s)"
      using assms(1) bars(1) unfolding safe_def by auto
  qed
qed

lemma safe_step: "host_step helper ended s e s' \<Longrightarrow> safe es s \<Longrightarrow> safe (es @ [e]) s'"
proof (erule host_stepE)
  fix env payload answer
  assume s: "safe es s" and e: "e = Answered payload answer" and h: "helper env payload s = (answer, s')"
  from effect[OF h] show "safe (es @ [e]) s'"
  proof (elim disjE exE conjE)
    assume q: "quiet s s'"
    have "barred s' i \<and> i \<notin> fst ` set (host_launches s)" if "answer = Inr a" "seals i a" for a i
    proof -
      have "barred s' i" "\<not> committed s i" using seal[of env payload s a s' i] h that by auto
      then show ?thesis using s by (force simp: safe_def)
    qed
    with safe_answered_quiet[OF s q] e show ?thesis by blast
  next
    fix i vmid argv
    assume l: "permits payload = Some (i, vmid, argv)" "vmid \<notin> snd ` set (host_running s)" "\<not> barred s i" "launched i vmid argv s s'"
    have "\<not> seals j a" if "answer = Inr a" for a j
      using seal[of env payload s a s' j] h that l(4) by (auto simp: quiet_def launched_def)
    with safe_answered_launch[OF s l] e show ?thesis by blast
  qed
next
  fix x
  assume s: "safe es s" and e: "e = ExecutorEnded (fst x)" and "ended x s s'"
  from ending[OF this(3)] have x: "host_launches s' = host_launches s" "host_running s' = removeAll x (host_running s)" "keeps_bars s s'"
    by auto
  moreover have "distinct (map snd (host_running s))" using s by (simp add: safe_def)
  ultimately show "safe (es @ [e]) s'"
    using e by (intro safe_other[OF s]) (auto simp: distinct_map_filter removeAll_filter_not_eq)
next
  assume s: "safe es s" and "e = Restarted" "s' = s\<lparr>host_running := []\<rparr>"
  then show "safe (es @ [e]) s'"
    by (intro safe_other[OF s]) (auto simp: keeps_bars_def barred_def committed_def)
qed

lemma safe_run: "host_run helper ended s es s' \<Longrightarrow> host_launches s = [] \<Longrightarrow> host_running s = [] \<Longrightarrow> safe es s'"
  by (induction rule: host_run.induct) (auto intro: safe_start safe_step)

lemma safe_permitted:
  assumes "safe es s" "(i, argv) \<in> set (host_launches s)"
  shows "\<exists>payload answer vmid. Answered payload answer \<in> set es \<and> permits payload = Some (i, vmid, argv)"
proof -
  have "\<forall>(i, argv) \<in> set (host_launches s). committed s i
      \<and> (\<exists>payload answer vmid. Answered payload answer \<in> set es \<and> permits payload = Some (i, vmid, argv))"
    using assms(1) unfolding safe_def by (elim conjE)
  from bspec[OF this assms(2)] show ?thesis by simp
qed

lemma run_at_most_once:
  assumes "host_run helper ended s es s'" "host_launches s = []" "host_running s = []"
  shows "distinct (map fst (host_launches s')) \<and> distinct (map snd (host_running s'))
     \<and> (\<forall>i argv. (i, argv) \<in> set (host_launches s') \<longrightarrow>
          (\<exists>payload answer vmid. Answered payload answer \<in> set es \<and> permits payload = Some (i, vmid, argv)))
     \<and> (\<forall>payload answer i. Answered payload (Inr answer) \<in> set es \<longrightarrow> seals i answer \<longrightarrow>
          i \<notin> fst ` set (host_launches s'))"
  using safe_run[OF assms] safe_permitted[OF safe_run[OF assms]] unfolding safe_def by blast

end

end
