(* ===== verification/Snapshot_Safety.thy ===== *)
theory Snapshot_Safety
  imports Snapshot_Helper Host_Safety
begin

text \<open>
  The snapshot helper meets the contract of \<open>submitting_helper\<close>: it starts a command only where the journal bars
  nothing, after the record \<open>submitted\<close>, and an answer that declares an operation sealed leaves it barred without
  having been submitted.
\<close>

section \<open>Records\<close>

lemma dict_get_update: "dict_get (AList.update k v d) k' = (if k = k' then v else dict_get d k')"
  by (simp add: dict_get_def update_conv')

lemma record_with_other: "k \<notin> fst ` set kvs \<Longrightarrow> dict_get (record_with record kvs) k = dict_get record k"
  unfolding record_with_def by (induction kvs arbitrary: "record") (auto simp: dict_get_update)

lemma record_with_phase:
  "''phase'' \<notin> fst ` set kvs \<Longrightarrow> dict_get (record_with record ((''phase'', v) # kvs)) ''phase'' = v"
  using record_with_other[of "''phase''" kvs "AList.update ''phase'' v record"] by (simp add: record_with_def dict_get_update)

lemma record_phase_iff: "p \<noteq> [] \<Longrightarrow> record_phase record = p \<longleftrightarrow> dict_get record ''phase'' = JStr p"
  by (auto simp: record_phase_def split: json.splits)

lemma new_record_phase: "dict_get (new_snapshot_record q p) ''phase'' = JStr p"
  by (simp add: new_snapshot_record_def dict_get_def)

section \<open>Effects\<close>

lemma journal_read_cases:
  assumes "matching_record env q k s = (r, s')"
  shows "s' = s \<and> (\<exists>e. r = Inl e) \<or> host_journal s (sq_id q) = None \<and> k None s = (r, s')
    \<or> (\<exists>record. host_journal s (sq_id q) = Some (Some (JObj record)) \<and> k (Some record) s = (r, s'))"
  using assms
  by (auto simp: matching_record_def read_snapshot_journal_def act_bind_def act_get_def act_need_def act_raise_def
      snapshot_record_check_def bindE_def checkE_def split: option.splits if_splits json.splits sum.splits)

lemma quiet_promote [quiet_intros]: "always_quiet (promote_completed_capture env n q record)"
  unfolding promote_completed_capture_def
  by (intro quiet_bind quiet_get) (auto split: option.split intro!: quiet_intros simp: crossing_def record_with_phase)

lemma quiet_read [quiet_intros]: "always_quiet (read_snapshot_journal env i)"
  unfolding read_snapshot_journal_def by (rule quiet_get)

lemma quiet_unsealed: "always_quiet (inspect_unsealed env q found phase)"
  unfolding inspect_unsealed_def
  by (intro quiet_intros) (auto split: option.split prod.split exn.split intro!: quiet_intros)

lemma quiet_inspect: "always_quiet (inspect env q)"
  unfolding inspect_def matching_record_def Let_def by (intro quiet_intros quiet_unsealed)

lemma quiet_recover: "always_quiet (recover_submitted_without_task env q record)"
  unfolding recover_submitted_without_task_def Let_def by (intro quiet_intros) (simp add: crossing_def record_with_phase)

lemma quiet_finalize: "always_quiet (finalize_snapshot env q record)"
  unfolding finalize_snapshot_def by (intro quiet_intros)

lemma launch_submit_snapshot: "may_launch (sq_id q) (sq_vmid q) (snapshot_argv q) (submit_snapshot env q record)"
  unfolding submit_snapshot_def Let_def
proof (rule launch_then)
  show "may_launch (sq_id q) (sq_vmid q) (snapshot_argv q) (submit_detached env (env_write env 1) no_runner NOT_JOURNALED (sq_id q)
      (sq_vmid q) (record_with record [(''phase'', JStr ''submitted'')]) (snapshot_argv q))"
    by (rule launch_submit) (simp add: crossing_def record_with_phase)
qed (auto split: option.split intro!: quiet_intros simp: crossing_def record_with_phase)

lemma launch_unless_present: "may_launch (sq_id q) (sq_vmid q) (snapshot_argv q) (submit_unless_present env q record listing)"
  unfolding submit_unless_present_def Let_def
proof (intro launch_if)
  show "may_launch (sq_id q) (sq_vmid q) (snapshot_argv q)
      (act_bind (act_lift (revalidate_live_target env 4 (sq_vmid q) (sq_node q))) (\<lambda>_. submit_snapshot env q record))"
    by (intro launch_after quiet_lift launch_submit_snapshot)
qed (rule quiet_may_launch, intro quiet_intros; simp add: crossing_def record_with_phase)+

lemma launch_from_intent: "may_launch (sq_id q) (sq_vmid q) (snapshot_argv q) (ensure_from_intent env q record)"
  unfolding ensure_from_intent_def
  by (intro launch_need launch_after quiet_lift)
    (auto split: prod.split option.split intro: launch_unless_present quiet_may_launch quiet_ret)

lemma unbarred_cases:
  "host_journal s i = None \<Longrightarrow> \<not> barred s i"
  "host_journal s i = Some (Some (JObj record)) \<Longrightarrow> record_phase record = ''intent'' \<Longrightarrow> \<not> barred s i"
  by (simp_all add: barred_def journal_says_def record_phase_iff)

lemma launch_fresh:
  assumes "act_bind (replace_journal (env_write env 0) (sq_id q) record) (\<lambda>_. ensure_from_intent env q record) s = (r, s')"
    and "\<not> barred s (sq_id q)"
  shows "quiet s s' \<or> launched (sq_id q) (sq_vmid q) (snapshot_argv q) s s'"
proof -
  obtain w t where w: "replace_journal (env_write env 0) (sq_id q) record s = (w, t)" by fastforce
  have "quiet s t" using replace_quiet[of "record" s "sq_id q" "env_write env 0"] assms(2) w by simp
  moreover have "t = s' \<or> ensure_from_intent env q record t = (r, s')"
    using assms(1) w by (auto simp: act_bind_def split: sum.splits)
  ultimately show ?thesis
    using may_launch_cases[OF launch_from_intent[of q env "record"], of t r s'] quiet_trans quiet_launched by blast
qed

lemma quiet_recorded:
  assumes "record_phase record \<noteq> ''intent''"
  shows "always_quiet (ensure_recorded env q record)"
  using assms unfolding ensure_recorded_def Let_def
  by (intro quiet_if) (auto split: option.split intro!: quiet_intros quiet_finalize quiet_recover)

lemma ensure_effect:
  assumes "ensure_submitted env q s = (r, s')"
  shows "quiet s s' \<or> sq_vmid q \<notin> snd ` set (host_running s) \<and> \<not> barred s (sq_id q)
      \<and> launched (sq_id q) (sq_vmid q) (snapshot_argv q) s s'"
  using lease_cases[OF assms[unfolded ensure_submitted_def]]
proof (elim disjE conjE exE)
  assume free: "sq_vmid q \<notin> snd ` set (host_running s)"
  assume "matching_record env q (\<lambda>found. case found of
       None \<Rightarrow>
         (let record = new_snapshot_record q ''intent'' in
          act_bind (replace_journal (env_write env 0) (sq_id q) record) (\<lambda>_. ensure_from_intent env q record))
     | Some record \<Rightarrow> ensure_recorded env q record) s = (r, s')"
  from journal_read_cases[OF this] show ?thesis
  proof (elim disjE conjE exE)
    assume j: "host_journal s (sq_id q) = None"
    assume "(case None of None \<Rightarrow>
         (let record = new_snapshot_record q ''intent'' in
          act_bind (replace_journal (env_write env 0) (sq_id q) record) (\<lambda>_. ensure_from_intent env q record))
     | Some record \<Rightarrow> ensure_recorded env q record) s = (r, s')"
    then show ?thesis using launch_fresh[of env q _ s r s'] unbarred_cases(1)[OF j] free by (auto simp: Let_def)
  next
    fix rec
    assume j: "host_journal s (sq_id q) = Some (Some (JObj rec))"
    assume "(case Some rec of None \<Rightarrow>
         (let record = new_snapshot_record q ''intent'' in
          act_bind (replace_journal (env_write env 0) (sq_id q) record) (\<lambda>_. ensure_from_intent env q record))
     | Some record \<Rightarrow> ensure_recorded env q record) s = (r, s')"
    then have e: "ensure_recorded env q rec s = (r, s')" by simp
    show ?thesis
    proof (cases "record_phase rec = ''intent''")
      case True
      then have "ensure_from_intent env q rec s = (r, s')" using e by (simp add: ensure_recorded_def)
      then show ?thesis using may_launch_cases[OF launch_from_intent] unbarred_cases(2)[OF j True] free by blast
    next
      case False
      then show ?thesis using always_quiet_step[OF quiet_recorded e] by blast
    qed
  qed simp
qed simp

lemma seal_writes:
  assumes "act_bind (replace_journal fate i record) (\<lambda>_. act_ret x) s = (r, s')" "\<not> barred s i"
    and "dict_get record ''phase'' = JStr ''sealed_not_submitted''"
  shows "quiet s s' \<and> (\<forall>a. r = Inr a \<longrightarrow> barred s' i)"
proof -
  obtain w t where w: "replace_journal fate i record s = (w, t)" by fastforce
  have "quiet s t" using replace_quiet[of "record" s i fate] assms(2) w by simp
  moreover have "s' = t" using assms(1) w by (auto simp: act_bind_def act_ret_def split: sum.splits)
  moreover have "barred t i" if "w = Inr y" for y
    using w that assms(3) by (cases fate) (auto simp: replace_journal_def put_journal_bars journal_says_def)
  ultimately show ?thesis using assms(1) w by (auto simp: act_bind_def split: sum.splits)
qed

section \<open>Seals\<close>

text \<open>An answer that declares the operation \<open>i\<close> sealed.\<close>

definition declares_sealed :: "uuid \<Rightarrow> (string \<times> json) list \<Rightarrow> bool" where
  "declares_sealed i answer \<longleftrightarrow>
     dict_get answer ''snapshot_operation_id'' = JStr i \<and> dict_get answer ''submission_state'' = JStr ''sealed_not_submitted''"

definition unsealed :: "(string \<times> json) list \<Rightarrow> bool" where
  "unsealed answer \<longleftrightarrow> (\<forall>i. \<not> declares_sealed i answer)"

lemma response_seals:
  "declares_sealed i (response q out upid task listing reason state) \<longleftrightarrow> i = sq_id q \<and> state = ''sealed_not_submitted''"
  by (auto simp: declares_sealed_def response_def dict_get_def opt_member_def split: option.splits)

lemma response_unsealed: "state \<noteq> ''sealed_not_submitted'' \<Longrightarrow> unsealed (response q out upid task listing reason state)"
  by (simp add: unsealed_def response_seals)

lemma error_unsealed: "unsealed (error_response q c m sub)"
  by (simp add: unsealed_def declares_sealed_def error_response_def dict_get_def)

lemma yields_recover: "yields unsealed (recover_submitted_without_task env q record)"
  unfolding recover_submitted_without_task_def Let_def by (intro yields_intros response_unsealed; simp)

lemma yields_submit: "yields unsealed (submit_snapshot env q record)"
  unfolding submit_snapshot_def Let_def
  by (intro yields_bind) (auto split: option.split intro!: yields_intros response_unsealed)

lemma yields_from_intent: "yields unsealed (ensure_from_intent env q record)"
proof -
  have "yields unsealed (submit_unless_present env q record listing)" for listing
    unfolding submit_unless_present_def Let_def
    by (intro yields_if yields_bind yields_ret response_unsealed yields_submit; simp)
  then show ?thesis unfolding ensure_from_intent_def
    by (intro yields_need yields_bind) (auto split: prod.split option.split intro!: yields_ret response_unsealed)
qed

lemma yields_recorded:
  assumes "record_phase record \<noteq> ''sealed_not_submitted''"
  shows "yields unsealed (ensure_recorded env q record)"
  using assms unfolding ensure_recorded_def finalize_snapshot_def Let_def
  by (intro yields_if) (auto split: option.split intro!: yields_intros response_unsealed yields_recover yields_from_intent)

lemma yields_unsealed:
  assumes "phase \<noteq> ''sealed_not_submitted''"
  shows "yields unsealed (inspect_unsealed env q found phase)"
  unfolding inspect_unsealed_def
proof (rule yields_bind_from[where Q = "\<lambda>x. fst x \<noteq> ''sealed_not_submitted''"])
  show "yields (\<lambda>x. fst x \<noteq> ''sealed_not_submitted'') (if phase = ''submitted''
      then act_bind (promote_completed_capture env 0 q (the found)) (\<lambda>upid.
             act_ret (case upid of Some u \<Rightarrow> (''task_known'', Some u) | None \<Rightarrow> (phase, record_upid (the found))))
      else act_ret (phase, Option.bind found record_upid))"
    using assms by (intro yields_intros) (auto split: option.split)
qed (auto split: exn.split intro!: yields_intros response_unsealed)

text \<open>A seal that is already in the journal, and what the answer of each operation then says.\<close>

lemma sealed_record:
  assumes "host_journal s i = Some (Some (JObj record))" "record_phase record = ''sealed_not_submitted''"
  shows "\<not> committed s i \<and> barred s i"
  using assms by (simp add: committed_def barred_def journal_says_def record_phase_iff)

definition seals_soundly :: "snapshot_request \<Rightarrow> (string \<times> json) list action \<Rightarrow> bool" where
  "seals_soundly q m \<longleftrightarrow> (\<forall>s a s' i. m s = (Inr a, s') \<longrightarrow> declares_sealed i a \<longrightarrow>
     quiet s s' \<and> \<not> committed s i \<and> barred s' i)"

lemma under_lease:
  assumes "\<And>s a s' i. host_journal s (sq_id q) = None \<Longrightarrow> k None s = (Inr a, s') \<Longrightarrow> declares_sealed i a \<Longrightarrow>
      quiet s s' \<and> \<not> committed s i \<and> barred s' i"
    and "\<And>record s a s' i. host_journal s (sq_id q) = Some (Some (JObj record)) \<Longrightarrow> k (Some record) s = (Inr a, s') \<Longrightarrow>
      declares_sealed i a \<Longrightarrow> quiet s s' \<and> \<not> committed s i \<and> barred s' i"
  shows "seals_soundly q (with_lease env busy vmid (matching_record env q k))"
  unfolding seals_soundly_def
proof (intro allI impI)
  fix s a s' i
  assume "with_lease env busy vmid (matching_record env q k) s = (Inr a, s')" and d: "declares_sealed i a"
  then have "matching_record env q k s = (Inr a, s')" using lease_cases by fastforce
  from journal_read_cases[OF this] d assms show "quiet s s' \<and> \<not> committed s i \<and> barred s' i" by blast
qed

lemma unsealed_answer: "yields unsealed m \<Longrightarrow> m s = (Inr a, s') \<Longrightarrow> declares_sealed i a \<Longrightarrow> P"
  by (auto simp: yields_def unsealed_def)

lemma sealed_answer:
  assumes "act_ret (sealed_response q) s = (Inr a, s')" "declares_sealed i a"
    and "host_journal s (sq_id q) = Some (Some (JObj record))" "record_phase record = ''sealed_not_submitted''"
  shows "quiet s s' \<and> \<not> committed s i \<and> barred s' i"
  using assms sealed_record by (auto simp: act_ret_def sealed_response_def response_seals)

lemma inspect_seals: "seals_soundly q (inspect env q)"
  unfolding inspect_def
proof (rule under_lease)
  show "quiet s s' \<and> \<not> committed s i \<and> barred s' i"
    if "host_journal s (sq_id q) = None" "declares_sealed i a"
      "(let state = (case None of None \<Rightarrow> ''absent'' | Some record \<Rightarrow> record_phase record) in
        if state = ''sealed_not_submitted'' then act_ret (sealed_response q) else inspect_unsealed env q None state) s = (Inr a, s')"
    for s a s' i
    using that(3) by (simp add: Let_def) (rule unsealed_answer[OF yields_unsealed _ that(2)], simp_all)
  show "quiet s s' \<and> \<not> committed s i \<and> barred s' i"
    if "host_journal s (sq_id q) = Some (Some (JObj rec))" "declares_sealed i a"
      "(let state = (case Some rec of None \<Rightarrow> ''absent'' | Some record \<Rightarrow> record_phase record) in
        if state = ''sealed_not_submitted'' then act_ret (sealed_response q) else inspect_unsealed env q (Some rec) state) s = (Inr a, s')"
    for rec s a s' i
  proof (cases "record_phase rec = ''sealed_not_submitted''")
    case True
    then show ?thesis using that sealed_answer[of q s a s' i rec] by simp
  next
    case False
    then show ?thesis using that(3) by simp (rule unsealed_answer[OF yields_unsealed _ that(2)], simp_all)
  qed
qed

lemma ensure_seals: "seals_soundly q (ensure_submitted env q)"
  unfolding ensure_submitted_def
proof (rule under_lease)
  show "quiet s s' \<and> \<not> committed s i \<and> barred s' i"
    if "declares_sealed i a"
      "(case None of None \<Rightarrow>
         (let record = new_snapshot_record q ''intent'' in
          act_bind (replace_journal (env_write env 0) (sq_id q) record) (\<lambda>_. ensure_from_intent env q record))
       | Some record \<Rightarrow> ensure_recorded env q record) s = (Inr a, s')"
    for s a s' i
    using that(2) by (simp add: Let_def) (rule unsealed_answer[OF yields_bind[OF yields_from_intent] _ that(1)], simp)
  show "quiet s s' \<and> \<not> committed s i \<and> barred s' i"
    if "host_journal s (sq_id q) = Some (Some (JObj rec))" "declares_sealed i a"
      "(case Some rec of None \<Rightarrow>
         (let record = new_snapshot_record q ''intent'' in
          act_bind (replace_journal (env_write env 0) (sq_id q) record) (\<lambda>_. ensure_from_intent env q record))
       | Some record \<Rightarrow> ensure_recorded env q record) s = (Inr a, s')"
    for rec s a s' i
  proof (cases "record_phase rec = ''sealed_not_submitted''")
    case True
    then show ?thesis using that sealed_answer[of q s a s' i rec] by (simp add: ensure_recorded_def)
  next
    case False
    then show ?thesis using that(3) by simp (rule unsealed_answer[OF yields_recorded _ that(2)], simp_all)
  qed
qed

lemma seal_found_step:
  assumes "seal_found env q found s = (r, s')"
    and "found = None \<and> host_journal s (sq_id q) = None
      \<or> (\<exists>record. found = Some record \<and> host_journal s (sq_id q) = Some (Some (JObj record)))"
  shows "quiet s s' \<and> (\<forall>a i. r = Inr a \<longrightarrow> declares_sealed i a \<longrightarrow> \<not> committed s i \<and> barred s' i)"
proof (cases "barred s (sq_id q)")
  case False
  then obtain "record" where w: "act_bind (replace_journal (env_write env 0) (sq_id q) record) (\<lambda>_. act_ret (sealed_response q)) s = (r, s')"
      "dict_get record ''phase'' = JStr ''sealed_not_submitted''"
    using assms by (auto simp: seal_found_def barred_def journal_says_def record_phase_iff new_record_phase record_with_phase)
  have "i = sq_id q" if "r = Inr a" "declares_sealed i a" for a i
    using w(1) that by (auto simp: act_bind_def act_ret_def sealed_response_def response_seals split: sum.splits prod.splits)
  then show ?thesis using seal_writes[OF w(1) False w(2)] committed_barred[of s "sq_id q"] False by blast
next
  case True
  then obtain rec where j: "found = Some rec" "host_journal s (sq_id q) = Some (Some (JObj rec))" "record_phase rec \<noteq> ''intent''"
    using assms(2) unbarred_cases by blast
  show ?thesis
  proof (cases "record_phase rec = ''sealed_not_submitted''")
    case True
    then have s: "act_ret (sealed_response q) s = (r, s')" using assms(1) j by (simp add: seal_found_def)
    then have "s' = s" by (simp add: act_ret_def)
    then show ?thesis using s sealed_answer[of q s _ s' _ rec] j(2) True by blast
  next
    case False
    then have "act_ret (response q ''uncertain'' (map_option JStr (record_upid rec)) None None
              ''snapshot operation crossed submission before it could be sealed'' (record_phase rec)) s = (r, s')"
      using assms(1) j by (simp add: seal_found_def)
    then show ?thesis using False by (auto simp: act_ret_def response_seals)
  qed
qed

lemma seal_step:
  assumes "seal_never_submitted env q s = (r, s')"
  shows "quiet s s' \<and> (\<forall>a i. r = Inr a \<longrightarrow> declares_sealed i a \<longrightarrow> \<not> committed s i \<and> barred s' i)"
  using lease_cases[OF assms[unfolded seal_never_submitted_def]]
proof (elim disjE conjE exE)
  assume "matching_record env q (seal_found env q) s = (r, s')"
  from journal_read_cases[OF this] show ?thesis using seal_found_step[of env q _ s r s'] by auto
qed simp

section \<open>The contract\<close>

definition snapshot_permits :: "json \<Rightarrow> (uuid \<times> int \<times> string list) option" where
  "snapshot_permits payload =
     (case validate_request payload of Inl _ \<Rightarrow> None | Inr q \<Rightarrow> Some (sq_id q, sq_vmid q, snapshot_argv q))"

lemma handle_cases:
  assumes "handle_request env payload s = (r, s')"
  shows "s' = s \<and> (\<exists>e. r = Inl e) \<or> (\<exists>q r'. validate_request payload = Inr q
      \<and> (inspect env q s = (r', s') \<or> seal_never_submitted env q s = (r', s') \<or> ensure_submitted env q s = (r', s'))
      \<and> (r = r' \<or> (\<forall>a. r = Inr a \<longrightarrow> unsealed a)))"
proof (cases "validate_request payload")
  case (Inl e)
  then show ?thesis using assms by (auto simp: handle_request_def act_bind_def act_lift_def)
next
  case (Inr q)
  let ?m = "if sq_operation q = INSPECT_SNAPSHOT then inspect env q
        else if sq_operation q = SEAL_SNAPSHOT then seal_never_submitted env q else ensure_submitted env q"
  obtain r' t where m: "?m s = (r', t)" by fastforce
  then have "s' = t \<and> (r = r' \<or> (\<forall>a. r = Inr a \<longrightarrow> unsealed a))"
    using assms Inr error_unsealed
    by (auto simp: handle_request_def act_bind_def act_lift_def act_try_def act_ret_def act_raise_def split: sum.splits exn.splits)
  then show ?thesis using m Inr by (auto split: if_splits)
qed

lemma operation_effect:
  assumes "inspect env q s = (r, s') \<or> seal_never_submitted env q s = (r, s') \<or> ensure_submitted env q s = (r, s')"
  shows "quiet s s' \<or> sq_vmid q \<notin> snd ` set (host_running s) \<and> \<not> barred s (sq_id q)
      \<and> launched (sq_id q) (sq_vmid q) (snapshot_argv q) s s'"
  using assms always_quiet_step[OF quiet_inspect] seal_step ensure_effect by blast

lemma operation_seals:
  assumes "inspect env q s = (Inr a, s') \<or> seal_never_submitted env q s = (Inr a, s') \<or> ensure_submitted env q s = (Inr a, s')"
    and "declares_sealed i a"
  shows "quiet s s' \<and> \<not> committed s i \<and> barred s' i"
  using assms(1)
proof (elim disjE)
  assume "inspect env q s = (Inr a, s')"
  then show ?thesis using inspect_seals[of q env] assms(2) unfolding seals_soundly_def by blast
next
  assume "seal_never_submitted env q s = (Inr a, s')"
  from seal_step[OF this] assms(2) show ?thesis by blast
next
  assume "ensure_submitted env q s = (Inr a, s')"
  then show ?thesis using ensure_seals[of q env] assms(2) unfolding seals_soundly_def by blast
qed

interpretation snapshots: submitting_helper handle_request capture_ended snapshot_permits declares_sealed
proof
  fix env payload s reply s'
  assume "handle_request env payload s = (reply, s')"
  then consider "s' = s" | q r' where "validate_request payload = Inr q"
      "inspect env q s = (r', s') \<or> seal_never_submitted env q s = (r', s') \<or> ensure_submitted env q s = (r', s')"
    using handle_cases by blast
  then show "quiet s s' \<or> (\<exists>i vmid argv. snapshot_permits payload = Some (i, vmid, argv) \<and> vmid \<notin> snd ` set (host_running s)
      \<and> \<not> barred s i \<and> launched i vmid argv s s')"
  proof cases
    case 1
    then show ?thesis by simp
  next
    case 2
    then show ?thesis using operation_effect[OF 2(2)] by (simp add: snapshot_permits_def)
  qed
next
  fix env payload s answer s' i
  assume "handle_request env payload s = (Inr answer, s')" and d: "declares_sealed i answer"
  then obtain q r' where "inspect env q s = (r', s') \<or> seal_never_submitted env q s = (r', s') \<or> ensure_submitted env q s = (r', s')"
      "Inr answer = r' \<or> unsealed answer"
    using handle_cases by blast
  then show "quiet s s' \<and> \<not> committed s i \<and> barred s' i"
    using operation_seals[of env q s answer s' i] d unfolding unsealed_def by blast
next
  fix x s s'
  assume "capture_ended x s s'"
  then show "host_launches s' = host_launches s \<and> host_running s' = removeAll x (host_running s) \<and> keeps_bars s s'"
    by (rule capture_ended_quiet)
qed

end
