(* ===== verification/Rollback_Safety.thy ===== *)
theory Rollback_Safety
  imports Rollback_Helper Snapshot_Safety
begin

text \<open>
  The rollback helper meets the contract of \<open>submitting_helper\<close> as well, with its own answers and its own command.
\<close>

section \<open>Effects\<close>

lemma rollback_record_phase: "dict_get (rollback_record q phase upid outcome) ''phase'' = JStr phase"
  by (simp add: rollback_record_def dict_get_def)

lemma quiet_write [quiet_intros]: "crossing record \<Longrightarrow> always_quiet (write_rollback env n q record)"
  unfolding write_rollback_def by (rule quiet_replace)

lemma crossing_rollback [simp]:
  "crossing (rollback_record q phase upid outcome) \<longleftrightarrow> phase \<noteq> ''intent'' \<and> phase \<noteq> ''sealed_not_submitted''"
  by (auto simp: crossing_def rollback_record_phase)

lemma quiet_promote_rollback [quiet_intros]: "always_quiet (promote_rollback_capture env n q)"
  unfolding promote_rollback_capture_def by (intro quiet_bind quiet_get) (auto split: option.split intro!: quiet_intros)

lemma quiet_resolve_task: "always_quiet (resolve_task env q phase upid)"
  unfolding resolve_task_def by (intro quiet_bind quiet_lift) (auto split: option.split bool.split intro!: quiet_intros)

lemma quiet_resolve: "always_quiet (resolve_post_submission env q record)"
  unfolding resolve_post_submission_def
  by (intro quiet_bind quiet_if quiet_ret quiet_promote_rollback) (auto split: option.split intro!: quiet_ret quiet_resolve_task)

lemma quiet_inspect_found: "always_quiet (inspect_found env q found)"
  unfolding inspect_found_def by (auto split: option.split intro!: quiet_intros quiet_resolve)

lemma launch_submit_rollback: "may_launch (rq_id q) (rq_vmid q) (rollback_argv q) (submit_rollback env q)"
  unfolding submit_rollback_def
proof (rule launch_then)
  show "may_launch (rq_id q) (rq_vmid q) (rollback_argv q) (submit_detached env (whole_write (env_write env 1)) no_rollback_runner
      ROLLBACK_NOT_JOURNALED (rq_id q) (rq_vmid q) (rollback_record q ''submitted'' None None) (rollback_argv q))"
    by (rule launch_submit) simp
qed (auto split: option.split intro!: quiet_intros)

text \<open>What a read of the journal leaves to the rest of the call.\<close>

definition found_in :: "host_state \<Rightarrow> uuid \<Rightarrow> journal_record option \<Rightarrow> bool" where
  "found_in s i found \<longleftrightarrow> host_journal s i = map_option (\<lambda>record. Some (JObj record)) found"

lemma rollback_read_cases:
  assumes "act_bind (read_rollback_journal env i) k s = (r, s')"
  shows "s' = s \<and> (\<exists>e. r = Inl e) \<or> (\<exists>found. found_in s i found \<and> k found s = (r, s'))"
  using assms
  by (auto simp: read_rollback_journal_def act_bind_def act_get_def rollback_record_check_def bindE_def checkE_def found_in_def
      split: option.splits if_splits json.splits sum.splits)

lemma found_unbarred: "found_in s i found \<Longrightarrow> found = None \<or> record_phase (the found) = ''intent'' \<Longrightarrow> \<not> barred s i"
  by (cases found) (auto simp: found_in_def barred_def journal_says_def record_phase_iff)

lemma found_sealed: "found_in s i (Some record) \<Longrightarrow> record_phase record = ''sealed_not_submitted'' \<Longrightarrow> \<not> committed s i \<and> barred s i"
  using sealed_record by (simp add: found_in_def)

lemma submit_intent_effect:
  assumes "act_bind (if found = None then write_rollback env 0 q (rollback_record q ''intent'' None None) else act_ret ())
      (\<lambda>_. submit_rollback env q) s = (r, s')" "\<not> barred s (rq_id q)"
  shows "quiet s s' \<or> launched (rq_id q) (rq_vmid q) (rollback_argv q) s s'"
proof -
  let ?m = "if found = None then write_rollback env 0 q (rollback_record q ''intent'' None None) else act_ret ()"
  obtain w t where w: "?m s = (w, t)" by fastforce
  have "quiet s t"
    using w assms(2) replace_quiet[of "rollback_record q ''intent'' None None" s "rq_id q" "whole_write (env_write env 0)"]
    by (auto simp: write_rollback_def act_ret_def split: if_splits)
  moreover have "t = s' \<or> submit_rollback env q t = (r, s')" using assms(1) w by (auto simp: act_bind_def split: sum.splits)
  ultimately show ?thesis
    using may_launch_cases[OF launch_submit_rollback[of q env], of t r s'] quiet_trans quiet_launched by blast
qed

lemma submit_found_effect:
  assumes "submit_found env q found s = (r, s')" "found_in s (rq_id q) found"
  shows "quiet s s' \<or> \<not> barred s (rq_id q) \<and> launched (rq_id q) (rq_vmid q) (rollback_argv q) s s'"
proof (cases "found = None \<or> record_phase (the found) = ''intent''")
  case True
  then have b: "\<not> barred s (rq_id q)" using found_unbarred assms(2) by blast
  have "s' = s \<or> act_bind (if found = None then write_rollback env 0 q (rollback_record q ''intent'' None None) else act_ret ())
      (\<lambda>_. submit_rollback env q) s = (r, s')"
    using assms(1) True
    by (auto simp: submit_found_def act_bind_def act_lift_def Let_def split: option.splits sum.splits)
  then show ?thesis using submit_intent_effect[OF _ b] b by auto
next
  case False
  then obtain rec where "found = Some rec" "record_phase rec \<noteq> ''intent''" by auto
  then have "always_quiet (submit_found env q found)"
    unfolding submit_found_def Let_def by (auto intro!: quiet_intros quiet_resolve)
  then show ?thesis using always_quiet_step assms(1) by blast
qed

section \<open>Seals\<close>

definition declares_rollback_sealed :: "uuid \<Rightarrow> (string \<times> json) list \<Rightarrow> bool" where
  "declares_rollback_sealed i answer \<longleftrightarrow>
     dict_get answer ''rollback_operation_id'' = JStr i \<and> dict_get answer ''rollback_state'' = JStr ''sealed_not_submitted''"

definition rollback_unsealed :: "(string \<times> json) list \<Rightarrow> bool" where
  "rollback_unsealed answer \<longleftrightarrow> (\<forall>i. \<not> declares_rollback_sealed i answer)"

lemma phase_response_seals:
  "declares_rollback_sealed i (phase_response q phase outcome upid task snapshots reason) \<longleftrightarrow>
     i = rq_id q \<and> phase = ''sealed_not_submitted''"
  by (auto simp: declares_rollback_sealed_def phase_response_def dict_get_def)

lemma phase_response_unsealed:
  "phase \<noteq> ''sealed_not_submitted'' \<Longrightarrow> rollback_unsealed (phase_response q phase outcome upid task snapshots reason)"
  by (simp add: rollback_unsealed_def phase_response_seals)

lemma failure_unsealed: "rollback_unsealed (rollback_failure oid e)"
  by (simp add: rollback_unsealed_def declares_rollback_sealed_def rollback_failure_def dict_get_def)

lemma yields_resolve_task: "phase \<noteq> ''sealed_not_submitted'' \<Longrightarrow> yields rollback_unsealed (resolve_task env q phase upid)"
  unfolding resolve_task_def
  by (intro yields_bind) (auto split: option.split bool.split intro!: yields_intros phase_response_unsealed)

lemma yields_resolve:
  assumes "record_phase record \<noteq> ''sealed_not_submitted''"
  shows "yields rollback_unsealed (resolve_post_submission env q record)"
  unfolding resolve_post_submission_def
proof (rule yields_bind_from[where Q = "\<lambda>x. fst x \<noteq> ''sealed_not_submitted''"])
  show "yields (\<lambda>x. fst x \<noteq> ''sealed_not_submitted'') (if record_phase record = ''submitted'' \<and> record_upid record = None
      then act_bind (promote_rollback_capture env 0 q) (\<lambda>upid. act_ret (if upid = None then record_phase record else ''task_known'', upid))
      else act_ret (record_phase record, record_upid record))"
    using assms by (intro yields_intros) auto
qed (auto split: option.split intro!: yields_ret phase_response_unsealed yields_resolve_task)

lemma yields_submit_rollback: "yields rollback_unsealed (submit_rollback env q)"
  unfolding submit_rollback_def
  by (intro yields_bind) (auto split: option.split intro!: yields_intros phase_response_unsealed)

lemma yields_submit_found: "yields rollback_unsealed (submit_found env q found)"
  unfolding submit_found_def Let_def
  by (intro yields_bind yields_if yields_raise yields_submit_rollback) (auto split: option.splits intro!: yields_resolve)

lemma inspect_found_seals:
  assumes "inspect_found env q found s = (Inr a, s')" "found_in s (rq_id q) found" "declares_rollback_sealed i a"
  shows "quiet s s' \<and> \<not> committed s i \<and> barred s' i"
proof (cases "\<exists>record. found = Some record \<and> record_phase record = ''sealed_not_submitted''")
  case True
  then obtain rec where rec: "found = Some rec" "record_phase rec = ''sealed_not_submitted''" by blast
  then have "s' = s" "i = rq_id q"
    using assms(1,3) by (auto simp: inspect_found_def act_bind_def act_lift_def act_ret_def phase_response_seals split: sum.splits)
  then show ?thesis using found_sealed assms(2) rec by auto
next
  case False
  then have "yields rollback_unsealed (inspect_found env q found)"
    unfolding inspect_found_def
    by (auto split: option.split intro!: yields_intros phase_response_unsealed yields_resolve)
  then show ?thesis using assms(1,3) by (auto simp: yields_def rollback_unsealed_def)
qed

lemma seal_rollback_step:
  assumes "seal_rollback env q s = (r, s')" "\<not> barred s (rq_id q)"
  shows "quiet s s' \<and> (\<forall>a i. r = Inr a \<longrightarrow> declares_rollback_sealed i a \<longrightarrow> \<not> committed s i \<and> barred s' i)"
proof -
  have "i = rq_id q" if "r = Inr a" "declares_rollback_sealed i a" for a i
    using assms(1) that by (auto simp: seal_rollback_def act_bind_def act_ret_def phase_response_seals split: sum.splits prod.splits)
  moreover have "\<not> committed s (rq_id q)" using assms(2) committed_barred by blast
  ultimately show ?thesis
    using seal_writes[OF assms(1)[unfolded seal_rollback_def write_rollback_def] assms(2) rollback_record_phase] by blast
qed

lemma seal_rollback_found_step:
  assumes "seal_rollback_found env q found s = (r, s')" "found_in s (rq_id q) found"
  shows "quiet s s' \<and> (\<forall>a i. r = Inr a \<longrightarrow> declares_rollback_sealed i a \<longrightarrow> \<not> committed s i \<and> barred s' i)"
proof (cases "found = None \<or> record_phase (the found) = ''intent''")
  case True
  then have b: "\<not> barred s (rq_id q)" using found_unbarred assms(2) by blast
  have "s' = s \<and> (\<exists>e. r = Inl e) \<or> seal_rollback env q s = (r, s')"
    using assms(1) True by (auto simp: seal_rollback_found_def act_bind_def act_lift_def split: option.splits sum.splits)
  then show ?thesis using seal_rollback_step[OF _ b] by auto
next
  case False
  then obtain rec where rec: "found = Some rec" "record_phase rec \<noteq> ''intent''" by auto
  then have "s' = s" "\<And>a i. r = Inr a \<Longrightarrow> declares_rollback_sealed i a \<Longrightarrow> i = rq_id q \<and> record_phase rec = ''sealed_not_submitted''"
    using assms(1) by (auto simp: seal_rollback_found_def act_bind_def act_lift_def act_ret_def act_raise_def phase_response_seals
        split: sum.splits if_splits)
  then show ?thesis using found_sealed assms(2) rec by auto
qed

section \<open>The contract\<close>

definition rollback_permits :: "json \<Rightarrow> (uuid \<times> int \<times> string list) option" where
  "rollback_permits payload =
     (case parse_request payload of Inl _ \<Rightarrow> None | Inr q \<Rightarrow> Some (rq_id q, rq_vmid q, rollback_argv q))"

lemma under_rollback_lease:
  assumes "with_lease env ROLLBACK_LEASE_BUSY (rq_vmid q) (act_bind (read_rollback_journal env (rq_id q)) k) s = (r, s')"
  shows "s' = s \<and> (\<exists>e. r = Inl e)
    \<or> (\<exists>found. rq_vmid q \<notin> snd ` set (host_running s) \<and> found_in s (rq_id q) found \<and> k found s = (r, s'))"
  using lease_cases[OF assms] rollback_read_cases by blast

lemma dispatch_effect:
  assumes "rollback_dispatch env q s = (r, s')"
  shows "quiet s s' \<or> rq_vmid q \<notin> snd ` set (host_running s) \<and> \<not> barred s (rq_id q)
      \<and> launched (rq_id q) (rq_vmid q) (rollback_argv q) s s'"
proof -
  consider "inspect_rollback_state env q s = (r, s')" | "seal_rollback_never_submitted env q s = (r, s')"
    | "submit_same_job_rollback env q s = (r, s')"
    using assms by (auto simp: rollback_dispatch_def split: if_splits)
  then show ?thesis
  proof cases
    case 1
    from under_rollback_lease[OF 1[unfolded inspect_rollback_state_def]]
    show ?thesis using always_quiet_step[OF quiet_inspect_found] by auto
  next
    case 2
    from under_rollback_lease[OF 2[unfolded seal_rollback_never_submitted_def]]
    show ?thesis using seal_rollback_found_step by blast
  next
    case 3
    from under_rollback_lease[OF 3[unfolded submit_same_job_rollback_def]]
    show ?thesis using submit_found_effect by blast
  qed
qed

lemma dispatch_seals:
  assumes "rollback_dispatch env q s = (Inr a, s')" "declares_rollback_sealed i a"
  shows "quiet s s' \<and> \<not> committed s i \<and> barred s' i"
proof -
  consider "inspect_rollback_state env q s = (Inr a, s')" | "seal_rollback_never_submitted env q s = (Inr a, s')"
    | "submit_same_job_rollback env q s = (Inr a, s')"
    using assms(1) by (auto simp: rollback_dispatch_def split: if_splits)
  then show ?thesis
  proof cases
    case 1
    from under_rollback_lease[OF 1[unfolded inspect_rollback_state_def]]
    show ?thesis using inspect_found_seals assms(2) by blast
  next
    case 2
    from under_rollback_lease[OF 2[unfolded seal_rollback_never_submitted_def]]
    show ?thesis using seal_rollback_found_step assms(2) by blast
  next
    case 3
    from under_rollback_lease[OF 3[unfolded submit_same_job_rollback_def]]
    obtain found where "submit_found env q found s = (Inr a, s')" by blast
    then show ?thesis using yields_submit_found[of env q found] assms(2) by (auto simp: yields_def rollback_unsealed_def)
  qed
qed

lemma serve_cases:
  assumes "rollback_serve env payload s = (r, s')"
  shows "s' = s \<and> (\<forall>a. r = Inr a \<longrightarrow> rollback_unsealed a) \<or> (\<exists>q r'. parse_request payload = Inr q
      \<and> rollback_dispatch env q s = (r', s') \<and> (r = r' \<or> (\<forall>a. r = Inr a \<longrightarrow> rollback_unsealed a)))"
proof (cases "parse_request payload")
  case (Inl e)
  then show ?thesis using assms failure_unsealed by (auto simp: rollback_serve_def act_ret_def)
next
  case (Inr q)
  obtain r' t where m: "rollback_dispatch env q s = (r', t)" by fastforce
  then have "s' = t \<and> (r = r' \<or> (\<forall>a. r = Inr a \<longrightarrow> rollback_unsealed a))"
    using assms Inr failure_unsealed
    by (auto simp: rollback_serve_def act_try_def act_ret_def act_raise_def split: sum.splits exn.splits)
  then show ?thesis using m Inr by auto
qed

interpretation rollbacks: submitting_helper rollback_serve capture_ended rollback_permits declares_rollback_sealed
proof
  fix env payload s reply s'
  assume "rollback_serve env payload s = (reply, s')"
  then consider "s' = s" | q r' where "parse_request payload = Inr q" "rollback_dispatch env q s = (r', s')"
    using serve_cases by blast
  then show "quiet s s' \<or> (\<exists>i vmid argv. rollback_permits payload = Some (i, vmid, argv) \<and> vmid \<notin> snd ` set (host_running s)
      \<and> \<not> barred s i \<and> launched i vmid argv s s')"
  proof cases
    case 1
    then show ?thesis by simp
  next
    case 2
    then show ?thesis using dispatch_effect[OF 2(2)] by (simp add: rollback_permits_def)
  qed
next
  fix env payload s answer s' i
  assume "rollback_serve env payload s = (Inr answer, s')" and d: "declares_rollback_sealed i answer"
  then obtain q where "rollback_dispatch env q s = (Inr answer, s')"
    using serve_cases unfolding rollback_unsealed_def by blast
  then show "quiet s s' \<and> \<not> committed s i \<and> barred s' i" using dispatch_seals d by blast
next
  fix x s s'
  assume "capture_ended x s s'"
  then show "host_launches s' = host_launches s \<and> host_running s' = removeAll x (host_running s) \<and> keeps_bars s s'"
    by (rule capture_ended_quiet)
qed

section \<open>The target of a rollback\<close>

lemma rollback_parser_agrees: "rollback_parse_description v = Inr x \<longleftrightarrow> helper_parse_description v = Inr x"
proof -
  have line: "rollback_claim_line l = Inr y \<longleftrightarrow> helper_claim_line l = Inr y" for l y
    by (auto simp: rollback_claim_line_def helper_claim_line_def parse_snapshot_ownership_def exact_object_def Let_def
        checkE_Inr_iff bindE_Inr_iff split: option.splits json.splits)
  show ?thesis
    by (auto simp: rollback_parse_description_def helper_parse_description_def line split: json.splits list.splits)
qed

end
