(* ===== verification/Mutation_Safety.thy ===== *)
theory Mutation_Safety
  imports Mutation_Helper Rollback_Safety
begin

text \<open>
  The mutation helper meets the contract of \<open>submitting_helper\<close>: the package command is released at most once per
  operation, and its runner only ever replaces the record \<open>submitted\<close> by a terminal one.
\<close>

section \<open>Effects\<close>

lemma mutation_record_phase: "dict_get (mutation_record q phase extra) ''phase'' = JStr phase"
  by (simp add: mutation_record_def dict_get_def)

lemma crossing_mutation [simp]:
  "crossing (mutation_record q phase extra) \<longleftrightarrow> phase \<noteq> ''intent'' \<and> phase \<noteq> ''sealed_not_submitted''"
  by (auto simp: crossing_def mutation_record_phase)

lemma quiet_write_mutation [quiet_intros]: "crossing record \<Longrightarrow> always_quiet (write_mutation env n q record)"
  unfolding write_mutation_def by (rule quiet_replace)

lemma mutation_read_cases:
  assumes "matching_mutation env q k s = (r, s')"
  shows "s' = s \<and> (\<exists>e. r = Inl e) \<or> (\<exists>found. found_in s (mq_id q) found \<and> k found s = (r, s'))"
  using assms
  by (auto simp: matching_mutation_def read_mutation_journal_def act_bind_def act_get_def act_need_def act_raise_def
      mutation_record_check_def bindE_def checkE_def Let_def found_in_def
      split: option.splits if_splits json.splits sum.splits)

lemma quiet_matching: "(\<And>found. always_quiet (k found)) \<Longrightarrow> always_quiet (matching_mutation env q k)"
  unfolding matching_mutation_def read_mutation_journal_def by (intro quiet_bind quiet_get quiet_need)

lemma quiet_inspect_mutation: "always_quiet (inspect_mutation env q)"
  unfolding inspect_mutation_def lease_is_held_def Let_def by (intro quiet_matching quiet_intros)

lemma quiet_prepare: "always_quiet (prepare_mutation env q)"
  unfolding prepare_mutation_def by (intro quiet_lease quiet_matching) (auto split: option.split intro!: quiet_intros)

lemma launch_execute_submit:
  "may_launch (mq_id q) (mq_vmid q) (guest_argv (mq_vmid q) (mutation_argv (mq_id q))) (execute_submit env q)"
  unfolding execute_submit_def by (rule launch_then[OF launch_submit quiet_ret]) simp

lemma launch_execute_intent:
  assumes "record_phase record = ''intent''"
  shows "may_launch (mq_id q) (mq_vmid q) (guest_argv (mq_vmid q) (mutation_argv (mq_id q))) (execute_recorded env q record)"
  using assms unfolding execute_recorded_def is_terminal_def
  by (auto simp: Let_def intro!: launch_need launch_after quiet_lift launch_execute_submit)

lemma quiet_execute_recorded:
  assumes "record_phase record \<noteq> ''intent''"
  shows "always_quiet (execute_recorded env q record)"
  using assms unfolding execute_recorded_def Let_def by (auto intro!: quiet_intros)

lemma execute_fresh_effect:
  assumes "act_bind (write_mutation env 0 q record) (\<lambda>_. execute_recorded env q record) s = (r, s')"
    and "record_phase record = ''intent''" "\<not> barred s (mq_id q)"
  shows "quiet s s' \<or> launched (mq_id q) (mq_vmid q) (guest_argv (mq_vmid q) (mutation_argv (mq_id q))) s s'"
proof -
  obtain w t where w: "write_mutation env 0 q record s = (w, t)" by fastforce
  have "quiet s t"
    using replace_quiet[of "record" s "mq_id q" "whole_write (env_write env 0)"] assms(3) w by (simp add: write_mutation_def)
  moreover have "t = s' \<or> execute_recorded env q record t = (r, s')" using assms(1) w by (auto simp: act_bind_def split: sum.splits)
  ultimately show ?thesis
    using may_launch_cases[OF launch_execute_intent[OF assms(2), of q env], of t r s'] quiet_trans quiet_launched by blast
qed

lemma execute_found_effect:
  assumes "execute_found env q found s = (r, s')" "found_in s (mq_id q) found"
  shows "quiet s s' \<or> \<not> barred s (mq_id q) \<and> launched (mq_id q) (mq_vmid q) (guest_argv (mq_vmid q) (mutation_argv (mq_id q))) s s'"
proof (cases found)
  case None
  have "\<not> barred s (mq_id q)" using found_unbarred assms(2) None by blast
  moreover have "record_phase (mutation_record q ''intent'' extra) = ''intent''" for extra
    by (simp add: record_phase_iff mutation_record_phase)
  ultimately show ?thesis
    using execute_fresh_effect assms(1) unfolding execute_found_def None Let_def option.case by blast
next
  case (Some rec)
  then have e: "execute_recorded env q rec s = (r, s')" using assms(1) by (simp add: execute_found_def)
  show ?thesis
  proof (cases "record_phase rec = ''intent''")
    case True
    then have "\<not> barred s (mq_id q)" using found_unbarred assms(2) Some by auto
    then show ?thesis using may_launch_cases[OF launch_execute_intent[OF True] e] by blast
  next
    case False
    then show ?thesis using always_quiet_step[OF quiet_execute_recorded e] by blast
  qed
qed

section \<open>Seals\<close>

definition declares_mutation_sealed :: "uuid \<Rightarrow> (string \<times> json) list \<Rightarrow> bool" where
  "declares_mutation_sealed i answer \<longleftrightarrow>
     dict_get answer ''mutation_operation_id'' = JStr i \<and> dict_get answer ''operation_state'' = JStr ''sealed_not_submitted''"

lemma mutation_response_seals:
  "declares_mutation_sealed i (mutation_response q state running reason evidence) \<longleftrightarrow> i = mq_id q \<and> state = ''sealed_not_submitted''"
  by (auto simp: declares_mutation_sealed_def mutation_response_def dict_get_def)

lemma mutation_failure_unsealed: "\<not> declares_mutation_sealed i (mutation_failure q c m)"
  by (simp add: declares_mutation_sealed_def mutation_failure_def dict_get_def)

text \<open>An answer that declares a seal is about the operation of the request, in the state \<open>sealed_not_submitted\<close>.\<close>

definition answers_state :: "host_mutation_request \<Rightarrow> string \<Rightarrow> (string \<times> json) list \<Rightarrow> bool" where
  "answers_state q state a \<longleftrightarrow> (\<forall>i. declares_mutation_sealed i a \<longrightarrow> i = mq_id q \<and> state = ''sealed_not_submitted'')"

lemma answers_response: "answers_state q state (mutation_response q state running reason evidence)"
  by (simp add: answers_state_def mutation_response_seals)

lemma answers_other: "state \<noteq> ''sealed_not_submitted'' \<Longrightarrow> answers_state q other (mutation_response q state running reason evidence)"
  by (simp add: answers_state_def mutation_response_seals)

lemma yields_execute_recorded: "yields (answers_state q (record_phase record)) (execute_recorded env q record)"
  unfolding execute_recorded_def execute_submit_def sealed_mutation_response_def Let_def is_terminal_def
  by (intro yields_intros) (auto intro: answers_response answers_other)

lemma yields_execute_found: "yields (answers_state q (case found of None \<Rightarrow> ''intent'' | Some record \<Rightarrow> record_phase record)) (execute_found env q found)"
proof (cases found)
  case None
  have "record_phase (mutation_record q ''intent'' extra) = ''intent''" for extra
    by (simp add: record_phase_iff mutation_record_phase)
  then show ?thesis unfolding execute_found_def None Let_def option.case
    by (metis yields_bind yields_execute_recorded)
next
  case (Some rec)
  then show ?thesis using yields_execute_recorded by (simp add: execute_found_def)
qed

text \<open>A seal that is answered is in the journal.\<close>

lemma answered_seal:
  assumes "yields (answers_state q (case found of None \<Rightarrow> other | Some record \<Rightarrow> record_phase record)) m" "m s = (Inr a, s')"
    and "found_in s (mq_id q) found" "declares_mutation_sealed i a" "other \<noteq> ''sealed_not_submitted''"
  shows "\<not> committed s i \<and> barred s i"
proof -
  have "i = mq_id q \<and> (case found of None \<Rightarrow> other | Some record \<Rightarrow> record_phase record) = ''sealed_not_submitted''"
    using assms(1,2,4) unfolding yields_def answers_state_def by blast
  then show ?thesis using found_sealed assms(3,5) by (auto split: option.splits)
qed

lemma yields_inspect_found:
  "yields (answers_state q (case found of None \<Rightarrow> ''absent'' | Some record \<Rightarrow> record_phase record))
     (let state = (case found of None \<Rightarrow> ''absent'' | Some record \<Rightarrow> record_phase record) in
      act_bind (if state = ''submitted'' then lease_is_held env (mq_vmid q) else act_ret False) (\<lambda>running.
      act_ret (mutation_response q state running (if running then Some ''a package mutation is running right now'' else None)
        (Option.bind found terminal_evidence))))"
  unfolding Let_def by (intro yields_bind yields_ret answers_response)

lemma yields_prepare_found:
  "yields (answers_state q (case found of None \<Rightarrow> ''absent'' | Some record \<Rightarrow> record_phase record))
     (case found of
       Some record \<Rightarrow>
         act_ret (mutation_response q (record_phase record) False (Some ''package mutation operation is past preparation'')
           (terminal_evidence record))
     | None \<Rightarrow>
         act_bind (act_lift (prepare_evidence env q)) (\<lambda>evidence.
         act_ret (mutation_response q ''absent'' False (Some ''fresh execution-time evidence prepared; no package changed'')
           (Some (JObj (evidence @ [(''prepared_evidence_digest'', JStr (evidence_digest evidence))]))))))"
  by (cases found) (auto intro!: yields_bind yields_ret answers_response)

lemma barred_quiet: "quiet s s' \<Longrightarrow> barred s i \<Longrightarrow> barred s' i"
  by (simp add: quiet_def keeps_bars_def)

lemma seal_mutation_writes:
  assumes "act_bind (write_mutation env 0 q record) (\<lambda>_. act_ret (sealed_mutation_response q)) s = (r, s')" "\<not> barred s (mq_id q)"
    and "dict_get record ''phase'' = JStr ''sealed_not_submitted''"
  shows "quiet s s' \<and> (\<forall>a i. r = Inr a \<longrightarrow> declares_mutation_sealed i a \<longrightarrow> \<not> committed s i \<and> barred s' i)"
proof -
  have "i = mq_id q" if "r = Inr a" "declares_mutation_sealed i a" for a i
    using assms(1) that by (auto simp: act_bind_def act_ret_def sealed_mutation_response_def mutation_response_seals
        split: sum.splits prod.splits)
  moreover have "\<not> committed s (mq_id q)" using assms(2) committed_barred by blast
  ultimately show ?thesis using seal_writes[OF assms(1)[unfolded write_mutation_def] assms(2,3)] by blast
qed

lemma seal_mutation_found_step:
  assumes "seal_mutation_found env q found s = (r, s')" "found_in s (mq_id q) found"
  shows "quiet s s' \<and> (\<forall>a i. r = Inr a \<longrightarrow> declares_mutation_sealed i a \<longrightarrow> \<not> committed s i \<and> barred s' i)"
proof (cases "found = None \<or> record_phase (the found) = ''intent''")
  case True
  then have b: "\<not> barred s (mq_id q)" using found_unbarred assms(2) by blast
  obtain rec where "act_bind (write_mutation env 0 q rec) (\<lambda>_. act_ret (sealed_mutation_response q)) s = (r, s')"
      "dict_get rec ''phase'' = JStr ''sealed_not_submitted''"
    using assms(1) True by (auto simp: seal_mutation_found_def mutation_record_phase record_with_phase split: option.splits)
  then show ?thesis using seal_mutation_writes b by blast
next
  case False
  then obtain rec where rec: "found = Some rec" "record_phase rec \<noteq> ''intent''" by auto
  then have "s' = s" "\<And>a i. r = Inr a \<Longrightarrow> declares_mutation_sealed i a \<Longrightarrow> i = mq_id q \<and> record_phase rec = ''sealed_not_submitted''"
    using assms(1) by (auto simp: seal_mutation_found_def act_ret_def sealed_mutation_response_def mutation_response_seals
        split: if_splits)
  then show ?thesis using found_sealed assms(2) rec by auto
qed

section \<open>The contract\<close>

definition mutation_permits :: "json \<Rightarrow> (uuid \<times> int \<times> string list) option" where
  "mutation_permits payload =
     (case validate_mutation_request payload of Inl _ \<Rightarrow> None
      | Inr q \<Rightarrow> Some (mq_id q, mq_vmid q, guest_argv (mq_vmid q) (mutation_argv (mq_id q))))"

lemma under_mutation_lease:
  assumes "with_lease env MUTATION_LEASE_BUSY (mq_vmid q) (matching_mutation env q k) s = (r, s')"
  shows "s' = s \<and> (\<exists>e. r = Inl e)
    \<or> (\<exists>found. mq_vmid q \<notin> snd ` set (host_running s) \<and> found_in s (mq_id q) found \<and> k found s = (r, s'))"
  using lease_cases[OF assms] mutation_read_cases by blast

lemma mutation_dispatch_cases:
  assumes "mutation_dispatch env q s = (r, s')"
  obtains "inspect_mutation env q s = (r, s')" | "seal_mutation_never_submitted env q s = (r, s')"
    | "prepare_mutation env q s = (r, s')" | "execute_mutation env q s = (r, s')"
  using assms by (auto simp: mutation_dispatch_def split: if_splits)

lemma mutation_dispatch_effect:
  assumes "mutation_dispatch env q s = (r, s')"
  shows "quiet s s' \<or> mq_vmid q \<notin> snd ` set (host_running s) \<and> \<not> barred s (mq_id q)
      \<and> launched (mq_id q) (mq_vmid q) (guest_argv (mq_vmid q) (mutation_argv (mq_id q))) s s'"
  using assms
proof (cases rule: mutation_dispatch_cases)
  case 1
  then show ?thesis using always_quiet_step[OF quiet_inspect_mutation] by blast
next
  case 2
  from under_mutation_lease[OF 2[unfolded seal_mutation_never_submitted_def]]
  show ?thesis using seal_mutation_found_step by blast
next
  case 3
  then show ?thesis using always_quiet_step[OF quiet_prepare] by blast
next
  case 4
  from under_mutation_lease[OF 4[unfolded execute_mutation_def]]
  show ?thesis using execute_found_effect by blast
qed

lemma answered_quietly:
  assumes "quiet s s'" "\<not> committed s i \<and> barred s i"
  shows "quiet s s' \<and> \<not> committed s i \<and> barred s' i"
  using assms barred_quiet by blast

lemma mutation_dispatch_seals:
  assumes "mutation_dispatch env q s = (Inr a, s')" "declares_mutation_sealed i a"
  shows "quiet s s' \<and> \<not> committed s i \<and> barred s' i"
  using assms(1)
proof (cases rule: mutation_dispatch_cases)
  case 1
  from mutation_read_cases[OF 1[unfolded inspect_mutation_def]] obtain found where f: "found_in s (mq_id q) found"
    "(let state = (case found of None \<Rightarrow> ''absent'' | Some record \<Rightarrow> record_phase record) in
      act_bind (if state = ''submitted'' then lease_is_held env (mq_vmid q) else act_ret False) (\<lambda>running.
      act_ret (mutation_response q state running (if running then Some ''a package mutation is running right now'' else None)
        (Option.bind found terminal_evidence)))) s = (Inr a, s')" by blast
  show ?thesis using answered_seal[OF yields_inspect_found f(2,1) assms(2)] always_quiet_step[OF quiet_inspect_mutation 1]
    by (intro answered_quietly) auto
next
  case 2
  from under_mutation_lease[OF 2[unfolded seal_mutation_never_submitted_def]]
  show ?thesis using seal_mutation_found_step assms(2) by blast
next
  case 3
  from under_mutation_lease[OF 3[unfolded prepare_mutation_def]]
  show ?thesis using answered_seal[OF yields_prepare_found _ _ assms(2)] always_quiet_step[OF quiet_prepare 3]
    by (intro answered_quietly) auto
next
  case 4
  from under_mutation_lease[OF 4[unfolded execute_mutation_def]] obtain found where
    f: "found_in s (mq_id q) found" "execute_found env q found s = (Inr a, s')" by blast
  have c: "\<not> committed s i \<and> barred s i" using answered_seal[OF yields_execute_found f(2,1) assms(2)] by simp
  have "i = mq_id q" using yields_execute_found[of q found env] f(2) assms(2) unfolding yields_def answers_state_def by blast
  then show ?thesis using execute_found_effect[OF f(2,1)] c answered_quietly by blast
qed

lemma handle_mutation_cases:
  assumes "handle_mutation env payload s = (r, s')"
  shows "s' = s \<and> (\<exists>e. r = Inl e) \<or> (\<exists>q r'. validate_mutation_request payload = Inr q \<and> mutation_dispatch env q s = (r', s')
      \<and> (r = r' \<or> (\<forall>a i. r = Inr a \<longrightarrow> \<not> declares_mutation_sealed i a)))"
proof (cases "validate_mutation_request payload")
  case (Inl e)
  then show ?thesis using assms by (auto simp: handle_mutation_def act_bind_def act_lift_def)
next
  case (Inr q)
  obtain r' t where m: "mutation_dispatch env q s = (r', t)" by fastforce
  then have "s' = t \<and> (r = r' \<or> (\<forall>a i. r = Inr a \<longrightarrow> \<not> declares_mutation_sealed i a))"
    using assms Inr mutation_failure_unsealed
    by (auto simp: handle_mutation_def act_bind_def act_lift_def act_try_def act_ret_def act_raise_def split: sum.splits exn.splits)
  then show ?thesis using m Inr by auto
qed

lemma run_mutation_quiet: "always_quiet (run_mutation env q local architecture inventory)"
  unfolding run_mutation_def
  by (auto simp: Let_def split: prod.split sum.split exn.split intro!: quiet_bind quiet_ret quiet_raise quiet_write_mutation)

lemma mutation_ended_quiet:
  assumes "mutation_ended x s s'"
  shows "host_launches s' = host_launches s \<and> host_running s' = removeAll x (host_running s) \<and> keeps_bars s s'"
proof -
  obtain env q local arch inv where s': "s' = (snd (run_mutation env q local arch inv s))\<lparr>host_running := removeAll x (host_running s)\<rparr>"
    using assms unfolding mutation_ended_def by blast
  have "quiet s (snd (run_mutation env q local arch inv s))" using run_mutation_quiet by (simp add: always_quiet_def)
  then show ?thesis unfolding s' by (simp add: quiet_def keeps_bars_def barred_def committed_def)
qed

interpretation mutations: submitting_helper handle_mutation mutation_ended mutation_permits declares_mutation_sealed
proof
  fix env payload s reply s'
  assume "handle_mutation env payload s = (reply, s')"
  then consider "s' = s" | q r' where "validate_mutation_request payload = Inr q" "mutation_dispatch env q s = (r', s')"
    using handle_mutation_cases by blast
  then show "quiet s s' \<or> (\<exists>i vmid argv. mutation_permits payload = Some (i, vmid, argv) \<and> vmid \<notin> snd ` set (host_running s)
      \<and> \<not> barred s i \<and> launched i vmid argv s s')"
  proof cases
    case 1
    then show ?thesis by simp
  next
    case 2
    then show ?thesis using mutation_dispatch_effect[OF 2(2)] by (simp add: mutation_permits_def)
  qed
next
  fix env payload s answer s' i
  assume "handle_mutation env payload s = (Inr answer, s')" and d: "declares_mutation_sealed i answer"
  then obtain q where "mutation_dispatch env q s = (Inr answer, s')" using handle_mutation_cases by blast
  then show "quiet s s' \<and> \<not> committed s i \<and> barred s' i" using mutation_dispatch_seals d by blast
next
  fix x s s'
  assume "mutation_ended x s s'"
  then show "host_launches s' = host_launches s \<and> host_running s' = removeAll x (host_running s) \<and> keeps_bars s s'"
    by (rule mutation_ended_quiet)
qed

end
