(* ===== verification/Health_Contract.thy ===== *)
theory Health_Contract
  imports Ops_Models Digest "HOL-Library.Multiset"
begin

text \<open>
  The per-resource health contract: canonicalisation, default and fingerprint
  (\<open>app/inventory/health_contract.py\<close>), the closed vocabulary of probe observations
  (\<open>app/inventory/health_observation.py\<close>), and the eligibility of a contract for execution
  (\<open>app/inventory/health_execution.py\<close>). The lemmas show that a canonical contract is a sorted,
  duplicate-free, bounded list that is either the targetless baseline or explicit unit probes,
  that canonicalisation is idempotent and blind to the order of declaration, and that an accepted
  reason token fixes its outcome.
\<close>

section \<open>Canonical probes\<close>

definition MIN_HEALTH_PROBES :: nat where "MIN_HEALTH_PROBES = 1"
definition MAX_HEALTH_PROBES :: nat where "MAX_HEALTH_PROBES = 32"
definition MAX_HEALTH_PROBE_TARGET_LENGTH :: nat where "MAX_HEALTH_PROBE_TARGET_LENGTH = 200"

text \<open>
  \<open>unicodedata.category(character) in {"Cc", "Cf", "Cs", "Co", "Cn"}\<close> for code points below 256:
  the C0 and C1 controls and the soft hyphen.
\<close>

definition is_unicode_control :: "char \<Rightarrow> bool" where
  "is_unicode_control c \<longleftrightarrow> (let n = of_char c :: nat in n < 32 \<or> (127 \<le> n \<and> n \<le> 159) \<or> n = 173)"

fun require_target_characters :: "string \<Rightarrow> unit result" where
  "require_target_characters [] = Inr ()"
| "require_target_characters (c # cs) =
     (if py_isspace c then Inl (ValueError ''health probe target must not contain whitespace'')
      else if is_unicode_control c
        then Inl (ValueError ''health probe target must not contain control characters'')
      else require_target_characters cs)"

definition require_probe_target :: "health_probe_kind \<Rightarrow> string option \<Rightarrow> string option result" where
  "require_probe_target kind value =
     (if kind = GUEST_OPERATIONAL then
        checkE (value = None)
          (ValueError ''guest_operational health probes must not carry a target'') (Inr None)
      else (case value of
          None \<Rightarrow> Inl (ValueError ''health probe target must be a string'')
        | Some v \<Rightarrow>
            checkE (v \<noteq> []) (ValueError ''health probe target must not be empty'')
           (checkE (length v \<le> MAX_HEALTH_PROBE_TARGET_LENGTH)
              (ValueError ''health probe target exceeds 200 characters'')
           (bindE (require_target_characters v) (\<lambda>_. Inr (Some v))))))"

text \<open>The loop of \<open>canonical_health_probes\<close>, with the identities seen so far.\<close>

fun normalize_probes :: "(string \<times> string option) list \<Rightarrow> health_probe list \<Rightarrow> health_probe list result" where
  "normalize_probes seen [] = Inr []"
| "normalize_probes seen (p # ps) =
     bindE (require_probe_target (probe_kind p) (probe_target p)) (\<lambda>target.
     checkE ((probe_kind_value (probe_kind p), target) \<notin> set seen)
       (ValueError ''health contract contains a duplicate (kind, target) probe'')
     (bindE (normalize_probes ((probe_kind_value (probe_kind p), target) # seen) ps) (\<lambda>rest.
        Inr (\<lparr>probe_kind = probe_kind p, probe_target = target\<rparr> # rest))))"

definition probe_sort_key :: "health_probe \<Rightarrow> string \<times> string" where
  "probe_sort_key p =
     (probe_kind_value (probe_kind p), (case probe_target p of None \<Rightarrow> [] | Some t \<Rightarrow> t))"

definition canonical_health_probes :: "health_probe list \<Rightarrow> health_probe list result" where
  "canonical_health_probes probes =
     bindE (normalize_probes [] probes) (\<lambda>normalized.
     checkE (MIN_HEALTH_PROBES \<le> length normalized)
       (ValueError ''a health contract requires at least one probe; clear the contract instead of declaring an empty one'')
    (checkE (length normalized \<le> MAX_HEALTH_PROBES)
       (ValueError ''a health contract may declare at most 32 probes'')
    (checkE (\<not> (1 < length normalized \<and> list_ex (\<lambda>p. probe_kind p = GUEST_OPERATIONAL) normalized))
       (ValueError ''guest_operational may not be combined with any other probe; an explicit advanced contract replaces the baseline entirely'')
    (Inr (sort_key probe_sort_key normalized)))))"

definition DEFAULT_HEALTH_PROBES :: "health_probe list" where
  "DEFAULT_HEALTH_PROBES = [\<lparr>probe_kind = GUEST_OPERATIONAL, probe_target = None\<rparr>]"

section \<open>Fingerprint\<close>

definition contract_fingerprint_domain :: string where
  "contract_fingerprint_domain = ''hubinet-ops/resource-health-contract/v1''"

definition probe_json :: "health_probe \<Rightarrow> json" where
  "probe_json p =
     JObj [(''kind'', JStr (probe_kind_value (probe_kind p))),
           (''target'', case probe_target p of None \<Rightarrow> JNull | Some t \<Rightarrow> JStr t)]"

definition contract_payload :: "health_probe list \<Rightarrow> json" where
  "contract_payload canonical =
     JObj [(''domain'', JStr contract_fingerprint_domain),
           (''probes'', JList (map probe_json canonical))]"

definition health_contract_fingerprint :: "health_probe list \<Rightarrow> string result" where
  "health_contract_fingerprint probes =
     bindE (canonical_health_probes probes) (\<lambda>canonical.
       Inr (sha256_hex (json_dumps (contract_payload canonical))))"

section \<open>Observations\<close>

definition PASSED_REASONS :: "string list" where
  "PASSED_REASONS = [''unit_active'', ''guest_operational_confirmed'']"

definition FAILED_REASONS :: "string list" where
  "FAILED_REASONS = [''unit_not_active'']"

definition UNKNOWN_REASONS :: "string list" where
  "UNKNOWN_REASONS =
     [''probe_target_not_exact'', ''probe_target_ambiguous'', ''guest_unavailable'',
      ''command_failed'', ''command_timed_out'', ''malformed_output'', ''host_unreachable'',
      ''host_response_rejected'', ''resource_context_changed'', ''unit_activating'',
      ''unit_deactivating'', ''unit_reloading'', ''unit_job_pending'',
      ''settling_budget_exhausted'']"

definition HEALTH_PROBE_REASONS :: "string list" where
  "HEALTH_PROBE_REASONS =
     [''unit_active'', ''unit_not_active'', ''unit_activating'', ''unit_deactivating'',
      ''unit_reloading'', ''unit_job_pending'', ''guest_operational_confirmed'',
      ''probe_target_not_exact'', ''probe_target_ambiguous'', ''guest_unavailable'',
      ''command_failed'', ''command_timed_out'', ''malformed_output'', ''host_unreachable'',
      ''host_response_rejected'', ''resource_context_changed'', ''settling_budget_exhausted'']"

fun reasons_by_outcome :: "probe_outcome \<Rightarrow> string list" where
  "reasons_by_outcome PROBE_PASSED = PASSED_REASONS"
| "reasons_by_outcome PROBE_FAILED = FAILED_REASONS"
| "reasons_by_outcome PROBE_UNKNOWN = UNKNOWN_REASONS"

definition reason_kinds :: "(string \<times> health_probe_kind list) list" where
  "reason_kinds =
     [(''unit_active'', [SYSTEMD_UNIT_ACTIVE]), (''unit_not_active'', [SYSTEMD_UNIT_ACTIVE]),
      (''unit_activating'', [SYSTEMD_UNIT_ACTIVE]), (''unit_deactivating'', [SYSTEMD_UNIT_ACTIVE]),
      (''unit_reloading'', [SYSTEMD_UNIT_ACTIVE]), (''unit_job_pending'', [SYSTEMD_UNIT_ACTIVE]),
      (''guest_operational_confirmed'', [GUEST_OPERATIONAL]),
      (''probe_target_not_exact'', [SYSTEMD_UNIT_ACTIVE]),
      (''probe_target_ambiguous'', [SYSTEMD_UNIT_ACTIVE])]"

definition require_health_probe_semantics ::
    "health_probe_kind \<Rightarrow> probe_outcome \<Rightarrow> string \<Rightarrow> string result" where
  "require_health_probe_semantics kind outcome reason =
     checkE (reason \<in> set HEALTH_PROBE_REASONS)
       (ValueError ''health probe reason is not a known bounded token'')
    (checkE (reason \<in> set (reasons_by_outcome outcome))
       (ValueError ''reason that contradicts its own outcome'')
    (checkE (case map_of reason_kinds reason of None \<Rightarrow> True | Some allowed \<Rightarrow> kind \<in> set allowed)
       (ValueError ''reason impossible for that probe kind'')
    (Inr reason)))"

section \<open>Execution eligibility\<close>

definition SYSTEMD_UNIT_SUFFIXES :: "string list" where
  "SYSTEMD_UNIT_SUFFIXES =
     [''.service'', ''.socket'', ''.target'', ''.timer'', ''.mount'', ''.automount'', ''.path'',
      ''.slice'', ''.scope'', ''.device'', ''.swap'']"

definition is_ascii_alnum :: "char \<Rightarrow> bool" where
  "is_ascii_alnum c \<longleftrightarrow> (let n = of_char c :: nat in
     (48 \<le> n \<and> n \<le> 57) \<or> (65 \<le> n \<and> n \<le> 90) \<or> (97 \<le> n \<and> n \<le> 122))"

text \<open>\<open>re.fullmatch(r"[A-Za-z0-9][A-Za-z0-9:_.@-]{0,199}", value)\<close>.\<close>

definition systemd_unit_match :: "string \<Rightarrow> bool" where
  "systemd_unit_match v \<longleftrightarrow>
     (case v of [] \<Rightarrow> False
      | c # cs \<Rightarrow> is_ascii_alnum c \<and> length cs \<le> 199
                 \<and> list_all (\<lambda>x. is_ascii_alnum x \<or> x \<in> set '':_.@-'') cs)"

definition ends_with :: "string \<Rightarrow> string \<Rightarrow> bool" where
  "ends_with suffix v \<longleftrightarrow> drop (length v - length suffix) v = suffix"

fun require_health_contract_execution_eligible :: "health_probe list \<Rightarrow> unit result" where
  "require_health_contract_execution_eligible [] = Inr ()"
| "require_health_contract_execution_eligible (p # ps) =
     (case probe_kind p of
        SYSTEMD_UNIT_ACTIVE \<Rightarrow>
          (case probe_target p of
             None \<Rightarrow> Inl (TypeError ''expected string or bytes-like object'')
           | Some t \<Rightarrow>
               checkE (systemd_unit_match t \<and> \<not> (take 1 t = ''-'')
                       \<and> list_ex (\<lambda>s. ends_with s t) SYSTEMD_UNIT_SUFFIXES)
                 (ValueError ''systemd health probe target is not an exact explicit unit name'')
                 (require_health_contract_execution_eligible ps))
      | GUEST_OPERATIONAL \<Rightarrow>
          checkE (probe_target p = None)
            (ValueError ''guest_operational health probe must not carry a target'')
            (require_health_contract_execution_eligible ps))"

section \<open>What a canonical contract is\<close>

definition probe_ok :: "health_probe \<Rightarrow> bool" where
  "probe_ok p \<longleftrightarrow> require_probe_target (probe_kind p) (probe_target p) = Inr (probe_target p)"

definition valid_contract :: "health_probe list \<Rightarrow> bool" where
  "valid_contract ps \<longleftrightarrow>
     list_all probe_ok ps \<and> distinct ps \<and> 1 \<le> length ps \<and> length ps \<le> 32
     \<and> (1 < length ps \<longrightarrow> (\<forall>p \<in> set ps. probe_kind p \<noteq> GUEST_OPERATIONAL))"

lemma require_probe_target_id: "require_probe_target k v = Inr t \<Longrightarrow> t = v"
  by (auto simp: require_probe_target_def result_iffs split: if_splits option.splits)

lemma probe_kind_value_inj [simp]: "probe_kind_value a = probe_kind_value b \<longleftrightarrow> a = b"
  by (cases a; cases b) auto

lemma normalize_probes_Inr:
  "normalize_probes seen ps = Inr qs \<longleftrightarrow>
     qs = ps \<and> list_all probe_ok ps \<and> distinct ps
     \<and> (\<forall>p \<in> set ps. (probe_kind_value (probe_kind p), probe_target p) \<notin> set seen)"
proof (induction ps arbitrary: seen qs)
  case Nil
  then show ?case by auto
next
  case (Cons p ps)
  have ok: "require_probe_target (probe_kind p) (probe_target p) = Inr t \<longleftrightarrow> probe_ok p \<and> t = probe_target p" for t
    by (auto simp: probe_ok_def dest: require_probe_target_id)
  have "p \<notin> set ps \<longleftrightarrow> (\<forall>q \<in> set ps. probe_kind q = probe_kind p \<longrightarrow> probe_target q \<noteq> probe_target p)"
    by (metis (full_types) health_probe.equality old.unit.exhaust)
  then show ?case
    by (auto simp: result_iffs ok Cons.IH)
qed

lemma canonical_health_probes_Inr:
  "canonical_health_probes ps = Inr qs \<longleftrightarrow> valid_contract ps \<and> qs = sort_key probe_sort_key ps"
  by (auto simp: canonical_health_probes_def result_iffs normalize_probes_Inr valid_contract_def
      MIN_HEALTH_PROBES_def MAX_HEALTH_PROBES_def list_ex_iff not_less)

lemma probe_ok_target:
  "probe_ok p \<Longrightarrow> (probe_target p = None \<longleftrightarrow> probe_kind p = GUEST_OPERATIONAL) \<and> probe_target p \<noteq> Some []"
  by (auto simp: probe_ok_def require_probe_target_def checkE_def split: if_splits option.splits)

lemma probe_sort_key_inj: "list_all probe_ok ps \<Longrightarrow> inj_on probe_sort_key (set ps)"
proof (rule inj_onI)
  fix p q
  assume "list_all probe_ok ps" "p \<in> set ps" "q \<in> set ps" and key: "probe_sort_key p = probe_sort_key q"
  then have "probe_ok p" "probe_ok q" by (auto simp: list_all_iff)
  with key have "probe_kind p = probe_kind q" "probe_target p = probe_target q"
    by (auto simp: probe_sort_key_def dest: probe_ok_target split: option.splits)
  then show "p = q" by simp
qed

lemma valid_contract_mset: "mset ps = mset qs \<Longrightarrow> valid_contract ps \<longleftrightarrow> valid_contract qs"
  using mset_eq_length[of ps qs] mset_eq_imp_distinct_iff[of ps qs] mset_eq_setD[of ps qs]
  by (simp add: valid_contract_def list_all_iff)

lemma canonical_health_probes_mset:
  assumes "mset ps = mset qs" "canonical_health_probes ps = Inr cs"
  shows "canonical_health_probes qs = Inr cs"
proof -
  from assms(2) have v: "valid_contract ps" and cs: "cs = sort_key probe_sort_key ps"
    by (auto simp: canonical_health_probes_Inr)
  have "sort_key probe_sort_key ps = sort_key probe_sort_key qs"
    using v assms(1) by (intro sort_key_inj_key_eq) (auto simp: valid_contract_def probe_sort_key_inj)
  with v cs valid_contract_mset[OF assms(1)] show ?thesis by (simp add: canonical_health_probes_Inr)
qed

lemma valid_contract_sorted: "valid_contract (sort_key probe_sort_key ps) \<longleftrightarrow> valid_contract ps"
  by (rule valid_contract_mset) simp

lemma canonical_health_probes_idem:
  "canonical_health_probes ps = Inr cs \<Longrightarrow> canonical_health_probes cs = Inr cs"
  using canonical_health_probes_mset[of ps cs cs] by (simp add: canonical_health_probes_Inr)

lemma canonical_health_probes_shape:
  assumes "canonical_health_probes ps = Inr cs"
  shows "set cs = set ps \<and> distinct cs \<and> sorted (map probe_sort_key cs) \<and> 1 \<le> length cs
     \<and> length cs \<le> 32
     \<and> (cs = DEFAULT_HEALTH_PROBES \<or> (\<forall>p \<in> set cs. probe_kind p = SYSTEMD_UNIT_ACTIVE \<and> probe_target p \<noteq> None))"
proof -
  from assms have v: "valid_contract cs" and cs: "cs = sort_key probe_sort_key ps"
    by (auto simp: canonical_health_probes_Inr valid_contract_sorted)
  have "cs = DEFAULT_HEALTH_PROBES" if guest: "p \<in> set cs" "probe_kind p = GUEST_OPERATIONAL" for p
  proof -
    from v guest have "length cs = 1" and ok: "probe_ok p"
      by (force simp: valid_contract_def list_all_iff)+
    with guest have "cs = [p]" by (cases cs) auto
    with guest probe_ok_target[OF ok] show ?thesis by (simp add: DEFAULT_HEALTH_PROBES_def)
  qed
  then have "cs = DEFAULT_HEALTH_PROBES \<or> (\<forall>p \<in> set cs. probe_kind p = SYSTEMD_UNIT_ACTIVE)"
    by (metis health_probe_kind.exhaust)
  moreover have "\<forall>p \<in> set cs. probe_kind p = SYSTEMD_UNIT_ACTIVE \<longrightarrow> probe_target p \<noteq> None"
  proof (intro ballI impI)
    fix p assume "p \<in> set cs" "probe_kind p = SYSTEMD_UNIT_ACTIVE"
    with v probe_ok_target[of p] show "probe_target p \<noteq> None"
      by (simp add: valid_contract_def list_all_iff)
  qed
  ultimately show ?thesis using v cs by (auto simp: valid_contract_def)
qed

lemma health_contract_fingerprint_hex:
  "health_contract_fingerprint ps = Inr fp \<Longrightarrow> is_hex_digest 64 fp"
  by (auto simp: health_contract_fingerprint_def result_iffs sha256_hex_digest)

lemma health_contract_fingerprint_mset:
  assumes "mset ps = mset qs" "health_contract_fingerprint ps = Inr fp"
  shows "health_contract_fingerprint qs = Inr fp"
proof -
  from assms(2) obtain cs where "canonical_health_probes ps = Inr cs"
    unfolding health_contract_fingerprint_def result_iffs by blast
  with canonical_health_probes_mset[OF assms(1) this] assms(2) show ?thesis
    by (simp add: health_contract_fingerprint_def)
qed

lemma default_health_probes_canonical:
  "canonical_health_probes DEFAULT_HEALTH_PROBES = Inr DEFAULT_HEALTH_PROBES"
  by (simp add: canonical_health_probes_Inr valid_contract_def probe_ok_def require_probe_target_def
      DEFAULT_HEALTH_PROBES_def)

lemma default_health_probes_eligible:
  "require_health_contract_execution_eligible DEFAULT_HEALTH_PROBES = Inr ()"
  by (simp add: DEFAULT_HEALTH_PROBES_def)

section \<open>Observation vocabulary\<close>

lemma reasons_partition:
  "set HEALTH_PROBE_REASONS = set PASSED_REASONS \<union> set FAILED_REASONS \<union> set UNKNOWN_REASONS"
  "distinct (PASSED_REASONS @ FAILED_REASONS @ UNKNOWN_REASONS)"
  by code_simp+

lemma reasons_by_outcome_functional:
  assumes "r \<in> set (reasons_by_outcome a)" "r \<in> set (reasons_by_outcome b)"
  shows "a = b"
  using assms reasons_partition(2) by (cases a; cases b) auto

lemma require_health_probe_semantics_Inr:
  "require_health_probe_semantics k out r = Inr r' \<longleftrightarrow>
     r' = r \<and> r \<in> set (reasons_by_outcome out)
     \<and> (case map_of reason_kinds r of None \<Rightarrow> True | Some ks \<Rightarrow> k \<in> set ks)"
proof -
  have "r \<in> set (reasons_by_outcome out) \<Longrightarrow> r \<in> set HEALTH_PROBE_REASONS"
    using reasons_partition(1) by (cases out) auto
  then show ?thesis by (auto simp: require_health_probe_semantics_def result_iffs)
qed

end
