(* ===== verification/Authority_Store.thy ===== *)
theory Authority_Store
  imports Health_Contract Operation_Identity
begin

text \<open>
  The durable authority store, \<open>app/inventory/store.py\<close>: the tables the package update authority
  reads and writes as lists of rows, and the schema's own enforcement. Every write primitive
  applies the CHECK constraints, unique indexes, foreign keys and triggers of the tables it
  touches and raises \<open>IntegrityError\<close> where SQLite would. A transaction works on the whole
  database value, so a raised exception restores it (\<open>transaction\<close> of the prelude).

  The conditional immutability triggers of \<open>package_update_jobs\<close> compare the old and the new
  row. The unconditional ones (\<open>BEFORE UPDATE OF column\<close>) reject a changed value; the authority's
  UPDATE statements never name those columns.
\<close>

section \<open>Tables\<close>

record backend_instance =
  be_id :: uuid
  be_inventory_revision :: nat
  be_published_state_revision :: nat
  be_published_at :: time

text \<open>How a discovery run ended, as the runs and the source health record it.\<close>

datatype run_outcome = RUN_SUCCESS | RUN_PARTIAL | RUN_CONFIGURATION_ERROR | RUN_SOURCE_UNAVAILABLE | RUN_INVALID

record inventory_source =
  src_id :: uuid
  src_config_revision :: int
  src_last_committed_run_sequence :: "int option"
  src_active_discovery_run_id :: "uuid option"
  src_provider_contract_version :: int
  src_freshness_duration_seconds :: int
  src_provider_kind :: string
  src_display_name :: string
  src_credential_reference :: string
  src_created_at :: time
  src_last_issued_run_sequence :: int
  src_facts :: json

datatype endpoint_lifecycle = EP_ACTIVE | EP_CANDIDATE | EP_INACTIVE | EP_RETIRED

record source_endpoint =
  ep_id :: uuid
  ep_source_id :: uuid
  ep_canonical_transport_locator :: string
  ep_canonicalization_contract_version :: int
  ep_lifecycle :: endpoint_lifecycle
  ep_transport_trust_revision :: int
  ep_created_at :: time

record source_runtime_health =
  sh_source_id :: uuid
  sh_health :: source_health
  sh_freshness :: source_freshness
  sh_origin :: health_origin
  sh_reason :: string
  sh_freshness_reference_at :: "time option"
  sh_freshness_valid_until :: "time option"
  sh_committed_source_config_revision :: "int option"
  sh_committed_endpoint_id :: "uuid option"
  sh_committed_canonical_transport_locator :: "string option"
  sh_committed_canonicalization_contract_version :: "int option"
  sh_committed_transport_trust_revision :: "int option"
  sh_latest_completed_run_sequence :: "int option"
  sh_latest_completed_outcome :: "run_outcome option"
  sh_last_health_run_sequence :: "int option"
  sh_last_run_health_outcome :: "run_outcome option"
  sh_last_successful_observed_at :: "string option"

record inventory_node =
  node_id :: uuid
  node_source_id :: uuid
  node_external_name :: string
  node_available :: bool
  node_status :: string
  node_facts :: json
  node_created_at :: time
  node_updated_at :: time

record resource_incarnation =
  res_id :: uuid
  res_source_id :: uuid
  res_type :: string
  res_vmid :: int
  res_continuity_revision :: int
  res_status :: string
  res_current_node_id :: "uuid option"
  res_presence :: string
  res_lifecycle :: string
  res_name :: string
  res_last_known_node_id :: "uuid option"
  res_observational_continuity :: string
  res_detail_status :: string
  res_node_availability :: string
  res_facts :: json
  res_termination_reason :: "string option"
  res_successor_id :: "uuid option"
  res_created_at :: time
  res_updated_at :: time

record locator_binding =
  bind_id :: uuid
  bind_source_id :: uuid
  bind_vmid :: int
  bind_generation :: int
  bind_resource_id :: uuid
  bind_valid_to :: "int option"
  bind_valid_from :: int
  bind_closure_reason :: "string option"

record contract_row =
  cr_resource_id :: uuid
  cr_revision :: int
  cr_fingerprint :: string
  cr_probe_count :: nat
  cr_created_at :: time
  cr_updated_at :: time

record contract_probe_row =
  cp_resource_id :: uuid
  cp_index :: nat
  cp_probe :: health_probe

record revision_state_row =
  rs_resource_id :: uuid
  rs_last_revision :: int
  rs_updated_at :: time

record job_probe_row =
  jpr_job_id :: uuid
  jpr_probe :: job_health_probe

record job_result_row =
  jrr_job_id :: uuid
  jrr_result :: probe_result

record job_event =
  ev_job_id :: uuid
  ev_sequence :: nat
  ev_created_at :: time
  ev_level :: event_level
  ev_stage :: checkpoint
  ev_type :: event_type
  ev_message :: string
  ev_details :: json

record post_scan_request =
  ps_job_id :: uuid
  ps_resource_id :: uuid
  ps_requested_at :: time
  ps_scan_run_id :: "uuid option"

text \<open>
  \<open>discovery_runs\<close>. The evidence columns of a run are known together or not at all (a CHECK ties them
  to the lifecycle), so they are one optional record; so are the columns of the completion context.
  A text that should denote an instant comes with the instant \<open>datetime.fromisoformat\<close> reads from it,
  \<open>None\<close> when it reads none or one without a time zone.
\<close>

datatype discovery_lifecycle = RUN_ISSUED | RUN_RUNNING | RUN_COMPLETED | RUN_ABANDONED

datatype baseline_completeness =
  BASE_COMPLETE | BASE_PARTIAL | BASE_CONFIGURATION_ERROR | BASE_SOURCE_UNAVAILABLE | BASE_INVALID

datatype source_availability = SOURCE_AVAILABLE | SOURCE_NOT_AVAILABLE

datatype baseline_mode = CLUSTER_MODE | STANDALONE_MODE

record stamp =
  stamp_text :: string
  stamp_instant :: "time option"

record completion_evidence =
  ce_completeness :: baseline_completeness
  ce_observed_at :: "stamp option"
  ce_availability :: "source_availability option"
  ce_mode :: "baseline_mode option"
  ce_permission_coverage_complete :: "bool option"
  ce_boundary_consistent :: "bool option"
  ce_covered_nodes :: "string list option"
  ce_failed_baseline_scopes :: "string list option"
  ce_topology_hashes :: "string option \<times> string option"
  ce_permission_hashes :: "string option \<times> string option"
  ce_snapshot_hash :: "string option"
  ce_detail_counts :: "int option \<times> int option \<times> int option"
  ce_failed_detail_scopes :: "string list option"

record run_context =
  rx_source_config_revision :: int
  rx_endpoint_id :: uuid
  rx_canonical_transport_locator :: string
  rx_canonicalization_contract_version :: int
  rx_transport_trust_revision :: int

record run_issuance =
  run_id :: uuid
  run_source_id :: uuid
  run_sequence :: int
  run_issued_at :: time
  run_expected :: run_context
  run_provider_contract_version :: int

record discovery_run =
  run_iss :: run_issuance
  run_lifecycle :: discovery_lifecycle
  run_terminalized_at :: "time option"
  run_terminal_reason :: "string option"
  run_completed_at :: "time option"
  run_provider_outcome :: "run_outcome option"
  run_evidence :: "completion_evidence option"
  run_completion_context :: "run_context option"

record resource_termination =
  term_resource_id :: uuid
  term_source_id :: uuid
  term_binding_id :: uuid
  term_generation :: int
  term_successor_id :: uuid
  term_run_sequence :: int
  term_created_at :: time

record migration =
  mig_id :: uuid
  mig_source_id :: uuid
  mig_endpoint_id :: uuid
  mig_old_version :: int
  mig_old_locator :: string
  mig_new_version :: int
  mig_new_locator :: string
  mig_at :: time

record authority_db =
  backend :: backend_instance
  sources :: "inventory_source list"
  endpoints :: "source_endpoint list"
  source_healths :: "source_runtime_health list"
  nodes :: "inventory_node list"
  resources :: "resource_incarnation list"
  bindings :: "locator_binding list"
  scan_runs :: "scan_run list"
  scan_packages :: "package_row list"
  approvals :: "approval list"
  revision_states :: "revision_state_row list"
  contracts :: "contract_row list"
  contract_probes :: "contract_probe_row list"
  jobs :: "job list"
  job_packages :: "package_row list"
  job_probes :: "job_probe_row list"
  job_results :: "job_result_row list"
  job_events :: "job_event list"
  post_scan_requests :: "post_scan_request list"
  discovery_runs :: "discovery_run list"
  terminations :: "resource_termination list"
  migrations :: "migration list"

section \<open>CHECK constraints of a job row\<close>

datatype glob = GLit char | GAny1 | GStar

fun glob_match :: "glob list \<Rightarrow> string \<Rightarrow> bool" where
  "glob_match [] s \<longleftrightarrow> s = []"
| "glob_match (GLit x # ps) s \<longleftrightarrow> (case s of [] \<Rightarrow> False | c # cs \<Rightarrow> c = x \<and> glob_match ps cs)"
| "glob_match (GAny1 # ps) s \<longleftrightarrow> (case s of [] \<Rightarrow> False | c # cs \<Rightarrow> glob_match ps cs)"
| "glob_match (GStar # ps) s \<longleftrightarrow>
     glob_match ps s \<or> (case s of [] \<Rightarrow> False | c # cs \<Rightarrow> glob_match (GStar # ps) cs)"

definition glob_pattern :: "string \<Rightarrow> glob list" where
  "glob_pattern = map (\<lambda>c. if c = CHR ''?'' then GAny1 else if c = CHR ''*'' then GStar else GLit c)"

definition upid_column_check :: "string \<Rightarrow> bool" where
  "upid_column_check u \<longleftrightarrow>
     20 \<le> length u \<and> length u \<le> 300 \<and> glob_match (glob_pattern ''UPID:?*:?*:?*:?*:?*:*:?*:'') u"

text \<open>\<open>length(trim(v)) > 0\<close>: SQLite trims spaces.\<close>

definition sql_nonblank :: "string \<Rightarrow> bool" where
  "sql_nonblank v \<longleftrightarrow> (\<exists>c \<in> set v. c \<noteq> CHR '' '')"

definition null_or :: "('a \<Rightarrow> bool) \<Rightarrow> 'a option \<Rightarrow> bool" where
  "null_or p v \<longleftrightarrow> (case v of None \<Rightarrow> True | Some x \<Rightarrow> p x)"

lemma null_or_simps [simp]: "null_or p None" "null_or p (Some x) = p x"
  by (simp_all add: null_or_def)

definition job_issuance_checks :: "job_issuance \<Rightarrow> bool" where
  "job_issuance_checks i \<longleftrightarrow>
     0 < issuance_sequence i \<and> length (approved_plan_fingerprint i) = 64
     \<and> 0 < cx_committed_source_config_revision (job_ctx i)
     \<and> 0 < cx_committed_canonicalization_contract_version (job_ctx i)
     \<and> 0 < cx_committed_transport_trust_revision (job_ctx i)
     \<and> 0 < cx_provider_contract_version (job_ctx i)
     \<and> expected_resource_type i = ''lxc''
     \<and> 0 < cx_expected_locator_generation (job_ctx i)
     \<and> 0 < cx_expected_resource_continuity_revision (job_ctx i)
     \<and> 0 < cx_expected_vmid (job_ctx i)
     \<and> sql_nonblank (cx_expected_node_name (job_ctx i))
     \<and> 0 < package_count i
     \<and> 0 < health_contract_revision i
     \<and> is_hex_digest 64 (frozen_contract_fingerprint i)
     \<and> MIN_HEALTH_PROBES \<le> health_contract_probe_count i
     \<and> health_contract_probe_count i \<le> MAX_HEALTH_PROBES"

definition snapshot_name_check :: "string \<Rightarrow> bool" where
  "snapshot_name_check v \<longleftrightarrow>
     2 \<le> length v \<and> length v \<le> 40 \<and> (case v of [] \<Rightarrow> False | c # _ \<Rightarrow> is_ascii_letter c)
     \<and> list_all is_name_char v \<and> map ascii_lower v \<notin> {''current'', ''vzdump''}"

lemma snapshot_identity_name_ok: "snapshot_name_check (snd (snapshot_identity_of k))"
proof -
  let ?h = "take 24 (sha256_hex (snapshot_name_text k))"
  let ?v = "SNAPSHOT_NAME_PREFIX @ ?h"
  have "validate_pve_snapshot_name ?v = Inr ?v"
    using validate_hubinet_name[OF is_hex_digest_take[OF sha256_hex_digest, of 24 "snapshot_name_text k"]]
    by simp
  then show ?thesis
    unfolding snapshot_identity_of_def snd_conv
    by (cases ?v) (auto simp: snapshot_name_check_def validate_pve_snapshot_name_def result_iffs
        pve_configid_match_def PVE_SNAPSHOT_NAME_MAX_LENGTH_def PVE_RESERVED_SNAPSHOT_NAMES_def list_all_iff
        is_name_char_def simp del: map_append split: list.splits)
qed

definition job_column_checks :: "job \<Rightarrow> bool" where
  "job_column_checks j \<longleftrightarrow>
     null_or (\<lambda>v. length v = 36) (snapshot_operation_id j)
     \<and> null_or snapshot_name_check (snapshot_name j)
     \<and> null_or upid_column_check (snapshot_task_upid j)
     \<and> null_or (\<lambda>v. length v = 36) (mutation_operation_id j)
     \<and> null_or (is_hex_digest 64) (accepted_prepared_evidence_digest j)
     \<and> job_health_outcome j \<in> {None, Some HEALTH_PASSED, Some HEALTH_FAILED}
     \<and> null_or (\<lambda>v. length v = 36) (rollback_operation_id j)
     \<and> null_or upid_column_check (rollback_task_upid j)
     \<and> null_or (\<lambda>v. sql_nonblank v \<and> length v \<le> 500) (terminal_reason j)"

definition job_terminal_checks :: "job \<Rightarrow> bool" where
  "job_terminal_checks j \<longleftrightarrow>
     (if status j = ACTIVE then terminalized_at j = None \<and> terminal_reason j = None
      else terminalized_at j \<noteq> None \<and> terminal_reason j \<noteq> None)"

definition job_snapshot_checks :: "job \<Rightarrow> bool" where
  "job_snapshot_checks j \<longleftrightarrow>
     (snapshot_operation_id j = None) = (snapshot_intent_recorded_at j = None)
     \<and> (snapshot_operation_id j \<noteq> None \<longrightarrow> snapshot_name j \<noteq> None)
     \<and> (snapshot_task_upid j \<noteq> None \<longrightarrow> snapshot_operation_id j \<noteq> None)
     \<and> (snapshot_confirmed_at j \<noteq> None \<longrightarrow>
          snapshot_name j \<noteq> None \<and> snapshot_operation_id j \<noteq> None)
     \<and> (checkpoint_rank (job_checkpoint j) < 3 \<or> snapshot_operation_id j \<noteq> None)
     \<and> (3 \<le> checkpoint_rank (job_checkpoint j) \<or> snapshot_operation_id j = None)
     \<and> (checkpoint_rank (job_checkpoint j) < 4 \<or> snapshot_confirmed_at j \<noteq> None)
     \<and> (4 \<le> checkpoint_rank (job_checkpoint j) \<or> snapshot_confirmed_at j = None)"

definition job_mutation_checks :: "job \<Rightarrow> bool" where
  "job_mutation_checks j \<longleftrightarrow>
     (checkpoint_rank (job_checkpoint j) < 5 \<or>
        mutation_operation_id j \<noteq> None \<and> mutation_may_have_started_at j \<noteq> None
        \<and> accepted_prepared_evidence_digest j \<noteq> None)
     \<and> (5 \<le> checkpoint_rank (job_checkpoint j) \<or>
        mutation_operation_id j = None \<and> mutation_may_have_started_at j = None
        \<and> accepted_prepared_evidence_digest j = None)
     \<and> (job_checkpoint j = MUTATION_COMPLETED \<longrightarrow> mutation_completed_at j \<noteq> None)
     \<and> (mutation_completed_at j \<noteq> None \<longrightarrow> 6 \<le> checkpoint_rank (job_checkpoint j))
     \<and> (mutation_completed_at j \<noteq> None \<longrightarrow>
          mutation_may_have_started_at j \<noteq> None \<and> mutation_operation_id j \<noteq> None
          \<and> accepted_prepared_evidence_digest j \<noteq> None)"

definition job_health_checks :: "job \<Rightarrow> bool" where
  "job_health_checks j \<longleftrightarrow>
     (job_checkpoint j = HEALTH_STARTED \<longrightarrow>
        mutation_completed_at j \<noteq> None \<and> health_started_at j \<noteq> None)
     \<and> (health_started_at j \<noteq> None \<longrightarrow>
          mutation_completed_at j \<noteq> None \<and> 7 \<le> checkpoint_rank (job_checkpoint j))
     \<and> (job_checkpoint j = HEALTH_COMPLETED \<longrightarrow>
          health_completed_at j \<noteq> None \<and> job_health_outcome j \<noteq> None \<and> health_started_at j \<noteq> None)
     \<and> (health_completed_at j = None) = (job_health_outcome j = None)
     \<and> (health_completed_at j \<noteq> None \<longrightarrow>
          health_started_at j \<noteq> None \<and> 8 \<le> checkpoint_rank (job_checkpoint j))"

definition job_rollback_checks :: "job \<Rightarrow> bool" where
  "job_rollback_checks j \<longleftrightarrow>
     (checkpoint_rank (job_checkpoint j) < 9 \<or>
        rollback_operation_id j \<noteq> None \<and> rollback_may_have_started_at j \<noteq> None)
     \<and> (9 \<le> checkpoint_rank (job_checkpoint j) \<or>
        rollback_operation_id j = None \<and> rollback_may_have_started_at j = None
        \<and> rollback_task_upid j = None \<and> rollback_completed_at j = None)
     \<and> (rollback_operation_id j = None) = (rollback_may_have_started_at j = None)
     \<and> (rollback_task_upid j \<noteq> None \<longrightarrow> rollback_operation_id j \<noteq> None)
     \<and> (checkpoint_rank (job_checkpoint j) < 10 \<or> rollback_completed_at j \<noteq> None)
     \<and> (10 \<le> checkpoint_rank (job_checkpoint j) \<or> rollback_completed_at j = None)
     \<and> (rollback_completed_at j \<noteq> None \<longrightarrow>
          rollback_operation_id j \<noteq> None \<and> rollback_may_have_started_at j \<noteq> None)
     \<and> (rollback_completed_at j \<noteq> None \<longrightarrow> rollback_task_upid j \<noteq> None)
     \<and> (rollback_operation_id j \<noteq> None \<longrightarrow> snapshot_confirmed_at j \<noteq> None)
     \<and> (rollback_operation_id j \<noteq> None \<longrightarrow> mutation_may_have_started_at j \<noteq> None)"

definition job_outcome_checks :: "job \<Rightarrow> bool" where
  "job_outcome_checks j \<longleftrightarrow>
     (status j = ROLLED_BACK \<longrightarrow> rollback_completed_at j \<noteq> None)
     \<and> (status j = SUCCEEDED \<longrightarrow>
          mutation_completed_at j \<noteq> None \<and> health_started_at j \<noteq> None
          \<and> health_completed_at j \<noteq> None \<and> job_health_outcome j = Some HEALTH_PASSED
          \<and> job_checkpoint j = HEALTH_COMPLETED)
     \<and> (job_health_outcome j = Some HEALTH_PASSED \<longrightarrow> status j = SUCCEEDED)
     \<and> (job_checkpoint j = ROLLBACK_COMPLETED \<longrightarrow> status j = ROLLED_BACK)"

definition job_checks :: "job \<Rightarrow> bool" where
  "job_checks j \<longleftrightarrow>
     job_issuance_checks (iss j) \<and> job_column_checks j \<and> job_terminal_checks j
     \<and> job_snapshot_checks j \<and> job_mutation_checks j \<and> job_health_checks j
     \<and> job_rollback_checks j \<and> job_outcome_checks j"

lemmas job_checks_defs = job_checks_def job_column_checks_def job_terminal_checks_def
  job_snapshot_checks_def job_mutation_checks_def job_health_checks_def job_rollback_checks_def
  job_outcome_checks_def

section \<open>Triggers and indexes of \<open>package_update_jobs\<close>\<close>

definition job_write_once :: "job \<Rightarrow> job \<Rightarrow> bool" where
  "job_write_once old new \<longleftrightarrow>
     (snapshot_operation_id old \<noteq> None \<or> snapshot_name old \<noteq> None \<longrightarrow>
        snapshot_operation_id new = snapshot_operation_id old
        \<and> snapshot_name new = snapshot_name old
        \<and> snapshot_intent_recorded_at new = snapshot_intent_recorded_at old)
     \<and> (snapshot_task_upid old \<noteq> None \<longrightarrow> snapshot_task_upid new = snapshot_task_upid old)
     \<and> (snapshot_confirmed_at old \<noteq> None \<longrightarrow> snapshot_confirmed_at new = snapshot_confirmed_at old)
     \<and> (mutation_operation_id old \<noteq> None \<or> mutation_may_have_started_at old \<noteq> None
          \<or> accepted_prepared_evidence_digest old \<noteq> None \<longrightarrow>
        mutation_operation_id new = mutation_operation_id old
        \<and> mutation_may_have_started_at new = mutation_may_have_started_at old
        \<and> accepted_prepared_evidence_digest new = accepted_prepared_evidence_digest old)
     \<and> (mutation_completed_at old \<noteq> None \<longrightarrow> mutation_completed_at new = mutation_completed_at old)
     \<and> (rollback_operation_id old \<noteq> None \<or> rollback_may_have_started_at old \<noteq> None \<longrightarrow>
        rollback_operation_id new = rollback_operation_id old
        \<and> rollback_may_have_started_at new = rollback_may_have_started_at old)
     \<and> (rollback_task_upid old \<noteq> None \<longrightarrow> rollback_task_upid new = rollback_task_upid old)
     \<and> (rollback_completed_at old \<noteq> None \<longrightarrow> rollback_completed_at new = rollback_completed_at old)
     \<and> (health_started_at old \<noteq> None \<longrightarrow> health_started_at new = health_started_at old)
     \<and> (health_completed_at old \<noteq> None \<longrightarrow>
        health_completed_at new = health_completed_at old
        \<and> job_health_outcome new = job_health_outcome old)"

definition results_of :: "uuid \<Rightarrow> authority_db \<Rightarrow> probe_result list" where
  "results_of i db = map jrr_result (filter (\<lambda>r. jrr_job_id r = i) (job_results db))"

text \<open>The two verdict triggers on UPDATE OF \<open>health_outcome\<close>.\<close>

definition health_verdict_backed :: "probe_result list \<Rightarrow> job \<Rightarrow> bool" where
  "health_verdict_backed rs new \<longleftrightarrow>
     (job_health_outcome new = Some HEALTH_PASSED \<longrightarrow>
        length (filter (\<lambda>r. pr_outcome r = PROBE_PASSED) rs) = health_contract_probe_count (iss new)
        \<and> (\<forall>r \<in> set rs. pr_outcome r = PROBE_PASSED))
     \<and> (job_health_outcome new = Some HEALTH_FAILED \<longrightarrow>
        length rs = health_contract_probe_count (iss new)
        \<and> (\<exists>r \<in> set rs. pr_outcome r = PROBE_FAILED))"

definition job_update_triggers :: "authority_db \<Rightarrow> job \<Rightarrow> job \<Rightarrow> bool" where
  "job_update_triggers db old new \<longleftrightarrow>
     iss new = iss old
     \<and> status old = ACTIVE
     \<and> job_write_once old new
     \<and> checkpoint_rank (job_checkpoint old) \<le> checkpoint_rank (job_checkpoint new)
     \<and> (job_health_outcome new \<noteq> job_health_outcome old \<longrightarrow>
          health_verdict_backed (results_of (jid new) db) new)"

text \<open>At most one row per non-NULL key.\<close>

definition unique_non_null :: "('r \<Rightarrow> 'k option) \<Rightarrow> 'r list \<Rightarrow> bool" where
  "unique_non_null key rows \<longleftrightarrow> distinct (filter (\<lambda>k. k \<noteq> None) (map key rows))"

definition active_jobs :: "job list \<Rightarrow> job list" where
  "active_jobs js = filter (\<lambda>j. status j = ACTIVE) js"

definition job_indexes :: "job list \<Rightarrow> bool" where
  "job_indexes js \<longleftrightarrow>
     distinct (map jid js) \<and> distinct (map (\<lambda>j. request_id (iss j)) js)
     \<and> distinct (map (\<lambda>j. (job_resource_id j, issuance_sequence (iss j))) js)
     \<and> length (active_jobs js) \<le> 1
     \<and> unique_non_null snapshot_operation_id js
     \<and> unique_non_null mutation_operation_id js
     \<and> unique_non_null rollback_operation_id js
     \<and> unique_non_null (\<lambda>j. if status j = SUCCEEDED then Some (job_approval_id (iss j)) else None) js"

section \<open>Write primitives\<close>

definition update_jobs :: "(job \<Rightarrow> bool) \<Rightarrow> (job \<Rightarrow> job) \<Rightarrow> authority_db \<Rightarrow> (nat \<times> authority_db) result" where
  "update_jobs w s db =
     checkE (list_all (\<lambda>j. w j \<longrightarrow> job_update_triggers db j (s j) \<and> job_checks (s j)) (jobs db)
             \<and> job_indexes (rows_update w s (jobs db)))
       (IntegrityError ''package_update_jobs'')
       (Inr (rows_matched w (jobs db), db\<lparr>jobs := rows_update w s (jobs db)\<rparr>))"

text \<open>\<open>updated.rowcount != 1\<close> raises: exactly one row must have matched.\<close>

definition update_one_job ::
    "(job \<Rightarrow> bool) \<Rightarrow> (job \<Rightarrow> job) \<Rightarrow> exn \<Rightarrow> authority_db \<Rightarrow> authority_db result" where
  "update_one_job w s lost db =
     bindE (update_jobs w s db) (\<lambda>(n, db'). checkE (n = 1) lost (Inr db'))"

definition job_foreign_keys :: "authority_db \<Rightarrow> job_issuance \<Rightarrow> bool" where
  "job_foreign_keys db i \<longleftrightarrow>
     cx_resource_id (job_ctx i) \<in> res_id ` set (resources db)
     \<and> approval_reviewed_scan_run_id i \<in> scan_run_id ` set (scan_runs db)
     \<and> current_plan_scan_run_id i \<in> scan_run_id ` set (scan_runs db)
     \<and> cx_expected_binding_id (job_ctx i) \<in> bind_id ` set (bindings db)
     \<and> (cx_inventory_source_id (job_ctx i), cx_expected_node_id (job_ctx i))
          \<in> (\<lambda>n. (node_source_id n, node_id n)) ` set (nodes db)"

text \<open>
  The insert triggers: a verdict needs its evidence (an issued row carries none), and a
  \<open>guest_operational\<close> frozen probe stands alone.
\<close>

definition job_insert_triggers :: "authority_db \<Rightarrow> job \<Rightarrow> bool" where
  "job_insert_triggers db j \<longleftrightarrow>
     job_health_outcome j = None
     \<and> (list_ex (\<lambda>r. jpr_job_id r = jid j \<and> jp_kind (jpr_probe r) = GUEST_OPERATIONAL) (job_probes db)
        \<longrightarrow> health_contract_probe_count (iss j) = 1)"

definition insert_job :: "job \<Rightarrow> authority_db \<Rightarrow> authority_db result" where
  "insert_job j db =
     checkE (job_checks j \<and> job_insert_triggers db j \<and> job_foreign_keys db (iss j)
             \<and> job_indexes (jobs db @ [j]))
       (IntegrityError ''package_update_jobs'')
       (Inr (db\<lparr>jobs := jobs db @ [j]\<rparr>))"

text \<open>\<open>connection.executemany\<close>: row by row, stopping at the first error.\<close>

fun executemany :: "('r \<Rightarrow> authority_db \<Rightarrow> authority_db result) \<Rightarrow> 'r list \<Rightarrow> authority_db \<Rightarrow> authority_db result" where
  "executemany ins [] db = Inr db"
| "executemany ins (r # rs) db = bindE (ins r db) (executemany ins rs)"

text \<open>One row of \<open>package_update_job_packages\<close>, inserted before its job row exists.\<close>

definition package_columns_check :: "package \<Rightarrow> bool" where
  "package_columns_check p \<longleftrightarrow>
     sql_nonblank (pkg_name p) \<and> length (pkg_name p) \<le> 300
     \<and> (case pkg_architecture p of [] \<Rightarrow> False
        | c # _ \<Rightarrow> (let n = of_char c :: nat in 97 \<le> n \<and> n \<le> 122))
     \<and> (\<forall>c \<in> set (pkg_architecture p). let n = of_char c :: nat in
          (97 \<le> n \<and> n \<le> 122) \<or> (48 \<le> n \<and> n \<le> 57) \<or> c = CHR ''-'')
     \<and> 2 \<le> length (pkg_architecture p) \<and> length (pkg_architecture p) \<le> 32
     \<and> sql_nonblank (pkg_installed_version p) \<and> length (pkg_installed_version p) \<le> 500
     \<and> sql_nonblank (pkg_candidate_version p) \<and> length (pkg_candidate_version p) \<le> 500
     \<and> null_or (\<lambda>v. length v \<le> 500) (pkg_origin p)
     \<and> null_or (\<lambda>v. length v \<le> 500) (pkg_description p)
     \<and> pkg_security p \<in> {None, Some True}"

definition insert_job_package :: "package_row \<Rightarrow> authority_db \<Rightarrow> authority_db result" where
  "insert_job_package r db =
     checkE (prow_owner r \<notin> jid ` set (jobs db)
             \<and> package_columns_check (prow_package r)
             \<and> (prow_owner r, prow_index r) \<notin> (\<lambda>x. (prow_owner x, prow_index x)) ` set (job_packages db)
             \<and> (prow_owner r, pkg_name (prow_package r), pkg_architecture (prow_package r))
                 \<notin> (\<lambda>x. (prow_owner x, pkg_name (prow_package x), pkg_architecture (prow_package x)))
                      ` set (job_packages db))
       (IntegrityError ''package_update_job_packages'')
       (Inr (db\<lparr>job_packages := job_packages db @ [r]\<rparr>))"

definition probe_target_check :: "health_probe_kind \<Rightarrow> string option \<Rightarrow> bool" where
  "probe_target_check kind target \<longleftrightarrow>
     (kind = GUEST_OPERATIONAL \<and> target = None)
     \<or> (kind \<noteq> GUEST_OPERATIONAL \<and> (case target of None \<Rightarrow> False | Some t \<Rightarrow>
          1 \<le> length t \<and> length t \<le> MAX_HEALTH_PROBE_TARGET_LENGTH
          \<and> (\<forall>c \<in> set t. (of_char c :: nat) \<notin> {0, 9, 10, 11, 12, 13, 32})))"

definition insert_job_probe :: "job_probe_row \<Rightarrow> authority_db \<Rightarrow> authority_db result" where
  "insert_job_probe r db =
     checkE (jpr_job_id r \<notin> jid ` set (jobs db)
             \<and> jp_index (jpr_probe r) = length (filter (\<lambda>x. jpr_job_id x = jpr_job_id r) (job_probes db))
             \<and> jp_index (jpr_probe r) < MAX_HEALTH_PROBES
             \<and> probe_target_check (jp_kind (jpr_probe r)) (jp_target (jpr_probe r))
             \<and> (jpr_job_id r, jp_index (jpr_probe r)) \<notin> (\<lambda>x. (jpr_job_id x, jp_index (jpr_probe x))) ` set (job_probes db)
             \<and> (jpr_job_id r, jp_kind (jpr_probe r), jp_target (jpr_probe r))
                 \<notin> (\<lambda>x. (jpr_job_id x, jp_kind (jpr_probe x), jp_target (jpr_probe x))) ` set (job_probes db))
       (IntegrityError ''package_update_job_health_probes'')
       (Inr (db\<lparr>job_probes := job_probes db @ [r]\<rparr>))"

definition reason_column_check :: "string \<Rightarrow> bool" where
  "reason_column_check v \<longleftrightarrow>
     sql_nonblank v \<and> length v \<le> 100
     \<and> (\<forall>c \<in> set v. let n = of_char c :: nat in (97 \<le> n \<and> n \<le> 122) \<or> (48 \<le> n \<and> n \<le> 57) \<or> c = CHR ''_'')"

definition insert_job_result :: "job_result_row \<Rightarrow> authority_db \<Rightarrow> authority_db result" where
  "insert_job_result r db =
     checkE (list_ex (\<lambda>j. jid j = jrr_job_id r \<and> health_started_at j \<noteq> None \<and> health_completed_at j = None) (jobs db)
             \<and> reason_column_check (pr_reason (jrr_result r))
             \<and> (jrr_job_id r, pr_index (jrr_result r)) \<in> (\<lambda>x. (jpr_job_id x, jp_index (jpr_probe x))) ` set (job_probes db)
             \<and> (jrr_job_id r, pr_index (jrr_result r)) \<notin> (\<lambda>x. (jrr_job_id x, pr_index (jrr_result x))) ` set (job_results db))
       (IntegrityError ''package_update_job_health_probe_results'')
       (Inr (db\<lparr>job_results := job_results db @ [r]\<rparr>))"

definition insert_post_scan_request :: "post_scan_request \<Rightarrow> authority_db \<Rightarrow> authority_db result" where
  "insert_post_scan_request r db =
     checkE (list_ex (\<lambda>j. jid j = ps_job_id r \<and> job_resource_id j = ps_resource_id r \<and> status j = SUCCEEDED
                \<and> job_checkpoint j = HEALTH_COMPLETED \<and> job_health_outcome j = Some HEALTH_PASSED) (jobs db)
             \<and> length (ps_job_id r) = 36 \<and> length (ps_resource_id r) = 36
             \<and> ps_resource_id r \<in> res_id ` set (resources db)
             \<and> ps_job_id r \<notin> ps_job_id ` set (post_scan_requests db))
       (IntegrityError ''package_update_post_scan_requests'')
       (Inr (db\<lparr>post_scan_requests := post_scan_requests db @ [r]\<rparr>))"

definition insert_job_event :: "job_event \<Rightarrow> authority_db \<Rightarrow> authority_db result" where
  "insert_job_event e db =
     checkE (ev_job_id e \<in> jid ` set (jobs db)
             \<and> 0 < ev_sequence e \<and> sql_nonblank (ev_message e) \<and> length (ev_message e) \<le> 500
             \<and> length (json_dumps (ev_details e)) \<le> 4000
             \<and> (ev_job_id e, ev_sequence e) \<notin> (\<lambda>x. (ev_job_id x, ev_sequence x)) ` set (job_events db))
       (IntegrityError ''package_update_job_events'')
       (Inr (db\<lparr>job_events := job_events db @ [e]\<rparr>))"

section \<open>Reading a job and a contract back\<close>

record job_view =
  jv_row :: job
  jv_packages :: "package_row list"
  jv_probes :: "job_health_probe list"
  jv_results :: "probe_result list"

definition job_packages_of :: "uuid \<Rightarrow> authority_db \<Rightarrow> package_row list" where
  "job_packages_of i db = sort_key prow_index (filter (\<lambda>r. prow_owner r = i) (job_packages db))"

definition scan_packages_of :: "uuid \<Rightarrow> authority_db \<Rightarrow> package_row list" where
  "scan_packages_of i db = sort_key prow_index (filter (\<lambda>r. prow_owner r = i) (scan_packages db))"

definition job_probes_of :: "uuid \<Rightarrow> authority_db \<Rightarrow> job_health_probe list" where
  "job_probes_of i db = sort_key jp_index (map jpr_probe (filter (\<lambda>r. jpr_job_id r = i) (job_probes db)))"

definition resource_probe :: "job_health_probe \<Rightarrow> health_probe" where
  "resource_probe p = \<lparr>probe_kind = jp_kind p, probe_target = jp_target p\<rparr>"

text \<open>\<open>_package_update_job_health\<close>.\<close>

definition package_update_job_health ::
    "authority_db \<Rightarrow> job \<Rightarrow> (job_health_probe list \<times> probe_result list) result" where
  "package_update_job_health db row =
     (let probes = job_probes_of (jid row) db;
          probe_count = health_contract_probe_count (iss row);
          results = sort_key pr_index (results_of (jid row) db)
      in checkE (map jp_index probes = [0..<probe_count])
           (AuthorityInvariantError ''package update job frozen health probes do not match its declared contract probe count'')
        (bindE (health_contract_fingerprint (map resource_probe probes)) (\<lambda>fp.
         checkE (fp = frozen_contract_fingerprint (iss row))
           (AuthorityInvariantError ''package update job frozen health probes do not match its frozen contract fingerprint'')
        (case job_health_outcome row of
           None \<Rightarrow>
             checkE (results = [])
               (AuthorityInvariantError ''package update job carries health probe results without a durable health verdict'')
            (checkE (health_completed_at row = None)
               (AuthorityInvariantError ''package update job claims a health completion with no verdict'')
               (Inr (probes, results)))
         | Some outcome \<Rightarrow>
             checkE (map pr_index results = [0..<probe_count])
               (AuthorityInvariantError ''package update job health verdict is not backed by exactly one result per frozen probe'')
            (checkE (health_started_at row \<noteq> None \<and> health_completed_at row \<noteq> None)
               (AuthorityInvariantError ''package update job health verdict is missing its own lifecycle timestamps'')
            (checkE (outcome = HEALTH_PASSED \<longrightarrow> list_all (\<lambda>r. pr_outcome r = PROBE_PASSED) results)
               (AuthorityInvariantError ''package update job claims a passing health verdict with a probe that did not pass'')
            (checkE (outcome = HEALTH_FAILED \<longrightarrow> list_ex (\<lambda>r. pr_outcome r = PROBE_FAILED) results)
               (AuthorityInvariantError ''package update job claims a failing health verdict with no proven failing probe'')
               (Inr (probes, results)))))))))"

definition package_update_job_of :: "authority_db \<Rightarrow> job \<Rightarrow> job_view result" where
  "package_update_job_of db row =
     (let packages = job_packages_of (jid row) db
      in checkE (package_count (iss row) = length packages)
           (AuthorityInvariantError ''package update job package count does not match immutable rows'')
        (bindE (package_update_job_health db row) (\<lambda>(probes, results).
           Inr \<lparr>jv_row = row, jv_packages = packages, jv_probes = probes, jv_results = results\<rparr>)))"

text \<open>\<open>InventoryAuthorityStore.package_update_job\<close>.\<close>

definition store_package_update_job :: "authority_db \<Rightarrow> uuid \<Rightarrow> job_view result" where
  "store_package_update_job db i =
     (case row_by jid i (jobs db) of
        None \<Rightarrow> Inl (AuthorityNotFound ''package update job does not exist'')
      | Some row \<Rightarrow> package_update_job_of db row)"

text \<open>\<open>_resource_health_contract\<close>.\<close>

definition resource_health_contract_of :: "authority_db \<Rightarrow> uuid \<Rightarrow> health_contract option result" where
  "resource_health_contract_of db i =
     (case row_by cr_resource_id i (contracts db) of
        None \<Rightarrow> Inr None
      | Some row \<Rightarrow>
          (let probes = map cp_probe (sort_key cp_index (filter (\<lambda>r. cp_resource_id r = i) (contract_probes db)))
           in checkE (length probes = cr_probe_count row)
                (AuthorityInvariantError ''resource health contract probe rows do not match its declared count'')
             (bindE (health_contract_fingerprint probes) (\<lambda>fp.
              checkE (fp = cr_fingerprint row)
                (AuthorityInvariantError ''resource health contract fingerprint does not match its probes'')
                (Inr (Some \<lparr>hc_resource_id = cr_resource_id row, hc_revision = cr_revision row,
                            hc_fingerprint = cr_fingerprint row, hc_created_at = cr_created_at row,
                            hc_updated_at = cr_updated_at row, hc_probes = probes\<rparr>))))))"

end
