(* ===== verification/Mutation_Completion.thy ===== *)
theory Mutation_Completion
  imports Ops_Models Digest "HOL-Library.AList"
begin

text \<open>
  The independent proof that an approved package mutation is complete:
  \<open>app/inventory/mutation_completion.py\<close>. A dictionary is the list of its items, keys pairwise
  different; the frozen material is the list of its quadruples in iteration order. The main lemma
  characterises acceptance: nothing is unfinished, every approved package moved from its approved
  installed version to its approved candidate, and the rest of the guest is untouched.
\<close>

type_synonym package_identity = "string \<times> string"
type_synonym installed = "(package_identity \<times> string) list"

record post_state =
  pre_installed :: installed
  post_installed :: installed
  post_unfinished :: "(string \<times> string \<times> string) list"

record completion_proof =
  proven :: bool
  proved_material :: "material list"
  proof_reason :: "string option"

fun join_list :: "string list \<Rightarrow> string" where
  "join_list [] = []"
| "join_list [x] = x"
| "join_list (x # xs) = x @ '', '' @ join_list xs"

definition describe :: "string list \<Rightarrow> string" where
  "describe items =
     join_list (take 5 items
       @ (if 5 < length items then [''and '' @ decimal_nat (length items - 5) @ '' more''] else []))"

definition identity_text :: "package_identity \<Rightarrow> string" where
  "identity_text i = fst i @ '':'' @ snd i"

definition approved_items :: "material list \<Rightarrow> (package_identity \<times> (string \<times> string)) list" where
  "approved_items frozen =
     fold (\<lambda>(name, architecture, installed, candidate).
             AList.update (name, architecture) (installed, candidate)) frozen []"

definition refuse :: "material list \<Rightarrow> string \<Rightarrow> completion_proof" where
  "refuse frozen reason =
     \<lparr>proven = False, proved_material = frozen, proof_reason = Some (take 500 reason)\<rparr>"

text \<open>\<open>sorted(f"{name}:{architecture}" for ... if ...)\<close>.\<close>

definition named :: "package_identity list \<Rightarrow> string list" where
  "named is = sort (map identity_text is)"

definition prove_package_mutation_completion :: "material list \<Rightarrow> post_state \<Rightarrow> completion_proof result" where
  "prove_package_mutation_completion frozen st =
     checkE (frozen \<noteq> [])
       (AuthorityInvariantError ''package mutation completion requires non-empty approved material'')
    (let pre = map_of (pre_installed st);
         post = map_of (post_installed st);
         pre_keys = map fst (pre_installed st);
         post_keys = map fst (post_installed st);
         approved = approved_items frozen;
         approved_keys = map fst approved;
         wrong_start = named (map fst (filter (\<lambda>(i, installed, _). pre i \<noteq> Some installed) approved));
         wrong_end = named (map fst (filter (\<lambda>(i, _, candidate). post i \<noteq> Some candidate) approved));
         appeared = named (filter (\<lambda>i. i \<notin> set pre_keys) post_keys);
         disappeared = named (filter (\<lambda>i. i \<notin> set post_keys) pre_keys);
         changed = map fst (filter (\<lambda>(i, version). pre i \<noteq> Some version) (post_installed st));
         unapproved = named (filter (\<lambda>i. i \<notin> set approved_keys) changed);
         missing = named (filter (\<lambda>i. i \<notin> set changed) approved_keys)
     in Inr
       (if post_unfinished st \<noteq> [] then
          refuse frozen (''dpkg reports unfinished package state after the mutation: ''
            @ describe (map (\<lambda>(n, a, s). n @ '':'' @ a @ '' ('' @ s @ '')'') (post_unfinished st)))
        else if wrong_start \<noteq> [] then
          refuse frozen (''approved packages were not installed at their approved pre-update version before the mutation: ''
            @ describe wrong_start)
        else if wrong_end \<noteq> [] then
          refuse frozen (''approved packages are not installed at their exact approved candidate version after the mutation: ''
            @ describe wrong_end)
        else if appeared \<noteq> [] then
          refuse frozen (''packages were installed that this plan never approved: '' @ describe appeared)
        else if disappeared \<noteq> [] then
          refuse frozen (''packages present before the mutation are no longer installed: '' @ describe disappeared)
        else if unapproved \<noteq> [] then
          refuse frozen (''packages outside the approved plan changed version during the mutation: ''
            @ describe unapproved)
        else if missing \<noteq> [] then
          refuse frozen (''approved packages did not change version during the mutation: '' @ describe missing)
        else \<lparr>proven = True, proved_material = frozen, proof_reason = None\<rparr>))"

section \<open>What acceptance means\<close>

definition material_identity :: "material \<Rightarrow> package_identity" where
  "material_identity m = (fst m, fst (snd m))"

text \<open>The reference: what the approval promises of the guest before and after.\<close>

definition mutation_exact :: "material list \<Rightarrow> post_state \<Rightarrow> bool" where
  "mutation_exact frozen st \<longleftrightarrow>
     post_unfinished st = []
     \<and> (\<forall>(n, a, i, c) \<in> set frozen. map_of (pre_installed st) (n, a) = Some i \<and> i \<noteq> c)
     \<and> map_of (post_installed st) =
         map_of (pre_installed st) ++ map_of (map (\<lambda>(n, a, i, c). ((n, a), c)) frozen)"

lemma named_empty [simp]: "named is = [] \<longleftrightarrow> is = []"
  by (simp add: named_def) (metis length_0_conv length_sort map_is_Nil_conv)

lemma approved_items_distinct:
  assumes "distinct (map material_identity frozen)"
  shows "approved_items frozen = map (\<lambda>(n, a, i, c). ((n, a), (i, c))) frozen"
proof -
  have new: "k \<notin> fst ` set al \<Longrightarrow> AList.update k v al = al @ [(k, v)]" for k v and al :: "('a \<times> 'b) list"
    by (induction al) auto
  have "fold (\<lambda>(n, a, i, c). AList.update (n, a) (i, c)) frozen acc =
          acc @ map (\<lambda>(n, a, i, c). ((n, a), (i, c))) frozen"
    if "fst ` set acc \<inter> set (map material_identity frozen) = {}" for acc
    using assms that
  proof (induction frozen arbitrary: acc)
    case (Cons m ms)
    obtain n a i c where m: "m = (n, a, i, c)" by (cases m)
    have step: "AList.update (n, a) (i, c) acc = acc @ [((n, a), (i, c))]"
      using Cons.prems(2) by (intro new) (auto simp: m material_identity_def)
    have "fst ` set (acc @ [((n, a), (i, c))]) \<inter> set (map material_identity ms) = {}"
      using Cons.prems by (auto simp: m material_identity_def)
    then have "fold (\<lambda>(n, a, i, c). AList.update (n, a) (i, c)) ms (acc @ [((n, a), (i, c))]) =
          (acc @ [((n, a), (i, c))]) @ map (\<lambda>(n, a, i, c). ((n, a), (i, c))) ms"
      using Cons.prems(1) by (intro Cons.IH) auto
    then show ?case by (simp add: m step)
  qed simp
  then show ?thesis by (simp add: approved_items_def)
qed

text \<open>The verdict, check by check, over the maps the two dictionaries denote.\<close>

definition completion_checks :: "material list \<Rightarrow> post_state \<Rightarrow> bool" where
  "completion_checks frozen st \<longleftrightarrow>
     (let pre = map_of (pre_installed st); post = map_of (post_installed st);
          ids = set (map material_identity frozen)
      in post_unfinished st = []
         \<and> (\<forall>(n, a, i, c) \<in> set frozen. pre (n, a) = Some i)
         \<and> (\<forall>(n, a, i, c) \<in> set frozen. post (n, a) = Some c)
         \<and> dom post = dom pre
         \<and> (\<forall>k v. post k = Some v \<longrightarrow> pre k \<noteq> Some v \<longrightarrow> k \<in> ids)
         \<and> (\<forall>k \<in> ids. \<exists>v. post k = Some v \<and> pre k \<noteq> Some v))"

lemma proven_refuse [simp]: "proven (refuse frozen r) = False"
  by (simp add: refuse_def)

lemma fst_approved:
  "map fst (map (\<lambda>(n, a, i, c). ((n, a), (i, c))) frozen) = map material_identity frozen"
  by (auto simp: material_identity_def)

lemma prove_completion_checks:
  assumes ids: "distinct (map material_identity frozen)" and ne: "frozen \<noteq> []"
    and keys: "distinct (map fst (post_installed st))"
  shows "\<exists>p. prove_package_mutation_completion frozen st = Inr p
             \<and> (proven p \<longleftrightarrow> completion_checks frozen st)"
proof -
  have mem: "(k, v) \<in> set (post_installed st) \<longleftrightarrow> map_of (post_installed st) k = Some v" for k v
    using keys by simp
  have start: "filter (\<lambda>(i, installed, _). map_of (pre_installed st) i \<noteq> Some installed) (approved_items frozen) = []
      \<longleftrightarrow> (\<forall>(n, a, i, c) \<in> set frozen. map_of (pre_installed st) (n, a) = Some i)"
    by (auto simp: approved_items_distinct[OF ids] filter_empty_conv split: prod.splits)
  have fin: "filter (\<lambda>(i, _, candidate). map_of (post_installed st) i \<noteq> Some candidate) (approved_items frozen) = []
      \<longleftrightarrow> (\<forall>(n, a, i, c) \<in> set frozen. map_of (post_installed st) (n, a) = Some c)"
    by (auto simp: approved_items_distinct[OF ids] filter_empty_conv split: prod.splits)
  have doms: "filter (\<lambda>i. i \<notin> set (map fst (pre_installed st))) (map fst (post_installed st)) = []
       \<and> filter (\<lambda>i. i \<notin> set (map fst (post_installed st))) (map fst (pre_installed st)) = []
      \<longleftrightarrow> dom (map_of (post_installed st)) = dom (map_of (pre_installed st))"
    unfolding filter_empty_conv dom_map_of_conv_image_fst set_map by blast
  let ?changed = "map fst (filter (\<lambda>(i, version). map_of (pre_installed st) i \<noteq> Some version) (post_installed st))"
  have changed: "k \<in> set ?changed \<longleftrightarrow>
      (\<exists>v. map_of (post_installed st) k = Some v \<and> map_of (pre_installed st) k \<noteq> Some v)" for k
    by (force simp: mem[symmetric])
  have rest: "filter (\<lambda>i. i \<notin> set (map material_identity frozen)) ?changed = []
       \<longleftrightarrow> (\<forall>k v. map_of (post_installed st) k = Some v \<longrightarrow> map_of (pre_installed st) k \<noteq> Some v
              \<longrightarrow> k \<in> set (map material_identity frozen))"
    unfolding filter_empty_conv using changed by blast
  have gone: "filter (\<lambda>i. i \<notin> set ?changed) (map material_identity frozen) = []
       \<longleftrightarrow> (\<forall>k \<in> set (map material_identity frozen).
              \<exists>v. map_of (post_installed st) k = Some v \<and> map_of (pre_installed st) k \<noteq> Some v)"
    unfolding filter_empty_conv using changed by blast
  have approved_keys: "map fst (approved_items frozen) = map material_identity frozen"
    by (simp only: approved_items_distinct[OF ids] fst_approved)
  show ?thesis
    unfolding prove_package_mutation_completion_def completion_checks_def Let_def approved_keys
    using ne start fin doms rest gone by (simp del: set_map) blast
qed

lemma completion_checks_exact:
  assumes ids: "distinct (map material_identity frozen)"
  shows "completion_checks frozen st \<longleftrightarrow> mutation_exact frozen st"
proof -
  let ?pre = "map_of (pre_installed st)" and ?post = "map_of (post_installed st)"
  let ?cand = "map_of (map (\<lambda>(n, a, i, c). ((n, a), c)) frozen)"
  have "map fst (map (\<lambda>(n, a, i, c). ((n, a), c)) frozen) = map material_identity frozen"
    by (auto simp: material_identity_def)
  then have dist: "distinct (map fst (map (\<lambda>(n, a, i, c). ((n, a), c)) frozen))"
    using ids by (simp only:)
  have cand: "?cand (n, a) = Some c \<longleftrightarrow> (\<exists>i. (n, a, i, c) \<in> set frozen)" for n a c
    using map_of_eq_Some_iff[OF dist, of "(n, a)" c] by force
  have uncand: "?cand k = None \<longleftrightarrow> k \<notin> set (map material_identity frozen)" for k
    by (auto simp: map_of_eq_None_iff material_identity_def split: prod.splits) force+
  show ?thesis
  proof
    assume chk: "completion_checks frozen st"
    have eq: "?post k = (?pre ++ ?cand) k" for k
    proof (cases "?cand k")
      case None
      then have "k \<notin> set (map material_identity frozen)" by (simp add: uncand)
      with chk have "?post k = Some v \<Longrightarrow> ?pre k = Some v" for v
        unfolding completion_checks_def Let_def by metis
      moreover from chk have "k \<in> dom ?post \<longleftrightarrow> k \<in> dom ?pre"
        by (simp add: completion_checks_def Let_def)
      ultimately have "?post k = ?pre k" by (cases "?post k") (auto simp: dom_def)
      with None show ?thesis by (simp add: map_add_def)
    next
      case (Some c)
      then obtain i where "(fst k, snd k, i, c) \<in> set frozen" using cand[of "fst k" "snd k" c] by auto
      with chk have "?post k = Some c" by (force simp: completion_checks_def Let_def)
      with Some show ?thesis by (simp add: map_add_def)
    qed
    have neq: "i \<noteq> c" if m: "(n, a, i, c) \<in> set frozen" for n a i c
    proof
      assume "i = c"
      from m have "(n, a) \<in> set (map material_identity frozen)" by (force simp: material_identity_def)
      with chk obtain v where "?post (n, a) = Some v" "?pre (n, a) \<noteq> Some v"
        by (auto simp: completion_checks_def Let_def)
      moreover from chk m have "?pre (n, a) = Some i" "?post (n, a) = Some c"
        by (force simp: completion_checks_def Let_def)+
      ultimately show False using \<open>i = c\<close> by simp
    qed
    have "?pre (n, a) = Some i" if "(n, a, i, c) \<in> set frozen" for n a i c
      using chk that by (force simp: completion_checks_def Let_def)
    then have "\<forall>(n, a, i, c) \<in> set frozen. ?pre (n, a) = Some i \<and> i \<noteq> c" using neq by fast
    moreover have "post_unfinished st = []" using chk by (simp add: completion_checks_def Let_def)
    ultimately show "mutation_exact frozen st" using eq by (simp add: mutation_exact_def ext)
  next
    assume ex: "mutation_exact frozen st"
    have post: "?post k = (?pre ++ ?cand) k" for k using ex by (simp add: mutation_exact_def)
    have pre: "?pre (n, a) = Some i \<and> i \<noteq> c" if "(n, a, i, c) \<in> set frozen" for n a i c
      using ex that by (auto simp: mutation_exact_def)
    have end_: "?post (n, a) = Some c" if "(n, a, i, c) \<in> set frozen" for n a i c
      using post[of "(n, a)"] cand[of n a c] that by (auto simp: map_add_def)
    have "dom ?cand \<subseteq> dom ?pre" using cand pre by (fastforce simp: dom_def)
    then have "dom ?post = dom ?pre" using ex by (auto simp: mutation_exact_def)
    moreover have "k \<in> set (map material_identity frozen)" if "?post k = Some v" "?pre k \<noteq> Some v" for k v
      using that post[of k] uncand[of k] by (auto simp: map_add_def split: option.splits)
    moreover have "\<exists>v. ?post k = Some v \<and> ?pre k \<noteq> Some v" if "k \<in> set (map material_identity frozen)" for k
      using that pre end_ by (force simp: material_identity_def)
    ultimately show "completion_checks frozen st"
      using ex pre end_ by (auto simp: completion_checks_def mutation_exact_def Let_def)
  qed
qed

end
