(* ===== verification/Authority_Context.thy ===== *)
theory Authority_Context
  imports Authority_Store Package_Plan Mutation_Completion
begin

text \<open>
  The decisions every package update operation of \<open>app/inventory/authority.py\<close> rests on, in the
  order of the file's helpers: which source and resource context is current, the expiry of a
  source's freshness, the exact successful plan of a scan, the authority of a job
  (\<open>_package_update_job_current_authority_detail\<close>), the identities derived for a job, the
  matching of snapshots and of health observations, and the event log.

  A helper that only reads returns a result; one that writes returns the result with the database
  of the open transaction. A helper that reads the clock takes the reading as an argument.
\<close>

section \<open>Revisions and events\<close>

definition bump_global_revisions :: "bool \<Rightarrow> bool \<Rightarrow> time \<Rightarrow> authority_db \<Rightarrow> authority_db result" where
  "bump_global_revisions inventory_changed published_changed published_at db =
     checkE (inventory_changed \<longrightarrow> published_changed)
       (AuthorityInvariantError ''an inventory change must also change the published revision'')
       (Inr (db\<lparr>backend := (backend db)\<lparr>
          be_inventory_revision := be_inventory_revision (backend db) + (if inventory_changed then 1 else 0),
          be_published_state_revision := be_published_state_revision (backend db) + (if published_changed then 1 else 0),
          be_published_at := (if published_changed then published_at else be_published_at (backend db))\<rparr>\<rparr>))"

definition next_event_sequence :: "uuid \<Rightarrow> authority_db \<Rightarrow> nat" where
  "next_event_sequence i db =
     Suc (max_or_zero (map ev_sequence (filter (\<lambda>e. ev_job_id e = i) (job_events db))))"

definition append_package_update_job_event ::
    "uuid \<Rightarrow> time \<Rightarrow> event_level \<Rightarrow> checkpoint \<Rightarrow> event_type \<Rightarrow> string \<Rightarrow> json \<Rightarrow> authority_db \<Rightarrow> authority_db result" where
  "append_package_update_job_event i created_at level stage etype message details db =
     bindE (require_text message ''event message'' 500) (\<lambda>canonical_message.
     checkE (length (json_dumps details) \<le> 4000) (ValueError ''event details exceed the durable bound'')
       (insert_job_event
          \<lparr>ev_job_id = i, ev_sequence = next_event_sequence i db, ev_created_at = created_at,
           ev_level = level, ev_stage = stage, ev_type = etype, ev_message = canonical_message,
           ev_details = details\<rparr> db))"

section \<open>Source context\<close>

definition require_source_row :: "authority_db \<Rightarrow> uuid \<Rightarrow> inventory_source result" where
  "require_source_row db i =
     (case row_by src_id i (sources db) of
        None \<Rightarrow> Inl (AuthorityNotFound ''inventory source does not exist'')
      | Some row \<Rightarrow> Inr row)"

definition require_active_endpoint_row :: "authority_db \<Rightarrow> uuid \<Rightarrow> source_endpoint result" where
  "require_active_endpoint_row db i =
     (case filter (\<lambda>e. ep_source_id e = i \<and> ep_lifecycle e = EP_ACTIVE) (endpoints db) of
        [e] \<Rightarrow> Inr e
      | _ \<Rightarrow> Inl (AuthorityInvariantError ''inventory source must have exactly one active endpoint''))"

definition committed_context_is_current ::
    "inventory_source \<Rightarrow> source_endpoint \<Rightarrow> source_runtime_health \<Rightarrow> bool" where
  "committed_context_is_current source endpoint health \<longleftrightarrow>
     sh_committed_source_config_revision health = Some (src_config_revision source)
     \<and> sh_committed_endpoint_id health = Some (ep_id endpoint)
     \<and> sh_committed_canonical_transport_locator health = Some (ep_canonical_transport_locator endpoint)
     \<and> sh_committed_canonicalization_contract_version health = Some (ep_canonicalization_contract_version endpoint)
     \<and> sh_committed_transport_trust_revision health = Some (ep_transport_trust_revision endpoint)"

definition require_source_health_row :: "authority_db \<Rightarrow> uuid \<Rightarrow> source_runtime_health result" where
  "require_source_health_row db i =
     (case row_by sh_source_id i (source_healths db) of
        None \<Rightarrow> Inl (AuthorityInvariantError ''inventory source must have exactly one runtime health record'')
      | Some row \<Rightarrow> Inr row)"

definition source_has_current_authority :: "authority_db \<Rightarrow> uuid \<Rightarrow> bool result" where
  "source_has_current_authority db i =
     bindE (require_source_row db i) (\<lambda>source.
     bindE (require_active_endpoint_row db i) (\<lambda>endpoint.
     bindE (require_source_health_row db i) (\<lambda>health.
       Inr (sh_health health = HEALTHY \<and> sh_freshness health = FRESH
            \<and> committed_context_is_current source endpoint health))))"

text \<open>
  \<open>_materialize_due_expiry_in_transaction\<close>. The persisted interval is a pair of instants, so the
  branch for an unreadable timestamp does not arise.
\<close>

definition expiry_reason :: "time \<Rightarrow> time \<Rightarrow> time \<Rightarrow> string option" where
  "expiry_reason now reference deadline =
     (if now < reference then Some ''freshness_clock_rollback_before_reference''
      else if now < deadline then None
      else Some ''freshness_deadline_elapsed'')"

definition write_expiry :: "uuid \<Rightarrow> string \<Rightarrow> authority_db \<Rightarrow> authority_db" where
  "write_expiry i reason db = db\<lparr>source_healths :=
     rows_update (\<lambda>h. sh_source_id h = i)
       (\<lambda>h. h\<lparr>sh_freshness := STALE, sh_origin := TIME_EXPIRY, sh_reason := reason\<rparr>)
       (source_healths db)\<rparr>"

definition due_expiry ::
    "time \<Rightarrow> int option \<Rightarrow> time option \<Rightarrow> inventory_source \<Rightarrow> source_endpoint \<Rightarrow> source_runtime_health
      \<Rightarrow> string option result" where
  "due_expiry now expected_run_sequence expected_deadline source endpoint health =
     (if sh_freshness health \<noteq> FRESH then Inr None
      else if expected_run_sequence \<noteq> None
           \<and> src_last_committed_run_sequence source \<noteq> expected_run_sequence then Inr None
      else if expected_deadline \<noteq> None
           \<and> sh_freshness_valid_until health \<noteq> expected_deadline then Inr None
      else if \<not> committed_context_is_current source endpoint health then Inr None
      else (case (sh_freshness_reference_at health, sh_freshness_valid_until health) of
          (Some reference, Some deadline) \<Rightarrow> Inr (expiry_reason now reference deadline)
        | _ \<Rightarrow> Inl (AuthorityInvariantError ''fresh source must have a freshness reference and deadline'')))"

definition materialize_due_expiry ::
    "uuid \<Rightarrow> time \<Rightarrow> int option \<Rightarrow> time option \<Rightarrow> authority_db \<Rightarrow> (bool \<times> authority_db) result" where
  "materialize_due_expiry i now expected_run_sequence expected_deadline db =
     bindE (require_source_row db i) (\<lambda>source.
     bindE (require_active_endpoint_row db i) (\<lambda>endpoint.
     bindE (case row_by sh_source_id i (source_healths db) of
              None \<Rightarrow> Inr None
            | Some health \<Rightarrow> due_expiry now expected_run_sequence expected_deadline source endpoint health) (\<lambda>due.
     case due of
       None \<Rightarrow> Inr (False, db)
     | Some reason \<Rightarrow>
         bindE (bump_global_revisions False True now (write_expiry i reason db)) (\<lambda>db'. Inr (True, db')))))"

section \<open>Resource context\<close>

text \<open>The columns of the resource row with its current binding and its current node.\<close>

record resource_target =
  tg_resource :: resource_incarnation
  tg_binding :: "locator_binding option"
  tg_node :: "inventory_node option"

definition resource_target_of :: "authority_db \<Rightarrow> uuid \<Rightarrow> resource_target option" where
  "resource_target_of db i =
     (case row_by res_id i (resources db) of
        None \<Rightarrow> None
      | Some r \<Rightarrow> Some \<lparr>tg_resource = r,
          tg_binding = find (\<lambda>b. bind_resource_id b = i \<and> bind_valid_to b = None) (bindings db),
          tg_node = (case res_current_node_id r of None \<Rightarrow> None
                     | Some n \<Rightarrow> row_by node_id n (nodes db))\<rparr>)"

definition require_package_scan_target :: "authority_db \<Rightarrow> uuid \<Rightarrow> resource_target result" where
  "require_package_scan_target db i =
     (case resource_target_of db i of
        None \<Rightarrow> Inl (AuthorityNotFound ''package scan resource does not exist'')
      | Some t \<Rightarrow>
          checkE (res_presence (tg_resource t) = ''present'' \<and> res_lifecycle (tg_resource t) = ''active''
                  \<and> tg_binding t \<noteq> None \<and> res_current_node_id (tg_resource t) \<noteq> None
                  \<and> tg_node t \<noteq> None)
            (AuthorityConflict ''resource has no current executable binding'') (Inr t))"

text \<open>
  \<open>_post_mutation_job_context_is_current\<close>: the identity of the target, not whether it runs.
\<close>

definition post_mutation_job_context_is_current :: "authority_db \<Rightarrow> scan_context \<Rightarrow> bool" where
  "post_mutation_job_context_is_current db c =
     (case resource_target_of db (cx_resource_id c) of
        None \<Rightarrow> False
      | Some t \<Rightarrow>
          (case (tg_binding t, tg_node t) of
             (Some b, Some n) \<Rightarrow>
               res_source_id (tg_resource t) = cx_inventory_source_id c
               \<and> res_type (tg_resource t) = ''lxc'' \<and> res_presence (tg_resource t) = ''present''
               \<and> res_lifecycle (tg_resource t) = ''active''
               \<and> res_vmid (tg_resource t) = cx_expected_vmid c
               \<and> bind_id b = cx_expected_binding_id c
               \<and> bind_generation b = cx_expected_locator_generation c
               \<and> res_continuity_revision (tg_resource t) = cx_expected_resource_continuity_revision c
               \<and> res_current_node_id (tg_resource t) = Some (cx_expected_node_id c)
               \<and> node_external_name n = cx_expected_node_name c \<and> node_available n
           | _ \<Rightarrow> False))"

text \<open>\<open>_package_scan_context_is_current\<close>: the same, and the guest is running.\<close>

definition package_scan_context_is_current :: "authority_db \<Rightarrow> scan_context \<Rightarrow> bool" where
  "package_scan_context_is_current db c =
     (case resource_target_of db (cx_resource_id c) of
        None \<Rightarrow> False
      | Some t \<Rightarrow>
          (case (tg_binding t, tg_node t) of
             (Some b, Some n) \<Rightarrow>
               res_source_id (tg_resource t) = cx_inventory_source_id c
               \<and> res_type (tg_resource t) = ''lxc'' \<and> res_presence (tg_resource t) = ''present''
               \<and> res_lifecycle (tg_resource t) = ''active'' \<and> res_status (tg_resource t) = ''running''
               \<and> res_vmid (tg_resource t) = cx_expected_vmid c
               \<and> bind_id b = cx_expected_binding_id c
               \<and> bind_generation b = cx_expected_locator_generation c
               \<and> res_continuity_revision (tg_resource t) = cx_expected_resource_continuity_revision c
               \<and> res_current_node_id (tg_resource t) = Some (cx_expected_node_id c)
               \<and> node_external_name n = cx_expected_node_name c \<and> node_available n
           | _ \<Rightarrow> False))"

text \<open>\<open>int(row[column])\<close> raises TypeError on NULL, \<open>str(row[column])\<close> gives the text None.\<close>

definition int_column :: "int option \<Rightarrow> int result" where
  "int_column v = (case v of None \<Rightarrow> Inl (TypeError ''int() argument must not be None'') | Some n \<Rightarrow> Inr n)"

definition str_column :: "string option \<Rightarrow> string" where
  "str_column v = (case v of None \<Rightarrow> ''None'' | Some t \<Rightarrow> t)"

definition package_scan_source_context_is_current :: "authority_db \<Rightarrow> scan_context \<Rightarrow> bool result" where
  "package_scan_source_context_is_current db c =
     (let i = cx_inventory_source_id c in
      bindE (require_source_row db i) (\<lambda>source.
      bindE (require_active_endpoint_row db i) (\<lambda>endpoint.
      bindE (require_source_health_row db i) (\<lambda>health.
      bindE (source_has_current_authority db i) (\<lambda>authoritative.
      bindE (int_column (sh_committed_source_config_revision health)) (\<lambda>config.
      bindE (int_column (sh_committed_canonicalization_contract_version health)) (\<lambda>canonicalization.
      bindE (int_column (sh_committed_transport_trust_revision health)) (\<lambda>trust.
        Inr (authoritative
             \<and> cx_committed_source_config_revision c = config
             \<and> cx_committed_endpoint_id c = str_column (sh_committed_endpoint_id health)
             \<and> cx_committed_canonical_transport_locator c = str_column (sh_committed_canonical_transport_locator health)
             \<and> cx_committed_canonicalization_contract_version c = canonicalization
             \<and> cx_committed_transport_trust_revision c = trust
             \<and> cx_provider_contract_version c = src_provider_contract_version source
             \<and> cx_committed_endpoint_id c = ep_id endpoint)))))))))"

end
