(* ===== verification/Job_Authority.thy ===== *)
theory Job_Authority
  imports Authority_Context
begin

text \<open>
  What a package update job is decided on (\<open>app/inventory/authority.py\<close>): the exact plan of a
  scan run, whether the frozen health contract drifted, the combined authority of a job, the
  identities and the ownership derived for it, the one snapshot it owns among the observed ones,
  and the matching of health observations to its frozen probes.
\<close>

section \<open>The exact plan of a scan run\<close>

definition require_package_scan_run_row :: "authority_db \<Rightarrow> uuid \<Rightarrow> scan_run result" where
  "require_package_scan_run_row db i =
     (case row_by scan_run_id i (scan_runs db) of
        None \<Rightarrow> Inl (AuthorityNotFound ''package scan run does not exist'')
      | Some row \<Rightarrow> Inr row)"

text \<open>\<open>ORDER BY attempt_sequence DESC LIMIT 1\<close>.\<close>

fun latest_of :: "scan_run list \<Rightarrow> scan_run option" where
  "latest_of [] = None"
| "latest_of (r # rs) =
     (case latest_of rs of
        None \<Rightarrow> Some r
      | Some s \<Rightarrow> if scan_attempt_sequence s \<le> scan_attempt_sequence r then Some r else Some s)"

definition latest_package_scan_row :: "authority_db \<Rightarrow> uuid \<Rightarrow> scan_run option" where
  "latest_package_scan_row db i = latest_of (filter (\<lambda>r. cx_resource_id (scan_ctx r) = i) (scan_runs db))"

text \<open>The packages as the row factory reads them: \<open>security\<close> is true or unknown.\<close>

definition read_package :: "package \<Rightarrow> package" where
  "read_package p = p\<lparr>pkg_security := (if pkg_security p = Some True then Some True else None)\<rparr>"

definition successful_package_scan_fingerprint :: "authority_db \<Rightarrow> scan_run \<Rightarrow> string result" where
  "successful_package_scan_fingerprint db run =
     (let rows = scan_packages_of (scan_run_id run) db in
      checkE (scan_pending_count run = Some (length rows))
        (AuthorityInvariantError ''successful package scan pending count does not match exact rows'')
     (bindE (package_plan_fingerprint (map (\<lambda>r. read_package (prow_package r)) rows)) (\<lambda>recomputed.
      checkE (recomputed = str_column (scan_plan_fingerprint run))
        (AuthorityInvariantError ''successful package scan fingerprint does not match exact rows'')
        (Inr recomputed))))"

definition scan_succeeded :: "scan_run \<Rightarrow> bool" where
  "scan_succeeded run \<longleftrightarrow> scan_lifecycle run = SCAN_COMPLETED \<and> scan_outcome run = Some SCAN_SUCCESS"

definition package_scan_is_current_and_approvable :: "authority_db \<Rightarrow> scan_run \<Rightarrow> bool result" where
  "package_scan_is_current_and_approvable db run =
     (if \<not> scan_succeeded run then Inr False
      else bindE (successful_package_scan_fingerprint db run) (\<lambda>_.
        if scan_pending_count run = Some 0 then Inr False
        else if \<not> package_scan_context_is_current db (scan_ctx run) then Inr False
        else package_scan_source_context_is_current db (scan_ctx run)))"

definition package_plan_approval_is_consumed :: "authority_db \<Rightarrow> uuid \<Rightarrow> bool" where
  "package_plan_approval_is_consumed db i \<longleftrightarrow>
     list_ex (\<lambda>j. job_approval_id (iss j) = i \<and> status j = SUCCEEDED) (jobs db)"

text \<open>The fourteen compared fields are the record \<open>scan_context\<close>.\<close>

definition package_scan_context_matches_reviewed :: "scan_run \<Rightarrow> scan_run \<Rightarrow> bool" where
  "package_scan_context_matches_reviewed current reviewed \<longleftrightarrow> scan_ctx current = scan_ctx reviewed"

definition package_scan_context_matches_job :: "scan_run \<Rightarrow> job \<Rightarrow> bool" where
  "package_scan_context_matches_job current j \<longleftrightarrow> scan_ctx current = jctx j"

definition package_material_rows :: "package_row list \<Rightarrow> material list" where
  "package_material_rows rows = remdups (map (\<lambda>r. package_material (prow_package r)) rows)"

definition scan_material :: "authority_db \<Rightarrow> uuid \<Rightarrow> material list" where
  "scan_material db i = package_material_rows (scan_packages_of i db)"

definition job_material :: "authority_db \<Rightarrow> uuid \<Rightarrow> material list" where
  "job_material db i = package_material_rows (job_packages_of i db)"

section \<open>Post-update refresh obligations\<close>

definition pending_post_update_package_scan_request_rows ::
    "authority_db \<Rightarrow> uuid option \<Rightarrow> post_scan_request list" where
  "pending_post_update_package_scan_request_rows db resource =
     sort_key (\<lambda>r. (ps_requested_at r, ps_job_id r))
       (filter (\<lambda>r. (ps_scan_run_id r = None
                     \<or> (\<exists>run \<in> set (scan_runs db). Some (scan_run_id run) = ps_scan_run_id r
                           \<and> scan_lifecycle run = SCAN_RUNNING))
                    \<and> (case resource of None \<Rightarrow> True | Some i \<Rightarrow> ps_resource_id r = i))
         (post_scan_requests db))"

definition post_update_package_scan_is_pending :: "authority_db \<Rightarrow> uuid \<Rightarrow> bool" where
  "post_update_package_scan_is_pending db i \<longleftrightarrow>
     pending_post_update_package_scan_request_rows db (Some i) \<noteq> []"

section \<open>The authority of a job\<close>

definition require_package_update_job_row :: "authority_db \<Rightarrow> uuid \<Rightarrow> job result" where
  "require_package_update_job_row db i =
     (case row_by jid i (jobs db) of
        None \<Rightarrow> Inl (AuthorityNotFound ''package update job does not exist'')
      | Some row \<Rightarrow> Inr row)"

definition frozen_health_contract_drift :: "authority_db \<Rightarrow> job \<Rightarrow> string option result" where
  "frozen_health_contract_drift db j =
     (if checkpoint_rank MUTATION_MAY_HAVE_STARTED \<le> checkpoint_rank (job_checkpoint j) then Inr None
      else bindE (resource_health_contract_of db (job_resource_id j)) (\<lambda>declared.
        case declared of
          None \<Rightarrow> Inr (Some ''resource health contract is no longer declared'')
        | Some contract \<Rightarrow>
            if hc_revision contract \<noteq> health_contract_revision (iss j)
               \<or> hc_fingerprint contract \<noteq> frozen_contract_fingerprint (iss j)
               \<or> length (hc_probes contract) \<noteq> health_contract_probe_count (iss j)
            then Inr (Some ''current resource health contract is a newer generation'')
            else if map (\<lambda>p. (jp_index p, jp_kind p, jp_target p)) (job_probes_of (jid j) db)
                    \<noteq> map (\<lambda>(n, p). (n, probe_kind p, probe_target p)) (enumerate 0 (hc_probes contract))
            then Inr (Some ''current resource health contract material does not match the job'')
            else Inr None))"

datatype authority_state = AUTH_CURRENT | AUTH_STALE | AUTH_TEMPORARILY_UNAVAILABLE

text \<open>The latest plan attempt against the frozen plan, once the context is current.\<close>

definition job_plan_detail :: "authority_db \<Rightarrow> job \<Rightarrow> (authority_state \<times> string option) result" where
  "job_plan_detail db j =
     (if post_update_package_scan_is_pending db (job_resource_id j) then
        Inr (AUTH_TEMPORARILY_UNAVAILABLE, Some ''the required post-update package refresh is still pending'')
      else (case latest_package_scan_row db (job_resource_id j) of
        None \<Rightarrow> Inr (AUTH_STALE, Some ''latest package scan attempt is not a successful exact plan'')
      | Some current \<Rightarrow>
          if scan_lifecycle current = SCAN_RUNNING then
            Inr (AUTH_TEMPORARILY_UNAVAILABLE, Some ''latest package scan attempt is still running'')
          else if \<not> scan_succeeded current then
            Inr (AUTH_STALE, Some ''latest package scan attempt is not a successful exact plan'')
          else bindE (package_scan_is_current_and_approvable db current) (\<lambda>approvable.
            if \<not> (approvable \<and> package_scan_context_matches_job current j) then
              Inr (AUTH_STALE, Some ''latest package scan authority context does not match the job'')
            else bindE (successful_package_scan_fingerprint db current) (\<lambda>fingerprint.
              if fingerprint \<noteq> approved_plan_fingerprint (iss j) then
                Inr (AUTH_STALE, Some ''latest package plan fingerprint does not match the job'')
              else if scan_material db (scan_run_id current) = []
                      \<or> set (scan_material db (scan_run_id current)) \<noteq> set (job_material db (jid j)) then
                Inr (AUTH_STALE, Some ''current exact package material does not match the job'')
              else bindE (frozen_health_contract_drift db j) (\<lambda>drift.
                case drift of
                  Some reason \<Rightarrow> Inr (AUTH_STALE, Some reason)
                | None \<Rightarrow> Inr (AUTH_CURRENT, None))))))"

text \<open>\<open>_package_update_job_current_authority_detail\<close>, with the decision time \<open>t\<close>.\<close>

definition package_update_job_current_authority_detail ::
    "time \<Rightarrow> job \<Rightarrow> authority_db \<Rightarrow> ((authority_state \<times> string option) \<times> authority_db) result" where
  "package_update_job_current_authority_detail t j db =
     checkE (status j = ACTIVE) (AuthorityConflict ''package update job is terminal'')
    (checkE (expected_resource_type (iss j) = ''lxc'')
       (AuthorityInvariantError ''package update job has an unsupported frozen resource type'')
    (bindE (materialize_due_expiry (cx_inventory_source_id (jctx j)) t None None db) (\<lambda>(_, db').
     if \<not> package_scan_context_is_current db' (jctx j) then Inr ((AUTH_STALE, None), db')
     else bindE (package_scan_source_context_is_current db' (jctx j)) (\<lambda>source_current.
       if \<not> source_current then Inr ((AUTH_STALE, None), db')
       else bindE (job_plan_detail db' j) (\<lambda>detail. Inr (detail, db'))))))"

definition package_update_job_authority_is_current ::
    "time \<Rightarrow> job \<Rightarrow> authority_db \<Rightarrow> (bool \<times> authority_db) result" where
  "package_update_job_authority_is_current t j db =
     bindE (package_update_job_current_authority_detail t j db) (\<lambda>((state, reason), db').
       if state = AUTH_CURRENT then Inr (True, db')
       else (case reason of
               Some r \<Rightarrow> Inl (AuthorityConflict r)
             | None \<Rightarrow> Inr (False, db')))"

section \<open>Identities of a job\<close>

definition job_key_of :: "authority_db \<Rightarrow> job \<Rightarrow> job_key" where
  "job_key_of db j =
     (be_id (backend db), jid j, job_resource_id j, cx_expected_resource_continuity_revision (jctx j))"

definition snapshot_identity_in_transaction :: "authority_db \<Rightarrow> job \<Rightarrow> (string \<times> string) result" where
  "snapshot_identity_in_transaction db j =
     bindE (derive_pre_update_snapshot_identity (job_key_of db j)) (\<lambda>(oid, name).
     checkE (\<not> ((snapshot_name j \<noteq> None \<and> snapshot_name j \<noteq> Some name)
                \<or> (snapshot_operation_id j \<noteq> None \<and> snapshot_operation_id j \<noteq> Some oid)))
       (AuthorityInvariantError ''persisted snapshot identity does not match the job deterministic derivation'')
       (Inr (oid, name)))"

definition snapshot_ownership_in_transaction :: "authority_db \<Rightarrow> job \<Rightarrow> snapshot_ownership result" where
  "snapshot_ownership_in_transaction db j =
     build_snapshot_ownership (jid j) (job_resource_id j) (cx_expected_resource_continuity_revision (jctx j))
       (cx_inventory_source_id (jctx j)) (be_id (backend db))"

definition mutation_identity_in_transaction :: "authority_db \<Rightarrow> job \<Rightarrow> string result" where
  "mutation_identity_in_transaction db j =
     bindE (derive_package_mutation_identity (job_key_of db j)) (\<lambda>oid.
     checkE (mutation_operation_id j = None \<or> mutation_operation_id j = Some oid)
       (AuthorityInvariantError ''persisted package mutation operation identity does not match the job deterministic derivation'')
       (Inr oid))"

definition rollback_identity_in_transaction :: "authority_db \<Rightarrow> job \<Rightarrow> string result" where
  "rollback_identity_in_transaction db j =
     (case (snapshot_confirmed_at j, snapshot_operation_id j, snapshot_name j) of
        (Some _, Some operation, Some name) \<Rightarrow>
          bindE (derive_package_rollback_identity (job_key_of db j) operation name) (\<lambda>oid.
          checkE (rollback_operation_id j = None \<or> rollback_operation_id j = Some oid)
            (AuthorityInvariantError ''persisted rollback operation identity does not match the identity this job derives'')
            (Inr oid))
      | _ \<Rightarrow> Inl (AuthorityConflict ''package update job has no confirmed job-owned snapshot to roll back to''))"

section \<open>The snapshot a job owns\<close>

text \<open>The loop of \<open>_require_exactly_one_job_owned_snapshot\<close>: the matches collected so far.\<close>

fun owned_snapshot_matches ::
    "uuid \<Rightarrow> string \<Rightarrow> snapshot_ownership \<Rightarrow> observed_snapshot list \<Rightarrow> observed_snapshot list result" where
  "owned_snapshot_matches job name expected [] = Inr []"
| "owned_snapshot_matches job name expected (s # ss) =
     (if os_is_current_pseudo_entry s then
        checkE (os_name s \<noteq> name)
          (AuthorityConflict ''canonical PVE state reports the job snapshot name as the current pseudo-entry'')
          (owned_snapshot_matches job name expected ss)
      else if os_name s \<noteq> name \<and> \<not> (case os_ownership s of None \<Rightarrow> False | Some w \<Rightarrow> own_job_id w = job) then
        checkE (\<not> os_ownership_malformed s)
          (AuthorityConflict ''canonical PVE state contains malformed Hubinet snapshot metadata; job-owned snapshot ownership is ambiguous'')
          (owned_snapshot_matches job name expected ss)
      else
        checkE (\<not> os_ownership_malformed s)
          (AuthorityConflict ''job-owned snapshot name carries malformed Hubinet metadata'')
       (checkE (os_name s = name)
          (AuthorityConflict ''another snapshot claims this job under a different name'')
       (checkE (\<not> os_incomplete s)
          (AuthorityConflict ''canonical PVE state reports the job-owned snapshot as incomplete'')
       (checkE (os_ownership s = Some expected)
          (AuthorityConflict ''job-owned snapshot name does not carry this job exact ownership metadata'')
       (bindE (owned_snapshot_matches job name expected ss) (\<lambda>rest. Inr (s # rest)))))))"

definition require_exactly_one_job_owned_snapshot ::
    "uuid \<Rightarrow> string option \<Rightarrow> observed_snapshot list \<Rightarrow> snapshot_ownership \<Rightarrow> observed_snapshot result" where
  "require_exactly_one_job_owned_snapshot job expected_name observed expected =
     (case expected_name of
        None \<Rightarrow> Inl (AuthorityInvariantError ''package update job has no persisted snapshot identity'')
      | Some name \<Rightarrow>
          bindE (owned_snapshot_matches job name expected observed) (\<lambda>matches.
          checkE (matches \<noteq> [])
            (AuthorityConflict ''canonical PVE state does not contain this job snapshot'')
         (checkE (length matches = 1)
            (AuthorityConflict ''canonical PVE state contains duplicate job-owned snapshots'')
            (Inr (hd matches)))))"

fun require_current_parent_is :: "observed_snapshot list \<Rightarrow> string \<Rightarrow> unit result" where
  "require_current_parent_is [] name =
     Inl (AuthorityConflict ''canonical PVE state contains no current pseudo-entry to prove the rollback post-condition'')"
| "require_current_parent_is (s # ss) name =
     (if \<not> os_is_current_pseudo_entry s then require_current_parent_is ss name
      else checkE (os_parent s = Some name)
        (AuthorityConflict ''canonical PVE state does not report this job snapshot as the current parent after rollback'')
        (Inr ()))"

section \<open>Health observations\<close>

definition ROLLBACK_ELIGIBLE_CHECKPOINTS :: "checkpoint list" where
  "ROLLBACK_ELIGIBLE_CHECKPOINTS =
     [MUTATION_MAY_HAVE_STARTED, MUTATION_COMPLETED, HEALTH_STARTED, HEALTH_COMPLETED]"

definition require_health_probe_reason :: "string \<Rightarrow> string result" where
  "require_health_probe_reason v =
     checkE (v \<in> set HEALTH_PROBE_REASONS)
       (AuthorityConflict ''health probe reason is not a known bounded token'') (Inr v)"

definition require_unresolved_health_reason :: "string \<Rightarrow> string result" where
  "require_unresolved_health_reason v =
     bindE (require_health_probe_reason v) (\<lambda>reason.
     checkE (reason \<in> set (reasons_by_outcome PROBE_UNKNOWN))
       (AuthorityConflict ''an unresolved health evaluation reason must be an UNKNOWN-family token'')
       (Inr reason))"

text \<open>The dictionary keyed by probe index.\<close>

fun observations_by_index ::
    "nat list \<Rightarrow> health_probe_observation list \<Rightarrow> (nat \<times> health_probe_observation) list result" where
  "observations_by_index seen [] = Inr []"
| "observations_by_index seen (ob # obs) =
     checkE (obs_index ob \<notin> set seen)
       (AuthorityConflict ''health observations contain a duplicate probe index'')
    (bindE (observations_by_index (obs_index ob # seen) obs) (\<lambda>rest. Inr ((obs_index ob, ob) # rest)))"

definition coherent_health_observation ::
    "job_health_probe \<Rightarrow> health_probe_observation \<Rightarrow> health_probe_observation result" where
  "coherent_health_observation probe ob =
     (case require_health_probe_semantics (jp_kind probe) (obs_outcome ob) (obs_reason ob) of
        Inl (ValueError m) \<Rightarrow> Inl (AuthorityConflict m)
      | Inl e \<Rightarrow> Inl e
      | Inr reason \<Rightarrow>
          Inr \<lparr>obs_index = jp_index probe, obs_kind = jp_kind probe, obs_target = jp_target probe,
               obs_outcome = obs_outcome ob, obs_reason = reason\<rparr>)"

fun match_observations ::
    "(nat \<times> health_probe_observation) list \<Rightarrow> job_health_probe list \<Rightarrow> health_probe_observation list result" where
  "match_observations by_index [] = Inr []"
| "match_observations by_index (p # ps) =
     (case map_of by_index (jp_index p) of
        None \<Rightarrow> Inl (AuthorityConflict ''health observations are missing a frozen probe'')
      | Some ob \<Rightarrow>
          checkE (obs_kind ob = jp_kind p \<and> obs_target ob = jp_target p)
            (AuthorityConflict ''a health observation does not describe the frozen probe at its index'')
         (bindE (coherent_health_observation p ob) (\<lambda>x.
          bindE (match_observations by_index ps) (\<lambda>rest. Inr (x # rest)))))"

definition match_health_observations_to_frozen_probes ::
    "job_health_probe list \<Rightarrow> health_probe_observation list \<Rightarrow> health_probe_observation list result" where
  "match_health_observations_to_frozen_probes probes observations =
     checkE (length observations = length probes)
       (AuthorityConflict ''health observations do not cover exactly the frozen probe set'')
    (bindE (observations_by_index [] observations) (\<lambda>by_index. match_observations by_index probes))"

definition require_coherent_frozen_health_contract :: "authority_db \<Rightarrow> uuid \<Rightarrow> job_health_probe list result" where
  "require_coherent_frozen_health_contract db i =
     bindE (require_package_update_job_row db i) (\<lambda>row.
     bindE (package_update_job_health db row) (\<lambda>(probes, _).
     checkE (probes \<noteq> []) (AuthorityInvariantError ''package update job has no frozen health contract'')
       (Inr probes)))"

section \<open>When the authority of a job is current\<close>

lemma job_plan_detail_current:
  "job_plan_detail db j = Inr (AUTH_CURRENT, r) \<longleftrightarrow>
     r = None \<and> \<not> post_update_package_scan_is_pending db (job_resource_id j)
     \<and> (\<exists>current. latest_package_scan_row db (job_resource_id j) = Some current
          \<and> scan_succeeded current \<and> scan_ctx current = jctx j
          \<and> package_scan_is_current_and_approvable db current = Inr True
          \<and> successful_package_scan_fingerprint db current = Inr (approved_plan_fingerprint (iss j))
          \<and> scan_material db (scan_run_id current) \<noteq> []
          \<and> set (scan_material db (scan_run_id current)) = set (job_material db (jid j))
          \<and> frozen_health_contract_drift db j = Inr None)"
  by (auto simp: job_plan_detail_def result_iffs package_scan_context_matches_job_def scan_succeeded_def
      split: option.splits if_splits)

lemma authority_detail_current:
  "package_update_job_current_authority_detail t j db = Inr ((AUTH_CURRENT, r), db') \<longleftrightarrow>
     status j = ACTIVE \<and> expected_resource_type (iss j) = ''lxc'' \<and> r = None
     \<and> (\<exists>b. materialize_due_expiry (cx_inventory_source_id (jctx j)) t None None db = Inr (b, db'))
     \<and> package_scan_context_is_current db' (jctx j)
     \<and> package_scan_source_context_is_current db' (jctx j) = Inr True
     \<and> \<not> post_update_package_scan_is_pending db' (job_resource_id j)
     \<and> (\<exists>current. latest_package_scan_row db' (job_resource_id j) = Some current
          \<and> scan_succeeded current \<and> scan_ctx current = jctx j
          \<and> package_scan_is_current_and_approvable db' current = Inr True
          \<and> successful_package_scan_fingerprint db' current = Inr (approved_plan_fingerprint (iss j))
          \<and> scan_material db' (scan_run_id current) \<noteq> []
          \<and> set (scan_material db' (scan_run_id current)) = set (job_material db' (jid j))
          \<and> frozen_health_contract_drift db' j = Inr None)"
  by (auto simp: package_update_job_current_authority_detail_def result_iffs job_plan_detail_current
      split: if_splits)

lemma authority_is_current_True:
  "package_update_job_authority_is_current t j db = Inr (True, db') \<longleftrightarrow>
     (\<exists>r. package_update_job_current_authority_detail t j db = Inr ((AUTH_CURRENT, r), db'))"
  by (cases "package_update_job_current_authority_detail t j db")
    (auto simp: package_update_job_authority_is_current_def split: if_splits option.splits prod.splits)

end
