(* ===== verification/Job_Lifecycle.thy ===== *)
theory Job_Lifecycle
  imports Authority_Store
begin

text \<open>
  The durable life of one package update job, as an abstract machine: \<open>job_transition\<close> has one
  rule per UPDATE statement on \<open>package_update_jobs\<close> in \<open>app/inventory/authority.py\<close>, with the
  guards of its WHERE clause. The operations of the authority are shown to refine this machine
  (theory \<open>Authority_Effects\<close>); here are the laws of the machine itself: it never goes back in
  the checkpoint order, never rewrites a recorded fact, never leaves a terminal row and keeps the
  CHECK constraints whenever the values it records are well formed.
\<close>

definition terminate_job :: "job_status \<Rightarrow> time \<Rightarrow> string \<Rightarrow> job \<Rightarrow> job" where
  "terminate_job st t reason j = j\<lparr>status := st, terminalized_at := Some t, terminal_reason := Some reason\<rparr>"

text \<open>The checkpoints at which a job may be released as blocked, and on what condition.\<close>

definition blockable :: "job \<Rightarrow> bool" where
  "blockable j \<longleftrightarrow>
     job_checkpoint j \<in> {SNAPSHOT_MAY_HAVE_STARTED, SNAPSHOT_CONFIRMED}
     \<or> (job_checkpoint j = MUTATION_MAY_HAVE_STARTED \<and> mutation_completed_at j = None)
     \<or> (job_checkpoint j = ROLLBACK_MAY_HAVE_STARTED \<and> rollback_completed_at j = None
          \<and> rollback_task_upid j = None)"

definition interruptible :: "checkpoint \<Rightarrow> bool" where
  "interruptible c \<longleftrightarrow> c \<in> {ISSUED, PREFLIGHT_PASSED, SNAPSHOT_CONFIRMED}"

definition rollback_armable :: "job \<Rightarrow> bool" where
  "rollback_armable j \<longleftrightarrow>
     job_checkpoint j \<in> {MUTATION_MAY_HAVE_STARTED, MUTATION_COMPLETED, HEALTH_STARTED, HEALTH_COMPLETED}
     \<and> job_health_outcome j \<in> {None, Some HEALTH_FAILED}
     \<and> rollback_operation_id j = None \<and> rollback_may_have_started_at j = None"

inductive job_transition :: "job \<Rightarrow> job \<Rightarrow> bool" where
  preflight: "status j = ACTIVE \<Longrightarrow> job_checkpoint j = ISSUED \<Longrightarrow>
    job_transition j (j\<lparr>job_checkpoint := PREFLIGHT_PASSED\<rparr>)"
| snapshot_intent: "status j = ACTIVE \<Longrightarrow> job_checkpoint j = PREFLIGHT_PASSED \<Longrightarrow>
    snapshot_operation_id j = None \<Longrightarrow>
    job_transition j (j\<lparr>job_checkpoint := SNAPSHOT_MAY_HAVE_STARTED, snapshot_operation_id := Some oid,
      snapshot_name := Some name, snapshot_intent_recorded_at := Some t\<rparr>)"
| snapshot_task: "status j = ACTIVE \<Longrightarrow> job_checkpoint j = SNAPSHOT_MAY_HAVE_STARTED \<Longrightarrow>
    snapshot_task_upid j = None \<Longrightarrow>
    job_transition j (j\<lparr>snapshot_task_upid := Some upid\<rparr>)"
| snapshot_confirmed: "status j = ACTIVE \<Longrightarrow> job_checkpoint j = SNAPSHOT_MAY_HAVE_STARTED \<Longrightarrow>
    snapshot_confirmed_at j = None \<Longrightarrow>
    job_transition j (j\<lparr>job_checkpoint := SNAPSHOT_CONFIRMED, snapshot_confirmed_at := Some t\<rparr>)"
| blocked: "status j = ACTIVE \<Longrightarrow> blockable j \<Longrightarrow> job_transition j (terminate_job BLOCKED t reason j)"
| interrupted: "status j = ACTIVE \<Longrightarrow> interruptible (job_checkpoint j) \<Longrightarrow>
    job_transition j (terminate_job INTERRUPTED t reason j)"
| mutation_armed: "status j = ACTIVE \<Longrightarrow> job_checkpoint j = SNAPSHOT_CONFIRMED \<Longrightarrow>
    mutation_operation_id j = None \<Longrightarrow> mutation_may_have_started_at j = None \<Longrightarrow>
    accepted_prepared_evidence_digest j = None \<Longrightarrow>
    job_transition j (j\<lparr>job_checkpoint := MUTATION_MAY_HAVE_STARTED, mutation_operation_id := Some oid,
      mutation_may_have_started_at := Some t, accepted_prepared_evidence_digest := Some digest\<rparr>)"
| mutation_completed: "status j = ACTIVE \<Longrightarrow> job_checkpoint j = MUTATION_MAY_HAVE_STARTED \<Longrightarrow>
    mutation_completed_at j = None \<Longrightarrow>
    job_transition j (j\<lparr>job_checkpoint := MUTATION_COMPLETED, mutation_completed_at := Some t\<rparr>)"
| health_started: "status j = ACTIVE \<Longrightarrow> job_checkpoint j = MUTATION_COMPLETED \<Longrightarrow>
    mutation_completed_at j \<noteq> None \<Longrightarrow> health_started_at j = None \<Longrightarrow>
    job_transition j (j\<lparr>job_checkpoint := HEALTH_STARTED, health_started_at := Some t\<rparr>)"
| health_passed: "status j = ACTIVE \<Longrightarrow> job_checkpoint j = HEALTH_STARTED \<Longrightarrow>
    health_completed_at j = None \<Longrightarrow>
    job_transition j (terminate_job SUCCEEDED t reason
      (j\<lparr>job_checkpoint := HEALTH_COMPLETED, health_completed_at := Some t,
         job_health_outcome := Some HEALTH_PASSED\<rparr>))"
| health_failed: "status j = ACTIVE \<Longrightarrow> job_checkpoint j = HEALTH_STARTED \<Longrightarrow>
    health_completed_at j = None \<Longrightarrow>
    job_transition j (j\<lparr>job_checkpoint := HEALTH_COMPLETED, health_completed_at := Some t,
      job_health_outcome := Some HEALTH_FAILED\<rparr>)"
| rollback_armed: "status j = ACTIVE \<Longrightarrow> rollback_armable j \<Longrightarrow>
    job_transition j (j\<lparr>job_checkpoint := ROLLBACK_MAY_HAVE_STARTED, rollback_operation_id := Some oid,
      rollback_may_have_started_at := Some t\<rparr>)"
| rollback_task: "status j = ACTIVE \<Longrightarrow> job_checkpoint j = ROLLBACK_MAY_HAVE_STARTED \<Longrightarrow>
    rollback_task_upid j = None \<Longrightarrow>
    job_transition j (j\<lparr>rollback_task_upid := Some upid\<rparr>)"
| rollback_completed: "status j = ACTIVE \<Longrightarrow> job_checkpoint j = ROLLBACK_MAY_HAVE_STARTED \<Longrightarrow>
    rollback_completed_at j = None \<Longrightarrow> rollback_task_upid j \<noteq> None \<Longrightarrow>
    job_transition j (terminate_job ROLLED_BACK t reason
      (j\<lparr>job_checkpoint := ROLLBACK_COMPLETED, rollback_completed_at := Some t\<rparr>))"

inductive_cases job_transitionE: "job_transition j j'"

lemma terminate_job_sel [simp]:
  "iss (terminate_job st t r j) = iss j" "status (terminate_job st t r j) = st"
  "job_checkpoint (terminate_job st t r j) = job_checkpoint j"
  "terminalized_at (terminate_job st t r j) = Some t"
  "terminal_reason (terminate_job st t r j) = Some r"
  by (simp_all add: terminate_job_def)

section \<open>Laws of the machine\<close>

lemma transition_active: "job_transition j j' \<Longrightarrow> status j = ACTIVE"
  by (erule job_transition.cases) auto

lemma transition_issuance: "job_transition j j' \<Longrightarrow> iss j' = iss j"
  by (erule job_transition.cases) auto

lemma transition_rank:
  "job_transition j j' \<Longrightarrow> checkpoint_rank (job_checkpoint j) \<le> checkpoint_rank (job_checkpoint j')"
  by (erule job_transition.cases) (auto simp: rollback_armable_def)

lemma transition_progress:
  "job_transition j j' \<Longrightarrow>
     job_checkpoint j < job_checkpoint j' \<or> status j' \<noteq> ACTIVE
     \<or> (snapshot_task_upid j = None \<and> snapshot_task_upid j' \<noteq> None)
     \<or> (rollback_task_upid j = None \<and> rollback_task_upid j' \<noteq> None)"
  by (erule job_transition.cases) (auto simp: rollback_armable_def less_checkpoint_def)

text \<open>
  A well-formed row satisfies the CHECK constraints and names a snapshot only together with its
  operation. The schema alone admits a name without an operation; no transition records one.
\<close>

definition job_wf :: "job \<Rightarrow> bool" where
  "job_wf j \<longleftrightarrow> job_checks j \<and> (snapshot_operation_id j = None \<longrightarrow> snapshot_name j = None)"

text \<open>The part of it that does not depend on the recorded values: which facts are there at which checkpoint.\<close>

definition job_shape :: "job \<Rightarrow> bool" where
  "job_shape j \<longleftrightarrow>
     job_terminal_checks j \<and> job_snapshot_checks j \<and> job_mutation_checks j \<and> job_health_checks j
     \<and> job_rollback_checks j \<and> job_outcome_checks j
     \<and> (snapshot_operation_id j = None \<longrightarrow> snapshot_name j = None)"

lemma job_wf_shape: "job_wf j \<longleftrightarrow> job_issuance_checks (iss j) \<and> job_column_checks j \<and> job_shape j"
  unfolding job_wf_def job_checks_def job_shape_def by blast

lemma issued_job_sel [simp]:
  "iss (issued_job i) = i" "status (issued_job i) = ACTIVE" "job_checkpoint (issued_job i) = ISSUED"
  by (simp_all add: issued_job_def)

lemma issued_job_wf: "job_wf (issued_job i) \<longleftrightarrow> job_issuance_checks i"
  by (simp add: job_wf_def job_checks_defs issued_job_def)

lemma transition_write_once:
  assumes "job_transition j j'" "job_shape j"
  shows "job_write_once j j'"
  using assms
  by (cases rule: job_transition.cases)
    (auto simp: job_shape_def job_write_once_def terminate_job_def job_snapshot_checks_def
      job_mutation_checks_def job_rollback_checks_def job_health_checks_def rollback_armable_def)

lemma rollback_armable_facts:
  "rollback_armable j \<Longrightarrow>
     (checkpoint_rank (job_checkpoint j) = 5 \<or> checkpoint_rank (job_checkpoint j) = 6 \<or>
      checkpoint_rank (job_checkpoint j) = 7 \<or> checkpoint_rank (job_checkpoint j) = 8)
      \<and> job_health_outcome j \<noteq> Some HEALTH_PASSED
     \<and> rollback_operation_id j = None \<and> rollback_may_have_started_at j = None"
  by (auto simp: rollback_armable_def)

text \<open>The CHECK groups one by one: what each needs of the row before.\<close>

lemma transition_terminal_checks:
  "job_transition j j' \<Longrightarrow> job_terminal_checks j \<Longrightarrow> job_terminal_checks j'"
  by (erule job_transition.cases) (simp_all add: job_terminal_checks_def terminate_job_def)

lemma transition_snapshot_checks:
  "job_transition j j' \<Longrightarrow> job_snapshot_checks j \<Longrightarrow> job_snapshot_checks j'"
  by (erule job_transition.cases; (drule rollback_armable_facts)?;
      simp add: job_snapshot_checks_def terminate_job_def del: not_None_eq;
      (elim conjE disjE)?; simp?; blast?)

lemma transition_mutation_checks:
  "job_transition j j' \<Longrightarrow> job_mutation_checks j \<Longrightarrow> job_mutation_checks j'"
  by (erule job_transition.cases; (drule rollback_armable_facts)?;
      simp add: job_mutation_checks_def terminate_job_def del: not_None_eq;
      (elim conjE disjE)?; simp?; blast?)

lemma transition_health_checks:
  "job_transition j j' \<Longrightarrow> job_mutation_checks j \<Longrightarrow> job_health_checks j \<Longrightarrow> job_health_checks j'"
  by (erule job_transition.cases; (drule rollback_armable_facts)?;
      simp add: job_health_checks_def job_mutation_checks_def terminate_job_def del: not_None_eq;
      (elim conjE disjE)?; simp?; blast?)

lemma mutation_reached:
  "job_snapshot_checks j \<Longrightarrow> job_mutation_checks j \<Longrightarrow> 5 \<le> checkpoint_rank (job_checkpoint j) \<Longrightarrow>
     snapshot_confirmed_at j \<noteq> None \<and> mutation_may_have_started_at j \<noteq> None"
  unfolding job_snapshot_checks_def job_mutation_checks_def by linarith

lemma transition_rollback_checks:
  "job_transition j j' \<Longrightarrow>
     (5 \<le> checkpoint_rank (job_checkpoint j) \<longrightarrow>
        snapshot_confirmed_at j \<noteq> None \<and> mutation_may_have_started_at j \<noteq> None) \<Longrightarrow>
     job_rollback_checks j \<Longrightarrow> job_rollback_checks j'"
  by (erule job_transition.cases; (drule rollback_armable_facts)?;
      simp add: job_rollback_checks_def terminate_job_def del: not_None_eq;
      (elim conjE disjE)?; simp?; blast?)

lemma transition_outcome_checks:
  "job_transition j j' \<Longrightarrow> job_mutation_checks j \<Longrightarrow> job_health_checks j \<Longrightarrow>
     job_outcome_checks j \<Longrightarrow> job_outcome_checks j'"
  by (erule job_transition.cases; (drule rollback_armable_facts)?;
      simp add: job_outcome_checks_def job_health_checks_def job_mutation_checks_def terminate_job_def
        blockable_def interruptible_def del: not_None_eq;
      (elim conjE disjE)?; simp?; blast?)

lemma transition_snapshot_name:
  assumes "job_transition j j'" "snapshot_operation_id j = None \<longrightarrow> snapshot_name j = None"
  shows "snapshot_operation_id j' = None \<longrightarrow> snapshot_name j' = None"
  using assms by (cases rule: job_transition.cases) (auto simp: terminate_job_def)

text \<open>
  Every transition keeps the shape; one whose recorded values satisfy the column constraints keeps
  the row well formed.
\<close>

lemma transition_shape:
  assumes "job_transition j j'" "job_shape j"
  shows "job_shape j'"
  using assms(2) transition_snapshot_name[OF assms(1)]
    transition_terminal_checks[OF assms(1)] transition_snapshot_checks[OF assms(1)]
    transition_mutation_checks[OF assms(1)] transition_health_checks[OF assms(1)]
    transition_rollback_checks[OF assms(1)] transition_outcome_checks[OF assms(1)] mutation_reached[of j]
  unfolding job_shape_def by metis

lemma transition_wf:
  assumes "job_transition j j'" "job_wf j" "job_column_checks j'"
  shows "job_wf j'"
  using assms transition_shape[OF assms(1)] transition_issuance[OF assms(1)] by (simp add: job_wf_shape)

end
