(* ===== verification/Authority_Body.thy ===== *)
theory Authority_Body
  imports Job_Authority Job_Lifecycle
begin

text \<open>
  The shape of an operation of \<open>InventoryAuthority\<close>: arguments checked first, one transaction over
  the store, then what happens after the commit. A transaction body is a state-passing function
  that may raise; the combinators below sequence bodies, and \<open>run_op\<close> runs one under
  \<open>_transaction\<close> so that a raised exception restores the database.

  Clock readings are the argument \<open>now\<close>: \<open>now k\<close> is what the k-th call of the injected clock in the
  operation returns. No relation between readings is assumed. The test seams
  (\<open>_after_package_update_authority_proof\<close> and the like) do nothing and have no counterpart.
\<close>

type_synonym 'a body = "authority_db \<Rightarrow> ('a \<times> authority_db) result"
type_synonym clock = "nat \<Rightarrow> time"

definition ret :: "'a \<Rightarrow> 'a body" where
  "ret x db = Inr (x, db)"

definition raise :: "exn \<Rightarrow> 'a body" where
  "raise e db = Inl e"

definition seq :: "'a body \<Rightarrow> ('a \<Rightarrow> 'b body) \<Rightarrow> 'b body" where
  "seq m f db = bindE (m db) (\<lambda>(x, db'). f x db')"

definition andthen :: "unit body \<Rightarrow> 'b body \<Rightarrow> 'b body" where
  "andthen m k = seq m (\<lambda>_. k)"

text \<open>\<open>if not condition: raise exc\<close>\<close>

definition need :: "bool \<Rightarrow> exn \<Rightarrow> 'a body \<Rightarrow> 'a body" where
  "need b e k = (if b then k else raise e)"

text \<open>A read of the open transaction, and a write.\<close>

definition fetch :: "(authority_db \<Rightarrow> 'a result) \<Rightarrow> 'a body" where
  "fetch f db = bindE (f db) (\<lambda>x. Inr (x, db))"

definition commit :: "(authority_db \<Rightarrow> authority_db result) \<Rightarrow> unit body" where
  "commit f db = bindE (f db) (\<lambda>db'. Inr ((), db'))"

definition pure :: "'a result \<Rightarrow> 'a body" where
  "pure r = fetch (\<lambda>_. r)"

definition log_event ::
    "uuid \<Rightarrow> time \<Rightarrow> event_level \<Rightarrow> checkpoint \<Rightarrow> event_type \<Rightarrow> string \<Rightarrow> json \<Rightarrow> unit body" where
  "log_event i t level stage etype message details =
     commit (append_package_update_job_event i t level stage etype message details)"

definition publish :: "time \<Rightarrow> unit body" where
  "publish t = commit (bump_global_revisions False True t)"

definition update_job :: "(job \<Rightarrow> bool) \<Rightarrow> (job \<Rightarrow> job) \<Rightarrow> string \<Rightarrow> unit body" where
  "update_job w s lost = commit (update_one_job w s (AuthorityConflict lost))"

definition job_row :: "uuid \<Rightarrow> job body" where
  "job_row i = fetch (\<lambda>db. require_package_update_job_row db i)"

definition run_op ::
    "'x result \<Rightarrow> ('x \<Rightarrow> 'a body) \<Rightarrow> ('x \<Rightarrow> 'a \<Rightarrow> authority_db \<Rightarrow> 'b result)
      \<Rightarrow> authority_db \<Rightarrow> authority_db \<times> 'b result" where
  "run_op args body after db =
     precheck args (\<lambda>x. afterwards (transaction (body x) db) (after x)) db"

text \<open>The usual end: \<open>return self._store.package_update_job(canonical_job_id)\<close>.\<close>

definition then_job :: "uuid \<Rightarrow> unit \<Rightarrow> authority_db \<Rightarrow> job_view result" where
  "then_job i u db = store_package_update_job db i"

definition job_arg :: "uuid \<Rightarrow> uuid result" where
  "job_arg i = require_uuid i ''job_id''"

definition job_and_reason :: "uuid \<Rightarrow> string \<Rightarrow> (uuid \<times> string) result" where
  "job_and_reason i reason =
     bindE (job_arg i) (\<lambda>j. bindE (require_text reason ''reason'' 500) (\<lambda>r. Inr (j, r)))"

text \<open>
  \<open>str(row[column])\<close> of the WHERE clause \<open>job_id=? AND status='active' AND checkpoint=?\<close>.
\<close>

definition owned_at :: "uuid \<Rightarrow> checkpoint \<Rightarrow> job \<Rightarrow> bool" where
  "owned_at i c j \<longleftrightarrow> jid j = i \<and> status j = ACTIVE \<and> job_checkpoint j = c"

definition STALE_CONTEXT :: string where
  "STALE_CONTEXT = ''package update job resource or source authority context is stale''"

definition TERMINAL_JOB :: string where
  "TERMINAL_JOB = ''package update job is terminal''"

section \<open>Results of bodies\<close>

lemma ret_iff [simp]: "ret x db = Inr (y, db') \<longleftrightarrow> y = x \<and> db' = db"
  by (auto simp: ret_def)

lemma ret_Inl [simp]: "ret x db \<noteq> Inl e"
  by (simp add: ret_def)

lemma raise_simps [simp]: "raise e db \<noteq> Inr z" "raise e db = Inl e' \<longleftrightarrow> e' = e"
  by (auto simp: raise_def)

lemma seq_Inr: "seq m f db = Inr (y, db'') \<longleftrightarrow> (\<exists>x db'. m db = Inr (x, db') \<and> f x db' = Inr (y, db''))"
  by (auto simp: seq_def bindE_Inr_iff)

lemma seq_Inl: "seq m f db = Inl e \<longleftrightarrow> m db = Inl e \<or> (\<exists>x db'. m db = Inr (x, db') \<and> f x db' = Inl e)"
  by (auto simp: seq_def bindE_Inl_iff)

lemma andthen_Inr:
  "andthen m k db = Inr (y, db'') \<longleftrightarrow> (\<exists>db'. m db = Inr ((), db') \<and> k db' = Inr (y, db''))"
  by (auto simp: andthen_def seq_Inr)

lemma need_Inr: "need b e k db = Inr z \<longleftrightarrow> b \<and> k db = Inr z"
  by (auto simp: need_def)

lemma fetch_Inr: "fetch f db = Inr (x, db') \<longleftrightarrow> f db = Inr x \<and> db' = db"
  by (auto simp: fetch_def bindE_Inr_iff)

lemma commit_Inr: "commit f db = Inr (u, db') \<longleftrightarrow> f db = Inr db'"
  by (auto simp: commit_def bindE_Inr_iff)

lemma pure_Inr: "pure r db = Inr (x, db') \<longleftrightarrow> r = Inr x \<and> db' = db"
  by (simp add: pure_def fetch_Inr)

lemma job_row_Inr: "job_row i db = Inr (j, db') \<longleftrightarrow> row_by jid i (jobs db) = Some j \<and> db' = db"
  by (auto simp: job_row_def fetch_Inr require_package_update_job_row_def split: option.splits)

lemmas body_iffs = seq_Inr andthen_Inr need_Inr fetch_Inr commit_Inr pure_Inr job_row_Inr

lemma run_op_state:
  "fst (run_op args body after db) =
     (case args of Inl _ \<Rightarrow> db | Inr x \<Rightarrow> (case body x db of Inl _ \<Rightarrow> db | Inr r \<Rightarrow> snd r))"
  by (auto simp: run_op_def precheck_def afterwards_def transaction_def split: sum.splits prod.splits)

lemma run_op_Inr:
  "run_op args body after db = (db', Inr y) \<longleftrightarrow>
     (\<exists>x a. args = Inr x \<and> body x db = Inr (a, db') \<and> after x a db' = Inr y)"
  by (auto simp: run_op_def precheck_def afterwards_def transaction_def result_iffs
      split: sum.splits prod.splits)

lemma run_op_cases:
  obtains (kept) "fst (run_op args body after db) = db"
  | (committed) x a db' where "args = Inr x" "body x db = Inr (a, db')"
      "fst (run_op args body after db) = db'"
  by (cases args; cases "body (projr args) db") (auto simp: run_op_state)

lemma run_op_inv:
  assumes "P db" "\<And>x a db'. args = Inr x \<Longrightarrow> body x db = Inr (a, db') \<Longrightarrow> P db'"
  shows "P (fst (run_op args body after db))"
  by (rule run_op_cases[of args body after db]) (use assms in auto)

lemma run_op_kept:
  assumes "\<And>x a db'. args = Inr x \<Longrightarrow> body x db = Inr (a, db') \<Longrightarrow> db' = db \<and> P a"
  shows "fst (run_op args body after db) = db"
    and "snd (run_op args body after db) = Inr y \<Longrightarrow> \<exists>x a. args = Inr x \<and> P a \<and> after x a db = Inr y"
proof -
  show kept: "fst (run_op args body after db) = db"
    by (rule run_op_cases[of args body after db]) (use assms in blast)+
  show "\<exists>x a. args = Inr x \<and> P a \<and> after x a db = Inr y" if "snd (run_op args body after db) = Inr y"
  proof -
    from that kept have "run_op args body after db = (db, Inr y)" by (metis prod.collapse)
    with assms show ?thesis unfolding run_op_Inr by blast
  qed
qed

end
