(* ===== verification/Product_Fence.thy ===== *)
theory Product_Fence
  imports Authority_Body
begin

text \<open>
  The product update maintenance fence (\<open>app/inventory/product_update_fence.py\<close>) and its
  acquisition (\<open>acquire_product_update_maintenance_fence\<close> of \<open>app/inventory/authority.py\<close>). The
  fence is a file beside the database: absent, unreadable, or content of some size that does or
  does not decode to a JSON value. \<open>os.replace\<close> makes the write atomic, but the write can still
  raise after it, when the directory cannot be synced; \<open>fence_write\<close> is what the file system does.
\<close>

section \<open>Timestamps as text\<close>

definition two_digits :: "nat \<Rightarrow> string" where
  "two_digits n = [''0123456789'' ! (n div 10 mod 10), ''0123456789'' ! (n mod 10)]"

definition zero_padded :: "nat \<Rightarrow> nat \<Rightarrow> string" where
  "zero_padded w n = replicate (w - length (decimal_nat n)) (CHR ''0'') @ decimal_nat n"

text \<open>The proleptic Gregorian date of a day number counted from 1970-01-01.\<close>

definition civil_from_days :: "int \<Rightarrow> int \<times> int \<times> int" where
  "civil_from_days z0 =
     (let z = z0 + 719468;
          era = z div 146097;
          doe = z mod 146097;
          yoe = (doe - doe div 1460 + doe div 36524 - doe div 146096) div 365;
          doy = doe - (365 * yoe + yoe div 4 - yoe div 100);
          mp = (5 * doy + 2) div 153;
          d = doy - (153 * mp + 2) div 5 + 1;
          m = (if mp < 10 then mp + 3 else mp - 9);
          y = yoe + era * 400 + (if m \<le> 2 then 1 else 0)
      in (y, m, d))"

text \<open>\<open>_timestamp\<close>: \<open>value.astimezone(UTC).isoformat()\<close> of an instant in microseconds.\<close>

definition timestamp_text :: "time \<Rightarrow> string" where
  "timestamp_text t =
     (let seconds = t div 1000000; micros = nat (t mod 1000000);
          s = nat (seconds mod 86400);
          (y, m, d) = civil_from_days (seconds div 86400)
      in zero_padded 4 (nat y) @ ''-'' @ two_digits (nat m) @ ''-'' @ two_digits (nat d) @ ''T''
         @ two_digits (s div 3600) @ '':'' @ two_digits (s div 60 mod 60) @ '':'' @ two_digits (s mod 60)
         @ (if micros = 0 then [] else ''.'' @ zero_padded 6 micros) @ ''+00:00'')"

section \<open>The fence file\<close>

definition MAX_FENCE_BYTES :: nat where "MAX_FENCE_BYTES = 4096"

record maintenance_fence =
  fence_holder :: string
  fence_acquired_at :: string

datatype fence_file =
    FenceAbsent
  | FenceUnreadable string
  | FenceContent nat "json option"

datatype fence_write = FenceWritten | FenceFailedBeforeReplace | FenceFailedAfterReplace

definition is_holder_char :: "char \<Rightarrow> bool" where
  "is_holder_char c \<longleftrightarrow> is_ascii_digit c \<or> is_upper_alpha c \<or> is_lower_alpha c \<or> c = CHR ''-''"

text \<open>\<open>^[0-9A-Za-z-]{1,64}$\<close> with \<open>fullmatch\<close>.\<close>

definition require_fence_holder :: "string \<Rightarrow> string result" where
  "require_fence_holder holder =
     checkE (1 \<le> length holder \<and> length holder \<le> 64 \<and> list_all is_holder_char holder)
       (ValueError ''product update fence holder is malformed'') (Inr holder)"

text \<open>\<open>dict.get\<close>; the members of a decoded object have pairwise different keys.\<close>

definition json_get :: "(string \<times> json) list \<Rightarrow> string \<Rightarrow> json" where
  "json_get members key = (case map_of members key of None \<Rightarrow> JNull | Some v \<Rightarrow> v)"

definition read_product_update_fence :: "fence_file \<Rightarrow> maintenance_fence option result" where
  "read_product_update_fence file =
     (case file of
        FenceAbsent \<Rightarrow> Inr None
      | FenceUnreadable why \<Rightarrow>
          Inl (ProductUpdateFenceError (''product update maintenance fence is unreadable: '' @ why))
      | FenceContent bytes decoded \<Rightarrow>
          checkE (bytes \<le> MAX_FENCE_BYTES)
            (ProductUpdateFenceError ''product update maintenance fence exceeds its structural bound'')
         (case decoded of
            None \<Rightarrow> Inl (ProductUpdateFenceError ''product update maintenance fence is malformed'')
          | Some (JObj members) \<Rightarrow>
              (case (json_get members ''holder'', json_get members ''acquired_at'') of
                 (JStr holder, JStr acquired_at) \<Rightarrow>
                   (case require_fence_holder holder of
                      Inl _ \<Rightarrow> Inl (ProductUpdateFenceError ''product update maintenance fence names a malformed holder'')
                    | Inr _ \<Rightarrow> Inr (Some \<lparr>fence_holder = holder, fence_acquired_at = acquired_at\<rparr>))
               | _ \<Rightarrow> Inl (ProductUpdateFenceError ''product update maintenance fence does not name a holder''))
          | Some _ \<Rightarrow> Inl (ProductUpdateFenceError ''product update maintenance fence is not an object'')))"

definition fence_payload :: "maintenance_fence \<Rightarrow> json" where
  "fence_payload f = JObj [(''holder'', JStr (fence_holder f)), (''acquired_at'', JStr (fence_acquired_at f))]"

definition write_product_update_fence ::
    "fence_write \<Rightarrow> maintenance_fence \<Rightarrow> fence_file \<Rightarrow> fence_file \<times> unit result" where
  "write_product_update_fence io f file =
     (let written = FenceContent (length (json_dumps (fence_payload f))) (Some (fence_payload f));
          failed = Inl (ProductUpdateFenceError ''product update maintenance fence could not be written'')
      in case io of
           FenceWritten \<Rightarrow> (written, Inr ())
         | FenceFailedBeforeReplace \<Rightarrow> (file, failed)
         | FenceFailedAfterReplace \<Rightarrow> (written, failed))"

text \<open>
  \<open>acquire_product_update_maintenance_fence\<close>. The transaction reads the job table and writes
  nothing to the database; what it changes is the file.
\<close>

definition acquire_product_update_maintenance_fence ::
    "clock \<Rightarrow> fence_write \<Rightarrow> string \<Rightarrow> authority_db \<Rightarrow> fence_file \<Rightarrow> fence_file \<times> maintenance_fence result" where
  "acquire_product_update_maintenance_fence now io holder db file =
     (case require_fence_holder holder of
        Inl e \<Rightarrow> (file, Inl e)
      | Inr canonical_holder \<Rightarrow>
          (case read_product_update_fence file of
             Inl e \<Rightarrow> (file, Inl e)
           | Inr (Some existing) \<Rightarrow>
               (file, checkE (fence_holder existing = canonical_holder)
                  (AuthorityConflict (''another Hubinet product update already holds the maintenance fence (holder ''
                     @ fence_holder existing @ '', acquired '' @ fence_acquired_at existing @ '')''))
                  (Inr existing))
           | Inr None \<Rightarrow>
               (case active_jobs (jobs db) of
                  j # _ \<Rightarrow>
                    (file, Inl (AuthorityConflict (''a workload package update job is ACTIVE ('' @ jid j
                       @ '' at checkpoint '' @ checkpoint_value (job_checkpoint j)
                       @ ''); a Hubinet product update may not begin until it completes or is rolled back'')))
                | [] \<Rightarrow>
                    (let fence = \<lparr>fence_holder = canonical_holder, fence_acquired_at = timestamp_text (now 0)\<rparr>;
                         (file', written) = write_product_update_fence io fence file
                     in (file', bindE written (\<lambda>_. Inr fence))))))"

end
