(* ===== verification/Job_Issuance.thy ===== *)
theory Job_Issuance
  imports Product_Fence
begin

text \<open>
  Issuing a package update job: the closed set of refusals
  (\<open>app/inventory/package_update_issuance.py\<close>) and \<open>issue_package_update_job\<close> of
  \<open>app/inventory/authority.py\<close>, from the idempotent request to the frozen probes, packages and job
  row. The new job's UUID is the argument \<open>fresh\<close>.
\<close>

definition PACKAGE_UPDATE_ISSUANCE_REFUSALS :: "string list" where
  "PACKAGE_UPDATE_ISSUANCE_REFUSALS =
     [''resource_not_current'', ''resource_unsupported'', ''no_current_approval'',
      ''approval_not_current'', ''approval_consumed'', ''plan_not_approved'', ''plan_empty'',
      ''health_contract_unconfigured'', ''health_contract_not_executable'', ''another_job_active'',
      ''request_id_conflict'', ''source_authority_unavailable'', ''product_update_in_progress'']"

text \<open>The constructor of the exception rejects a reason outside the set.\<close>

definition issuance_refused :: "string \<Rightarrow> string \<Rightarrow> exn" where
  "issuance_refused reason message =
     (if reason \<in> set PACKAGE_UPDATE_ISSUANCE_REFUSALS then PackageUpdateIssuanceRefused reason message
      else ValueError ''package update issuance refusal reason is outside the closed set'')"

text \<open>The plan an approval stands for and the latest plan, with everything that must still agree.\<close>

definition approved_plan :: "authority_db \<Rightarrow> uuid \<Rightarrow> uuid \<Rightarrow> (approval \<times> scan_run) result" where
  "approved_plan db resource_id approval =
     (case row_by appr_resource_id resource_id (approvals db) of
        None \<Rightarrow> Inl (issuance_refused ''no_current_approval''
                      ''package update job requires a current package plan approval'')
      | Some a \<Rightarrow>
          checkE (approval_id a = approval)
            (issuance_refused ''approval_not_current'' ''approval_id does not identify the current package plan approval'')
         (checkE (\<not> package_plan_approval_is_consumed db approval)
            (issuance_refused ''approval_consumed''
               ''package plan approval was already consumed by a successful package update job; approve the current plan again'')
         (bindE (require_package_scan_run_row db (appr_reviewed_scan_run_id a)) (\<lambda>reviewed.
          checkE (cx_resource_id (scan_ctx reviewed) = resource_id)
            (AuthorityInvariantError ''package plan approval references another resource'')
         (checkE (scan_succeeded reviewed)
            (AuthorityInvariantError ''package plan approval does not reference a successful exact plan'')
         (bindE (successful_package_scan_fingerprint db reviewed) (\<lambda>reviewed_fingerprint.
          checkE (reviewed_fingerprint = appr_plan_fingerprint a)
            (AuthorityInvariantError ''approved package plan fingerprint does not match reviewed exact rows'')
            (Inr (a, reviewed)))))))))"

definition current_plan :: "authority_db \<Rightarrow> uuid \<Rightarrow> approval \<Rightarrow> scan_run result" where
  "current_plan db resource_id a =
     (let unusable = (\<lambda>reason. issuance_refused reason ''latest package scan attempt is not a successful exact plan'')
      in case latest_package_scan_row db resource_id of
        None \<Rightarrow> Inl (unusable ''plan_not_approved'')
      | Some current \<Rightarrow>
          if \<not> scan_succeeded current then
            Inl (unusable (if scan_lifecycle current = SCAN_RUNNING then ''source_authority_unavailable''
                           else ''plan_not_approved''))
          else bindE (successful_package_scan_fingerprint db current) (\<lambda>fingerprint.
            checkE (fingerprint = appr_plan_fingerprint a)
              (issuance_refused ''plan_not_approved'' ''current package plan does not match the approved plan'')
              (Inr current)))"

definition executable_contract :: "authority_db \<Rightarrow> uuid \<Rightarrow> health_contract result" where
  "executable_contract db resource_id =
     bindE (resource_health_contract_of db resource_id) (\<lambda>declared.
       case declared of
         None \<Rightarrow> Inl (issuance_refused ''health_contract_unconfigured''
                       ''package update job requires a declared resource health contract'')
       | Some contract \<Rightarrow>
           (case require_health_contract_execution_eligible (hc_probes contract) of
              Inl (ValueError _) \<Rightarrow>
                Inl (issuance_refused ''health_contract_not_executable''
                       ''resource health contract is not executable for a package update job'')
            | Inl e \<Rightarrow> Inl e
            | Inr _ \<Rightarrow> Inr contract))"

section \<open>The inserted rows\<close>

definition next_issuance_sequence :: "authority_db \<Rightarrow> uuid \<Rightarrow> nat" where
  "next_issuance_sequence db resource_id =
     Suc (max_or_zero (map (\<lambda>j. issuance_sequence (iss j))
            (filter (\<lambda>j. job_resource_id j = resource_id) (jobs db))))"

definition new_issuance ::
    "authority_db \<Rightarrow> uuid \<Rightarrow> uuid \<Rightarrow> time \<Rightarrow> resource_target \<Rightarrow> approval \<Rightarrow> scan_run \<Rightarrow> nat
      \<Rightarrow> health_contract \<Rightarrow> job_issuance" where
  "new_issuance db fresh request t target a current packages contract =
     \<lparr>job_id = fresh, request_id = request, issued_at = t,
      issuance_sequence = next_issuance_sequence db (res_id (tg_resource target)),
      job_approval_id = approval_id a, approval_reviewed_scan_run_id = appr_reviewed_scan_run_id a,
      approved_plan_fingerprint = appr_plan_fingerprint a, approval_approved_at = appr_approved_at a,
      current_plan_scan_run_id = scan_run_id current, job_ctx = scan_ctx current,
      expected_resource_type = res_type (tg_resource target), package_count = packages,
      health_contract_revision = hc_revision contract, frozen_contract_fingerprint = hc_fingerprint contract,
      health_contract_probe_count = length (hc_probes contract)\<rparr>"

definition frozen_probe_rows :: "uuid \<Rightarrow> health_contract \<Rightarrow> job_probe_row list" where
  "frozen_probe_rows fresh contract =
     map (\<lambda>(n, p). \<lparr>jpr_job_id = fresh,
                     jpr_probe = \<lparr>jp_index = n, jp_kind = probe_kind p, jp_target = probe_target p\<rparr>\<rparr>)
       (enumerate 0 (hc_probes contract))"

definition frozen_package_rows :: "uuid \<Rightarrow> package_row list \<Rightarrow> package_row list" where
  "frozen_package_rows fresh rows = map (\<lambda>r. r\<lparr>prow_owner := fresh\<rparr>) rows"

text \<open>\<open>except sqlite3.IntegrityError\<close> around the INSERT of the job row.\<close>

definition insert_job_or_refuse :: "job \<Rightarrow> authority_db \<Rightarrow> authority_db result" where
  "insert_job_or_refuse j db =
     (case insert_job j db of
        Inl (IntegrityError _) \<Rightarrow>
          Inl (issuance_refused ''another_job_active'' ''another active package update job owns the global slot'')
      | r \<Rightarrow> r)"

definition issuance_details :: "job_issuance \<Rightarrow> json" where
  "issuance_details i =
     JObj [(''approval_reviewed_scan_run_id'', JStr (approval_reviewed_scan_run_id i)),
           (''current_plan_scan_run_id'', JStr (current_plan_scan_run_id i)),
           (''health_contract_revision'', JInt (health_contract_revision i)),
           (''health_contract_fingerprint'', JStr (frozen_contract_fingerprint i)),
           (''health_contract_probe_count'', JInt (int (health_contract_probe_count i)))]"

definition insert_issued_job ::
    "uuid \<Rightarrow> uuid \<Rightarrow> time \<Rightarrow> time \<Rightarrow> resource_target \<Rightarrow> approval \<Rightarrow> scan_run \<Rightarrow> uuid option body" where
  "insert_issued_job fresh request t t' target a current =
     seq (fetch (\<lambda>db. Inr (scan_packages_of (scan_run_id current) db))) (\<lambda>packages.
     need (packages \<noteq> []) (issuance_refused ''plan_empty'' ''package update job requires a non-empty exact plan'')
    (seq (fetch (\<lambda>db. executable_contract db (res_id (tg_resource target)))) (\<lambda>contract.
     seq (fetch (\<lambda>db. Inr (new_issuance db fresh request t target a current (length packages) contract))) (\<lambda>i.
     andthen (commit (executemany insert_job_probe (frozen_probe_rows fresh contract)))
    (andthen (commit (executemany insert_job_package (frozen_package_rows fresh packages)))
    (andthen (commit (insert_job_or_refuse (issued_job i)))
    (andthen (log_event fresh t INFO ISSUED EV_JOB_ISSUED ''package update job authority issued'' (issuance_details i))
    (andthen (publish t')
    (ret (Some fresh))))))))))"

section \<open>The operation\<close>

definition require_issuance_target :: "authority_db \<Rightarrow> uuid \<Rightarrow> resource_target result" where
  "require_issuance_target db resource_id =
     (case require_package_scan_target db resource_id of
        Inl (AuthorityConflict m) \<Rightarrow> Inl (issuance_refused ''resource_not_current'' m)
      | r \<Rightarrow> r)"

definition refuse_fence :: "maintenance_fence \<Rightarrow> exn" where
  "refuse_fence f =
     issuance_refused ''product_update_in_progress''
       (''a Hubinet product update holds the exclusive maintenance fence (holder '' @ fence_holder f
        @ '', acquired '' @ fence_acquired_at f
        @ ''); no workload update may start until it completes or is rolled back'')"

text \<open>A request that is not a replay: \<open>None\<close> when the current authority is rejected.\<close>

definition issue_new_job ::
    "clock \<Rightarrow> fence_file \<Rightarrow> uuid \<Rightarrow> uuid \<Rightarrow> uuid \<Rightarrow> uuid \<Rightarrow> uuid option body" where
  "issue_new_job now file fresh resource_id approval request =
     seq (pure (read_product_update_fence file)) (\<lambda>fence.
     need (fence = None) (refuse_fence (the fence))
    (seq (fetch (\<lambda>db. require_issuance_target db resource_id)) (\<lambda>target.
     need (res_type (tg_resource target) = ''lxc'')
       (issuance_refused ''resource_unsupported'' ''package update jobs support LXC resources only'')
    (seq (fetch (\<lambda>db. Inr (post_update_package_scan_is_pending db resource_id))) (\<lambda>pending.
     need (\<not> pending)
       (issuance_refused ''source_authority_unavailable''
          ''package plan authority is unavailable while the required post-update package refresh is pending'')
    (seq (fetch (\<lambda>db. approved_plan db resource_id approval)) (\<lambda>(a, reviewed).
     seq (fetch (\<lambda>db. current_plan db resource_id a)) (\<lambda>current.
     seq (materialize_due_expiry (cx_inventory_source_id (scan_ctx current)) (now 0) None None) (\<lambda>_.
     seq (fetch (\<lambda>db. package_scan_is_current_and_approvable db current)) (\<lambda>approvable.
     if \<not> (approvable \<and> package_scan_context_matches_reviewed current reviewed) then ret None
     else insert_issued_job fresh request (now 0) (now 1) target a current))))))))))"

definition issue_body ::
    "clock \<Rightarrow> fence_file \<Rightarrow> uuid \<Rightarrow> uuid \<times> uuid \<times> uuid \<Rightarrow> uuid option body" where
  "issue_body now file fresh = (\<lambda>(resource_id, approval, request).
     seq (fetch (\<lambda>db. Inr (row_by (\<lambda>j. request_id (iss j)) request (jobs db)))) (\<lambda>existing.
       case existing of
         Some j \<Rightarrow>
           need (job_resource_id j = resource_id \<and> job_approval_id (iss j) = approval)
             (issuance_refused ''request_id_conflict'' ''request_id was already used for another package update request'')
             (ret (Some (jid j)))
       | None \<Rightarrow> issue_new_job now file fresh resource_id approval request))"

definition issuance_args :: "uuid \<Rightarrow> uuid \<Rightarrow> uuid \<Rightarrow> (uuid \<times> uuid \<times> uuid) result" where
  "issuance_args resource_id approval request =
     bindE (require_uuid resource_id ''resource_id'') (\<lambda>r.
     bindE (require_uuid approval ''approval_id'') (\<lambda>a.
     bindE (require_uuid request ''request_id'') (\<lambda>q. Inr (r, a, q))))"

definition issue_package_update_job ::
    "clock \<Rightarrow> fence_file \<Rightarrow> uuid \<Rightarrow> uuid \<Rightarrow> uuid \<Rightarrow> uuid \<Rightarrow> authority_db \<Rightarrow> authority_db \<times> job_view result" where
  "issue_package_update_job now file fresh resource_id approval request =
     run_op (issuance_args resource_id approval request) (issue_body now file fresh)
       (\<lambda>_ issued db. case issued of
          None \<Rightarrow> Inl (issuance_refused ''plan_not_approved''
                        ''approved package plan or its current authority context is stale'')
        | Some i \<Rightarrow> store_package_update_job db i)"

end
