(* ===== verification/Snapshot_Operations.thy ===== *)
theory Snapshot_Operations
  imports Authority_Body
begin

text \<open>
  The operations of \<open>app/inventory/authority.py\<close> from a job's issuance to its confirmed pre-update
  snapshot: revalidation, preflight, the snapshot intent, the guarded submission, the observed
  task, confirmation, the uncertain and failed outcomes, the release before submission and the
  choice of a rollback target. A host callback is a function of the host's state; what it does to
  the host stays even when the transaction around it is rolled back.
\<close>

definition NOT_IN_SNAPSHOT :: string where
  "NOT_IN_SNAPSHOT = ''package update job is not inside a snapshot operation''"

definition require_in_snapshot :: "job \<Rightarrow> unit body" where
  "require_in_snapshot j =
     need (status j = ACTIVE) (AuthorityConflict TERMINAL_JOB)
    (need (job_checkpoint j = SNAPSHOT_MAY_HAVE_STARTED) (AuthorityConflict NOT_IN_SNAPSHOT) (ret ()))"

text \<open>After the commit: a job whose authority no longer holds is a conflict.\<close>

definition then_job_if_current :: "uuid \<Rightarrow> bool \<Rightarrow> authority_db \<Rightarrow> job_view result" where
  "then_job_if_current i holds db =
     checkE holds (AuthorityConflict STALE_CONTEXT) (store_package_update_job db i)"

section \<open>Revalidation and preflight\<close>

definition revalidate_body :: "clock \<Rightarrow> uuid \<Rightarrow> bool body" where
  "revalidate_body now i = seq (job_row i) (\<lambda>j. package_update_job_authority_is_current (now 0) j)"

definition revalidate_package_update_job ::
    "clock \<Rightarrow> uuid \<Rightarrow> authority_db \<Rightarrow> authority_db \<times> job_view result" where
  "revalidate_package_update_job now i = run_op (job_arg i) (revalidate_body now) then_job_if_current"

definition preflight_body :: "clock \<Rightarrow> uuid \<Rightarrow> bool body" where
  "preflight_body now i =
     seq (job_row i) (\<lambda>j.
     seq (package_update_job_authority_is_current (now 1) j) (\<lambda>holds.
     if \<not> holds then ret False
     else if job_checkpoint j = ISSUED then
       andthen (update_job (owned_at i ISSUED) (\<lambda>r. r\<lparr>job_checkpoint := PREFLIGHT_PASSED\<rparr>)
                  ''package update job preflight lost durable ownership'')
      (andthen (log_event i (now 0) INFO PREFLIGHT_PASSED EV_PREFLIGHT_PASSED
                  ''package update job preflight authority revalidated'' (JObj []))
      (andthen (publish (now 2)) (ret True)))
     else need (job_checkpoint j = PREFLIGHT_PASSED)
       (AuthorityConflict ''package update job has already advanced past preflight'') (ret True)))"

definition record_package_update_preflight_passed ::
    "clock \<Rightarrow> uuid \<Rightarrow> authority_db \<Rightarrow> authority_db \<times> job_view result" where
  "record_package_update_preflight_passed now i = run_op (job_arg i) (preflight_body now) then_job_if_current"

section \<open>Identity reads\<close>

definition package_update_snapshot_identity :: "uuid \<Rightarrow> authority_db \<Rightarrow> (string \<times> string) result" where
  "package_update_snapshot_identity i db =
     bindE (job_arg i) (\<lambda>i. bindE (require_package_update_job_row db i) (snapshot_identity_in_transaction db))"

definition package_update_snapshot_ownership :: "uuid \<Rightarrow> authority_db \<Rightarrow> snapshot_ownership result" where
  "package_update_snapshot_ownership i db =
     bindE (job_arg i) (\<lambda>i. bindE (require_package_update_job_row db i) (snapshot_ownership_in_transaction db))"

section \<open>Snapshot intent\<close>

definition commit_snapshot_intent :: "uuid \<Rightarrow> string \<Rightarrow> string \<Rightarrow> time \<Rightarrow> time \<Rightarrow> unit body" where
  "commit_snapshot_intent i oid name t t' =
     andthen (update_job (\<lambda>j. owned_at i PREFLIGHT_PASSED j \<and> snapshot_operation_id j = None)
                (\<lambda>j. j\<lparr>job_checkpoint := SNAPSHOT_MAY_HAVE_STARTED, snapshot_operation_id := Some oid,
                       snapshot_name := Some name, snapshot_intent_recorded_at := Some t\<rparr>)
                ''package update job snapshot intent lost durable ownership'')
    (andthen (log_event i t WARNING SNAPSHOT_MAY_HAVE_STARTED EV_SNAPSHOT_INTENT_RECORDED
                ''pre-update snapshot operation may be submitted from here on''
                (JObj [(''snapshot_operation_id'', JStr oid), (''snapshot_name'', JStr name)]))
     (publish t'))"

definition snapshot_intent_body :: "clock \<Rightarrow> uuid \<Rightarrow> bool body" where
  "snapshot_intent_body now i =
     seq (job_row i) (\<lambda>j.
     seq (package_update_job_authority_is_current (now 1) j) (\<lambda>holds.
     if \<not> holds then ret False
     else seq (fetch (\<lambda>db. snapshot_identity_in_transaction db j)) (\<lambda>(oid, name).
       if job_checkpoint j = PREFLIGHT_PASSED then
         andthen (commit_snapshot_intent i oid name (now 0) (now 2)) (ret True)
       else need (job_checkpoint j = SNAPSHOT_MAY_HAVE_STARTED)
         (AuthorityConflict ''package update job snapshot intent requires a passed preflight'') (ret True))))"

definition record_package_update_snapshot_intent ::
    "clock \<Rightarrow> uuid \<Rightarrow> authority_db \<Rightarrow> authority_db \<times> job_view result" where
  "record_package_update_snapshot_intent now i = run_op (job_arg i) (snapshot_intent_body now) then_job_if_current"

section \<open>Guarded submission\<close>

text \<open>
  A host callback inside the transaction: an exception of the callback rolls the transaction back;
  a body that does not authorise it commits and then refuses.
\<close>

definition run_submission ::
    "'x result \<Rightarrow> ('x \<Rightarrow> bool body) \<Rightarrow> exn \<Rightarrow> ('h \<Rightarrow> 't result \<times> 'h) \<Rightarrow> authority_db \<Rightarrow> 'h
      \<Rightarrow> authority_db \<times> 'h \<times> 't result" where
  "run_submission args body refused submit db h =
     (case args of
        Inl e \<Rightarrow> (db, h, Inl e)
      | Inr x \<Rightarrow>
          (case body x db of
             Inl e \<Rightarrow> (db, h, Inl e)
           | Inr (holds, db') \<Rightarrow>
               if \<not> holds then (db', h, Inl refused)
               else (case submit h of
                       (Inl e, h') \<Rightarrow> (db, h', Inl e)
                     | (Inr r, h') \<Rightarrow> (db', h', Inr r))))"

definition snapshot_submission_body :: "clock \<Rightarrow> uuid \<Rightarrow> bool body" where
  "snapshot_submission_body now i =
     seq (job_row i) (\<lambda>j.
     andthen (require_in_snapshot j)
     (package_update_job_authority_is_current (now 0) j))"

definition execute_snapshot_submission_if_current ::
    "clock \<Rightarrow> uuid \<Rightarrow> ('h \<Rightarrow> 't result \<times> 'h) \<Rightarrow> authority_db \<Rightarrow> 'h \<Rightarrow> authority_db \<times> 'h \<times> 't result" where
  "execute_snapshot_submission_if_current now i submit =
     run_submission (job_arg i) (snapshot_submission_body now)
       (SnapshotSubmissionRefusedBeforeCallback STALE_CONTEXT) submit"

section \<open>Observed task and confirmation\<close>

definition snapshot_task_body :: "clock \<Rightarrow> uuid \<times> string \<Rightarrow> unit body" where
  "snapshot_task_body now = (\<lambda>(i, upid).
     seq (job_row i) (\<lambda>j.
     andthen (require_in_snapshot j)
     (case snapshot_task_upid j of
        Some existing \<Rightarrow>
          need (existing = upid)
            (AuthorityConflict ''package update job already observed a different PVE snapshot task'') (ret ())
      | None \<Rightarrow>
          andthen (update_job (\<lambda>r. owned_at i SNAPSHOT_MAY_HAVE_STARTED r \<and> snapshot_task_upid r = None)
                     (\<lambda>r. r\<lparr>snapshot_task_upid := Some upid\<rparr>)
                     ''package update job snapshot task record lost durable ownership'')
          (log_event i (now 0) INFO SNAPSHOT_MAY_HAVE_STARTED EV_SNAPSHOT_TASK_OBSERVED
             ''observed the PVE task for this snapshot operation''
             (JObj [(''snapshot_task_upid'', JStr upid)])))))"

definition record_package_update_snapshot_task ::
    "clock \<Rightarrow> uuid \<Rightarrow> string \<Rightarrow> authority_db \<Rightarrow> authority_db \<times> job_view result" where
  "record_package_update_snapshot_task now i upid =
     run_op (bindE (job_arg i) (\<lambda>j. bindE (require_pve_upid upid) (\<lambda>u. Inr (j, u))))
       (snapshot_task_body now) (\<lambda>(i, _). then_job i)"

definition confirm_body :: "clock \<Rightarrow> observed_snapshot list \<Rightarrow> uuid \<Rightarrow> bool body" where
  "confirm_body now observed i =
     seq (job_row i) (\<lambda>j.
     seq (package_update_job_authority_is_current (now 1) j) (\<lambda>holds.
     if \<not> holds then ret False
     else if job_checkpoint j = SNAPSHOT_MAY_HAVE_STARTED then
       (let name = str_column (snapshot_name j) in
        seq (fetch (\<lambda>db. snapshot_ownership_in_transaction db j)) (\<lambda>expected.
        seq (pure (require_exactly_one_job_owned_snapshot i (Some name) observed expected)) (\<lambda>_.
        andthen (update_job (\<lambda>r. owned_at i SNAPSHOT_MAY_HAVE_STARTED r \<and> snapshot_confirmed_at r = None
                                 \<and> snapshot_name r = Some name)
                   (\<lambda>r. r\<lparr>job_checkpoint := SNAPSHOT_CONFIRMED, snapshot_confirmed_at := Some (now 0)\<rparr>)
                   ''package update job snapshot confirmation lost durable ownership'')
       (andthen (log_event i (now 0) INFO SNAPSHOT_CONFIRMED EV_SNAPSHOT_CONFIRMED
                   ''job-owned pre-update snapshot confirmed canonically''
                   (JObj [(''snapshot_name'', JStr name)]))
       (andthen (publish (now 2)) (ret True))))))
     else need (job_checkpoint j = SNAPSHOT_CONFIRMED) (AuthorityConflict NOT_IN_SNAPSHOT) (ret True)))"

definition confirm_package_update_snapshot ::
    "clock \<Rightarrow> uuid \<Rightarrow> observed_snapshot list \<Rightarrow> authority_db \<Rightarrow> authority_db \<times> job_view result" where
  "confirm_package_update_snapshot now i observed =
     run_op (job_arg i) (confirm_body now observed) then_job_if_current"

section \<open>Releases and failures\<close>

definition RETAINED_STALE :: string where
  "RETAINED_STALE = ''snapshot exists but current package authority became stale; retained but not authorized for rollback''"

text \<open>
  \<open>try: ... except AuthorityConflict\<close> around the authority decision: what the decision wrote to
  the open transaction before raising stays in it. The only such write is the materialised expiry.
\<close>

definition authority_or_false :: "time \<Rightarrow> job \<Rightarrow> bool body" where
  "authority_or_false t j db =
     (case package_update_job_current_authority_detail t j db of
        Inl e \<Rightarrow> if is_authority_conflict e then Inr (False, db) else Inl e
      | Inr ((state, _), db') \<Rightarrow> Inr (state = AUTH_CURRENT, db'))"

definition block_stale_body :: "clock \<Rightarrow> observed_snapshot list \<Rightarrow> uuid \<Rightarrow> bool body" where
  "block_stale_body now observed i =
     seq (job_row i) (\<lambda>j.
     andthen (require_in_snapshot j)
    (need (snapshot_confirmed_at j = None)
       (AuthorityInvariantError ''package update job snapshot confirmation is inconsistent'')
    (seq (fetch (\<lambda>db. snapshot_ownership_in_transaction db j)) (\<lambda>expected.
     seq (pure (require_exactly_one_job_owned_snapshot i (Some (str_column (snapshot_name j))) observed expected)) (\<lambda>_.
     seq (authority_or_false (now 0) j) (\<lambda>holds.
     if holds then ret False
     else
       andthen (update_job (\<lambda>r. owned_at i SNAPSHOT_MAY_HAVE_STARTED r \<and> snapshot_confirmed_at r = None)
                  (terminate_job BLOCKED (now 1) RETAINED_STALE)
                  ''stale-authority snapshot retention lost durable ownership'')
      (andthen (log_event i (now 1) WARNING SNAPSHOT_MAY_HAVE_STARTED EV_SNAPSHOT_RETAINED_AUTHORITY_STALE
                  RETAINED_STALE (JObj [(''snapshot_name'', JStr (str_column (snapshot_name j)))]))
      (andthen (publish (now 2)) (ret True)))))))))"

definition block_package_update_after_snapshot_success_with_stale_authority ::
    "clock \<Rightarrow> uuid \<Rightarrow> observed_snapshot list \<Rightarrow> authority_db \<Rightarrow> authority_db \<times> (bool \<times> job_view) result" where
  "block_package_update_after_snapshot_success_with_stale_authority now i observed =
     run_op (job_arg i) (block_stale_body now observed)
       (\<lambda>i blocked db. bindE (store_package_update_job db i) (\<lambda>v. Inr (blocked, v)))"

definition snapshot_uncertain_body :: "clock \<Rightarrow> uuid \<times> string \<Rightarrow> unit body" where
  "snapshot_uncertain_body now = (\<lambda>(i, reason).
     seq (job_row i) (\<lambda>j.
     andthen (require_in_snapshot j)
     (log_event i (now 0) ERROR SNAPSHOT_MAY_HAVE_STARTED EV_SNAPSHOT_OUTCOME_UNCERTAIN reason (JObj []))))"

definition record_package_update_snapshot_uncertain ::
    "clock \<Rightarrow> uuid \<Rightarrow> string \<Rightarrow> authority_db \<Rightarrow> authority_db \<times> job_view result" where
  "record_package_update_snapshot_uncertain now i reason =
     run_op (job_and_reason i reason) (snapshot_uncertain_body now) (\<lambda>(i, _). then_job i)"

text \<open>The scan of \<open>fail_package_update_snapshot\<close>: nothing observed may be this job's snapshot.\<close>

fun require_no_job_snapshot :: "uuid \<Rightarrow> string \<Rightarrow> observed_snapshot list \<Rightarrow> unit result" where
  "require_no_job_snapshot i name [] = Inr ()"
| "require_no_job_snapshot i name (s # ss) =
     (if os_is_current_pseudo_entry s then require_no_job_snapshot i name ss
      else
        checkE (os_name s \<noteq> name)
          (AuthorityConflict ''canonical PVE state still shows this job snapshot name; the snapshot operation outcome is uncertain, not failed'')
       (checkE (\<not> ((case os_ownership s of None \<Rightarrow> False | Some w \<Rightarrow> own_job_id w = i) \<or> os_ownership_malformed s))
          (AuthorityConflict ''canonical PVE state is ambiguous about this job snapshot; the outcome is uncertain, not failed'')
          (require_no_job_snapshot i name ss)))"

definition fail_snapshot_body :: "clock \<Rightarrow> observed_snapshot list \<Rightarrow> uuid \<times> string \<Rightarrow> unit body" where
  "fail_snapshot_body now observed = (\<lambda>(i, reason).
     seq (job_row i) (\<lambda>j.
     andthen (require_in_snapshot j)
    (seq (pure (require_no_job_snapshot i (str_column (snapshot_name j)) observed)) (\<lambda>_.
     andthen (update_job (owned_at i SNAPSHOT_MAY_HAVE_STARTED) (terminate_job BLOCKED (now 0) reason)
                ''package update job snapshot failure lost durable ownership'')
    (andthen (log_event i (now 0) ERROR SNAPSHOT_MAY_HAVE_STARTED EV_SNAPSHOT_FAILED reason (JObj []))
     (publish (now 1)))))))"

definition fail_package_update_snapshot ::
    "clock \<Rightarrow> uuid \<Rightarrow> string \<Rightarrow> observed_snapshot list \<Rightarrow> authority_db \<Rightarrow> authority_db \<times> job_view result" where
  "fail_package_update_snapshot now i reason observed =
     run_op (job_and_reason i reason) (fail_snapshot_body now observed) (\<lambda>(i, _). then_job i)"

section \<open>Release before submission\<close>

text \<open>
  A release runs a host callback that seals the operation, inside the transaction, and commits the
  block only on the sealed answer. \<open>check\<close> is what comes before the callback, \<open>block\<close> what a sealed
  answer commits.
\<close>

definition run_release ::
    "uuid \<Rightarrow> (uuid \<Rightarrow> unit body) \<Rightarrow> 's \<Rightarrow> (uuid \<Rightarrow> string \<Rightarrow> unit body)
      \<Rightarrow> ('h \<Rightarrow> ('s option \<times> string \<times> 't) result \<times> 'h) \<Rightarrow> authority_db \<Rightarrow> 'h
      \<Rightarrow> authority_db \<times> 'h \<times> (bool \<times> 't) result" where
  "run_release i check sealed block seal db h =
     (case job_arg i of
        Inl e \<Rightarrow> (db, h, Inl e)
      | Inr i \<Rightarrow>
          (case check i db of
             Inl e \<Rightarrow> (db, h, Inl e)
           | Inr (_, db') \<Rightarrow>
               (case seal h of
                  (Inl e, h') \<Rightarrow> (db, h', Inl e)
                | (Inr (state, reason, evidence), h') \<Rightarrow>
                    if state = Some sealed then
                      (case seq (pure (require_text reason ''reason'' 500)) (block i) db' of
                         Inl e \<Rightarrow> (db, h', Inl e)
                       | Inr (_, db'') \<Rightarrow> (db'', h', Inr (True, evidence)))
                    else (db', h', Inr (False, evidence)))))"

definition pre_submission_check :: "uuid \<Rightarrow> unit body" where
  "pre_submission_check i =
     seq (job_row i) (\<lambda>j.
     andthen (require_in_snapshot j)
    (need (snapshot_task_upid j = None)
       (AuthorityConflict ''package update job observed a PVE snapshot task, so its operation was submitted and cannot be released as unsubmitted'')
    (need (snapshot_confirmed_at j = None)
       (AuthorityInvariantError ''package update job snapshot confirmation is inconsistent'') (ret ()))))"

definition commit_pre_submission_block :: "clock \<Rightarrow> uuid \<Rightarrow> string \<Rightarrow> unit body" where
  "commit_pre_submission_block now i reason =
     andthen (update_job (\<lambda>r. owned_at i SNAPSHOT_MAY_HAVE_STARTED r \<and> snapshot_task_upid r = None
                              \<and> snapshot_confirmed_at r = None)
                (terminate_job BLOCKED (now 0) reason)
                ''package update job pre-submission block lost durable ownership'')
    (andthen (log_event i (now 0) WARNING SNAPSHOT_MAY_HAVE_STARTED EV_SNAPSHOT_BLOCKED_BEFORE_SUBMISSION
                reason (JObj []))
     (publish (now 1)))"

definition resolve_pre_submission_block ::
    "clock \<Rightarrow> uuid \<Rightarrow> ('h \<Rightarrow> (host_submission_state option \<times> string \<times> 't) result \<times> 'h)
      \<Rightarrow> authority_db \<Rightarrow> 'h \<Rightarrow> authority_db \<times> 'h \<times> (bool \<times> 't) result" where
  "resolve_pre_submission_block now i =
     run_release i pre_submission_check SNAP_SEALED_NOT_SUBMITTED (commit_pre_submission_block now)"

section \<open>The rollback target\<close>

record rollback_target =
  rt_job_id :: uuid
  rt_resource_id :: uuid
  rt_expected_vmid :: int
  rt_expected_node_name :: string
  rt_snapshot_name :: string
  rt_snapshot_operation_id :: string
  rt_snapshot_confirmed_at :: time

definition select_package_update_rollback_target ::
    "uuid \<Rightarrow> observed_snapshot list \<Rightarrow> authority_db \<Rightarrow> rollback_target result" where
  "select_package_update_rollback_target i observed db =
     bindE (job_arg i) (\<lambda>i.
     bindE (require_package_update_job_row db i) (\<lambda>row.
     bindE (snapshot_ownership_in_transaction db row) (\<lambda>expected.
     bindE (store_package_update_job db i) (\<lambda>view.
     (let j = jv_row view in
      checkE (status j = ACTIVE) (AuthorityConflict ''package update job is terminal and cannot roll back'')
     (case (snapshot_confirmed_at j, snapshot_name j) of
        (Some confirmed, Some name) \<Rightarrow>
          checkE (checkpoint_rank SNAPSHOT_CONFIRMED \<le> checkpoint_rank (job_checkpoint j))
            (AuthorityInvariantError ''package update job snapshot confirmation is inconsistent'')
         (bindE (require_exactly_one_job_owned_snapshot i (Some name) observed expected) (\<lambda>_.
            Inr \<lparr>rt_job_id = i, rt_resource_id = job_resource_id j,
                 rt_expected_vmid = cx_expected_vmid (jctx j),
                 rt_expected_node_name = cx_expected_node_name (jctx j), rt_snapshot_name = name,
                 rt_snapshot_operation_id = str_column (snapshot_operation_id j),
                 rt_snapshot_confirmed_at = confirmed\<rparr>))
      | _ \<Rightarrow> Inl (AuthorityConflict ''package update job has no confirmed job-owned snapshot'')))))))"

end
