(* ===== verification/Mutation_Operations.thy ===== *)
theory Mutation_Operations
  imports Snapshot_Operations
begin

text \<open>
  The execution gate and the package mutation of \<open>app/inventory/authority.py\<close>: the release of a
  job whose authority became stale, the comparison of the execution-time plan, arming with the
  accepted evidence digest, the guarded submission, the recorded outcomes, the release before
  submission and the completion on an independent proof.
\<close>

section \<open>The execution gate\<close>

definition require_active_execution_gate_job :: "job \<Rightarrow> unit body" where
  "require_active_execution_gate_job j =
     need (status j = ACTIVE) (AuthorityConflict TERMINAL_JOB)
    (need (job_checkpoint j = SNAPSHOT_CONFIRMED)
       (AuthorityConflict ''package update job is not awaiting the execution-time plan gate'') (ret ()))"

definition stale_release_reason :: "string option \<Rightarrow> string" where
  "stale_release_reason r =
     (let head = ''package update job'' @ [CHR 0x27] @ ''s current resource/source/approval authority became stale before package mutation''
      in (case r of Some why \<Rightarrow> head @ '' ('' @ why @ '')'' | None \<Rightarrow> head)
         @ ''; retained but released for a fresh plan and job'')"

text \<open>True when the job was released; a temporarily undecidable authority raises.\<close>

definition terminalize_execution_gate_job_if_authority_stale ::
    "time \<Rightarrow> time \<Rightarrow> time \<Rightarrow> job \<Rightarrow> bool body" where
  "terminalize_execution_gate_job_if_authority_stale decided_at t t' j =
     seq (package_update_job_current_authority_detail t j) (\<lambda>(state, why).
     case state of
       AUTH_CURRENT \<Rightarrow> ret False
     | AUTH_TEMPORARILY_UNAVAILABLE \<Rightarrow>
         raise (PackageUpdateExecutionAuthorityTemporarilyUnavailable
           (case why of Some r \<Rightarrow> r | None \<Rightarrow> ''package update execution authority is temporarily unavailable''))
     | AUTH_STALE \<Rightarrow>
         andthen (update_job (owned_at (jid j) SNAPSHOT_CONFIRMED)
                    (terminate_job BLOCKED decided_at (stale_release_reason why))
                    ''package update job stale-authority release lost durable ownership'')
        (andthen (log_event (jid j) decided_at WARNING SNAPSHOT_CONFIRMED EV_EXECUTION_AUTHORITY_STALE_RELEASED
                    (stale_release_reason why) (JObj []))
        (andthen (publish t') (ret True))))"

definition revalidate_or_release_body :: "clock \<Rightarrow> uuid \<Rightarrow> bool body" where
  "revalidate_or_release_body now i =
     seq (job_row i) (\<lambda>j.
     andthen (require_active_execution_gate_job j)
     (terminalize_execution_gate_job_if_authority_stale (now 0) (now 1) (now 2) j))"

definition revalidate_or_release_stale_package_update_execution ::
    "clock \<Rightarrow> uuid \<Rightarrow> authority_db \<Rightarrow> authority_db \<times> (bool \<times> job_view) result" where
  "revalidate_or_release_stale_package_update_execution now i =
     run_op (job_arg i) (revalidate_or_release_body now)
       (\<lambda>i released db. bindE (store_package_update_job db i) (\<lambda>v. Inr (\<not> released, v)))"

definition PLAN_MISMATCH :: string where
  "PLAN_MISMATCH = ''fresh execution-time APT simulation no longer exactly matches this job'' @ [CHR 0x27] @ ''s frozen approved material''"

text \<open>The frozen set of quadruples of a validated fresh plan.\<close>

definition fresh_material :: "package list \<Rightarrow> material list result" where
  "fresh_material packages =
     bindE (validate_package_plan packages) (\<lambda>plan. Inr (remdups (map package_material plan)))"

definition material_matches :: "material list \<Rightarrow> material list \<Rightarrow> bool" where
  "material_matches frozen fresh \<longleftrightarrow> frozen \<noteq> [] \<and> set frozen = set fresh"

definition block_plan_mismatch :: "uuid \<Rightarrow> time \<Rightarrow> time \<Rightarrow> nat \<Rightarrow> nat \<Rightarrow> string \<Rightarrow> unit body" where
  "block_plan_mismatch i decided_at t job_count fresh_count lost =
     andthen (update_job (owned_at i SNAPSHOT_CONFIRMED) (terminate_job BLOCKED decided_at PLAN_MISMATCH) lost)
    (andthen (log_event i decided_at ERROR SNAPSHOT_CONFIRMED EV_EXECUTION_PLAN_MISMATCH PLAN_MISMATCH
                (JObj [(''job_package_count'', JInt (int job_count)), (''fresh_package_count'', JInt (int fresh_count))]))
     (publish t))"

definition job_and_material :: "uuid \<Rightarrow> package list \<Rightarrow> (uuid \<times> material list) result" where
  "job_and_material i packages =
     bindE (job_arg i) (\<lambda>j. bindE (fresh_material packages) (\<lambda>m. Inr (j, m)))"

definition evaluate_plan_body :: "clock \<Rightarrow> uuid \<times> material list \<Rightarrow> execution_outcome body" where
  "evaluate_plan_body now = (\<lambda>(i, fresh).
     seq (job_row i) (\<lambda>j.
     andthen (require_active_execution_gate_job j)
    (seq (terminalize_execution_gate_job_if_authority_stale (now 0) (now 1) (now 2) j) (\<lambda>released.
     if released then ret AUTHORITY_STALE
     else seq (fetch (\<lambda>db. Inr (job_material db i))) (\<lambda>frozen.
       if material_matches frozen fresh then
         andthen (log_event i (now 0) INFO SNAPSHOT_CONFIRMED EV_EXECUTION_PLAN_VERIFIED
                    (''fresh execution-time APT simulation exactly matched this job'' @ [CHR 0x27] @ ''s frozen approved material'')
                    (JObj [(''package_count'', JInt (int (length frozen)))]))
         (ret MATCHED)
       else
         andthen (block_plan_mismatch i (now 0) (now 2) (length frozen) (length fresh)
                    ''package update job execution-plan mismatch lost durable ownership'')
         (ret MISMATCHED))))))"

definition evaluate_package_update_execution_plan ::
    "clock \<Rightarrow> uuid \<Rightarrow> package list \<Rightarrow> authority_db \<Rightarrow> authority_db \<times> (execution_outcome \<times> job_view) result" where
  "evaluate_package_update_execution_plan now i packages =
     run_op (job_and_material i packages) (evaluate_plan_body now)
       (\<lambda>(i, _) outcome db. bindE (store_package_update_job db i) (\<lambda>v. Inr (outcome, v)))"

section \<open>Request and arming\<close>

record mutation_request =
  mr_mutation_operation_id :: string
  mr_plan_fingerprint :: string
  mr_backend_instance_id :: uuid
  mr_job_id :: uuid
  mr_resource_id :: uuid
  mr_binding_id :: uuid
  mr_locator_generation :: int
  mr_resource_continuity_revision :: int
  mr_vmid :: int
  mr_expected_node :: string
  mr_packages :: "material list"

definition package_update_mutation_identity :: "uuid \<Rightarrow> authority_db \<Rightarrow> string result" where
  "package_update_mutation_identity i db =
     bindE (job_arg i) (\<lambda>i. bindE (require_package_update_job_row db i) (mutation_identity_in_transaction db))"

definition package_update_mutation_request :: "uuid \<Rightarrow> authority_db \<Rightarrow> mutation_request result" where
  "package_update_mutation_request i db =
     bindE (job_arg i) (\<lambda>i.
     bindE (require_package_update_job_row db i) (\<lambda>j.
     bindE (mutation_identity_in_transaction db j) (\<lambda>oid.
     (let packages = sort (job_material db i) in
      checkE (packages \<noteq> []) (AuthorityInvariantError ''package update job has no immutable approved material'')
        (Inr \<lparr>mr_mutation_operation_id = oid, mr_plan_fingerprint = approved_plan_fingerprint (iss j),
              mr_backend_instance_id = be_id (backend db), mr_job_id = i, mr_resource_id = job_resource_id j,
              mr_binding_id = cx_expected_binding_id (jctx j),
              mr_locator_generation = cx_expected_locator_generation (jctx j),
              mr_resource_continuity_revision = cx_expected_resource_continuity_revision (jctx j),
              mr_vmid = cx_expected_vmid (jctx j), mr_expected_node = cx_expected_node_name (jctx j),
              mr_packages = packages\<rparr>)))))"

definition commit_package_mutation_intent ::
    "uuid \<Rightarrow> string \<Rightarrow> time \<Rightarrow> time \<Rightarrow> nat \<Rightarrow> string \<Rightarrow> unit body" where
  "commit_package_mutation_intent i oid t t' packages digest =
     andthen (update_job (\<lambda>j. owned_at i SNAPSHOT_CONFIRMED j \<and> mutation_operation_id j = None
                              \<and> mutation_may_have_started_at j = None
                              \<and> accepted_prepared_evidence_digest j = None)
                (\<lambda>j. j\<lparr>job_checkpoint := MUTATION_MAY_HAVE_STARTED, mutation_operation_id := Some oid,
                       mutation_may_have_started_at := Some t,
                       accepted_prepared_evidence_digest := Some digest\<rparr>)
                ''package update job mutation intent lost durable ownership'')
    (andthen (log_event i t WARNING MUTATION_MAY_HAVE_STARTED EV_MUTATION_MAY_HAVE_STARTED
                ''real workload package mutation may be submitted from here on''
                (JObj [(''mutation_operation_id'', JStr oid), (''package_count'', JInt (int packages)),
                       (''accepted_prepared_evidence_digest'', JStr digest)]))
     (publish t'))"

definition arm_mutation_body ::
    "clock \<Rightarrow> uuid \<times> string \<times> material list \<Rightarrow> (execution_outcome \<times> mutation_arm_outcome) body" where
  "arm_mutation_body now = (\<lambda>(i, digest, fresh).
     seq (job_row i) (\<lambda>j.
     need (status j = ACTIVE) (AuthorityConflict TERMINAL_JOB)
    (if job_checkpoint j = MUTATION_MAY_HAVE_STARTED then
       seq (fetch (\<lambda>db. mutation_identity_in_transaction db j)) (\<lambda>_. ret (MATCHED, ALREADY_ARMED))
     else
       need (job_checkpoint j = SNAPSHOT_CONFIRMED)
         (AuthorityConflict ''package update job is not awaiting the package mutation gate'')
      (seq (terminalize_execution_gate_job_if_authority_stale (now 0) (now 1) (now 2) j) (\<lambda>released.
       if released then ret (AUTHORITY_STALE, ALREADY_ARMED)
       else seq (fetch (\<lambda>db. Inr (job_material db i))) (\<lambda>frozen.
         if material_matches frozen fresh then
           seq (fetch (\<lambda>db. mutation_identity_in_transaction db j)) (\<lambda>oid.
           andthen (commit_package_mutation_intent i oid (now 0) (now 2) (length frozen) digest)
           (ret (MATCHED, ARMED_NOW)))
         else
           andthen (block_plan_mismatch i (now 0) (now 2) (length frozen) (length fresh)
                      ''package update job mutation-arming mismatch lost durable ownership'')
           (ret (MISMATCHED, ALREADY_ARMED))))))))"

definition arm_package_update_mutation ::
    "clock \<Rightarrow> uuid \<Rightarrow> package list \<Rightarrow> string \<Rightarrow> authority_db
      \<Rightarrow> authority_db \<times> (execution_outcome \<times> mutation_arm_outcome \<times> job_view) result" where
  "arm_package_update_mutation now i packages digest =
     run_op (bindE (job_arg i) (\<lambda>i. bindE (require_evidence_digest digest) (\<lambda>d.
             bindE (fresh_material packages) (\<lambda>m. Inr (i, d, m)))))
       (arm_mutation_body now)
       (\<lambda>(i, _) (outcome, armed) db. bindE (store_package_update_job db i) (\<lambda>v. Inr (outcome, armed, v)))"

section \<open>Guarded submission and recorded outcomes\<close>

definition require_armed_package_mutation_job :: "job \<Rightarrow> unit body" where
  "require_armed_package_mutation_job j =
     need (status j = ACTIVE) (AuthorityConflict TERMINAL_JOB)
    (need (job_checkpoint j = MUTATION_MAY_HAVE_STARTED)
       (AuthorityConflict ''package update job is not inside a package mutation operation'') (ret ()))"

definition mutation_submission_body :: "clock \<Rightarrow> uuid \<times> string \<Rightarrow> bool body" where
  "mutation_submission_body now = (\<lambda>(i, digest).
     seq (job_row i) (\<lambda>j.
     andthen (require_armed_package_mutation_job j)
     (case accepted_prepared_evidence_digest j of
        None \<Rightarrow> raise (AuthorityInvariantError ''armed package update job has no accepted prepared evidence digest'')
      | Some accepted \<Rightarrow>
          need (accepted \<noteq> [])
            (AuthorityInvariantError ''armed package update job has no accepted prepared evidence digest'')
         (need (accepted = digest)
            (PackageMutationEvidenceNotAccepted
               (''package mutation submission does not carry the prepared evidence this job'' @ [CHR 0x27] @ ''s arming transaction accepted''))
         (package_update_job_authority_is_current (now 0) j)))))"

definition execute_package_mutation_submission_if_current ::
    "clock \<Rightarrow> uuid \<Rightarrow> ('h \<Rightarrow> 't result \<times> 'h) \<Rightarrow> string \<Rightarrow> authority_db \<Rightarrow> 'h
      \<Rightarrow> authority_db \<times> 'h \<times> 't result" where
  "execute_package_mutation_submission_if_current now i submit digest =
     run_submission (bindE (job_arg i) (\<lambda>i. bindE (require_evidence_digest digest) (\<lambda>d. Inr (i, d))))
       (mutation_submission_body now) (MutationSubmissionRefusedBeforeCallback STALE_CONTEXT) submit"

text \<open>One durable line about an armed mutation; the row itself does not change.\<close>

definition mutation_note_body :: "clock \<Rightarrow> event_level \<Rightarrow> event_type \<Rightarrow> uuid \<times> string \<Rightarrow> unit body" where
  "mutation_note_body now level etype = (\<lambda>(i, reason).
     seq (job_row i) (\<lambda>j.
     andthen (require_armed_package_mutation_job j)
     (log_event i (now 0) level MUTATION_MAY_HAVE_STARTED etype reason (JObj []))))"

definition record_package_update_mutation_uncertain ::
    "clock \<Rightarrow> uuid \<Rightarrow> string \<Rightarrow> authority_db \<Rightarrow> authority_db \<times> job_view result" where
  "record_package_update_mutation_uncertain now i reason =
     run_op (job_and_reason i reason) (mutation_note_body now ERROR EV_MUTATION_OUTCOME_UNCERTAIN)
       (\<lambda>(i, _). then_job i)"

definition record_package_update_mutation_submitted ::
    "clock \<Rightarrow> uuid \<Rightarrow> string \<Rightarrow> authority_db \<Rightarrow> authority_db \<times> job_view result" where
  "record_package_update_mutation_submitted now i reason =
     run_op (job_and_reason i reason) (mutation_note_body now WARNING EV_MUTATION_SUBMITTED)
       (\<lambda>(i, _). then_job i)"

definition record_package_update_mutation_terminal_failure ::
    "clock \<Rightarrow> uuid \<Rightarrow> string \<Rightarrow> authority_db \<Rightarrow> authority_db \<times> job_view result" where
  "record_package_update_mutation_terminal_failure now i reason =
     run_op (job_and_reason i reason) (mutation_note_body now ERROR EV_MUTATION_TERMINAL_FAILURE)
       (\<lambda>(i, _). then_job i)"

section \<open>Release before submission\<close>

definition pre_mutation_check :: "uuid \<Rightarrow> unit body" where
  "pre_mutation_check i =
     seq (job_row i) (\<lambda>j.
     andthen (require_armed_package_mutation_job j)
    (need (mutation_completed_at j = None)
       (AuthorityInvariantError ''package update job mutation completion is inconsistent'') (ret ())))"

definition commit_pre_mutation_block :: "clock \<Rightarrow> uuid \<Rightarrow> string \<Rightarrow> unit body" where
  "commit_pre_mutation_block now i reason =
     andthen (update_job (\<lambda>r. owned_at i MUTATION_MAY_HAVE_STARTED r \<and> mutation_completed_at r = None)
                (terminate_job BLOCKED (now 0) reason)
                ''package update job pre-mutation block lost durable ownership'')
    (andthen (log_event i (now 0) WARNING MUTATION_MAY_HAVE_STARTED EV_MUTATION_BLOCKED_BEFORE_SUBMISSION
                reason (JObj []))
     (publish (now 1)))"

definition resolve_pre_mutation_block ::
    "clock \<Rightarrow> uuid \<Rightarrow> ('h \<Rightarrow> (host_mutation_state option \<times> string \<times> 't) result \<times> 'h)
      \<Rightarrow> authority_db \<Rightarrow> 'h \<Rightarrow> authority_db \<times> 'h \<times> (bool \<times> 't) result" where
  "resolve_pre_mutation_block now i =
     run_release i pre_mutation_check MUT_SEALED_NOT_SUBMITTED (commit_pre_mutation_block now)"

section \<open>Completion\<close>

definition complete_mutation_body :: "clock \<Rightarrow> post_state \<Rightarrow> uuid \<Rightarrow> unit body" where
  "complete_mutation_body now post i =
     seq (job_row i) (\<lambda>j.
     need (status j = ACTIVE) (AuthorityConflict TERMINAL_JOB)
    (need (job_checkpoint j \<in> {MUTATION_MAY_HAVE_STARTED, MUTATION_COMPLETED})
       (AuthorityConflict ''package update job is not inside a package mutation operation'')
    (seq (fetch (\<lambda>db. Inr (job_material db i))) (\<lambda>frozen.
     seq (pure (prove_package_mutation_completion frozen post)) (\<lambda>prf.
     need (proven prf)
       (AuthorityConflict (''package mutation completion proof did not hold: ''
          @ (case proof_reason prf of None \<Rightarrow> ''unproven'' | Some [] \<Rightarrow> ''unproven'' | Some r \<Rightarrow> r)))
    (if job_checkpoint j = MUTATION_COMPLETED then ret ()
     else
       andthen (update_job (\<lambda>r. owned_at i MUTATION_MAY_HAVE_STARTED r \<and> mutation_completed_at r = None)
                  (\<lambda>r. r\<lparr>job_checkpoint := MUTATION_COMPLETED, mutation_completed_at := Some (now 0)\<rparr>)
                  ''package update job mutation completion lost durable ownership'')
      (andthen (log_event i (now 0) INFO MUTATION_COMPLETED EV_MUTATION_COMPLETED
                  ''independent dpkg post-state proves the exact approved package mutation is complete''
                  (JObj [(''package_count'', JInt (int (length frozen)))]))
       (publish (now 1)))))))))"

definition complete_package_update_mutation ::
    "clock \<Rightarrow> uuid \<Rightarrow> post_state \<Rightarrow> authority_db \<Rightarrow> authority_db \<times> job_view result" where
  "complete_package_update_mutation now i post = run_op (job_arg i) (complete_mutation_body now post) then_job"

end
