(* ===== verification/Health_Operations.thy ===== *)
theory Health_Operations
  imports Mutation_Operations
begin

text \<open>
  Health evaluation in \<open>app/inventory/authority.py\<close>: the request handed to the executor, the start
  of an evaluation, its definitive completion with one durable result per frozen probe, and the
  record of an evaluation that could not be resolved.
\<close>

section \<open>Request\<close>

record health_request =
  hr_job_id :: uuid
  hr_backend_instance_id :: uuid
  hr_resource_id :: uuid
  hr_binding_id :: uuid
  hr_locator_generation :: int
  hr_resource_continuity_revision :: int
  hr_vmid :: int
  hr_expected_node :: string
  hr_contract_revision :: int
  hr_contract_fingerprint :: string
  hr_probes :: "job_health_probe list"

definition STALE_LOCATOR :: string where
  "STALE_LOCATOR = ''package update job resource or locator context is stale''"

definition package_update_health_request :: "uuid \<Rightarrow> authority_db \<Rightarrow> health_request result" where
  "package_update_health_request i db =
     bindE (job_arg i) (\<lambda>i.
     bindE (require_package_update_job_row db i) (\<lambda>j.
     checkE (status j = ACTIVE) (AuthorityConflict TERMINAL_JOB)
    (checkE (post_mutation_job_context_is_current db (jctx j)) (AuthorityConflict STALE_LOCATOR)
    (bindE (require_coherent_frozen_health_contract db i) (\<lambda>probes.
       Inr \<lparr>hr_job_id = i, hr_backend_instance_id = be_id (backend db),
            hr_resource_id = job_resource_id j, hr_binding_id = cx_expected_binding_id (jctx j),
            hr_locator_generation = cx_expected_locator_generation (jctx j),
            hr_resource_continuity_revision = cx_expected_resource_continuity_revision (jctx j),
            hr_vmid = cx_expected_vmid (jctx j), hr_expected_node = cx_expected_node_name (jctx j),
            hr_contract_revision = health_contract_revision (iss j),
            hr_contract_fingerprint = frozen_contract_fingerprint (iss j), hr_probes = probes\<rparr>)))))"

section \<open>Start\<close>

definition start_health_body :: "clock \<Rightarrow> uuid \<Rightarrow> unit body" where
  "start_health_body now i =
     seq (job_row i) (\<lambda>j.
     need (status j = ACTIVE) (AuthorityConflict TERMINAL_JOB)
    (if job_checkpoint j = HEALTH_STARTED then
       seq (fetch (\<lambda>db. require_coherent_frozen_health_contract db i)) (\<lambda>_. ret ())
     else
       need (job_checkpoint j = MUTATION_COMPLETED)
         (AuthorityConflict ''package update job is not ready for health evaluation'')
      (seq (fetch (\<lambda>db. require_coherent_frozen_health_contract db i)) (\<lambda>probes.
       andthen (update_job (\<lambda>r. owned_at i MUTATION_COMPLETED r \<and> mutation_completed_at r \<noteq> None
                                \<and> health_started_at r = None)
                  (\<lambda>r. r\<lparr>job_checkpoint := HEALTH_STARTED, health_started_at := Some (now 0)\<rparr>)
                  ''package update job health start lost durable ownership'')
      (andthen (log_event i (now 0) INFO HEALTH_STARTED EV_HEALTH_STARTED
                  (''evaluating this job'' @ [CHR 0x27] @ ''s own frozen health contract generation; the live contract no longer applies'')
                  (JObj [(''health_contract_revision'', JInt (health_contract_revision (iss j))),
                         (''health_contract_fingerprint'', JStr (frozen_contract_fingerprint (iss j))),
                         (''probe_count'', JInt (int (length probes)))]))
       (publish (now 1)))))))"

definition start_package_update_health ::
    "clock \<Rightarrow> uuid \<Rightarrow> authority_db \<Rightarrow> authority_db \<times> job_view result" where
  "start_package_update_health now i = run_op (job_arg i) (start_health_body now) then_job"

section \<open>Completion\<close>

definition result_rows ::
    "uuid \<Rightarrow> time \<Rightarrow> job_health_probe list \<Rightarrow> health_probe_observation list \<Rightarrow> job_result_row list" where
  "result_rows i t probes ordered =
     map (\<lambda>(p, ob). \<lparr>jrr_job_id = i,
            jrr_result = \<lparr>pr_index = jp_index p, pr_outcome = obs_outcome ob, pr_checked_at = t,
                          pr_reason = obs_reason ob\<rparr>\<rparr>) (zip probes ordered)"

definition PASSED_REASON :: string where
  "PASSED_REASON = ''every probe of this job'' @ [CHR 0x27] @ ''s frozen health contract generation was positively proven''"

definition record_verdict :: "uuid \<Rightarrow> time \<Rightarrow> bool \<Rightarrow> unit body" where
  "record_verdict i t passed =
     update_job (\<lambda>r. owned_at i HEALTH_STARTED r \<and> health_completed_at r = None)
       (if passed then
          (\<lambda>r. terminate_job SUCCEEDED t PASSED_REASON
                 (r\<lparr>job_checkpoint := HEALTH_COMPLETED, health_completed_at := Some t,
                    job_health_outcome := Some HEALTH_PASSED\<rparr>))
        else
          (\<lambda>r. r\<lparr>job_checkpoint := HEALTH_COMPLETED, health_completed_at := Some t,
                 job_health_outcome := Some HEALTH_FAILED\<rparr>))
       ''package update job health completion lost durable ownership''"

definition probe_indexes ::
    "probe_outcome \<Rightarrow> job_health_probe list \<Rightarrow> health_probe_observation list \<Rightarrow> json" where
  "probe_indexes out probes ordered =
     JList (map (\<lambda>(p, ob). JInt (int (jp_index p))) (filter (\<lambda>(p, ob). obs_outcome ob = out) (zip probes ordered)))"

definition verdict_details :: "job \<Rightarrow> job_health_probe list \<Rightarrow> health_probe_observation list \<Rightarrow> json" where
  "verdict_details j probes ordered =
     JObj [(''health_contract_revision'', JInt (health_contract_revision (iss j))),
           (''health_contract_fingerprint'', JStr (frozen_contract_fingerprint (iss j))),
           (''probe_count'', JInt (int (length probes))),
           (''failed_probe_indexes'', probe_indexes PROBE_FAILED probes ordered),
           (''unknown_probe_indexes'', probe_indexes PROBE_UNKNOWN probes ordered)]"

definition log_verdict :: "uuid \<Rightarrow> time \<Rightarrow> bool \<Rightarrow> json \<Rightarrow> unit body" where
  "log_verdict i t passed details =
     log_event i t (if passed then INFO else ERROR) HEALTH_COMPLETED
       (if passed then EV_HEALTH_PASSED else EV_HEALTH_FAILED)
       (if passed then ''every frozen health probe passed; this update job succeeded''
        else ''at least one frozen health probe was proven to fail; this job stays active and rollback-capable'')
       details"

definition request_post_update_scan :: "uuid \<Rightarrow> uuid \<Rightarrow> time \<Rightarrow> unit body" where
  "request_post_update_scan i resource_id t =
     andthen (commit (insert_post_scan_request
                \<lparr>ps_job_id = i, ps_resource_id = resource_id, ps_requested_at = t, ps_scan_run_id = None\<rparr>))
     (log_event i t INFO HEALTH_COMPLETED EV_POST_UPDATE_SCAN_REQUESTED
        ''successful update requested one fresh package scan from the independent scan scheduler''
        (JObj [(''resource_id'', JStr resource_id)]))"

definition complete_health_body :: "clock \<Rightarrow> health_probe_observation list \<Rightarrow> uuid \<Rightarrow> unit body" where
  "complete_health_body now reported i =
     seq (job_row i) (\<lambda>j.
     need (status j = ACTIVE) (AuthorityConflict TERMINAL_JOB)
    (need (job_checkpoint j \<noteq> HEALTH_COMPLETED)
       (AuthorityConflict ''package update job health was already completed'')
    (need (job_checkpoint j = HEALTH_STARTED)
       (AuthorityConflict ''package update job is not inside a health evaluation'')
    (seq (fetch (\<lambda>db. require_coherent_frozen_health_contract db i)) (\<lambda>probes.
     seq (fetch (\<lambda>db. Inr (post_mutation_job_context_is_current db (jctx j)))) (\<lambda>context.
     need context (PackageUpdateHealthContextChanged STALE_LOCATOR)
    (seq (pure (match_health_observations_to_frozen_probes probes reported)) (\<lambda>ordered.
     need (list_all (\<lambda>ob. obs_outcome ob \<noteq> PROBE_UNKNOWN) ordered)
       (AuthorityConflict ''a health completion may not carry any unresolved (UNKNOWN) probe observation'')
    (seq (pure (aggregate_health_outcome (map obs_outcome ordered))) (\<lambda>outcome.
     need (outcome \<in> set DEFINITIVE_HEALTH_OUTCOMES)
       (AuthorityConflict ''an unknown health outcome is never a durable verdict'')
    (andthen (commit (executemany insert_job_result (result_rows i (now 0) probes ordered)))
    (andthen (record_verdict i (now 0) (outcome = HEALTH_PASSED))
    (andthen (log_verdict i (now 0) (outcome = HEALTH_PASSED) (verdict_details j probes ordered))
    (andthen (if outcome = HEALTH_PASSED then request_post_update_scan i (job_resource_id j) (now 0) else ret ())
     (publish (now 1))))))))))))))))"

definition complete_package_update_health ::
    "clock \<Rightarrow> uuid \<Rightarrow> health_probe_observation list \<Rightarrow> authority_db \<Rightarrow> authority_db \<times> job_view result" where
  "complete_package_update_health now i reported = run_op (job_arg i) (complete_health_body now reported) then_job"

section \<open>An unresolved evaluation\<close>

fun evidence_json :: "health_probe_observation list \<Rightarrow> json list result" where
  "evidence_json [] = Inr []"
| "evidence_json (ob # obs) =
     bindE (require_health_probe_reason (obs_reason ob)) (\<lambda>reason.
     bindE (evidence_json obs) (\<lambda>rest.
       Inr (JObj [(''index'', JInt (int (obs_index ob))), (''outcome'', JStr (probe_outcome_value (obs_outcome ob))),
                  (''reason'', JStr reason)] # rest)))"

text \<open>The optional measurements; the seconds come as thousandths, the precision that is stored.\<close>

record settling =
  settling_rounds :: "int option"
  settling_millis :: "int option"
  last_round_span_ms :: "int option"

definition bounded_detail :: "string \<Rightarrow> int \<Rightarrow> (int \<Rightarrow> json) \<Rightarrow> int option \<Rightarrow> (string \<times> json) list" where
  "bounded_detail key bound f v =
     (case v of None \<Rightarrow> [] | Some n \<Rightarrow> if 0 \<le> n \<and> n \<le> bound then [(key, f n)] else [])"

definition unknown_details :: "string \<Rightarrow> health_probe_observation list \<Rightarrow> settling \<Rightarrow> json result" where
  "unknown_details reason evidence s =
     bindE (evidence_json evidence) (\<lambda>probes.
       Inr (JObj ([(''reason'', JStr reason)]
         @ (if evidence = [] then [] else [(''probes'', JList probes)])
         @ bounded_detail ''rounds'' 1000 JInt (settling_rounds s)
         @ bounded_detail ''settled_seconds'' 3600000 (\<lambda>n. JMillis (nat n)) (settling_millis s)
         @ bounded_detail ''last_round_span_ms'' 3600000 JInt (last_round_span_ms s))))"

definition health_unknown_body ::
    "clock \<Rightarrow> health_probe_observation list \<Rightarrow> settling \<Rightarrow> uuid \<times> string \<Rightarrow> unit body" where
  "health_unknown_body now evidence s = (\<lambda>(i, reason).
     seq (job_row i) (\<lambda>j.
     need (status j = ACTIVE) (AuthorityConflict TERMINAL_JOB)
    (need (job_checkpoint j = HEALTH_STARTED)
       (AuthorityConflict ''package update job is not inside a health evaluation'')
    (seq (fetch (\<lambda>db. Inr (evidence \<noteq> [] \<and> \<not> post_mutation_job_context_is_current db (jctx j)))) (\<lambda>changed.
     seq (pure (unknown_details (if changed then ''resource_context_changed'' else reason)
                  (if changed then [] else evidence) s)) (\<lambda>details.
     log_event i (now 0) WARNING HEALTH_STARTED EV_HEALTH_OUTCOME_UNKNOWN
       (''this job'' @ [CHR 0x27] @ ''s frozen health contract could not be evaluated truthfully; no verdict was recorded'')
       details))))))"

definition record_package_update_health_outcome_unknown ::
    "clock \<Rightarrow> uuid \<Rightarrow> string \<Rightarrow> health_probe_observation list \<Rightarrow> settling \<Rightarrow> authority_db
      \<Rightarrow> authority_db \<times> job_view result" where
  "record_package_update_health_outcome_unknown now i reason evidence s =
     run_op (bindE (job_arg i) (\<lambda>j. bindE (require_unresolved_health_reason reason) (\<lambda>r. Inr (j, r))))
       (health_unknown_body now evidence s) (\<lambda>(i, _). then_job i)"

end
