(* ===== verification/Rollback_Operations.thy ===== *)
theory Rollback_Operations
  imports Health_Operations
begin

text \<open>
  The same-job rollback of \<open>app/inventory/authority.py\<close>: the request, arming from the eligible
  checkpoints, the guarded submission, the observed task, the recorded outcomes, the release before
  submission, the completion on canonical evidence, and the recovery of jobs at startup.
\<close>

section \<open>Request\<close>

record rollback_request =
  rr_rollback_operation_id :: string
  rr_backend_instance_id :: uuid
  rr_job_id :: uuid
  rr_resource_id :: uuid
  rr_binding_id :: uuid
  rr_locator_generation :: int
  rr_resource_continuity_revision :: int
  rr_vmid :: int
  rr_expected_node :: string
  rr_snapshot_name :: string
  rr_snapshot_operation_id :: string
  rr_expected_snapshot_ownership :: snapshot_ownership

definition package_update_rollback_identity :: "uuid \<Rightarrow> authority_db \<Rightarrow> string result" where
  "package_update_rollback_identity i db =
     bindE (job_arg i) (\<lambda>i. bindE (require_package_update_job_row db i) (rollback_identity_in_transaction db))"

definition package_update_rollback_request :: "uuid \<Rightarrow> authority_db \<Rightarrow> rollback_request result" where
  "package_update_rollback_request i db =
     bindE (job_arg i) (\<lambda>i.
     bindE (require_package_update_job_row db i) (\<lambda>j.
     bindE (rollback_identity_in_transaction db j) (\<lambda>oid.
     bindE (snapshot_ownership_in_transaction db j) (\<lambda>expected.
       Inr \<lparr>rr_rollback_operation_id = oid, rr_backend_instance_id = be_id (backend db), rr_job_id = i,
            rr_resource_id = job_resource_id j, rr_binding_id = cx_expected_binding_id (jctx j),
            rr_locator_generation = cx_expected_locator_generation (jctx j),
            rr_resource_continuity_revision = cx_expected_resource_continuity_revision (jctx j),
            rr_vmid = cx_expected_vmid (jctx j), rr_expected_node = cx_expected_node_name (jctx j),
            rr_snapshot_name = str_column (snapshot_name j),
            rr_snapshot_operation_id = str_column (snapshot_operation_id j),
            rr_expected_snapshot_ownership = expected\<rparr>))))"

section \<open>Arming\<close>

definition commit_rollback_intent :: "uuid \<Rightarrow> string \<Rightarrow> time \<Rightarrow> time \<Rightarrow> job \<Rightarrow> unit body" where
  "commit_rollback_intent i oid t t' entered =
     andthen (update_job (\<lambda>r. jid r = i \<and> status r = ACTIVE
                \<and> job_checkpoint r \<in> {MUTATION_MAY_HAVE_STARTED, MUTATION_COMPLETED, HEALTH_STARTED, HEALTH_COMPLETED}
                \<and> job_health_outcome r \<in> {None, Some HEALTH_FAILED}
                \<and> rollback_operation_id r = None \<and> rollback_may_have_started_at r = None)
                (\<lambda>r. r\<lparr>job_checkpoint := ROLLBACK_MAY_HAVE_STARTED, rollback_operation_id := Some oid,
                       rollback_may_have_started_at := Some t\<rparr>)
                ''package update job rollback intent lost durable ownership'')
    (andthen (log_event i t WARNING ROLLBACK_MAY_HAVE_STARTED EV_ROLLBACK_MAY_HAVE_STARTED
                ''same-job PVE rollback may be submitted from here on; a successful rollback leaves this guest stopped''
                (JObj [(''rollback_operation_id'', JStr oid), (''snapshot_name'', JStr (str_column (snapshot_name entered))),
                       (''mutation_was_proven_complete'', JBool (mutation_completed_at entered \<noteq> None)),
                       (''entered_from_checkpoint'', JStr (checkpoint_value (job_checkpoint entered))),
                       (''health_outcome'', case job_health_outcome entered of None \<Rightarrow> JNull
                                            | Some out \<Rightarrow> JStr (health_outcome_value out))]))
     (publish t'))"

definition NOT_ELIGIBLE :: string where
  "NOT_ELIGIBLE = ''package update job is not eligible for same-job rollback''"

definition arm_rollback_body :: "clock \<Rightarrow> observed_snapshot list \<Rightarrow> uuid \<Rightarrow> unit body" where
  "arm_rollback_body now observed i =
     seq (job_row i) (\<lambda>j.
     need (status j = ACTIVE) (AuthorityConflict TERMINAL_JOB)
    (seq (fetch (\<lambda>db. rollback_identity_in_transaction db j)) (\<lambda>oid.
     if job_checkpoint j = ROLLBACK_MAY_HAVE_STARTED then ret ()
     else
       need (job_checkpoint j \<in> set ROLLBACK_ELIGIBLE_CHECKPOINTS) (AuthorityConflict NOT_ELIGIBLE)
      (need (job_checkpoint j = HEALTH_COMPLETED \<longrightarrow> job_health_outcome j = Some HEALTH_FAILED)
         (AuthorityConflict NOT_ELIGIBLE)
      (seq (fetch (\<lambda>db. Inr (post_mutation_job_context_is_current db (jctx j)))) (\<lambda>context.
       need context (RollbackSubmissionRefusedBeforeCallback STALE_LOCATOR)
      (seq (fetch (\<lambda>db. snapshot_ownership_in_transaction db j)) (\<lambda>expected.
       seq (pure (require_exactly_one_job_owned_snapshot i (snapshot_name j) observed expected)) (\<lambda>_.
       commit_rollback_intent i oid (now 0) (now 1) j)))))))))"

definition arm_package_update_rollback ::
    "clock \<Rightarrow> uuid \<Rightarrow> observed_snapshot list \<Rightarrow> authority_db \<Rightarrow> authority_db \<times> job_view result" where
  "arm_package_update_rollback now i observed = run_op (job_arg i) (arm_rollback_body now observed) then_job"

section \<open>Guarded submission, task and outcomes\<close>

definition require_armed_rollback_job :: "job \<Rightarrow> unit body" where
  "require_armed_rollback_job j =
     need (status j = ACTIVE) (AuthorityConflict TERMINAL_JOB)
    (need (job_checkpoint j = ROLLBACK_MAY_HAVE_STARTED)
       (AuthorityConflict ''package update job is not inside a rollback operation'') (ret ()))"

definition rollback_submission_body :: "uuid \<Rightarrow> bool body" where
  "rollback_submission_body i =
     seq (job_row i) (\<lambda>j.
     andthen (require_armed_rollback_job j)
    (seq (fetch (\<lambda>db. rollback_identity_in_transaction db j)) (\<lambda>_.
     fetch (\<lambda>db. Inr (post_mutation_job_context_is_current db (jctx j))))))"

definition execute_rollback_submission_if_current ::
    "uuid \<Rightarrow> ('h \<Rightarrow> 't result \<times> 'h) \<Rightarrow> authority_db \<Rightarrow> 'h \<Rightarrow> authority_db \<times> 'h \<times> 't result" where
  "execute_rollback_submission_if_current i submit =
     run_submission (job_arg i) rollback_submission_body
       (RollbackSubmissionRefusedBeforeCallback STALE_LOCATOR) submit"

definition rollback_task_body :: "clock \<Rightarrow> uuid \<times> string \<Rightarrow> unit body" where
  "rollback_task_body now = (\<lambda>(i, upid).
     seq (job_row i) (\<lambda>j.
     andthen (require_armed_rollback_job j)
     (case rollback_task_upid j of
        Some existing \<Rightarrow>
          need (existing = upid)
            (AuthorityConflict ''package update job already recorded a different rollback task identity'') (ret ())
      | None \<Rightarrow>
          andthen (update_job (\<lambda>r. owned_at i ROLLBACK_MAY_HAVE_STARTED r \<and> rollback_task_upid r = None)
                     (\<lambda>r. r\<lparr>rollback_task_upid := Some upid\<rparr>)
                     ''package update job rollback task record lost durable ownership'')
          (log_event i (now 0) INFO ROLLBACK_MAY_HAVE_STARTED EV_ROLLBACK_TASK_OBSERVED
             ''observed the PVE task identity for this rollback'' (JObj [(''rollback_task_upid'', JStr upid)])))))"

definition record_package_update_rollback_task ::
    "clock \<Rightarrow> uuid \<Rightarrow> string \<Rightarrow> authority_db \<Rightarrow> authority_db \<times> job_view result" where
  "record_package_update_rollback_task now i upid =
     run_op (bindE (job_arg i) (\<lambda>j. bindE (require_text upid ''task_upid'' 300) (\<lambda>u. Inr (j, u))))
       (rollback_task_body now) (\<lambda>(i, _). then_job i)"

definition rollback_note_body :: "clock \<Rightarrow> event_level \<Rightarrow> event_type \<Rightarrow> uuid \<times> string \<Rightarrow> unit body" where
  "rollback_note_body now level etype = (\<lambda>(i, reason).
     seq (job_row i) (\<lambda>j.
     andthen (require_armed_rollback_job j)
     (log_event i (now 0) level ROLLBACK_MAY_HAVE_STARTED etype reason (JObj []))))"

definition record_package_update_rollback_submitted ::
    "clock \<Rightarrow> uuid \<Rightarrow> string \<Rightarrow> authority_db \<Rightarrow> authority_db \<times> job_view result" where
  "record_package_update_rollback_submitted now i reason =
     run_op (job_and_reason i reason) (rollback_note_body now WARNING EV_ROLLBACK_SUBMITTED) (\<lambda>(i, _). then_job i)"

definition record_package_update_rollback_uncertain ::
    "clock \<Rightarrow> uuid \<Rightarrow> string \<Rightarrow> authority_db \<Rightarrow> authority_db \<times> job_view result" where
  "record_package_update_rollback_uncertain now i reason =
     run_op (job_and_reason i reason) (rollback_note_body now WARNING EV_ROLLBACK_OUTCOME_UNCERTAIN) (\<lambda>(i, _). then_job i)"

definition record_package_update_rollback_terminal_failure ::
    "clock \<Rightarrow> uuid \<Rightarrow> string \<Rightarrow> authority_db \<Rightarrow> authority_db \<times> job_view result" where
  "record_package_update_rollback_terminal_failure now i reason =
     run_op (job_and_reason i reason) (rollback_note_body now ERROR EV_ROLLBACK_TERMINAL_FAILURE) (\<lambda>(i, _). then_job i)"

section \<open>Release before submission\<close>

definition pre_rollback_check :: "uuid \<Rightarrow> unit body" where
  "pre_rollback_check i =
     seq (job_row i) (\<lambda>j.
     andthen (require_armed_rollback_job j)
    (need (rollback_completed_at j = None)
       (AuthorityInvariantError ''package update job rollback completion is inconsistent'')
    (need (rollback_task_upid j = None)
       (AuthorityConflict ''package update job already observed a PVE rollback task'') (ret ()))))"

definition commit_pre_rollback_block :: "clock \<Rightarrow> uuid \<Rightarrow> string \<Rightarrow> unit body" where
  "commit_pre_rollback_block now i reason =
     andthen (update_job (\<lambda>r. owned_at i ROLLBACK_MAY_HAVE_STARTED r \<and> rollback_completed_at r = None
                              \<and> rollback_task_upid r = None)
                (terminate_job BLOCKED (now 0) reason)
                ''package update job pre-rollback block lost durable ownership'')
    (andthen (log_event i (now 0) WARNING ROLLBACK_MAY_HAVE_STARTED EV_ROLLBACK_BLOCKED_BEFORE_SUBMISSION
                reason (JObj []))
     (publish (now 1)))"

definition resolve_pre_rollback_block ::
    "clock \<Rightarrow> uuid \<Rightarrow> ('h \<Rightarrow> (host_rollback_state option \<times> string \<times> 't) result \<times> 'h)
      \<Rightarrow> authority_db \<Rightarrow> 'h \<Rightarrow> authority_db \<times> 'h \<times> (bool \<times> 't) result" where
  "resolve_pre_rollback_block now i =
     run_release i pre_rollback_check RB_SEALED_NOT_SUBMITTED (commit_pre_rollback_block now)"

section \<open>Completion\<close>

definition ROLLED_BACK_REASON :: string where
  "ROLLED_BACK_REASON = ''same-job rollback to this job'' @ [CHR 0x27] @ ''s own confirmed pre-update snapshot completed; the guest is stopped''"

definition complete_rollback_body :: "clock \<Rightarrow> observed_snapshot list \<Rightarrow> bool \<Rightarrow> uuid \<Rightarrow> unit body" where
  "complete_rollback_body now observed task_succeeded i =
     seq (job_row i) (\<lambda>j.
     if status j = ROLLED_BACK \<and> rollback_completed_at j \<noteq> None then
       seq (fetch (\<lambda>db. rollback_identity_in_transaction db j)) (\<lambda>_. ret ())
     else
       andthen (require_armed_rollback_job j)
      (seq (fetch (\<lambda>db. rollback_identity_in_transaction db j)) (\<lambda>_.
       need task_succeeded
         (AuthorityConflict ''same-job rollback completion requires a terminal non-error PVE task'')
      (need (rollback_task_upid j \<noteq> None)
         (AuthorityConflict ''same-job rollback completion requires the durable PVE task identity this rollback recorded'')
      (seq (fetch (\<lambda>db. snapshot_ownership_in_transaction db j)) (\<lambda>expected.
       (let name = str_column (snapshot_name j) in
        seq (pure (require_exactly_one_job_owned_snapshot i (Some name) observed expected)) (\<lambda>_.
        seq (pure (require_current_parent_is observed name)) (\<lambda>_.
        andthen (update_job (\<lambda>r. owned_at i ROLLBACK_MAY_HAVE_STARTED r \<and> rollback_completed_at r = None
                                 \<and> rollback_task_upid r \<noteq> None)
                   (\<lambda>r. terminate_job ROLLED_BACK (now 0) ROLLED_BACK_REASON
                          (r\<lparr>job_checkpoint := ROLLBACK_COMPLETED, rollback_completed_at := Some (now 0)\<rparr>))
                   ''package update job rollback completion lost durable ownership'')
       (andthen (log_event i (now 0) WARNING ROLLBACK_COMPLETED EV_ROLLBACK_COMPLETED
                   ''terminal non-error PVE task and fresh canonical evidence prove this job rolled back to its own snapshot''
                   (JObj [(''snapshot_name'', JStr name),
                          (''rollback_task_upid'', JStr (str_column (rollback_task_upid j))),
                          (''mutation_was_proven_complete'', JBool (mutation_completed_at j \<noteq> None)),
                          (''guest_left_stopped'', JBool True)]))
        (publish (now 1))))))))))))"

definition complete_package_update_rollback ::
    "clock \<Rightarrow> uuid \<Rightarrow> observed_snapshot list \<Rightarrow> bool \<Rightarrow> authority_db \<Rightarrow> authority_db \<times> job_view result" where
  "complete_package_update_rollback now i observed task_succeeded =
     run_op (job_arg i) (complete_rollback_body now observed task_succeeded) then_job"

section \<open>Startup recovery\<close>

definition STARTUP_INTERRUPTIBLE_CHECKPOINTS :: "checkpoint list" where
  "STARTUP_INTERRUPTIBLE_CHECKPOINTS = [ISSUED, PREFLIGHT_PASSED, SNAPSHOT_CONFIRMED]"

definition RESTART_REASON :: string where
  "RESTART_REASON = ''backend restarted before package mutation began''"

definition interrupted_rows :: "authority_db \<Rightarrow> job list" where
  "interrupted_rows db =
     sort_key (\<lambda>j. (issued_at (iss j), jid j))
       (filter (\<lambda>j. status j = ACTIVE \<and> job_checkpoint j \<in> set STARTUP_INTERRUPTIBLE_CHECKPOINTS) (jobs db))"

definition interrupt_job :: "time \<Rightarrow> job \<Rightarrow> unit body" where
  "interrupt_job t row =
     andthen (update_job (\<lambda>r. jid r = jid row \<and> status r = ACTIVE) (terminate_job INTERRUPTED t RESTART_REASON)
                ''package update job recovery lost durable ownership'')
     (log_event (jid row) t WARNING (job_checkpoint row) EV_RESTART_INTERRUPTED RESTART_REASON (JObj []))"

fun interrupt_jobs :: "time \<Rightarrow> job list \<Rightarrow> unit body" where
  "interrupt_jobs t [] = ret ()"
| "interrupt_jobs t (row # rows) = andthen (interrupt_job t row) (interrupt_jobs t rows)"

definition recover_body :: "clock \<Rightarrow> unit \<Rightarrow> uuid list body" where
  "recover_body now u =
     seq (fetch (\<lambda>db. Inr (interrupted_rows db))) (\<lambda>rows.
     andthen (interrupt_jobs (now 0) rows)
    (andthen (if rows = [] then ret () else publish (now 1))
     (ret (map (\<lambda>j. jid j) rows))))"

definition recover_interrupted_package_update_jobs ::
    "clock \<Rightarrow> authority_db \<Rightarrow> authority_db \<times> uuid list result" where
  "recover_interrupted_package_update_jobs now =
     run_op (Inr ()) (recover_body now) (\<lambda>_ recovered _. Inr recovered)"

end
