(* ===== verification/Authority_Effects.thy ===== *)
theory Authority_Effects
  imports Job_Issuance Rollback_Operations
begin

text \<open>
  What every operation of the authority does to the store, proved once. The locale
  \<open>authority_relation\<close> takes a relation between databases that is reflexive, transitive and
  respected by each primitive write; its lemmas show that every operation of the authority
  respects it too, whatever it returns or raises. An update of a job row counts as a primitive
  write only where it is a transition of the abstract machine \<open>job_transition\<close>, so an
  interpretation with the history of the job rows is the statement that the operations refine that
  machine.
\<close>

section \<open>Well-formed stores\<close>

definition store_ok :: "authority_db \<Rightarrow> bool" where
  "store_ok db \<longleftrightarrow> job_indexes (jobs db) \<and> list_all job_wf (jobs db)"

lemma update_one_job_Inr:
  "update_one_job w s e db = Inr db' \<longleftrightarrow>
     list_all (\<lambda>j. w j \<longrightarrow> job_update_triggers db j (s j) \<and> job_checks (s j)) (jobs db)
     \<and> job_indexes (rows_update w s (jobs db)) \<and> rows_matched w (jobs db) = 1
     \<and> db' = db\<lparr>jobs := rows_update w s (jobs db)\<rparr>"
  by (auto simp: update_one_job_def update_jobs_def result_iffs)

lemma insert_job_Inr:
  "insert_job j db = Inr db' \<longleftrightarrow>
     job_checks j \<and> job_insert_triggers db j \<and> job_foreign_keys db (iss j)
     \<and> job_indexes (jobs db @ [j]) \<and> db' = db\<lparr>jobs := jobs db @ [j]\<rparr>"
  by (auto simp: insert_job_def result_iffs)

definition sanctioned :: "authority_db \<Rightarrow> (job \<Rightarrow> bool) \<Rightarrow> (job \<Rightarrow> job) \<Rightarrow> bool" where
  "sanctioned db w s \<longleftrightarrow> (\<forall>j \<in> set (jobs db). w j \<longrightarrow> job_transition j (s j))"

lemma update_store_ok:
  assumes "store_ok db" "sanctioned db w s" "update_one_job w s e db = Inr db'"
  shows "store_ok db'"
proof -
  have "job_wf (s j)" if "j \<in> set (jobs db)" "w j" for j
    using assms that transition_snapshot_name[of j "s j"]
    by (auto simp: store_ok_def sanctioned_def update_one_job_Inr list_all_iff job_wf_def)
  with assms show ?thesis
    by (auto simp: store_ok_def update_one_job_Inr list_all_iff rows_update_def)
qed

lemma insert_store_ok:
  "store_ok db \<Longrightarrow> insert_job (issued_job i) db = Inr db' \<Longrightarrow> store_ok db'"
  by (auto simp: store_ok_def insert_job_Inr job_wf_def issued_job_def)

section \<open>The frame of the other writes\<close>

lemma insert_job_package_Inr:
  "insert_job_package r db = Inr db' \<Longrightarrow> db' = db\<lparr>job_packages := job_packages db @ [r]\<rparr>
     \<and> prow_owner r \<notin> jid ` set (jobs db)"
  by (auto simp: insert_job_package_def result_iffs)

lemma insert_job_probe_Inr:
  "insert_job_probe r db = Inr db' \<Longrightarrow> db' = db\<lparr>job_probes := job_probes db @ [r]\<rparr>
     \<and> jpr_job_id r \<notin> jid ` set (jobs db)"
  by (auto simp: insert_job_probe_def result_iffs)

lemma insert_job_result_Inr:
  "insert_job_result r db = Inr db' \<Longrightarrow> db' = db\<lparr>job_results := job_results db @ [r]\<rparr>
     \<and> (\<exists>j \<in> set (jobs db). jid j = jrr_job_id r \<and> health_started_at j \<noteq> None \<and> health_completed_at j = None)"
  by (auto simp: insert_job_result_def result_iffs list_ex_iff)

lemma insert_post_scan_request_Inr:
  "insert_post_scan_request r db = Inr db' \<Longrightarrow>
     db' = db\<lparr>post_scan_requests := post_scan_requests db @ [r]\<rparr>
     \<and> (\<exists>j \<in> set (jobs db). jid j = ps_job_id r \<and> job_resource_id j = ps_resource_id r \<and> status j = SUCCEEDED)"
  by (auto simp: insert_post_scan_request_def result_iffs list_ex_iff)

lemma append_event_Inr:
  "append_package_update_job_event i t lv st et m d db = Inr db' \<Longrightarrow>
     db' = db\<lparr>job_events := job_events db @
       [\<lparr>ev_job_id = i, ev_sequence = next_event_sequence i db, ev_created_at = t, ev_level = lv,
         ev_stage = st, ev_type = et, ev_message = m, ev_details = d\<rparr>]\<rparr>
     \<and> i \<in> jid ` set (jobs db)"
  by (auto simp: append_package_update_job_event_def insert_job_event_def result_iffs)

lemma publish_Inr:
  "bump_global_revisions False True t db = Inr db' \<longleftrightarrow>
     db' = db\<lparr>backend := (backend db)\<lparr>be_published_state_revision := Suc (be_published_state_revision (backend db)),
                                    be_published_at := t\<rparr>\<rparr>"
  by (auto simp: bump_global_revisions_def)

lemmas write_Inr = insert_job_package_Inr insert_job_probe_Inr insert_job_result_Inr
  insert_post_scan_request_Inr append_event_Inr publish_Inr[THEN iffD1]

lemma store_ok_jobs: "store_ok db \<Longrightarrow> jobs db' = jobs db \<Longrightarrow> store_ok db'"
  by (simp add: store_ok_def)

lemma materialize_due_expiry_state:
  assumes "materialize_due_expiry i t rs dl db = Inr (x, db')"
  shows "db' = db \<or> (\<exists>reason. bump_global_revisions False True t (write_expiry i reason db) = Inr db')"
  using assms unfolding materialize_due_expiry_def
  by (auto simp: bindE_Inr_iff split: option.split_asm)

section \<open>One row\<close>

text \<open>An UPDATE that names one job moves that row and no other.\<close>

lemma update_job_row:
  assumes ok: "store_ok db" and run: "update_job w s lost db = Inr (u, db')"
    and w: "\<And>r. w r \<Longrightarrow> jid r = i" and s: "\<And>r. jid (s r) = jid r"
  shows "\<exists>j. row_by jid i (jobs db) = Some j \<and> w j \<and> job_checks (s j) \<and> row_by jid i (jobs db') = Some (s j)
           \<and> (\<forall>k. k \<noteq> i \<longrightarrow> row_by jid k (jobs db') = row_by jid k (jobs db))"
proof -
  from run have upd: "update_one_job w s (AuthorityConflict lost) db = Inr db'"
    by (simp add: update_job_def commit_Inr)
  then have rows: "jobs db' = rows_update w s (jobs db)" and one: "rows_matched w (jobs db) = 1"
    and checks: "\<forall>j \<in> set (jobs db). w j \<longrightarrow> job_checks (s j)"
    by (auto simp: update_one_job_Inr list_all_iff)
  from one have "filter w (jobs db) \<noteq> []" unfolding rows_matched_def by (metis list.size(3) zero_neq_one)
  then obtain j where "j \<in> set (jobs db)" "w j" by (meson filter_empty_conv)
  moreover from ok have "distinct (map jid (jobs db))" by (simp add: store_ok_def job_indexes_def)
  ultimately have j: "row_by jid i (jobs db) = Some j" using w row_by_unique[of jid "jobs db" j] by auto
  have moved: "row_by jid k (jobs db') = map_option (\<lambda>r. if w r then s r else r) (row_by jid k (jobs db))" for k
    unfolding rows by (rule row_by_rows_update) (rule s)
  have other: "row_by jid k (jobs db') = row_by jid k (jobs db)" if "k \<noteq> i" for k
  proof (cases "row_by jid k (jobs db)")
    case (Some r)
    with row_by_Some_key[OF Some] that have "\<not> w r" using w by blast
    with moved[of k] Some show ?thesis by simp
  qed (simp add: moved)
  have "row_by jid i (jobs db') = Some (s j)" using moved[of i] j \<open>w j\<close> by simp
  with j \<open>w j\<close> \<open>j \<in> set (jobs db)\<close> checks other show ?thesis by blast
qed

text \<open>The tables of the jobs, which neither an event nor a revision nor an expiry touches.\<close>

definition same_jobs :: "authority_db \<Rightarrow> authority_db \<Rightarrow> bool" where
  "same_jobs db db' \<longleftrightarrow>
     jobs db' = jobs db \<and> job_packages db' = job_packages db \<and> job_probes db' = job_probes db
     \<and> job_results db' = job_results db \<and> post_scan_requests db' = post_scan_requests db"

lemma same_jobs_trans: "same_jobs a b \<Longrightarrow> same_jobs b c \<Longrightarrow> same_jobs a c"
  by (simp add: same_jobs_def)

lemma log_event_same: "log_event i t lv st et m d db = Inr (u, db') \<Longrightarrow> same_jobs db db'"
  by (auto simp: log_event_def commit_Inr same_jobs_def dest!: append_event_Inr)

lemma publish_same: "publish t db = Inr (u, db') \<Longrightarrow> same_jobs db db'"
  by (auto simp: publish_def commit_Inr same_jobs_def publish_Inr)

lemma expiry_same: "materialize_due_expiry i t rs dl db = Inr (x, db') \<Longrightarrow> same_jobs db db'"
  using materialize_due_expiry_state[of i t rs dl db x db']
  by (auto simp: same_jobs_def publish_Inr write_expiry_def)

lemma detail_same:
  assumes "package_update_job_current_authority_detail t j db = Inr (x, db')"
  shows "same_jobs db db'"
proof -
  from assms obtain b where "materialize_due_expiry (cx_inventory_source_id (jctx j)) t None None db = Inr (b, db')"
    by (auto simp: package_update_job_current_authority_detail_def result_iffs split: if_splits prod.splits)
  then show ?thesis by (rule expiry_same)
qed

lemma same_jobs_simps:
  assumes "same_jobs db db'"
  shows "jobs db' = jobs db" "store_ok db' = store_ok db" "job_material db' i = job_material db i"
    "job_packages_of i db' = job_packages_of i db" "results_of i db' = results_of i db"
    "post_scan_requests db' = post_scan_requests db"
  using assms by (simp_all add: same_jobs_def store_ok_def job_material_def job_packages_of_def results_of_def)

section \<open>Bodies that keep a relation\<close>

definition keeps :: "(authority_db \<Rightarrow> authority_db \<Rightarrow> bool) \<Rightarrow> 'a body \<Rightarrow> bool" where
  "keeps R m \<longleftrightarrow> (\<forall>db x db'. store_ok db \<longrightarrow> m db = Inr (x, db') \<longrightarrow> store_ok db' \<and> R db db')"

text \<open>
  The writes of the operations on an existing job are the parameters of \<open>job_relation\<close>; the writes of
  an issuance extend it to \<open>authority_relation\<close>.
\<close>

locale job_relation =
  fixes R :: "authority_db \<Rightarrow> authority_db \<Rightarrow> bool"
  assumes refl: "R db db"
    and trans: "R a b \<Longrightarrow> R b c \<Longrightarrow> R a c"
    and on_update: "store_ok db \<Longrightarrow> sanctioned db w s \<Longrightarrow> update_one_job w s e db = Inr db' \<Longrightarrow> R db db'"
    and on_result: "store_ok db \<Longrightarrow> insert_job_result x db = Inr db' \<Longrightarrow> R db db'"
    and on_request: "store_ok db \<Longrightarrow> insert_post_scan_request q db = Inr db' \<Longrightarrow> R db db'"
    and on_event: "store_ok db \<Longrightarrow> append_package_update_job_event j t lv st et m d db = Inr db' \<Longrightarrow> R db db'"
    and on_publish: "store_ok db \<Longrightarrow> bump_global_revisions False True t db = Inr db' \<Longrightarrow> R db db'"
    and on_expiry: "store_ok db \<Longrightarrow> R db (write_expiry src reason db)"
begin

lemma keepsI:
  "(\<And>db x db'. store_ok db \<Longrightarrow> m db = Inr (x, db') \<Longrightarrow> store_ok db' \<and> R db db') \<Longrightarrow> keeps R m"
  by (simp add: keeps_def)

lemma keepsD: "keeps R m \<Longrightarrow> store_ok db \<Longrightarrow> m db = Inr (x, db') \<Longrightarrow> store_ok db' \<and> R db db'"
  by (simp add: keeps_def)

lemma keeps_seq: "keeps R m \<Longrightarrow> (\<And>x. keeps R (f x)) \<Longrightarrow> keeps R (seq m f)"
  by (rule keepsI) (auto simp: seq_Inr dest!: keepsD intro: trans)

lemma keeps_andthen: "keeps R m \<Longrightarrow> keeps R k \<Longrightarrow> keeps R (andthen m k)"
  by (simp add: andthen_def keeps_seq)

lemma keeps_ret: "keeps R (ret x)"
  by (rule keepsI) (auto simp: refl)

lemma keeps_raise: "keeps R (raise e)"
  by (rule keepsI) simp

lemma keeps_need: "keeps R k \<Longrightarrow> keeps R (need b e k)"
  by (simp add: need_def keeps_raise)

lemma keeps_fetch: "keeps R (fetch f)"
  by (rule keepsI) (auto simp: fetch_Inr refl)

lemma keeps_pure: "keeps R (pure r)"
  by (simp add: pure_def keeps_fetch)

lemma keeps_job_row: "keeps R (job_row i)"
  by (simp add: job_row_def keeps_fetch)

lemma keeps_if: "keeps R m \<Longrightarrow> keeps R k \<Longrightarrow> keeps R (if b then m else k)"
  by simp

lemma keeps_option: "keeps R m \<Longrightarrow> (\<And>x. keeps R (f x)) \<Longrightarrow> keeps R (case z of None \<Rightarrow> m | Some x \<Rightarrow> f x)"
  by (simp split: option.split)

lemma keeps_prod: "(\<And>a b. keeps R (f a b)) \<Longrightarrow> keeps R (case z of (a, b) \<Rightarrow> f a b)"
  by (simp split: prod.split)

lemma keeps_authority_state:
  "keeps R a \<Longrightarrow> keeps R b \<Longrightarrow> keeps R c \<Longrightarrow>
     keeps R (case z of AUTH_CURRENT \<Rightarrow> a | AUTH_STALE \<Rightarrow> b | AUTH_TEMPORARILY_UNAVAILABLE \<Rightarrow> c)"
  by (simp split: authority_state.split)

lemmas keeps_control = keeps_seq keeps_andthen keeps_ret keeps_raise keeps_need keeps_fetch keeps_pure
  keeps_job_row keeps_if keeps_option keeps_prod keeps_authority_state

lemma keeps_update:
  assumes "\<And>j. w j \<Longrightarrow> job_transition j (s j)"
  shows "keeps R (update_job w s lost)"
proof (rule keepsI)
  fix db db' and x :: unit
  assume "store_ok db" "update_job w s lost db = Inr (x, db')"
  moreover from assms have "sanctioned db w s" by (simp add: sanctioned_def)
  ultimately show "store_ok db' \<and> R db db'"
    by (auto simp: update_job_def commit_Inr intro: update_store_ok on_update)
qed

lemma keeps_commit:
  assumes "\<And>db db'. store_ok db \<Longrightarrow> f db = Inr db' \<Longrightarrow> R db db' \<and> store_ok db'"
  shows "keeps R (commit f)"
  by (rule keepsI) (use assms in \<open>auto simp: commit_Inr\<close>)

lemma keeps_log: "keeps R (log_event i t lv st et m d)"
  unfolding log_event_def
proof (rule keeps_commit)
  fix db db'
  assume "store_ok db" and run: "append_package_update_job_event i t lv st et m d db = Inr db'"
  then show "R db db' \<and> store_ok db'"
    using on_event append_event_Inr[OF run] by (auto simp: store_ok_def)
qed

lemma keeps_publish: "keeps R (publish t)"
  unfolding publish_def
proof (rule keeps_commit)
  fix db db'
  assume "store_ok db" and run: "bump_global_revisions False True t db = Inr db'"
  then show "R db db' \<and> store_ok db'"
    using on_publish run by (auto simp: publish_Inr store_ok_def)
qed

lemma keeps_expiry: "keeps R (materialize_due_expiry i t rs dl)"
proof (rule keepsI)
  fix db x db'
  assume ok: "store_ok db" and run: "materialize_due_expiry i t rs dl db = Inr (x, db')"
  from materialize_due_expiry_state[OF run] consider "db' = db"
    | reason where "bump_global_revisions False True t (write_expiry i reason db) = Inr db'"
    by blast
  then show "store_ok db' \<and> R db db'"
  proof cases
    case 1
    with ok show ?thesis by (simp add: refl)
  next
    case 2
    from ok have ok1: "store_ok (write_expiry i reason db)" by (auto simp: write_expiry_def elim: store_ok_jobs)
    from on_publish[OF ok1 2] on_expiry[OF ok, of i reason] have "R db db'" by (blast intro: trans)
    moreover from 2 ok1 have "store_ok db'" by (auto simp: publish_Inr elim: store_ok_jobs)
    ultimately show ?thesis by simp
  qed
qed

lemma keeps_detail: "keeps R (package_update_job_current_authority_detail t j)"
proof (rule keepsI)
  fix db x db'
  assume "store_ok db" "package_update_job_current_authority_detail t j db = Inr (x, db')"
  moreover from this obtain b where "materialize_due_expiry (cx_inventory_source_id (jctx j)) t None None db = Inr (b, db')"
    by (auto simp: package_update_job_current_authority_detail_def result_iffs split: if_splits prod.splits)
  ultimately show "store_ok db' \<and> R db db'" using keepsD[OF keeps_expiry] by blast
qed

lemma keeps_authority: "keeps R (package_update_job_authority_is_current t j)"
proof (rule keepsI)
  fix db x db'
  assume "store_ok db" "package_update_job_authority_is_current t j db = Inr (x, db')"
  moreover from this obtain y where "package_update_job_current_authority_detail t j db = Inr (y, db')"
    by (auto simp: package_update_job_authority_is_current_def result_iffs split: if_splits option.splits)
  ultimately show "store_ok db' \<and> R db db'" using keepsD[OF keeps_detail] by blast
qed

lemma keeps_authority_or_false: "keeps R (authority_or_false t j)"
proof (rule keepsI)
  fix db x db'
  assume "store_ok db" "authority_or_false t j db = Inr (x, db')"
  then show "store_ok db' \<and> R db db'"
    using keepsD[OF keeps_detail, of db t j]
    by (auto simp: authority_or_false_def refl split: sum.splits if_splits prod.splits)
qed

lemmas keeps_parts = keeps_control keeps_log keeps_publish keeps_expiry keeps_detail keeps_authority
  keeps_authority_or_false

end

locale authority_relation = job_relation +
  assumes on_insert_job: "store_ok db \<Longrightarrow> insert_job (issued_job i) db = Inr db' \<Longrightarrow> R db db'"
    and on_package: "store_ok db \<Longrightarrow> insert_job_package r db = Inr db' \<Longrightarrow> R db db'"
    and on_probe: "store_ok db \<Longrightarrow> insert_job_probe p db = Inr db' \<Longrightarrow> R db db'"

end
