(* ===== verification/Operation_Effects.thy ===== *)
theory Operation_Effects
  imports Authority_Effects
begin

text \<open>
  The locale's client lemmas, operation by operation: each transaction body keeps any relation that
  the primitive writes keep. Every UPDATE of a job row is matched with its rule of
  \<open>job_transition\<close> here, so this theory is where the operations meet the abstract machine.
\<close>

lemmas owned_defs = owned_at_def blockable_def interruptible_def rollback_armable_def

context job_relation
begin

section \<open>Insertions\<close>

lemma keeps_executemany:
  assumes one: "\<And>r db db'. store_ok db \<Longrightarrow> ins r db = Inr db' \<Longrightarrow> R db db' \<and> store_ok db'"
  shows "keeps R (commit (executemany ins rs))"
proof (rule keeps_commit)
  fix db db'
  assume "store_ok db" "executemany ins rs db = Inr db'"
  then show "R db db' \<and> store_ok db'"
  proof (induction rs arbitrary: db)
    case (Cons r rs)
    then obtain db1 where "ins r db = Inr db1" "executemany ins rs db1 = Inr db'"
      by (auto simp: bindE_Inr_iff)
    with Cons.IH[of db1] one[OF Cons.prems(1), of r db1] show ?case by (blast intro: trans)
  qed (simp add: refl)
qed

lemma keeps_results: "keeps R (commit (executemany insert_job_result rs))"
proof (rule keeps_executemany)
  fix r db db'
  assume "store_ok db" and run: "insert_job_result r db = Inr db'"
  then show "R db db' \<and> store_ok db'"
    using on_result insert_job_result_Inr[OF run] by (auto simp: store_ok_def)
qed

lemma keeps_request: "keeps R (commit (insert_post_scan_request q))"
proof (rule keeps_commit)
  fix db db'
  assume "store_ok db" and run: "insert_post_scan_request q db = Inr db'"
  then show "R db db' \<and> store_ok db'"
    using on_request insert_post_scan_request_Inr[OF run] by (auto simp: store_ok_def)
qed

section \<open>Snapshot operations\<close>

lemma keeps_in_snapshot: "keeps R (require_in_snapshot j)"
  unfolding require_in_snapshot_def by (intro keeps_parts)

lemma keeps_revalidate: "keeps R (revalidate_body now i)"
  unfolding revalidate_body_def by (intro keeps_parts)

lemma keeps_preflight: "keeps R (preflight_body now i)"
  unfolding preflight_body_def
  by (intro keeps_parts keeps_update) (auto simp: owned_defs intro: job_transition.intros)

lemma keeps_snapshot_intent: "keeps R (snapshot_intent_body now i)"
  unfolding snapshot_intent_body_def commit_snapshot_intent_def
  by (intro keeps_parts keeps_update) (auto simp: owned_defs intro: job_transition.intros)

lemma keeps_snapshot_submission: "keeps R (snapshot_submission_body now i)"
  unfolding snapshot_submission_body_def by (intro keeps_parts keeps_in_snapshot)

lemma keeps_snapshot_task: "keeps R (snapshot_task_body now args)"
  unfolding snapshot_task_body_def
  by (intro keeps_parts keeps_in_snapshot keeps_update) (auto simp: owned_defs intro: job_transition.intros)

lemma keeps_confirm: "keeps R (confirm_body now observed i)"
  unfolding confirm_body_def Let_def
  by (intro keeps_parts keeps_update) (auto simp: owned_defs intro: job_transition.intros)

lemma keeps_block_stale: "keeps R (block_stale_body now observed i)"
  unfolding block_stale_body_def
  by (intro keeps_parts keeps_in_snapshot keeps_update) (auto simp: owned_defs intro!: job_transition.blocked)

lemma keeps_snapshot_uncertain: "keeps R (snapshot_uncertain_body now args)"
  unfolding snapshot_uncertain_body_def by (intro keeps_parts keeps_in_snapshot)

lemma keeps_fail_snapshot: "keeps R (fail_snapshot_body now observed args)"
  unfolding fail_snapshot_body_def
  by (intro keeps_parts keeps_in_snapshot keeps_update) (auto simp: owned_defs intro!: job_transition.blocked)

lemma keeps_pre_submission_check: "keeps R (pre_submission_check i)"
  unfolding pre_submission_check_def by (intro keeps_parts keeps_in_snapshot)

lemma keeps_pre_submission_block: "keeps R (commit_pre_submission_block now i reason)"
  unfolding commit_pre_submission_block_def
  by (intro keeps_parts keeps_update) (auto simp: owned_defs intro!: job_transition.blocked)

section \<open>Mutation operations\<close>

lemma keeps_gate: "keeps R (require_active_execution_gate_job j)"
  unfolding require_active_execution_gate_job_def by (intro keeps_parts)

lemma keeps_stale_release: "keeps R (terminalize_execution_gate_job_if_authority_stale a b c j)"
  unfolding terminalize_execution_gate_job_if_authority_stale_def
  by (intro keeps_parts keeps_update) (auto simp: owned_defs intro!: job_transition.blocked)

lemma keeps_revalidate_or_release: "keeps R (revalidate_or_release_body now i)"
  unfolding revalidate_or_release_body_def by (intro keeps_parts keeps_gate keeps_stale_release)

lemma keeps_plan_mismatch: "keeps R (block_plan_mismatch i a b m n lost)"
  unfolding block_plan_mismatch_def
  by (intro keeps_parts keeps_update) (auto simp: owned_defs intro!: job_transition.blocked)

lemma keeps_evaluate: "keeps R (evaluate_plan_body now args)"
  unfolding evaluate_plan_body_def
  by (intro keeps_parts keeps_gate keeps_stale_release keeps_plan_mismatch)

lemma keeps_mutation_intent: "keeps R (commit_package_mutation_intent i oid a b n digest)"
  unfolding commit_package_mutation_intent_def
  by (intro keeps_parts keeps_update) (auto simp: owned_defs intro: job_transition.intros)

lemma keeps_arm_mutation: "keeps R (arm_mutation_body now args)"
  unfolding arm_mutation_body_def
  by (intro keeps_parts keeps_stale_release keeps_plan_mismatch keeps_mutation_intent)

lemma keeps_armed_mutation: "keeps R (require_armed_package_mutation_job j)"
  unfolding require_armed_package_mutation_job_def by (intro keeps_parts)

lemma keeps_mutation_submission: "keeps R (mutation_submission_body now args)"
  unfolding mutation_submission_body_def by (intro keeps_parts keeps_armed_mutation)

lemma keeps_mutation_note: "keeps R (mutation_note_body now lv et args)"
  unfolding mutation_note_body_def by (intro keeps_parts keeps_armed_mutation)

lemma keeps_pre_mutation_check: "keeps R (pre_mutation_check i)"
  unfolding pre_mutation_check_def by (intro keeps_parts keeps_armed_mutation)

lemma keeps_pre_mutation_block: "keeps R (commit_pre_mutation_block now i reason)"
  unfolding commit_pre_mutation_block_def
  by (intro keeps_parts keeps_update) (auto simp: owned_defs intro!: job_transition.blocked)

lemma keeps_complete_mutation: "keeps R (complete_mutation_body now post i)"
  unfolding complete_mutation_body_def
  by (intro keeps_parts keeps_update) (auto simp: owned_defs intro: job_transition.intros)

section \<open>Health operations\<close>

lemma keeps_start_health: "keeps R (start_health_body now i)"
  unfolding start_health_body_def
  by (intro keeps_parts keeps_update) (auto simp: owned_defs intro: job_transition.health_started)

lemma keeps_verdict: "keeps R (record_verdict i t passed)"
  unfolding record_verdict_def
  by (intro keeps_update)
    (auto simp: owned_defs intro: job_transition.health_passed job_transition.health_failed)

lemma keeps_complete_health: "keeps R (complete_health_body now reported i)"
  unfolding complete_health_body_def log_verdict_def request_post_update_scan_def
  by (intro keeps_parts keeps_verdict keeps_results keeps_request)

lemma keeps_health_unknown: "keeps R (health_unknown_body now evidence s args)"
  unfolding health_unknown_body_def by (intro keeps_parts)

section \<open>Rollback operations and recovery\<close>

lemma keeps_arm_rollback: "keeps R (arm_rollback_body now observed i)"
  unfolding arm_rollback_body_def commit_rollback_intent_def
  by (intro keeps_parts keeps_update) (auto simp: owned_defs intro!: job_transition.rollback_armed)

lemma keeps_armed_rollback: "keeps R (require_armed_rollback_job j)"
  unfolding require_armed_rollback_job_def by (intro keeps_parts)

lemma keeps_rollback_submission: "keeps R (rollback_submission_body i)"
  unfolding rollback_submission_body_def by (intro keeps_parts keeps_armed_rollback)

lemma keeps_rollback_task: "keeps R (rollback_task_body now args)"
  unfolding rollback_task_body_def
  by (intro keeps_parts keeps_armed_rollback keeps_update) (auto simp: owned_defs intro: job_transition.rollback_task)

lemma keeps_rollback_note: "keeps R (rollback_note_body now lv et args)"
  unfolding rollback_note_body_def by (intro keeps_parts keeps_armed_rollback)

lemma keeps_pre_rollback_check: "keeps R (pre_rollback_check i)"
  unfolding pre_rollback_check_def by (intro keeps_parts keeps_armed_rollback)

lemma keeps_pre_rollback_block: "keeps R (commit_pre_rollback_block now i reason)"
  unfolding commit_pre_rollback_block_def
  by (intro keeps_parts keeps_update) (auto simp: owned_defs intro!: job_transition.blocked)

lemma keeps_complete_rollback: "keeps R (complete_rollback_body now observed ok i)"
  unfolding complete_rollback_body_def Let_def
  by (intro keeps_parts keeps_armed_rollback keeps_update)
    (auto simp: owned_defs intro: job_transition.rollback_completed)

text \<open>
  The UPDATE of the recovery names the job and its activity only; that the row is still at one of
  the interruptible checkpoints is known because it was selected in the same transaction.
\<close>

lemma keeps_interrupt:
  assumes "store_ok db" "row \<in> set (jobs db)" "interruptible (job_checkpoint row)"
    and run: "interrupt_job t row db = Inr (u, db')"
  shows "store_ok db' \<and> R db db'"
proof -
  from run obtain db1 where
    upd: "update_one_job (\<lambda>r. jid r = jid row \<and> status r = ACTIVE) (terminate_job INTERRUPTED t RESTART_REASON)
            (AuthorityConflict ''package update job recovery lost durable ownership'') db = Inr db1"
    and log: "log_event (jid row) t WARNING (job_checkpoint row) EV_RESTART_INTERRUPTED RESTART_REASON (JObj []) db1
            = Inr ((), db')"
    by (auto simp: interrupt_job_def body_iffs update_job_def)
  have "j = row" if "j \<in> set (jobs db)" "jid j = jid row" for j
  proof -
    from assms(1) have "inj_on jid (set (jobs db))"
      by (simp add: store_ok_def job_indexes_def distinct_map)
    with that assms(2) show ?thesis by (auto dest: inj_onD)
  qed
  with assms(3) have "sanctioned db (\<lambda>r. jid r = jid row \<and> status r = ACTIVE) (terminate_job INTERRUPTED t RESTART_REASON)"
    by (auto simp: sanctioned_def intro!: job_transition.interrupted)
  from on_update[OF assms(1) this upd] update_store_ok[OF assms(1) this upd] keepsD[OF keeps_log _ log]
  show ?thesis by (blast intro: trans)
qed

lemma keeps_recover: "keeps R (recover_body now u)"
proof (rule keepsI)
  fix db x db'
  assume ok: "store_ok db" and run: "recover_body now u db = Inr (x, db')"
  then obtain db1 where loop: "interrupt_jobs (now 0) (interrupted_rows db) db = Inr ((), db1)"
    and rest: "andthen (if interrupted_rows db = [] then ret () else publish (now 1))
                 (ret (map (\<lambda>j. jid j) (interrupted_rows db))) db1 = Inr (x, db')"
    by (auto simp: recover_body_def seq_Inr fetch_Inr andthen_Inr[where m = "interrupt_jobs _ _"])
  have rows: "row \<in> set (jobs db) \<and> interruptible (job_checkpoint row)" if "row \<in> set (interrupted_rows db)" for row
    using that by (auto simp: interrupted_rows_def interruptible_def STARTUP_INTERRUPTIBLE_CHECKPOINTS_def)
  have "length (filter (\<lambda>j. status j = ACTIVE \<and> job_checkpoint j \<in> set STARTUP_INTERRUPTIBLE_CHECKPOINTS) js)
      \<le> length (active_jobs js)" for js
    by (induction js) (auto simp: active_jobs_def)
  from this[of "jobs db"] ok have "length (interrupted_rows db) \<le> 1"
    by (simp add: interrupted_rows_def store_ok_def job_indexes_def)
  then have "store_ok db1 \<and> R db db1"
    using loop ok rows
    by (cases "interrupted_rows db") (auto simp: refl andthen_Inr dest: keeps_interrupt)
  moreover have "keeps R (andthen (if interrupted_rows db = [] then ret () else publish (now 1))
                 (ret (map (\<lambda>j. jid j) (interrupted_rows db))))"
    by (intro keeps_parts)
  ultimately show "store_ok db' \<and> R db db'" using rest by (blast dest: keepsD intro: trans)
qed

end

section \<open>Issuance\<close>

context authority_relation
begin

lemma keeps_packages: "keeps R (commit (executemany insert_job_package rs))"
proof (rule keeps_executemany)
  fix r db db'
  assume "store_ok db" and run: "insert_job_package r db = Inr db'"
  then show "R db db' \<and> store_ok db'"
    using on_package insert_job_package_Inr[OF run] by (auto simp: store_ok_def)
qed

lemma keeps_probes: "keeps R (commit (executemany insert_job_probe rs))"
proof (rule keeps_executemany)
  fix r db db'
  assume "store_ok db" and run: "insert_job_probe r db = Inr db'"
  then show "R db db' \<and> store_ok db'"
    using on_probe insert_job_probe_Inr[OF run] by (auto simp: store_ok_def)
qed

lemma keeps_new_job: "keeps R (commit (insert_job_or_refuse (issued_job i)))"
proof (rule keeps_commit)
  fix db db'
  assume "store_ok db" and run: "insert_job_or_refuse (issued_job i) db = Inr db'"
  moreover from run have "insert_job (issued_job i) db = Inr db'"
    by (auto simp: insert_job_or_refuse_def split: sum.splits exn.splits)
  ultimately show "R db db' \<and> store_ok db'"
    using on_insert_job insert_store_ok by blast
qed

lemmas keeps_writes = keeps_packages keeps_probes keeps_new_job

lemma keeps_issue: "keeps R (issue_body now file fresh args)"
  unfolding issue_body_def issue_new_job_def insert_issued_job_def
  by (intro keeps_parts keeps_writes)

end

end
