(* ===== verification/Authority_System.thy ===== *)
theory Authority_System
  imports Operation_Effects
begin

text \<open>
  The authority as a transition system. A state is the database, the maintenance fence file and
  the state of the hosts; a step is one call of an operation with any arguments, clock readings,
  host callback and observed evidence, or a step of the environment: another component of the
  backend (discovery, scans, approvals, contracts) that leaves the job tables alone, or anything
  that happens to the fence file and to the hosts. Calls are atomic with respect to the database,
  because each runs in one immediate transaction. What the callbacks return is text here.
\<close>

definition environment_step :: "authority_db \<Rightarrow> authority_db \<Rightarrow> bool" where
  "environment_step db db' \<longleftrightarrow>
     jobs db' = jobs db \<and> job_packages db' = job_packages db \<and> job_probes db' = job_probes db
     \<and> job_results db' = job_results db \<and> job_events db' = job_events db
     \<and> map (\<lambda>r. (ps_job_id r, ps_resource_id r)) (post_scan_requests db')
         = map (\<lambda>r. (ps_job_id r, ps_resource_id r)) (post_scan_requests db)
     \<and> be_id (backend db') = be_id (backend db)
     \<and> be_published_state_revision (backend db) \<le> be_published_state_revision (backend db')"

type_synonym 'h system = "authority_db \<times> fence_file \<times> 'h"

text \<open>The effect of a submission or a release on the database and on the host.\<close>

abbreviation effect :: "authority_db \<times> 'h \<times> 'r \<Rightarrow> fence_file \<Rightarrow> 'h system" where
  "effect r f \<equiv> (fst r, f, fst (snd r))"

inductive job_step :: "'h system \<Rightarrow> 'h system \<Rightarrow> bool" where
  revalidate: "job_step (db, f, h) (fst (revalidate_package_update_job now i db), f, h)"
| preflight: "job_step (db, f, h) (fst (record_package_update_preflight_passed now i db), f, h)"
| snapshot_intent: "job_step (db, f, h) (fst (record_package_update_snapshot_intent now i db), f, h)"
| snapshot_submission: "job_step (db, f, h)
    (effect (execute_snapshot_submission_if_current now i (submit :: 'h \<Rightarrow> string result \<times> 'h) db h) f)"
| snapshot_task: "job_step (db, f, h) (fst (record_package_update_snapshot_task now i upid db), f, h)"
| confirm_snapshot: "job_step (db, f, h) (fst (confirm_package_update_snapshot now i observed db), f, h)"
| block_stale: "job_step (db, f, h)
    (fst (block_package_update_after_snapshot_success_with_stale_authority now i observed db), f, h)"
| snapshot_uncertain: "job_step (db, f, h) (fst (record_package_update_snapshot_uncertain now i reason db), f, h)"
| fail_snapshot: "job_step (db, f, h) (fst (fail_package_update_snapshot now i reason observed db), f, h)"
| release_snapshot: "job_step (db, f, h)
    (effect (resolve_pre_submission_block now i
       (seal1 :: 'h \<Rightarrow> (host_submission_state option \<times> string \<times> string) result \<times> 'h) db h) f)"
| revalidate_or_release: "job_step (db, f, h)
    (fst (revalidate_or_release_stale_package_update_execution now i db), f, h)"
| evaluate_plan: "job_step (db, f, h) (fst (evaluate_package_update_execution_plan now i packages db), f, h)"
| arm_mutation: "job_step (db, f, h) (fst (arm_package_update_mutation now i packages digest db), f, h)"
| mutation_submission: "job_step (db, f, h)
    (effect (execute_package_mutation_submission_if_current now i (submit :: 'h \<Rightarrow> string result \<times> 'h) digest db h) f)"
| mutation_uncertain: "job_step (db, f, h) (fst (record_package_update_mutation_uncertain now i reason db), f, h)"
| mutation_submitted: "job_step (db, f, h) (fst (record_package_update_mutation_submitted now i reason db), f, h)"
| mutation_failure: "job_step (db, f, h) (fst (record_package_update_mutation_terminal_failure now i reason db), f, h)"
| release_mutation: "job_step (db, f, h)
    (effect (resolve_pre_mutation_block now i
       (seal2 :: 'h \<Rightarrow> (host_mutation_state option \<times> string \<times> string) result \<times> 'h) db h) f)"
| complete_mutation: "job_step (db, f, h) (fst (complete_package_update_mutation now i post db), f, h)"
| start_health: "job_step (db, f, h) (fst (start_package_update_health now i db), f, h)"
| complete_health: "job_step (db, f, h) (fst (complete_package_update_health now i reported db), f, h)"
| health_unknown: "job_step (db, f, h)
    (fst (record_package_update_health_outcome_unknown now i reason evidence s db), f, h)"
| arm_rollback: "job_step (db, f, h) (fst (arm_package_update_rollback now i observed db), f, h)"
| rollback_submission: "job_step (db, f, h)
    (effect (execute_rollback_submission_if_current i (submit :: 'h \<Rightarrow> string result \<times> 'h) db h) f)"
| rollback_task: "job_step (db, f, h) (fst (record_package_update_rollback_task now i upid db), f, h)"
| rollback_submitted: "job_step (db, f, h) (fst (record_package_update_rollback_submitted now i reason db), f, h)"
| rollback_uncertain: "job_step (db, f, h) (fst (record_package_update_rollback_uncertain now i reason db), f, h)"
| rollback_failure: "job_step (db, f, h) (fst (record_package_update_rollback_terminal_failure now i reason db), f, h)"
| release_rollback: "job_step (db, f, h)
    (effect (resolve_pre_rollback_block now i
       (seal3 :: 'h \<Rightarrow> (host_rollback_state option \<times> string \<times> string) result \<times> 'h) db h) f)"
| complete_rollback: "job_step (db, f, h) (fst (complete_package_update_rollback now i observed ok db), f, h)"
| recover: "job_step (db, f, h) (fst (recover_interrupted_package_update_jobs now db), f, h)"

text \<open>An operation: the fence, an issuance, or a call on an existing job.\<close>

inductive operation_step :: "'h system \<Rightarrow> 'h system \<Rightarrow> bool" where
  fence_acquired: "operation_step (db, f, h)
    (db, fst (acquire_product_update_maintenance_fence now io holder db f), h)"
| issue: "operation_step (db, f, h) (fst (issue_package_update_job now f fresh res appr req db), f, h)"
| on_job: "job_step s s' \<Longrightarrow> operation_step s s'"

inductive authority_step :: "'h system \<Rightarrow> 'h system \<Rightarrow> bool" where
  environment: "environment_step db db' \<Longrightarrow> authority_step (db, f, h) (db', f', h')"
| operation: "operation_step s s' \<Longrightarrow> authority_step s s'"

section \<open>What a call does to the database\<close>

lemmas operation_defs = revalidate_package_update_job_def record_package_update_preflight_passed_def
   record_package_update_snapshot_intent_def execute_snapshot_submission_if_current_def
   record_package_update_snapshot_task_def confirm_package_update_snapshot_def
   block_package_update_after_snapshot_success_with_stale_authority_def
   record_package_update_snapshot_uncertain_def fail_package_update_snapshot_def resolve_pre_submission_block_def
   revalidate_or_release_stale_package_update_execution_def evaluate_package_update_execution_plan_def
   arm_package_update_mutation_def execute_package_mutation_submission_if_current_def
   record_package_update_mutation_uncertain_def record_package_update_mutation_submitted_def
   record_package_update_mutation_terminal_failure_def resolve_pre_mutation_block_def
   complete_package_update_mutation_def start_package_update_health_def complete_package_update_health_def
   record_package_update_health_outcome_unknown_def arm_package_update_rollback_def
   execute_rollback_submission_if_current_def record_package_update_rollback_task_def
   record_package_update_rollback_submitted_def record_package_update_rollback_uncertain_def
   record_package_update_rollback_terminal_failure_def resolve_pre_rollback_block_def
   complete_package_update_rollback_def recover_interrupted_package_update_jobs_def

context job_relation
begin

lemma run_op_keeps:
  assumes "store_ok db" "\<And>x. keeps R (body x)"
  shows "store_ok (fst (run_op args body after db)) \<and> R db (fst (run_op args body after db))"
  by (rule run_op_cases[of args body after db]) (use assms refl in \<open>auto dest: keepsD\<close>)

lemma submission_keeps:
  assumes "store_ok db" "\<And>x. keeps R (body x)"
  shows "store_ok (fst (run_submission args body e submit db h)) \<and> R db (fst (run_submission args body e submit db h))"
  using assms(1) keepsD[OF assms(2) assms(1)]
  by (auto simp: run_submission_def refl split: sum.split prod.split)

lemma release_keeps:
  assumes ok: "store_ok db" and "\<And>x. keeps R (check x)" "\<And>x r. keeps R (block x r)"
  shows "store_ok (fst (run_release i check sealed block seal db h)) \<and> R db (fst (run_release i check sealed block seal db h))"
proof -
  have both: "keeps R (seq (check x) (\<lambda>_. seq (pure (require_text r ''reason'' 500)) (block x)))" for x r
    by (intro keeps_parts assms)
  have "store_ok db2 \<and> R db db2"
    if "check x db = Inr (u, db1)" "seq (pure (require_text r ''reason'' 500)) (block x) db1 = Inr (v, db2)" for x r u v db1 db2
  proof (rule keepsD[OF both[of x r] ok])
    show "seq (check x) (\<lambda>_. seq (pure (require_text r ''reason'' 500)) (block x)) db = Inr (v, db2)"
      using that by (auto simp: seq_Inr[of "check x"])
  qed
  with ok keepsD[OF assms(2) ok] show ?thesis
    by (auto simp: run_release_def refl split: sum.split prod.split)
qed

lemmas call_keeps = run_op_keeps[THEN conjunct1] run_op_keeps[THEN conjunct2]
  submission_keeps[THEN conjunct1] submission_keeps[THEN conjunct2]
  release_keeps[THEN conjunct1] release_keeps[THEN conjunct2]

lemmas keeps_bodies = keeps_revalidate keeps_preflight keeps_snapshot_intent keeps_snapshot_submission
  keeps_snapshot_task keeps_confirm keeps_block_stale keeps_snapshot_uncertain keeps_fail_snapshot
  keeps_pre_submission_check keeps_pre_submission_block keeps_revalidate_or_release keeps_evaluate
  keeps_arm_mutation keeps_mutation_submission keeps_mutation_note keeps_pre_mutation_check
  keeps_pre_mutation_block keeps_complete_mutation keeps_start_health keeps_complete_health
  keeps_health_unknown keeps_arm_rollback keeps_rollback_submission keeps_rollback_task
  keeps_rollback_note keeps_pre_rollback_check keeps_pre_rollback_block keeps_complete_rollback keeps_recover

lemma job_step_keeps:
  assumes "job_step (db, f, h) (db', f', h')" "store_ok db"
  shows "store_ok db' \<and> R db db'"
  using assms
  by (cases rule: job_step.cases) (use assms(2) refl in \<open>auto intro!: call_keeps keeps_bodies simp: operation_defs\<close>)

end

context authority_relation
begin

lemma operation_keeps:
  assumes "operation_step (db, f, h) (db', f', h')" "store_ok db"
  shows "store_ok db' \<and> R db db'"
  using assms(1)
proof (cases rule: operation_step.cases)
  case issue
  with assms(2) show ?thesis by (auto simp: issue_package_update_job_def intro!: call_keeps keeps_issue)
next
  case on_job
  from job_step_keeps[OF this assms(2)] show ?thesis .
qed (use assms(2) refl in auto)

end

text \<open>A relation that the environment respects too holds along every run of the system.\<close>

locale system_relation = authority_relation +
  assumes on_environment: "store_ok db \<Longrightarrow> environment_step db db' \<Longrightarrow> R db db'"
begin

lemma step_keeps:
  assumes "authority_step (db, f, h) (db', f', h')" "store_ok db"
  shows "store_ok db' \<and> R db db'"
  using assms(1)
proof (cases rule: authority_step.cases)
  case environment
  with assms(2) on_environment show ?thesis by (auto simp: environment_step_def store_ok_def)
next
  case operation
  from operation_keeps[OF this assms(2)] show ?thesis .
qed

lemma steps_keep:
  assumes "authority_step\<^sup>*\<^sup>* s s'" "store_ok (fst s)"
  shows "store_ok (fst s') \<and> R (fst s) (fst s')"
  using assms
proof (induction rule: rtranclp_induct)
  case (step y z)
  then have "store_ok (fst y)" "R (fst s) (fst y)" by auto
  with step.hyps(2) step_keeps[of "fst y" "fst (snd y)" "snd (snd y)" "fst z" "fst (snd z)" "snd (snd z)"]
  show ?case by (auto intro: trans)
qed (simp add: refl)

end

end
