(* ===== verification/Authority_Histories.thy ===== *)
theory Authority_Histories
  imports Authority_System
begin

text \<open>
  The interpretations of \<open>system_relation\<close> on the model: the history of the job rows (refinement of
  the abstract machine), the event log, the published revision, the frozen material of a job, the
  evidence behind a health verdict and the refresh obligations. Each gives its law for every run of
  the system; the theorems over them are in the root theory.
\<close>

section \<open>Job histories\<close>

abbreviation job_reaches :: "job \<Rightarrow> job \<Rightarrow> bool" where
  "job_reaches \<equiv> job_transition\<^sup>*\<^sup>*"

definition evolves :: "job list \<Rightarrow> job list \<Rightarrow> bool" where
  "evolves js js' \<longleftrightarrow>
     (\<exists>olds news. js' = olds @ news \<and> list_all2 job_reaches js olds
        \<and> (\<forall>j \<in> set news. \<exists>i. job_reaches (issued_job i) j))"

lemma reaches_issuance: "job_reaches j j' \<Longrightarrow> iss j' = iss j"
  by (induction rule: rtranclp_induct) (auto dest: transition_issuance)

lemma reaches_rank: "job_reaches j j' \<Longrightarrow> job_checkpoint j \<le> job_checkpoint j'"
  by (induction rule: rtranclp_induct) (auto simp: less_eq_checkpoint_def dest: transition_rank)

lemma reaches_terminal: "job_reaches j j' \<Longrightarrow> status j \<noteq> ACTIVE \<Longrightarrow> j' = j"
  by (induction rule: converse_rtranclp_induct) (auto dest: transition_active)

lemma write_once_trans: "job_write_once a b \<Longrightarrow> job_write_once b c \<Longrightarrow> job_write_once a c"
  unfolding job_write_once_def by (intro conjI impI; elim conjE disjE; metis)

lemma reaches_write_once:
  assumes "job_reaches j j'" "job_shape j"
  shows "job_write_once j j'"
proof -
  from assms have "job_write_once j j' \<and> job_shape j'"
  proof (induction rule: rtranclp_induct)
    case base
    then show ?case by (simp add: job_write_once_def)
  next
    case (step y z)
    with transition_write_once[of y z] transition_shape[of y z] show ?case by (blast intro: write_once_trans)
  qed
  then show ?thesis ..
qed

lemma evolves_refl: "evolves js js"
  unfolding evolves_def by (rule exI[of _ js], rule exI[of _ "[]"]) (simp add: list.rel_refl)

lemma evolves_trans:
  assumes "evolves a b" "evolves b c"
  shows "evolves a c"
proof -
  from assms(1) obtain olds news where b: "b = olds @ news" "list_all2 job_reaches a olds"
    and n: "\<forall>j \<in> set news. \<exists>i. job_reaches (issued_job i) j" by (auto simp: evolves_def)
  from assms(2) b(1) obtain olds1 news1 more where c: "c = olds1 @ news1 @ more"
    "list_all2 job_reaches olds olds1" "list_all2 job_reaches news news1"
    and m: "\<forall>j \<in> set more. \<exists>i. job_reaches (issued_job i) j"
    by (fastforce simp: evolves_def list_all2_append1)
  have "list_all2 job_reaches a olds1"
    using b(2) c(2) by (rule list_all2_trans[rotated]) (rule rtranclp_trans)
  moreover have "\<exists>i. job_reaches (issued_job i) j" if "j \<in> set news1" for j
    using that n c(3) by (metis in_set_conv_nth list_all2_conv_all_nth rtranclp_trans)
  ultimately show ?thesis unfolding evolves_def using c(1) m
    by (intro exI[of _ olds1] exI[of _ "news1 @ more"]) auto
qed

lemma evolves_update:
  "sanctioned db w s \<Longrightarrow> evolves (jobs db) (rows_update w s (jobs db))"
  unfolding evolves_def
  by (rule exI[of _ "rows_update w s (jobs db)"], rule exI[of _ "[]"])
    (auto simp: rows_update_def sanctioned_def list_all2_map2 intro!: list.rel_refl_strong)

interpretation job_history: system_relation "\<lambda>db db'. evolves (jobs db) (jobs db')"
proof unfold_locales
  fix db w s e db' assume "store_ok db" "sanctioned db w s" "update_one_job w s e db = Inr db'"
  then show "evolves (jobs db) (jobs db')" by (auto simp: update_one_job_Inr evolves_update)
next
  fix db i db' assume "insert_job (issued_job i) db = Inr db'"
  then have "jobs db' = jobs db @ [issued_job i]" by (auto simp: insert_job_Inr)
  then show "evolves (jobs db) (jobs db')" unfolding evolves_def
    by (intro exI[of _ "jobs db"] exI[of _ "[issued_job i]"]) (auto intro: list.rel_refl)
qed (auto simp: evolves_refl write_expiry_def environment_step_def intro: evolves_trans dest!: write_Inr)

section \<open>The event log\<close>

definition events_of :: "uuid \<Rightarrow> authority_db \<Rightarrow> job_event list" where
  "events_of i db = filter (\<lambda>e. ev_job_id e = i) (job_events db)"

definition event_log_ok :: "authority_db \<Rightarrow> bool" where
  "event_log_ok db \<longleftrightarrow> (\<forall>i. map ev_sequence (events_of i db) = [1..<Suc (length (events_of i db))])"

definition log_extends :: "authority_db \<Rightarrow> authority_db \<Rightarrow> bool" where
  "log_extends db db' \<longleftrightarrow>
     (\<exists>es. job_events db' = job_events db @ es) \<and> (event_log_ok db \<longrightarrow> event_log_ok db')"

lemma next_event_sequence_ok:
  "event_log_ok db \<Longrightarrow> next_event_sequence i db = Suc (length (events_of i db))"
  unfolding next_event_sequence_def events_of_def[symmetric] event_log_ok_def by (metis max_or_zero_upt)

lemma event_log_append:
  assumes "event_log_ok db" "ev_sequence e = next_event_sequence (ev_job_id e) db"
  shows "event_log_ok (db\<lparr>job_events := job_events db @ [e]\<rparr>)"
  unfolding event_log_ok_def
proof
  fix i
  show "map ev_sequence (events_of i (db\<lparr>job_events := job_events db @ [e]\<rparr>)) =
      [1..<Suc (length (events_of i (db\<lparr>job_events := job_events db @ [e]\<rparr>)))]"
  proof (cases "ev_job_id e = i")
    case True
    with assms show ?thesis
      using next_event_sequence_ok[OF assms(1), of i] by (simp add: events_of_def event_log_ok_def)
  next
    case False
    with assms(1) show ?thesis by (simp add: events_of_def event_log_ok_def)
  qed
qed

lemma log_extends_same: "job_events db' = job_events db \<Longrightarrow> log_extends db db'"
  by (auto simp: log_extends_def event_log_ok_def events_of_def)

interpretation event_log: system_relation log_extends
proof unfold_locales
  fix db j t lv st et m d db'
  assume run: "append_package_update_job_event j t lv st et m d db = Inr db'"
  show "log_extends db db'"
    using append_event_Inr[OF run] event_log_append[of db] by (auto simp: log_extends_def)
qed (auto simp: log_extends_same update_one_job_Inr insert_job_Inr write_expiry_def environment_step_def
       dest!: insert_job_package_Inr insert_job_probe_Inr insert_job_result_Inr insert_post_scan_request_Inr
       publish_Inr[THEN iffD1], auto simp: log_extends_def)

section \<open>Revisions\<close>

definition revisions_advance :: "authority_db \<Rightarrow> authority_db \<Rightarrow> bool" where
  "revisions_advance db db' \<longleftrightarrow>
     be_id (backend db') = be_id (backend db)
     \<and> be_published_state_revision (backend db) \<le> be_published_state_revision (backend db')"

interpretation revisions: system_relation revisions_advance
  by unfold_locales
    (auto simp: revisions_advance_def update_one_job_Inr insert_job_Inr write_expiry_def environment_step_def
      dest!: write_Inr)

section \<open>Frozen material\<close>

definition material_frozen :: "authority_db \<Rightarrow> authority_db \<Rightarrow> bool" where
  "material_frozen db db' \<longleftrightarrow>
     (\<forall>i \<in> jid ` set (jobs db). i \<in> jid ` set (jobs db')
        \<and> job_packages_of i db' = job_packages_of i db \<and> job_probes_of i db' = job_probes_of i db)"

lemma material_frozen_same:
  "jobs db' = jobs db \<Longrightarrow> job_packages db' = job_packages db \<Longrightarrow> job_probes db' = job_probes db
     \<Longrightarrow> material_frozen db db'"
  by (simp add: material_frozen_def job_packages_of_def job_probes_of_def)

lemma sanctioned_ids:
  assumes "sanctioned db w s"
  shows "jid ` set (rows_update w s (jobs db)) = jid ` set (jobs db)"
proof -
  have "map jid (rows_update w s (jobs db)) = map jid (jobs db)"
    using assms by (auto simp: rows_update_def sanctioned_def transition_issuance)
  then show ?thesis by (metis list.set_map)
qed

interpretation frozen_material: system_relation material_frozen
proof unfold_locales
  fix db w s e db' assume "sanctioned db w s" "update_one_job w s e db = Inr db'"
  then show "material_frozen db db'"
    by (auto simp: material_frozen_def update_one_job_Inr sanctioned_ids job_packages_of_def job_probes_of_def)
next
  fix db r db' assume run: "insert_job_package r db = Inr db'"
  then show "material_frozen db db'"
    using insert_job_package_Inr[OF run] by (auto simp: material_frozen_def job_packages_of_def job_probes_of_def)
next
  fix db p db' assume run: "insert_job_probe p db = Inr db'"
  then show "material_frozen db db'"
    using insert_job_probe_Inr[OF run] by (auto simp: material_frozen_def job_packages_of_def job_probes_of_def)
next
  fix a b c assume "material_frozen a b" "material_frozen b c"
  then show "material_frozen a c" by (auto simp: material_frozen_def)
qed (auto simp: insert_job_Inr write_expiry_def environment_step_def material_frozen_same
       dest!: insert_job_result_Inr insert_post_scan_request_Inr append_event_Inr publish_Inr[THEN iffD1],
     auto simp: material_frozen_def job_packages_of_def job_probes_of_def)

section \<open>Health evidence\<close>

definition verdicts_backed :: "authority_db \<Rightarrow> bool" where
  "verdicts_backed db \<longleftrightarrow> (\<forall>j \<in> set (jobs db). health_verdict_backed (results_of (jid j) db) j)"

lemma backed_cong:
  "job_health_outcome j' = job_health_outcome j \<Longrightarrow> iss j' = iss j \<Longrightarrow>
     health_verdict_backed rs j' = health_verdict_backed rs j"
  by (simp add: health_verdict_backed_def)

lemma backed_same:
  "jobs db' = jobs db \<Longrightarrow> job_results db' = job_results db \<Longrightarrow> verdicts_backed db \<Longrightarrow> verdicts_backed db'"
  by (simp add: verdicts_backed_def results_of_def)

lemma backed_update:
  assumes "update_one_job w s e db = Inr db'" "verdicts_backed db"
  shows "verdicts_backed db'"
proof -
  from assms(1) have trig: "\<forall>j \<in> set (jobs db). w j \<longrightarrow> job_update_triggers db j (s j)"
    and db': "jobs db' = rows_update w s (jobs db)" "\<And>i. results_of i db' = results_of i db"
    by (auto simp: update_one_job_Inr list_all_iff results_of_def)
  have "health_verdict_backed (results_of (jid (s j)) db) (s j)" if j: "j \<in> set (jobs db)" "w j" for j
  proof (cases "job_health_outcome (s j) = job_health_outcome j")
    case True
    moreover from trig j have "iss (s j) = iss j" by (simp add: job_update_triggers_def)
    ultimately show ?thesis using assms(2) j(1) by (simp add: verdicts_backed_def backed_cong[of "s j" j])
  next
    case False
    with trig j show ?thesis unfolding job_update_triggers_def by blast
  qed
  with assms(2) show ?thesis unfolding verdicts_backed_def db' by (auto simp only: set_rows_update split: if_splits)
qed

lemma unfinished_no_verdict:
  assumes "store_ok db" "j \<in> set (jobs db)" "k \<in> set (jobs db)" "jid j = jid k" "health_completed_at k = None"
  shows "job_health_outcome j = None"
proof -
  from assms(1) have "inj_on jid (set (jobs db))" by (simp add: store_ok_def job_indexes_def distinct_map)
  with assms(2,3,4) have "j = k" by (auto dest: inj_onD)
  moreover from assms(1,3) have "job_health_checks k"
    by (auto simp: store_ok_def list_all_iff job_wf_def job_checks_def)
  ultimately show ?thesis using assms(5) by (auto simp: job_health_checks_def)
qed

lemma backed_result:
  assumes "store_ok db" "insert_job_result r db = Inr db'" "verdicts_backed db"
  shows "verdicts_backed db'"
proof -
  from insert_job_result_Inr[OF assms(2)] obtain k where db': "db' = db\<lparr>job_results := job_results db @ [r]\<rparr>"
    and k: "k \<in> set (jobs db)" "jid k = jrr_job_id r" "health_completed_at k = None" by auto
  have "health_verdict_backed (results_of (jid j) db') j" if j: "j \<in> set (jobs db)" for j
  proof (cases "jid j = jrr_job_id r")
    case True
    with unfinished_no_verdict[OF assms(1) j k(1)] k show ?thesis by (simp add: health_verdict_backed_def)
  next
    case False
    with assms(3) j show ?thesis by (auto simp: db' verdicts_backed_def results_of_def)
  qed
  then show ?thesis by (simp add: verdicts_backed_def db')
qed

interpretation health_evidence: system_relation "\<lambda>db db'. verdicts_backed db \<longrightarrow> verdicts_backed db'"
proof unfold_locales
  fix db i db' assume "insert_job (issued_job i) db = Inr db'"
  then show "verdicts_backed db \<longrightarrow> verdicts_backed db'"
    by (auto simp: insert_job_Inr verdicts_backed_def results_of_def health_verdict_backed_def issued_job_def)
next
  fix db w s e db' assume "update_one_job w s e db = Inr db'"
  then show "verdicts_backed db \<longrightarrow> verdicts_backed db'" by (blast intro: backed_update)
next
  fix db x db' assume "store_ok db" "insert_job_result x db = Inr db'"
  then show "verdicts_backed db \<longrightarrow> verdicts_backed db'" by (blast intro: backed_result)
qed (auto simp: write_expiry_def environment_step_def intro: backed_same dest!: insert_job_package_Inr
       insert_job_probe_Inr insert_post_scan_request_Inr append_event_Inr publish_Inr[THEN iffD1])

section \<open>Refresh obligations\<close>

definition obligations_earned :: "authority_db \<Rightarrow> bool" where
  "obligations_earned db \<longleftrightarrow>
     (\<forall>(i, r) \<in> set (map (\<lambda>q. (ps_job_id q, ps_resource_id q)) (post_scan_requests db)).
        \<exists>j \<in> set (jobs db). jid j = i \<and> job_resource_id j = r \<and> status j = SUCCEEDED)"

lemma earned_update:
  assumes "sanctioned db w s" "update_one_job w s e db = Inr db'" "obligations_earned db"
  shows "obligations_earned db'"
proof -
  have "j \<in> set (rows_update w s (jobs db))" if "j \<in> set (jobs db)" "status j = SUCCEEDED" for j
    using that assms(1) by (auto simp: rows_update_def sanctioned_def dest!: transition_active)
  with assms show ?thesis by (fastforce simp: obligations_earned_def update_one_job_Inr)
qed

interpretation obligations: system_relation "\<lambda>db db'. obligations_earned db \<longrightarrow> obligations_earned db'"
proof unfold_locales
  fix db q db' assume run: "insert_post_scan_request q db = Inr db'"
  then show "obligations_earned db \<longrightarrow> obligations_earned db'"
    using insert_post_scan_request_Inr[OF run] by (auto simp: obligations_earned_def)
next
  fix db db' assume "environment_step db db'"
  then have eqs: "jobs db' = jobs db" "map (\<lambda>q. (ps_job_id q, ps_resource_id q)) (post_scan_requests db')
      = map (\<lambda>q. (ps_job_id q, ps_resource_id q)) (post_scan_requests db)"
    by (auto simp: environment_step_def)
  show "obligations_earned db \<longrightarrow> obligations_earned db'" by (simp only: obligations_earned_def eqs simp_thms)
qed (auto simp: insert_job_Inr intro: earned_update
       dest!: insert_job_package_Inr insert_job_probe_Inr insert_job_result_Inr append_event_Inr
       publish_Inr[THEN iffD1], auto simp: obligations_earned_def write_expiry_def)

section \<open>Along a run\<close>

lemma unique_non_nullD:
  assumes "unique_non_null key rows" "m < length rows" "n < length rows"
    and "key (rows ! m) \<noteq> None" "key (rows ! m) = key (rows ! n)"
  shows "m = n"
  using assms
proof (induction rows arbitrary: m n)
  case (Cons r rows)
  from Cons.prems(1) have rest: "unique_non_null key rows" and r: "key r \<noteq> None \<longrightarrow> key r \<notin> key ` set rows"
    by (auto simp: unique_non_null_def image_iff split: if_splits)
  have fresh: "key (rows ! k) \<noteq> key r" if "k < length rows" "key r \<noteq> None" for k
    using r that nth_mem[OF that(1)] by (metis image_eqI)
  consider "m = 0" "n = 0" | k where "m = 0" "n = Suc k" | k where "m = Suc k" "n = 0"
    | k l where "m = Suc k" "n = Suc l" by (cases m; cases n) auto
  then show ?case
  proof cases
    case 2
    with Cons.prems(3-5) fresh[of k] show ?thesis by simp
  next
    case 3
    with Cons.prems(2,4,5) fresh[of k] show ?thesis by simp
  next
    case 4
    with Cons.prems(2-5) Cons.IH[OF rest, of k l] show ?thesis by simp
  qed simp
qed simp

lemma run_store_ok:
  "authority_step\<^sup>*\<^sup>* (db, f, h) (db', f', h') \<Longrightarrow> store_ok db \<Longrightarrow> store_ok db'"
  using job_history.steps_keep[of "(db, f, h)" "(db', f', h')"] by simp

lemma run_job:
  "authority_step\<^sup>*\<^sup>* (db, f, h) (db', f', h') \<Longrightarrow> store_ok db \<Longrightarrow> j \<in> set (jobs db') \<Longrightarrow> job_wf j"
  using run_store_ok[of db f h db' f' h'] by (auto simp: store_ok_def list_all_iff)

lemma run_verdicts:
  "authority_step\<^sup>*\<^sup>* (db, f, h) (db', f', h') \<Longrightarrow> store_ok db \<Longrightarrow> verdicts_backed db \<Longrightarrow> verdicts_backed db'"
  using health_evidence.steps_keep[of "(db, f, h)" "(db', f', h')"] by simp

end
