(* ===== verification/Write_Success.thy ===== *)
theory Write_Success
  imports Authority_Effects
begin

text \<open>
  When the schema lets a write through. A job update by a transition of the machine is accepted as
  soon as the values it records satisfy the column constraints, a new verdict is backed by its
  results and the unique indexes still hold; an event with a bounded message is always accepted.
\<close>

lemma update_job_succeeds:
  assumes ok: "store_ok db" and j: "row_by jid i (jobs db) = Some j" and "w j"
    and w: "\<And>r. r \<in> set (jobs db) \<Longrightarrow> w r \<Longrightarrow> jid r = i"
    and tr: "job_transition j (s j)" and col: "job_column_checks (s j)"
    and verdict: "job_health_outcome (s j) = job_health_outcome j \<or> health_verdict_backed (results_of i db) (s j)"
    and idx: "job_indexes (rows_update w s (jobs db))"
  shows "update_job w s lost db = Inr ((), db\<lparr>jobs := rows_update w s (jobs db)\<rparr>)"
proof -
  from ok have dist: "distinct (map jid (jobs db))" and wf: "list_all job_wf (jobs db)"
    by (simp_all add: store_ok_def job_indexes_def)
  have mem: "j \<in> set (jobs db)" "jid j = i" using row_by_Some_key[OF j] by auto
  have only: "r = j" if "r \<in> set (jobs db)" "w r" for r
    using row_by_unique[OF dist that(1)] w[OF that] j by simp
  have one: "rows_matched w (jobs db) = 1"
  proof -
    have "filter w (jobs db) = filter (\<lambda>r. w r \<and> jid r = jid j) (jobs db)"
      by (rule filter_cong) (use w mem(2) in auto)
    then have "rows_matched w (jobs db) = rows_matched (\<lambda>r. w r \<and> jid r = jid j) (jobs db)"
      by (simp add: rows_matched_def)
    also have "\<dots> = 1" using dist mem(1) \<open>w j\<close> by (intro rows_matched_one[where key = jid and r = j]) auto
    finally show ?thesis .
  qed
  from wf mem have "job_wf j" by (simp add: list_all_iff)
  then have shape: "job_shape j" by (simp add: job_wf_shape)
  have "job_update_triggers db j (s j) \<and> job_checks (s j)"
    using transition_wf[OF tr \<open>job_wf j\<close> col] transition_issuance[OF tr] transition_active[OF tr]
      transition_rank[OF tr] transition_write_once[OF tr shape] verdict mem(2)
    by (auto simp: job_update_triggers_def job_wf_def)
  with only have "list_all (\<lambda>r. w r \<longrightarrow> job_update_triggers db r (s r) \<and> job_checks (s r)) (jobs db)"
    unfolding list_all_iff by metis
  with one idx show ?thesis by (simp add: update_job_def commit_def update_one_job_def update_jobs_def)
qed

text \<open>A row that only becomes terminal, without succeeding, frees its place in the indexes.\<close>

lemma job_indexes_terminated:
  assumes "job_indexes js" "st \<notin> {ACTIVE, SUCCEEDED}" "\<And>r. r \<in> set js \<Longrightarrow> w r \<Longrightarrow> status r = ACTIVE"
  shows "job_indexes (rows_update w (terminate_job st t reason) js)"
proof -
  let ?s = "terminate_job st t reason"
  have same: "map k (rows_update w ?s js) = map k js"
    if "\<And>r. r \<in> set js \<Longrightarrow> w r \<Longrightarrow> k (?s r) = k r" for k :: "job \<Rightarrow> 'a"
    using that by (simp add: rows_update_def)
  have keys: "map (\<lambda>j. jid j) (rows_update w ?s js) = map (\<lambda>j. jid j) js"
    "map (\<lambda>j. request_id (iss j)) (rows_update w ?s js) = map (\<lambda>j. request_id (iss j)) js"
    "map (\<lambda>j. (job_resource_id j, issuance_sequence (iss j))) (rows_update w ?s js)
       = map (\<lambda>j. (job_resource_id j, issuance_sequence (iss j))) js"
    "map snapshot_operation_id (rows_update w ?s js) = map snapshot_operation_id js"
    "map mutation_operation_id (rows_update w ?s js) = map mutation_operation_id js"
    "map rollback_operation_id (rows_update w ?s js) = map rollback_operation_id js"
    by (rule same; simp add: terminate_job_def)+
  have succ: "map (\<lambda>j. if status j = SUCCEEDED then Some (job_approval_id (iss j)) else None) (rows_update w ?s js)
       = map (\<lambda>j. if status j = SUCCEEDED then Some (job_approval_id (iss j)) else None) js"
    by (rule same) (use assms(2,3) in \<open>auto simp: terminate_job_def\<close>)
  have "length (active_jobs (rows_update w ?s js)) \<le> length (active_jobs js)"
    using assms(2) by (induction js) (auto simp: active_jobs_def rows_update_def)
  with assms(1) show ?thesis unfolding job_indexes_def unique_non_null_def keys succ by linarith
qed

lemma job_indexes_single: "job_indexes [j]"
  by (simp add: job_indexes_def unique_non_null_def active_jobs_def)

lemma update_single_job:
  assumes "store_ok db" "jobs db = [j]" "w j" "job_transition j (s j)" "job_column_checks (s j)"
    "job_health_outcome (s j) = job_health_outcome j"
  shows "update_job w s lost db = Inr ((), db\<lparr>jobs := [s j]\<rparr>)"
proof -
  have rows: "rows_update w s (jobs db) = [s j]" using assms(2,3) by (simp add: rows_update_def)
  have "row_by jid (jid j) (jobs db) = Some j" using assms(2) by (simp add: row_by_def)
  then have "update_job w s lost db = Inr ((), db\<lparr>jobs := rows_update w s (jobs db)\<rparr>)"
    by (rule update_job_succeeds[where j = j, OF assms(1)])
      (use assms(2-6) rows in \<open>simp_all add: job_indexes_single\<close>)
  then show ?thesis by (simp only: rows)
qed

lemma py_isspace_space: "py_isspace (CHR '' '')"
  by code_simp

lemma is_text_nonblank: "is_text n v \<Longrightarrow> sql_nonblank v"
  unfolding is_text_def sql_nonblank_def using py_isspace_space by metis

lemma log_event_succeeds:
  assumes "i \<in> jid ` set (jobs db)" "is_text 500 m" "length (json_dumps d) \<le> 4000"
  shows "\<exists>e. log_event i t lv st et m d db = Inr ((), db\<lparr>job_events := job_events db @ [e]\<rparr>)"
proof -
  have "(i, next_event_sequence i db) \<notin> (\<lambda>x. (ev_job_id x, ev_sequence x)) ` set (job_events db)"
    unfolding next_event_sequence_def
    using max_or_zero_Suc_notin[of "map ev_sequence (filter (\<lambda>e. ev_job_id e = i) (job_events db))"] by auto
  with assms show ?thesis
    using is_text_nonblank[OF assms(2)]
    by (auto simp: log_event_def commit_def append_package_update_job_event_def insert_job_event_def is_text_def
        next_event_sequence_def require_text_def checkE_def)
qed

lemma publish_succeeds:
  "publish t db = Inr ((), db\<lparr>backend := (backend db)\<lparr>
     be_published_state_revision := Suc (be_published_state_revision (backend db)), be_published_at := t\<rparr>\<rparr>)"
  by (simp add: publish_def commit_def bump_global_revisions_def)

end
