(* ===== verification/Demo_Fixture.thy ===== *)
theory Demo_Fixture
  imports Authority_Histories Write_Success
begin

text \<open>
  One concrete installation that the witnesses of the theorems run on: a backend, a source with a
  healthy committed context, one running container with its binding and node, an exact scan of one
  package, its approval, the default health contract and one job. Digests stay symbolic: the
  witnesses use that they are digests, never their value.
\<close>

definition demo_uuid :: "char \<Rightarrow> uuid" where
  "demo_uuid c = ''00000000-0000-4000-8000-00000000000'' @ [c]"

definition demo_package :: package where
  "demo_package = \<lparr>pkg_name = ''openssl'', pkg_architecture = ''amd64'', pkg_installed_version = ''3.0.1'',
     pkg_candidate_version = ''3.0.2'', pkg_origin = None, pkg_description = None, pkg_security = Some True\<rparr>"

definition demo_contract_fingerprint :: string where
  "demo_contract_fingerprint = sha256_hex (json_dumps (contract_payload DEFAULT_HEALTH_PROBES))"

definition demo_plan_fingerprint :: string where
  "demo_plan_fingerprint = sha256_hex (json_dumps (JList [package_json demo_package]))"

definition demo_context :: scan_context where
  "demo_context = \<lparr>cx_resource_id = demo_uuid (CHR ''1''), cx_inventory_source_id = demo_uuid (CHR ''2''),
     cx_committed_source_config_revision = 1, cx_committed_endpoint_id = demo_uuid (CHR ''3''),
     cx_committed_canonical_transport_locator = ''https://pve.example:8006'',
     cx_committed_canonicalization_contract_version = 1, cx_committed_transport_trust_revision = 1,
     cx_provider_contract_version = 1, cx_expected_binding_id = demo_uuid (CHR ''4''),
     cx_expected_locator_generation = 1, cx_expected_resource_continuity_revision = 1,
     cx_expected_vmid = 101, cx_expected_node_id = demo_uuid (CHR ''5''), cx_expected_node_name = ''pve1''\<rparr>"

definition demo_issuance :: job_issuance where
  "demo_issuance = \<lparr>job_id = demo_uuid (CHR ''6''), request_id = demo_uuid (CHR ''7''), issued_at = 1000,
     issuance_sequence = 1, job_approval_id = demo_uuid (CHR ''8''),
     approval_reviewed_scan_run_id = demo_uuid (CHR ''9''), approved_plan_fingerprint = demo_plan_fingerprint,
     approval_approved_at = 900, current_plan_scan_run_id = demo_uuid (CHR ''9''), job_ctx = demo_context,
     expected_resource_type = ''lxc'', package_count = 1, health_contract_revision = 1,
     frozen_contract_fingerprint = demo_contract_fingerprint, health_contract_probe_count = 1\<rparr>"

definition demo_scan :: scan_run where
  "demo_scan = \<lparr>scan_run_id = demo_uuid (CHR ''9''), scan_ctx = demo_context, scan_attempt_sequence = 1,
     scan_started_at = 700, scan_lifecycle = SCAN_COMPLETED, scan_completed_at = Some 800,
     scan_outcome = Some SCAN_SUCCESS, scan_failure_class = None, scan_error_message = None,
     scan_os_id = Some ''debian'', scan_os_version = Some ''12'', scan_pending_count = Some 1,
     scan_plan_fingerprint = Some demo_plan_fingerprint, scan_reboot_required = None\<rparr>"

text \<open>The completed discovery run that established the fixture's inventory.\<close>

definition demo_run_context :: run_context where
  "demo_run_context = \<lparr>rx_source_config_revision = 1, rx_endpoint_id = demo_uuid (CHR ''3''),
     rx_canonical_transport_locator = ''https://pve.example:8006'', rx_canonicalization_contract_version = 1,
     rx_transport_trust_revision = 1\<rparr>"

definition demo_run_row :: discovery_run where
  "demo_run_row = \<lparr>run_iss = \<lparr>run_id = demo_uuid (CHR ''d''), run_source_id = demo_uuid (CHR ''2''), run_sequence = 1,
       run_issued_at = 0, run_expected = demo_run_context, run_provider_contract_version = 1\<rparr>,
     run_lifecycle = RUN_COMPLETED, run_terminalized_at = Some 0, run_terminal_reason = None,
     run_completed_at = Some 0, run_provider_outcome = Some RUN_SUCCESS,
     run_evidence = Some \<lparr>ce_completeness = BASE_COMPLETE,
       ce_observed_at = Some \<lparr>stamp_text = ''1970-01-01T00:00:00+00:00'', stamp_instant = Some 0\<rparr>,
       ce_availability = Some SOURCE_AVAILABLE, ce_mode = Some STANDALONE_MODE,
       ce_permission_coverage_complete = Some True, ce_boundary_consistent = Some True,
       ce_covered_nodes = Some [''pve1''], ce_failed_baseline_scopes = Some [],
       ce_topology_hashes = (Some ''t'', Some ''t''), ce_permission_hashes = (Some ''p'', Some ''p''),
       ce_snapshot_hash = Some demo_plan_fingerprint, ce_detail_counts = (Some 1, Some 0, Some 0),
       ce_failed_detail_scopes = Some []\<rparr>,
     run_completion_context = Some demo_run_context\<rparr>"

definition demo_db :: "job list \<Rightarrow> authority_db" where
  "demo_db js = \<lparr>
     backend = \<lparr>be_id = demo_uuid (CHR ''a''), be_inventory_revision = 1, be_published_state_revision = 1, be_published_at = 0\<rparr>,
     sources = [\<lparr>src_id = demo_uuid (CHR ''2''), src_config_revision = 1, src_last_committed_run_sequence = Some 1,
        src_active_discovery_run_id = None, src_provider_contract_version = 1, src_freshness_duration_seconds = 3600,
        src_provider_kind = ''proxmox'', src_display_name = ''lab'', src_credential_reference = ''secret://lab'',
        src_created_at = 0, src_last_issued_run_sequence = 1, src_facts = JObj []\<rparr>],
     endpoints = [\<lparr>ep_id = demo_uuid (CHR ''3''), ep_source_id = demo_uuid (CHR ''2''),
        ep_canonical_transport_locator = ''https://pve.example:8006'', ep_canonicalization_contract_version = 1,
        ep_lifecycle = EP_ACTIVE, ep_transport_trust_revision = 1, ep_created_at = 0\<rparr>],
     source_healths = [\<lparr>sh_source_id = demo_uuid (CHR ''2''), sh_health = HEALTHY, sh_freshness = FRESH,
        sh_origin = DISCOVERY_RUN, sh_reason = ''ok'', sh_freshness_reference_at = Some 0,
        sh_freshness_valid_until = Some 1000000, sh_committed_source_config_revision = Some 1,
        sh_committed_endpoint_id = Some (demo_uuid (CHR ''3'')),
        sh_committed_canonical_transport_locator = Some ''https://pve.example:8006'',
        sh_committed_canonicalization_contract_version = Some 1, sh_committed_transport_trust_revision = Some 1,
        sh_latest_completed_run_sequence = Some 1, sh_latest_completed_outcome = Some RUN_SUCCESS,
        sh_last_health_run_sequence = Some 1, sh_last_run_health_outcome = Some RUN_SUCCESS,
        sh_last_successful_observed_at = Some ''1970-01-01T00:00:00+00:00''\<rparr>],
     nodes = [\<lparr>node_id = demo_uuid (CHR ''5''), node_source_id = demo_uuid (CHR ''2''),
        node_external_name = ''pve1'', node_available = True, node_status = ''online'',
        node_facts = JObj [], node_created_at = 0, node_updated_at = 0\<rparr>],
     resources = [\<lparr>res_id = demo_uuid (CHR ''1''), res_source_id = demo_uuid (CHR ''2''), res_type = ''lxc'',
        res_vmid = 101, res_continuity_revision = 1, res_status = ''running'',
        res_current_node_id = Some (demo_uuid (CHR ''5'')), res_presence = ''present'', res_lifecycle = ''active'',
        res_name = ''web'', res_last_known_node_id = None, res_observational_continuity = ''consistent'',
        res_detail_status = ''ok'', res_node_availability = ''available'', res_facts = JObj [],
        res_termination_reason = None, res_successor_id = None, res_created_at = 0, res_updated_at = 0\<rparr>],
     bindings = [\<lparr>bind_id = demo_uuid (CHR ''4''), bind_source_id = demo_uuid (CHR ''2''), bind_vmid = 101,
        bind_generation = 1, bind_resource_id = demo_uuid (CHR ''1''), bind_valid_to = None,
        bind_valid_from = 1, bind_closure_reason = None\<rparr>],
     scan_runs = [demo_scan],
     scan_packages = [\<lparr>prow_owner = demo_uuid (CHR ''9''), prow_index = 0, prow_package = demo_package\<rparr>],
     approvals = [\<lparr>appr_resource_id = demo_uuid (CHR ''1''), approval_id = demo_uuid (CHR ''8''),
        appr_reviewed_scan_run_id = demo_uuid (CHR ''9''), appr_plan_fingerprint = demo_plan_fingerprint,
        appr_approved_at = 900\<rparr>],
     revision_states = [\<lparr>rs_resource_id = demo_uuid (CHR ''1''), rs_last_revision = 1, rs_updated_at = 600\<rparr>],
     contracts = [\<lparr>cr_resource_id = demo_uuid (CHR ''1''), cr_revision = 1, cr_fingerprint = demo_contract_fingerprint,
        cr_probe_count = 1, cr_created_at = 600, cr_updated_at = 600\<rparr>],
     contract_probes = [\<lparr>cp_resource_id = demo_uuid (CHR ''1''), cp_index = 0,
        cp_probe = \<lparr>probe_kind = GUEST_OPERATIONAL, probe_target = None\<rparr>\<rparr>],
     jobs = js,
     job_packages = map (\<lambda>j. \<lparr>prow_owner = jid j, prow_index = 0, prow_package = demo_package\<rparr>) js,
     job_probes = map (\<lambda>j. \<lparr>jpr_job_id = jid j,
        jpr_probe = \<lparr>jp_index = 0, jp_kind = GUEST_OPERATIONAL, jp_target = None\<rparr>\<rparr>) js,
     job_results = [], job_events = [], post_scan_requests = [],
     discovery_runs = [demo_run_row], terminations = [], migrations = []\<rparr>"

lemma demo_digests:
  "is_hex_digest 64 demo_contract_fingerprint" "is_hex_digest 64 demo_plan_fingerprint"
  by (simp_all add: demo_contract_fingerprint_def demo_plan_fingerprint_def sha256_hex_digest)

lemma demo_uuid_eq [simp]: "demo_uuid a = demo_uuid b \<longleftrightarrow> a = b"
  by (simp add: demo_uuid_def)

lemma demo_uuid_canonical: "list_all (\<lambda>c. is_canonical_uuid (demo_uuid c)) ''123456789a''"
  unfolding demo_uuid_def by code_simp

lemma demo_issuance_checks: "job_issuance_checks demo_issuance"
  using demo_digests
  by (simp add: job_issuance_checks_def demo_issuance_def demo_context_def sql_nonblank_def
      MIN_HEALTH_PROBES_def MAX_HEALTH_PROBES_def is_hex_digest_def)

lemma demo_store_ok: "job_wf j \<Longrightarrow> store_ok (demo_db [j])"
  by (simp add: store_ok_def demo_db_def job_indexes_def unique_non_null_def active_jobs_def)

text \<open>The job just issued, and the same job with its mutation armed.\<close>

definition demo_issued :: job where
  "demo_issued = issued_job demo_issuance"

definition demo_armed :: job where
  "demo_armed = demo_issued\<lparr>job_checkpoint := MUTATION_MAY_HAVE_STARTED,
     snapshot_operation_id := Some (demo_uuid (CHR ''b'')), snapshot_name := Some ''hubinet-preupd-0'',
     snapshot_intent_recorded_at := Some 1100, snapshot_confirmed_at := Some 1200,
     mutation_operation_id := Some (demo_uuid (CHR ''c'')), mutation_may_have_started_at := Some 1300,
     accepted_prepared_evidence_digest := Some demo_plan_fingerprint\<rparr>"

lemma demo_issued_wf: "job_wf demo_issued"
  by (simp add: demo_issued_def issued_job_wf demo_issuance_checks)

lemma demo_name_ok: "snapshot_name_check ''hubinet-preupd-0''"
  by code_simp

lemma demo_armed_wf: "job_wf demo_armed"
  using demo_issuance_checks demo_digests demo_name_ok
  by (simp add: job_wf_def job_checks_defs demo_armed_def demo_issued_def issued_job_def demo_uuid_def)

text \<open>The same job succeeded, with the passing result of its one frozen probe.\<close>

definition demo_succeeded :: job where
  "demo_succeeded = terminate_job SUCCEEDED 1600 ''every probe passed''
     (demo_armed\<lparr>job_checkpoint := HEALTH_COMPLETED, mutation_completed_at := Some 1400,
        health_started_at := Some 1500, health_completed_at := Some 1600, job_health_outcome := Some HEALTH_PASSED\<rparr>)"

lemma demo_succeeded_wf: "job_wf demo_succeeded"
  using demo_issuance_checks demo_digests demo_name_ok
  by (simp add: job_wf_def job_checks_defs demo_succeeded_def terminate_job_def demo_armed_def demo_issued_def
      issued_job_def demo_uuid_def sql_nonblank_def)

definition demo_succeeded_db :: authority_db where
  "demo_succeeded_db = (demo_db [demo_succeeded])\<lparr>job_results :=
     [\<lparr>jrr_job_id = jid demo_succeeded,
       jrr_result = \<lparr>pr_index = 0, pr_outcome = PROBE_PASSED, pr_checked_at = 1600, pr_reason = ''guest_operational_confirmed''\<rparr>\<rparr>]\<rparr>"

text \<open>The same job rolled back to its snapshot before its mutation completed.\<close>

definition demo_upid :: string where
  "demo_upid = ''UPID:pve1:0000ABCD:00112233:65F00000:vzrollback:101:root@pam:''"

definition demo_rolled_back :: job where
  "demo_rolled_back = terminate_job ROLLED_BACK 1800 ''rolled back''
     (demo_armed\<lparr>job_checkpoint := ROLLBACK_COMPLETED, rollback_operation_id := Some (demo_uuid (CHR ''d'')),
        rollback_may_have_started_at := Some 1700, rollback_task_upid := Some demo_upid,
        rollback_completed_at := Some 1800\<rparr>)"

lemma demo_upid_ok: "upid_column_check demo_upid"
  by code_simp

lemma demo_rolled_back_wf: "job_wf demo_rolled_back"
  using demo_issuance_checks demo_digests demo_name_ok demo_upid_ok
  by (simp add: job_wf_def job_checks_defs demo_rolled_back_def terminate_job_def demo_armed_def demo_issued_def
      issued_job_def demo_uuid_def sql_nonblank_def)

section \<open>The fixture's authority is current\<close>

lemma demo_uuid_ok [simp]:
  "is_canonical_uuid (demo_uuid (CHR ''1''))" "is_canonical_uuid (demo_uuid (CHR ''6''))"
  "is_canonical_uuid (demo_uuid (CHR ''a''))" "is_canonical_uuid (demo_uuid (CHR ''2''))"
  using demo_uuid_canonical by simp_all

lemma demo_package_ok: "package_ok demo_package"
  unfolding demo_package_def by code_simp

lemma demo_plan_valid: "validate_package_plan [demo_package] = Inr [demo_package]"
  by (simp add: validate_package_plan_Inr demo_package_ok)

lemma demo_plan: "package_plan_fingerprint [demo_package] = Inr demo_plan_fingerprint"
  by (simp add: package_plan_fingerprint_def demo_plan_fingerprint_def demo_plan_valid)

lemma demo_contract: "health_contract_fingerprint [\<lparr>probe_kind = GUEST_OPERATIONAL, probe_target = None\<rparr>] = Inr demo_contract_fingerprint"
  using default_health_probes_canonical
  by (simp add: health_contract_fingerprint_def demo_contract_fingerprint_def DEFAULT_HEALTH_PROBES_def)

lemma demo_scan_plan:
  "successful_package_scan_fingerprint (demo_db js) demo_scan = Inr demo_plan_fingerprint"
  using demo_plan
  by (simp add: successful_package_scan_fingerprint_def demo_db_def demo_scan_def scan_packages_of_def read_package_def
      demo_package_def str_column_def)

lemma demo_context_current:
  "package_scan_context_is_current (demo_db js) demo_context"
  "post_mutation_job_context_is_current (demo_db js) demo_context"
  by (simp_all add: package_scan_context_is_current_def post_mutation_job_context_is_current_def resource_target_of_def
     demo_db_def demo_context_def row_by_def)

lemma demo_source_rows:
  "require_source_row (demo_db js) (demo_uuid (CHR ''2'')) = Inr (hd (sources (demo_db js)))"
  "require_active_endpoint_row (demo_db js) (demo_uuid (CHR ''2'')) = Inr (hd (endpoints (demo_db js)))"
  "row_by sh_source_id (demo_uuid (CHR ''2'')) (source_healths (demo_db js)) = Some (hd (source_healths (demo_db js)))"
  by (simp_all add: require_source_row_def require_active_endpoint_row_def demo_db_def row_by_def)

lemma demo_source_current:
  "package_scan_source_context_is_current (demo_db js) demo_context = Inr True"
  using demo_source_rows[of js]
  by (simp add: package_scan_source_context_is_current_def source_has_current_authority_def require_source_health_row_def
     committed_context_is_current_def demo_context_def int_column_def str_column_def)
   (simp add: demo_db_def int_column_def str_column_def)

lemma demo_no_expiry:
  assumes "0 \<le> t" "t < 1000000"
  shows "materialize_due_expiry (demo_uuid (CHR ''2'')) t None None (demo_db js) = Inr (False, demo_db js)"
  using demo_source_rows[of js] assms
  by (simp add: materialize_due_expiry_def due_expiry_def committed_context_is_current_def expiry_reason_def)
   (simp add: demo_db_def expiry_reason_def)

lemma demo_approvable: "package_scan_is_current_and_approvable (demo_db js) demo_scan = Inr True"
  using demo_context_current(1) demo_source_current demo_scan_plan
  by (simp add: package_scan_is_current_and_approvable_def scan_succeeded_def) (simp add: demo_scan_def)

lemma demo_drift:
  assumes "iss j = demo_issuance"
  shows "frozen_health_contract_drift (demo_db [j]) j = Inr None"
  using demo_contract assms
  by (simp add: frozen_health_contract_drift_def resource_health_contract_of_def row_by_def demo_db_def demo_issuance_def
     demo_context_def job_probes_of_def)

lemma demo_authority:
  assumes "iss j = demo_issuance" "status j = ACTIVE" "0 \<le> t" "t < 1000000"
  shows "package_update_job_current_authority_detail t j (demo_db [j]) = Inr ((AUTH_CURRENT, None), demo_db [j])"
proof -
  have "latest_package_scan_row (demo_db [j]) (job_resource_id j) = Some demo_scan"
    using assms(1) by (simp add: latest_package_scan_row_def demo_db_def demo_issuance_def demo_scan_def)
  moreover have "set (scan_material (demo_db [j]) (scan_run_id demo_scan)) = set (job_material (demo_db [j]) (jid j))"
    "scan_material (demo_db [j]) (scan_run_id demo_scan) \<noteq> []"
    by (simp_all add: scan_material_def job_material_def package_material_rows_def scan_packages_of_def job_packages_of_def
        demo_db_def demo_scan_def)
  moreover have "\<not> post_update_package_scan_is_pending (demo_db [j]) r" for r
    by (simp add: post_update_package_scan_is_pending_def pending_post_update_package_scan_request_rows_def demo_db_def)
  moreover have "scan_succeeded demo_scan" "scan_ctx demo_scan = demo_context" "jctx j = demo_context"
    "cx_inventory_source_id demo_context = demo_uuid (CHR ''2'')" "expected_resource_type (iss j) = ''lxc''"
    "approved_plan_fingerprint (iss j) = demo_plan_fingerprint"
    using assms(1) by (simp_all add: scan_succeeded_def demo_scan_def demo_issuance_def demo_context_def)
  ultimately show ?thesis
    using demo_context_current demo_source_current demo_no_expiry[OF assms(3,4)] demo_approvable demo_scan_plan
     demo_drift[OF assms(1)] assms
    by (simp add: authority_detail_current) blast
qed

text \<open>The job with its snapshot confirmed under its derived identity, awaiting the mutation gate.\<close>

definition demo_key :: job_key where
  "demo_key = (demo_uuid (CHR ''a''), demo_uuid (CHR ''6''), demo_uuid (CHR ''1''), 1)"

definition demo_confirmed :: job where
  "demo_confirmed = demo_issued\<lparr>job_checkpoint := SNAPSHOT_CONFIRMED,
     snapshot_operation_id := Some (fst (snapshot_identity_of demo_key)),
     snapshot_name := Some (snd (snapshot_identity_of demo_key)),
     snapshot_intent_recorded_at := Some 1100, snapshot_confirmed_at := Some 1200\<rparr>"

lemma demo_key_ok: "job_key_ok demo_key"
  by (simp add: job_key_ok_def demo_key_def)

lemma demo_job_key: "iss j = demo_issuance \<Longrightarrow> job_key_of (demo_db js) j = demo_key"
  by (simp add: job_key_of_def demo_key_def demo_db_def demo_issuance_def demo_context_def)

lemma demo_confirmed_wf: "job_wf demo_confirmed"
proof -
  have "snapshot_name_check (snd (snapshot_identity_of demo_key))"
    using snapshot_identity_name_ok by simp
  with demo_issuance_checks show ?thesis
    by (simp add: job_wf_def job_checks_defs demo_confirmed_def demo_issued_def issued_job_def snapshot_identity_of_def)
qed

lemma demo_row: "iss j = demo_issuance \<Longrightarrow> row_by jid (demo_uuid (CHR ''6'')) (jobs (demo_db [j])) = Some j"
  by (simp add: row_by_def demo_db_def demo_issuance_def)

lemma demo_material: "iss j = demo_issuance \<Longrightarrow>
   job_material (demo_db [j]) (demo_uuid (CHR ''6'')) = [package_material demo_package]"
  by (simp add: job_material_def package_material_rows_def job_packages_of_def demo_db_def demo_issuance_def)

text \<open>Reading the fixture's job back.\<close>

lemma demo_read_back:
  assumes "iss j = demo_issuance" "job_health_outcome j = None" "health_completed_at j = None"
    and "jobs db = [j]" "job_packages db = job_packages (demo_db [j])" "job_probes db = job_probes (demo_db [j])"
    "job_results db = []"
  shows "\<exists>v. store_package_update_job db (demo_uuid (CHR ''6'')) = Inr v"
  using assms demo_contract
  by (simp add: store_package_update_job_def row_by_def package_update_job_of_def package_update_job_health_def
      job_packages_of_def job_probes_of_def results_of_def resource_probe_def demo_db_def demo_issuance_def)

end
