(* ===== verification/Host_Properties.thy ===== *)
theory Host_Properties
  imports Mutation_Safety Demo_Fixture
begin

text \<open>
  What the host promises the backend: an operation is submitted at most once and never after a seal, and the
  ownership claim in a snapshot's description is read back on both sides of the privilege boundary.
\<close>

section \<open>A request and a host\<close>

definition demo_ownership :: snapshot_ownership where
  "demo_ownership =
     \<lparr>own_protocol = 1, own_kind = ''pre_update'', own_job_id = demo_uuid (CHR ''6''), own_resource_id = demo_uuid (CHR ''1''),
      own_resource_continuity_revision = 1, own_inventory_source_id = demo_uuid (CHR ''2''),
      own_backend_instance_id = demo_uuid (CHR ''a'')\<rparr>"

definition demo_snapshot_request :: "string \<Rightarrow> snapshot_request" where
  "demo_snapshot_request operation =
     \<lparr>sq_operation = operation, sq_vmid = 101, sq_node = ''pve'', sq_id = fst (snapshot_identity_of demo_key),
      sq_name = snd (snapshot_identity_of demo_key), sq_ownership = demo_ownership\<rparr>"

definition demo_payload :: "string \<Rightarrow> json" where
  "demo_payload operation =
     JObj [(''request_version'', JInt 1), (''operation'', JStr operation),
           (''target'', JObj [(''vmid'', JInt 101), (''expected_node'', JStr ''pve'')]),
           (''operation_identity'', JObj [(''snapshot_operation_id'', JStr (fst (snapshot_identity_of demo_key))),
                                          (''snapshot_name'', JStr (snd (snapshot_identity_of demo_key)))]),
           (''ownership'', request_ownership_json demo_ownership)]"

lemma demo_request_valid:
  assumes "operation \<in> {INSPECT_SNAPSHOT, ENSURE_SNAPSHOT, SEAL_SNAPSHOT}"
  shows "validate_request (demo_payload operation) = Inr (demo_snapshot_request operation)"
proof -
  have "validate_pve_snapshot_name (snd (snapshot_identity_of demo_key)) = Inr (snd (snapshot_identity_of demo_key))"
    unfolding snapshot_identity_of_def snd_conv by (rule validate_hubinet_name) (rule is_hex_digest_take[OF sha256_hex_digest], simp)
  then have "pve_snapshot_name_match (snd (snapshot_identity_of demo_key))" "\<not> is_reserved_name (snd (snapshot_identity_of demo_key))"
    by (auto simp: validate_pve_snapshot_name_def checkE_Inr_iff pve_snapshot_name_match_def is_reserved_name_def
        PVE_SNAPSHOT_NAME_MAX_LENGTH_def PVE_RESERVED_SNAPSHOT_NAMES_def)
  moreover have "is_canonical_uuid (fst (snapshot_identity_of demo_key))"
    by (simp add: snapshot_identity_of_def operation_uuid_canonical)
  moreover have "pve_node_match ''pve''" by code_simp
  moreover have "request_ownership (request_ownership_json demo_ownership) = Inr demo_ownership"
    by (simp add: request_ownership_def request_ownership_json_def exact_object_def demo_ownership_def ownership_of_def
        OWNERSHIP_FIELDS_def dict_get_def uuid_field_def positive_field_def SNAPSHOT_METADATA_PROTOCOL_def
        SNAPSHOT_KIND_PRE_UPDATE_def insert_commute)
  moreover have "derive_snapshot_identity (ownership_key demo_ownership) = snapshot_identity_of demo_key"
    by (simp add: helper_identity ownership_key_def demo_ownership_def demo_key_def)
  ultimately show ?thesis using assms
    by (simp add: validate_request_def demo_payload_def exact_object_def dict_get_def request_target_def request_snapshot_identity_def
        uuid_field_def demo_snapshot_request_def case_prod_beta)
qed

definition fresh_host :: host_state where
  "fresh_host = \<lparr>host_journal = Map.empty, host_stdout = Map.empty, host_stderr = Map.empty, host_marker = Map.empty,
     host_running = [], host_launches = []\<rparr>"

text \<open>A guest that runs on the node, unlocked and without snapshots.\<close>

definition demo_pve :: "nat \<Rightarrow> string" where
  "demo_pve n =
     (if n = 0 \<or> n = 4 then ''[{\"vmid\":101,\"type\":\"lxc\",\"node\":\"pve\",\"status\":\"running\"}]''
      else if n = 1 then ''[{\"type\":\"node\",\"local\":1,\"name\":\"pve\"}]''
      else if n = 2 then ''{}'' else ''[{\"name\":\"current\"}]'')"

definition demo_env :: host_env where
  "demo_env = \<lparr>env_pve = (\<lambda>n argv. Some \<lparr>cr_returncode = 0, cr_stdout = demo_pve n, cr_stderr = [], cr_timed_out = False,
                                          cr_output_exceeded = False\<rparr>),
     env_guest = (\<lambda>n argv input. None), env_write = (\<lambda>n. Written), env_lease_opens = True, env_journal_readable = True, env_capture_readable = True,
     env_removed = 4, env_handoff = ExecutorReady, env_released = True, env_finished = None\<rparr>"

lemma demo_answers:
  "decoded_json (demo_pve 0) =
     Some (JList [JObj [(''vmid'', JInt 101), (''type'', JStr ''lxc''), (''node'', JStr ''pve''), (''status'', JStr ''running'')]])"
  "decoded_json (demo_pve 4) =
     Some (JList [JObj [(''vmid'', JInt 101), (''type'', JStr ''lxc''), (''node'', JStr ''pve''), (''status'', JStr ''running'')]])"
  "decoded_json (demo_pve 1) = Some (JList [JObj [(''type'', JStr ''node''), (''local'', JInt 1), (''name'', JStr ''pve'')]])"
  "decoded_json (demo_pve 2) = Some (JObj [])"
  "decoded_json (demo_pve 3) = Some (JList [JObj [(''name'', JStr ''current'')]])"
  by code_simp+

lemma demo_reads:
  "revalidate_live_target demo_env 0 101 ''pve'' = Inr ()" "revalidate_live_target demo_env 4 101 ''pve'' = Inr ()"
  "read_local_node demo_env 1 = Inr ''pve''" "read_container_lock demo_env 2 101 ''pve'' = Inr None"
  "list_snapshots demo_env 3 101 ''pve'' = Inr [[(''name'', JStr ''current''), (''description'', JStr [])]]"
proof -
  have "pve_node_match ''pve''" by code_simp
  note facts = revalidate_live_target_def read_local_node_def read_container_lock_def list_snapshots_def snapshot_json_command_def
    snapshot_command_def demo_answers object_rows_def dict_get_def listing_entry_def demo_env_def this
  show "revalidate_live_target demo_env 0 101 ''pve'' = Inr ()" "revalidate_live_target demo_env 4 101 ''pve'' = Inr ()"
    "read_local_node demo_env 1 = Inr ''pve''" "read_container_lock demo_env 2 101 ''pve'' = Inr None"
    "list_snapshots demo_env 3 101 ''pve'' = Inr [[(''name'', JStr ''current''), (''description'', JStr [])]]"
    by (simp_all add: facts del: One_nat_def)
qed

definition demo_ensure :: snapshot_request where
  "demo_ensure = demo_snapshot_request ENSURE_SNAPSHOT"

definition demo_submitted_host :: host_state where
  "demo_submitted_host = fresh_host\<lparr>
     host_journal := [sq_id demo_ensure \<mapsto>
       Some (JObj (record_with (new_snapshot_record demo_ensure ''intent'') [(''phase'', JStr ''submitted'')]))],
     host_running := [(sq_id demo_ensure, 101)], host_launches := [(sq_id demo_ensure, snapshot_argv demo_ensure)]\<rparr>"

lemma demo_ensure_call:
  "handle_request demo_env (demo_payload ENSURE_SNAPSHOT) fresh_host =
     (Inr (response demo_ensure ''uncertain'' None None None
        ''snapshot submitted to detached host runner; exact task identity awaits durable capture recovery'' ''submitted''),
      demo_submitted_host)"
proof -
  have v: "validate_request (demo_payload ENSURE_SNAPSHOT) = Inr demo_ensure"
    unfolding demo_ensure_def by (rule demo_request_valid) simp
  have q: "sq_vmid demo_ensure = 101" "sq_node demo_ensure = ''pve''" "sq_operation demo_ensure = ENSURE_SNAPSHOT"
    by (simp_all add: demo_ensure_def demo_snapshot_request_def)
  have i: "record_phase (new_snapshot_record demo_ensure ''intent'') = ''intent''"
    by (simp add: record_phase_iff new_record_phase)
  have reads: "pre_submission_reads demo_env demo_ensure = Inr (None, Some [[(''name'', JStr ''current''), (''description'', JStr [])]])"
    by (simp add: pre_submission_reads_def q demo_reads is_in_flight_def del: One_nat_def)
  have ev: "owned_snapshot_evidence [[(''name'', JStr ''current''), (''description'', JStr [])]] demo_ensure = EvAbsent"
    by (simp add: owned_snapshot_evidence_def dict_get_def)
  have o: "ENSURE_SNAPSHOT \<noteq> INSPECT_SNAPSHOT" "ENSURE_SNAPSHOT \<noteq> SEAL_SNAPSHOT"
    by (simp_all add: ENSURE_SNAPSHOT_def INSPECT_SNAPSHOT_def SEAL_SNAPSHOT_def)
  have e: "ensure_from_intent demo_env demo_ensure (new_snapshot_record demo_ensure ''intent'') =
      submit_snapshot demo_env demo_ensure (new_snapshot_record demo_ensure ''intent'')"
    by (simp add: ensure_from_intent_def submit_unless_present_def i reads ev q demo_reads act_need_def act_bind_def act_lift_def fun_eq_iff)
  have w: "env_write demo_env n = Written" "env_lease_opens demo_env" "env_handoff demo_env = ExecutorReady" "env_released demo_env"
    "env_finished demo_env = None" for n
    by (simp_all add: demo_env_def)
  show ?thesis
    by (simp add: handle_request_def v q o ensure_submitted_def with_lease_def matching_record_def read_snapshot_journal_def e
        submit_snapshot_def submit_detached_def start_executor_def promote_completed_capture_def read_completed_capture_def
        replace_journal_def put_journal_def act_need_def act_bind_def act_lift_def act_get_def act_try_def act_ret_def w
        demo_submitted_host_def fresh_host_def Let_def)
qed

section \<open>Submission\<close>

text \<open>
  C39. Submission at most once. Along every run of a host that starts with no command issued and no executor
  running, whatever requests the snapshot, the mutation or the rollback helper is sent and whatever fails, is
  killed or restarts in between: no operation has its physical command started twice; no VMID has two executors; every command was
  the one command that the typed fields of an answered, valid request for that operation determine; and an
  operation of which any answer said that it is sealed as not submitted has no command started, before or after.
\<close>

theorem operations_submitted_at_most_once:
  assumes "(helper, ended, permits, seals) \<in>
      {(handle_request, capture_ended, snapshot_permits, declares_sealed),
       (handle_mutation, mutation_ended, mutation_permits, declares_mutation_sealed),
       (rollback_serve, capture_ended, rollback_permits, declares_rollback_sealed)}"
    and "host_launches s = []" "host_running s = []" "host_run helper ended s es s'"
  shows "distinct (map fst (host_launches s')) \<and> distinct (map snd (host_running s'))
     \<and> (\<forall>i argv. (i, argv) \<in> set (host_launches s') \<longrightarrow>
          (\<exists>payload answer vmid. Answered payload answer \<in> set es \<and> permits payload = Some (i, vmid, argv)))
     \<and> (\<forall>payload answer i. Answered payload (Inr answer) \<in> set es \<longrightarrow> seals i answer \<longrightarrow>
          i \<notin> fst ` set (host_launches s'))"
proof -
  consider "helper = handle_request" "ended = capture_ended" "permits = snapshot_permits" "seals = declares_sealed"
    | "helper = handle_mutation" "ended = mutation_ended" "permits = mutation_permits" "seals = declares_mutation_sealed"
    | "helper = rollback_serve" "ended = capture_ended" "permits = rollback_permits" "seals = declares_rollback_sealed"
    using assms(1) by auto
  then show ?thesis
  proof cases
    case 1
    then show ?thesis using snapshots.run_at_most_once assms(2-) by simp
  next
    case 2
    then show ?thesis using mutations.run_at_most_once assms(2-) by simp
  next
    case 3
    then show ?thesis using rollbacks.run_at_most_once assms(2-) by simp
  qed
qed

theorem operations_submitted_at_most_once_witness:
  "\<exists>es. host_run handle_request capture_ended fresh_host es (demo_submitted_host\<lparr>host_running := []\<rparr>)
     \<and> host_launches demo_submitted_host = [(sq_id demo_ensure, snapshot_argv demo_ensure)]
     \<and> (\<forall>payload answer i. Answered payload (Inr answer) \<in> set es \<longrightarrow> declares_sealed i answer \<longrightarrow> i \<noteq> sq_id demo_ensure)"
proof -
  let ?s = "demo_submitted_host\<lparr>host_running := []\<rparr>"
  obtain a where c: "handle_request demo_env (demo_payload ENSURE_SNAPSHOT) fresh_host = (Inr a, demo_submitted_host)"
    using demo_ensure_call by blast
  have "host_run handle_request capture_ended fresh_host ([] @ [Answered (demo_payload ENSURE_SNAPSHOT) (Inr a)]) demo_submitted_host"
    by (rule host_run.snoc[OF host_run.nil]) (rule host_step.answered[of _ demo_env], rule c)
  from host_run.snoc[OF this host_step.restarted]
  have run: "host_run handle_request capture_ended fresh_host ([Answered (demo_payload ENSURE_SNAPSHOT) (Inr a)] @ [Restarted]) ?s" by simp
  have l: "host_launches ?s = [(sq_id demo_ensure, snapshot_argv demo_ensure)]" "host_launches fresh_host = []" "host_running fresh_host = []"
    by (simp_all add: demo_submitted_host_def fresh_host_def)
  have "i \<notin> fst ` set (host_launches ?s)" if "Answered p (Inr b) \<in> set ([Answered (demo_payload ENSURE_SNAPSHOT) (Inr a)] @ [Restarted])"
      "declares_sealed i b" for p b i
    using operations_submitted_at_most_once[OF _ l(2,3) run, of snapshot_permits declares_sealed] that by blast
  then show ?thesis using run l(1) by (intro exI conjI) (assumption, simp, auto)
qed

section \<open>Ownership claims\<close>

text \<open>
  C40. Ownership claims round trip. When the backend renders the description of a job's snapshot, the description is the
  one the helper builds, the backend and both helpers parse it back to the same ownership, and the helper derives
  the operation id and the snapshot name that the backend derived. On every other description the three parsers
  accept the same claims.
\<close>

theorem ownership_claims_round_trip:
  assumes "encode_snapshot_description w = Inr d"
  shows "build_snapshot_description w = d
     \<and> parse_snapshot_description (JStr d) = Inr (Some w) \<and> helper_parse_description (JStr d) = Inr (Some w)
     \<and> rollback_parse_description (JStr d) = Inr (Some w)
     \<and> derive_pre_update_snapshot_identity (ownership_key w) = Inr (derive_snapshot_identity (ownership_key w))
     \<and> (\<forall>v x. parse_snapshot_description v = Inr x \<longleftrightarrow> helper_parse_description v = Inr x)
     \<and> (\<forall>v x. rollback_parse_description v = Inr x \<longleftrightarrow> helper_parse_description v = Inr x)"
proof -
  have w: "encodable w" "d = build_snapshot_description w" using assms by (auto simp: encode_Inr)
  then have "derive_pre_update_snapshot_identity (ownership_key w) = Inr (derive_snapshot_identity (ownership_key w))"
    by (simp add: derive_snapshot_identity_Inr helper_identity job_key_ok_def ownership_key_def encodable_def)
  with parse_build[OF w(1)] parsers_agree rollback_parser_agrees w(2) show ?thesis by simp
qed

theorem ownership_claims_round_trip_witness:
  "\<exists>d. encode_snapshot_description demo_ownership = Inr d \<and> parse_snapshot_description (JStr d) = Inr (Some demo_ownership)
     \<and> helper_parse_description (JStr d) = Inr (Some demo_ownership)"
proof -
  have "length (build_snapshot_description demo_ownership) \<le> 600" by code_simp
  then have "encode_snapshot_description demo_ownership = Inr (build_snapshot_description demo_ownership)"
    by (simp add: encode_Inr encodable_def demo_ownership_def)
  from ownership_claims_round_trip[OF this] this show ?thesis by blast
qed

end
