(* ===== verification/Guard_Properties.thy ===== *)
theory Guard_Properties
  imports Demo_Fixture Write_Success
begin

text \<open>
  What guards the calls that touch a host: the authority decision spelled out, the submissions that
  call a host only under it, the releases that need the host's seal, and the arming of a mutation.
\<close>

section \<open>The authority decision\<close>


section \<open>Submissions\<close>

lemma run_submission_host:
  "fst (snd (run_submission args body e submit db h)) = h
   \<or> (\<exists>x db'. args = Inr x \<and> body x db = Inr (True, db')
        \<and> fst (snd (run_submission args body e submit db h)) = snd (submit h))"
  by (auto simp: run_submission_def split: sum.splits prod.splits)

text \<open>
  C11. A package mutation is submitted to the host at most once per call, and only for an active job
  at its armed checkpoint, with the very evidence digest its arming accepted, while the job's
  authority is current; in every other case the host is untouched.
\<close>

theorem mutation_submission_guarded:
  "fst (snd (execute_package_mutation_submission_if_current now i submit digest db h)) = h
   \<or> (fst (snd (execute_package_mutation_submission_if_current now i submit digest db h)) = snd (submit h)
      \<and> (\<exists>j db'. row_by jid i (jobs db) = Some j \<and> status j = ACTIVE
           \<and> job_checkpoint j = MUTATION_MAY_HAVE_STARTED
           \<and> accepted_prepared_evidence_digest j = Some digest
           \<and> package_update_job_current_authority_detail (now 0) j db = Inr ((AUTH_CURRENT, None), db')))"
proof -
  let ?args = "bindE (job_arg i) (\<lambda>i. bindE (require_evidence_digest digest) (\<lambda>d. Inr (i, d)))"
  have "\<exists>j. row_by jid i (jobs db) = Some j \<and> status j = ACTIVE
           \<and> job_checkpoint j = MUTATION_MAY_HAVE_STARTED
           \<and> accepted_prepared_evidence_digest j = Some digest
           \<and> package_update_job_current_authority_detail (now 0) j db = Inr ((AUTH_CURRENT, None), db')"
    if "?args = Inr x" "mutation_submission_body now x db = Inr (True, db')" for x db'
    using that
    by (auto simp: mutation_submission_body_def require_armed_package_mutation_job_def body_iffs result_iffs
        job_arg_def authority_is_current_True authority_detail_current split: option.splits)
  then show ?thesis
    unfolding execute_package_mutation_submission_if_current_def
    using run_submission_host[of ?args "mutation_submission_body now"] by metis
qed

text \<open>
  C12. A snapshot is submitted to the host only for an active job inside its snapshot operation whose
  authority is current, and a rollback only for an active job at its armed rollback whose target is
  still the same resource on the same locator; otherwise the host is untouched.
\<close>

theorem snapshot_and_rollback_submissions_guarded:
  "(fst (snd (execute_snapshot_submission_if_current now i submit db h)) = h
    \<or> (\<exists>j db'. row_by jid i (jobs db) = Some j \<and> status j = ACTIVE
         \<and> job_checkpoint j = SNAPSHOT_MAY_HAVE_STARTED
         \<and> package_update_job_current_authority_detail (now 0) j db = Inr ((AUTH_CURRENT, None), db')))
   \<and> (fst (snd (execute_rollback_submission_if_current i submit db h)) = h
    \<or> (\<exists>j oid. row_by jid i (jobs db) = Some j \<and> status j = ACTIVE
         \<and> job_checkpoint j = ROLLBACK_MAY_HAVE_STARTED
         \<and> rollback_identity_in_transaction db j = Inr oid
         \<and> post_mutation_job_context_is_current db (jctx j)))"
proof -
  have "\<exists>j. row_by jid i (jobs db) = Some j \<and> status j = ACTIVE \<and> job_checkpoint j = SNAPSHOT_MAY_HAVE_STARTED
         \<and> package_update_job_current_authority_detail (now 0) j db = Inr ((AUTH_CURRENT, None), db')"
    if "job_arg i = Inr x" "snapshot_submission_body now x db = Inr (True, db')" for x db'
    using that
    by (auto simp: snapshot_submission_body_def require_in_snapshot_def body_iffs result_iffs job_arg_def
        authority_is_current_True authority_detail_current)
  moreover have "\<exists>j oid. row_by jid i (jobs db) = Some j \<and> status j = ACTIVE \<and> job_checkpoint j = ROLLBACK_MAY_HAVE_STARTED
         \<and> rollback_identity_in_transaction db j = Inr oid \<and> post_mutation_job_context_is_current db (jctx j)"
    if "job_arg i = Inr x" "rollback_submission_body x db = Inr (True, db')" for x db'
    using that
    by (auto simp: rollback_submission_body_def require_armed_rollback_job_def body_iffs result_iffs job_arg_def)
  ultimately show ?thesis
    unfolding execute_snapshot_submission_if_current_def execute_rollback_submission_if_current_def
    using run_submission_host[of "job_arg i" "snapshot_submission_body now"]
      run_submission_host[of "job_arg i" rollback_submission_body] by metis
qed

section \<open>Releases\<close>

lemma run_release_sealed:
  assumes "\<And>x u db'. check x db = Inr (u, db') \<Longrightarrow> db' = db"
  shows "fst (run_release i check sealed block seal db h) = db
   \<or> (\<exists>reason evidence h' u. seal h = (Inr (Some sealed, reason, evidence), h') \<and> check i db = Inr (u, db))"
  using assms by (auto simp: run_release_def job_arg_def require_uuid_def checkE_def split: sum.splits prod.splits)

text \<open>
  C13. A release frees the global slot only on the host's word: each of the three releases leaves the
  database as it was unless the host answered that the operation is sealed and was never submitted,
  and then only for an active job still inside that operation, with no PVE task observed for the
  snapshot or the rollback and no completion recorded for the mutation.
\<close>

theorem releases_need_the_seal:
  "(fst (resolve_pre_submission_block now i seal1 db h) = db
    \<or> (\<exists>reason evidence h'. seal1 h = (Inr (Some SNAP_SEALED_NOT_SUBMITTED, reason, evidence), h'))
      \<and> (\<exists>j. row_by jid i (jobs db) = Some j \<and> owned_at i SNAPSHOT_MAY_HAVE_STARTED j \<and> snapshot_task_upid j = None))
   \<and> (fst (resolve_pre_mutation_block now i seal2 db h) = db
    \<or> (\<exists>reason evidence h'. seal2 h = (Inr (Some MUT_SEALED_NOT_SUBMITTED, reason, evidence), h'))
      \<and> (\<exists>j. row_by jid i (jobs db) = Some j \<and> owned_at i MUTATION_MAY_HAVE_STARTED j \<and> mutation_completed_at j = None))
   \<and> (fst (resolve_pre_rollback_block now i seal3 db h) = db
    \<or> (\<exists>reason evidence h'. seal3 h = (Inr (Some RB_SEALED_NOT_SUBMITTED, reason, evidence), h'))
      \<and> (\<exists>j. row_by jid i (jobs db) = Some j \<and> owned_at i ROLLBACK_MAY_HAVE_STARTED j \<and> rollback_task_upid j = None))"
proof -
  have 1: "db' = db \<and> (\<exists>j. row_by jid x (jobs db) = Some j \<and> owned_at x SNAPSHOT_MAY_HAVE_STARTED j \<and> snapshot_task_upid j = None)"
    if "pre_submission_check x db = Inr (u, db')" for x u db'
    using that row_by_Some_key[of jid x "jobs db"]
    by (auto simp: pre_submission_check_def require_in_snapshot_def body_iffs owned_at_def)
  have 2: "db' = db \<and> (\<exists>j. row_by jid x (jobs db) = Some j \<and> owned_at x MUTATION_MAY_HAVE_STARTED j \<and> mutation_completed_at j = None)"
    if "pre_mutation_check x db = Inr (u, db')" for x u db'
    using that row_by_Some_key[of jid x "jobs db"]
    by (auto simp: pre_mutation_check_def require_armed_package_mutation_job_def body_iffs owned_at_def)
  have 3: "db' = db \<and> (\<exists>j. row_by jid x (jobs db) = Some j \<and> owned_at x ROLLBACK_MAY_HAVE_STARTED j \<and> rollback_task_upid j = None)"
    if "pre_rollback_check x db = Inr (u, db')" for x u db'
    using that row_by_Some_key[of jid x "jobs db"]
    by (auto simp: pre_rollback_check_def require_armed_rollback_job_def body_iffs owned_at_def)
  show ?thesis
    unfolding resolve_pre_submission_block_def resolve_pre_mutation_block_def resolve_pre_rollback_block_def
    using run_release_sealed[of pre_submission_check db i SNAP_SEALED_NOT_SUBMITTED "commit_pre_submission_block now" seal1 h]
      run_release_sealed[of pre_mutation_check db i MUT_SEALED_NOT_SUBMITTED "commit_pre_mutation_block now" seal2 h]
      run_release_sealed[of pre_rollback_check db i RB_SEALED_NOT_SUBMITTED "commit_pre_rollback_block now" seal3 h]
      1 2 3 by blast
qed

section \<open>Arming\<close>

text \<open>What the gate leaves behind when it does not release the job.\<close>

lemma gate_passed:
  assumes "terminalize_execution_gate_job_if_authority_stale a t c j db = Inr (False, db')"
  shows "package_update_job_current_authority_detail t j db = Inr ((AUTH_CURRENT, None), db')"
proof -
  from assms obtain state why db1 where
    d: "package_update_job_current_authority_detail t j db = Inr ((state, why), db1)"
    and rest: "(case state of AUTH_CURRENT \<Rightarrow> ret False | AUTH_TEMPORARILY_UNAVAILABLE \<Rightarrow>
         raise (PackageUpdateExecutionAuthorityTemporarilyUnavailable
           (case why of Some r \<Rightarrow> r | None \<Rightarrow> ''package update execution authority is temporarily unavailable''))
       | AUTH_STALE \<Rightarrow>
         andthen (update_job (owned_at (jid j) SNAPSHOT_CONFIRMED)
                    (terminate_job BLOCKED a (stale_release_reason why))
                    ''package update job stale-authority release lost durable ownership'')
        (andthen (log_event (jid j) a WARNING SNAPSHOT_CONFIRMED EV_EXECUTION_AUTHORITY_STALE_RELEASED
                    (stale_release_reason why) (JObj []))
        (andthen (publish c) (ret True)))) db1 = Inr (False, db')"
    by (auto simp: terminalize_execution_gate_job_if_authority_stale_def seq_Inr)
  from rest have "state = AUTH_CURRENT" "db' = db1"
    by (cases state; auto simp: andthen_Inr)+
  with d show ?thesis by (auto simp: authority_detail_current)
qed

definition armed_row :: "string \<Rightarrow> time \<Rightarrow> string \<Rightarrow> job \<Rightarrow> job" where
  "armed_row oid t digest j = j\<lparr>job_checkpoint := MUTATION_MAY_HAVE_STARTED, mutation_operation_id := Some oid,
     mutation_may_have_started_at := Some t, accepted_prepared_evidence_digest := Some digest\<rparr>"

lemma commit_mutation_intent_row:
  assumes "store_ok db" "commit_package_mutation_intent i oid t t' n digest db = Inr (u, db')"
  shows "\<exists>j. row_by jid i (jobs db) = Some j \<and> owned_at i SNAPSHOT_CONFIRMED j
           \<and> row_by jid i (jobs db') = Some (armed_row oid t digest j)"
proof -
  from assms(2) obtain db1 db2 where
    upd: "update_job (\<lambda>j. owned_at i SNAPSHOT_CONFIRMED j \<and> mutation_operation_id j = None
            \<and> mutation_may_have_started_at j = None \<and> accepted_prepared_evidence_digest j = None)
            (armed_row oid t digest) ''package update job mutation intent lost durable ownership'' db = Inr ((), db1)"
    and rest: "same_jobs db1 db2" "same_jobs db2 db'"
    by (auto simp: commit_package_mutation_intent_def andthen_Inr armed_row_def[abs_def] dest!: log_event_same publish_same)
  from update_job_row[OF assms(1) upd, of i] show ?thesis
    using same_jobs_simps(1)[OF rest(1)] same_jobs_simps(1)[OF rest(2)]
    by (auto simp: owned_at_def armed_row_def)
qed

lemma arm_mutation_now:
  assumes ok: "store_ok db" and run: "arm_mutation_body now (i, digest, fresh) db = Inr ((outcome, ARMED_NOW), db')"
  shows "outcome = MATCHED \<and> (\<exists>j oid db1. row_by jid i (jobs db) = Some j \<and> owned_at i SNAPSHOT_CONFIRMED j
     \<and> package_update_job_current_authority_detail (now 1) j db = Inr ((AUTH_CURRENT, None), db1)
     \<and> job_material db i \<noteq> [] \<and> set (job_material db i) = set fresh
     \<and> row_by jid i (jobs db') = Some (armed_row oid (now 0) digest j))"
proof -
  from run obtain j db1 oid where j: "row_by jid i (jobs db) = Some j" "outcome = MATCHED"
    and gate: "terminalize_execution_gate_job_if_authority_stale (now 0) (now 1) (now 2) j db = Inr (False, db1)"
    and match: "material_matches (job_material db1 i) fresh"
    and intent: "commit_package_mutation_intent i oid (now 0) (now 2) (length (job_material db1 i)) digest db1 = Inr ((), db')"
    by (auto simp: arm_mutation_body_def body_iffs split: if_splits)
  from gate_passed[OF gate] have cur: "package_update_job_current_authority_detail (now 1) j db = Inr ((AUTH_CURRENT, None), db1)" .
  from same_jobs_simps[OF detail_same[OF cur]] ok have "store_ok db1" "jobs db1 = jobs db" "job_material db1 i = job_material db i"
    by auto
  with commit_mutation_intent_row[OF _ intent] match j cur show ?thesis by (auto simp: material_matches_def)
qed

text \<open>A second arming finds the job armed: nothing changes and nothing is armed again.\<close>

lemma arm_mutation_again:
  assumes "row_by jid i (jobs db) = Some j" "job_checkpoint j = MUTATION_MAY_HAVE_STARTED"
  shows "fst (arm_package_update_mutation now i packages digest db) = db
    \<and> snd (arm_package_update_mutation now i packages digest db) \<noteq> Inr (out, ARMED_NOW, v)"
proof -
  let ?args = "bindE (job_arg i) (\<lambda>i. bindE (require_evidence_digest digest) (\<lambda>d.
    bindE (fresh_material packages) (\<lambda>m. Inr (i, d, m))))"
  have body: "db' = db \<and> snd a = ALREADY_ARMED"
    if "?args = Inr x" "arm_mutation_body now x db = Inr (a, db')" for x a db'
    using that assms by (auto simp: arm_mutation_body_def body_iffs result_iffs job_arg_def)
  note kept = run_op_kept[of ?args "arm_mutation_body now" db "\<lambda>a. snd a = ALREADY_ARMED", OF body]
  show ?thesis unfolding arm_package_update_mutation_def
    using kept(1) kept(2)[where y = "(out, ARMED_NOW, v)"] by (fastforce simp: result_iffs)
qed

text \<open>The fixture's job, its snapshot confirmed, passes the gate and is armed.\<close>

lemma demo_arm_text: "is_text 500 ''real workload package mutation may be submitted from here on''"
  by code_simp

lemma demo_arms:
  "\<exists>db' v. arm_package_update_mutation (\<lambda>_. 5000) (demo_uuid (CHR ''6'')) [demo_package] demo_plan_fingerprint
     (demo_db [demo_confirmed]) = (db', Inr (MATCHED, ARMED_NOW, v))"
proof -
  let ?i = "demo_uuid (CHR ''6'')" and ?j = demo_confirmed and ?db = "demo_db [demo_confirmed]"
  let ?oid = "operation_uuid (mutation_operation_text demo_key)"
  have iss: "iss ?j = demo_issuance" "status ?j = ACTIVE" "job_checkpoint ?j = SNAPSHOT_CONFIRMED"
    "mutation_operation_id ?j = None" "mutation_may_have_started_at ?j = None" "accepted_prepared_evidence_digest ?j = None"
    "job_health_outcome ?j = None" "health_completed_at ?j = None"
    by (simp_all add: demo_confirmed_def demo_issued_def issued_job_def)
  have gate: "terminalize_execution_gate_job_if_authority_stale 5000 5000 5000 ?j ?db = Inr (False, ?db)"
    using demo_authority[OF iss(1,2), of 5000]
    by (simp add: terminalize_execution_gate_job_if_authority_stale_def seq_def ret_def)
  have oid: "mutation_identity_in_transaction ?db ?j = Inr ?oid"
    using derive_mutation_identity_Inr[of demo_key ?oid] demo_key_ok
    by (simp add: mutation_identity_in_transaction_def demo_job_key[OF iss(1)] iss)
  let ?w = "\<lambda>j. owned_at ?i SNAPSHOT_CONFIRMED j \<and> mutation_operation_id j = None
              \<and> mutation_may_have_started_at j = None \<and> accepted_prepared_evidence_digest j = None"
  let ?db1 = "?db\<lparr>jobs := [armed_row ?oid 5000 demo_plan_fingerprint ?j]\<rparr>"
  have w: "?w ?j" using iss by (simp add: owned_at_def demo_issuance_def)
  have upd: "update_job ?w (armed_row ?oid 5000 demo_plan_fingerprint)
      ''package update job mutation intent lost durable ownership'' ?db = Inr ((), ?db1)"
  proof (rule update_single_job)
    show "store_ok ?db" by (rule demo_store_ok[OF demo_confirmed_wf])
    show "jobs ?db = [?j]" by (simp add: demo_db_def)
    show "job_transition ?j (armed_row ?oid 5000 demo_plan_fingerprint ?j)"
      using iss by (auto simp: armed_row_def intro: job_transition.mutation_armed)
    show "job_column_checks (armed_row ?oid 5000 demo_plan_fingerprint ?j)"
      using demo_confirmed_wf demo_digests(2) by (simp add: job_wf_shape job_column_checks_def armed_row_def)
  qed (use w in \<open>auto simp: armed_row_def\<close>)
  have len: "length (json_dumps (JObj [(''mutation_operation_id'', JStr ?oid), (''package_count'', JInt (int 1)),
       (''accepted_prepared_evidence_digest'', JStr demo_plan_fingerprint)])) \<le> 4000"
    using length_json_string_le[of ?oid] length_json_string_le[of demo_plan_fingerprint] demo_digests(2)
    by (intro order.trans[OF length_json_obj_le]) (simp add: is_hex_digest_def decimal_int_def decimal_nat.simps)
  have mem: "?i \<in> jid ` set (jobs ?db1)" using iss(1) by (simp add: armed_row_def demo_issuance_def)
  obtain e where ev: "log_event ?i 5000 WARNING MUTATION_MAY_HAVE_STARTED EV_MUTATION_MAY_HAVE_STARTED
                ''real workload package mutation may be submitted from here on''
                (JObj [(''mutation_operation_id'', JStr ?oid), (''package_count'', JInt (int 1)),
                       (''accepted_prepared_evidence_digest'', JStr demo_plan_fingerprint)]) ?db1
      = Inr ((), ?db1\<lparr>job_events := job_events ?db1 @ [e]\<rparr>)"
    using log_event_succeeds[OF mem demo_arm_text len] by blast
  let ?db2 = "?db1\<lparr>job_events := job_events ?db1 @ [e]\<rparr>"
  obtain db' where pub: "publish 5000 ?db2 = Inr ((), db')" and db': "jobs db' = jobs ?db1"
      "job_packages db' = job_packages ?db" "job_probes db' = job_probes ?db" "job_results db' = job_results ?db"
    by (simp add: publish_succeeds)
  have intent: "commit_package_mutation_intent ?i ?oid 5000 5000 1 demo_plan_fingerprint ?db = Inr ((), db')"
    using upd ev pub unfolding commit_package_mutation_intent_def armed_row_def[abs_def]
    by (auto simp: andthen_Inr)
  have body: "arm_mutation_body (\<lambda>_. 5000) (?i, demo_plan_fingerprint, [package_material demo_package]) ?db
      = Inr ((MATCHED, ARMED_NOW), db')"
    using gate oid intent iss demo_row[OF iss(1)] demo_material[OF iss(1)]
    by (auto simp: arm_mutation_body_def body_iffs material_matches_def)
  have fresh: "fresh_material [demo_package] = Inr [package_material demo_package]"
    by (simp add: fresh_material_def demo_plan_valid)
  have "\<exists>v. store_package_update_job db' ?i = Inr v"
    using db' by (intro demo_read_back[where j = "armed_row ?oid 5000 demo_plan_fingerprint ?j"])
      (simp_all add: iss armed_row_def demo_db_def)
  with body fresh show ?thesis
    unfolding arm_package_update_mutation_def
    by (fastforce simp: run_op_Inr result_iffs job_arg_def require_uuid_def require_evidence_digest_def demo_digests)
qed

text \<open>
  C14. A mutation is armed exactly once. An arming that reports ARMED_NOW happened on an active job at
  its confirmed snapshot, with current authority and a fresh validated plan whose material is the
  frozen material of the job; it recorded the operation, the time and the accepted evidence digest
  and nothing else in the row. Any later arming of that job, with any plan and any digest, leaves the
  database as it is and does not report ARMED_NOW.
\<close>

theorem mutation_armed_once:
  assumes "store_ok db"
    and "arm_package_update_mutation now i packages digest db = (db', Inr (outcome, ARMED_NOW, v))"
  shows "outcome = MATCHED
    \<and> (\<exists>j plan oid db1. row_by jid i (jobs db) = Some j \<and> owned_at i SNAPSHOT_CONFIRMED j
         \<and> package_update_job_current_authority_detail (now 1) j db = Inr ((AUTH_CURRENT, None), db1)
         \<and> validate_package_plan packages = Inr plan \<and> job_material db i \<noteq> []
         \<and> set (job_material db i) = package_material ` set plan
         \<and> row_by jid i (jobs db') = Some (armed_row oid (now 0) digest j))
    \<and> fst (arm_package_update_mutation now' i packages' digest' db') = db'
    \<and> snd (arm_package_update_mutation now' i packages' digest' db') \<noteq> Inr (outcome', ARMED_NOW, v')"
proof -
  from assms(2) obtain plan where plan: "validate_package_plan packages = Inr plan"
    and run: "arm_mutation_body now (i, digest, remdups (map package_material plan)) db = Inr ((outcome, ARMED_NOW), db')"
    by (auto simp: arm_package_update_mutation_def run_op_Inr result_iffs fresh_material_def job_arg_def)
  from arm_mutation_now[OF assms(1) run] obtain j oid db1 where
    *: "outcome = MATCHED" "row_by jid i (jobs db) = Some j" "owned_at i SNAPSHOT_CONFIRMED j"
      "package_update_job_current_authority_detail (now 1) j db = Inr ((AUTH_CURRENT, None), db1)"
      "job_material db i \<noteq> []" "set (job_material db i) = package_material ` set plan"
      "row_by jid i (jobs db') = Some (armed_row oid (now 0) digest j)"
    by auto
  have "job_checkpoint (armed_row oid (now 0) digest j) = MUTATION_MAY_HAVE_STARTED" by (simp add: armed_row_def)
  from arm_mutation_again[OF *(7) this] * plan show ?thesis by blast
qed

theorem mutation_armed_once_witness:
  "\<exists>db' v. arm_package_update_mutation (\<lambda>_. 5000) (demo_uuid (CHR ''6'')) [demo_package] demo_plan_fingerprint
       (demo_db [demo_confirmed]) = (db', Inr (MATCHED, ARMED_NOW, v))
     \<and> fst (arm_package_update_mutation (\<lambda>_. 6000) (demo_uuid (CHR ''6'')) [demo_package] demo_plan_fingerprint db') = db'"
  using demo_arms mutation_armed_once[OF demo_store_ok[OF demo_confirmed_wf]] by blast

end
