(* ===== verification/Discovery_Models.thy ===== *)
theory Discovery_Models
  imports Authority_Body
begin

text \<open>
  The normalized discovery snapshot and the completion evidence of a discovery run:
  \<open>app/inventory/discovery.py\<close>. A dataclass with a checking \<open>__post_init__\<close> is a record and a
  function that returns the normalized record or the exception. Facts are JSON values; the type checks
  of the constructors that a datatype already enforces have no counterpart. A provider token, which
  only the provider module can mint, is the constructor function itself.
\<close>

section \<open>Enums and their values\<close>

fun completeness_value :: "baseline_completeness \<Rightarrow> string" where
  "completeness_value BASE_COMPLETE = ''complete''"
| "completeness_value BASE_PARTIAL = ''partial''"
| "completeness_value BASE_CONFIGURATION_ERROR = ''configuration_error''"
| "completeness_value BASE_SOURCE_UNAVAILABLE = ''source_unavailable''"
| "completeness_value BASE_INVALID = ''invalid''"

datatype detail_read_status = DETAIL_OK | DETAIL_TEMPORARILY_UNAVAILABLE | DETAIL_ERROR

fun detail_value :: "detail_read_status \<Rightarrow> string" where
  "detail_value DETAIL_OK = ''ok''"
| "detail_value DETAIL_TEMPORARILY_UNAVAILABLE = ''temporarily_unavailable''"
| "detail_value DETAIL_ERROR = ''error''"

fun availability_value :: "source_availability \<Rightarrow> string" where
  "availability_value SOURCE_AVAILABLE = ''available''"
| "availability_value SOURCE_NOT_AVAILABLE = ''unavailable''"

fun mode_value :: "baseline_mode \<Rightarrow> string" where
  "mode_value CLUSTER_MODE = ''cluster''"
| "mode_value STANDALONE_MODE = ''standalone''"

section \<open>Checks\<close>

definition is_ascii_alnum_char :: "char \<Rightarrow> bool" where
  "is_ascii_alnum_char c \<longleftrightarrow> (let n = of_char c :: nat in
     (48 \<le> n \<and> n \<le> 57) \<or> (65 \<le> n \<and> n \<le> 90) \<or> (97 \<le> n \<and> n \<le> 122))"

text \<open>\<open>_EXTERNAL_NODE_NAME.fullmatch\<close>: 1 to 253 characters, alphanumeric at both ends.\<close>

definition external_node_name :: "string \<Rightarrow> bool" where
  "external_node_name v \<longleftrightarrow>
     v \<noteq> [] \<and> length v \<le> 253 \<and> is_ascii_alnum_char (hd v) \<and> is_ascii_alnum_char (last v)
     \<and> list_all (\<lambda>c. is_ascii_alnum_char c \<or> c = CHR ''.'' \<or> c = CHR ''-'') v"

definition snapshot_text :: "string \<Rightarrow> string \<Rightarrow> unit result" where
  "snapshot_text v name =
     checkE (\<exists>c \<in> set v. \<not> py_isspace c) (ValueError (name @ '' must be non-empty text'')) (Inr ())"

text \<open>The two messages of a refused UUID (unreadable, readable but not canonical) are one here.\<close>

definition snapshot_uuid :: "string \<Rightarrow> string \<Rightarrow> unit result" where
  "snapshot_uuid v name =
     bindE (snapshot_text v name) (\<lambda>_.
     checkE (is_canonical_uuid v) (ValueError (name @ '' must be a canonical non-NIL UUID'')) (Inr ()))"

definition snapshot_positive :: "int \<Rightarrow> string \<Rightarrow> unit result" where
  "snapshot_positive v name =
     checkE (0 < v) (ValueError (name @ '' must be a positive integer'')) (Inr ())"

text \<open>\<open>scope == scope.strip()\<close> for a non-empty text.\<close>

definition stripped_text :: "string \<Rightarrow> bool" where
  "stripped_text v \<longleftrightarrow> v \<noteq> [] \<and> \<not> py_isspace (hd v) \<and> \<not> py_isspace (last v)"

section \<open>Provider evidence\<close>

record provider_node_scope =
  scope_mode :: baseline_mode
  scope_names :: "string list"

definition provider_node_scope_of :: "baseline_mode \<Rightarrow> string list \<Rightarrow> provider_node_scope result" where
  "provider_node_scope_of mode node_names =
     (let names = sort node_names in
      checkE (names \<noteq> [] \<and> list_all external_node_name names \<and> distinct names)
        (ValueError ''provider node scope must contain unique canonical names'')
     (checkE (mode = STANDALONE_MODE \<longrightarrow> length names = 1)
        (ValueError ''standalone provider node scope must contain one node'')
        (Inr \<lparr>scope_mode = mode, scope_names = names\<rparr>)))"

text \<open>The frozen set of (vmid, kind, node), as the list of the rows it was built from.\<close>

type_synonym guest_locator = "int \<times> string \<times> string"

definition guest_locator_ok :: "guest_locator \<Rightarrow> bool" where
  "guest_locator_ok l = (case l of (vmid, kind, node) \<Rightarrow>
     0 < vmid \<and> kind \<in> {''qemu'', ''lxc''} \<and> external_node_name node)"

definition provider_guest_locators_of :: "guest_locator list \<Rightarrow> guest_locator list result" where
  "provider_guest_locators_of rows =
     checkE (distinct rows) (ValueError ''provider guest baseline contains a duplicate locator'')
    (checkE (list_all guest_locator_ok rows)
       (ValueError ''provider guest locator set entries must be canonical'') (Inr rows))"

section \<open>Nodes and resources\<close>

record discovered_node =
  dn_name :: string
  dn_status :: string
  dn_available :: bool
  dn_observed_at :: stamp
  dn_facts :: json

definition discovered_node_check :: "discovered_node \<Rightarrow> discovered_node result" where
  "discovered_node_check n =
     checkE (external_node_name (dn_name n)) (ValueError ''external_node_name must be a canonical node name'')
    (bindE (snapshot_text (dn_status n) ''node status'') (\<lambda>_.
     bindE (snapshot_text (stamp_text (dn_observed_at n)) ''node observed_at'') (\<lambda>_. Inr n)))"

record discovered_resource =
  dv_source_id :: uuid
  dv_vmid :: int
  dv_type :: string
  dv_name :: string
  dv_status :: string
  dv_node :: "string option"
  dv_observed_at :: stamp
  dv_detail :: detail_read_status
  dv_facts :: json
  dv_evidence :: "json list"

definition discovered_resource_check :: "discovered_resource \<Rightarrow> discovered_resource result" where
  "discovered_resource_check r =
     bindE (snapshot_uuid (dv_source_id r) ''resource inventory_source_id'') (\<lambda>_.
     bindE (snapshot_positive (dv_vmid r) ''vmid'') (\<lambda>_.
     checkE (dv_type r \<in> {''qemu'', ''lxc''}) (ValueError ''resource_type must be qemu or lxc'')
    (bindE (snapshot_text (dv_name r) ''resource name'') (\<lambda>_.
     bindE (snapshot_text (dv_status r) ''resource status'') (\<lambda>_.
     bindE (case dv_node r of None \<Rightarrow> Inr () | Some n \<Rightarrow> snapshot_text n ''current_node_name'') (\<lambda>_.
     bindE (snapshot_text (stamp_text (dv_observed_at r)) ''resource observed_at'') (\<lambda>_. Inr r)))))))"

section \<open>The snapshot\<close>

record discovery_snapshot =
  snap_run_id :: uuid
  snap_sequence :: int
  snap_source_id :: uuid
  snap_expected :: run_context
  snap_provider_contract_version :: int
  snap_observed_at :: stamp
  snap_source_facts :: json
  snap_availability :: source_availability
  snap_completeness :: baseline_completeness
  snap_mode :: baseline_mode
  snap_topology_hashes :: "string option \<times> string option"
  snap_permission_hashes :: "string option \<times> string option"
  snap_permission_coverage_complete :: bool
  snap_boundary_consistent :: bool
  snap_covered_nodes :: "string list"
  snap_failed_baseline_scopes :: "string list"
  snap_detail_summary :: "(string \<times> json) list"
  snap_failed_detail_scopes :: "string list"
  snap_nodes :: "discovered_node list"
  snap_resources :: "discovered_resource list"
  snap_node_scope :: "provider_node_scope option"
  snap_guest_locators :: "guest_locator list option"

definition DETAIL_SUMMARY_KEYS :: "string list" where
  "DETAIL_SUMMARY_KEYS = [''ok_count'', ''temporarily_unavailable_count'', ''error_count'']"

definition detail_count :: "detail_read_status \<Rightarrow> discovery_snapshot \<Rightarrow> int" where
  "detail_count d s = int (length (filter (\<lambda>r. dv_detail r = d) (snap_resources s)))"

definition check_detail_summary :: "discovery_snapshot \<Rightarrow> unit result" where
  "check_detail_summary s =
     (let m = map_of (snap_detail_summary s) in
      checkE (set (map fst (snap_detail_summary s)) = set DETAIL_SUMMARY_KEYS) (ValueError ''detail_summary must contain exactly the canonical keys'')
     (checkE (list_all (\<lambda>k. case m k of Some (JInt v) \<Rightarrow> 0 \<le> v | _ \<Rightarrow> False) DETAIL_SUMMARY_KEYS)
        (ValueError ''detail_summary values must be nonnegative integers'')
     (checkE (m ''ok_count'' = Some (JInt (detail_count DETAIL_OK s))
              \<and> m ''temporarily_unavailable_count'' = Some (JInt (detail_count DETAIL_TEMPORARILY_UNAVAILABLE s))
              \<and> m ''error_count'' = Some (JInt (detail_count DETAIL_ERROR s)))
        (ValueError ''detail_summary must exactly match resource detail statuses'') (Inr ()))))"

text \<open>The loop over the resources; \<open>slots\<close> holds the VMIDs already seen.\<close>

fun check_snapshot_resources ::
    "uuid \<Rightarrow> string list \<Rightarrow> int list \<Rightarrow> discovered_resource list \<Rightarrow> unit result" where
  "check_snapshot_resources source node_names slots [] = Inr ()"
| "check_snapshot_resources source node_names slots (r # rs) =
     checkE (dv_source_id r = source) (ValueError ''normalized resource references the wrong inventory source'')
    (checkE (dv_vmid r \<notin> set slots) (ValueError ''normalized snapshot contains duplicate VMID locator'')
    (checkE (case dv_node r of None \<Rightarrow> True | Some n \<Rightarrow> n \<in> set node_names)
       (ValueError ''normalized resource references an unknown node name'')
       (check_snapshot_resources source node_names (dv_vmid r # slots) rs)))"

definition truthy :: "string option \<Rightarrow> bool" where
  "truthy v \<longleftrightarrow> (case v of None \<Rightarrow> False | Some t \<Rightarrow> t \<noteq> [])"

definition LOCATOR_MISMATCH :: exn where
  "LOCATOR_MISMATCH = ValueError ''complete baseline requires normalized resources to exactly match the provider guest locator baseline''"

text \<open>
  \<open>provider_node_by_identity\<close>: the node of the (vmid, kind), the last one of the iteration where the
  baseline names several; the set is iterated in the order of the list.
\<close>

definition provider_node_by_identity :: "guest_locator list \<Rightarrow> int \<times> string \<Rightarrow> string option" where
  "provider_node_by_identity ls = map_of (rev (map (\<lambda>(vmid, kind, node). ((vmid, kind), node)) ls))"

definition check_complete_baseline :: "discovery_snapshot \<Rightarrow> unit result" where
  "check_complete_baseline s =
     (let node_names = map dn_name (snap_nodes s) in
      checkE (snap_availability s = SOURCE_AVAILABLE \<and> snap_failed_baseline_scopes s = [])
        (ValueError ''complete baseline requires an available source and no failed baseline scopes'')
     (case snap_node_scope s of
        None \<Rightarrow> Inl (ValueError ''complete baseline requires provider node-scope provenance'')
      | Some scope \<Rightarrow>
          checkE (node_names = scope_names scope \<and> snap_covered_nodes s = scope_names scope)
            (ValueError ''complete baseline requires exact provider-established covered node scope'')
         (checkE (snap_mode s = STANDALONE_MODE \<longrightarrow> length node_names = 1)
            (ValueError ''complete standalone baseline requires exactly one covered node'')
         (case snap_guest_locators s of
            None \<Rightarrow> Inl (ValueError ''complete baseline requires provider guest-locator provenance'')
          | Some ls \<Rightarrow>
              checkE (set (map (\<lambda>r. (dv_vmid r, dv_type r)) (snap_resources s)) = set (map (\<lambda>(v, k, n). (v, k)) ls))
                LOCATOR_MISMATCH
             (checkE (list_all (\<lambda>r. dv_node r = None
                          \<or> dv_node r = provider_node_by_identity ls (dv_vmid r, dv_type r)) (snap_resources s))
                LOCATOR_MISMATCH
             (checkE (truthy (fst (snap_topology_hashes s)) \<and> truthy (snd (snap_topology_hashes s))
                      \<and> truthy (fst (snap_permission_hashes s)) \<and> truthy (snd (snap_permission_hashes s)))
                (ValueError ''complete baseline requires boundary hashes'')
             (checkE (snap_boundary_consistent s \<and> snap_permission_coverage_complete s)
                (ValueError ''complete baseline requires consistent complete permission coverage'')
             (checkE (fst (snap_topology_hashes s) = snd (snap_topology_hashes s)
                      \<and> fst (snap_permission_hashes s) = snd (snap_permission_hashes s))
                (ValueError ''complete baseline requires matching boundary hashes'') (Inr ())))))))))"

definition validate_snapshot :: "discovery_snapshot \<Rightarrow> unit result" where
  "validate_snapshot s =
     (let node_names = map dn_name (snap_nodes s) in
      bindE (check_detail_summary s) (\<lambda>_.
      checkE (list_all stripped_text (snap_failed_detail_scopes s))
        (ValueError ''failed_detail_scopes must contain canonical non-empty text'')
     (checkE (distinct (snap_failed_detail_scopes s)) (ValueError ''failed_detail_scopes must not contain duplicates'')
     (checkE (case snap_node_scope s of None \<Rightarrow> True | Some scope \<Rightarrow> scope_mode scope = snap_mode s)
        (ValueError ''provider node scope mode disagrees with baseline mode'')
     (checkE (distinct node_names) (ValueError ''normalized snapshot contains duplicate external node name'')
     (checkE (list_all external_node_name (snap_covered_nodes s))
        (ValueError ''covered_nodes must contain canonical node names'')
     (checkE (distinct (snap_covered_nodes s)) (ValueError ''normalized snapshot contains duplicate covered node name'')
     (bindE (check_snapshot_resources (snap_source_id s) node_names [] (snap_resources s)) (\<lambda>_.
      if snap_completeness s = BASE_COMPLETE then check_complete_baseline s else Inr ())))))))))"

definition snapshot_fields_check :: "discovery_snapshot \<Rightarrow> unit result" where
  "snapshot_fields_check s =
     bindE (snapshot_uuid (snap_run_id s) ''run_id'') (\<lambda>_.
     bindE (snapshot_positive (snap_sequence s) ''discovery_run_sequence'') (\<lambda>_.
     bindE (snapshot_uuid (snap_source_id s) ''inventory_source_id'') (\<lambda>_.
     bindE (snapshot_positive (rx_source_config_revision (snap_expected s)) ''expected_source_config_revision'') (\<lambda>_.
     bindE (snapshot_uuid (rx_endpoint_id (snap_expected s)) ''endpoint_id'') (\<lambda>_.
     bindE (snapshot_text (rx_canonical_transport_locator (snap_expected s)) ''canonical_transport_locator'') (\<lambda>_.
     bindE (snapshot_positive (rx_canonicalization_contract_version (snap_expected s)) ''canonicalization_contract_version'') (\<lambda>_.
     bindE (snapshot_positive (rx_transport_trust_revision (snap_expected s)) ''expected_transport_trust_revision'') (\<lambda>_.
     bindE (snapshot_positive (snap_provider_contract_version s) ''provider_contract_version'') (\<lambda>_.
     snapshot_text (stamp_text (snap_observed_at s)) ''observed_at'')))))))))"

text \<open>\<open>NormalizedDiscoverySnapshot.__post_init__\<close>: the fields, the canonical orders, the validation.\<close>

definition normalized_snapshot :: "discovery_snapshot \<Rightarrow> discovery_snapshot result" where
  "normalized_snapshot raw =
     bindE (snapshot_fields_check raw) (\<lambda>_.
     let s = raw\<lparr>snap_covered_nodes := sort (snap_covered_nodes raw),
                 snap_nodes := sort_key dn_name (snap_nodes raw)\<rparr>
     in bindE (validate_snapshot s) (\<lambda>_. Inr s))"

lemma check_snapshot_resources_Inr:
  "check_snapshot_resources source names slots rs = Inr () \<longleftrightarrow>
     distinct (map dv_vmid rs) \<and> set (map dv_vmid rs) \<inter> set slots = {}
     \<and> (\<forall>r \<in> set rs. dv_source_id r = source \<and> (\<forall>n. dv_node r = Some n \<longrightarrow> n \<in> set names))"
  by (induction rs arbitrary: slots) (auto simp: result_iffs split: option.splits)

lemma normalized_Inr:
  assumes "normalized_snapshot raw = Inr s"
  shows "validate_snapshot s = Inr ()" "snap_resources s = snap_resources raw"
  using assms by (auto simp: normalized_snapshot_def Let_def result_iffs)

lemma validate_snapshot_resources:
  assumes "validate_snapshot s = Inr ()"
  shows "check_snapshot_resources (snap_source_id s) (map dn_name (snap_nodes s)) [] (snap_resources s) = Inr ()"
  using assms by (auto simp: validate_snapshot_def Let_def result_iffs)

lemma normalized_distinct: "normalized_snapshot raw = Inr s \<Longrightarrow> distinct (map dv_vmid (snap_resources s))"
  using validate_snapshot_resources[OF normalized_Inr(1)] by (simp add: check_snapshot_resources_Inr)

section \<open>The snapshot's digest\<close>

definition hash_json :: "string option \<Rightarrow> json" where
  "hash_json v = (case v of None \<Rightarrow> JNull | Some t \<Rightarrow> JStr t)"

definition node_json :: "discovered_node \<Rightarrow> json" where
  "node_json n =
     JObj [(''name'', JStr (dn_name n)), (''status'', JStr (dn_status n)), (''available'', JBool (dn_available n)),
           (''observed_at'', JStr (stamp_text (dn_observed_at n))), (''facts'', dn_facts n)]"

definition resource_json :: "discovered_resource \<Rightarrow> json" where
  "resource_json r =
     JObj [(''vmid'', JInt (dv_vmid r)), (''type'', JStr (dv_type r)), (''name'', JStr (dv_name r)),
           (''status'', JStr (dv_status r)), (''node'', hash_json (dv_node r)),
           (''observed_at'', JStr (stamp_text (dv_observed_at r))), (''detail'', JStr (detail_value (dv_detail r))),
           (''facts'', dv_facts r), (''evidence'', JList (dv_evidence r))]"

definition snapshot_json :: "discovery_snapshot \<Rightarrow> json" where
  "snapshot_json s =
     JObj [(''run_id'', JStr (snap_run_id s)), (''sequence'', JInt (snap_sequence s)),
           (''source_id'', JStr (snap_source_id s)),
           (''expected_source_config_revision'', JInt (rx_source_config_revision (snap_expected s))),
           (''endpoint_id'', JStr (rx_endpoint_id (snap_expected s))),
           (''canonical_transport_locator'', JStr (rx_canonical_transport_locator (snap_expected s))),
           (''canonicalization_contract_version'', JInt (rx_canonicalization_contract_version (snap_expected s))),
           (''expected_transport_trust_revision'', JInt (rx_transport_trust_revision (snap_expected s))),
           (''provider_contract_version'', JInt (snap_provider_contract_version s)),
           (''observed_at'', JStr (stamp_text (snap_observed_at s))),
           (''completeness'', JStr (completeness_value (snap_completeness s))),
           (''mode'', JStr (mode_value (snap_mode s))),
           (''source_availability'', JStr (availability_value (snap_availability s))),
           (''acl_topology_hash_before'', hash_json (fst (snap_topology_hashes s))),
           (''acl_topology_hash_after'', hash_json (snd (snap_topology_hashes s))),
           (''permission_snapshot_hash_before'', hash_json (fst (snap_permission_hashes s))),
           (''permission_snapshot_hash_after'', hash_json (snd (snap_permission_hashes s))),
           (''permission_coverage_complete'', JBool (snap_permission_coverage_complete s)),
           (''boundary_consistent'', JBool (snap_boundary_consistent s)),
           (''covered_nodes'', JList (map JStr (snap_covered_nodes s))),
           (''failed_baseline_scopes'', JList (map JStr (snap_failed_baseline_scopes s))),
           (''detail_summary'', JObj (snap_detail_summary s)),
           (''failed_detail_scopes'', JList (map JStr (snap_failed_detail_scopes s))),
           (''source_facts'', snap_source_facts s),
           (''nodes'', JList (map node_json (snap_nodes s))),
           (''resources'', JList (map resource_json (snap_resources s)))]"

definition snapshot_hash :: "discovery_snapshot \<Rightarrow> string" where
  "snapshot_hash s = sha256_hex (json_dumps (snapshot_json s))"

section \<open>Completion evidence\<close>

definition completion_text_tuple :: "string list option \<Rightarrow> string \<Rightarrow> bool \<Rightarrow> unit result" where
  "completion_text_tuple value name node_names =
     (case value of None \<Rightarrow> Inr ()
      | Some items \<Rightarrow>
          checkE (list_all (\<lambda>i. stripped_text i \<and> (node_names \<longrightarrow> external_node_name i)) items)
            (ValueError (''completion '' @ name @ '' must contain canonical non-empty text''))
         (checkE (distinct items)
            (ValueError (''completion '' @ name @ '' must not contain duplicates'')) (Inr ())))"

definition optional_text :: "string option \<Rightarrow> string \<Rightarrow> unit result" where
  "optional_text value name = (case value of None \<Rightarrow> Inr () | Some t \<Rightarrow> snapshot_text t name)"

definition completion_evidence_check :: "completion_evidence \<Rightarrow> completion_evidence result" where
  "completion_evidence_check e =
     bindE (optional_text (map_option stamp_text (ce_observed_at e)) ''completion observed_at'') (\<lambda>_.
     bindE (completion_text_tuple (ce_covered_nodes e) ''covered_nodes'' True) (\<lambda>_.
     bindE (completion_text_tuple (ce_failed_baseline_scopes e) ''failed_baseline_scopes'' False) (\<lambda>_.
     bindE (completion_text_tuple (ce_failed_detail_scopes e) ''failed_detail_scopes'' False) (\<lambda>_.
     bindE (optional_text (fst (ce_topology_hashes e)) ''completion acl_topology_hash_before'') (\<lambda>_.
     bindE (optional_text (snd (ce_topology_hashes e)) ''completion acl_topology_hash_after'') (\<lambda>_.
     bindE (optional_text (fst (ce_permission_hashes e)) ''completion permission_snapshot_hash_before'') (\<lambda>_.
     bindE (optional_text (snd (ce_permission_hashes e)) ''completion permission_snapshot_hash_after'') (\<lambda>_.
     checkE (case ce_snapshot_hash e of None \<Rightarrow> True | Some h \<Rightarrow> is_hex_digest 64 h)
       (ValueError ''completion normalized_snapshot_hash must be canonical'')
    (checkE (case ce_detail_counts e of
               (None, None, None) \<Rightarrow> True
             | (Some a, Some b, Some c) \<Rightarrow> 0 \<le> a \<and> 0 \<le> b \<and> 0 \<le> c
             | _ \<Rightarrow> False)
       (ValueError ''completion detail counts must be jointly known nonnegative integers'')
       (Inr e))))))))))"

definition summary_count :: "discovery_snapshot \<Rightarrow> string \<Rightarrow> int option" where
  "summary_count s key = (case map_of (snap_detail_summary s) key of Some (JInt v) \<Rightarrow> Some v | _ \<Rightarrow> None)"

definition evidence_from_snapshot :: "discovery_snapshot \<Rightarrow> completion_evidence result" where
  "evidence_from_snapshot s =
     completion_evidence_check
       \<lparr>ce_completeness = snap_completeness s, ce_observed_at = Some (snap_observed_at s),
        ce_availability = Some (snap_availability s), ce_mode = Some (snap_mode s),
        ce_permission_coverage_complete = Some (snap_permission_coverage_complete s),
        ce_boundary_consistent = Some (snap_boundary_consistent s),
        ce_covered_nodes = Some (snap_covered_nodes s),
        ce_failed_baseline_scopes = Some (snap_failed_baseline_scopes s),
        ce_topology_hashes = snap_topology_hashes s, ce_permission_hashes = snap_permission_hashes s,
        ce_snapshot_hash = Some (snapshot_hash s),
        ce_detail_counts = (summary_count s ''ok_count'', summary_count s ''temporarily_unavailable_count'',
                            summary_count s ''error_count''),
        ce_failed_detail_scopes = Some (snap_failed_detail_scopes s)\<rparr>"

end
