(* ===== verification/Contract_Operations.thy ===== *)
theory Contract_Operations
  imports Authority_Body
begin

text \<open>
  The health contract of a resource (\<open>app/inventory/authority.py\<close>): declared, replaced whole, cleared,
  reset and provisioned by default, with the schema of the three tables involved. A revision is
  allocated from a counter that survives a clear.

  The foreign key of the probe rows is deferred to COMMIT. The operations below drop and fill the
  rows of one resource together, so no probe row is left without its contract
  (\<open>probes_have_contracts\<close> is an invariant of theory \<open>Catalog_System\<close>) and the deferred check never fires.
\<close>

section \<open>The tables\<close>

definition insert_revision_state :: "revision_state_row \<Rightarrow> authority_db \<Rightarrow> authority_db result" where
  "insert_revision_state r db =
     checkE (0 < rs_last_revision r \<and> rs_resource_id r \<notin> rs_resource_id ` set (revision_states db)
             \<and> rs_resource_id r \<in> res_id ` set (resources db))
       (IntegrityError ''resource_health_contract_revision_state'')
       (Inr (db\<lparr>revision_states := revision_states db @ [r]\<rparr>))"

text \<open>\<open>UPDATE ... WHERE resource_id=? AND last_revision=?\<close>, under the trigger against a reused revision.\<close>

definition update_revision_state :: "uuid \<Rightarrow> int \<Rightarrow> int \<Rightarrow> time \<Rightarrow> authority_db \<Rightarrow> authority_db result" where
  "update_revision_state i old new t db =
     (let w = (\<lambda>r. rs_resource_id r = i \<and> rs_last_revision r = old) in
      checkE (list_all (\<lambda>r. w r \<longrightarrow> rs_last_revision r < new \<and> 0 < new) (revision_states db))
        (IntegrityError ''resource_health_contract_revision_state'')
        (Inr (db\<lparr>revision_states := rows_update w (\<lambda>r. r\<lparr>rs_last_revision := new, rs_updated_at := t\<rparr>) (revision_states db)\<rparr>)))"

definition insert_contract :: "contract_row \<Rightarrow> authority_db \<Rightarrow> authority_db result" where
  "insert_contract c db =
     checkE (0 < cr_revision c \<and> length (cr_fingerprint c) = 64
             \<and> MIN_HEALTH_PROBES \<le> cr_probe_count c \<and> cr_probe_count c \<le> MAX_HEALTH_PROBES
             \<and> cr_resource_id c \<notin> cr_resource_id ` set (contracts db)
             \<and> cr_resource_id c \<in> res_id ` set (resources db)
             \<and> map_option rs_last_revision (row_by rs_resource_id (cr_resource_id c) (revision_states db)) = Some (cr_revision c))
       (IntegrityError ''resource_health_contracts'') (Inr (db\<lparr>contracts := contracts db @ [c]\<rparr>))"

text \<open>\<open>DELETE ... WHERE resource_id=? AND revision=?\<close> and its \<open>rowcount\<close>.\<close>

definition delete_contract :: "uuid \<Rightarrow> int \<Rightarrow> authority_db \<Rightarrow> nat \<times> authority_db" where
  "delete_contract i revision db =
     (let w = (\<lambda>c. cr_resource_id c = i \<and> cr_revision c = revision) in
      (rows_matched w (contracts db), db\<lparr>contracts := filter (\<lambda>c. \<not> w c) (contracts db)\<rparr>))"

definition delete_contract_probes :: "uuid \<Rightarrow> authority_db \<Rightarrow> authority_db result" where
  "delete_contract_probes i db =
     checkE (\<not> (i \<in> cp_resource_id ` set (contract_probes db) \<and> i \<in> cr_resource_id ` set (contracts db)))
       (IntegrityError ''resource_health_contract_probes'')
       (Inr (db\<lparr>contract_probes := filter (\<lambda>r. cp_resource_id r \<noteq> i) (contract_probes db)\<rparr>))"

definition insert_contract_probe :: "contract_probe_row \<Rightarrow> authority_db \<Rightarrow> authority_db result" where
  "insert_contract_probe r db =
     (let own = filter (\<lambda>x. cp_resource_id x = cp_resource_id r) (contract_probes db);
          p = cp_probe r in
      checkE (cp_index r < MAX_HEALTH_PROBES \<and> probe_target_check (probe_kind p) (probe_target p)
              \<and> cp_index r \<notin> cp_index ` set own
              \<and> (probe_kind p, probe_target p) \<notin> (\<lambda>x. (probe_kind (cp_probe x), probe_target (cp_probe x))) ` set own
              \<and> cp_index r = length own
              \<and> (case row_by cr_resource_id (cp_resource_id r) (contracts db) of
                   None \<Rightarrow> False
                 | Some c \<Rightarrow> cp_index r < cr_probe_count c \<and> (probe_kind p = GUEST_OPERATIONAL \<longrightarrow> cr_probe_count c = 1)))
        (IntegrityError ''resource_health_contract_probes'')
        (Inr (db\<lparr>contract_probes := contract_probes db @ [r]\<rparr>)))"

definition contract_probe_rows :: "uuid \<Rightarrow> health_probe list \<Rightarrow> contract_probe_row list" where
  "contract_probe_rows i probes =
     map (\<lambda>(n, p). \<lparr>cp_resource_id = i, cp_index = n, cp_probe = p\<rparr>) (enumerate 0 probes)"

section \<open>Operations\<close>

definition allocate_health_contract_revision :: "uuid \<Rightarrow> time \<Rightarrow> int body" where
  "allocate_health_contract_revision i t =
     seq (fetch (\<lambda>db. Inr (row_by rs_resource_id i (revision_states db)))) (\<lambda>row.
     case row of
       None \<Rightarrow>
         andthen (commit (insert_revision_state \<lparr>rs_resource_id = i, rs_last_revision = 1, rs_updated_at = t\<rparr>)) (ret 1)
     | Some r \<Rightarrow>
         andthen (commit (update_revision_state i (rs_last_revision r) (rs_last_revision r + 1) t))
           (ret (rs_last_revision r + 1)))"

definition require_current_health_contract_resource :: "uuid \<Rightarrow> unit body" where
  "require_current_health_contract_resource i =
     seq (fetch (\<lambda>db. require_package_scan_target db i)) (\<lambda>target.
     need (res_type (tg_resource target) = ''lxc'')
       (AuthorityConflict ''resource health contracts support LXC resources only'') (ret ()))"

definition require_expected_health_contract_revision :: "health_contract option \<Rightarrow> int option \<Rightarrow> unit result" where
  "require_expected_health_contract_revision existing expected =
     (case expected of
        None \<Rightarrow> Inr ()
      | Some e \<Rightarrow>
          checkE (e = (case existing of None \<Rightarrow> 0 | Some c \<Rightarrow> hc_revision c))
            (HealthContractRevisionConflict ''resource health contract revision does not match the expected revision'')
            (Inr ()))"

definition check_expected_revision :: "int option \<Rightarrow> unit result" where
  "check_expected_revision expected =
     (case expected of
        None \<Rightarrow> Inr ()
      | Some e \<Rightarrow> checkE (0 \<le> e) (ValueError ''expected_revision must be a non-negative integer'') (Inr ()))"

definition resource_health_contract :: "uuid \<Rightarrow> authority_db \<Rightarrow> authority_db \<times> health_contract option result" where
  "resource_health_contract i =
     run_op (require_uuid i ''resource_id'')
       (\<lambda>r. andthen (require_current_health_contract_resource r) (fetch (\<lambda>db. resource_health_contract_of db r)))
       (\<lambda>_ c _. Inr c)"

text \<open>Dropping the live contract of a resource, in the order the triggers ask for.\<close>

definition drop_contract :: "uuid \<Rightarrow> health_contract option \<Rightarrow> string \<Rightarrow> unit body" where
  "drop_contract i existing changed =
     andthen
       (case existing of
          None \<Rightarrow> ret ()
        | Some c \<Rightarrow> commit (\<lambda>db. case delete_contract i (hc_revision c) db of
            (n, db') \<Rightarrow> checkE (n = 1) (HealthContractRevisionConflict changed) (Inr db')))
       (commit (delete_contract_probes i))"

definition write_contract :: "uuid \<Rightarrow> int \<Rightarrow> string \<Rightarrow> time \<Rightarrow> time \<Rightarrow> health_probe list \<Rightarrow> unit body" where
  "write_contract i revision fingerprint created updated probes =
     andthen (commit (insert_contract
        \<lparr>cr_resource_id = i, cr_revision = revision, cr_fingerprint = fingerprint,
         cr_probe_count = length probes, cr_created_at = created, cr_updated_at = updated\<rparr>))
       (commit (executemany insert_contract_probe (contract_probe_rows i probes)))"

text \<open>A changed contract: a new revision, the old rows dropped, the new rows filled in.\<close>

definition declare_contract ::
    "clock \<Rightarrow> uuid \<times> health_probe list \<times> string \<Rightarrow> health_contract option \<Rightarrow> health_contract body" where
  "declare_contract now = (\<lambda>(i, probes, fingerprint) existing.
     seq (allocate_health_contract_revision i (now 0)) (\<lambda>revision.
     let created = (case existing of None \<Rightarrow> now 0 | Some c \<Rightarrow> hc_created_at c) in
     andthen (drop_contract i existing ''resource health contract changed during replacement'')
    (andthen (write_contract i revision fingerprint created (now 0) probes)
    (andthen (publish (now 1))
     (ret \<lparr>hc_resource_id = i, hc_revision = revision, hc_fingerprint = fingerprint,
           hc_created_at = created, hc_updated_at = now 0, hc_probes = probes\<rparr>)))))"

definition replace_contract_body ::
    "clock \<Rightarrow> int option \<Rightarrow> uuid \<times> health_probe list \<times> string \<Rightarrow> health_contract body" where
  "replace_contract_body now expected = (\<lambda>(i, probes, fingerprint).
     andthen (require_current_health_contract_resource i)
    (seq (fetch (\<lambda>db. resource_health_contract_of db i)) (\<lambda>existing.
     andthen (pure (require_expected_health_contract_revision existing expected))
    (if map_option hc_fingerprint existing = Some fingerprint then ret (the existing)
     else declare_contract now (i, probes, fingerprint) existing))))"

text \<open>The arguments before the transaction: the canonical probes and their fingerprint.\<close>

definition contract_args :: "uuid \<Rightarrow> health_probe list \<Rightarrow> int option \<Rightarrow> (uuid \<times> health_probe list \<times> string) result" where
  "contract_args i probes expected =
     bindE (require_uuid i ''resource_id'') (\<lambda>i.
     bindE (canonical_health_probes probes) (\<lambda>canonical.
     bindE (health_contract_fingerprint canonical) (\<lambda>fingerprint.
     bindE (check_expected_revision expected) (\<lambda>_. Inr (i, canonical, fingerprint)))))"

definition replace_resource_health_contract ::
    "clock \<Rightarrow> uuid \<Rightarrow> health_probe list \<Rightarrow> int option \<Rightarrow> authority_db \<Rightarrow> authority_db \<times> health_contract result" where
  "replace_resource_health_contract now i probes expected =
     run_op (contract_args i probes expected) (replace_contract_body now expected) (\<lambda>_ c _. Inr c)"

definition reset_resource_health_contract ::
    "clock \<Rightarrow> uuid \<Rightarrow> int option \<Rightarrow> authority_db \<Rightarrow> authority_db \<times> health_contract result" where
  "reset_resource_health_contract now i expected =
     replace_resource_health_contract now i DEFAULT_HEALTH_PROBES expected"

definition clear_contract_body :: "clock \<Rightarrow> int option \<Rightarrow> uuid \<Rightarrow> bool body" where
  "clear_contract_body now expected i =
     andthen (require_current_health_contract_resource i)
    (seq (fetch (\<lambda>db. resource_health_contract_of db i)) (\<lambda>existing.
     andthen (pure (require_expected_health_contract_revision existing expected))
    (if existing = None then ret False
     else
       andthen (drop_contract i existing ''resource health contract changed during clearing'')
      (andthen (publish (now 0)) (ret True)))))"

definition clear_resource_health_contract ::
    "clock \<Rightarrow> uuid \<Rightarrow> int option \<Rightarrow> authority_db \<Rightarrow> authority_db \<times> bool result" where
  "clear_resource_health_contract now i expected =
     run_op (bindE (require_uuid i ''resource_id'') (\<lambda>i. bindE (check_expected_revision expected) (\<lambda>_. Inr i)))
       (clear_contract_body now expected) (\<lambda>_ b _. Inr b)"

section \<open>Default contracts\<close>

definition DEFAULT_HEALTH_CONTRACT_FINGERPRINT :: string where
  "DEFAULT_HEALTH_CONTRACT_FINGERPRINT = sha256_hex (json_dumps (contract_payload DEFAULT_HEALTH_PROBES))"

text \<open>Present, active LXC resources with a current binding and node but no contract, by id.\<close>

definition unprovisioned_resources :: "authority_db \<Rightarrow> uuid list" where
  "unprovisioned_resources db =
     sort (map res_id (filter (\<lambda>r. res_type r = ''lxc'' \<and> res_presence r = ''present'' \<and> res_lifecycle r = ''active''
         \<and> res_current_node_id r \<noteq> None
         \<and> list_ex (\<lambda>b. bind_resource_id b = res_id r \<and> bind_valid_to b = None) (bindings db)
         \<and> res_id r \<notin> cr_resource_id ` set (contracts db)) (resources db)))"

fun provision_contracts :: "time \<Rightarrow> uuid list \<Rightarrow> unit body" where
  "provision_contracts t [] = ret ()"
| "provision_contracts t (i # is) =
     seq (allocate_health_contract_revision i t) (\<lambda>revision.
     andthen (write_contract i revision DEFAULT_HEALTH_CONTRACT_FINGERPRINT t t DEFAULT_HEALTH_PROBES)
       (provision_contracts t is))"

definition provision_default_health_contracts :: "time \<Rightarrow> nat body" where
  "provision_default_health_contracts t =
     seq (fetch (\<lambda>db. Inr (unprovisioned_resources db))) (\<lambda>rows.
     andthen (provision_contracts t rows) (ret (length rows)))"

end
