(* ===== verification/Discovery_Store.thy ===== *)
theory Discovery_Store
  imports Discovery_Models Contract_Operations
begin

text \<open>
  The tables of the discovery lifecycle in \<open>app/inventory/store.py\<close>: sources, endpoints, source health,
  discovery runs, nodes, resources, locator bindings, terminations and canonicalization migrations,
  with the CHECK constraints, unique indexes, foreign keys and triggers of each write. A CHECK fails
  only on a false value, so a comparison with NULL (\<open>null_or\<close>) lets a row pass.

  Two columns of \<open>resource_incarnations\<close> hold one constant each (\<open>security_continuity\<close>,
  \<open>state_level\<close>) and are left out. The two deferred foreign keys to a successor resource are checked
  at COMMIT; the reconciler inserts the successor in the statement that follows.
\<close>

section \<open>Sources and endpoints\<close>

definition source_checks :: "inventory_source \<Rightarrow> bool" where
  "source_checks s \<longleftrightarrow>
     sql_nonblank (src_provider_kind s) \<and> sql_nonblank (src_display_name s)
     \<and> sql_nonblank (src_credential_reference s)
     \<and> 0 < src_config_revision s \<and> 0 \<le> src_last_issued_run_sequence s
     \<and> null_or (\<lambda>n. 0 < n) (src_last_committed_run_sequence s)
     \<and> 0 < src_provider_contract_version s \<and> 0 < src_freshness_duration_seconds s"

definition insert_source :: "inventory_source \<Rightarrow> authority_db \<Rightarrow> authority_db result" where
  "insert_source s db =
     checkE (source_checks s \<and> src_id s \<notin> src_id ` set (sources db)
             \<and> null_or (\<lambda>i. \<exists>r \<in> set (discovery_runs db). run_id (run_iss r) = i) (src_active_discovery_run_id s))
       (IntegrityError ''inventory_sources'')
       (Inr (db\<lparr>sources := sources db @ [s]\<rparr>))"

definition nonterminal_run :: "discovery_run \<Rightarrow> bool" where
  "nonterminal_run r \<longleftrightarrow> run_lifecycle r \<in> {RUN_ISSUED, RUN_RUNNING}"

text \<open>The triggers of an UPDATE of a source row, and its CHECK constraints.\<close>

definition source_update_triggers :: "authority_db \<Rightarrow> inventory_source \<Rightarrow> inventory_source \<Rightarrow> bool" where
  "source_update_triggers db old new \<longleftrightarrow>
     src_id new = src_id old \<and> src_provider_kind new = src_provider_kind old
     \<and> src_created_at new = src_created_at old
     \<and> (src_active_discovery_run_id new \<noteq> src_active_discovery_run_id old \<longrightarrow>
          null_or (\<lambda>i. list_ex (\<lambda>r. run_id (run_iss r) = i \<and> run_source_id (run_iss r) = src_id new
                                     \<and> nonterminal_run r) (discovery_runs db))
            (src_active_discovery_run_id new))"

definition update_sources ::
    "(inventory_source \<Rightarrow> bool) \<Rightarrow> (inventory_source \<Rightarrow> inventory_source) \<Rightarrow> authority_db
      \<Rightarrow> (nat \<times> authority_db) result" where
  "update_sources w s db =
     checkE (list_all (\<lambda>x. w x \<longrightarrow> source_update_triggers db x (s x) \<and> source_checks (s x)) (sources db))
       (IntegrityError ''inventory_sources'')
       (Inr (rows_matched w (sources db), db\<lparr>sources := rows_update w s (sources db)\<rparr>))"

definition endpoint_checks :: "source_endpoint \<Rightarrow> bool" where
  "endpoint_checks e \<longleftrightarrow> 0 < ep_canonicalization_contract_version e \<and> 0 < ep_transport_trust_revision e"

definition endpoint_indexes :: "source_endpoint list \<Rightarrow> bool" where
  "endpoint_indexes es \<longleftrightarrow>
     distinct (map ep_id es)
     \<and> distinct (map (\<lambda>e. (ep_source_id e, ep_canonical_transport_locator e)) es)
     \<and> distinct (map ep_source_id (filter (\<lambda>e. ep_lifecycle e = EP_ACTIVE) es))"

definition insert_endpoint :: "source_endpoint \<Rightarrow> authority_db \<Rightarrow> authority_db result" where
  "insert_endpoint e db =
     checkE (endpoint_checks e \<and> ep_source_id e \<in> src_id ` set (sources db) \<and> endpoint_indexes (endpoints db @ [e]))
       (IntegrityError ''source_endpoints'')
       (Inr (db\<lparr>endpoints := endpoints db @ [e]\<rparr>))"

text \<open>
  \<open>source_endpoint_canonical_pair_migration_only\<close>: the canonical pair changes only under a recorded
  migration from the old pair to the new one.
\<close>

definition migration_recorded :: "authority_db \<Rightarrow> source_endpoint \<Rightarrow> source_endpoint \<Rightarrow> bool" where
  "migration_recorded db old new \<longleftrightarrow>
     list_ex (\<lambda>m. mig_source_id m = ep_source_id old \<and> mig_endpoint_id m = ep_id old
        \<and> mig_old_version m = ep_canonicalization_contract_version old
        \<and> mig_old_locator m = ep_canonical_transport_locator old
        \<and> mig_new_version m = ep_canonicalization_contract_version new
        \<and> mig_new_locator m = ep_canonical_transport_locator new) (migrations db)"

definition endpoint_update_triggers :: "authority_db \<Rightarrow> source_endpoint \<Rightarrow> source_endpoint \<Rightarrow> bool" where
  "endpoint_update_triggers db old new \<longleftrightarrow>
     ep_id new = ep_id old \<and> ep_source_id new = ep_source_id old \<and> ep_created_at new = ep_created_at old
     \<and> ((ep_canonical_transport_locator new, ep_canonicalization_contract_version new)
          \<noteq> (ep_canonical_transport_locator old, ep_canonicalization_contract_version old)
        \<longrightarrow> migration_recorded db old new)"

definition update_endpoint ::
    "uuid \<Rightarrow> (source_endpoint \<Rightarrow> source_endpoint) \<Rightarrow> authority_db \<Rightarrow> authority_db result" where
  "update_endpoint i s db =
     (let es = rows_update (\<lambda>e. ep_id e = i) s (endpoints db) in
      checkE (list_all (\<lambda>e. ep_id e = i \<longrightarrow> endpoint_update_triggers db e (s e) \<and> endpoint_checks (s e)) (endpoints db)
              \<and> endpoint_indexes es)
        (IntegrityError ''source_endpoints'') (Inr (db\<lparr>endpoints := es\<rparr>)))"

definition insert_migration :: "migration \<Rightarrow> authority_db \<Rightarrow> authority_db result" where
  "insert_migration m db =
     checkE ((mig_id m, mig_endpoint_id m) \<notin> (\<lambda>x. (mig_id x, mig_endpoint_id x)) ` set (migrations db)
             \<and> (mig_source_id m, mig_endpoint_id m) \<in> (\<lambda>e. (ep_source_id e, ep_id e)) ` set (endpoints db))
       (IntegrityError ''canonicalization_migrations'')
       (Inr (db\<lparr>migrations := migrations db @ [m]\<rparr>))"

section \<open>Source health\<close>

definition committed_columns_null :: "source_runtime_health \<Rightarrow> bool" where
  "committed_columns_null h \<longleftrightarrow>
     sh_committed_source_config_revision h = None \<and> sh_committed_endpoint_id h = None
     \<and> sh_committed_canonical_transport_locator h = None
     \<and> sh_committed_canonicalization_contract_version h = None
     \<and> sh_committed_transport_trust_revision h = None"

definition health_row_checks :: "source_runtime_health \<Rightarrow> bool" where
  "health_row_checks h \<longleftrightarrow>
     (sh_latest_completed_run_sequence h = None) = (sh_latest_completed_outcome h = None)
     \<and> (sh_last_health_run_sequence h = None) = (sh_last_run_health_outcome h = None)
     \<and> (sh_origin h = INITIAL_ORIGIN \<longrightarrow>
          sh_health h = HEALTH_NOT_YET_OBSERVED \<and> sh_freshness h = FRESHNESS_NOT_YET_OBSERVED
          \<and> sh_latest_completed_run_sequence h = None \<and> sh_last_health_run_sequence h = None
          \<and> sh_last_successful_observed_at h = None \<and> sh_freshness_reference_at h = None
          \<and> sh_freshness_valid_until h = None \<and> committed_columns_null h)
     \<and> (committed_columns_null h \<or>
          null_or (\<lambda>n. 0 < n) (sh_committed_source_config_revision h) \<and> sh_committed_endpoint_id h \<noteq> None
          \<and> sh_committed_canonical_transport_locator h \<noteq> None
          \<and> null_or (\<lambda>n. 0 < n) (sh_committed_canonicalization_contract_version h)
          \<and> null_or (\<lambda>n. 0 < n) (sh_committed_transport_trust_revision h))"

definition health_foreign_keys :: "authority_db \<Rightarrow> source_runtime_health \<Rightarrow> bool" where
  "health_foreign_keys db h \<longleftrightarrow>
     sh_source_id h \<in> src_id ` set (sources db)
     \<and> null_or (\<lambda>e. (sh_source_id h, e) \<in> (\<lambda>x. (ep_source_id x, ep_id x)) ` set (endpoints db)) (sh_committed_endpoint_id h)"

definition insert_source_health :: "source_runtime_health \<Rightarrow> authority_db \<Rightarrow> authority_db result" where
  "insert_source_health h db =
     checkE (health_row_checks h \<and> health_foreign_keys db h \<and> sh_source_id h \<notin> sh_source_id ` set (source_healths db))
       (IntegrityError ''source_runtime_health'')
       (Inr (db\<lparr>source_healths := source_healths db @ [h]\<rparr>))"

text \<open>\<open>UPDATE source_runtime_health SET ... WHERE inventory_source_id=? [AND ...]\<close>.\<close>

definition update_source_health ::
    "(source_runtime_health \<Rightarrow> bool) \<Rightarrow> (source_runtime_health \<Rightarrow> source_runtime_health) \<Rightarrow> authority_db
      \<Rightarrow> authority_db result" where
  "update_source_health w s db =
     checkE (list_all (\<lambda>h. w h \<longrightarrow> health_row_checks (s h) \<and> health_foreign_keys db (s h)) (source_healths db))
       (IntegrityError ''source_runtime_health'')
       (Inr (db\<lparr>source_healths := rows_update w s (source_healths db)\<rparr>))"

section \<open>Discovery runs\<close>

definition context_positive :: "run_context \<Rightarrow> bool" where
  "context_positive c \<longleftrightarrow> 0 < rx_source_config_revision c \<and> 0 < rx_canonicalization_contract_version c
     \<and> 0 < rx_transport_trust_revision c"

definition evidence_counts_check :: "completion_evidence \<Rightarrow> bool" where
  "evidence_counts_check e \<longleftrightarrow> (case ce_detail_counts e of
       (None, None, None) \<Rightarrow> True
     | (Some a, Some b, Some c) \<Rightarrow> 0 \<le> a \<and> 0 \<le> b \<and> 0 \<le> c
     | _ \<Rightarrow> False)"

text \<open>The CHECK on a run whose provider outcome is success.\<close>

definition success_evidence_check :: "discovery_run \<Rightarrow> completion_evidence \<Rightarrow> bool" where
  "success_evidence_check r e \<longleftrightarrow>
     run_terminal_reason r = None \<and> ce_completeness e = BASE_COMPLETE
     \<and> null_or (\<lambda>a. a = SOURCE_AVAILABLE) (ce_availability e) \<and> ce_mode e \<noteq> None
     \<and> null_or (\<lambda>b. b) (ce_permission_coverage_complete e) \<and> null_or (\<lambda>b. b) (ce_boundary_consistent e)
     \<and> ce_covered_nodes e \<noteq> None \<and> ce_covered_nodes e \<noteq> Some []
     \<and> null_or (\<lambda>l. l = []) (ce_failed_baseline_scopes e)
     \<and> fst (ce_topology_hashes e) \<noteq> None \<and> snd (ce_topology_hashes e) \<noteq> None
     \<and> fst (ce_permission_hashes e) \<noteq> None \<and> snd (ce_permission_hashes e) \<noteq> None
     \<and> ce_snapshot_hash e \<noteq> None \<and> fst (ce_detail_counts e) \<noteq> None
     \<and> ce_failed_detail_scopes e \<noteq> None \<and> run_completion_context r \<noteq> None"

definition run_lifecycle_checks :: "discovery_run \<Rightarrow> bool" where
  "run_lifecycle_checks r \<longleftrightarrow> (case run_lifecycle r of
       RUN_COMPLETED \<Rightarrow> run_terminalized_at r \<noteq> None \<and> run_completed_at r \<noteq> None
     | RUN_ABANDONED \<Rightarrow> run_terminalized_at r \<noteq> None \<and> null_or sql_nonblank (run_terminal_reason r)
         \<and> run_completed_at r = None \<and> run_provider_outcome r = None
     | _ \<Rightarrow> run_terminalized_at r = None \<and> run_terminal_reason r = None
         \<and> run_completed_at r = None \<and> run_provider_outcome r = None)"

definition run_checks :: "discovery_run \<Rightarrow> bool" where
  "run_checks r \<longleftrightarrow>
     0 < run_sequence (run_iss r) \<and> context_positive (run_expected (run_iss r))
     \<and> 0 < run_provider_contract_version (run_iss r)
     \<and> run_lifecycle_checks r
     \<and> (run_evidence r \<noteq> None) = (run_lifecycle r = RUN_COMPLETED)
     \<and> (run_lifecycle r \<noteq> RUN_COMPLETED \<longrightarrow> run_completion_context r = None)
     \<and> null_or evidence_counts_check (run_evidence r)
     \<and> null_or (\<lambda>c. context_positive c \<and> sql_nonblank (rx_endpoint_id c)
                  \<and> sql_nonblank (rx_canonical_transport_locator c)) (run_completion_context r)
     \<and> (run_lifecycle r = RUN_COMPLETED \<longrightarrow>
          null_or (\<lambda>out. out = RUN_SUCCESS \<or> null_or sql_nonblank (run_terminal_reason r)) (run_provider_outcome r))
     \<and> (run_provider_outcome r = Some RUN_SUCCESS \<longrightarrow> null_or (success_evidence_check r) (run_evidence r))"

lemmas run_checks_defs = run_checks_def run_lifecycle_checks_def

definition run_indexes :: "discovery_run list \<Rightarrow> bool" where
  "run_indexes rs \<longleftrightarrow>
     distinct (map (\<lambda>r. run_id (run_iss r)) rs)
     \<and> distinct (map (\<lambda>r. (run_source_id (run_iss r), run_sequence (run_iss r))) rs)"

definition insert_discovery_run :: "discovery_run \<Rightarrow> authority_db \<Rightarrow> authority_db result" where
  "insert_discovery_run r db =
     checkE (run_checks r \<and> run_source_id (run_iss r) \<in> src_id ` set (sources db)
             \<and> (run_source_id (run_iss r), rx_endpoint_id (run_expected (run_iss r)))
                 \<in> (\<lambda>e. (ep_source_id e, ep_id e)) ` set (endpoints db)
             \<and> run_indexes (discovery_runs db @ [r]))
       (IntegrityError ''discovery_runs'')
       (Inr (db\<lparr>discovery_runs := discovery_runs db @ [r]\<rparr>))"

text \<open>
  Issuance is immutable, a terminal run never changes, and a run may become terminal only after its
  source released it.
\<close>

definition run_update_triggers :: "authority_db \<Rightarrow> discovery_run \<Rightarrow> discovery_run \<Rightarrow> bool" where
  "run_update_triggers db old new \<longleftrightarrow>
     run_iss new = run_iss old \<and> nonterminal_run old
     \<and> (\<not> nonterminal_run new \<longrightarrow>
          \<not> list_ex (\<lambda>s. src_active_discovery_run_id s = Some (run_id (run_iss old))) (sources db))"

definition update_discovery_runs ::
    "(discovery_run \<Rightarrow> bool) \<Rightarrow> (discovery_run \<Rightarrow> discovery_run) \<Rightarrow> authority_db \<Rightarrow> (nat \<times> authority_db) result" where
  "update_discovery_runs w s db =
     checkE (list_all (\<lambda>r. w r \<longrightarrow> run_update_triggers db r (s r) \<and> run_checks (s r)) (discovery_runs db))
       (IntegrityError ''discovery_runs'')
       (Inr (rows_matched w (discovery_runs db), db\<lparr>discovery_runs := rows_update w s (discovery_runs db)\<rparr>))"

section \<open>Nodes, resources and bindings\<close>

text \<open>\<open>INSERT INTO inventory_nodes ... ON CONFLICT(inventory_source_id, external_node_name) DO UPDATE\<close>.\<close>

definition upsert_node :: "inventory_node \<Rightarrow> authority_db \<Rightarrow> authority_db result" where
  "upsert_node n db =
     (let same = (\<lambda>x. node_source_id x = node_source_id n \<and> node_external_name x = node_external_name n) in
      if list_ex same (nodes db)
      then Inr (db\<lparr>nodes := rows_update same (\<lambda>x. x\<lparr>node_status := node_status n, node_available := node_available n,
                 node_facts := node_facts n, node_updated_at := node_updated_at n\<rparr>) (nodes db)\<rparr>)
      else checkE (node_id n \<notin> node_id ` set (nodes db) \<and> node_source_id n \<in> src_id ` set (sources db))
             (IntegrityError ''inventory_nodes'') (Inr (db\<lparr>nodes := nodes db @ [n]\<rparr>)))"

definition mark_nodes_unavailable :: "uuid \<Rightarrow> string list \<Rightarrow> time \<Rightarrow> authority_db \<Rightarrow> authority_db" where
  "mark_nodes_unavailable source names t db =
     db\<lparr>nodes := rows_update (\<lambda>n. node_source_id n = source \<and> node_external_name n \<in> set names)
          (\<lambda>n. n\<lparr>node_status := ''unavailable'', node_available := False, node_updated_at := t\<rparr>) (nodes db)\<rparr>"

definition resource_checks :: "resource_incarnation \<Rightarrow> bool" where
  "resource_checks r \<longleftrightarrow>
     res_type r \<in> {''qemu'', ''lxc''} \<and> 0 < res_vmid r \<and> 0 < res_continuity_revision r
     \<and> res_presence r \<in> {''present'', ''missing'', ''not_current''}
     \<and> res_lifecycle r \<in> {''active'', ''quarantined'', ''retired''}
     \<and> res_observational_continuity r \<in> {''consistent'', ''uncertain'', ''replaced''}
     \<and> res_detail_status r \<in> {''ok'', ''temporarily_unavailable'', ''error'', ''not_applicable''}
     \<and> res_node_availability r \<in> {''available'', ''unavailable'', ''unresolved'', ''not_applicable''}
     \<and> (if res_presence r = ''present''
         then res_detail_status r \<noteq> ''not_applicable'' \<and> res_node_availability r \<noteq> ''not_applicable''
         else res_detail_status r = ''not_applicable'' \<and> res_node_availability r = ''not_applicable'')"

definition resource_foreign_keys :: "authority_db \<Rightarrow> resource_incarnation \<Rightarrow> bool" where
  "resource_foreign_keys db r \<longleftrightarrow>
     res_source_id r \<in> src_id ` set (sources db)
     \<and> null_or (\<lambda>n. (res_source_id r, n) \<in> (\<lambda>x. (node_source_id x, node_id x)) ` set (nodes db)) (res_current_node_id r)
     \<and> null_or (\<lambda>n. (res_source_id r, n) \<in> (\<lambda>x. (node_source_id x, node_id x)) ` set (nodes db)) (res_last_known_node_id r)"

definition insert_resource :: "resource_incarnation \<Rightarrow> authority_db \<Rightarrow> authority_db result" where
  "insert_resource r db =
     checkE (resource_checks r \<and> resource_foreign_keys db r \<and> res_id r \<notin> res_id ` set (resources db))
       (IntegrityError ''resource_incarnations'')
       (Inr (db\<lparr>resources := resources db @ [r]\<rparr>))"

definition resource_identity_kept :: "resource_incarnation \<Rightarrow> resource_incarnation \<Rightarrow> bool" where
  "resource_identity_kept old new \<longleftrightarrow>
     res_id new = res_id old \<and> res_source_id new = res_source_id old \<and> res_type new = res_type old
     \<and> res_vmid new = res_vmid old \<and> res_created_at new = res_created_at old"

definition update_resource ::
    "uuid \<Rightarrow> (resource_incarnation \<Rightarrow> resource_incarnation) \<Rightarrow> authority_db \<Rightarrow> authority_db result" where
  "update_resource i s db =
     checkE (list_all (\<lambda>r. res_id r = i \<longrightarrow>
               resource_identity_kept r (s r) \<and> resource_checks (s r) \<and> resource_foreign_keys db (s r)) (resources db))
       (IntegrityError ''resource_incarnations'')
       (Inr (db\<lparr>resources := rows_update (\<lambda>r. res_id r = i) s (resources db)\<rparr>))"

definition binding_checks :: "locator_binding \<Rightarrow> bool" where
  "binding_checks b \<longleftrightarrow>
     0 < bind_vmid b \<and> 0 < bind_generation b \<and> 0 < bind_valid_from b
     \<and> (case bind_valid_to b of
          None \<Rightarrow> bind_closure_reason b = None
        | Some t \<Rightarrow> bind_valid_from b \<le> t \<and> null_or sql_nonblank (bind_closure_reason b))"

definition open_bindings :: "locator_binding list \<Rightarrow> locator_binding list" where
  "open_bindings bs = filter (\<lambda>b. bind_valid_to b = None) bs"

definition binding_indexes :: "locator_binding list \<Rightarrow> bool" where
  "binding_indexes bs \<longleftrightarrow>
     distinct (map bind_id bs)
     \<and> distinct (map (\<lambda>b. (bind_source_id b, bind_vmid b, bind_generation b)) bs)
     \<and> distinct (map (\<lambda>b. (bind_source_id b, bind_vmid b)) (open_bindings bs))
     \<and> distinct (map bind_resource_id (open_bindings bs))"

definition insert_binding :: "locator_binding \<Rightarrow> authority_db \<Rightarrow> authority_db result" where
  "insert_binding b db =
     checkE (binding_checks b
             \<and> (bind_source_id b, bind_resource_id b) \<in> (\<lambda>r. (res_source_id r, res_id r)) ` set (resources db)
             \<and> binding_indexes (bindings db @ [b]))
       (IntegrityError ''resource_locator_bindings'')
       (Inr (db\<lparr>bindings := bindings db @ [b]\<rparr>))"

text \<open>\<open>UPDATE ... SET valid_to_run_sequence=?, closure_reason=? WHERE binding_id=? AND valid_to_run_sequence IS NULL\<close>.\<close>

definition close_binding :: "uuid \<Rightarrow> int \<Rightarrow> string \<Rightarrow> authority_db \<Rightarrow> authority_db result" where
  "close_binding i sequence reason db =
     (let w = (\<lambda>b. bind_id b = i \<and> bind_valid_to b = None);
          s = (\<lambda>b. b\<lparr>bind_valid_to := Some sequence, bind_closure_reason := Some reason\<rparr>) in
      checkE (list_all (\<lambda>b. w b \<longrightarrow> binding_checks (s b)) (bindings db))
        (IntegrityError ''resource_locator_bindings'')
        (Inr (db\<lparr>bindings := rows_update w s (bindings db)\<rparr>)))"

definition insert_termination :: "resource_termination \<Rightarrow> authority_db \<Rightarrow> authority_db result" where
  "insert_termination x db =
     checkE (0 < term_run_sequence x \<and> term_resource_id x \<notin> term_resource_id ` set (terminations db)
             \<and> term_resource_id x \<in> res_id ` set (resources db)
             \<and> term_binding_id x \<in> bind_id ` set (bindings db)
             \<and> term_successor_id x \<in> res_id ` set (resources db))
       (IntegrityError ''resource_terminations'')
       (Inr (db\<lparr>terminations := terminations db @ [x]\<rparr>))"

end
