(* ===== verification/Reconciliation.thy ===== *)
theory Reconciliation
  imports Discovery_Store "HOL-Library.AList"
begin

text \<open>
  \<open>InventoryReconciler\<close> (\<open>app/inventory/reconciliation.py\<close>): one complete snapshot applied to the nodes,
  resources and locator bindings of its source, inside the caller's transaction.

  Each node name and each VMID of a snapshot draws at most one UUID of a kind, so the drawn UUIDs are
  functions of the name and of the VMID; their values are arbitrary.
\<close>

record reconciliation_summary =
  created_resources :: nat
  updated_resources :: nat
  missing_resources :: nat
  replacements :: nat

record reconcile_uuids =
  fresh_node :: "string \<Rightarrow> uuid"
  fresh_resource :: "int \<Rightarrow> uuid"
  fresh_binding :: "int \<Rightarrow> uuid"

text \<open>A dict filled row by row: the position of the first, the value of the last row of a key.\<close>

definition py_dict :: "('k \<times> 'v) list \<Rightarrow> ('k \<times> 'v) list" where
  "py_dict rows = foldl (\<lambda>d (k, v). AList.update k v d) [] rows"

text \<open>\<open>a or b\<close> on optional text.\<close>

definition or_text :: "string option \<Rightarrow> string option \<Rightarrow> string option" where
  "or_text a b = (if truthy a then a else b)"

section \<open>Nodes\<close>

definition existing_nodes :: "authority_db \<Rightarrow> uuid \<Rightarrow> (string \<times> uuid) list" where
  "existing_nodes db source =
     py_dict (map (\<lambda>n. (node_external_name n, node_id n)) (filter (\<lambda>n. node_source_id n = source) (nodes db)))"

definition chosen_node_id :: "reconcile_uuids \<Rightarrow> (string \<times> uuid) list \<Rightarrow> string \<Rightarrow> uuid" where
  "chosen_node_id u existing name = the (or_text (map_of existing name) (Some (fresh_node u name)))"

definition node_row ::
    "reconcile_uuids \<Rightarrow> uuid \<Rightarrow> time \<Rightarrow> (string \<times> uuid) list \<Rightarrow> discovered_node \<Rightarrow> inventory_node" where
  "node_row u source t existing n =
     \<lparr>node_id = chosen_node_id u existing (dn_name n), node_source_id = source, node_external_name = dn_name n,
      node_available = dn_available n, node_status = dn_status n, node_facts = dn_facts n,
      node_created_at = t, node_updated_at = t\<rparr>"

definition reconcile_nodes :: "reconcile_uuids \<Rightarrow> discovery_snapshot \<Rightarrow> time \<Rightarrow> (string \<times> uuid) list body" where
  "reconcile_nodes u s t =
     (let source = snap_source_id s; observed = map dn_name (snap_nodes s) in
      seq (fetch (\<lambda>db. Inr (existing_nodes db source))) (\<lambda>existing.
      andthen (commit (executemany upsert_node (map (node_row u source t existing) (snap_nodes s))))
     (andthen (commit (\<lambda>db. Inr (mark_nodes_unavailable source
                (filter (\<lambda>name. name \<notin> set observed) (map fst existing)) t db)))
        (ret (map (\<lambda>name. (name, chosen_node_id u existing name)) observed)))))"

section \<open>Resources\<close>

text \<open>A resource of the source with its open binding, as the join returns it.\<close>

record active_row =
  ar_resource :: resource_incarnation
  ar_binding_id :: uuid
  ar_generation :: int

definition joined_rows :: "authority_db \<Rightarrow> uuid \<Rightarrow> (int \<times> active_row) list" where
  "joined_rows db source =
     concat (map (\<lambda>r. map (\<lambda>b. (res_vmid r, \<lparr>ar_resource = r, ar_binding_id = bind_id b, ar_generation = bind_generation b\<rparr>))
                (filter (\<lambda>b. bind_resource_id b = res_id r \<and> bind_valid_to b = None) (bindings db)))
       (filter (\<lambda>r. res_source_id r = source) (resources db)))"

definition active_rows :: "authority_db \<Rightarrow> uuid \<Rightarrow> (int \<times> active_row) list" where
  "active_rows db source = py_dict (joined_rows db source)"

definition observed_availability :: "discovery_snapshot \<Rightarrow> discovered_resource \<Rightarrow> string result" where
  "observed_availability s r =
     (case dv_node r of None \<Rightarrow> Inr ''unresolved''
      | Some name \<Rightarrow>
          (case find (\<lambda>n. dn_name n = name) (snap_nodes s) of None \<Rightarrow> Inl StopIteration
           | Some n \<Rightarrow> Inr (if dn_available n then ''available'' else ''unavailable'')))"

definition new_resource ::
    "uuid \<Rightarrow> uuid \<Rightarrow> discovered_resource \<Rightarrow> uuid option \<Rightarrow> string \<Rightarrow> time \<Rightarrow> resource_incarnation" where
  "new_resource i source r node availability t =
     \<lparr>res_id = i, res_source_id = source, res_type = dv_type r, res_vmid = dv_vmid r, res_continuity_revision = 1,
      res_status = dv_status r, res_current_node_id = node, res_presence = ''present'', res_lifecycle = ''active'',
      res_name = dv_name r, res_last_known_node_id = None, res_observational_continuity = ''consistent'',
      res_detail_status = detail_value (dv_detail r), res_node_availability = availability, res_facts = dv_facts r,
      res_termination_reason = None, res_successor_id = None, res_created_at = t, res_updated_at = t\<rparr>"

definition new_binding :: "uuid \<Rightarrow> discovery_snapshot \<Rightarrow> int \<Rightarrow> int \<Rightarrow> uuid \<Rightarrow> locator_binding" where
  "new_binding i s vmid generation resource =
     \<lparr>bind_id = i, bind_source_id = snap_source_id s, bind_vmid = vmid, bind_generation = generation,
      bind_resource_id = resource, bind_valid_to = None, bind_valid_from = snap_sequence s, bind_closure_reason = None\<rparr>"

text \<open>\<open>COALESCE(MAX(locator_generation), 0) + 1\<close> of the locator.\<close>

definition next_generation :: "authority_db \<Rightarrow> uuid \<Rightarrow> int \<Rightarrow> int" where
  "next_generation db source vmid =
     foldr max (map bind_generation (filter (\<lambda>b. bind_source_id b = source \<and> bind_vmid b = vmid) (bindings db))) 0 + 1"

definition create_resource ::
    "reconcile_uuids \<Rightarrow> discovery_snapshot \<Rightarrow> discovered_resource \<Rightarrow> uuid option \<Rightarrow> string \<Rightarrow> time \<Rightarrow> unit body" where
  "create_resource u s r node availability t =
     (let source = snap_source_id s; vmid = dv_vmid r in
      seq (fetch (\<lambda>db. Inr (next_generation db source vmid))) (\<lambda>generation.
      andthen (commit (insert_resource (new_resource (fresh_resource u vmid) source r node availability t)))
        (commit (insert_binding (new_binding (fresh_binding u vmid) s vmid generation (fresh_resource u vmid))))))"

definition last_known_node :: "resource_incarnation \<Rightarrow> uuid option" where
  "last_known_node r = or_text (res_current_node_id r) (res_last_known_node_id r)"

definition retired_resource :: "uuid option \<Rightarrow> uuid \<Rightarrow> time \<Rightarrow> resource_incarnation \<Rightarrow> resource_incarnation" where
  "retired_resource last_known successor t r =
     r\<lparr>res_presence := ''not_current'', res_lifecycle := ''retired'', res_observational_continuity := ''replaced'',
       res_detail_status := ''not_applicable'', res_node_availability := ''not_applicable'',
       res_current_node_id := None, res_last_known_node_id := last_known,
       res_continuity_revision := res_continuity_revision r + 1, res_termination_reason := Some ''replaced'',
       res_successor_id := Some successor, res_updated_at := t\<rparr>"

definition replace_resource ::
    "reconcile_uuids \<Rightarrow> discovery_snapshot \<Rightarrow> discovered_resource \<Rightarrow> active_row \<Rightarrow> uuid option \<Rightarrow> string \<Rightarrow> time \<Rightarrow> unit body" where
  "replace_resource u s r old node availability t =
     (let source = snap_source_id s; vmid = dv_vmid r; old_id = res_id (ar_resource old);
          successor = fresh_resource u vmid in
      andthen (commit (close_binding (ar_binding_id old) (snap_sequence s) ''replaced''))
     (andthen (commit (update_resource old_id (retired_resource (last_known_node (ar_resource old)) successor t)))
     (andthen (commit (insert_resource (new_resource successor source r node availability t)))
     (andthen (commit (insert_binding (new_binding (fresh_binding u vmid) s vmid (ar_generation old + 1) successor)))
        (commit (insert_termination
           \<lparr>term_resource_id = old_id, term_source_id = source, term_binding_id = ar_binding_id old,
            term_generation = ar_generation old, term_successor_id = successor,
            term_run_sequence = snap_sequence s, term_created_at = t\<rparr>))))))"

definition refreshed_resource ::
    "resource_incarnation \<Rightarrow> discovered_resource \<Rightarrow> uuid option \<Rightarrow> string \<Rightarrow> time \<Rightarrow> resource_incarnation \<Rightarrow> resource_incarnation" where
  "refreshed_resource old r node availability t row =
     (let gap = (res_presence old = ''missing'') in
      row\<lparr>res_name := dv_name r, res_status := dv_status r, res_current_node_id := node,
        res_last_known_node_id := (if node \<noteq> None then None else last_known_node old),
        res_presence := ''present'', res_lifecycle := (if gap then ''quarantined'' else res_lifecycle old),
        res_observational_continuity := (if gap then ''uncertain'' else res_observational_continuity old),
        res_detail_status := detail_value (dv_detail r), res_node_availability := availability,
        res_facts := dv_facts r, res_continuity_revision := res_continuity_revision row + (if gap then 1 else 0),
        res_updated_at := t\<rparr>)"

definition reconcile_resource ::
    "reconcile_uuids \<Rightarrow> discovery_snapshot \<Rightarrow> time \<Rightarrow> (string \<times> uuid) list \<Rightarrow> (int \<times> active_row) list
      \<Rightarrow> discovered_resource \<Rightarrow> reconciliation_summary \<Rightarrow> reconciliation_summary body" where
  "reconcile_resource u s t node_ids active r counts =
     (let node = Option.bind (dv_node r) (map_of node_ids) in
      seq (pure (observed_availability s r)) (\<lambda>availability.
      case map_of active (dv_vmid r) of
        None \<Rightarrow> andthen (create_resource u s r node availability t)
                  (ret (counts\<lparr>created_resources := created_resources counts + 1\<rparr>))
      | Some old \<Rightarrow>
          if res_type (ar_resource old) \<noteq> dv_type r
          then andthen (replace_resource u s r old node availability t)
                 (ret (counts\<lparr>replacements := replacements counts + 1\<rparr>))
          else andthen (commit (update_resource (res_id (ar_resource old))
                   (refreshed_resource (ar_resource old) r node availability t)))
                 (ret (counts\<lparr>updated_resources := updated_resources counts + 1\<rparr>))))"

fun reconcile_resources ::
    "reconcile_uuids \<Rightarrow> discovery_snapshot \<Rightarrow> time \<Rightarrow> (string \<times> uuid) list \<Rightarrow> (int \<times> active_row) list
      \<Rightarrow> discovered_resource list \<Rightarrow> reconciliation_summary \<Rightarrow> reconciliation_summary body" where
  "reconcile_resources u s t node_ids active [] counts = ret counts"
| "reconcile_resources u s t node_ids active (r # rs) counts =
     seq (reconcile_resource u s t node_ids active r counts) (reconcile_resources u s t node_ids active rs)"

definition missing_resource :: "uuid option \<Rightarrow> time \<Rightarrow> resource_incarnation \<Rightarrow> resource_incarnation" where
  "missing_resource last_known t r =
     r\<lparr>res_presence := ''missing'', res_lifecycle := ''quarantined'', res_observational_continuity := ''uncertain'',
       res_detail_status := ''not_applicable'', res_node_availability := ''not_applicable'',
       res_current_node_id := None, res_last_known_node_id := last_known,
       res_continuity_revision := res_continuity_revision r + 1, res_updated_at := t\<rparr>"

fun mark_missing ::
    "time \<Rightarrow> int list \<Rightarrow> (int \<times> active_row) list \<Rightarrow> reconciliation_summary \<Rightarrow> reconciliation_summary body" where
  "mark_missing t observed [] counts = ret counts"
| "mark_missing t observed ((vmid, old) # rest) counts =
     (if vmid \<in> set observed \<or> res_presence (ar_resource old) = ''missing''
      then mark_missing t observed rest counts
      else andthen (commit (update_resource (res_id (ar_resource old))
               (missing_resource (last_known_node (ar_resource old)) t)))
             (mark_missing t observed rest (counts\<lparr>missing_resources := missing_resources counts + 1\<rparr>)))"

section \<open>The reconciler\<close>

definition write_source_facts :: "uuid \<Rightarrow> json \<Rightarrow> unit body" where
  "write_source_facts source facts =
     commit (\<lambda>db. bindE (update_sources (\<lambda>x. src_id x = source) (\<lambda>x. x\<lparr>src_facts := facts\<rparr>) db) (\<lambda>(n, db'). Inr db'))"

definition no_changes :: reconciliation_summary where
  "no_changes = \<lparr>created_resources = 0, updated_resources = 0, missing_resources = 0, replacements = 0\<rparr>"

definition reconcile :: "reconcile_uuids \<Rightarrow> discovery_snapshot \<Rightarrow> time \<Rightarrow> reconciliation_summary body" where
  "reconcile u s t =
     need (snap_completeness s = BASE_COMPLETE)
       (ValueError ''only a complete normalized baseline may reconcile inventory'')
    (seq (reconcile_nodes u s t) (\<lambda>node_ids.
     andthen (write_source_facts (snap_source_id s) (snap_source_facts s))
    (seq (fetch (\<lambda>db. Inr (active_rows db (snap_source_id s)))) (\<lambda>active.
     seq (reconcile_resources u s t node_ids active (snap_resources s) no_changes) (\<lambda>counts.
     mark_missing t (map dv_vmid (snap_resources s)) active counts)))))"

end
