(* ===== verification/Canonicalization.thy ===== *)
theory Canonicalization
  imports Package_Plan Operation_Identity
begin

text \<open>
  The canonical form of an HTTPS transport locator, \<open>app/inventory/canonicalization.py\<close>, with what it uses of
  \<open>urllib.parse\<close> (\<open>urlsplit\<close> and the host and port of its result) and of \<open>ipaddress\<close> (parsing an IPv4 and
  an IPv6 address and their compressed text, IPv6 as eight 16-bit groups). A locator with a character
  above 127 is refused by one check or another; \<open>urlsplit\<close> may refuse it before the host is looked at,
  which changes the message only.
\<close>

section \<open>Text\<close>

text \<open>\<open>str.partition\<close>: what stands before and after the first separator.\<close>

definition before_char :: "char \<Rightarrow> string \<Rightarrow> string" where
  "before_char c v = takeWhile (\<lambda>x. x \<noteq> c) v"

definition after_char :: "char \<Rightarrow> string \<Rightarrow> string" where
  "after_char c v = drop 1 (dropWhile (\<lambda>x. x \<noteq> c) v)"

definition after_last_char :: "char \<Rightarrow> string \<Rightarrow> string" where
  "after_last_char c v = rev (before_char c (rev v))"

definition lower_text :: "string \<Rightarrow> string" where
  "lower_text v = map ascii_lower v"

definition digit_value :: "char \<Rightarrow> nat" where
  "digit_value c = (let n = of_char c :: nat in if 97 \<le> n then n - 87 else if 65 \<le> n then n - 55 else n - 48)"

definition text_value :: "nat \<Rightarrow> string \<Rightarrow> nat" where
  "text_value base v = foldl (\<lambda>a c. a * base + digit_value c) 0 v"

definition is_hex_char :: "char \<Rightarrow> bool" where
  "is_hex_char c \<longleftrightarrow> c \<in> set ''0123456789abcdefABCDEF''"

text \<open>\<open>'%x' % n\<close>.\<close>

fun hex_nat :: "nat \<Rightarrow> string" where
  "hex_nat n = (if n < 16 then [''0123456789abcdef'' ! n] else hex_nat (n div 16) @ [''0123456789abcdef'' ! (n mod 16)])"

declare hex_nat.simps [simp del]

fun join_with :: "char \<Rightarrow> string list \<Rightarrow> string" where
  "join_with c [] = []"
| "join_with c [p] = p"
| "join_with c (p # q # ps) = p @ c # join_with c (q # ps)"

section \<open>IPv4 and IPv6 addresses\<close>

definition ipv4_octet :: "string \<Rightarrow> nat option" where
  "ipv4_octet v =
     (if v \<noteq> [] \<and> list_all is_ascii_digit v \<and> length v \<le> 3 \<and> (v = ''0'' \<or> hd v \<noteq> CHR ''0'') \<and> text_value 10 v \<le> 255
      then Some (text_value 10 v) else None)"

definition ipv4_address :: "string \<Rightarrow> nat list option" where
  "ipv4_address v =
     (let octets = split_on (CHR ''.'') v in
      if length octets = 4 then those (map ipv4_octet octets) else None)"

definition ipv4_text :: "nat list \<Rightarrow> string" where
  "ipv4_text octets = join_with (CHR ''.'') (map decimal_nat octets)"

definition hextet :: "string \<Rightarrow> nat option" where
  "hextet v = (if v \<noteq> [] \<and> list_all is_hex_char v \<and> length v \<le> 4 then Some (text_value 16 v) else None)"

text \<open>The groups of the text; an IPv4 suffix becomes the two groups it stands for.\<close>

definition ipv6_parts :: "string \<Rightarrow> string list option" where
  "ipv6_parts v =
     (let parts = split_on (CHR '':'') v in
      if length parts < 3 then None
      else if CHR ''.'' \<in> set (last parts)
      then map_option (\<lambda>q. butlast parts @ [hex_nat (q ! 0 * 256 + q ! 1), hex_nat (q ! 2 * 256 + q ! 3)])
             (ipv4_address (last parts))
      else Some parts)"

definition inner_gaps :: "string list \<Rightarrow> nat list" where
  "inner_gaps parts = filter (\<lambda>i. parts ! i = []) [1..<length parts - 1]"

text \<open>Eight groups without a gap, or a gap that stands for at least one zero group.\<close>

definition ipv6_groups :: "string list \<Rightarrow> nat list option" where
  "ipv6_groups parts =
     (case inner_gaps parts of
        [] \<Rightarrow> if length parts = 8 \<and> hd parts \<noteq> [] \<and> last parts \<noteq> [] then those (map hextet parts) else None
      | [i] \<Rightarrow>
          (let hi = (if hd parts = [] then i - 1 else i);
               lo = (if last parts = [] then length parts - i - 2 else length parts - i - 1) in
           if (hd parts = [] \<and> hi \<noteq> 0) \<or> (last parts = [] \<and> lo \<noteq> 0) \<or> 8 < hi + lo + 1 then None
           else map_option (\<lambda>gs. take hi gs @ replicate (8 - (hi + lo)) 0 @ drop hi gs)
                  (those (map hextet (take hi parts @ drop (length parts - lo) parts))))
      | _ \<Rightarrow> None)"

definition ipv6_address :: "string \<Rightarrow> nat list option" where
  "ipv6_address v =
     (case ipv6_parts v of None \<Rightarrow> None | Some parts \<Rightarrow> if 9 < length parts then None else ipv6_groups parts)"

text \<open>\<open>_compress_hextets\<close>: the first longest run of zero groups; the loop state is
  (index, run start, run length, best start, best length).\<close>

definition zero_run_step :: "nat \<times> nat \<times> nat \<times> nat \<times> nat \<Rightarrow> nat \<Rightarrow> nat \<times> nat \<times> nat \<times> nat \<times> nat" where
  "zero_run_step s g =
     (case s of (i, start, len, best, best_len) \<Rightarrow>
        if g = 0
        then (let start' = (if len = 0 then i else start) in
              if best_len < len + 1 then (i + 1, start', len + 1, start', len + 1)
              else (i + 1, start', len + 1, best, best_len))
        else (i + 1, start, 0, best, best_len))"

definition best_zero_run :: "nat list \<Rightarrow> nat \<times> nat" where
  "best_zero_run gs = snd (snd (snd (foldl zero_run_step (0, 0, 0, 0, 0) gs)))"

definition ipv6_text :: "nat list \<Rightarrow> string" where
  "ipv6_text gs =
     (let hextets = map hex_nat gs; (start, len) = best_zero_run gs; stop = start + len in
      join_with (CHR '':'')
        (if len \<le> 1 then hextets
         else (if start = 0 then [[]] else []) @ take start hextets @ [[]] @ drop stop hextets
              @ (if stop = length gs then [[]] else [])))"

datatype ip = IPv4 "nat list" | IPv6 "nat list"

definition ip_address :: "string \<Rightarrow> ip option" where
  "ip_address v =
     (case ipv4_address v of Some q \<Rightarrow> Some (IPv4 q)
      | None \<Rightarrow> map_option IPv6 (ipv6_address v))"

section \<open>Splitting the URL\<close>

definition scheme_char :: "char \<Rightarrow> bool" where
  "scheme_char c \<longleftrightarrow> is_ascii_letter c \<or> is_ascii_digit c \<or> c \<in> set ''+-.''"

record split_url =
  url_scheme :: string
  url_netloc :: string
  url_path :: string

text \<open>A bracketed host is an IPvFuture literal or an IPv6 address.\<close>

definition bracketed_host_ok :: "string \<Rightarrow> bool" where
  "bracketed_host_ok v \<longleftrightarrow>
     (if v \<noteq> [] \<and> hd v = CHR ''v''
      then (let n = before_char (CHR ''.'') (tl v) in
            n \<noteq> [] \<and> list_all is_hex_char n \<and> CHR ''.'' \<in> set v \<and> after_char (CHR ''.'') (tl v) \<noteq> [])
      else (case ip_address v of Some (IPv6 _) \<Rightarrow> True | _ \<Rightarrow> False))"

definition netloc_ok :: "string \<Rightarrow> bool" where
  "netloc_ok n \<longleftrightarrow>
     ((CHR ''['' \<in> set n) = (CHR '']'' \<in> set n))
     \<and> (CHR ''['' \<in> set n \<longrightarrow> bracketed_host_ok (before_char (CHR '']'') (after_char (CHR ''['') n)))"

text \<open>\<open>urlsplit\<close> of a text with no query, fragment, control character or surrounding space.\<close>

definition urlsplit :: "string \<Rightarrow> split_url option" where
  "urlsplit v =
     (let s = before_char (CHR '':'') v;
          has_scheme = (CHR '':'' \<in> set v \<and> s \<noteq> [] \<and> is_ascii_letter (hd s) \<and> list_all scheme_char s);
          scheme = (if has_scheme then lower_text s else []);
          rest = (if has_scheme then after_char (CHR '':'') v else v) in
      if take 2 rest = ''//''
      then (let netloc = before_char (CHR ''/'') (drop 2 rest) in
            if netloc_ok netloc
            then Some \<lparr>url_scheme = scheme, url_netloc = netloc, url_path = drop (length netloc + 2) rest\<rparr>
            else None)
      else Some \<lparr>url_scheme = scheme, url_netloc = [], url_path = rest\<rparr>)"

text \<open>\<open>_hostinfo\<close>: the host and the port text of the netloc.\<close>

definition host_and_port :: "string \<Rightarrow> string \<times> string" where
  "host_and_port netloc =
     (let info = after_last_char (CHR ''@'') netloc in
      if CHR ''['' \<in> set info
      then (let b = after_char (CHR ''['') info in
            (before_char (CHR '']'') b, after_char (CHR '':'') (after_char (CHR '']'') b)))
      else (before_char (CHR '':'') info, after_char (CHR '':'') info))"

definition url_hostname :: "string \<Rightarrow> string option" where
  "url_hostname netloc =
     (let h = fst (host_and_port netloc) in
      if h = [] then None
      else Some (lower_text (before_char (CHR ''%'') h) @ dropWhile (\<lambda>x. x \<noteq> CHR ''%'') h))"

definition url_port :: "string \<Rightarrow> nat option option" where
  "url_port netloc =
     (let p = snd (host_and_port netloc) in
      if p = [] then Some None
      else if list_all is_ascii_digit p \<and> text_value 10 p \<le> 65535 then Some (Some (text_value 10 p))
      else None)"

section \<open>The canonical locator\<close>

definition dns_label :: "string \<Rightarrow> bool" where
  "dns_label v \<longleftrightarrow>
     v \<noteq> [] \<and> length v \<le> 63 \<and> hd v \<noteq> CHR ''-'' \<and> last v \<noteq> CHR ''-''
     \<and> list_all (\<lambda>c. is_lower_alpha c \<or> is_ascii_digit c \<or> c = CHR ''-'') v"

definition legacy_numeric_label :: "string \<Rightarrow> bool" where
  "legacy_numeric_label v \<longleftrightarrow>
     (v \<noteq> [] \<and> list_all is_ascii_digit v)
     \<or> (take 2 v = ''0x'' \<and> 2 < length v \<and> list_all is_lower_hex (drop 2 v))"

definition canonical_dns_name :: "string \<Rightarrow> string result" where
  "canonical_dns_name host =
     checkE (list_all (\<lambda>c. (of_char c :: nat) < 128) host) (ValueError ''transport locator DNS host must be ASCII'')
    (let lowered = lower_text host; labels = split_on (CHR ''.'') lowered in
     checkE (length lowered \<le> 253 \<and> (lowered = [] \<or> last lowered \<noteq> CHR ''.''))
       (ValueError ''transport locator DNS host is ambiguous or invalid'')
    (checkE (list_all dns_label labels) (ValueError ''transport locator DNS host is invalid'')
    (checkE (\<not> (length labels \<le> 4 \<and> list_all legacy_numeric_label labels))
       (ValueError ''transport locator numeric host is ambiguous or non-canonical'')
       (Inr lowered))))"

definition canonical_host :: "string \<Rightarrow> bool \<Rightarrow> string result" where
  "canonical_host host bracketed =
     (case ip_address host of
        None \<Rightarrow> if bracketed then Inl (ValueError ''bracketed transport locator host must be IPv6'') else canonical_dns_name host
      | Some (IPv6 gs) \<Rightarrow>
          checkE bracketed (ValueError ''IPv6 transport locator must use brackets'')
            (Inr (CHR ''['' # ipv6_text gs @ [CHR '']'']))
      | Some (IPv4 q) \<Rightarrow>
          checkE (\<not> bracketed) (ValueError ''only IPv6 transport locator hosts use brackets'') (Inr (ipv4_text q)))"

text \<open>\<open>str.isdigit\<close> of a port text: the superscripts 1, 2 and 3 are digits of Latin-1 too.\<close>

definition py_isdigit :: "string \<Rightarrow> bool" where
  "py_isdigit v \<longleftrightarrow> v \<noteq> [] \<and> list_all (\<lambda>c. is_ascii_digit c \<or> (of_char c :: nat) \<in> {178, 179, 185}) v"

definition validate_authority_syntax :: "string \<Rightarrow> bool \<Rightarrow> unit result" where
  "validate_authority_syntax netloc ipv6 =
     (if ipv6
      then (let suffix = after_char (CHR '']'') netloc in
            checkE (netloc \<noteq> [] \<and> hd netloc = CHR ''['' \<and> CHR '']'' \<in> set netloc)
              (ValueError ''IPv6 transport locator must use brackets'')
           (checkE (suffix = [] \<or> hd suffix = CHR '':'' \<and> py_isdigit (tl suffix))
              (ValueError ''transport locator authority is invalid'') (Inr ())))
      else checkE (length (filter (\<lambda>c. c = CHR '':'') netloc) \<le> 1)
             (ValueError ''IPv6 transport locator must use brackets'')
          (checkE (CHR '':'' \<notin> set netloc \<or> py_isdigit (after_last_char (CHR '':'') netloc))
             (ValueError ''transport locator has an invalid port'') (Inr ())))"

definition raw_locator_check :: "string \<Rightarrow> unit result" where
  "raw_locator_check v =
     checkE (v \<noteq> []) (ValueError ''transport locator must be non-empty text'')
    (checkE (\<not> py_isspace (hd v) \<and> \<not> py_isspace (last v))
       (ValueError ''transport locator must not contain surrounding whitespace'')
    (checkE (\<not> list_ex is_control v) (ValueError ''transport locator must not contain control characters'')
    (checkE (CHR 0x5C \<notin> set v) (ValueError ''transport locator must not contain backslashes'')
    (checkE (CHR ''?'' \<notin> set v) (ValueError ''transport locator must not contain a query'')
    (checkE (CHR ''#'' \<notin> set v) (ValueError ''transport locator must not contain a fragment'') (Inr ()))))))"

definition locator_text :: "string \<Rightarrow> nat option \<Rightarrow> string" where
  "locator_text host port =
     ''https://'' @ host @ (case port of None \<Rightarrow> [] | Some p \<Rightarrow> if p = 443 then [] else CHR '':'' # decimal_nat p)"

definition canonicalize_transport_locator :: "string \<Rightarrow> string result" where
  "canonicalize_transport_locator v =
     bindE (raw_locator_check v) (\<lambda>_.
     case urlsplit v of
       None \<Rightarrow> Inl (ValueError ''transport locator is invalid'')
     | Some parsed \<Rightarrow>
         (let netloc = url_netloc parsed in
          checkE (lower_text (url_scheme parsed) = ''https'') (ValueError ''transport locator must use HTTPS'')
         (case (netloc, url_hostname netloc) of
            (_ # _, Some host) \<Rightarrow>
              checkE (CHR ''@'' \<notin> set netloc) (ValueError ''transport locator must not contain userinfo'')
             (checkE (url_path parsed \<in> {[], ''/''}) (ValueError ''transport locator subpaths are not supported'')
             (checkE (CHR ''%'' \<notin> set netloc) (ValueError ''transport locator host must not use percent encoding'')
             (case url_port netloc of
                None \<Rightarrow> Inl (ValueError ''transport locator has an invalid port'')
              | Some port \<Rightarrow>
                  checkE (port \<noteq> Some 0) (ValueError ''transport locator has an invalid port'')
                 (bindE (canonical_host host (hd netloc = CHR ''['')) (\<lambda>canonical.
                  bindE (validate_authority_syntax netloc (hd canonical = CHR ''['')) (\<lambda>_.
                  Inr (locator_text canonical port)))))))
          | _ \<Rightarrow> Inl (ValueError ''transport locator must include a host''))))"

end
