(* ===== verification/Discovery_Operations.thy ===== *)
theory Discovery_Operations
  imports Reconciliation Canonicalization
begin

text \<open>
  The operations of \<open>InventoryAuthority\<close> (\<open>app/inventory/authority.py\<close>) on inventory sources and
  discovery runs: registering, renaming and configuring a source, rotating its transport trust, migrating its
  canonical locators, and the life of a run from issue to completion or abandonment. A run is issued
  under the source's current context, owns the source while it is not terminal, and its result is
  reconciled only when every field of that context is still current.

  The registry of migration contracts is injected; a registered contract is a function from locator to
  locator that may raise.
\<close>

section \<open>Reading back\<close>

record source_state =
  st_source :: inventory_source
  st_endpoint :: source_endpoint
  st_health :: source_runtime_health

definition source_state_of :: "authority_db \<Rightarrow> uuid \<Rightarrow> source_state result" where
  "source_state_of db i =
     (case row_by src_id i (sources db) of
        None \<Rightarrow> Inl (AuthorityNotFound ''inventory source does not exist'')
      | Some source \<Rightarrow>
          (case (filter (\<lambda>e. ep_source_id e = i \<and> ep_lifecycle e = EP_ACTIVE) (endpoints db), row_by sh_source_id i (source_healths db)) of
             ([e], Some h) \<Rightarrow> Inr \<lparr>st_source = source, st_endpoint = e, st_health = h\<rparr>
           | _ \<Rightarrow> Inl (AuthorityInvariantError ''inventory source must have exactly one active endpoint and runtime health record'')))"

text \<open>\<open>_optional_completion_collection\<close>: what a stored collection must be to be read back.\<close>

definition collection_readable :: "string list option \<Rightarrow> bool" where
  "collection_readable v \<longleftrightarrow> null_or (\<lambda>items. list_all stripped_text items \<and> distinct items) v"

definition discovery_run_of :: "discovery_run \<Rightarrow> discovery_run result" where
  "discovery_run_of r =
     checkE (null_or (\<lambda>e. collection_readable (ce_covered_nodes e) \<and> collection_readable (ce_failed_baseline_scopes e)
                \<and> collection_readable (ce_failed_detail_scopes e)) (run_evidence r))
       (AuthorityInvariantError ''discovery run collection is malformed'') (Inr r)"

definition require_run_row :: "authority_db \<Rightarrow> uuid \<Rightarrow> discovery_run result" where
  "require_run_row db i =
     (case row_by (\<lambda>r. run_id (run_iss r)) i (discovery_runs db) of
        None \<Rightarrow> Inl (AuthorityNotFound ''discovery run does not exist'')
      | Some r \<Rightarrow> Inr r)"

definition store_discovery_run :: "authority_db \<Rightarrow> uuid \<Rightarrow> discovery_run result" where
  "store_discovery_run db i = bindE (require_run_row db i) discovery_run_of"

definition then_source :: "uuid \<Rightarrow> 'a \<Rightarrow> authority_db \<Rightarrow> source_state result" where
  "then_source i x db = source_state_of db i"

definition then_run :: "uuid \<Rightarrow> 'a \<Rightarrow> authority_db \<Rightarrow> discovery_run result" where
  "then_run i x db = store_discovery_run db i"

section \<open>Statements\<close>

definition source_row :: "uuid \<Rightarrow> inventory_source body" where
  "source_row i = fetch (\<lambda>db. require_source_row db i)"

definition run_row :: "uuid \<Rightarrow> discovery_run body" where
  "run_row i = fetch (\<lambda>db. require_run_row db i)"

definition endpoint_row :: "uuid \<Rightarrow> source_endpoint body" where
  "endpoint_row i = fetch (\<lambda>db. require_active_endpoint_row db i)"

text \<open>An UPDATE whose \<open>rowcount\<close> must be one, and one whose count is not looked at.\<close>

definition one_row :: "(authority_db \<Rightarrow> (nat \<times> authority_db) result) \<Rightarrow> string \<Rightarrow> unit body" where
  "one_row f lost = commit (\<lambda>db. bindE (f db) (\<lambda>(n, db'). checkE (n = 1) (AuthorityConflict lost) (Inr db')))"

definition any_rows :: "(authority_db \<Rightarrow> (nat \<times> authority_db) result) \<Rightarrow> unit body" where
  "any_rows f = commit (\<lambda>db. bindE (f db) (\<lambda>(n, db'). Inr db'))"

definition set_source :: "uuid \<Rightarrow> (inventory_source \<Rightarrow> inventory_source) \<Rightarrow> unit body" where
  "set_source i s = any_rows (update_sources (\<lambda>x. src_id x = i) s)"

definition set_health :: "uuid \<Rightarrow> (source_runtime_health \<Rightarrow> source_runtime_health) \<Rightarrow> unit body" where
  "set_health i s = commit (update_source_health (\<lambda>h. sh_source_id h = i) s)"

definition publish_inventory :: "time \<Rightarrow> unit body" where
  "publish_inventory t = commit (bump_global_revisions True True t)"

section \<open>Registering a source\<close>

definition PROVIDER_CONTRACT_VERSION :: int where
  "PROVIDER_CONTRACT_VERSION = 1"

definition CANONICALIZATION_CONTRACT_VERSION :: int where
  "CANONICALIZATION_CONTRACT_VERSION = 1"

definition require_credential_reference :: "string \<Rightarrow> string result" where
  "require_credential_reference v =
     bindE (require_text v ''credential_reference'' 500) (\<lambda>r.
     checkE (take 9 r = ''secret://'') (ValueError ''credential_reference must be an opaque secret reference'') (Inr r))"

record source_request =
  rq_provider_kind :: string
  rq_display_name :: string
  rq_credential_reference :: string
  rq_transport_locator :: string
  rq_freshness_duration_seconds :: int
  rq_provider_contract_version :: int

text \<open>The arguments of \<open>create_inventory_source\<close>, checked, with the canonical locator.\<close>

definition source_args :: "source_request \<Rightarrow> (source_request \<times> string) result" where
  "source_args q =
     bindE (require_text (rq_provider_kind q) ''provider_kind'' 100) (\<lambda>_.
     bindE (require_text (rq_display_name q) ''display_name'' 300) (\<lambda>_.
     bindE (require_credential_reference (rq_credential_reference q)) (\<lambda>_.
     bindE (require_positive_integer (rq_freshness_duration_seconds q) ''freshness_duration_seconds'') (\<lambda>_.
     bindE (require_positive_integer (rq_provider_contract_version q) ''provider_contract_version'') (\<lambda>version.
     checkE (version = PROVIDER_CONTRACT_VERSION) (ValueError ''provider contract version is unsupported'')
       (bindE (canonicalize_transport_locator (rq_transport_locator q)) (\<lambda>locator. Inr (q, locator))))))))"

definition new_source :: "uuid \<Rightarrow> time \<Rightarrow> source_request \<Rightarrow> inventory_source" where
  "new_source i t q =
     \<lparr>src_id = i, src_config_revision = 1, src_last_committed_run_sequence = None, src_active_discovery_run_id = None,
      src_provider_contract_version = rq_provider_contract_version q,
      src_freshness_duration_seconds = rq_freshness_duration_seconds q, src_provider_kind = rq_provider_kind q,
      src_display_name = rq_display_name q, src_credential_reference = rq_credential_reference q,
      src_created_at = t, src_last_issued_run_sequence = 0, src_facts = JObj []\<rparr>"

definition initial_endpoint :: "uuid \<Rightarrow> uuid \<Rightarrow> string \<Rightarrow> time \<Rightarrow> source_endpoint" where
  "initial_endpoint i source locator t =
     \<lparr>ep_id = i, ep_source_id = source, ep_canonical_transport_locator = locator,
      ep_canonicalization_contract_version = CANONICALIZATION_CONTRACT_VERSION, ep_lifecycle = EP_ACTIVE,
      ep_transport_trust_revision = 1, ep_created_at = t\<rparr>"

definition initial_health :: "uuid \<Rightarrow> source_runtime_health" where
  "initial_health source =
     \<lparr>sh_source_id = source, sh_health = HEALTH_NOT_YET_OBSERVED, sh_freshness = FRESHNESS_NOT_YET_OBSERVED,
      sh_origin = INITIAL_ORIGIN, sh_reason = [], sh_freshness_reference_at = None, sh_freshness_valid_until = None,
      sh_committed_source_config_revision = None, sh_committed_endpoint_id = None,
      sh_committed_canonical_transport_locator = None, sh_committed_canonicalization_contract_version = None,
      sh_committed_transport_trust_revision = None, sh_latest_completed_run_sequence = None,
      sh_latest_completed_outcome = None, sh_last_health_run_sequence = None, sh_last_run_health_outcome = None,
      sh_last_successful_observed_at = None\<rparr>"

definition create_source_body :: "clock \<Rightarrow> uuid \<Rightarrow> uuid \<Rightarrow> source_request \<times> string \<Rightarrow> unit body" where
  "create_source_body now source endpoint x =
     (case x of (q, locator) \<Rightarrow>
      andthen (commit (insert_source (new_source source (now 0) q)))
     (andthen (commit (insert_endpoint (initial_endpoint endpoint source locator (now 0))))
     (andthen (commit (insert_source_health (initial_health source))) (publish_inventory (now 1)))))"

definition create_inventory_source ::
    "clock \<Rightarrow> uuid \<Rightarrow> uuid \<Rightarrow> source_request \<Rightarrow> authority_db \<Rightarrow> authority_db \<times> source_state result" where
  "create_inventory_source now source endpoint q db =
     run_op (source_args q) (create_source_body now source endpoint) (\<lambda>x. then_source source) db"

section \<open>Presentation and configuration\<close>

definition source_and_text :: "uuid \<Rightarrow> string \<Rightarrow> string \<Rightarrow> nat \<Rightarrow> (uuid \<times> string) result" where
  "source_and_text i v field n =
     bindE (require_uuid i ''inventory_source_id'') (\<lambda>s. bindE (require_text v field n) (\<lambda>x. Inr (s, x)))"

definition rename_body :: "clock \<Rightarrow> uuid \<times> string \<Rightarrow> unit body" where
  "rename_body now x =
     (case x of (i, name) \<Rightarrow>
      seq (source_row i) (\<lambda>source.
      if src_display_name source \<noteq> name
      then andthen (set_source i (\<lambda>s. s\<lparr>src_display_name := name\<rparr>)) (publish_inventory (now 0))
      else ret ()))"

definition rename_inventory_source ::
    "clock \<Rightarrow> uuid \<Rightarrow> string \<Rightarrow> authority_db \<Rightarrow> authority_db \<times> source_state result" where
  "rename_inventory_source now i name db =
     run_op (source_and_text i name ''display_name'' 300) (rename_body now) (\<lambda>x. then_source i) db"

definition require_no_active_run :: "inventory_source \<Rightarrow> 'a body \<Rightarrow> 'a body" where
  "require_no_active_run source k =
     need (src_active_discovery_run_id source = None)
       (AuthorityConflict ''source configuration transition waits for active run terminalization'') k"

definition mark_controlled_context_transition :: "uuid \<Rightarrow> string \<Rightarrow> unit body" where
  "mark_controlled_context_transition i reason =
     set_health i (\<lambda>h. h\<lparr>sh_freshness := STALE, sh_origin := CONTROLLED_CONTEXT_TRANSITION, sh_reason := reason\<rparr>)"

datatype configuration = CREDENTIAL_REFERENCE string | FRESHNESS_DURATION int

fun configured :: "configuration \<Rightarrow> inventory_source \<Rightarrow> bool" where
  "configured (CREDENTIAL_REFERENCE v) s \<longleftrightarrow> src_credential_reference s = v"
| "configured (FRESHNESS_DURATION n) s \<longleftrightarrow> src_freshness_duration_seconds s = n"

fun configure :: "configuration \<Rightarrow> inventory_source \<Rightarrow> inventory_source" where
  "configure (CREDENTIAL_REFERENCE v) s = s\<lparr>src_credential_reference := v, src_config_revision := src_config_revision s + 1\<rparr>"
| "configure (FRESHNESS_DURATION n) s = s\<lparr>src_freshness_duration_seconds := n, src_config_revision := src_config_revision s + 1\<rparr>"

definition change_configuration_body :: "clock \<Rightarrow> string \<Rightarrow> configuration \<times> uuid \<Rightarrow> unit body" where
  "change_configuration_body now reason x =
     (case x of (c, i) \<Rightarrow>
      seq (source_row i) (\<lambda>source.
      require_no_active_run source
     (if configured c source then ret ()
      else andthen (set_source i (configure c))
          (andthen (mark_controlled_context_transition i reason) (publish (now 0))))))"

definition change_source_configuration ::
    "clock \<Rightarrow> configuration result \<Rightarrow> string \<Rightarrow> uuid \<Rightarrow> authority_db \<Rightarrow> authority_db \<times> source_state result" where
  "change_source_configuration now c reason i db =
     run_op (bindE c (\<lambda>v. bindE (require_uuid i ''inventory_source_id'') (\<lambda>s. Inr (v, s))))
       (change_configuration_body now reason) (\<lambda>x. then_source i) db"

definition rotate_credential_reference ::
    "clock \<Rightarrow> uuid \<Rightarrow> string \<Rightarrow> authority_db \<Rightarrow> authority_db \<times> source_state result" where
  "rotate_credential_reference now i v =
     change_source_configuration now (bindE (require_credential_reference v) (\<lambda>r. Inr (CREDENTIAL_REFERENCE r)))
       ''credential_reference_rotated'' i"

definition configure_freshness_duration ::
    "clock \<Rightarrow> uuid \<Rightarrow> int \<Rightarrow> authority_db \<Rightarrow> authority_db \<times> source_state result" where
  "configure_freshness_duration now i n =
     change_source_configuration now
       (bindE (require_positive_integer n ''freshness_duration_seconds'') (\<lambda>v. Inr (FRESHNESS_DURATION v)))
       ''freshness_duration_changed'' i"

definition next_config_revision :: "inventory_source \<Rightarrow> inventory_source" where
  "next_config_revision s = s\<lparr>src_config_revision := src_config_revision s + 1\<rparr>"

definition rotate_trust_body :: "clock \<Rightarrow> uuid \<Rightarrow> unit body" where
  "rotate_trust_body now i =
     seq (source_row i) (\<lambda>source.
     require_no_active_run source
    (seq (endpoint_row i) (\<lambda>endpoint.
     andthen (commit (update_endpoint (ep_id endpoint)
                (\<lambda>e. e\<lparr>ep_transport_trust_revision := ep_transport_trust_revision e + 1\<rparr>)))
    (andthen (set_source i next_config_revision)
    (andthen (mark_controlled_context_transition i ''transport_trust_rotated'') (publish (now 0)))))))"

definition rotate_transport_trust :: "clock \<Rightarrow> uuid \<Rightarrow> authority_db \<Rightarrow> authority_db \<times> source_state result" where
  "rotate_transport_trust now i db =
     run_op (require_uuid i ''inventory_source_id'') (rotate_trust_body now) (\<lambda>x. then_source i) db"

section \<open>Migration of the canonical locators\<close>

type_synonym migration_contracts = "int \<Rightarrow> (string \<Rightarrow> string result) option"

fun migration_pairs ::
    "(string \<Rightarrow> string result) \<Rightarrow> string list \<Rightarrow> source_endpoint list \<Rightarrow> (source_endpoint \<times> string) list result" where
  "migration_pairs canonicalizer seen [] = Inr []"
| "migration_pairs canonicalizer seen (e # es) =
     bindE (canonicalizer (ep_canonical_transport_locator e)) (\<lambda>new_locator.
     checkE (\<exists>c \<in> set new_locator. \<not> py_isspace c) (ValueError ''migration produced an invalid canonical locator'')
    (checkE (new_locator \<notin> set seen)
       (AuthorityConflict ''canonicalization migration creates a retained locator collision'')
       (bindE (migration_pairs canonicalizer (new_locator # seen) es) (\<lambda>rest. Inr ((e, new_locator) # rest)))))"

definition migrate_endpoint ::
    "uuid \<Rightarrow> uuid \<Rightarrow> int \<Rightarrow> time \<Rightarrow> source_endpoint \<times> string \<Rightarrow> authority_db \<Rightarrow> authority_db result" where
  "migrate_endpoint fresh source version t p db =
     (case p of (e, new_locator) \<Rightarrow>
      bindE (insert_migration
        \<lparr>mig_id = fresh, mig_source_id = source, mig_endpoint_id = ep_id e,
         mig_old_version = ep_canonicalization_contract_version e, mig_old_locator = ep_canonical_transport_locator e,
         mig_new_version = version, mig_new_locator = new_locator, mig_at = t\<rparr> db)
      (update_endpoint (ep_id e) (\<lambda>x. x\<lparr>ep_canonical_transport_locator := new_locator,
                                        ep_canonicalization_contract_version := version\<rparr>)))"

definition migration_args :: "migration_contracts \<Rightarrow> uuid \<Rightarrow> int \<Rightarrow> (uuid \<times> int \<times> (string \<Rightarrow> string result)) result" where
  "migration_args registry i version =
     bindE (require_uuid i ''inventory_source_id'') (\<lambda>s.
     bindE (require_positive_integer version ''target_version'') (\<lambda>v.
     case registry v of
       None \<Rightarrow> Inl (ValueError ''canonicalization migration contract is not registered'')
     | Some c \<Rightarrow> Inr (s, v, c)))"

definition migrate_body :: "clock \<Rightarrow> uuid \<Rightarrow> uuid \<times> int \<times> (string \<Rightarrow> string result) \<Rightarrow> unit body" where
  "migrate_body now fresh x =
     (case x of (i, version, canonicalizer) \<Rightarrow>
      seq (source_row i) (\<lambda>source.
      require_no_active_run source
     (seq (fetch (\<lambda>db. Inr (sort_key ep_id (filter (\<lambda>e. ep_source_id e = i) (endpoints db))))) (\<lambda>rows.
      need (rows \<noteq> []) (AuthorityInvariantError ''source has no retained endpoint namespace'')
     (seq (pure (migration_pairs canonicalizer [] rows)) (\<lambda>pairs.
      andthen (commit (executemany (migrate_endpoint fresh i version (now 0)) pairs))
     (andthen (set_source i next_config_revision)
     (andthen (mark_controlled_context_transition i ''canonicalization_contract_migrated'') (publish (now 1))))))))))"

definition migrate_canonicalization_contract ::
    "clock \<Rightarrow> uuid \<Rightarrow> migration_contracts \<Rightarrow> uuid \<Rightarrow> int \<Rightarrow> authority_db \<Rightarrow> authority_db \<times> source_state result" where
  "migrate_canonicalization_contract now fresh registry i version db =
     run_op (migration_args registry i version) (migrate_body now fresh) (\<lambda>x. then_source i) db"

section \<open>Issuing and starting a run\<close>

definition current_context :: "inventory_source \<Rightarrow> source_endpoint \<Rightarrow> run_context" where
  "current_context source endpoint =
     \<lparr>rx_source_config_revision = src_config_revision source, rx_endpoint_id = ep_id endpoint,
      rx_canonical_transport_locator = ep_canonical_transport_locator endpoint,
      rx_canonicalization_contract_version = ep_canonicalization_contract_version endpoint,
      rx_transport_trust_revision = ep_transport_trust_revision endpoint\<rparr>"

definition issued_run :: "uuid \<Rightarrow> uuid \<Rightarrow> int \<Rightarrow> time \<Rightarrow> run_context \<Rightarrow> int \<Rightarrow> discovery_run" where
  "issued_run i source sequence t context version =
     \<lparr>run_iss = \<lparr>run_id = i, run_source_id = source, run_sequence = sequence, run_issued_at = t,
                 run_expected = context, run_provider_contract_version = version\<rparr>,
      run_lifecycle = RUN_ISSUED, run_terminalized_at = None, run_terminal_reason = None, run_completed_at = None,
      run_provider_outcome = None, run_evidence = None, run_completion_context = None\<rparr>"

definition claim_active_run :: "uuid \<Rightarrow> uuid \<Rightarrow> unit body" where
  "claim_active_run i run =
     one_row (update_sources (\<lambda>x. src_id x = i \<and> src_active_discovery_run_id x = None)
                (\<lambda>x. x\<lparr>src_active_discovery_run_id := Some run\<rparr>))
       ''discovery run could not claim source ownership''"

definition issue_run_body :: "clock \<Rightarrow> uuid \<Rightarrow> uuid \<times> int \<Rightarrow> unit body" where
  "issue_run_body now fresh x =
     (case x of (i, version) \<Rightarrow>
      seq (source_row i) (\<lambda>source.
      need (version = PROVIDER_CONTRACT_VERSION) (ValueError ''provider contract version is unsupported'')
     (need (version = src_provider_contract_version source)
        (AuthorityConflict ''provider contract version does not match current source configuration'')
     (need (src_active_discovery_run_id source = None)
        (AuthorityConflict ''inventory source already has an active discovery run'')
     (seq (endpoint_row i) (\<lambda>endpoint.
      let old = src_last_issued_run_sequence source in
      andthen (one_row (update_sources (\<lambda>x. src_id x = i \<and> src_last_issued_run_sequence x = old
                                              \<and> src_active_discovery_run_id x = None)
                          (\<lambda>x. x\<lparr>src_last_issued_run_sequence := old + 1\<rparr>))
                 ''discovery run issuance lost source ownership'')
     (andthen (commit (insert_discovery_run (issued_run fresh i (old + 1) (now 0) (current_context source endpoint) version)))
     (andthen (claim_active_run i fresh) (publish (now 1))))))))))"

definition issue_run_args :: "uuid \<Rightarrow> int \<Rightarrow> (uuid \<times> int) result" where
  "issue_run_args i version =
     bindE (require_uuid i ''inventory_source_id'') (\<lambda>s.
     bindE (require_positive_integer version ''provider_contract_version'') (\<lambda>v. Inr (s, v)))"

definition issue_discovery_run ::
    "clock \<Rightarrow> uuid \<Rightarrow> uuid \<Rightarrow> int \<Rightarrow> authority_db \<Rightarrow> authority_db \<times> discovery_run result" where
  "issue_discovery_run now fresh i version db =
     run_op (issue_run_args i version) (issue_run_body now fresh) (\<lambda>x. then_run fresh) db"

definition require_exact_run_owner :: "inventory_source \<Rightarrow> discovery_run \<Rightarrow> uuid \<Rightarrow> uuid \<Rightarrow> 'a body \<Rightarrow> 'a body" where
  "require_exact_run_owner source run i j k =
     need (run_source_id (run_iss run) = i) (AuthorityConflict ''discovery run belongs to another source'')
    (need (src_active_discovery_run_id source = Some j)
       (AuthorityConflict ''discovery run is not the active source owner'') k)"

definition require_nonterminal_run :: "discovery_run \<Rightarrow> 'a body \<Rightarrow> 'a body" where
  "require_nonterminal_run run k = need (nonterminal_run run) (AuthorityConflict ''discovery run is already terminal'') k"

definition source_and_run :: "uuid \<Rightarrow> uuid \<Rightarrow> (uuid \<times> uuid) result" where
  "source_and_run i j =
     bindE (require_uuid i ''inventory_source_id'') (\<lambda>s. bindE (require_uuid j ''run_id'') (\<lambda>r. Inr (s, r)))"

definition mark_running_body :: "clock \<Rightarrow> uuid \<times> uuid \<Rightarrow> unit body" where
  "mark_running_body now x =
     (case x of (i, j) \<Rightarrow>
      seq (source_row i) (\<lambda>source.
      seq (run_row j) (\<lambda>run.
      require_exact_run_owner source run i j
     (need (run_lifecycle run = RUN_ISSUED) (AuthorityConflict ''only an issued discovery run can begin running'')
     (andthen (any_rows (update_discovery_runs (\<lambda>r. run_id (run_iss r) = j) (\<lambda>r. r\<lparr>run_lifecycle := RUN_RUNNING\<rparr>)))
        (publish (now 0)))))))"

definition mark_discovery_run_running ::
    "clock \<Rightarrow> uuid \<Rightarrow> uuid \<Rightarrow> authority_db \<Rightarrow> authority_db \<times> discovery_run result" where
  "mark_discovery_run_running now i j db =
     run_op (source_and_run i j) (mark_running_body now) (\<lambda>x. then_run j) db"

section \<open>Ending a run\<close>

definition release_run :: "uuid \<Rightarrow> uuid \<Rightarrow> unit body" where
  "release_run i j =
     one_row (update_sources (\<lambda>x. src_id x = i \<and> src_active_discovery_run_id x = Some j)
                (\<lambda>x. x\<lparr>src_active_discovery_run_id := None\<rparr>))
       ''discovery run no longer owns the source''"

definition abandoned_run :: "time \<Rightarrow> string \<Rightarrow> discovery_run \<Rightarrow> discovery_run" where
  "abandoned_run t reason r =
     r\<lparr>run_lifecycle := RUN_ABANDONED, run_terminalized_at := Some t, run_terminal_reason := Some reason\<rparr>"

definition terminalize_abandoned_run :: "uuid \<Rightarrow> time \<Rightarrow> string \<Rightarrow> unit body" where
  "terminalize_abandoned_run j t reason =
     one_row (update_discovery_runs (\<lambda>r. run_id (run_iss r) = j \<and> nonterminal_run r) (abandoned_run t reason))
       ''discovery run could not be abandoned''"

definition abandon_args :: "uuid \<Rightarrow> uuid \<Rightarrow> string \<Rightarrow> (uuid \<times> uuid \<times> string) result" where
  "abandon_args i j reason =
     bindE (source_and_run i j) (\<lambda>(s, r). bindE (require_text reason ''reason'' 500) (\<lambda>v. Inr (s, r, v)))"

definition abandon_body :: "clock \<Rightarrow> uuid \<times> uuid \<times> string \<Rightarrow> unit body" where
  "abandon_body now x =
     (case x of (i, j, reason) \<Rightarrow>
      seq (source_row i) (\<lambda>source.
      seq (run_row j) (\<lambda>run.
      require_exact_run_owner source run i j
     (require_nonterminal_run run
     (andthen (release_run i j)
     (andthen (terminalize_abandoned_run j (now 0) reason) (publish (now 1))))))))"

definition abandon_discovery_run ::
    "clock \<Rightarrow> uuid \<Rightarrow> uuid \<Rightarrow> string \<Rightarrow> authority_db \<Rightarrow> authority_db \<times> discovery_run result" where
  "abandon_discovery_run now i j reason db =
     run_op (abandon_args i j reason) (abandon_body now) (\<lambda>x. then_run j) db"

definition run_context_is_current :: "inventory_source \<Rightarrow> source_endpoint \<Rightarrow> discovery_run \<Rightarrow> bool" where
  "run_context_is_current source endpoint run \<longleftrightarrow>
     run_expected (run_iss run) = current_context source endpoint
     \<and> src_provider_contract_version source = run_provider_contract_version (run_iss run)"

definition completed_run ::
    "time \<Rightarrow> run_outcome \<Rightarrow> string option \<Rightarrow> completion_evidence \<Rightarrow> run_context option \<Rightarrow> discovery_run \<Rightarrow> discovery_run" where
  "completed_run t outcome reason evidence context r =
     r\<lparr>run_lifecycle := RUN_COMPLETED, run_terminalized_at := Some t, run_terminal_reason := reason,
       run_completed_at := Some t, run_provider_outcome := Some outcome, run_evidence := Some evidence,
       run_completion_context := context\<rparr>"

definition complete_run ::
    "discovery_run \<Rightarrow> time \<Rightarrow> run_outcome \<Rightarrow> string option \<Rightarrow> completion_evidence \<Rightarrow> run_context option \<Rightarrow> unit body" where
  "complete_run run t outcome reason evidence context =
     one_row (update_discovery_runs (\<lambda>r. run_id (run_iss r) = run_id (run_iss run) \<and> nonterminal_run r)
                (completed_run t outcome reason evidence context))
       ''discovery run could not be finalized''"

definition update_completion_provenance :: "uuid \<Rightarrow> int \<Rightarrow> run_outcome \<Rightarrow> unit body" where
  "update_completion_provenance i sequence outcome =
     commit (update_source_health
       (\<lambda>h. sh_source_id h = i \<and> (case sh_latest_completed_run_sequence h of None \<Rightarrow> True | Some n \<Rightarrow> n < sequence))
       (\<lambda>h. h\<lparr>sh_latest_completed_run_sequence := Some sequence, sh_latest_completed_outcome := Some outcome\<rparr>))"

section \<open>Freshness of an observation\<close>

text \<open>An unreadable text and one without a time zone are refused with the same message here.\<close>

definition parse_timestamp :: "stamp \<Rightarrow> string \<Rightarrow> time result" where
  "parse_timestamp v field =
     checkE (stamp_text v \<noteq> []) (ValueError (field @ '' must be a timestamp''))
    (case stamp_instant v of
       None \<Rightarrow> Inl (ValueError (field @ '' must be an ISO timestamp''))
     | Some t \<Rightarrow> Inr t)"

fun parse_timestamps :: "(stamp \<times> string) list \<Rightarrow> time list result" where
  "parse_timestamps [] = Inr []"
| "parse_timestamps ((v, field) # vs) =
     bindE (parse_timestamp v field) (\<lambda>t. bindE (parse_timestamps vs) (\<lambda>ts. Inr (t # ts)))"

definition observation_stamps :: "discovery_snapshot \<Rightarrow> (stamp \<times> string) list" where
  "observation_stamps s =
     (snap_observed_at s, ''observed_at'')
       # map (\<lambda>n. (dn_observed_at n, ''node observed_at'')) (snap_nodes s)
       @ map (\<lambda>r. (dv_observed_at r, ''resource observed_at'')) (snap_resources s)"

definition freshness_reference_at :: "discovery_snapshot \<Rightarrow> time result" where
  "freshness_reference_at s =
     bindE (parse_timestamps (observation_stamps s)) (\<lambda>ts. Inr (foldr min (tl ts) (hd ts)))"

text \<open>\<open>datetime.max\<close> in microseconds; adding a \<open>timedelta\<close> past it raises.\<close>

definition MAX_DATETIME :: time where
  "MAX_DATETIME = 253402300799999999"

definition freshness_deadline :: "time \<Rightarrow> int \<Rightarrow> time result" where
  "freshness_deadline reference seconds =
     (let deadline = reference + seconds * 1000000 in
      checkE (deadline \<le> MAX_DATETIME) (OverflowError ''date value out of range'') (Inr deadline))"

definition freshness_at_commit :: "time \<Rightarrow> time \<Rightarrow> time \<Rightarrow> source_freshness \<times> health_origin \<times> string" where
  "freshness_at_commit reference deadline now =
     (if now < reference then (STALE, DISCOVERY_RUN, ''clock_anomaly_future_observation'')
      else if deadline \<le> now then (STALE, TIME_EXPIRY, ''freshness_deadline_elapsed_before_commit'')
      else (FRESH, DISCOVERY_RUN, ''successful_authoritative_reconciliation''))"

section \<open>A successful run\<close>

definition validate_snapshot_issuance :: "discovery_snapshot \<Rightarrow> discovery_run \<Rightarrow> 'a body \<Rightarrow> 'a body" where
  "validate_snapshot_issuance s run k =
     need (snap_run_id s = run_id (run_iss run) \<and> snap_source_id s = run_source_id (run_iss run)
           \<and> snap_sequence s = run_sequence (run_iss run) \<and> snap_expected s = run_expected (run_iss run)
           \<and> snap_provider_contract_version s = run_provider_contract_version (run_iss run))
       (AuthorityConflict ''normalized snapshot does not match immutable run issuance context'')
    (need (snap_completeness s = BASE_COMPLETE)
       (ValueError ''successful reconciliation requires a complete baseline'') k)"

definition healthy_source ::
    "inventory_source \<Rightarrow> source_endpoint \<Rightarrow> discovery_snapshot \<Rightarrow> int \<Rightarrow> time \<Rightarrow> time
      \<Rightarrow> source_freshness \<times> health_origin \<times> string \<Rightarrow> source_runtime_health \<Rightarrow> source_runtime_health" where
  "healthy_source source endpoint s sequence reference deadline verdict h =
     h\<lparr>sh_health := HEALTHY, sh_freshness := fst verdict, sh_origin := fst (snd verdict),
       sh_reason := snd (snd verdict), sh_latest_completed_run_sequence := Some sequence,
       sh_latest_completed_outcome := Some RUN_SUCCESS, sh_last_health_run_sequence := Some sequence,
       sh_last_run_health_outcome := Some RUN_SUCCESS,
       sh_last_successful_observed_at := Some (stamp_text (snap_observed_at s)),
       sh_freshness_reference_at := Some reference, sh_freshness_valid_until := Some deadline,
       sh_committed_source_config_revision := Some (src_config_revision source),
       sh_committed_endpoint_id := Some (ep_id endpoint),
       sh_committed_canonical_transport_locator := Some (ep_canonical_transport_locator endpoint),
       sh_committed_canonicalization_contract_version := Some (ep_canonicalization_contract_version endpoint),
       sh_committed_transport_trust_revision := Some (ep_transport_trust_revision endpoint)\<rparr>"

definition reject_changed_context ::
    "clock \<Rightarrow> uuid \<Rightarrow> discovery_run \<Rightarrow> completion_evidence \<Rightarrow> reconciliation_summary option body" where
  "reject_changed_context now i run evidence =
     andthen (release_run i (run_id (run_iss run)))
    (andthen (complete_run run (now 0) RUN_INVALID (Some ''completion_context_changed'') evidence None)
    (andthen (update_completion_provenance i (run_sequence (run_iss run)) RUN_INVALID)
    (andthen (publish (now 1)) (ret None))))"

definition health_row :: "uuid \<Rightarrow> source_runtime_health body" where
  "health_row i = fetch (\<lambda>db. case row_by sh_source_id i (source_healths db) of
     None \<Rightarrow> Inl (AuthorityInvariantError ''source runtime health is missing'') | Some h \<Rightarrow> Inr h)"

definition advances :: "int \<Rightarrow> int option \<Rightarrow> bool" where
  "advances sequence previous \<longleftrightarrow> null_or (\<lambda>n. n < sequence) previous"

definition accept_snapshot ::
    "clock \<Rightarrow> reconcile_uuids \<Rightarrow> uuid \<Rightarrow> discovery_run \<Rightarrow> inventory_source \<Rightarrow> source_endpoint \<Rightarrow> discovery_snapshot
      \<Rightarrow> completion_evidence \<Rightarrow> reconciliation_summary option body" where
  "accept_snapshot now u i run source endpoint s evidence =
     (let sequence = run_sequence (run_iss run); t = now 0 in
      seq (health_row i) (\<lambda>health.
      need (advances sequence (src_last_committed_run_sequence source))
        (AuthorityConflict ''successful run does not advance committed sequence'')
     (need (advances sequence (sh_last_health_run_sequence health))
        (AuthorityConflict ''successful run does not advance health sequence'')
     (seq (reconcile u s t) (\<lambda>summary.
      seq (provision_default_health_contracts t) (\<lambda>n.
      seq (pure (freshness_reference_at s)) (\<lambda>reference.
      seq (pure (freshness_deadline reference (src_freshness_duration_seconds source))) (\<lambda>deadline.
      andthen (set_source i (\<lambda>x. x\<lparr>src_last_committed_run_sequence := Some sequence\<rparr>))
     (andthen (set_health i (healthy_source source endpoint s sequence reference deadline
                 (freshness_at_commit reference deadline t)))
     (andthen (release_run i (run_id (run_iss run)))
     (andthen (complete_run run t RUN_SUCCESS None evidence (Some (current_context source endpoint)))
     (andthen (publish_inventory (now 1)) (ret (Some summary))))))))))))))"

definition finalize_run_body ::
    "clock \<Rightarrow> reconcile_uuids \<Rightarrow> discovery_snapshot \<Rightarrow> (uuid \<times> uuid) \<times> completion_evidence
      \<Rightarrow> reconciliation_summary option body" where
  "finalize_run_body now u s x =
     (case x of ((i, j), evidence) \<Rightarrow>
      seq (source_row i) (\<lambda>source.
      seq (run_row j) (\<lambda>run.
      require_exact_run_owner source run i j
     (require_nonterminal_run run
     (validate_snapshot_issuance s run
     (seq (endpoint_row i) (\<lambda>endpoint.
      if run_context_is_current source endpoint run
      then accept_snapshot now u i run source endpoint s evidence
      else reject_changed_context now i run evidence)))))))"

definition finalize_successful_discovery_run ::
    "clock \<Rightarrow> reconcile_uuids \<Rightarrow> uuid \<Rightarrow> uuid \<Rightarrow> discovery_snapshot \<Rightarrow> authority_db
      \<Rightarrow> authority_db \<times> reconciliation_summary result" where
  "finalize_successful_discovery_run now u i j s db =
     run_op (bindE (source_and_run i j) (\<lambda>p. bindE (evidence_from_snapshot s) (\<lambda>e. Inr (p, e))))
       (finalize_run_body now u s)
       (\<lambda>x outcome db. case outcome of
          None \<Rightarrow> Inl (AuthorityConflict ''discovery run context changed; completion audited without reconciliation'')
        | Some summary \<Rightarrow> Inr summary) db"

section \<open>A failed run\<close>

fun failed_outcome :: "baseline_completeness \<Rightarrow> run_outcome result" where
  "failed_outcome BASE_COMPLETE = Inl (ValueError ''complete outcome must use successful reconciliation'')"
| "failed_outcome BASE_PARTIAL = Inr RUN_PARTIAL"
| "failed_outcome BASE_CONFIGURATION_ERROR = Inr RUN_CONFIGURATION_ERROR"
| "failed_outcome BASE_SOURCE_UNAVAILABLE = Inr RUN_SOURCE_UNAVAILABLE"
| "failed_outcome BASE_INVALID = Inr RUN_INVALID"

definition failed_health :: "run_outcome \<Rightarrow> source_health" where
  "failed_health outcome =
     (case outcome of RUN_SOURCE_UNAVAILABLE \<Rightarrow> SOURCE_UNAVAILABLE
      | RUN_CONFIGURATION_ERROR \<Rightarrow> CONFIGURATION_ERROR | _ \<Rightarrow> DEGRADED)"

definition failed_run_args ::
    "uuid \<Rightarrow> uuid \<Rightarrow> completion_evidence \<Rightarrow> string \<Rightarrow> (uuid \<times> uuid \<times> run_outcome \<times> string) result" where
  "failed_run_args i j evidence reason =
     bindE (failed_outcome (ce_completeness evidence)) (\<lambda>outcome.
     bindE (source_and_run i j) (\<lambda>(s, r).
     bindE (require_text reason ''reason'' 500) (\<lambda>v.
     bindE (case ce_observed_at evidence of None \<Rightarrow> Inr () | Some st \<Rightarrow>
              bindE (parse_timestamp st ''observed_at'') (\<lambda>_. Inr ())) (\<lambda>_. Inr (s, r, outcome, v)))))"

definition apply_failed_health :: "uuid \<Rightarrow> int \<Rightarrow> run_outcome \<Rightarrow> string \<Rightarrow> unit body" where
  "apply_failed_health i sequence outcome reason =
     seq (health_row i) (\<lambda>health.
     if advances sequence (sh_last_health_run_sequence health)
     then set_health i (\<lambda>h. h\<lparr>sh_health := failed_health outcome, sh_freshness := STALE, sh_origin := DISCOVERY_RUN,
            sh_reason := reason, sh_last_health_run_sequence := Some sequence, sh_last_run_health_outcome := Some outcome\<rparr>)
     else ret ())"

definition fail_run_body :: "clock \<Rightarrow> completion_evidence \<Rightarrow> uuid \<times> uuid \<times> run_outcome \<times> string \<Rightarrow> unit body" where
  "fail_run_body now evidence x =
     (case x of (i, j, outcome, reason) \<Rightarrow>
      seq (source_row i) (\<lambda>source.
      seq (run_row j) (\<lambda>run.
      require_exact_run_owner source run i j
     (require_nonterminal_run run
     (seq (endpoint_row i) (\<lambda>endpoint.
      let sequence = run_sequence (run_iss run) in
      andthen (release_run i j)
     (andthen (complete_run run (now 0) outcome (Some reason) evidence None)
     (andthen (if run_context_is_current source endpoint run then apply_failed_health i sequence outcome reason else ret ())
     (andthen (update_completion_provenance i sequence outcome) (publish (now 1)))))))))))"

definition finalize_failed_discovery_run ::
    "clock \<Rightarrow> uuid \<Rightarrow> uuid \<Rightarrow> completion_evidence \<Rightarrow> string \<Rightarrow> authority_db \<Rightarrow> authority_db \<times> discovery_run result" where
  "finalize_failed_discovery_run now i j evidence reason db =
     run_op (failed_run_args i j evidence reason) (fail_run_body now evidence) (\<lambda>x. then_run j) db"

section \<open>Expiry\<close>

definition materialize_source_expiry ::
    "clock \<Rightarrow> uuid \<Rightarrow> int option \<Rightarrow> time option \<Rightarrow> authority_db \<Rightarrow> authority_db \<times> bool result" where
  "materialize_source_expiry now i expected_run_sequence expected_deadline db =
     run_op (require_uuid i ''inventory_source_id'')
       (\<lambda>s. materialize_due_expiry s (now 0) expected_run_sequence expected_deadline) (\<lambda>x r db. Inr r) db"

definition source_is_fresh_for_future_mutation :: "clock \<Rightarrow> uuid \<Rightarrow> authority_db \<Rightarrow> authority_db \<times> bool result" where
  "source_is_fresh_for_future_mutation now i db =
     run_op (require_uuid i ''inventory_source_id'')
       (\<lambda>s. seq (materialize_due_expiry s (now 0) None None) (\<lambda>b. fetch (\<lambda>db. source_has_current_authority db s)))
       (\<lambda>x r db. Inr r) db"

end
