(* ===== verification/Scan_Operations.thy ===== *)
theory Scan_Operations
  imports Authority_Body
begin

text \<open>
  The package scan and plan approval lifecycle of \<open>app/inventory/authority.py\<close>, with the schema of
  the tables it writes: a scan run is inserted running and completed once, the exact packages of a
  run are inserted before its completion, and a resource has one approval, replaced in place.
\<close>

section \<open>\<open>package_scan_runs\<close>\<close>

definition scan_context_checks :: "scan_context \<Rightarrow> bool" where
  "scan_context_checks c \<longleftrightarrow>
     0 < cx_committed_source_config_revision c \<and> 0 < cx_committed_canonicalization_contract_version c
     \<and> 0 < cx_committed_transport_trust_revision c \<and> 0 < cx_provider_contract_version c
     \<and> 0 < cx_expected_locator_generation c \<and> 0 < cx_expected_resource_continuity_revision c
     \<and> 0 < cx_expected_vmid c \<and> sql_nonblank (cx_expected_node_name c)"

text \<open>
  The CHECK constraints. A comparison with a NULL outcome is NULL, which a CHECK accepts; the
  lifecycle constraint already fixes where the outcome is NULL.
\<close>

definition scan_run_checks :: "scan_run \<Rightarrow> bool" where
  "scan_run_checks r \<longleftrightarrow>
     scan_context_checks (scan_ctx r) \<and> 0 < scan_attempt_sequence r
     \<and> null_or (\<lambda>m. length m \<le> 500) (scan_error_message r)
     \<and> null_or (\<lambda>v. length v = 64) (scan_plan_fingerprint r)
     \<and> scan_reboot_required r \<noteq> Some False
     \<and> (case scan_lifecycle r of
          SCAN_RUNNING \<Rightarrow> scan_completed_at r = None \<and> scan_outcome r = None \<and> scan_failure_class r = None
            \<and> scan_error_message r = None \<and> scan_os_id r = None \<and> scan_os_version r = None
            \<and> scan_pending_count r = None \<and> scan_plan_fingerprint r = None \<and> scan_reboot_required r = None
        | SCAN_COMPLETED \<Rightarrow> scan_completed_at r \<noteq> None \<and> scan_outcome r \<noteq> None)
     \<and> (scan_outcome r = Some SCAN_SUCCESS \<longrightarrow>
          scan_failure_class r = None \<and> scan_error_message r = None \<and> scan_os_id r \<noteq> None
          \<and> scan_os_version r \<noteq> None \<and> scan_pending_count r \<noteq> None \<and> scan_plan_fingerprint r \<noteq> None)
     \<and> (scan_outcome r \<in> {Some SCAN_FAILED, Some SCAN_INTERRUPTED} \<longrightarrow>
          scan_failure_class r \<noteq> None \<and> scan_error_message r \<noteq> None
          \<and> scan_pending_count r = None \<and> scan_plan_fingerprint r = None \<and> scan_reboot_required r = None)"

abbreviation scan_resource_id :: "scan_run \<Rightarrow> uuid" where
  "scan_resource_id r \<equiv> cx_resource_id (scan_ctx r)"

text \<open>Primary key, \<open>UNIQUE(resource_id, attempt_sequence)\<close>, \<open>one_active_package_scan_per_resource\<close>.\<close>

definition scan_indexes :: "scan_run list \<Rightarrow> bool" where
  "scan_indexes rs \<longleftrightarrow>
     distinct (map scan_run_id rs)
     \<and> distinct (map (\<lambda>r. (scan_resource_id r, scan_attempt_sequence r)) rs)
     \<and> unique_non_null (\<lambda>r. if scan_lifecycle r = SCAN_RUNNING then Some (scan_resource_id r) else None) rs"

definition scan_foreign_keys :: "authority_db \<Rightarrow> scan_context \<Rightarrow> bool" where
  "scan_foreign_keys db c \<longleftrightarrow>
     (cx_inventory_source_id c, cx_resource_id c) \<in> (\<lambda>r. (res_source_id r, res_id r)) ` set (resources db)
     \<and> cx_expected_binding_id c \<in> bind_id ` set (bindings db)
     \<and> (cx_inventory_source_id c, cx_expected_node_id c) \<in> (\<lambda>n. (node_source_id n, node_id n)) ` set (nodes db)"

definition insert_scan_run :: "scan_run \<Rightarrow> authority_db \<Rightarrow> authority_db result" where
  "insert_scan_run r db =
     checkE (scan_run_checks r \<and> scan_foreign_keys db (scan_ctx r) \<and> scan_indexes (scan_runs db @ [r]))
       (IntegrityError ''package_scan_runs'') (Inr (db\<lparr>scan_runs := scan_runs db @ [r]\<rparr>))"

text \<open>The triggers: issuance columns are immutable and a completed run is never updated.\<close>

definition scan_update_triggers :: "scan_run \<Rightarrow> scan_run \<Rightarrow> bool" where
  "scan_update_triggers old new \<longleftrightarrow>
     scan_lifecycle old = SCAN_RUNNING \<and> scan_run_id new = scan_run_id old \<and> scan_ctx new = scan_ctx old
     \<and> scan_attempt_sequence new = scan_attempt_sequence old \<and> scan_started_at new = scan_started_at old"

definition update_scan_run :: "uuid \<Rightarrow> (scan_run \<Rightarrow> scan_run) \<Rightarrow> authority_db \<Rightarrow> authority_db result" where
  "update_scan_run i s db =
     (let rs = rows_update (\<lambda>r. scan_run_id r = i) s (scan_runs db) in
      checkE (list_all (\<lambda>r. scan_run_id r = i \<longrightarrow> scan_update_triggers r (s r) \<and> scan_run_checks (s r)) (scan_runs db)
              \<and> scan_indexes rs)
        (IntegrityError ''package_scan_runs'') (Inr (db\<lparr>scan_runs := rs\<rparr>)))"

section \<open>\<open>package_scan_packages\<close>\<close>

definition scan_package_columns_check :: "package \<Rightarrow> bool" where
  "scan_package_columns_check p \<longleftrightarrow>
     sql_nonblank (pkg_name p)
     \<and> (case pkg_architecture p of [] \<Rightarrow> False
        | c # _ \<Rightarrow> (let n = of_char c :: nat in 97 \<le> n \<and> n \<le> 122))
     \<and> (\<forall>c \<in> set (pkg_architecture p). let n = of_char c :: nat in
          (97 \<le> n \<and> n \<le> 122) \<or> (48 \<le> n \<and> n \<le> 57) \<or> c = CHR ''-'')
     \<and> 2 \<le> length (pkg_architecture p) \<and> length (pkg_architecture p) \<le> 32
     \<and> sql_nonblank (pkg_installed_version p) \<and> sql_nonblank (pkg_candidate_version p)
     \<and> null_or (\<lambda>v. length v \<le> 500) (pkg_origin p)
     \<and> null_or (\<lambda>v. length v \<le> 500) (pkg_description p)
     \<and> pkg_security p \<in> {None, Some True}"

definition insert_scan_package :: "package_row \<Rightarrow> authority_db \<Rightarrow> authority_db result" where
  "insert_scan_package r db =
     checkE (list_ex (\<lambda>x. scan_run_id x = prow_owner r \<and> scan_lifecycle x = SCAN_RUNNING) (scan_runs db)
             \<and> scan_package_columns_check (prow_package r)
             \<and> (prow_owner r, prow_index r) \<notin> (\<lambda>x. (prow_owner x, prow_index x)) ` set (scan_packages db)
             \<and> (prow_owner r, plan_key (prow_package r))
                 \<notin> (\<lambda>x. (prow_owner x, plan_key (prow_package x))) ` set (scan_packages db))
       (IntegrityError ''package_scan_packages'')
       (Inr (db\<lparr>scan_packages := scan_packages db @ [r]\<rparr>))"

section \<open>\<open>package_plan_approvals\<close> and the claim of a refresh request\<close>

text \<open>\<open>INSERT ... ON CONFLICT(resource_id) DO UPDATE\<close>.\<close>

definition upsert_approval :: "approval \<Rightarrow> authority_db \<Rightarrow> authority_db result" where
  "upsert_approval a db =
     (let rs = (if appr_resource_id a \<in> appr_resource_id ` set (approvals db)
                then rows_update (\<lambda>x. appr_resource_id x = appr_resource_id a) (\<lambda>_. a) (approvals db)
                else approvals db @ [a]) in
      checkE (length (appr_plan_fingerprint a) = 64
              \<and> appr_resource_id a \<in> res_id ` set (resources db)
              \<and> appr_reviewed_scan_run_id a \<in> scan_run_id ` set (scan_runs db)
              \<and> distinct (map approval_id rs))
        (IntegrityError ''package_plan_approvals'') (Inr (db\<lparr>approvals := rs\<rparr>)))"

text \<open>
  \<open>UPDATE package_update_post_scan_requests SET scan_run_id=? WHERE job_id=? AND scan_run_id IS NULL\<close>
  and its \<open>rowcount\<close>; the link trigger asks for a running scan of the request's own resource.
\<close>

definition claim_post_scan_request :: "uuid \<Rightarrow> uuid \<Rightarrow> authority_db \<Rightarrow> authority_db result" where
  "claim_post_scan_request run i db =
     (let w = (\<lambda>q. ps_job_id q = i \<and> ps_scan_run_id q = None);
          rs = rows_update w (\<lambda>q. q\<lparr>ps_scan_run_id := Some run\<rparr>) (post_scan_requests db) in
      checkE (list_all (\<lambda>q. w q \<longrightarrow> list_ex (\<lambda>r. scan_run_id r = run
                     \<and> scan_resource_id r = ps_resource_id q \<and> scan_lifecycle r = SCAN_RUNNING) (scan_runs db)
                   \<and> length run = 36) (post_scan_requests db)
              \<and> unique_non_null ps_scan_run_id rs)
        (IntegrityError ''package_update_post_scan_requests'')
     (checkE (rows_matched w (post_scan_requests db) = 1)
        (AuthorityConflict ''post-update package scan request lost durable ownership'')
        (Inr (db\<lparr>post_scan_requests := rs\<rparr>))))"

section \<open>Issuing a scan\<close>

text \<open>
  \<open>_package_scan_run\<close>: a successful run whose count does not match its rows is an invariant error.
\<close>

record scan_view =
  sv_run :: scan_run
  sv_packages :: "package list"

definition package_scan_run_of :: "authority_db \<Rightarrow> scan_run \<Rightarrow> scan_view result" where
  "package_scan_run_of db r =
     (let packages = map (\<lambda>x. read_package (prow_package x)) (scan_packages_of (scan_run_id r) db) in
      checkE (scan_outcome r \<noteq> Some SCAN_SUCCESS \<or> scan_pending_count r = Some (length packages))
        (AuthorityInvariantError ''successful package scan pending count does not match package rows'')
        (Inr \<lparr>sv_run = r, sv_packages = packages\<rparr>))"

definition store_package_scan_run :: "authority_db \<Rightarrow> uuid \<Rightarrow> scan_view result" where
  "store_package_scan_run db i = bindE (require_package_scan_run_row db i) (package_scan_run_of db)"

text \<open>The row \<open>_insert_package_scan_run\<close> writes, from the target, its source and its health record.\<close>

definition new_scan_run ::
    "uuid \<Rightarrow> nat \<Rightarrow> time \<Rightarrow> resource_target \<Rightarrow> locator_binding \<Rightarrow> inventory_node \<Rightarrow> inventory_source
      \<Rightarrow> source_runtime_health \<Rightarrow> scan_run result" where
  "new_scan_run fresh attempt t target binding node source health =
     bindE (int_column (sh_committed_source_config_revision health)) (\<lambda>config.
     bindE (int_column (sh_committed_canonicalization_contract_version health)) (\<lambda>canonicalization.
     bindE (int_column (sh_committed_transport_trust_revision health)) (\<lambda>trust.
       Inr \<lparr>scan_run_id = fresh,
         scan_ctx = \<lparr>cx_resource_id = res_id (tg_resource target),
           cx_inventory_source_id = res_source_id (tg_resource target),
           cx_committed_source_config_revision = config,
           cx_committed_endpoint_id = str_column (sh_committed_endpoint_id health),
           cx_committed_canonical_transport_locator = str_column (sh_committed_canonical_transport_locator health),
           cx_committed_canonicalization_contract_version = canonicalization,
           cx_committed_transport_trust_revision = trust,
           cx_provider_contract_version = src_provider_contract_version source,
           cx_expected_binding_id = bind_id binding, cx_expected_locator_generation = bind_generation binding,
           cx_expected_resource_continuity_revision = res_continuity_revision (tg_resource target),
           cx_expected_vmid = res_vmid (tg_resource target),
           cx_expected_node_id = str_column (res_current_node_id (tg_resource target)),
           cx_expected_node_name = node_external_name node\<rparr>,
         scan_attempt_sequence = attempt, scan_started_at = t, scan_lifecycle = SCAN_RUNNING,
         scan_completed_at = None, scan_outcome = None, scan_failure_class = None, scan_error_message = None,
         scan_os_id = None, scan_os_version = None, scan_pending_count = None, scan_plan_fingerprint = None,
         scan_reboot_required = None\<rparr>)))"

definition next_attempt_sequence :: "uuid \<Rightarrow> authority_db \<Rightarrow> nat" where
  "next_attempt_sequence i db =
     Suc (max_or_zero (map scan_attempt_sequence (filter (\<lambda>r. scan_resource_id r = i) (scan_runs db))))"

text \<open>\<open>except sqlite3.IntegrityError\<close>: the insert refused by the schema is a conflict.\<close>

definition insert_scan_run_or_conflict :: "scan_run \<Rightarrow> authority_db \<Rightarrow> authority_db result" where
  "insert_scan_run_or_conflict r db =
     (case insert_scan_run r db of
        Inl e \<Rightarrow> Inl (if is_integrity_error e then AuthorityConflict ''resource already has an active package scan'' else e)
      | Inr db' \<Rightarrow> Inr db')"

definition insert_package_scan_run :: "time \<Rightarrow> time \<Rightarrow> uuid \<Rightarrow> uuid \<Rightarrow> bool body" where
  "insert_package_scan_run t t' resource fresh =
     seq (fetch (\<lambda>db. require_package_scan_target db resource)) (\<lambda>target.
     let src = res_source_id (tg_resource target) in
     need (res_type (tg_resource target) = ''lxc'') (AuthorityConflict ''package scanning supports LXC resources only'')
    (seq (materialize_due_expiry src t None None) (\<lambda>_.
     seq (fetch (\<lambda>db. source_has_current_authority db src)) (\<lambda>authoritative.
     if \<not> authoritative then ret False
     else
       seq (fetch (\<lambda>db. require_source_row db src)) (\<lambda>source.
       seq (fetch (\<lambda>db. require_active_endpoint_row db src)) (\<lambda>_.
       seq (fetch (\<lambda>db. require_source_health_row db src)) (\<lambda>health.
       seq (fetch (\<lambda>db. new_scan_run fresh (next_attempt_sequence resource db) t target
                          (the (tg_binding target)) (the (tg_node target)) source health)) (\<lambda>run.
       andthen (commit (insert_scan_run_or_conflict run))
      (andthen (publish t') (ret True))))))))))"

definition issue_package_scan ::
    "clock \<Rightarrow> uuid \<Rightarrow> uuid \<Rightarrow> authority_db \<Rightarrow> authority_db \<times> scan_view result" where
  "issue_package_scan now fresh resource =
     run_op (require_uuid resource ''resource_id'')
       (\<lambda>r. insert_package_scan_run (now 0) (now 1) r fresh)
       (\<lambda>r inserted db. checkE inserted (AuthorityConflict ''package scan requires fresh healthy inventory authority'')
          (store_package_scan_run db fresh))"

text \<open>The claim of a succeeded job's refresh request: the linked run, or None when refused.\<close>

definition post_update_scan_body :: "clock \<Rightarrow> uuid \<Rightarrow> uuid \<Rightarrow> uuid option body" where
  "post_update_scan_body now fresh i =
     seq (fetch (\<lambda>db. case row_by ps_job_id i (post_scan_requests db) of
            None \<Rightarrow> Inl (AuthorityNotFound ''post-update package scan request does not exist'')
          | Some q \<Rightarrow> Inr q)) (\<lambda>q.
     if ps_scan_run_id q \<noteq> None then ret (ps_scan_run_id q)
     else
       seq (job_row i) (\<lambda>j.
       need (status j = SUCCEEDED \<and> job_checkpoint j = HEALTH_COMPLETED
             \<and> job_health_outcome j = Some HEALTH_PASSED \<and> job_resource_id j = ps_resource_id q)
         (AuthorityInvariantError ''post-update package scan request is not owned by a succeeded job'')
      (seq (insert_package_scan_run (now 0) (now 1) (ps_resource_id q) fresh) (\<lambda>inserted.
       if \<not> inserted then ret None
       else andthen (commit (claim_post_scan_request fresh i)) (ret (Some fresh))))))"

definition issue_post_update_package_scan ::
    "clock \<Rightarrow> uuid \<Rightarrow> uuid \<Rightarrow> authority_db \<Rightarrow> authority_db \<times> scan_view result" where
  "issue_post_update_package_scan now fresh i =
     run_op (job_arg i) (post_update_scan_body now fresh)
       (\<lambda>_ linked db. case linked of
          None \<Rightarrow> Inl (AuthorityConflict ''post-update package scan requires fresh healthy inventory authority'')
        | Some run \<Rightarrow> store_package_scan_run db run)"

definition pending_post_update_package_scans :: "authority_db \<Rightarrow> (uuid \<times> uuid) list" where
  "pending_post_update_package_scans db =
     map (\<lambda>q. (ps_job_id q, ps_resource_id q)) (pending_post_update_package_scan_request_rows db None)"

section \<open>Completing a scan\<close>

text \<open>\<open>str.lower()\<close> on the characters of the model.\<close>

definition py_lower_char :: "char \<Rightarrow> char" where
  "py_lower_char c = (let n = of_char c :: nat in
     if (65 \<le> n \<and> n \<le> 90) \<or> (192 \<le> n \<and> n \<le> 222 \<and> n \<noteq> 215) then char_of (n + 32) else c)"

definition py_lower :: "string \<Rightarrow> string" where
  "py_lower = map py_lower_char"

definition require_running_package_scan :: "scan_run \<Rightarrow> unit body" where
  "require_running_package_scan r =
     need (scan_lifecycle r = SCAN_RUNNING) (AuthorityConflict ''package scan run is already terminal'') (ret ())"

definition failed_scan ::
    "time \<Rightarrow> package_scan_outcome \<Rightarrow> package_scan_failure \<Rightarrow> string \<Rightarrow> string option \<Rightarrow> string option
      \<Rightarrow> scan_run \<Rightarrow> scan_run" where
  "failed_scan t outcome failure message os_id os_version r =
     r\<lparr>scan_lifecycle := SCAN_COMPLETED, scan_completed_at := Some t, scan_outcome := Some outcome,
       scan_failure_class := Some failure, scan_error_message := Some message, scan_os_id := os_id,
       scan_os_version := os_version\<rparr>"

definition complete_failed_package_scan ::
    "uuid \<Rightarrow> time \<Rightarrow> package_scan_outcome \<Rightarrow> package_scan_failure \<Rightarrow> string \<Rightarrow> string option \<Rightarrow> string option
      \<Rightarrow> unit body" where
  "complete_failed_package_scan i t outcome failure message os_id os_version =
     commit (update_scan_run i (failed_scan t outcome failure message os_id os_version))"

definition successful_scan ::
    "time \<Rightarrow> string \<Rightarrow> string \<Rightarrow> nat \<Rightarrow> string \<Rightarrow> bool option \<Rightarrow> scan_run \<Rightarrow> scan_run" where
  "successful_scan t os_id os_version n fingerprint reboot r =
     r\<lparr>scan_lifecycle := SCAN_COMPLETED, scan_completed_at := Some t, scan_outcome := Some SCAN_SUCCESS,
       scan_os_id := Some os_id, scan_os_version := Some os_version, scan_pending_count := Some n,
       scan_plan_fingerprint := Some fingerprint,
       scan_reboot_required := (if reboot = Some True then Some True else None)\<rparr>"

record scan_report =
  rep_os_id :: string
  rep_os_version :: string
  rep_packages :: "package list"
  rep_reboot_required :: "bool option"

text \<open>The checks before the transaction: the report in canonical form with its fingerprint.\<close>

definition scan_report_args :: "uuid \<Rightarrow> scan_report \<Rightarrow> (uuid \<times> scan_report \<times> string) result" where
  "scan_report_args i rep =
     bindE (require_uuid i ''scan_run_id'') (\<lambda>run.
     bindE (require_text (rep_os_id rep) ''os_id'' 100) (\<lambda>os_id.
     bindE (require_text (rep_os_version rep) ''os_version'' 200) (\<lambda>os_version.
     checkE (py_lower os_id \<in> {''debian'', ''ubuntu''}) (ValueError ''successful package scan OS must be Debian or Ubuntu'')
    (bindE (validate_package_plan (rep_packages rep)) (\<lambda>packages.
     checkE (rep_reboot_required rep \<noteq> Some False) (ValueError ''reboot_required must be true or unknown'')
    (bindE (package_plan_fingerprint packages) (\<lambda>fingerprint.
       Inr (run, rep\<lparr>rep_os_id := py_lower os_id, rep_os_version := os_version, rep_packages := packages\<rparr>, fingerprint))))))))"

definition scan_package_rows :: "uuid \<Rightarrow> package list \<Rightarrow> package_row list" where
  "scan_package_rows i packages =
     map (\<lambda>(n, p). \<lparr>prow_owner = i, prow_index = n,
             prow_package = p\<lparr>pkg_security := (if pkg_security p = Some True then Some True else None)\<rparr>\<rparr>)
       (enumerate 0 packages)"

definition finalize_success_body :: "clock \<Rightarrow> uuid \<times> scan_report \<times> string \<Rightarrow> unit body" where
  "finalize_success_body now = (\<lambda>(i, rep, fingerprint).
     seq (fetch (\<lambda>db. require_package_scan_run_row db i)) (\<lambda>run.
     andthen (require_running_package_scan run)
    (seq (fetch (\<lambda>db. Inr (package_scan_context_is_current db (scan_ctx run)))) (\<lambda>current.
     andthen
       (if \<not> current then
          complete_failed_package_scan i (now 0) SCAN_FAILED STALE_TARGET
            ''resource binding or generation changed during package scan'' None None
        else
          andthen (commit (executemany insert_scan_package (scan_package_rows i (rep_packages rep))))
                  (commit (update_scan_run i (successful_scan (now 0) (rep_os_id rep) (rep_os_version rep)
                      (length (rep_packages rep)) fingerprint (rep_reboot_required rep)))))
       (publish (now 1))))))"

definition finalize_successful_package_scan ::
    "clock \<Rightarrow> uuid \<Rightarrow> scan_report \<Rightarrow> authority_db \<Rightarrow> authority_db \<times> scan_view result" where
  "finalize_successful_package_scan now i rep =
     run_op (scan_report_args i rep) (finalize_success_body now) (\<lambda>(i, _) _ db. store_package_scan_run db i)"

definition failed_scan_args ::
    "uuid \<Rightarrow> string \<Rightarrow> string option \<Rightarrow> string option \<Rightarrow> (uuid \<times> string \<times> string option \<times> string option) result" where
  "failed_scan_args i message os_id os_version =
     bindE (require_uuid i ''scan_run_id'') (\<lambda>run.
     bindE (require_text message ''error_message'' 500) (\<lambda>message.
     bindE (optional_bounded_text os_id ''os_id'' 100) (\<lambda>os_id.
     bindE (optional_bounded_text os_version ''os_version'' 200) (\<lambda>os_version.
       Inr (run, message, map_option py_lower os_id, os_version)))))"

definition finalize_failure_body ::
    "clock \<Rightarrow> package_scan_failure \<Rightarrow> uuid \<times> string \<times> string option \<times> string option \<Rightarrow> unit body" where
  "finalize_failure_body now failure = (\<lambda>(i, message, os_id, os_version).
     seq (fetch (\<lambda>db. require_package_scan_run_row db i)) (\<lambda>run.
     andthen (require_running_package_scan run)
    (andthen (complete_failed_package_scan i (now 0) SCAN_FAILED failure message os_id os_version)
     (publish (now 1)))))"

definition finalize_failed_package_scan ::
    "clock \<Rightarrow> uuid \<Rightarrow> package_scan_failure \<Rightarrow> string \<Rightarrow> string option \<Rightarrow> string option \<Rightarrow> authority_db
      \<Rightarrow> authority_db \<times> scan_view result" where
  "finalize_failed_package_scan now i failure message os_id os_version =
     run_op (failed_scan_args i message os_id os_version) (finalize_failure_body now failure)
       (\<lambda>(i, _) _ db. store_package_scan_run db i)"

definition RESTART_SCAN_REASON :: string where
  "RESTART_SCAN_REASON = ''backend restarted before package scan completed''"

text \<open>Running scans that no refresh request has claimed, in the order of the query.\<close>

definition interrupted_scans :: "authority_db \<Rightarrow> uuid list" where
  "interrupted_scans db =
     map scan_run_id (sort_key (\<lambda>r. (scan_resource_id r, scan_attempt_sequence r))
       (filter (\<lambda>r. scan_lifecycle r = SCAN_RUNNING
                    \<and> \<not> list_ex (\<lambda>q. ps_scan_run_id q = Some (scan_run_id r)) (post_scan_requests db))
         (scan_runs db)))"

fun interrupt_scans :: "time \<Rightarrow> uuid list \<Rightarrow> unit body" where
  "interrupt_scans t [] = ret ()"
| "interrupt_scans t (i # is) =
     andthen (complete_failed_package_scan i t SCAN_INTERRUPTED EXECUTION_FAILED RESTART_SCAN_REASON None None)
       (interrupt_scans t is)"

definition recover_scans_body :: "clock \<Rightarrow> unit \<Rightarrow> uuid list body" where
  "recover_scans_body now _ =
     seq (fetch (\<lambda>db. Inr (interrupted_scans db))) (\<lambda>recovered.
     andthen (interrupt_scans (now 0) recovered)
    (andthen (if recovered \<noteq> [] then publish (now 1) else ret ())
     (ret recovered)))"

definition recover_interrupted_package_scans :: "clock \<Rightarrow> authority_db \<Rightarrow> authority_db \<times> uuid list result" where
  "recover_interrupted_package_scans now =
     run_op (Inr ()) (recover_scans_body now) (\<lambda>_ recovered _. Inr recovered)"

section \<open>Approving a plan\<close>

definition approval_args :: "uuid \<Rightarrow> uuid \<Rightarrow> string \<Rightarrow> (uuid \<times> uuid \<times> string) result" where
  "approval_args resource run fingerprint =
     bindE (require_uuid resource ''resource_id'') (\<lambda>r.
     bindE (require_uuid run ''reviewed_scan_run_id'') (\<lambda>s.
     bindE (require_package_plan_fingerprint fingerprint) (\<lambda>fp. Inr (r, s, fp))))"

definition is_latest_attempt :: "authority_db \<Rightarrow> uuid \<Rightarrow> scan_run \<Rightarrow> bool" where
  "is_latest_attempt db resource run \<longleftrightarrow>
     (let attempts = map scan_attempt_sequence (filter (\<lambda>r. scan_resource_id r = resource) (scan_runs db)) in
      attempts \<noteq> [] \<and> scan_attempt_sequence run = max_or_zero attempts)"

text \<open>What the operator reviewed, before any write: the latest successful scan, with its stored plan.\<close>

definition reviewed_scan :: "uuid \<times> uuid \<times> string \<Rightarrow> scan_run body" where
  "reviewed_scan = (\<lambda>(resource, reviewed, fingerprint).
     seq (fetch (\<lambda>db. require_package_scan_target db resource)) (\<lambda>target.
     need (res_type (tg_resource target) = ''lxc'') (AuthorityConflict ''package plan approval supports LXC resources only'')
    (seq (fetch (\<lambda>db. require_package_scan_run_row db reviewed)) (\<lambda>run.
     need (scan_resource_id run = resource) (AuthorityConflict ''reviewed package scan belongs to another resource'')
    (seq (fetch (\<lambda>db. Inr (post_update_package_scan_is_pending db resource, is_latest_attempt db resource run))) (\<lambda>(pending, latest).
     need (\<not> pending)
       (AuthorityConflict ''package plan authority is unavailable while the required post-update package refresh is pending'')
    (need latest (AuthorityConflict ''reviewed package scan is not the latest attempt'')
    (need (scan_succeeded run) (AuthorityConflict ''reviewed package scan is not a successful exact plan'')
    (seq (fetch (\<lambda>db. successful_package_scan_fingerprint db run)) (\<lambda>stored.
     need (stored = fingerprint) (AuthorityConflict ''reviewed package plan fingerprint does not match'')
    (ret run)))))))))))"

text \<open>The approval of the resource, when it is for this very plan and no job has consumed it.\<close>

definition reusable_approval :: "authority_db \<Rightarrow> uuid \<Rightarrow> uuid \<Rightarrow> string \<Rightarrow> approval option" where
  "reusable_approval db resource reviewed fingerprint =
     (case row_by appr_resource_id resource (approvals db) of
        None \<Rightarrow> None
      | Some a \<Rightarrow>
          if appr_reviewed_scan_run_id a = reviewed \<and> appr_plan_fingerprint a = fingerprint
             \<and> \<not> package_plan_approval_is_consumed db (approval_id a) then Some a else None)"

text \<open>None when the plan is stale; the write of an expiry still commits.\<close>

definition approve_body :: "clock \<Rightarrow> uuid \<Rightarrow> uuid \<times> uuid \<times> string \<Rightarrow> approval option body" where
  "approve_body now fresh = (\<lambda>(resource, reviewed, fingerprint).
     seq (reviewed_scan (resource, reviewed, fingerprint)) (\<lambda>run.
     seq (materialize_due_expiry (cx_inventory_source_id (scan_ctx run)) (now 1) None None) (\<lambda>_.
     seq (fetch (\<lambda>db. package_scan_is_current_and_approvable db run)) (\<lambda>approvable.
     if \<not> approvable then ret None
     else
       seq (fetch (\<lambda>db. Inr (reusable_approval db resource reviewed fingerprint))) (\<lambda>existing.
       case existing of
         Some a \<Rightarrow> ret (Some a)
       | None \<Rightarrow>
           (let a = \<lparr>appr_resource_id = resource, approval_id = fresh, appr_reviewed_scan_run_id = reviewed,
                     appr_plan_fingerprint = fingerprint, appr_approved_at = now 0\<rparr> in
            andthen (commit (upsert_approval a)) (andthen (publish (now 2)) (ret (Some a)))))))))"

definition approve_package_plan ::
    "clock \<Rightarrow> uuid \<Rightarrow> uuid \<Rightarrow> uuid \<Rightarrow> string \<Rightarrow> authority_db \<Rightarrow> authority_db \<times> approval result" where
  "approve_package_plan now fresh resource reviewed fingerprint =
     run_op (approval_args resource reviewed fingerprint) (approve_body now fresh)
       (\<lambda>_ captured _. case captured of
          None \<Rightarrow> Inl (AuthorityConflict ''reviewed package scan is stale or its current context is invalid'')
        | Some a \<Rightarrow> Inr a)"

end
