(* ===== verification/Catalog_System.thy ===== *)
theory Catalog_System
  imports Scan_Operations Contract_Operations Authority_System
begin

text \<open>
  The operations on scans, approvals and health contracts as steps of the backend. The locale
  \<open>steady_relation\<close> takes a relation between databases and composes bodies that respect it;
  \<open>scan_relation\<close> adds that each primitive write of the scan and approval operations respects it, \<open>catalog_relation\<close> extends it with the writes of the health contract
  operations; their lemmas show that every operation respects the relation. The interpretations: the
  steps leave the job tables alone (so they are environment steps of the job authority), scan rows
  only move from running to completed, and allocated contract revisions only grow.
\<close>

section \<open>Bodies under a relation\<close>

definition steady :: "(authority_db \<Rightarrow> authority_db \<Rightarrow> bool) \<Rightarrow> 'a body \<Rightarrow> bool" where
  "steady R m \<longleftrightarrow> (\<forall>db x db'. m db = Inr (x, db') \<longrightarrow> R db db')"

locale steady_relation =
  fixes R :: "authority_db \<Rightarrow> authority_db \<Rightarrow> bool"
  assumes refl: "R db db"
    and trans: "R a b \<Longrightarrow> R b c \<Longrightarrow> R a c"
    and on_publish: "bump_global_revisions False True t db = Inr db' \<Longrightarrow> R db db'"
    and on_expiry: "R db (write_expiry src reason db)"
begin

lemma steady_seq: "steady R m \<Longrightarrow> (\<And>x. steady R (f x)) \<Longrightarrow> steady R (seq m f)"
  unfolding steady_def seq_Inr using trans by blast

lemma steady_andthen: "steady R m \<Longrightarrow> steady R k \<Longrightarrow> steady R (andthen m k)"
  by (simp add: andthen_def steady_seq)

lemma steady_ret: "steady R (ret x)"
  by (simp add: steady_def refl)

lemma steady_raise: "steady R (raise e)"
  by (simp add: steady_def)

lemma steady_need: "steady R k \<Longrightarrow> steady R (need b e k)"
  by (simp add: steady_def need_Inr)

lemma steady_fetch: "steady R (fetch f)"
  by (auto simp: steady_def fetch_Inr refl)

lemma steady_commit: "(\<And>db db'. f db = Inr db' \<Longrightarrow> R db db') \<Longrightarrow> steady R (commit f)"
  by (simp add: steady_def commit_Inr)

lemma steady_pure: "steady R (pure r)"
  by (simp add: pure_def steady_fetch)

lemma steady_if: "steady R a \<Longrightarrow> steady R b \<Longrightarrow> steady R (if c then a else b)"
  by simp

lemma steady_option: "steady R a \<Longrightarrow> (\<And>x. steady R (g x)) \<Longrightarrow> steady R (case v of None \<Rightarrow> a | Some x \<Rightarrow> g x)"
  by (cases v) auto

lemma steady_job_row: "steady R (job_row i)"
  by (simp add: job_row_def steady_fetch)

lemma steady_publish: "steady R (publish t)"
  unfolding publish_def by (rule steady_commit) (rule on_publish)

lemma steady_expiry: "steady R (materialize_due_expiry i t rs dl)"
  unfolding steady_def
proof (intro allI impI)
  fix db x db'
  assume "materialize_due_expiry i t rs dl db = Inr (x, db')"
  from materialize_due_expiry_state[OF this] refl trans on_expiry on_publish show "R db db'" by blast
qed

lemma executemany_keeps:
  assumes "\<And>r db db'. ins r db = Inr db' \<Longrightarrow> R db db'"
  shows "executemany ins rs db = Inr db' \<Longrightarrow> R db db'"
proof (induction rs arbitrary: db)
  case (Cons r rs)
  then show ?case using assms trans by (auto simp: result_iffs) blast
qed (simp add: refl)

lemmas steady_parts = steady_seq steady_andthen steady_ret steady_raise steady_need steady_fetch steady_pure
  steady_if steady_option steady_job_row steady_publish steady_expiry

lemma run_op_steady: "(\<And>x. steady R (body x)) \<Longrightarrow> R db (fst (run_op args body after db))"
  by (rule run_op_cases[of args body after db]) (auto simp: steady_def refl)

end

section \<open>The operations on scans, approvals and contracts\<close>

locale scan_relation = steady_relation +
  assumes on_insert_scan: "insert_scan_run r db = Inr db' \<Longrightarrow> R db db'"
    and on_update_scan: "update_scan_run i s db = Inr db' \<Longrightarrow> R db db'"
    and on_scan_package: "insert_scan_package p db = Inr db' \<Longrightarrow> R db db'"
    and on_approval: "upsert_approval ap db = Inr db' \<Longrightarrow> R db db'"
    and on_claim: "claim_post_scan_request run i db = Inr db' \<Longrightarrow> R db db'"
begin

lemma steady_insert_scan: "steady R (insert_package_scan_run t t' resource fresh)"
proof -
  have "steady R (commit (insert_scan_run_or_conflict r))" for r
    by (rule steady_commit) (auto simp: insert_scan_run_or_conflict_def split: sum.splits intro: on_insert_scan)
  then show ?thesis unfolding insert_package_scan_run_def Let_def by (intro steady_parts)
qed

lemma steady_post_update_scan: "steady R (post_update_scan_body now fresh i)"
proof -
  have "steady R (commit (claim_post_scan_request fresh i))" by (rule steady_commit) (rule on_claim)
  then show ?thesis unfolding post_update_scan_body_def by (intro steady_parts steady_insert_scan)
qed

lemma steady_update_scan: "steady R (commit (update_scan_run i s))"
  by (rule steady_commit) (rule on_update_scan)

lemma steady_complete_failed: "steady R (complete_failed_package_scan i t out f m a b)"
  unfolding complete_failed_package_scan_def by (rule steady_update_scan)

lemma steady_running: "steady R (require_running_package_scan r)"
  unfolding require_running_package_scan_def by (intro steady_parts)

lemma steady_finalize_success: "steady R (finalize_success_body now x)"
proof -
  have "steady R (commit (executemany insert_scan_package rows))" for rows
    by (rule steady_commit) (rule executemany_keeps[OF on_scan_package])
  then show ?thesis unfolding finalize_success_body_def split_beta
    by (intro steady_parts steady_update_scan steady_complete_failed steady_running)
qed

lemma steady_finalize_failure: "steady R (finalize_failure_body now f x)"
  unfolding finalize_failure_body_def split_beta by (intro steady_parts steady_complete_failed steady_running)

lemma steady_recover_scans: "steady R (recover_scans_body now u)"
proof -
  have "steady R (interrupt_scans t is)" for t "is"
    by (induction "is") (auto intro!: steady_parts steady_complete_failed)
  then show ?thesis unfolding recover_scans_body_def by (intro steady_parts)
qed

lemma steady_approve: "steady R (approve_body now fresh x)"
proof -
  have "steady R (commit (upsert_approval ap))" for ap by (rule steady_commit) (rule on_approval)
  moreover have "steady R (reviewed_scan y)" for y
    unfolding reviewed_scan_def split_beta by (intro steady_parts)
  ultimately show ?thesis unfolding approve_body_def split_beta Let_def by (intro steady_parts)
qed

end

locale catalog_relation = scan_relation +
  assumes on_new_revision: "insert_revision_state v db = Inr db' \<Longrightarrow> R db db'"
    and on_next_revision: "update_revision_state i old new t db = Inr db' \<Longrightarrow> R db db'"
    and on_insert_contract: "insert_contract ct db = Inr db' \<Longrightarrow> R db db'"
    and on_delete_contract: "R db (snd (delete_contract i rn db))"
    and on_delete_probes: "delete_contract_probes i db = Inr db' \<Longrightarrow> R db db'"
    and on_insert_probe: "insert_contract_probe q db = Inr db' \<Longrightarrow> R db db'"
begin

lemma steady_allocate: "steady R (allocate_health_contract_revision i t)"
  unfolding allocate_health_contract_revision_def
  by (intro steady_parts steady_commit) (auto intro: on_new_revision on_next_revision)

lemma steady_drop: "steady R (drop_contract i existing e)"
proof -
  have "R db db'" if "(case delete_contract i rn db of (n, db') \<Rightarrow> checkE (n = 1) ex (Inr db')) = Inr db'" for db db' rn ex
    using that on_delete_contract[of db i rn] by (auto simp: result_iffs split: prod.splits)
  then show ?thesis unfolding drop_contract_def
    by (intro steady_parts steady_commit) (auto intro: on_delete_probes)
qed

lemma steady_write_contract: "steady R (write_contract i rn fp c u ps)"
  unfolding write_contract_def
  by (intro steady_parts steady_commit) (auto intro: on_insert_contract executemany_keeps[OF on_insert_probe])

lemma steady_contract_resource: "steady R (require_current_health_contract_resource i)"
  unfolding require_current_health_contract_resource_def by (intro steady_parts)

lemma steady_replace: "steady R (replace_contract_body now expected x)"
  unfolding replace_contract_body_def declare_contract_def split_beta Let_def
  by (intro steady_parts steady_contract_resource steady_allocate steady_drop steady_write_contract)

lemma steady_clear: "steady R (clear_contract_body now expected i)"
  unfolding clear_contract_body_def by (intro steady_parts steady_contract_resource steady_drop)

lemma steady_provision: "steady R (provision_default_health_contracts t)"
proof -
  have "steady R (provision_contracts t is)" for "is"
    by (induction "is") (auto intro!: steady_parts steady_allocate steady_write_contract)
  then show ?thesis unfolding provision_default_health_contracts_def by (intro steady_parts)
qed

end

section \<open>Steps\<close>

text \<open>
  One call of an operation on scans, approvals or contracts. Default contracts are provisioned by the
  finalisation of a discovery run, inside its transaction (theory \<open>Discovery_System\<close>).
\<close>

inductive scan_step :: "authority_db \<Rightarrow> authority_db \<Rightarrow> bool" where
  issue_scan: "scan_step db (fst (issue_package_scan now fresh resource db))"
| issue_post_scan: "scan_step db (fst (issue_post_update_package_scan now fresh i db))"
| finalize_success: "scan_step db (fst (finalize_successful_package_scan now i rep db))"
| finalize_failure: "scan_step db (fst (finalize_failed_package_scan now i failure message os_id os_version db))"
| recover_scans: "scan_step db (fst (recover_interrupted_package_scans now db))"
| approve: "scan_step db (fst (approve_package_plan now fresh resource reviewed fingerprint db))"

inductive contract_step :: "authority_db \<Rightarrow> authority_db \<Rightarrow> bool" where
  replace_contract: "contract_step db (fst (replace_resource_health_contract now i probes expected db))"
| clear_contract: "contract_step db (fst (clear_resource_health_contract now i expected db))"

abbreviation catalog_step :: "authority_db \<Rightarrow> authority_db \<Rightarrow> bool" where
  "catalog_step db db' \<equiv> scan_step db db' \<or> contract_step db db'"

lemmas catalog_defs = issue_package_scan_def issue_post_update_package_scan_def finalize_successful_package_scan_def
  finalize_failed_package_scan_def recover_interrupted_package_scans_def approve_package_plan_def
  replace_resource_health_contract_def clear_resource_health_contract_def

context scan_relation
begin

lemma scan_keeps: "scan_step db db' \<Longrightarrow> R db db'"
  by (induction rule: scan_step.induct) (auto simp: catalog_defs intro!: run_op_steady steady_insert_scan
   steady_post_update_scan steady_finalize_success steady_finalize_failure steady_recover_scans steady_approve)

end

context catalog_relation
begin

lemma contract_keeps: "contract_step db db' \<Longrightarrow> R db db'"
  by (induction rule: contract_step.induct) (auto simp: catalog_defs intro!: run_op_steady steady_replace steady_clear)

lemma catalog_keeps: "catalog_step db db' \<Longrightarrow> R db db'"
  using scan_keeps contract_keeps by blast

end

text \<open>What each primitive write leaves alone.\<close>

lemmas catalog_writes = insert_scan_run_def update_scan_run_def insert_scan_package_def upsert_approval_def
  claim_post_scan_request_def insert_revision_state_def update_revision_state_def insert_contract_def delete_contract_def
  delete_contract_probes_def insert_contract_probe_def bump_global_revisions_def write_expiry_def

text \<open>The job authority sees each of these as a step of its environment.\<close>

interpretation catalog_frame: catalog_relation environment_step
proof
  show "environment_step db (snd (delete_contract i rn db))" for db i rn
    by (simp add: environment_step_def delete_contract_def Let_def)
  show "environment_step db db'" if "claim_post_scan_request run i db = Inr db'" for run i db db'
  proof -
    have "map (\<lambda>q. (ps_job_id q, ps_resource_id q)) (rows_update w (\<lambda>q. q\<lparr>ps_scan_run_id := x\<rparr>) qs)
        = map (\<lambda>q. (ps_job_id q, ps_resource_id q)) qs" for w x qs
      by (simp add: rows_update_def)
    with that show ?thesis by (auto simp: claim_post_scan_request_def Let_def result_iffs environment_step_def)
  qed
qed (auto simp: environment_step_def catalog_writes Let_def result_iffs)

end
