(* ===== verification/Discovery_System.thy ===== *)
theory Discovery_System
  imports Discovery_Operations Catalog_System
begin

text \<open>
  The operations on sources and discovery runs as steps of the backend. The locale
  \<open>reconcile_relation\<close> takes a relation between databases that each primitive write of the reconciler
  respects, \<open>discovery_relation\<close> one that the reconciler and the other primitive writes respect; its lemmas show
  that every operation respects the relation. A snapshot handed to an operation is one its
  constructor accepted, and so is the completion evidence of a failed run.
\<close>

section \<open>Reconciliation\<close>

locale reconcile_relation = steady_relation +
  assumes on_facts: "update_sources (\<lambda>x. src_id x = i) (\<lambda>x. x\<lparr>src_facts := facts\<rparr>) db = Inr (n, db') \<Longrightarrow> R db db'"
    and on_node: "upsert_node nd db = Inr db' \<Longrightarrow> R db db'"
    and on_unavailable: "R db (mark_nodes_unavailable i names t db)"
    and on_insert_resource: "insert_resource rs db = Inr db' \<Longrightarrow> R db db'"
    and on_update_resource: "update_resource i sx db = Inr db' \<Longrightarrow> R db db'"
    and on_insert_binding: "insert_binding b db = Inr db' \<Longrightarrow> R db db'"
    and on_close_binding: "close_binding i q reason db = Inr db' \<Longrightarrow> R db db'"
    and on_termination: "insert_termination x db = Inr db' \<Longrightarrow> R db db'"
begin

lemma steady_nodes: "steady R (reconcile_nodes u s t)"
proof -
  have "steady R (commit (executemany upsert_node rows))" for rows
    by (rule steady_commit) (rule executemany_keeps[OF on_node])
  moreover have "steady R (commit (\<lambda>db. Inr (mark_nodes_unavailable i names t db)))" for i names
    by (rule steady_commit) (auto simp: on_unavailable)
  ultimately show ?thesis unfolding reconcile_nodes_def Let_def by (intro steady_parts)
qed

lemma steady_create: "steady R (create_resource u s r node a t)"
  unfolding create_resource_def Let_def
  by (intro steady_parts steady_commit) (auto intro: on_insert_resource on_insert_binding)

lemma steady_replace: "steady R (replace_resource u s r old node a t)"
  unfolding replace_resource_def Let_def
  by (intro steady_parts steady_commit)
     (auto intro: on_close_binding on_update_resource on_insert_resource on_insert_binding on_termination)

lemma steady_update_resource: "steady R (commit (update_resource i s))"
  by (rule steady_commit) (rule on_update_resource)

lemma steady_resources: "steady R (reconcile_resources u s t ids active rs counts)"
proof -
  have "steady R (reconcile_resource u s t ids active r counts)" for r counts
    unfolding reconcile_resource_def Let_def
    by (intro steady_parts steady_create steady_replace steady_update_resource)
  then show ?thesis by (induction rs arbitrary: counts) (auto intro!: steady_parts)
qed

lemma steady_missing: "steady R (mark_missing t observed rows counts)"
  by (induction t observed rows counts rule: mark_missing.induct) (auto intro!: steady_parts steady_update_resource)

lemma steady_reconcile: "steady R (reconcile u s t)"
proof -
  have "steady R (write_source_facts i facts)" for i facts
    unfolding write_source_facts_def
    by (rule steady_commit) (auto simp: result_iffs split: prod.splits intro: on_facts)
  then show ?thesis unfolding reconcile_def
    by (intro steady_parts steady_nodes steady_resources steady_missing)
qed

end

section \<open>Statements and operations\<close>

locale discovery_relation = steady_relation +
  assumes on_reconcile: "distinct (map dv_vmid (snap_resources sn)) \<Longrightarrow> reconcile u sn t db = Inr (y, db') \<Longrightarrow> R db db'"
    and on_publish_inventory: "bump_global_revisions True True t db = Inr db' \<Longrightarrow> R db db'"
    and on_insert_source: "insert_source s db = Inr db' \<Longrightarrow> R db db'"
    and on_update_sources: "update_sources ws ss db = Inr (n, db') \<Longrightarrow> R db db'"
    and on_insert_endpoint: "insert_endpoint e db = Inr db' \<Longrightarrow> R db db'"
    and on_update_endpoint: "update_endpoint i se db = Inr db' \<Longrightarrow> R db db'"
    and on_migration: "insert_migration m db = Inr db' \<Longrightarrow> R db db'"
    and on_insert_health: "insert_source_health hl db = Inr db' \<Longrightarrow> R db db'"
    and on_update_health: "update_source_health wh sh db = Inr db' \<Longrightarrow> R db db'"
    and on_insert_run: "insert_discovery_run r db = Inr db' \<Longrightarrow> R db db'"
    and on_update_runs: "update_discovery_runs wr sr db = Inr (n, db') \<Longrightarrow> R db db'"
    and on_provision: "provision_default_health_contracts t db = Inr (k, db') \<Longrightarrow> R db db'"
begin

lemma steady_one_row:
  assumes "\<And>db n db'. f db = Inr (n, db') \<Longrightarrow> R db db'"
  shows "steady R (one_row f lost)"
  unfolding one_row_def by (rule steady_commit) (auto simp: result_iffs split: prod.splits intro: assms)

lemma steady_any_rows:
  assumes "\<And>db n db'. f db = Inr (n, db') \<Longrightarrow> R db db'"
  shows "steady R (any_rows f)"
  unfolding any_rows_def by (rule steady_commit) (auto simp: result_iffs split: prod.splits intro: assms)

lemma steady_source_row: "steady R (source_row i)"
  by (simp add: source_row_def steady_fetch)

lemma steady_run_row: "steady R (run_row i)"
  by (simp add: run_row_def steady_fetch)

lemma steady_endpoint_row: "steady R (endpoint_row i)"
  by (simp add: endpoint_row_def steady_fetch)

lemma steady_health_row: "steady R (health_row i)"
  by (simp add: health_row_def steady_fetch)

lemma steady_set_source: "steady R (set_source i s)"
  unfolding set_source_def by (rule steady_any_rows) (rule on_update_sources)

lemma steady_set_health: "steady R (set_health i s)"
  unfolding set_health_def by (rule steady_commit) (rule on_update_health)

lemma steady_publish_inventory: "steady R (publish_inventory t)"
  unfolding publish_inventory_def by (rule steady_commit) (rule on_publish_inventory)

lemma steady_transition: "steady R (mark_controlled_context_transition i reason)"
  unfolding mark_controlled_context_transition_def by (rule steady_set_health)

lemma steady_owner: "steady R k \<Longrightarrow> steady R (require_exact_run_owner source run i j k)"
  unfolding require_exact_run_owner_def by (intro steady_parts)

lemma steady_idle: "steady R k \<Longrightarrow> steady R (require_no_active_run source k)"
  unfolding require_no_active_run_def by (intro steady_parts)

lemma steady_nonterminal: "steady R k \<Longrightarrow> steady R (require_nonterminal_run run k)"
  unfolding require_nonterminal_run_def by (intro steady_parts)

lemma steady_issuance: "steady R k \<Longrightarrow> steady R (validate_snapshot_issuance s run k)"
  unfolding validate_snapshot_issuance_def by (intro steady_parts)

lemma steady_release: "steady R (release_run i j)"
  unfolding release_run_def by (rule steady_one_row) (rule on_update_sources)

lemma steady_claim: "steady R (claim_active_run i j)"
  unfolding claim_active_run_def by (rule steady_one_row) (rule on_update_sources)

lemma steady_abandoned: "steady R (terminalize_abandoned_run j t reason)"
  unfolding terminalize_abandoned_run_def by (rule steady_one_row) (rule on_update_runs)

lemma steady_complete: "steady R (complete_run run t out reason e c)"
  unfolding complete_run_def by (rule steady_one_row) (rule on_update_runs)

lemma steady_provenance: "steady R (update_completion_provenance i q out)"
  unfolding update_completion_provenance_def by (rule steady_commit) (rule on_update_health)

lemma steady_provision: "steady R (provision_default_health_contracts t)"
  unfolding steady_def using on_provision by blast

lemmas steady_statements = steady_parts steady_source_row steady_run_row steady_endpoint_row steady_health_row
  steady_set_source steady_set_health steady_publish_inventory steady_transition steady_owner steady_idle
  steady_nonterminal steady_issuance steady_release steady_claim steady_abandoned steady_complete
  steady_provenance steady_provision

lemma steady_create_source: "steady R (create_source_body now i e x)"
  unfolding create_source_body_def split_beta
  by (intro steady_statements steady_commit) (auto intro: on_insert_source on_insert_endpoint on_insert_health)

lemma steady_rename: "steady R (rename_body now x)"
  unfolding rename_body_def split_beta by (intro steady_statements)

lemma steady_configuration: "steady R (change_configuration_body now reason x)"
  unfolding change_configuration_body_def split_beta by (intro steady_statements)

lemma steady_rotate: "steady R (rotate_trust_body now i)"
  unfolding rotate_trust_body_def by (intro steady_statements steady_commit) (rule on_update_endpoint)

lemma steady_migrate: "steady R (migrate_body now fresh x)"
proof -
  have "R db db'" if "migrate_endpoint fresh i v t p db = Inr db'" for i v t p db db'
    using that trans on_migration on_update_endpoint
    by (fastforce simp: migrate_endpoint_def result_iffs split: prod.splits)
  then have "steady R (commit (executemany (migrate_endpoint fresh i v t) pairs))" for i v t pairs
    by (intro steady_commit) (rule executemany_keeps)
  then show ?thesis unfolding migrate_body_def split_beta by (intro steady_statements)
qed

lemma steady_issue_run: "steady R (issue_run_body now fresh x)"
proof -
  have "steady R (one_row (update_sources w s) lost)" for w s lost
    by (rule steady_one_row) (rule on_update_sources)
  moreover have "steady R (commit (insert_discovery_run r))" for r by (rule steady_commit) (rule on_insert_run)
  ultimately show ?thesis unfolding issue_run_body_def split_beta Let_def by (intro steady_statements)
qed

lemma steady_mark_running: "steady R (mark_running_body now x)"
proof -
  have "steady R (any_rows (update_discovery_runs w s))" for w s
    by (rule steady_any_rows) (rule on_update_runs)
  then show ?thesis unfolding mark_running_body_def split_beta by (intro steady_statements)
qed

lemma steady_abandon: "steady R (abandon_body now x)"
  unfolding abandon_body_def split_beta by (intro steady_statements)

lemma steady_finalize_run:
  assumes "distinct (map dv_vmid (snap_resources s))"
  shows "steady R (finalize_run_body now u s x)"
proof -
  have "steady R (reconcile u s t)" for t using on_reconcile[OF assms] by (auto simp: steady_def)
  then have "steady R (accept_snapshot now u i run source endpoint s e)" for i run source endpoint e
    unfolding accept_snapshot_def Let_def by (intro steady_statements)
  moreover have "steady R (reject_changed_context now i run e)" for i run e
    unfolding reject_changed_context_def by (intro steady_statements)
  ultimately show ?thesis unfolding finalize_run_body_def split_beta by (intro steady_statements)
qed

lemma steady_fail_run: "steady R (fail_run_body now e x)"
proof -
  have "steady R (apply_failed_health i q out reason)" for i q out reason
    unfolding apply_failed_health_def by (intro steady_statements)
  then show ?thesis unfolding fail_run_body_def split_beta Let_def by (intro steady_statements)
qed

end

section \<open>Steps\<close>

inductive inventory_step :: "authority_db \<Rightarrow> authority_db \<Rightarrow> bool" where
  create_source: "inventory_step db (fst (create_inventory_source now source endpoint q db))"
| rename_source: "inventory_step db (fst (rename_inventory_source now i name db))"
| rotate_credential: "inventory_step db (fst (rotate_credential_reference now i v db))"
| configure_freshness: "inventory_step db (fst (configure_freshness_duration now i n db))"
| rotate_trust: "inventory_step db (fst (rotate_transport_trust now i db))"
| migrate: "inventory_step db (fst (migrate_canonicalization_contract now fresh registry i version db))"
| issue_run: "inventory_step db (fst (issue_discovery_run now fresh i version db))"
| mark_running: "inventory_step db (fst (mark_discovery_run_running now i j db))"
| abandon_run: "inventory_step db (fst (abandon_discovery_run now i j reason db))"
| finalize_run: "normalized_snapshot raw = Inr s \<Longrightarrow>
    inventory_step db (fst (finalize_successful_discovery_run now u i j s db))"
| fail_run: "completion_evidence_check raw = Inr e \<Longrightarrow>
    inventory_step db (fst (finalize_failed_discovery_run now i j e reason db))"
| expire: "inventory_step db (fst (materialize_source_expiry now i sequence deadline db))"
| check_fresh: "inventory_step db (fst (source_is_fresh_for_future_mutation now i db))"

lemmas inventory_defs = create_inventory_source_def rename_inventory_source_def rotate_credential_reference_def
  configure_freshness_duration_def change_source_configuration_def rotate_transport_trust_def
  migrate_canonicalization_contract_def issue_discovery_run_def mark_discovery_run_running_def
  abandon_discovery_run_def finalize_successful_discovery_run_def finalize_failed_discovery_run_def
  materialize_source_expiry_def source_is_fresh_for_future_mutation_def

context discovery_relation
begin

lemma inventory_keeps: "inventory_step db db' \<Longrightarrow> R db db'"
  by (induction rule: inventory_step.induct)
     (auto simp: inventory_defs intro!: run_op_steady steady_create_source steady_rename steady_configuration
        steady_rotate steady_migrate steady_issue_run steady_mark_running steady_abandon steady_finalize_run
        steady_fail_run steady_expiry steady_seq steady_fetch normalized_distinct)

end

text \<open>What each primitive write leaves alone.\<close>

lemmas discovery_writes = insert_source_def update_sources_def insert_endpoint_def update_endpoint_def
  insert_migration_def insert_source_health_def update_source_health_def insert_discovery_run_def
  update_discovery_runs_def upsert_node_def mark_nodes_unavailable_def insert_resource_def update_resource_def
  insert_binding_def close_binding_def insert_termination_def

text \<open>The job authority sees each of these operations as a step of its environment.\<close>

interpretation reconcile_frame: reconcile_relation environment_step
  by unfold_locales (auto simp: environment_step_def discovery_writes Let_def result_iffs split: if_splits)

interpretation inventory_frame: discovery_relation environment_step
proof
  show "environment_step db db'" if "provision_default_health_contracts t db = Inr (k, db')" for t db k db'
    using catalog_frame.steady_provision[of t] that by (simp add: steady_def)
  show "environment_step db db'" if "reconcile u s t db = Inr (y, db')" for u s t db y db'
    using reconcile_frame.steady_reconcile[of u s t] that by (simp add: steady_def)
qed (auto simp: environment_step_def discovery_writes bump_global_revisions_def write_expiry_def Let_def result_iffs
   split: if_splits)

end
