(* ===== verification/Catalog_Histories.thy ===== *)
theory Catalog_Histories
  imports Discovery_System Authority_Histories
begin

text \<open>
  What every run of the whole backend keeps of the catalog tables: scan runs with their exact
  packages, and the revision counters of the health contracts. The job operations do not touch
  these tables; discovery changes the tables of sources and resources and
  provisions default contracts.
\<close>

section \<open>Scan runs\<close>

definition scan_store_ok :: "authority_db \<Rightarrow> bool" where
  "scan_store_ok db \<longleftrightarrow> scan_indexes (scan_runs db) \<and> list_all scan_run_checks (scan_runs db)"

definition scan_advances :: "scan_run \<Rightarrow> scan_run \<Rightarrow> bool" where
  "scan_advances a b \<longleftrightarrow> b = a \<or> scan_update_triggers a b"

definition scans_evolve :: "authority_db \<Rightarrow> authority_db \<Rightarrow> bool" where
  "scans_evolve db db' \<longleftrightarrow> (scan_store_ok db \<longrightarrow>
     scan_store_ok db'
     \<and> (\<forall>r \<in> set (scan_runs db). (\<exists>r' \<in> set (scan_runs db'). scan_advances r r')
          \<and> (scan_lifecycle r = SCAN_COMPLETED \<longrightarrow>
               scan_packages_of (scan_run_id r) db' = scan_packages_of (scan_run_id r) db)))"

lemma scan_advances_trans: "scan_advances a b \<Longrightarrow> scan_advances b c \<Longrightarrow> scan_advances a c"
  by (auto simp: scan_advances_def scan_update_triggers_def)

lemma scans_evolve_refl: "scans_evolve db db"
  by (auto simp: scans_evolve_def scan_advances_def)

lemma scans_evolve_trans: "scans_evolve a b \<Longrightarrow> scans_evolve b c \<Longrightarrow> scans_evolve a c"
proof -
  assume ab: "scans_evolve a b" and bc: "scans_evolve b c"
  { assume ok: "scan_store_ok a"
    with ab have okb: "scan_store_ok b" by (simp add: scans_evolve_def)
    with bc have "scan_store_ok c" by (simp add: scans_evolve_def)
    moreover have "(\<exists>z \<in> set (scan_runs c). scan_advances r z) \<and> (scan_lifecycle r = SCAN_COMPLETED \<longrightarrow>
        scan_packages_of (scan_run_id r) c = scan_packages_of (scan_run_id r) a)" if r: "r \<in> set (scan_runs a)" for r
    proof -
      from ab ok r obtain y where y: "y \<in> set (scan_runs b)" "scan_advances r y" by (auto simp: scans_evolve_def)
      from bc okb y(1) obtain z where z: "z \<in> set (scan_runs c)" "scan_advances y z" by (auto simp: scans_evolve_def)
      have "scan_packages_of (scan_run_id r) c = scan_packages_of (scan_run_id r) a" if "scan_lifecycle r = SCAN_COMPLETED"
      proof -
        from that y(2) have "y = r" by (auto simp: scan_advances_def scan_update_triggers_def)
        with ab bc ok okb r y(1) that show ?thesis by (auto simp: scans_evolve_def)
      qed
      with z scan_advances_trans[OF y(2)] show ?thesis by blast
    qed
    ultimately have "scan_store_ok c \<and> (\<forall>r \<in> set (scan_runs a). (\<exists>z \<in> set (scan_runs c). scan_advances r z) \<and>
        (scan_lifecycle r = SCAN_COMPLETED \<longrightarrow> scan_packages_of (scan_run_id r) c = scan_packages_of (scan_run_id r) a))"
      by blast }
  then show ?thesis by (simp add: scans_evolve_def)
qed

text \<open>Writes that leave the two scan tables alone.\<close>

lemma scans_same:
  assumes "scan_runs db' = scan_runs db" "scan_packages db' = scan_packages db"
  shows "scans_evolve db db'"
  using assms by (auto simp: scans_evolve_def scan_store_ok_def scan_packages_of_def scan_advances_def)

lemma update_scan_run_evolves:
  assumes "update_scan_run i s db = Inr db'"
  shows "scans_evolve db db'"
proof -
  let ?w = "\<lambda>r. scan_run_id r = i"
  from assms have db': "db' = db\<lparr>scan_runs := rows_update ?w s (scan_runs db)\<rparr>"
    and new: "\<And>r. r \<in> set (scan_runs db) \<Longrightarrow> ?w r \<Longrightarrow> scan_update_triggers r (s r) \<and> scan_run_checks (s r)"
    and idx: "scan_indexes (rows_update ?w s (scan_runs db))"
    by (auto simp: update_scan_run_def Let_def result_iffs list_all_iff)
  have "\<exists>r' \<in> set (rows_update ?w s (scan_runs db)). scan_advances r r'" if "r \<in> set (scan_runs db)" for r
    using that new[OF that] by (intro bexI[of _ "if ?w r then s r else r"]) (auto simp: set_rows_update scan_advances_def)
  then show ?thesis using new idx
    by (auto simp: db' scans_evolve_def scan_store_ok_def list_all_iff set_rows_update scan_packages_of_def)
qed

lemma insert_scan_package_evolves:
  assumes "insert_scan_package p db = Inr db'"
  shows "scans_evolve db db'"
proof -
  from assms obtain x where db': "db' = db\<lparr>scan_packages := scan_packages db @ [p]\<rparr>"
    and x: "x \<in> set (scan_runs db)" "scan_run_id x = prow_owner p" "scan_lifecycle x = SCAN_RUNNING"
    by (auto simp: insert_scan_package_def result_iffs list_ex_iff)
  have "prow_owner p \<noteq> scan_run_id r"
    if "scan_store_ok db" "r \<in> set (scan_runs db)" "scan_lifecycle r = SCAN_COMPLETED" for r
  proof
    assume "prow_owner p = scan_run_id r"
    with that x have "r = x" by (auto simp: scan_store_ok_def scan_indexes_def distinct_map inj_on_def)
    with that x show False by simp
  qed
  then show ?thesis unfolding scans_evolve_def
    by (auto simp: db' scan_store_ok_def scan_advances_def scan_packages_of_def)
qed

interpretation scan_history: catalog_relation scans_evolve
proof
  show "scans_evolve db db'" if "insert_scan_run r db = Inr db'" for r db db'
    using that by (auto simp: insert_scan_run_def result_iffs scans_evolve_def scan_store_ok_def scan_advances_def
        scan_packages_of_def)
  show "scans_evolve db (snd (delete_contract i rn db))" for db i rn
    by (rule scans_same) (simp_all add: delete_contract_def Let_def)
qed (auto intro: scans_evolve_refl scans_evolve_trans update_scan_run_evolves insert_scan_package_evolves scans_same
   simp: upsert_approval_def claim_post_scan_request_def insert_revision_state_def update_revision_state_def insert_contract_def
   delete_contract_probes_def insert_contract_probe_def bump_global_revisions_def write_expiry_def Let_def result_iffs)

section \<open>Contract revisions\<close>

text \<open>A counter is never lost and never goes back.\<close>

definition counters_grow :: "authority_db \<Rightarrow> authority_db \<Rightarrow> bool" where
  "counters_grow db db' \<longleftrightarrow> (\<forall>i r. row_by rs_resource_id i (revision_states db) = Some r \<longrightarrow>
     (\<exists>r'. row_by rs_resource_id i (revision_states db') = Some r' \<and> rs_last_revision r \<le> rs_last_revision r'))"

lemma counters_grow_trans: "counters_grow a b \<Longrightarrow> counters_grow b c \<Longrightarrow> counters_grow a c"
  unfolding counters_grow_def by (meson order.trans)

interpretation contract_counters: catalog_relation counters_grow
proof
  show "counters_grow a c" if "counters_grow a b" "counters_grow b c" for a b c
    using that by (rule counters_grow_trans)
  show "counters_grow db db'" if "insert_revision_state v db = Inr db'" for v db db'
    using that by (auto simp: insert_revision_state_def result_iffs counters_grow_def row_by_append)
  show "counters_grow db db'" if "update_revision_state i old new t db = Inr db'" for i old new t db db'
    unfolding counters_grow_def
  proof (intro allI impI)
    fix k r assume r: "row_by rs_resource_id k (revision_states db) = Some r"
    let ?w = "\<lambda>r. rs_resource_id r = i \<and> rs_last_revision r = old"
    let ?s = "\<lambda>r. r\<lparr>rs_last_revision := new, rs_updated_at := t\<rparr>"
    from that have db': "revision_states db' = rows_update ?w ?s (revision_states db)"
      and tr: "\<forall>r \<in> set (revision_states db). ?w r \<longrightarrow> rs_last_revision r < new"
      by (auto simp: update_revision_state_def Let_def result_iffs list_all_iff)
    have "row_by rs_resource_id k (rows_update ?w ?s (revision_states db)) = Some (if ?w r then ?s r else r)"
      using row_by_rows_update[of rs_resource_id ?s k ?w "revision_states db"] r by (auto split: option.splits if_splits)
    with tr row_by_Some_key[OF r] show "\<exists>r'. row_by rs_resource_id k (revision_states db') = Some r' \<and>
        rs_last_revision r \<le> rs_last_revision r'"
      unfolding db' by auto
  qed
qed (auto simp: counters_grow_def catalog_writes Let_def result_iffs)

section \<open>The whole backend\<close>

text \<open>The tables only the catalog operations write.\<close>

definition catalog_same :: "authority_db \<Rightarrow> authority_db \<Rightarrow> bool" where
  "catalog_same db db' \<longleftrightarrow>
     scan_runs db' = scan_runs db \<and> scan_packages db' = scan_packages db \<and> approvals db' = approvals db
     \<and> revision_states db' = revision_states db \<and> contracts db' = contracts db \<and> contract_probes db' = contract_probes db"

text \<open>The tables only the operations on sources and runs write.\<close>

definition inventory_same :: "authority_db \<Rightarrow> authority_db \<Rightarrow> bool" where
  "inventory_same db db' \<longleftrightarrow>
     sources db' = sources db \<and> discovery_runs db' = discovery_runs db
     \<and> resources db' = resources db \<and> bindings db' = bindings db"

text \<open>The job operations write neither.\<close>

definition outside_jobs_same :: "authority_db \<Rightarrow> authority_db \<Rightarrow> bool" where
  "outside_jobs_same db db' \<longleftrightarrow> catalog_same db db' \<and> inventory_same db db'"

lemmas outside_jobs_defs = outside_jobs_same_def catalog_same_def inventory_same_def

interpretation job_frame: authority_relation outside_jobs_same
proof
  show "outside_jobs_same db db'" if "append_package_update_job_event j t lv st et m d db = Inr db'" for db db' j t lv st et m d
    using append_event_Inr[OF that] by (auto simp: outside_jobs_defs)
  show "outside_jobs_same db db'" if "update_one_job w s e db = Inr db'" for db db' w s e
    using that by (auto simp: update_one_job_Inr outside_jobs_defs)
  show "outside_jobs_same db db'" if "insert_job (issued_job i) db = Inr db'" for db db' i
    using that by (auto simp: insert_job_Inr outside_jobs_defs)
  show "outside_jobs_same db (write_expiry src reason db)" for db src reason
    by (simp add: outside_jobs_defs write_expiry_def)
qed (auto simp: outside_jobs_defs insert_job_package_def insert_job_probe_def insert_job_result_def insert_post_scan_request_def
   bump_global_revisions_def result_iffs)

text \<open>
  A step of the backend: a call of one of its operations, or anything that happens to the fence file
  and to the hosts.
\<close>

inductive backend_step :: "'h system \<Rightarrow> 'h system \<Rightarrow> bool" where
  job_operation: "operation_step s s' \<Longrightarrow> backend_step s s'"
| catalog_operation: "catalog_step db db' \<Longrightarrow> backend_step (db, f, h) (db', f, h)"
| inventory_operation: "inventory_step db db' \<Longrightarrow> backend_step (db, f, h) (db', f, h)"
| outside: "backend_step (db, f, h) (db, f', h')"

lemma backend_authority: "backend_step s s' \<Longrightarrow> authority_step s s'"
proof (induction rule: backend_step.induct)
  case (outside db f h f' h')
  show ?case by (rule authority_step.environment) (simp add: environment_step_def)
qed (auto intro: authority_step.intros catalog_frame.catalog_keeps inventory_frame.inventory_keeps)

lemma backend_run_authority: "backend_step\<^sup>*\<^sup>* s s' \<Longrightarrow> authority_step\<^sup>*\<^sup>* s s'"
  by (induction rule: rtranclp_induct) (auto intro: backend_authority rtranclp.rtrancl_into_rtrancl)

text \<open>A relation that each kind of step respects holds along every run.\<close>

lemma backend_run_keeps:
  fixes s s' :: "'h system"
  assumes "backend_step\<^sup>*\<^sup>* s s'" "store_ok (fst s)"
    and refl: "\<And>db. R db db" and trans: "\<And>a b c. R a b \<Longrightarrow> R b c \<Longrightarrow> R a c"
    and job: "\<And>db f (h :: 'h) db' f' h'. operation_step (db, f, h) (db', f', h') \<Longrightarrow> store_ok db \<Longrightarrow> R db db'"
    and catalog: "\<And>db db'. catalog_step db db' \<Longrightarrow> R db db'"
    and inventory: "\<And>db db'. inventory_step db db' \<Longrightarrow> R db db'"
  shows "R (fst s) (fst s')"
  using assms(1,2)
proof (induction rule: rtranclp_induct)
  case (step y z)
  have ok: "store_ok (fst y)"
    using job_history.steps_keep[OF backend_run_authority[OF step.hyps(1)] step.prems] by blast
  from step.hyps(2) have "R (fst y) (fst z)"
  proof (cases rule: backend_step.cases)
    case job_operation
    then show ?thesis using job[of "fst y" "fst (snd y)" "snd (snd y)" "fst z" "fst (snd z)" "snd (snd z)"] ok by simp
  qed (auto simp: refl intro: catalog inventory)
  with step show ?case by (blast intro: trans)
qed (simp add: refl)

text \<open>The catalog operations leave the tables of sources, runs and resources alone.\<close>

interpretation inventory_catalog: catalog_relation inventory_same
  by unfold_locales (auto simp: inventory_same_def catalog_writes Let_def result_iffs)

text \<open>A relation of the catalog tables that each catalog write respects is one.\<close>

locale backend_relation = catalog_relation +
  assumes only_catalog: "catalog_same db db' \<Longrightarrow> R db db'"

sublocale backend_relation \<subseteq> reconciler: reconcile_relation R
  by unfold_locales (auto intro!: only_catalog simp: catalog_same_def discovery_writes Let_def result_iffs split: if_splits)

sublocale backend_relation \<subseteq> discovery: discovery_relation R
proof
  show "R db db'" if "provision_default_health_contracts t db = Inr (k, db')" for t db k db'
    using steady_provision[of t] that by (simp add: steady_def)
  show "R db db'" if "reconcile u s t db = Inr (y, db')" for u s t db y db'
    using reconciler.steady_reconcile[of u s t] that by (simp add: steady_def)
qed (auto intro!: only_catalog simp: catalog_same_def discovery_writes bump_global_revisions_def Let_def result_iffs
   split: if_splits)

context backend_relation
begin

lemma backend_keeps:
  assumes "backend_step\<^sup>*\<^sup>* s s'" "store_ok (fst s)"
  shows "R (fst s) (fst s')"
proof (rule backend_run_keeps[OF assms])
  show "R db db'" if "operation_step (db, f, h) (db', f', h')" "store_ok db" for db db' f f' and h h' :: 'a
    by (rule only_catalog) (use job_frame.operation_keeps[OF that] in \<open>simp add: outside_jobs_same_def\<close>)
qed (auto intro: refl trans catalog_keeps discovery.inventory_keeps)

end

interpretation scan_runs_history: backend_relation scans_evolve
  by unfold_locales (auto simp: catalog_same_def intro: scans_same)

interpretation contract_counter_history: backend_relation counters_grow
  by unfold_locales (auto simp: catalog_same_def counters_grow_def)

end
