(* ===== verification/Contract_Coherence.thy ===== *)
theory Contract_Coherence
  imports Catalog_Histories
begin

text \<open>
  The coherence of the health contract tables: a live contract carries the last revision its
  resource was allocated, and probe rows belong to live contracts. Each operation is described by
  what it leaves of the rows of its own resource; the rows of the others stay.
\<close>

definition last_revision :: "authority_db \<Rightarrow> uuid \<Rightarrow> int option" where
  "last_revision db i = map_option rs_last_revision (row_by rs_resource_id i (revision_states db))"

definition probes_have_contracts :: "authority_db \<Rightarrow> bool" where
  "probes_have_contracts db \<longleftrightarrow> cp_resource_id ` set (contract_probes db) \<subseteq> cr_resource_id ` set (contracts db)"

definition contracts_ok :: "authority_db \<Rightarrow> bool" where
  "contracts_ok db \<longleftrightarrow>
     distinct (map cr_resource_id (contracts db))
     \<and> (\<forall>c \<in> set (contracts db). last_revision db (cr_resource_id c) = Some (cr_revision c))
     \<and> probes_have_contracts db"

section \<open>The three parts of a replacement\<close>

lemma allocate_effect:
  assumes "allocate_health_contract_revision i t db = Inr (n, db')"
  shows "\<exists>rs. db' = db\<lparr>revision_states := rs\<rparr>" "last_revision db' i = Some n"
    "\<And>k. k \<noteq> i \<Longrightarrow> last_revision db' k = last_revision db k"
    "\<And>m. last_revision db i = Some m \<Longrightarrow> m < n" "last_revision db i = None \<Longrightarrow> n = 1"
proof -
  let ?w = "\<lambda>old r. rs_resource_id r = i \<and> rs_last_revision r = old"
  let ?s = "\<lambda>n r. r\<lparr>rs_last_revision := n, rs_updated_at := t\<rparr>"
  from assms consider
    (new) "row_by rs_resource_id i (revision_states db) = None" "n = 1"
      "db' = db\<lparr>revision_states := revision_states db @ [\<lparr>rs_resource_id = i, rs_last_revision = 1, rs_updated_at = t\<rparr>]\<rparr>"
  | (again) r where "row_by rs_resource_id i (revision_states db) = Some r" "n = rs_last_revision r + 1"
      "db' = db\<lparr>revision_states := rows_update (?w (rs_last_revision r)) (?s n) (revision_states db)\<rparr>"
    by (auto simp: allocate_health_contract_revision_def seq_Inr fetch_Inr andthen_Inr commit_Inr insert_revision_state_def
        update_revision_state_def Let_def result_iffs split: option.splits)
  then have "(\<exists>rs. db' = db\<lparr>revision_states := rs\<rparr>) \<and> last_revision db' i = Some n
      \<and> (\<forall>k. k \<noteq> i \<longrightarrow> last_revision db' k = last_revision db k)
      \<and> (\<forall>m. last_revision db i = Some m \<longrightarrow> m < n) \<and> (last_revision db i = None \<longrightarrow> n = 1)"
  proof cases
    case new
    then show ?thesis
      by (auto simp: last_revision_def row_by_append row_by_def[of rs_resource_id _ "[_]"] split: option.splits)
  next
    case (again r)
    from row_by_Some_key[OF again(1)] have "rs_resource_id r = i" by simp
    with again show ?thesis
      by (auto simp: last_revision_def row_by_rows_update option.map_comp comp_def dest!: row_by_Some_key
          intro!: option.map_cong)
  qed
  then show "\<exists>rs. db' = db\<lparr>revision_states := rs\<rparr>" "last_revision db' i = Some n"
    "\<And>k. k \<noteq> i \<Longrightarrow> last_revision db' k = last_revision db k"
    "\<And>m. last_revision db i = Some m \<Longrightarrow> m < n" "last_revision db i = None \<Longrightarrow> n = 1"
    by blast+
qed

text \<open>Reading the declared contract gives the revision of its row.\<close>

lemma contract_of_row:
  "resource_health_contract_of db i = Inr None \<Longrightarrow> i \<notin> cr_resource_id ` set (contracts db)"
  "resource_health_contract_of db i = Inr (Some c) \<Longrightarrow>
     \<exists>row. row_by cr_resource_id i (contracts db) = Some row \<and> cr_revision row = hc_revision c"
  by (auto simp: resource_health_contract_of_def Let_def result_iffs row_by_None split: option.splits)

lemma drop_effect:
  assumes "distinct (map cr_resource_id (contracts db))" "resource_health_contract_of db0 i = Inr existing"
    "contracts db0 = contracts db" "drop_contract i existing e db = Inr (u, db')"
  shows "db' = db\<lparr>contracts := filter (\<lambda>c. cr_resource_id c \<noteq> i) (contracts db),
      contract_probes := filter (\<lambda>r. cp_resource_id r \<noteq> i) (contract_probes db)\<rparr>"
proof (cases existing)
  case None
  with contract_of_row(1)[of db0 i] assms(2,3) have "filter (\<lambda>c. cr_resource_id c \<noteq> i) (contracts db) = contracts db"
    by (auto simp: filter_id_conv)
  with None assms(4) show ?thesis
    by (auto simp: drop_contract_def andthen_Inr commit_Inr delete_contract_probes_def result_iffs)
next
  case (Some c)
  with contract_of_row(2) assms(2,3) obtain row where row: "row_by cr_resource_id i (contracts db) = Some row"
    "cr_revision row = hc_revision c" by metis
  have "x = row" if "x \<in> set (contracts db)" "cr_resource_id x = i" for x
    using row_by_unique[OF assms(1) that(1)] that(2) row(1) by simp
  then have "filter (\<lambda>x. \<not> (cr_resource_id x = i \<and> cr_revision x = hc_revision c)) (contracts db)
      = filter (\<lambda>x. cr_resource_id x \<noteq> i) (contracts db)"
    using row(2) by (intro filter_cong) auto
  with Some assms(4) show ?thesis
    by (auto simp: drop_contract_def andthen_Inr commit_Inr delete_contract_def delete_contract_probes_def Let_def result_iffs)
qed

lemma executemany_contract_probes:
  "executemany insert_contract_probe rows db = Inr db' \<Longrightarrow>
     db' = db\<lparr>contract_probes := contract_probes db @ rows\<rparr>
     \<and> (\<forall>r \<in> set rows. cp_resource_id r \<in> cr_resource_id ` set (contracts db))"
proof (induction rows arbitrary: db)
  case (Cons r rows)
  then obtain db1 where r: "insert_contract_probe r db = Inr db1" and rest: "executemany insert_contract_probe rows db1 = Inr db'"
    by (auto simp: result_iffs)
  from r have db1: "db1 = db\<lparr>contract_probes := contract_probes db @ [r]\<rparr>"
    and "row_by cr_resource_id (cp_resource_id r) (contracts db) \<noteq> None"
    by (auto simp: insert_contract_probe_def Let_def result_iffs split: option.splits)
  then have "cp_resource_id r \<in> cr_resource_id ` set (contracts db)" by (simp add: row_by_None)
  with Cons.IH[OF rest] db1 show ?case by auto
qed simp

lemma write_effect:
  assumes "write_contract i n fp c u ps db = Inr (x, db')"
  shows "db' = db\<lparr>contracts := contracts db @ [\<lparr>cr_resource_id = i, cr_revision = n, cr_fingerprint = fp,
      cr_probe_count = length ps, cr_created_at = c, cr_updated_at = u\<rparr>],
      contract_probes := contract_probes db @ contract_probe_rows i ps\<rparr>"
    "i \<notin> cr_resource_id ` set (contracts db)" "last_revision db i = Some n"
  using assms
  by (auto simp: write_contract_def andthen_Inr commit_Inr insert_contract_def result_iffs last_revision_def
      dest!: executemany_contract_probes)

section \<open>Coherence is kept\<close>

lemma write_contracts_ok:
  assumes "distinct (map cr_resource_id (contracts db))" "probes_have_contracts db"
    and "\<And>c. c \<in> set (contracts db) \<Longrightarrow> cr_resource_id c \<noteq> i \<Longrightarrow> last_revision db (cr_resource_id c) = Some (cr_revision c)"
    and w: "write_contract i n fp c u ps db = Inr (x, db')"
  shows "contracts_ok db'"
proof -
  note eff = write_effect[OF w]
  have "last_revision db' k = last_revision db k" for k by (simp add: eff(1) last_revision_def)
  with assms(1,3) eff(2,3) have "distinct (map cr_resource_id (contracts db'))"
    "\<forall>c \<in> set (contracts db'). last_revision db' (cr_resource_id c) = Some (cr_revision c)"
    by (auto simp: eff(1))
  moreover have "probes_have_contracts db'"
    using assms(2) by (auto simp: eff(1) probes_have_contracts_def contract_probe_rows_def)
  ultimately show ?thesis by (simp add: contracts_ok_def)
qed

lemma replace_write:
  assumes ok: "contracts_ok db" and ex: "resource_health_contract_of db i = Inr existing"
    and alloc: "allocate_health_contract_revision i t db = Inr (n, db1)"
    and drop: "drop_contract i existing e db1 = Inr (v, db2)" and w: "write_contract i n fp c u ps db2 = Inr (x, db3)"
  shows "contracts_ok db3" "contracts db3 = filter (\<lambda>c. cr_resource_id c \<noteq> i) (contracts db) @
      [\<lparr>cr_resource_id = i, cr_revision = n, cr_fingerprint = fp, cr_probe_count = length ps, cr_created_at = c, cr_updated_at = u\<rparr>]"
    "contract_probes db3 = filter (\<lambda>r. cp_resource_id r \<noteq> i) (contract_probes db) @ contract_probe_rows i ps"
    "last_revision db3 i = Some n"
proof -
  note al = allocate_effect[OF alloc]
  from al(1) have same: "contracts db1 = contracts db" "contract_probes db1 = contract_probes db" by auto
  with ok have dist: "distinct (map cr_resource_id (contracts db1))" by (simp add: contracts_ok_def)
  note db2 = drop_effect[OF dist ex same(1)[symmetric] drop]
  have rev: "last_revision db2 k = last_revision db1 k" for k by (simp add: db2 last_revision_def)
  show "contracts_ok db3"
  proof (rule write_contracts_ok[OF _ _ _ w])
    show "distinct (map cr_resource_id (contracts db2))" using dist by (simp add: db2 distinct_map_filter)
    show "probes_have_contracts db2" using ok by (auto simp: db2 same contracts_ok_def probes_have_contracts_def)
    show "last_revision db2 (cr_resource_id c) = Some (cr_revision c)" if "c \<in> set (contracts db2)" "cr_resource_id c \<noteq> i" for c
      using that ok al(3) by (simp add: rev) (auto simp: db2 same contracts_ok_def)
  qed
  from write_effect[OF w] show "contracts db3 = filter (\<lambda>c. cr_resource_id c \<noteq> i) (contracts db) @
      [\<lparr>cr_resource_id = i, cr_revision = n, cr_fingerprint = fp, cr_probe_count = length ps, cr_created_at = c, cr_updated_at = u\<rparr>]"
    "contract_probes db3 = filter (\<lambda>r. cp_resource_id r \<noteq> i) (contract_probes db) @ contract_probe_rows i ps"
    "last_revision db3 i = Some n"
    using al(2) rev by (auto simp: db2 same last_revision_def)
qed

text \<open>The rows of a contract read back as the contract.\<close>

lemma contract_rows_read_back:
  assumes "contracts db = old @ [\<lparr>cr_resource_id = i, cr_revision = n, cr_fingerprint = fp, cr_probe_count = length ps,
      cr_created_at = c, cr_updated_at = u\<rparr>]" "i \<notin> cr_resource_id ` set old"
    and "contract_probes db = others @ contract_probe_rows i ps" "i \<notin> cp_resource_id ` set others"
    and "health_contract_fingerprint ps = Inr fp"
  shows "resource_health_contract_of db i = Inr (Some \<lparr>hc_resource_id = i, hc_revision = n, hc_fingerprint = fp,
      hc_created_at = c, hc_updated_at = u, hc_probes = ps\<rparr>)"
proof -
  have "filter (\<lambda>r. cp_resource_id r = i) (contract_probes db) = contract_probe_rows i ps"
  proof -
    have "filter (\<lambda>r. cp_resource_id r = i) others = []" using assms(4) by (auto simp: filter_empty_conv)
    moreover have "filter (\<lambda>r. cp_resource_id r = i) (contract_probe_rows i ps) = contract_probe_rows i ps"
      by (auto simp: contract_probe_rows_def filter_id_conv)
    ultimately show ?thesis using assms(3) by simp
  qed
  moreover have "map cp_index (contract_probe_rows i ps) = [0..<length ps]"
    by (rule nth_equalityI) (simp_all add: contract_probe_rows_def nth_enumerate_eq split_beta)
  then have "sort_key cp_index (contract_probe_rows i ps) = contract_probe_rows i ps"
    by (intro sort_key_id_if_sorted) simp
  moreover have "map cp_probe (contract_probe_rows i ps) = ps"
    by (rule nth_equalityI) (simp_all add: contract_probe_rows_def nth_enumerate_eq split_beta)
  moreover have "row_by cr_resource_id i (contracts db) = Some \<lparr>cr_resource_id = i, cr_revision = n, cr_fingerprint = fp,
      cr_probe_count = length ps, cr_created_at = c, cr_updated_at = u\<rparr>"
    using assms(1,2) row_by_None[of cr_resource_id i old] by (simp add: row_by_append) (simp add: row_by_def)
  ultimately show ?thesis using assms(5) by (simp add: resource_health_contract_of_def Let_def)
qed

lemma replace_body_effect:
  assumes ok: "contracts_ok db" and run: "replace_contract_body now expected (i, ps, fp) db = Inr (c, db')"
    and fp: "health_contract_fingerprint ps = Inr fp"
  shows "contracts_ok db' \<and> resource_health_contract_of db' i = Inr (Some c) \<and> hc_fingerprint c = fp
     \<and> last_revision db' i = Some (hc_revision c)
     \<and> (\<exists>before. resource_health_contract_of db i = Inr before
          \<and> expected \<in> {None, Some (case before of None \<Rightarrow> 0 | Some b \<Rightarrow> hc_revision b)}
          \<and> (before = Some c \<and> db' = db \<or> hc_probes c = ps \<and> (\<forall>m. last_revision db i = Some m \<longrightarrow> m < hc_revision c)))"
proof -
  from run obtain before where before: "resource_health_contract_of db i = Inr before"
    and exp: "require_expected_health_contract_revision before expected = Inr ()"
    and rest: "(if map_option hc_fingerprint before = Some fp then ret (the before)
      else declare_contract now (i, ps, fp) before) db = Inr (c, db')"
    by (auto simp: replace_contract_body_def andthen_Inr seq_Inr fetch_Inr pure_Inr require_current_health_contract_resource_def
        need_Inr simp del: map_option_eq_Some)
  have expd: "expected \<in> {None, Some (case before of None \<Rightarrow> 0 | Some b \<Rightarrow> hc_revision b)}"
    using exp by (auto simp: require_expected_health_contract_revision_def result_iffs split: option.splits)
  show ?thesis
  proof (cases "map_option hc_fingerprint before = Some fp")
    case True
    then obtain b where b: "before = Some b" "hc_fingerprint b = fp" by auto
    with rest have "c = b" "db' = db" by auto
    moreover obtain row where "row_by cr_resource_id i (contracts db) = Some row" "cr_revision row = hc_revision b"
      using contract_of_row(2) before b(1) by metis
    then have "last_revision db i = Some (hc_revision b)"
      using ok by (metis contracts_ok_def row_by_Some_key)
    ultimately show ?thesis using ok before b expd by auto
  next
    case False
    with rest have "declare_contract now (i, ps, fp) before db = Inr (c, db')" by (simp only: if_False)
    then obtain n db1 db2 db3 v x created where
      alloc: "allocate_health_contract_revision i (now 0) db = Inr (n, db1)"
      and drop: "drop_contract i before ''resource health contract changed during replacement'' db1 = Inr (v, db2)"
      and w: "write_contract i n fp created (now 0) ps db2 = Inr (x, db3)" and pub: "publish (now 1) db3 = Inr ((), db')"
      and c: "c = \<lparr>hc_resource_id = i, hc_revision = n, hc_fingerprint = fp, hc_created_at = created,
             hc_updated_at = now 0, hc_probes = ps\<rparr>"
      by (auto simp: declare_contract_def andthen_Inr seq_Inr Let_def)
    note eff = replace_write[OF ok before alloc drop w]
    from pub have same: "contracts db' = contracts db3" "contract_probes db' = contract_probes db3"
      "revision_states db' = revision_states db3" by (auto simp: publish_def commit_Inr bump_global_revisions_def)
    have "resource_health_contract_of db' i = Inr (Some c)" unfolding c
      by (rule contract_rows_read_back[OF _ _ _ _ fp]) (use eff in \<open>auto simp: same\<close>)
    moreover have "contracts_ok db'" "last_revision db' i = Some n"
      using eff(1,4) by (simp_all add: contracts_ok_def probes_have_contracts_def last_revision_def same)
    ultimately show ?thesis using before expd allocate_effect(4)[OF alloc] by (auto simp: c)
  qed
qed

lemma clear_body_effect:
  assumes ok: "contracts_ok db" and run: "clear_contract_body now expected i db = Inr (b, db')"
  shows "contracts_ok db' \<and> resource_health_contract_of db' i = Inr None \<and> revision_states db' = revision_states db
     \<and> (b \<longleftrightarrow> i \<in> cr_resource_id ` set (contracts db))"
proof -
  from run obtain before where before: "resource_health_contract_of db i = Inr before"
    and rest: "(if before = None then ret False else andthen (drop_contract i before ''resource health contract changed during clearing'')
      (andthen (publish (now 0)) (ret True))) db = Inr (b, db')"
    by (auto simp: clear_contract_body_def andthen_Inr seq_Inr fetch_Inr pure_Inr require_current_health_contract_resource_def
        need_Inr)
  show ?thesis
  proof (cases before)
    case None
    with rest before contract_of_row(1)[of db i] ok show ?thesis by auto
  next
    case (Some c)
    with rest obtain u db1 where drop: "drop_contract i before ''resource health contract changed during clearing'' db = Inr (u, db1)"
      and pub: "publish (now 0) db1 = Inr ((), db')" and "b"
      by (auto simp: andthen_Inr)
    from ok have dist: "distinct (map cr_resource_id (contracts db))" by (simp add: contracts_ok_def)
    from pub have same: "contracts db' = contracts db1" "contract_probes db' = contract_probes db1"
      "revision_states db' = revision_states db1" by (auto simp: publish_def commit_Inr bump_global_revisions_def)
    note db1 = drop_effect[OF dist before refl drop]
    have "contracts_ok db'"
      using ok unfolding contracts_ok_def probes_have_contracts_def last_revision_def same db1 by (auto simp: distinct_map_filter)
    moreover have "resource_health_contract_of db' i = Inr None"
      using row_by_None[of cr_resource_id i "contracts db'"] by (auto simp: same db1 resource_health_contract_of_def)
    moreover from contract_of_row(2)[of db i c] before Some have "i \<in> cr_resource_id ` set (contracts db)"
      by (auto dest!: row_by_Some_key)
    ultimately show ?thesis using \<open>b\<close> by (simp add: same db1)
  qed
qed

lemma provision_contracts_ok:
  "contracts_ok db \<Longrightarrow> provision_contracts t is db = Inr (u, db') \<Longrightarrow> contracts_ok db'"
proof (induction "is" arbitrary: db)
  case (Cons i "is")
  then obtain n db1 db2 x where alloc: "allocate_health_contract_revision i t db = Inr (n, db1)"
    and w: "write_contract i n DEFAULT_HEALTH_CONTRACT_FINGERPRINT t t DEFAULT_HEALTH_PROBES db1 = Inr (x, db2)"
    and rest: "provision_contracts t is db2 = Inr (u, db')"
    by (auto simp: seq_Inr andthen_Inr)
  from allocate_effect(1)[OF alloc] have same: "contracts db1 = contracts db" "contract_probes db1 = contract_probes db" by auto
  have "contracts_ok db2"
  proof (rule write_contracts_ok[OF _ _ _ w])
    show "last_revision db1 (cr_resource_id c) = Some (cr_revision c)" if "c \<in> set (contracts db1)" "cr_resource_id c \<noteq> i" for c
      using that Cons.prems(1) allocate_effect(3)[OF alloc] by (simp add: same contracts_ok_def)
  qed (use Cons.prems(1) in \<open>simp_all add: same contracts_ok_def probes_have_contracts_def\<close>)
  from Cons.IH[OF this rest] show ?case .
qed simp

lemma contract_args_Inr:
  assumes "contract_args i probes expected = Inr x"
  shows "\<exists>ps fp. x = (i, ps, fp) \<and> canonical_health_probes probes = Inr ps \<and> health_contract_fingerprint ps = Inr fp
     \<and> health_contract_fingerprint probes = Inr fp"
  using assms canonical_health_probes_idem[of probes]
  by (auto simp: contract_args_def result_iffs require_uuid_def health_contract_fingerprint_def)

lemma contract_step_ok: "contract_step db db' \<Longrightarrow> contracts_ok db \<Longrightarrow> contracts_ok db'"
proof (induction rule: contract_step.induct)
  case (replace_contract db now i probes expected)
  show ?case unfolding replace_resource_health_contract_def
    by (rule run_op_inv) (use replace_contract replace_body_effect[OF replace_contract] contract_args_Inr in blast)+
next
  case (clear_contract db now i expected)
  show ?case unfolding clear_resource_health_contract_def
    by (rule run_op_inv) (use clear_contract clear_body_effect[OF clear_contract] in blast)+
qed

section \<open>Runs\<close>

text \<open>Scans and approvals leave the contract tables alone.\<close>

definition contract_tables_same :: "authority_db \<Rightarrow> authority_db \<Rightarrow> bool" where
  "contract_tables_same db db' \<longleftrightarrow>
     revision_states db' = revision_states db \<and> contracts db' = contracts db \<and> contract_probes db' = contract_probes db"

interpretation contract_frame: scan_relation contract_tables_same
  by unfold_locales (auto simp: contract_tables_same_def catalog_writes Let_def result_iffs)

lemma contracts_ok_same: "contract_tables_same db db' \<Longrightarrow> contracts_ok db' = contracts_ok db"
  by (simp add: contract_tables_same_def contracts_ok_def probes_have_contracts_def last_revision_def)

lemma scan_step_ok: "scan_step db db' \<Longrightarrow> contracts_ok db \<Longrightarrow> contracts_ok db'"
  using contract_frame.scan_keeps contracts_ok_same by blast

text \<open>Discovery touches them only where it provisions default contracts.\<close>

lemma contracts_ok_frame: "contract_tables_same db db' \<Longrightarrow> contracts_ok db \<longrightarrow> contracts_ok db'"
  by (simp add: contracts_ok_same)

interpretation contract_reconcile: reconcile_relation contract_tables_same
  by unfold_locales (auto simp: contract_tables_same_def discovery_writes bump_global_revisions_def write_expiry_def Let_def
   result_iffs split: if_splits)

interpretation contract_discovery: discovery_relation "\<lambda>db db'. contracts_ok db \<longrightarrow> contracts_ok db'"
proof
  show "contracts_ok db \<longrightarrow> contracts_ok db'" if "reconcile u s t db = Inr (y, db')" for u s t db y db'
    by (rule contracts_ok_frame) (use contract_reconcile.steady_reconcile[of u s t] that in \<open>simp add: steady_def\<close>)
  show "contracts_ok db \<longrightarrow> contracts_ok db" for db by simp
  show "contracts_ok a \<longrightarrow> contracts_ok c" if "contracts_ok a \<longrightarrow> contracts_ok b" "contracts_ok b \<longrightarrow> contracts_ok c" for a b c
    using that by simp
  show "contracts_ok db \<longrightarrow> contracts_ok db'" if "provision_default_health_contracts t db = Inr (k, db')" for t db k db'
    using that by (auto simp: provision_default_health_contracts_def seq_Inr fetch_Inr andthen_Inr intro: provision_contracts_ok)
qed ((rule contracts_ok_frame, (auto simp: contract_tables_same_def discovery_writes bump_global_revisions_def
   write_expiry_def Let_def result_iffs split: if_splits)[1])+)

lemma backend_contracts_ok:
  assumes "backend_step\<^sup>*\<^sup>* s s'" "store_ok (fst s)" "contracts_ok (fst s)"
  shows "contracts_ok (fst s')"
proof -
  have "contracts_ok (fst s) \<longrightarrow> contracts_ok (fst s')"
  proof (rule backend_run_keeps[OF assms(1,2)])
    show "contracts_ok db \<longrightarrow> contracts_ok db'" if "operation_step (db, f, h) (db', f', h')" "store_ok db"
      for db db' f f' and h h' :: 'a
      using job_frame.operation_keeps[OF that] contracts_ok_same[of db db'] by (simp add: outside_jobs_defs contract_tables_same_def)
  qed (auto dest: contract_step_ok scan_step_ok contract_discovery.inventory_keeps)
  with assms(3) show ?thesis by simp
qed

end
