(* ===== verification/Catalog_Properties.thy ===== *)
theory Catalog_Properties
  imports Contract_Coherence Demo_Fixture
begin

text \<open>
  Properties of the scan, approval and health contract lifecycles, of single operations and of runs
  of the whole backend.
\<close>

section \<open>A successful scan reads back\<close>

lemma split_on_chars: "c \<in> set v \<Longrightarrow> c = s \<or> (\<exists>p \<in> set (split_on s v). c \<in> set p)"
proof (induction v)
  case (Cons d v)
  then show ?case by (cases "split_on s v") (auto split: if_splits)
qed simp

lemma architecture_chars:
  assumes "architecture_match v" "c \<in> set v"
  shows "is_lower_alpha c \<or> is_ascii_digit c \<or> c = CHR ''-''"
  using assms split_on_chars[OF assms(2), of "CHR ''-''"] by (auto simp: architecture_match_def list_all_iff)

lemma package_ok_columns:
  assumes "package_ok p"
  shows "scan_package_columns_check p"
proof -
  from assms have "is_text 300 (pkg_name p)" "is_text 500 (pkg_installed_version p)" "is_text 500 (pkg_candidate_version p)"
    and arch: "architecture_match (pkg_architecture p)" and sec: "pkg_security p \<in> {Some True, None}"
    and len: "2 \<le> length (pkg_architecture p)" "length (pkg_architecture p) \<le> 32"
    and opt: "null_or (\<lambda>v. length v \<le> 500) (pkg_origin p)" "null_or (\<lambda>v. length v \<le> 500) (pkg_description p)"
    by (simp_all add: package_ok_def null_or_def is_text_def split: option.splits)
  then have "sql_nonblank (pkg_name p)" "sql_nonblank (pkg_installed_version p)" "sql_nonblank (pkg_candidate_version p)"
    by (simp_all add: is_text_nonblank)
  moreover have "\<forall>c \<in> set (pkg_architecture p). let n = of_char c :: nat in
          (97 \<le> n \<and> n \<le> 122) \<or> (48 \<le> n \<and> n \<le> 57) \<or> c = CHR ''-''"
    using architecture_chars[OF arch] unfolding is_lower_alpha_def is_ascii_digit_def Let_def by blast
  moreover have "case pkg_architecture p of [] \<Rightarrow> False | c # _ \<Rightarrow> (let n = of_char c :: nat in 97 \<le> n \<and> n \<le> 122)"
    using arch by (cases "pkg_architecture p") (auto simp: architecture_match_def is_lower_alpha_def Let_def)
  ultimately show ?thesis using sec len opt unfolding scan_package_columns_check_def by blast
qed

text \<open>A whole plan of a running scan goes in, provided the scan has no rows yet.\<close>

lemma executemany_scan_packages:
  assumes "list_ex (\<lambda>x. scan_run_id x = i \<and> scan_lifecycle x = SCAN_RUNNING) (scan_runs db)"
    and "\<And>r. r \<in> set rows \<Longrightarrow> prow_owner r = i \<and> scan_package_columns_check (prow_package r)"
    and "distinct (map prow_index rows)" "distinct (map (\<lambda>r. plan_key (prow_package r)) rows)"
    and "\<And>r x. r \<in> set rows \<Longrightarrow> x \<in> set (scan_packages db) \<Longrightarrow> prow_owner x = i \<Longrightarrow>
          prow_index x \<noteq> prow_index r \<and> plan_key (prow_package x) \<noteq> plan_key (prow_package r)"
  shows "executemany insert_scan_package rows db = Inr (db\<lparr>scan_packages := scan_packages db @ rows\<rparr>)"
  using assms
proof (induction rows arbitrary: db)
  case (Cons r rows)
  let ?db = "db\<lparr>scan_packages := scan_packages db @ [r]\<rparr>"
  have "executemany insert_scan_package rows ?db = Inr (?db\<lparr>scan_packages := scan_packages ?db @ rows\<rparr>)"
    by (rule Cons.IH) (use Cons.prems in \<open>auto simp: image_iff\<close>)
  moreover have "insert_scan_package r db = Inr ?db"
  proof -
    have "\<forall>x \<in> set (scan_packages db). prow_owner x = prow_owner r \<longrightarrow>
        prow_index x \<noteq> prow_index r \<and> plan_key (prow_package x) \<noteq> plan_key (prow_package r)"
      using Cons.prems(2)[of r] Cons.prems(5)[of r] by simp
    then show ?thesis
      unfolding insert_scan_package_def using Cons.prems(1) Cons.prems(2)[of r] by (auto simp: checkE_def)
  qed
  ultimately show ?case by simp
qed simp

lemma scan_package_rows_simps:
  "filter (\<lambda>r. prow_owner r = i) (scan_package_rows i ps) = scan_package_rows i ps"
  "sort_key prow_index (scan_package_rows i ps) = scan_package_rows i ps"
proof -
  show "filter (\<lambda>r. prow_owner r = i) (scan_package_rows i ps) = scan_package_rows i ps"
    by (auto simp: scan_package_rows_def filter_id_conv)
  have "map prow_index (scan_package_rows i ps) = [0..<length ps]"
    by (rule nth_equalityI) (simp_all add: scan_package_rows_def nth_enumerate_eq split_beta)
  then show "sort_key prow_index (scan_package_rows i ps) = scan_package_rows i ps"
    by (intro sort_key_id_if_sorted) simp
qed

lemma scan_package_rows_read:
  assumes "\<And>p. p \<in> set ps \<Longrightarrow> pkg_security p \<noteq> Some False"
  shows "map (\<lambda>r. read_package (prow_package r)) (scan_package_rows i ps) = ps"
proof -
  have "p\<lparr>pkg_security := if pkg_security p = Some True then Some True else None\<rparr> = p" if "p \<in> set ps" for p
    using assms[OF that] by (cases "pkg_security p") auto
  then show ?thesis
    by (intro nth_equalityI) (auto simp: scan_package_rows_def read_package_def nth_enumerate_eq split_beta)
qed

lemma scan_package_rows_insertable:
  assumes "list_all package_ok ps" "distinct (map plan_key ps)"
  shows "\<And>r. r \<in> set (scan_package_rows i ps) \<Longrightarrow> prow_owner r = i \<and> scan_package_columns_check (prow_package r)"
    and "distinct (map prow_index (scan_package_rows i ps))"
    and "distinct (map (\<lambda>r. plan_key (prow_package r)) (scan_package_rows i ps))"
proof -
  have ok: "scan_package_columns_check (p\<lparr>pkg_security := if pkg_security p = Some True then Some True else None\<rparr>)"
    if "p \<in> set ps" for p
    using package_ok_columns[of p] assms(1) that by (auto simp: list_all_iff scan_package_columns_check_def)
  show "prow_owner r = i \<and> scan_package_columns_check (prow_package r)" if "r \<in> set (scan_package_rows i ps)" for r
  proof -
    from that obtain n p where "(n, p) \<in> set (enumerate 0 ps)" and r: "r = \<lparr>prow_owner = i, prow_index = n,
        prow_package = p\<lparr>pkg_security := if pkg_security p = Some True then Some True else None\<rparr>\<rparr>"
      unfolding scan_package_rows_def by auto
    then have "p \<in> set ps" by (auto simp: in_set_enumerate_eq)
    from ok[OF this] show ?thesis by (simp add: r)
  qed
  have "map prow_index (scan_package_rows i ps) = [0..<length ps]"
    by (rule nth_equalityI) (simp_all add: scan_package_rows_def nth_enumerate_eq split_beta)
  then show "distinct (map prow_index (scan_package_rows i ps))" by simp
  have "map (\<lambda>r. plan_key (prow_package r)) (scan_package_rows i ps) = map plan_key ps"
    by (rule nth_equalityI) (simp_all add: scan_package_rows_def nth_enumerate_eq split_beta plan_key_def)
  with assms(2) show "distinct (map (\<lambda>r. plan_key (prow_package r)) (scan_package_rows i ps))" by simp
qed

text \<open>Completing a running row keeps the indexes and, for a well-formed outcome, the constraints.\<close>

lemma unique_non_null_weaken:
  "unique_non_null k rs \<Longrightarrow> (\<And>r. r \<in> set rs \<Longrightarrow> k' r = k r \<or> k' r = None) \<Longrightarrow> unique_non_null k' rs"
proof (induction rs)
  case (Cons r rs)
  have "unique_non_null k' rs" by (rule Cons.IH) (use Cons.prems in \<open>auto simp: unique_non_null_def split: if_splits\<close>)
  moreover have "k' r \<notin> k' ` set rs" if "k' r \<noteq> None"
  proof
    assume "k' r \<in> k' ` set rs"
    then obtain x where "x \<in> set rs" "k' x = k' r" by auto
    with Cons.prems(2)[of r] Cons.prems(2)[of x] that have "k x = k r" "k r \<noteq> None" by auto
    with Cons.prems(1) \<open>x \<in> set rs\<close> show False by (auto simp: unique_non_null_def image_iff)
  qed
  ultimately show ?case by (auto simp: unique_non_null_def)
qed (simp add: unique_non_null_def)

lemma scan_indexes_completed:
  assumes "scan_indexes rs" "\<And>r. r \<in> set rs \<Longrightarrow> scan_run_id r = i \<Longrightarrow> scan_lifecycle (s r) = SCAN_COMPLETED
      \<and> scan_run_id (s r) = i \<and> scan_ctx (s r) = scan_ctx r \<and> scan_attempt_sequence (s r) = scan_attempt_sequence r"
  shows "scan_indexes (rows_update (\<lambda>r. scan_run_id r = i) s rs)"
proof -
  let ?rs = "rows_update (\<lambda>r. scan_run_id r = i) s rs"
  let ?k = "\<lambda>r. if scan_lifecycle r = SCAN_RUNNING then Some (scan_resource_id r) else None"
  have keys: "map scan_run_id ?rs = map scan_run_id rs"
    "map (\<lambda>r. (scan_resource_id r, scan_attempt_sequence r)) ?rs = map (\<lambda>r. (scan_resource_id r, scan_attempt_sequence r)) rs"
    using assms(2) by (auto simp: rows_update_def)
  have "unique_non_null (\<lambda>r. ?k (if scan_run_id r = i then s r else r)) rs"
    by (rule unique_non_null_weaken[of ?k]) (use assms in \<open>auto simp: scan_indexes_def\<close>)
  then have "unique_non_null ?k ?rs" by (simp add: unique_non_null_def rows_update_def comp_def)
  with assms(1) keys show ?thesis by (simp add: scan_indexes_def)
qed

lemma update_scan_run_succeeds:
  assumes "scan_indexes (scan_runs db)" "row_by scan_run_id i (scan_runs db) = Some run" "scan_lifecycle run = SCAN_RUNNING"
    and "scan_update_triggers run (s run)" "scan_run_checks (s run)" "scan_lifecycle (s run) = SCAN_COMPLETED"
  shows "update_scan_run i s db = Inr (db\<lparr>scan_runs := rows_update (\<lambda>r. scan_run_id r = i) s (scan_runs db)\<rparr>)"
proof -
  have only: "r = run" if "r \<in> set (scan_runs db)" "scan_run_id r = i" for r
    using row_by_unique[of scan_run_id "scan_runs db" r] assms(1,2) that by (simp add: scan_indexes_def)
  have "scan_indexes (rows_update (\<lambda>r. scan_run_id r = i) s (scan_runs db))"
    by (rule scan_indexes_completed[OF assms(1)])
      (use only assms row_by_Some_key[OF assms(2)] in \<open>auto simp: scan_update_triggers_def\<close>)
  then show ?thesis using only assms by (auto simp: update_scan_run_def Let_def checkE_def list_all_iff)
qed

lemma scan_report_args_Inr:
  assumes "scan_report_args i rep = Inr (j, rep', fp)"
  shows "j = i" "list_all package_ok (rep_packages rep')" "distinct (map plan_key (rep_packages rep'))"
    "package_plan_fingerprint (rep_packages rep') = Inr fp" "length fp = 64"
    "validate_package_plan (rep_packages rep) = Inr (rep_packages rep')"
  using assms package_plan_fingerprint_hex[of "rep_packages rep'" fp]
  by (auto simp: scan_report_args_def result_iffs validate_package_plan_Inr list_all_iff is_hex_digest_def
      require_uuid_def distinct_map)

text \<open>
  C16. A successful scan reads back exactly. For a running scan of a current target with no package rows
  yet, finalising a valid report succeeds: the run is completed once with the report's facts, the
  stored packages are the report's packages in canonical order, and the fingerprint recomputed from
  the stored rows is the fingerprint of the report.
\<close>

theorem scan_report_reads_back:
  assumes "scan_store_ok db" "row_by scan_run_id i (scan_runs db) = Some run" "scan_lifecycle run = SCAN_RUNNING"
    and "package_scan_context_is_current db (scan_ctx run)" "i \<notin> prow_owner ` set (scan_packages db)"
    and "scan_report_args i rep = Inr (j, rep', fp)"
  shows "\<exists>db' v. finalize_successful_package_scan now i rep db = (db', Inr v)
     \<and> sv_run v = successful_scan (now 0) (rep_os_id rep') (rep_os_version rep') (length (rep_packages rep')) fp
          (rep_reboot_required rep') run
     \<and> validate_package_plan (rep_packages rep) = Inr (sv_packages v)
     \<and> row_by scan_run_id i (scan_runs db') = Some (sv_run v)
     \<and> successful_package_scan_fingerprint db' (sv_run v) = Inr fp"
proof -
  note args = scan_report_args_Inr[OF assms(6)]
  let ?ps = "rep_packages rep'" and ?s = "successful_scan (now 0) (rep_os_id rep') (rep_os_version rep')
    (length (rep_packages rep')) fp (rep_reboot_required rep')"
  let ?rows = "scan_package_rows i ?ps"
  let ?db1 = "db\<lparr>scan_packages := scan_packages db @ ?rows\<rparr>"
  let ?db2 = "?db1\<lparr>scan_runs := rows_update (\<lambda>r. scan_run_id r = i) ?s (scan_runs db)\<rparr>"
  have run: "run \<in> set (scan_runs db)" "scan_run_id run = i" using row_by_Some_key[OF assms(2)] by auto
  have ins: "executemany insert_scan_package ?rows db = Inr ?db1"
    by (rule executemany_scan_packages)
      (use run assms(3,5) scan_package_rows_insertable[OF args(2,3)] in \<open>auto simp: list_ex_iff image_iff\<close>)
  have "scan_run_checks run" using assms(1) run(1) by (auto simp: scan_store_ok_def list_all_iff)
  then have checks: "scan_run_checks (?s run)" "scan_update_triggers run (?s run)"
    using assms(3) args(5) by (auto simp: scan_run_checks_def successful_scan_def scan_update_triggers_def)
  have upd: "update_scan_run i ?s ?db1 = Inr ?db2"
    using update_scan_run_succeeds[of ?db1 i run ?s] assms(1,2,3) checks by (simp add: scan_store_ok_def successful_scan_def)
  obtain db' where pub: "publish (now 1) ?db2 = Inr ((), db')" and db': "scan_runs db' = scan_runs ?db2"
    "scan_packages db' = scan_packages ?db2" by (simp add: publish_succeeds)
  have row: "row_by scan_run_id i (scan_runs db') = Some (?s run)"
    using assms(2) run(2) by (simp add: db' row_by_rows_update successful_scan_def)
  have "filter (\<lambda>r. prow_owner r = i) (scan_packages db) = []" using assms(5) by (auto simp: filter_empty_conv)
  then have "scan_packages_of i db' = ?rows" by (simp add: scan_packages_of_def db' scan_package_rows_simps)
  moreover have unknown_or_true: "pkg_security p \<noteq> Some False" if "p \<in> set ?ps" for p
    using args(2) that by (auto simp: list_all_iff package_ok_def)
  ultimately have read: "map (\<lambda>r. read_package (prow_package r)) (scan_packages_of i db') = ?ps"
    using scan_package_rows_read[OF unknown_or_true] by simp
  then have len: "length (scan_packages_of i db') = length ?ps" by (metis length_map)
  have id: "scan_run_id (?s run) = i" using run(2) by (simp add: successful_scan_def)
  have view: "store_package_scan_run db' i = Inr \<lparr>sv_run = ?s run, sv_packages = ?ps\<rparr>"
    using row read len id by (simp add: store_package_scan_run_def require_package_scan_run_row_def package_scan_run_of_def Let_def)
       (simp add: successful_scan_def)
  have fp: "successful_package_scan_fingerprint db' (?s run) = Inr fp"
    using read len id args(4) by (simp add: successful_package_scan_fingerprint_def Let_def)
      (simp add: successful_scan_def str_column_def)
  have "finalize_success_body now (i, rep', fp) db = Inr ((), db')"
    using assms(2,3,4) ins upd pub
    by (auto simp: finalize_success_body_def body_iffs require_package_scan_run_row_def require_running_package_scan_def)
  then have "finalize_successful_package_scan now i rep db = (db', Inr \<lparr>sv_run = ?s run, sv_packages = ?ps\<rparr>)"
    using assms(6) args(1) view by (auto simp: finalize_successful_package_scan_def run_op_Inr)
  with row fp args(6) show ?thesis by (auto intro!: exI)
qed

text \<open>The fixture's scan while it runs, and its report.\<close>

definition demo_running :: scan_run where
  "demo_running = demo_scan\<lparr>scan_lifecycle := SCAN_RUNNING, scan_completed_at := None, scan_outcome := None,
     scan_os_id := None, scan_os_version := None, scan_pending_count := None, scan_plan_fingerprint := None\<rparr>"

definition demo_scanning :: authority_db where
  "demo_scanning = (demo_db [])\<lparr>scan_runs := [demo_running], scan_packages := []\<rparr>"

definition demo_report :: scan_report where
  "demo_report = \<lparr>rep_os_id = ''Debian'', rep_os_version = ''12'', rep_packages = [demo_package], rep_reboot_required = None\<rparr>"

lemma demo_report_args:
  "scan_report_args (demo_uuid (CHR ''9'')) demo_report =
     Inr (demo_uuid (CHR ''9''), demo_report\<lparr>rep_os_id := ''debian''\<rparr>, demo_plan_fingerprint)"
proof -
  have "is_text 100 ''Debian''" "is_text 200 ''12''" "py_lower ''Debian'' = ''debian''" by code_simp+
  moreover have "is_canonical_uuid (demo_uuid (CHR ''9''))" using demo_uuid_canonical by simp
  ultimately show ?thesis
    by (simp add: scan_report_args_def demo_report_def require_uuid_def require_text_def demo_plan_valid demo_plan)
qed

lemma demo_scanning_ok: "scan_store_ok demo_scanning"
proof -
  have "scan_context_checks demo_context" by (simp add: scan_context_checks_def demo_context_def sql_nonblank_def)
  then show ?thesis
    by (simp add: scan_store_ok_def demo_scanning_def demo_running_def demo_scan_def scan_indexes_def unique_non_null_def
        scan_run_checks_def)
qed

theorem scan_report_reads_back_witness:
  "\<exists>db' v. finalize_successful_package_scan (\<lambda>_. 950) (demo_uuid (CHR ''9'')) demo_report demo_scanning = (db', Inr v)
     \<and> sv_packages v = [demo_package]"
proof -
  have "package_scan_context_is_current demo_scanning demo_context"
    by (simp add: package_scan_context_is_current_def resource_target_of_def demo_scanning_def demo_db_def demo_context_def row_by_def)
  then show ?thesis
    using demo_scanning_ok scan_report_reads_back[of demo_scanning "demo_uuid (CHR ''9'')" demo_running demo_report "demo_uuid (CHR ''9'')"
        "demo_report\<lparr>rep_os_id := ''debian''\<rparr>" demo_plan_fingerprint "\<lambda>_. 950"] demo_report_args demo_plan_valid
    by (auto simp: demo_scanning_def demo_running_def demo_scan_def row_by_def demo_report_def)
qed

section \<open>Interrupted scans\<close>

abbreviation interrupted_scan :: "time \<Rightarrow> scan_run \<Rightarrow> scan_run" where
  "interrupted_scan t \<equiv> failed_scan t SCAN_INTERRUPTED EXECUTION_FAILED RESTART_SCAN_REASON None None"

lemma interrupted_scan_ok:
  assumes "scan_run_checks r" "scan_lifecycle r = SCAN_RUNNING"
  shows "scan_run_checks (interrupted_scan t r)" "scan_update_triggers r (interrupted_scan t r)"
  using assms by (simp_all add: scan_run_checks_def failed_scan_def scan_update_triggers_def RESTART_SCAN_REASON_def)

lemma interrupt_scans_effect:
  assumes "scan_store_ok db" "distinct is"
    and "\<And>r. r \<in> set (scan_runs db) \<Longrightarrow> scan_run_id r \<in> set is \<Longrightarrow> scan_lifecycle r = SCAN_RUNNING"
    and "set is \<subseteq> scan_run_id ` set (scan_runs db)"
  shows "interrupt_scans t is db =
     Inr ((), db\<lparr>scan_runs := rows_update (\<lambda>r. scan_run_id r \<in> set is) (interrupted_scan t) (scan_runs db)\<rparr>)"
  using assms
proof (induction "is" arbitrary: db)
  case Nil
  then show ?case by (simp add: rows_update_def ret_def)
next
  case (Cons i "is")
  let ?s = "interrupted_scan t" and ?w = "\<lambda>r. scan_run_id r = i"
  let ?db = "db\<lparr>scan_runs := rows_update ?w ?s (scan_runs db)\<rparr>"
  from Cons.prems(4) obtain r where r: "r \<in> set (scan_runs db)" "scan_run_id r = i" by auto
  with Cons.prems(3) have run: "scan_lifecycle r = SCAN_RUNNING" by auto
  have row: "row_by scan_run_id i (scan_runs db) = Some r"
    using Cons.prems(1) r row_by_unique[of scan_run_id "scan_runs db" r] by (simp add: scan_store_ok_def scan_indexes_def)
  have "scan_run_checks r" using Cons.prems(1) r(1) by (simp add: scan_store_ok_def list_all_iff)
  note ok = interrupted_scan_ok[OF this run, of t]
  have upd: "update_scan_run i ?s db = Inr ?db"
    using update_scan_run_succeeds[of db i r ?s] Cons.prems(1) row run ok by (simp add: scan_store_ok_def failed_scan_def)
  have "scan_store_ok ?db"
    using update_scan_run_evolves[OF upd] Cons.prems(1) by (simp add: scans_evolve_def)
  have "interrupt_scans t is ?db = Inr ((), ?db\<lparr>scan_runs := rows_update (\<lambda>r. scan_run_id r \<in> set is) ?s (scan_runs ?db)\<rparr>)"
  proof (rule Cons.IH[OF \<open>scan_store_ok ?db\<close>])
    have "map scan_run_id (rows_update ?w ?s (scan_runs db)) = map scan_run_id (scan_runs db)"
      by (rule map_rows_update_key) (simp add: failed_scan_def)
    then have "scan_run_id ` set (rows_update ?w ?s (scan_runs db)) = scan_run_id ` set (scan_runs db)" by (metis set_map)
    with Cons.prems(4) show "set is \<subseteq> scan_run_id ` set (scan_runs ?db)" by simp
  qed (use Cons.prems in \<open>auto simp: set_rows_update failed_scan_def split: if_splits\<close>)
  moreover have "rows_update (\<lambda>r. scan_run_id r \<in> set is) ?s (rows_update ?w ?s (scan_runs db))
      = rows_update (\<lambda>r. scan_run_id r \<in> set (i # is)) ?s (scan_runs db)"
    using Cons.prems(2) by (auto simp: rows_update_def failed_scan_def)
  ultimately show ?case using upd
    by (simp add: complete_failed_package_scan_def andthen_def seq_def commit_def)
qed

text \<open>
  C21. Startup recovery of scans always succeeds and is exact: it returns the running scans no refresh
  request has claimed, completes exactly those as interrupted, and leaves every other scan row as it
  is, the claimed running ones included.
\<close>

theorem scan_recovery_exact:
  assumes "scan_store_ok db"
  shows "\<exists>db'. recover_interrupted_package_scans now db = (db', Inr (interrupted_scans db))
     \<and> scan_runs db' = map (\<lambda>r. if scan_lifecycle r = SCAN_RUNNING
            \<and> \<not> list_ex (\<lambda>q. ps_scan_run_id q = Some (scan_run_id r)) (post_scan_requests db)
          then interrupted_scan (now 0) r else r) (scan_runs db)"
proof -
  let ?p = "\<lambda>r. scan_lifecycle r = SCAN_RUNNING \<and> \<not> list_ex (\<lambda>q. ps_scan_run_id q = Some (scan_run_id r)) (post_scan_requests db)"
  have dist: "distinct (map scan_run_id (scan_runs db))" using assms by (simp add: scan_store_ok_def scan_indexes_def)
  have set: "set (interrupted_scans db) = scan_run_id ` {r \<in> set (scan_runs db). ?p r}"
    by (auto simp: interrupted_scans_def)
  have uniq: "distinct (interrupted_scans db)"
    using dist by (auto simp: interrupted_scans_def distinct_map inj_on_def)
  have iff: "scan_run_id r \<in> set (interrupted_scans db) \<longleftrightarrow> ?p r" if "r \<in> set (scan_runs db)" for r
    using that dist unfolding set by (auto simp: distinct_map inj_on_def)
  let ?db = "db\<lparr>scan_runs := rows_update (\<lambda>r. scan_run_id r \<in> set (interrupted_scans db)) (interrupted_scan (now 0)) (scan_runs db)\<rparr>"
  have eff: "interrupt_scans (now 0) (interrupted_scans db) db = Inr ((), ?db)"
    by (rule interrupt_scans_effect[OF assms uniq]) (use iff set in auto)
  have rows: "rows_update (\<lambda>r. scan_run_id r \<in> set (interrupted_scans db)) (interrupted_scan (now 0)) (scan_runs db)
      = map (\<lambda>r. if ?p r then interrupted_scan (now 0) r else r) (scan_runs db)"
    using iff unfolding rows_update_def by (intro map_cong) auto
  have "\<exists>db'. recover_scans_body now () db = Inr (interrupted_scans db, db') \<and> scan_runs db' = scan_runs ?db"
    using eff by (cases "interrupted_scans db = []")
      (auto simp: recover_scans_body_def seq_def fetch_def andthen_def ret_def publish_succeeds)
  then show ?thesis using rows by (auto simp: recover_interrupted_package_scans_def run_op_Inr)
qed

theorem scan_recovery_exact_witness:
  "\<exists>db'. recover_interrupted_package_scans (\<lambda>_. 5000) demo_scanning = (db', Inr [demo_uuid (CHR ''9'')])
     \<and> scan_runs db' = [interrupted_scan 5000 demo_running]"
  using scan_recovery_exact[OF demo_scanning_ok, of "\<lambda>_. 5000"]
  by (simp add: interrupted_scans_def demo_scanning_def demo_running_def demo_scan_def demo_db_def)

section \<open>Approvals\<close>

lemma reviewed_scan_Inr:
  "reviewed_scan (resource, reviewed, fp) db = Inr (run, db') \<longleftrightarrow>
     db' = db \<and> row_by scan_run_id reviewed (scan_runs db) = Some run \<and> scan_resource_id run = resource
     \<and> (\<exists>target. require_package_scan_target db resource = Inr target \<and> res_type (tg_resource target) = ''lxc'')
     \<and> \<not> post_update_package_scan_is_pending db resource \<and> is_latest_attempt db resource run
     \<and> scan_succeeded run \<and> successful_package_scan_fingerprint db run = Inr fp"
  by (auto simp: reviewed_scan_def body_iffs require_package_scan_run_row_def split: option.splits)

lemma row_by_one: "row_by key k [x] = (if key x = k then Some x else None)"
  by (simp add: row_by_def)

lemma upsert_approval_row:
  "upsert_approval a db = Inr db' \<Longrightarrow> row_by appr_resource_id (appr_resource_id a) (approvals db') = Some a
     \<and> (\<forall>r. r \<noteq> appr_resource_id a \<longrightarrow> row_by appr_resource_id r (approvals db') = row_by appr_resource_id r (approvals db))"
proof -
  assume up: "upsert_approval a db = Inr db'"
  let ?i = "appr_resource_id a"
  have find_update: "find (\<lambda>x. appr_resource_id x = r) (map (\<lambda>x. if appr_resource_id x = ?i then a else x) xs)
      = (if r = ?i then if ?i \<in> appr_resource_id ` set xs then Some a else None
         else find (\<lambda>x. appr_resource_id x = r) xs)" for r xs
    by (induction xs) auto
  show ?thesis
  proof (cases "?i \<in> appr_resource_id ` set (approvals db)")
    case True
    with up have "approvals db' = map (\<lambda>x. if appr_resource_id x = ?i then a else x) (approvals db)"
      by (auto simp: upsert_approval_def Let_def result_iffs rows_update_def)
    with True show ?thesis by (simp add: row_by_def find_update)
  next
    case False
    with up have "approvals db' = approvals db @ [a]" by (auto simp: upsert_approval_def Let_def result_iffs)
    moreover from False have "row_by appr_resource_id ?i (approvals db) = None" by (simp add: row_by_None)
    ultimately show ?thesis by (auto simp: row_by_append row_by_one split: option.splits)
  qed
qed

lemma publish_Inr_tables:
  "publish t db = Inr (u, db') \<Longrightarrow> approvals db' = approvals db \<and> jobs db' = jobs db \<and> scan_runs db' = scan_runs db"
  by (auto simp: publish_succeeds)

text \<open>
  C17. An approval is only ever given for the plan the operator saw. When an approval is returned, the
  reviewed scan is the resource's latest attempt, succeeded, with stored packages that hash to the
  approved fingerprint, no post-update refresh pending and, after the expiry of the source's
  freshness, still current and approvable; the returned approval names exactly that resource, scan
  and fingerprint, and it is the resource's one stored approval.
\<close>

theorem approval_is_of_the_reviewed_plan:
  assumes "approve_package_plan now fresh resource reviewed fp db = (db', Inr a)"
  shows "\<exists>run db1 b. row_by scan_run_id reviewed (scan_runs db) = Some run \<and> scan_resource_id run = resource
     \<and> is_latest_attempt db resource run \<and> scan_succeeded run
     \<and> successful_package_scan_fingerprint db run = Inr fp \<and> \<not> post_update_package_scan_is_pending db resource
     \<and> materialize_due_expiry (cx_inventory_source_id (scan_ctx run)) (now 1) None None db = Inr (b, db1)
     \<and> package_scan_is_current_and_approvable db1 run = Inr True
     \<and> appr_resource_id a = resource \<and> appr_reviewed_scan_run_id a = reviewed \<and> appr_plan_fingerprint a = fp
     \<and> row_by appr_resource_id resource (approvals db') = Some a"
proof -
  from assms have "approve_body now fresh (resource, reviewed, fp) db = Inr (Some a, db')"
    by (auto simp: approve_package_plan_def run_op_Inr approval_args_def result_iffs require_uuid_def
        require_package_plan_fingerprint_def split: option.splits)
  then obtain run b db1 where rev: "reviewed_scan (resource, reviewed, fp) db = Inr (run, db)"
    and ex: "materialize_due_expiry (cx_inventory_source_id (scan_ctx run)) (now 1) None None db = Inr (b, db1)"
    and ok: "package_scan_is_current_and_approvable db1 run = Inr True"
    and rest: "(case reusable_approval db1 resource reviewed fp of Some a \<Rightarrow> ret (Some a)
       | None \<Rightarrow> (let a = \<lparr>appr_resource_id = resource, approval_id = fresh, appr_reviewed_scan_run_id = reviewed,
                     appr_plan_fingerprint = fp, appr_approved_at = now 0\<rparr> in
            andthen (commit (upsert_approval a)) (andthen (publish (now 2)) (ret (Some a))))) db1 = Inr (Some a, db')"
    by (auto simp: approve_body_def seq_Inr fetch_Inr reviewed_scan_Inr split: if_splits)
  have "appr_resource_id a = resource \<and> appr_reviewed_scan_run_id a = reviewed \<and> appr_plan_fingerprint a = fp
     \<and> row_by appr_resource_id resource (approvals db') = Some a"
  proof (cases "reusable_approval db1 resource reviewed fp")
    case None
    with rest obtain db2 where up: "upsert_approval a db1 = Inr db2" "publish (now 2) db2 = Inr ((), db')"
      and a: "a = \<lparr>appr_resource_id = resource, approval_id = fresh, appr_reviewed_scan_run_id = reviewed,
                     appr_plan_fingerprint = fp, appr_approved_at = now 0\<rparr>"
      by (auto simp: Let_def andthen_Inr commit_Inr)
    from upsert_approval_row[OF up(1)] publish_Inr_tables[OF up(2)] show ?thesis by (simp add: a)
  next
    case (Some x)
    with rest show ?thesis
      using row_by_Some_key[of appr_resource_id resource "approvals db1"]
      by (auto simp: reusable_approval_def split: option.splits if_splits)
  qed
  with rev ex ok show ?thesis by (auto simp: reviewed_scan_Inr)
qed

lemma demo_approves:
  "\<exists>a. approve_package_plan (\<lambda>_. 5000) (demo_uuid (CHR ''f'')) (demo_uuid (CHR ''1'')) (demo_uuid (CHR ''9''))
     demo_plan_fingerprint (demo_db []) = (demo_db [], Inr a)"
proof -
  let ?db = "demo_db []"
  have rev: "reviewed_scan (demo_uuid (CHR ''1''), demo_uuid (CHR ''9''), demo_plan_fingerprint) ?db = Inr (demo_scan, ?db)"
    using demo_scan_plan[of "[]"]
    by (simp add: reviewed_scan_Inr require_package_scan_target_def resource_target_of_def demo_db_def row_by_def demo_scan_def
        demo_context_def post_update_package_scan_is_pending_def pending_post_update_package_scan_request_rows_def
        is_latest_attempt_def scan_succeeded_def max_or_zero_def)
  have ex: "materialize_due_expiry (cx_inventory_source_id (scan_ctx demo_scan)) 5000 None None ?db = Inr (False, ?db)"
    using demo_no_expiry[of 5000 "[]"] by (simp add: demo_scan_def demo_context_def)
  obtain a where "reusable_approval ?db (demo_uuid (CHR ''1'')) (demo_uuid (CHR ''9'')) demo_plan_fingerprint = Some a"
    by (simp add: reusable_approval_def demo_db_def row_by_def package_plan_approval_is_consumed_def)
  with rev ex demo_approvable[of "[]"]
  have "approve_body (\<lambda>_. 5000) (demo_uuid (CHR ''f'')) (demo_uuid (CHR ''1''), demo_uuid (CHR ''9''), demo_plan_fingerprint) ?db
      = Inr (Some a, ?db)"
    by (auto simp: approve_body_def seq_Inr fetch_Inr)
  then show ?thesis using demo_digests(2) demo_uuid_canonical
    by (auto simp: approve_package_plan_def run_op_Inr approval_args_def result_iffs require_uuid_def
        require_package_plan_fingerprint_def)
qed

theorem approval_is_of_the_reviewed_plan_witness:
  "\<exists>a. approve_package_plan (\<lambda>_. 5000) (demo_uuid (CHR ''f'')) (demo_uuid (CHR ''1'')) (demo_uuid (CHR ''9''))
     demo_plan_fingerprint (demo_db []) = (demo_db [], Inr a) \<and> appr_plan_fingerprint a = demo_plan_fingerprint"
  using demo_approves approval_is_of_the_reviewed_plan by blast

section \<open>Health contracts\<close>

text \<open>
  C18. Declaring a contract is a compare-and-set that reads back exactly. A replacement that returns a
  contract has met the expected revision, the returned contract holds the canonical form and the
  fingerprint of the given probes, reading the resource afterwards gives that very contract, and
  either nothing changed at all or the contract carries a revision above every revision the
  resource was ever allocated, cleared contracts included.
\<close>

theorem contract_replacement_reads_back:
  assumes "contracts_ok db" "replace_resource_health_contract now i probes expected db = (db', Inr c)"
  shows "health_contract_fingerprint probes = Inr (hc_fingerprint c)
     \<and> resource_health_contract_of db' i = Inr (Some c)
     \<and> (\<exists>before. resource_health_contract_of db i = Inr before
          \<and> expected \<in> {None, Some (case before of None \<Rightarrow> 0 | Some b \<Rightarrow> hc_revision b)}
          \<and> (before = Some c \<and> db' = db
             \<or> canonical_health_probes probes = Inr (hc_probes c)
               \<and> (\<forall>m. last_revision db i = Some m \<longrightarrow> m < hc_revision c)))"
proof -
  from assms(2) obtain x where "contract_args i probes expected = Inr x" and
    run: "replace_contract_body now expected x db = Inr (c, db')"
    by (auto simp: replace_resource_health_contract_def run_op_Inr)
  from contract_args_Inr[OF this(1)] obtain ps fp where x: "x = (i, ps, fp)" "canonical_health_probes probes = Inr ps"
    "health_contract_fingerprint ps = Inr fp" "health_contract_fingerprint probes = Inr fp" by blast
  from replace_body_effect[OF assms(1) run[unfolded x(1)] x(3)] x show ?thesis by auto
qed

text \<open>The fixture after its contract was cleared: the counter remembers revision 1.\<close>

definition demo_cleared :: authority_db where
  "demo_cleared = (demo_db [])\<lparr>contracts := [], contract_probes := []\<rparr>"

lemma demo_declares:
  "\<exists>db' c. replace_resource_health_contract (\<lambda>_. 5000) (demo_uuid (CHR ''1'')) DEFAULT_HEALTH_PROBES (Some 0) demo_cleared
     = (db', Inr c)"
proof -
  let ?i = "demo_uuid (CHR ''1'')"
  have args: "contract_args ?i DEFAULT_HEALTH_PROBES (Some 0) = Inr (?i, DEFAULT_HEALTH_PROBES, demo_contract_fingerprint)"
    using default_health_probes_canonical
    by (simp add: contract_args_def require_uuid_def health_contract_fingerprint_def demo_contract_fingerprint_def
        check_expected_revision_def)
  have "\<exists>c db'. replace_contract_body (\<lambda>_. 5000) (Some 0) (?i, DEFAULT_HEALTH_PROBES, demo_contract_fingerprint) demo_cleared
      = Inr (c, db')"
    using demo_digests(1)
    by (simp add: replace_contract_body_def declare_contract_def andthen_def seq_def fetch_def pure_def need_def ret_def commit_def
        require_current_health_contract_resource_def require_package_scan_target_def resource_target_of_def
        resource_health_contract_of_def require_expected_health_contract_revision_def allocate_health_contract_revision_def
        update_revision_state_def drop_contract_def delete_contract_probes_def write_contract_def insert_contract_def
        contract_probe_rows_def insert_contract_probe_def publish_def bump_global_revisions_def row_by_def rows_update_def
        MIN_HEALTH_PROBES_def MAX_HEALTH_PROBES_def probe_target_check_def is_hex_digest_def
        demo_cleared_def demo_db_def DEFAULT_HEALTH_PROBES_def)
  with args show ?thesis by (auto simp: replace_resource_health_contract_def run_op_Inr)
qed

theorem contract_replacement_reads_back_witness:
  "\<exists>db' c. replace_resource_health_contract (\<lambda>_. 5000) (demo_uuid (CHR ''1'')) DEFAULT_HEALTH_PROBES (Some 0) demo_cleared
     = (db', Inr c) \<and> resource_health_contract_of db' (demo_uuid (CHR ''1'')) = Inr (Some c) \<and> 1 < hc_revision c"
proof -
  obtain db' c where run: "replace_resource_health_contract (\<lambda>_. 5000) (demo_uuid (CHR ''1'')) DEFAULT_HEALTH_PROBES (Some 0)
      demo_cleared = (db', Inr c)" using demo_declares by blast
  have "contracts_ok demo_cleared" by (simp add: contracts_ok_def probes_have_contracts_def demo_cleared_def)
  moreover have "last_revision demo_cleared (demo_uuid (CHR ''1'')) = Some 1"
    "resource_health_contract_of demo_cleared (demo_uuid (CHR ''1'')) = Inr None"
    by (simp_all add: last_revision_def resource_health_contract_of_def demo_cleared_def demo_db_def row_by_def)
  ultimately show ?thesis using contract_replacement_reads_back[OF _ run] run by auto
qed

section \<open>Runs of the whole backend\<close>

text \<open>
  C15. Every run of the whole backend (job operations, scans, approvals, contracts, discovery) is a run
  of the job authority among arbitrary environment steps: whatever is proved of those runs holds for
  the backend.
\<close>

theorem backend_refines_authority:
  "(backend_step\<^sup>*\<^sup>* :: 'h system \<Rightarrow> 'h system \<Rightarrow> bool) \<le> authority_step\<^sup>*\<^sup>*"
  by (intro le_funI le_boolI) (rule backend_run_authority)

text \<open>
  C19. Along every run of the backend scans complete once: two running scans of one resource are the
  same scan, a running scan keeps its identity and its frozen context, and a completed scan stays in
  the table unchanged with exactly the packages it had.
\<close>

theorem scans_complete_once:
  assumes "backend_step\<^sup>*\<^sup>* (db, f, h) (db', f', h')" "store_ok db" "scan_store_ok db"
  shows "(\<forall>r \<in> set (scan_runs db'). \<forall>q \<in> set (scan_runs db'). scan_lifecycle r = SCAN_RUNNING \<and> scan_lifecycle q = SCAN_RUNNING
        \<and> scan_resource_id r = scan_resource_id q \<longrightarrow> r = q)
     \<and> (\<forall>r \<in> set (scan_runs db). (\<exists>r' \<in> set (scan_runs db'). scan_run_id r' = scan_run_id r \<and> scan_ctx r' = scan_ctx r
              \<and> scan_attempt_sequence r' = scan_attempt_sequence r)
          \<and> (scan_lifecycle r = SCAN_COMPLETED \<longrightarrow> r \<in> set (scan_runs db')
              \<and> scan_packages_of (scan_run_id r) db' = scan_packages_of (scan_run_id r) db))"
proof -
  from scan_runs_history.backend_keeps[OF assms(1)] assms(2,3)
  have ok: "scan_store_ok db'" and adv: "\<And>r. r \<in> set (scan_runs db) \<Longrightarrow> (\<exists>r' \<in> set (scan_runs db'). scan_advances r r')
      \<and> (scan_lifecycle r = SCAN_COMPLETED \<longrightarrow> scan_packages_of (scan_run_id r) db' = scan_packages_of (scan_run_id r) db)"
    by (auto simp: scans_evolve_def)
  have "r = q" if "r \<in> set (scan_runs db')" "q \<in> set (scan_runs db')" "scan_lifecycle r = SCAN_RUNNING"
    "scan_lifecycle q = SCAN_RUNNING" "scan_resource_id r = scan_resource_id q" for r q
  proof -
    from that(1,2) obtain m n where "m < length (scan_runs db')" "n < length (scan_runs db')" "r = scan_runs db' ! m" "q = scan_runs db' ! n"
      by (auto simp: in_set_conv_nth)
    with that ok unique_non_nullD[of "\<lambda>r. if scan_lifecycle r = SCAN_RUNNING then Some (scan_resource_id r) else None" "scan_runs db'" m n]
    show ?thesis by (simp add: scan_store_ok_def scan_indexes_def)
  qed
  moreover have "\<exists>r' \<in> set (scan_runs db'). scan_run_id r' = scan_run_id r \<and> scan_ctx r' = scan_ctx r
      \<and> scan_attempt_sequence r' = scan_attempt_sequence r" "scan_lifecycle r = SCAN_COMPLETED \<Longrightarrow> r \<in> set (scan_runs db')"
    if "r \<in> set (scan_runs db)" for r
    using adv[OF that] by (auto simp: scan_advances_def scan_update_triggers_def)
  ultimately show ?thesis using adv by blast
qed

text \<open>
  C20. Along every run of the backend the contract tables stay coherent: a live contract carries the last
  revision allocated to its resource, probe rows belong to live contracts, and an allocated revision
  is never taken back, so it never names two generations.
\<close>

theorem contract_revisions_never_reused:
  assumes "backend_step\<^sup>*\<^sup>* (db, f, h) (db', f', h')" "store_ok db" "contracts_ok db"
  shows "(\<forall>c \<in> set (contracts db'). last_revision db' (cr_resource_id c) = Some (cr_revision c))
     \<and> (\<forall>p \<in> set (contract_probes db'). \<exists>c \<in> set (contracts db'). cr_resource_id c = cp_resource_id p)
     \<and> (\<forall>i m. last_revision db i = Some m \<longrightarrow> (\<exists>m'. last_revision db' i = Some m' \<and> m \<le> m'))"
proof -
  from backend_contracts_ok[OF assms(1)] assms(2,3) have "contracts_ok db'" by simp
  moreover from contract_counter_history.backend_keeps[OF assms(1)] assms(2) have "counters_grow db db'" by simp
  ultimately show ?thesis
    unfolding contracts_ok_def probes_have_contracts_def counters_grow_def last_revision_def by fastforce
qed

text \<open>A run of the witnesses: the fixture's cleared contract is declared again.\<close>

lemma demo_backend_run:
  "backend_step\<^sup>*\<^sup>* (demo_cleared, FenceAbsent, ())
     (fst (replace_resource_health_contract (\<lambda>_. 5000) (demo_uuid (CHR ''1'')) DEFAULT_HEALTH_PROBES (Some 0) demo_cleared),
      FenceAbsent, ())"
  by (rule r_into_rtranclp) (rule backend_step.catalog_operation, rule disjI2, rule contract_step.replace_contract)

lemma demo_cleared_ok: "store_ok demo_cleared" "scan_store_ok demo_cleared" "contracts_ok demo_cleared"
proof -
  have "scan_context_checks demo_context" by (simp add: scan_context_checks_def demo_context_def sql_nonblank_def)
  moreover have "length demo_plan_fingerprint = 64" using demo_digests(2) by (simp add: is_hex_digest_def)
  ultimately show "scan_store_ok demo_cleared"
    by (simp add: scan_store_ok_def demo_cleared_def demo_db_def demo_scan_def scan_indexes_def unique_non_null_def scan_run_checks_def)
qed (simp_all add: store_ok_def job_indexes_def unique_non_null_def active_jobs_def contracts_ok_def probes_have_contracts_def
   demo_cleared_def demo_db_def)

theorem scans_complete_once_witness:
  "demo_scan \<in> set (scan_runs (fst (replace_resource_health_contract (\<lambda>_. 5000) (demo_uuid (CHR ''1'')) DEFAULT_HEALTH_PROBES
     (Some 0) demo_cleared)))"
  using scans_complete_once[OF demo_backend_run demo_cleared_ok(1,2)]
  by (simp add: demo_cleared_def demo_db_def demo_scan_def)

theorem contract_revisions_never_reused_witness:
  "\<exists>m. last_revision (fst (replace_resource_health_contract (\<lambda>_. 5000) (demo_uuid (CHR ''1'')) DEFAULT_HEALTH_PROBES
     (Some 0) demo_cleared)) (demo_uuid (CHR ''1'')) = Some m \<and> 1 \<le> m"
proof -
  have "last_revision demo_cleared (demo_uuid (CHR ''1'')) = Some 1"
    by (simp add: last_revision_def demo_cleared_def demo_db_def row_by_def)
  with contract_revisions_never_reused[OF demo_backend_run demo_cleared_ok(1,3)] show ?thesis by blast
qed

end
