(* ===== verification/Operation_Properties.thy ===== *)
theory Operation_Properties
  imports Authority_Histories Write_Success Demo_Fixture
begin

text \<open>
  Properties of operations on jobs that rest on the histories of the system: the exclusion of jobs and
  product updates, the bounds of the event log, the replay of an issuance request, what a fresh
  issuance proves, and the recovery of interrupted jobs at startup.
\<close>

section \<open>Jobs and the maintenance fence\<close>

definition no_new_active :: "authority_db \<Rightarrow> authority_db \<Rightarrow> bool" where
  "no_new_active db db' \<longleftrightarrow> (active_jobs (jobs db) = [] \<longrightarrow> active_jobs (jobs db') = [])"

lemma no_new_active_same: "jobs db' = jobs db \<Longrightarrow> no_new_active db db'"
  by (simp add: no_new_active_def)

interpretation activity: job_relation no_new_active
proof unfold_locales
  fix db w s e db' assume "sanctioned db w s" "update_one_job w s e db = Inr db'"
  then show "no_new_active db db'"
    using transition_active
    by (fastforce simp: no_new_active_def update_one_job_Inr active_jobs_def rows_update_def sanctioned_def filter_empty_conv)
qed (auto simp: write_expiry_def intro: no_new_active_same dest!: insert_job_result_Inr
      insert_post_scan_request_Inr append_event_Inr publish_Inr[THEN iffD1], auto simp: no_new_active_def)

definition fence_excludes_jobs :: "'h system \<Rightarrow> bool" where
  "fence_excludes_jobs s \<longleftrightarrow> fst (snd s) = FenceAbsent \<or> active_jobs (jobs (fst s)) = []"

lemma read_fence_None: "read_product_update_fence f = Inr None \<longleftrightarrow> f = FenceAbsent"
  by (auto simp: read_product_update_fence_def checkE_def split: fence_file.splits option.splits json.splits sum.splits)

lemma issue_body_Inr:
  "issue_body now f fresh (r, a, q) db = Inr (y, db') \<longleftrightarrow>
     (case row_by (\<lambda>j. request_id (iss j)) q (jobs db) of
        Some j \<Rightarrow> job_resource_id j = r \<and> job_approval_id (iss j) = a \<and> y = Some (jid j) \<and> db' = db
      | None \<Rightarrow> issue_new_job now f fresh r a q db = Inr (y, db'))"
  unfolding issue_body_def prod.case seq_Inr fetch_Inr
  by (cases "row_by (\<lambda>j. request_id (iss j)) q (jobs db)") (simp_all add: need_Inr)

lemma guarded_by:
  "seq (pure r) (\<lambda>x. need (P x) (e x) (k x)) db = Inr z \<Longrightarrow> \<exists>x. r = Inr x \<and> P x"
  by (cases z) (auto simp: seq_Inr pure_Inr need_Inr)

lemma fenced_issue_keeps:
  assumes "f \<noteq> FenceAbsent"
  shows "fst (issue_package_update_job now f fresh res appr req db) = db"
proof -
  have refused: "issue_new_job now f fresh r a q db \<noteq> Inr (x, db')" for r a q x db'
  proof
    assume "issue_new_job now f fresh r a q db = Inr (x, db')"
    from guarded_by[OF this[unfolded issue_new_job_def]] assms show False by (simp add: read_fence_None)
  qed
  have same: "db' = db" if "issue_body now f fresh x db = Inr (a, db')" for x a db'
    using that refused by (cases x) (simp add: issue_body_Inr split: option.splits)
  show ?thesis unfolding issue_package_update_job_def by (rule run_op_inv[where P = "\<lambda>d. d = db"]) (simp_all add: same)
qed

lemma acquire_fence_cases:
  "fst (acquire_product_update_maintenance_fence now io holder db f) = f \<or> active_jobs (jobs db) = []"
  by (auto simp: acquire_product_update_maintenance_fence_def split: sum.splits option.splits list.splits)

lemma operation_excludes:
  assumes "operation_step (db, f, h) (db', f', h')" "store_ok db" "fence_excludes_jobs (db, f, h)"
  shows "fence_excludes_jobs (db', f', h')"
  using assms(1)
proof (cases rule: operation_step.cases)
  case (fence_acquired now io holder)
  with acquire_fence_cases[of now io holder db f] assms(3) show ?thesis by (auto simp: fence_excludes_jobs_def)
next
  case (issue now fresh res appr req)
  with fenced_issue_keeps[of f now fresh res appr req db] assms(3) show ?thesis
    by (cases "f = FenceAbsent") (simp_all add: fence_excludes_jobs_def)
next
  case on_job
  then have "f' = f" by (cases rule: job_step.cases) auto
  moreover from activity.job_step_keeps[OF on_job assms(2)] have "no_new_active db db'" by simp
  ultimately show ?thesis using assms(3) by (auto simp: fence_excludes_jobs_def no_new_active_def)
qed

text \<open>
  C27. A product update and a package update never overlap. Along every run of the operations, from a
  state without both, whenever a fence file is present, readable or not, no job is active: the fence
  is refused while a job is active, and no job is issued under a fence.
\<close>

theorem fence_and_jobs_exclude_each_other:
  assumes "operation_step\<^sup>*\<^sup>* s s'" "store_ok (fst s)" "fence_excludes_jobs s"
  shows "fence_excludes_jobs s'"
proof -
  from assms(1) have "store_ok (fst s') \<and> fence_excludes_jobs s'"
  proof (induction rule: rtranclp_induct)
    case (step y z)
    then obtain db f h db' f' h' where [simp]: "y = (db, f, h)" "z = (db', f', h')" by (metis prod.exhaust)
    from step have y: "operation_step (db, f, h) (db', f', h')" "store_ok db" "fence_excludes_jobs (db, f, h)" by simp_all
    from operation_excludes[OF y] job_history.operation_keeps[OF y(1,2)] show ?case by simp
  qed (use assms in simp)
  then show ?thesis by simp
qed

theorem fence_and_jobs_exclude_each_other_witness:
  "fence_excludes_jobs (fst (recover_interrupted_package_update_jobs (\<lambda>_. 8) (demo_db [demo_issued])), FenceAbsent, ())"
proof (rule fence_and_jobs_exclude_each_other)
  show "operation_step\<^sup>*\<^sup>* (demo_db [demo_issued], FenceAbsent, ())
     (fst (recover_interrupted_package_update_jobs (\<lambda>_. 8) (demo_db [demo_issued])), FenceAbsent, ())"
    by (intro r_into_rtranclp operation_step.on_job job_step.recover)
qed (simp_all add: demo_store_ok demo_issued_wf fence_excludes_jobs_def)

section \<open>Bounds of the event log\<close>

definition event_bounded :: "job_event \<Rightarrow> bool" where
  "event_bounded e \<longleftrightarrow> is_text 500 (ev_message e) \<and> length (json_dumps (ev_details e)) \<le> 4000"

definition events_bounded :: "authority_db \<Rightarrow> authority_db \<Rightarrow> bool" where
  "events_bounded db db' \<longleftrightarrow> (list_all event_bounded (job_events db) \<longrightarrow> list_all event_bounded (job_events db'))"

interpretation event_bounds: system_relation events_bounded
proof unfold_locales
  fix db j t lv st et m d db'
  assume run: "append_package_update_job_event j t lv st et m d db = Inr db'"
  then have "is_text 500 m" "length (json_dumps d) \<le> 4000"
    by (auto simp: append_package_update_job_event_def result_iffs require_text_def is_text_def)
  with append_event_Inr[OF run] show "events_bounded db db'" by (auto simp: events_bounded_def event_bounded_def)
qed (auto simp: events_bounded_def update_one_job_Inr insert_job_Inr write_expiry_def environment_step_def dest!: write_Inr)

text \<open>
  C28. Every event message is non-blank text without control characters of at most 500 characters, and every
  detail object encodes to at most 4000 characters, along every run of the system.
\<close>

theorem event_log_bounded:
  assumes "authority_step\<^sup>*\<^sup>* (db, f, h) (db', f', h')" "store_ok db" "list_all event_bounded (job_events db)"
    "e \<in> set (job_events db')"
  shows "event_bounded e"
  using event_bounds.steps_keep[OF assms(1)] assms(2-4) by (auto simp: events_bounded_def list_all_iff)

theorem event_log_bounded_witness:
  "list_all event_bounded (job_events (fst (recover_interrupted_package_update_jobs (\<lambda>_. 2000) (demo_db [demo_issued]))))"
proof -
  have "authority_step\<^sup>*\<^sup>* (demo_db [demo_issued], FenceAbsent, ())
     (fst (recover_interrupted_package_update_jobs (\<lambda>_. 2000) (demo_db [demo_issued])), FenceAbsent, ())"
    by (intro r_into_rtranclp authority_step.operation operation_step.on_job job_step.recover)
  from event_log_bounded[OF this] show ?thesis
    by (simp add: list_all_iff demo_store_ok demo_issued_wf) (simp add: demo_db_def)
qed


section \<open>Jobs do not run forever\<close>

text \<open>The changes a job can still make: checkpoints ahead, tasks to record, and its end.\<close>

definition work_left :: "job \<Rightarrow> nat" where
  "work_left j = (10 - checkpoint_rank (job_checkpoint j)) + (if status j = ACTIVE then 1 else 0)
     + (if snapshot_task_upid j = None then 1 else 0) + (if rollback_task_upid j = None then 1 else 0)"

lemma list_all2_mem: "list_all2 P xs ys \<Longrightarrow> x \<in> set xs \<Longrightarrow> \<exists>y \<in> set ys. P x y"
  by (induction rule: list_all2_induct) auto

lemma evolves_mem: "evolves js js' \<Longrightarrow> j \<in> set js \<Longrightarrow> \<exists>j' \<in> set js'. job_reaches j j'"
  using list_all2_mem[of job_reaches js _ j] by (fastforce simp: evolves_def)

lemma transition_works: "job_transition j j' \<Longrightarrow> work_left j' < work_left j"
  by (erule job_transition.cases) (auto simp: work_left_def terminate_job_def rollback_armable_def)

lemma transitions_work: "(job_transition ^^ n) j j' \<Longrightarrow> n + work_left j' \<le> work_left j"
proof (induction n arbitrary: j')
  case (Suc n)
  then obtain k where "(job_transition ^^ n) j k" "job_transition k j'" by auto
  with Suc.IH[of k] transition_works[of k j'] show ?case by simp
qed simp

text \<open>
  C31. A job does not run forever: along every run of the system, however long, a job's row changes by at
  most twelve transitions, and each of them uses up part of the finite work the row has left.
\<close>

theorem jobs_terminate:
  assumes "authority_step\<^sup>*\<^sup>* (db, f, h) (db', f', h')" "store_ok db" "j \<in> set (jobs db)"
  shows "\<exists>j' \<in> set (jobs db'). \<exists>n \<le> 12. (job_transition ^^ n) j j' \<and> n + work_left j' \<le> work_left j"
proof -
  from job_history.steps_keep[OF assms(1)] assms(2) have "evolves (jobs db) (jobs db')" by simp
  from evolves_mem[OF this assms(3)] obtain j' where j': "j' \<in> set (jobs db')" "job_reaches j j'" by blast
  then obtain n where n: "(job_transition ^^ n) j j'" by (metis rtranclp_imp_relpowp)
  moreover have "work_left j \<le> 12" by (cases "job_checkpoint j") (auto simp: work_left_def)
  ultimately show ?thesis using transitions_work[OF n] by (intro bexI[OF _ j'(1)] exI[of _ n]) auto
qed


theorem jobs_terminate_witness:
  "\<exists>j' \<in> set (jobs (fst (recover_interrupted_package_update_jobs (\<lambda>_. 2000) (demo_db [demo_issued])))).
     \<exists>n \<le> 12. (job_transition ^^ n) demo_issued j' \<and> n + work_left j' \<le> work_left demo_issued"
proof -
  have "authority_step\<^sup>*\<^sup>* (demo_db [demo_issued], FenceAbsent, ())
     (fst (recover_interrupted_package_update_jobs (\<lambda>_. 2000) (demo_db [demo_issued])), FenceAbsent, ())"
    by (intro r_into_rtranclp authority_step.operation operation_step.on_job job_step.recover)
  from jobs_terminate[OF this, of demo_issued] show ?thesis
    using demo_store_ok[OF demo_issued_wf] by (simp add: demo_db_def)
qed

section \<open>Startup recovery\<close>

definition left_by_restart :: "job \<Rightarrow> bool" where
  "left_by_restart j \<longleftrightarrow> status j = ACTIVE \<and> interruptible (job_checkpoint j)"

lemma interrupted_rows_alt: "interrupted_rows db = sort_key (\<lambda>j. (issued_at (iss j), jid j)) (filter left_by_restart (jobs db))"
  by (simp add: interrupted_rows_def left_by_restart_def[abs_def] interruptible_def STARTUP_INTERRUPTIBLE_CHECKPOINTS_def)

lemma restart_reason_text: "is_text 500 RESTART_REASON"
  by code_simp

lemma at_most_one: "length (filter P xs) \<le> 1 \<Longrightarrow> x \<in> set xs \<Longrightarrow> P x \<Longrightarrow> y \<in> set xs \<Longrightarrow> P y \<Longrightarrow> x = y"
proof -
  assume "length (filter P xs) \<le> 1" "x \<in> set xs" "P x" "y \<in> set xs" "P y"
  then have "x \<in> set (filter P xs)" "y \<in> set (filter P xs)" "length (filter P xs) \<le> 1" by auto
  then show "x = y" by (cases "filter P xs") auto
qed

lemma interrupt_job_succeeds:
  assumes ok: "store_ok db" and j: "j \<in> set (jobs db)" "left_by_restart j"
  shows "\<exists>es. interrupt_job t j db = Inr ((), db\<lparr>jobs := rows_update left_by_restart (terminate_job INTERRUPTED t RESTART_REASON) (jobs db),
           job_events := es\<rparr>)"
proof -
  let ?w = "\<lambda>r. jid r = jid j \<and> status r = ACTIVE" and ?s = "terminate_job INTERRUPTED t RESTART_REASON"
  from ok have dist: "distinct (map jid (jobs db))" and idx: "job_indexes (jobs db)" and wf: "job_wf j"
    using j(1) by (auto simp: store_ok_def job_indexes_def list_all_iff)
  have row: "row_by jid (jid j) (jobs db) = Some j" using dist j(1) by (intro row_by_unique) auto
  have act: "status j = ACTIVE" "interruptible (job_checkpoint j)" using j(2) by (simp_all add: left_by_restart_def)
  have same: "rows_update ?w ?s (jobs db) = rows_update left_by_restart ?s (jobs db)"
  proof -
    have "r = j" if "r \<in> set (jobs db)" "left_by_restart r" for r
      using at_most_one[of "\<lambda>j. status j = ACTIVE" "jobs db" r j] that j idx
      by (simp add: job_indexes_def left_by_restart_def active_jobs_def)
    moreover have "r = j" if "r \<in> set (jobs db)" "?w r" for r using that j(1) dist by (auto simp: distinct_map inj_on_def)
    ultimately have "?w r \<longleftrightarrow> left_by_restart r" if "r \<in> set (jobs db)" for r using that act(1) j(2) by blast
    then show ?thesis unfolding rows_update_def by (intro map_cong) simp_all
  qed
  have "update_job ?w ?s ''package update job recovery lost durable ownership'' db = Inr ((), db\<lparr>jobs := rows_update ?w ?s (jobs db)\<rparr>)"
  proof (rule update_job_succeeds[OF ok row])
    show "job_transition j (?s j)" using act by (rule job_transition.interrupted)
    show "job_column_checks (?s j)"
      using wf is_text_nonblank[OF restart_reason_text] restart_reason_text
      by (simp add: job_wf_def job_checks_def job_column_checks_def terminate_job_def is_text_def)
    show "job_indexes (rows_update ?w ?s (jobs db))" by (rule job_indexes_terminated[OF idx]) auto
  qed (use act in \<open>auto simp: terminate_job_def\<close>)
  moreover have "jid j \<in> jid ` set (rows_update left_by_restart ?s (jobs db))"
  proof -
    have "map (\<lambda>r. jid r) (rows_update left_by_restart ?s (jobs db)) = map (\<lambda>r. jid r) (jobs db)"
      by (simp add: rows_update_def)
    then have "(\<lambda>r. jid r) ` set (rows_update left_by_restart ?s (jobs db)) = (\<lambda>r. jid r) ` set (jobs db)"
      by (metis set_map)
    with j(1) show ?thesis by simp
  qed
  moreover have "length (json_dumps (JObj [])) \<le> 4000" by simp
  ultimately show ?thesis unfolding same
    using log_event_succeeds[of "jid j" "db\<lparr>jobs := rows_update left_by_restart ?s (jobs db)\<rparr>" RESTART_REASON "JObj []" t WARNING
       "job_checkpoint j" EV_RESTART_INTERRUPTED] restart_reason_text
    by (auto simp: interrupt_job_def andthen_def seq_def)
qed


text \<open>
  C32. Recovery at startup always succeeds and is exact. On a store the schema accepts it returns, without
  error, the ids of precisely the active jobs still before the mutation boundary, interrupts exactly
  those, leaves every other job alone, and afterwards nothing active remains before the boundary.
\<close>

theorem recovery_is_exact:
  assumes "store_ok db"
  shows "\<exists>db' ids. recover_interrupted_package_update_jobs now db = (db', Inr ids)
     \<and> set ids = (\<lambda>j. jid j) ` {j \<in> set (jobs db). left_by_restart j}
     \<and> jobs db' = map (\<lambda>j. if left_by_restart j then terminate_job INTERRUPTED (now 0) RESTART_REASON j else j) (jobs db)
     \<and> (\<forall>j \<in> set (jobs db'). \<not> left_by_restart j)"
proof -
  let ?js = "map (\<lambda>j. if left_by_restart j then terminate_job INTERRUPTED (now 0) RESTART_REASON j else j) (jobs db)"
  have quiet: "\<forall>j \<in> set ?js. \<not> left_by_restart j" by (auto simp: left_by_restart_def)
  have ids: "set (interrupted_rows db) = {j \<in> set (jobs db). left_by_restart j}" by (auto simp: interrupted_rows_alt)
  have "length (filter left_by_restart js) \<le> length (active_jobs js)" for js
    by (induction js) (auto simp: active_jobs_def left_by_restart_def)
  with assms have "length (interrupted_rows db) \<le> 1"
    unfolding interrupted_rows_alt store_ok_def job_indexes_def length_sort by (meson order_trans)
  then consider "interrupted_rows db = []" | j where "interrupted_rows db = [j]" by (cases "interrupted_rows db") auto
  then have "\<exists>db'. recover_body now () db = Inr (map (\<lambda>j. jid j) (interrupted_rows db), db') \<and> jobs db' = ?js"
  proof cases
    case 1
    with ids have "?js = jobs db" by (intro map_idI) auto
    with 1 show ?thesis by (simp add: recover_body_def andthen_def seq_def fetch_def ret_def)
  next
    case (2 j)
    with ids have "j \<in> set (jobs db)" "left_by_restart j" by auto
    from interrupt_job_succeeds[OF assms this, of "now 0"] 2 show ?thesis
      by (auto simp: recover_body_def andthen_def seq_def fetch_def ret_def publish_succeeds rows_update_def)
  qed
  then obtain db' where body: "recover_body now () db = Inr (map (\<lambda>j. jid j) (interrupted_rows db), db')"
    and js: "jobs db' = ?js" by blast
  have "recover_interrupted_package_update_jobs now db = (db', Inr (map (\<lambda>j. jid j) (interrupted_rows db)))"
    unfolding recover_interrupted_package_update_jobs_def run_op_Inr using body by simp
  moreover have "set (map (\<lambda>j. jid j) (interrupted_rows db)) = (\<lambda>j. jid j) ` {j \<in> set (jobs db). left_by_restart j}"
    by (simp add: ids)
  ultimately show ?thesis using js quiet by metis
qed

theorem recovery_is_exact_witness:
  "\<exists>db' ids. recover_interrupted_package_update_jobs (\<lambda>_. 2000) (demo_db [demo_issued]) = (db', Inr ids)
     \<and> set ids = {demo_uuid (CHR ''6'')}"
  using recovery_is_exact[OF demo_store_ok[OF demo_issued_wf], of "\<lambda>_. 2000"]
  by (auto simp: demo_db_def demo_issued_def issued_job_def demo_issuance_def left_by_restart_def interruptible_def
     image_def cong: conj_cong)

end
