(* ===== verification/Issuance_Properties.thy ===== *)
theory Issuance_Properties
  imports Operation_Properties
begin

text \<open>
  Issuing a job: the rows a successful issuance writes, what it proves about the approval, the plan,
  the contract and the fence, and that a request is idempotent.
\<close>

section \<open>What an issuance writes\<close>

lemma executemany_job_probes:
  "executemany insert_job_probe rs db = Inr db' \<Longrightarrow> db' = db\<lparr>job_probes := job_probes db @ rs\<rparr>"
  by (induction rs arbitrary: db) (fastforce simp: bindE_Inr_iff dest!: insert_job_probe_Inr)+

lemma executemany_job_packages:
  "executemany insert_job_package rs db = Inr db' \<Longrightarrow> db' = db\<lparr>job_packages := job_packages db @ rs\<rparr>"
  by (induction rs arbitrary: db) (fastforce simp: bindE_Inr_iff dest!: insert_job_package_Inr)+

lemma insert_job_or_refuse_Inr: "insert_job_or_refuse j db = Inr db' \<longleftrightarrow> insert_job j db = Inr db'"
  by (auto simp: insert_job_or_refuse_def split: sum.splits exn.splits)

lemma insert_issued_job_effect:
  assumes "insert_issued_job fresh request t t' target a current db = Inr (y, db')"
  defines "packages \<equiv> scan_packages_of (scan_run_id current) db"
  shows "\<exists>contract. packages \<noteq> [] \<and> executable_contract db (res_id (tg_resource target)) = Inr contract \<and> y = Some fresh
     \<and> jobs db' = jobs db @ [issued_job (new_issuance db fresh request t target a current (length packages) contract)]
     \<and> job_packages db' = job_packages db @ frozen_package_rows fresh packages
     \<and> job_probes db' = job_probes db @ frozen_probe_rows fresh contract
     \<and> job_results db' = job_results db \<and> job_indexes (jobs db')"
proof -
  from assms(1) obtain contract db1 db2 db3 db4 where "packages \<noteq> []"
    "executable_contract db (res_id (tg_resource target)) = Inr contract" "y = Some fresh"
    and probes: "executemany insert_job_probe (frozen_probe_rows fresh contract) db = Inr db1"
    and packages: "executemany insert_job_package (frozen_package_rows fresh packages) db1 = Inr db2"
    and job: "insert_job (issued_job (new_issuance db fresh request t target a current (length packages) contract)) db2 = Inr db3"
    and ev: "log_event fresh t INFO ISSUED EV_JOB_ISSUED ''package update job authority issued''
      (issuance_details (new_issuance db fresh request t target a current (length packages) contract)) db3 = Inr ((), db4)"
    and pub: "publish t' db4 = Inr ((), db')"
    unfolding insert_issued_job_def packages_def
    by (auto simp: body_iffs insert_job_or_refuse_Inr)
  moreover note executemany_job_probes[OF probes] executemany_job_packages[OF packages] job[unfolded insert_job_Inr]
    log_event_same[OF ev] publish_same[OF pub]
  ultimately show ?thesis by (auto simp: same_jobs_def)
qed


text \<open>The checks of a fresh issuance, each on the database before the call.\<close>

definition issuable :: "authority_db \<Rightarrow> uuid \<Rightarrow> uuid \<Rightarrow> resource_target \<Rightarrow> approval \<Rightarrow> scan_run \<Rightarrow> bool" where
  "issuable db r a target ap current \<longleftrightarrow>
     require_package_scan_target db r = Inr target \<and> res_type (tg_resource target) = ''lxc''
     \<and> \<not> post_update_package_scan_is_pending db r
     \<and> row_by appr_resource_id r (approvals db) = Some ap \<and> approval_id ap = a
     \<and> \<not> package_plan_approval_is_consumed db a
     \<and> latest_package_scan_row db r = Some current \<and> scan_succeeded current
     \<and> successful_package_scan_fingerprint db current = Inr (appr_plan_fingerprint ap)"

lemma require_issuance_target_Inr:
  "require_issuance_target db r = Inr target \<longleftrightarrow> require_package_scan_target db r = Inr target"
  by (auto simp: require_issuance_target_def split: sum.splits exn.splits)

lemma approved_plan_Inr:
  assumes "approved_plan db r a = Inr (ap, reviewed)"
  shows "row_by appr_resource_id r (approvals db) = Some ap \<and> approval_id ap = a
     \<and> \<not> package_plan_approval_is_consumed db a"
  using assms by (auto simp: approved_plan_def result_iffs split: option.splits)

lemma current_plan_Inr:
  assumes "current_plan db r ap = Inr current"
  shows "latest_package_scan_row db r = Some current \<and> scan_succeeded current
     \<and> successful_package_scan_fingerprint db current = Inr (appr_plan_fingerprint ap)"
  using assms by (auto simp: current_plan_def Let_def result_iffs split: option.splits if_splits)

lemma issue_new_job_Inr:
  assumes "issue_new_job now f fresh r a q db = Inr (Some y, db')"
  shows "\<exists>target ap current x db1. f = FenceAbsent \<and> issuable db r a target ap current
     \<and> materialize_due_expiry (cx_inventory_source_id (scan_ctx current)) (now 0) None None db = Inr (x, db1)
     \<and> package_scan_is_current_and_approvable db1 current = Inr True
     \<and> insert_issued_job fresh q (now 0) (now 1) target ap current db1 = Inr (Some y, db')"
proof -
  from assms obtain target ap reviewed current x db1 where
    "read_product_update_fence f = Inr None" "require_issuance_target db r = Inr target"
    "res_type (tg_resource target) = ''lxc''" "\<not> post_update_package_scan_is_pending db r"
    "approved_plan db r a = Inr (ap, reviewed)" "current_plan db r ap = Inr current"
    "materialize_due_expiry (cx_inventory_source_id (scan_ctx current)) (now 0) None None db = Inr (x, db1)"
    "package_scan_is_current_and_approvable db1 current = Inr True"
    "insert_issued_job fresh q (now 0) (now 1) target ap current db1 = Inr (Some y, db')"
    unfolding issue_new_job_def by (auto simp: body_iffs split: prod.splits if_splits)
  with approved_plan_Inr[of db r a ap reviewed] current_plan_Inr[of db r ap current] show ?thesis
    by (auto simp: issuable_def require_issuance_target_Inr read_fence_None)
qed


lemma expiry_frame:
  assumes "materialize_due_expiry i t rs dl db = Inr (x, db')"
  shows "\<exists>hs b. db' = db\<lparr>source_healths := hs, backend := b\<rparr>"
  using materialize_due_expiry_state[OF assms]
proof
  assume "db' = db"
  then have "db' = db\<lparr>source_healths := source_healths db, backend := backend db\<rparr>" by simp
  then show ?thesis by blast
qed (auto simp: publish_Inr write_expiry_def)

section \<open>Reading the frozen material back\<close>

lemma sort_key_append_new:
  assumes "sorted (map k ys)" "length (filter P xs) + length ys = length ys"
  shows "sort_key k (filter P xs @ ys) = ys"
  using assms by (simp add: sort_key_id_if_sorted)

lemma frozen_packages_read_back:
  assumes "job_packages db' = job_packages db @ frozen_package_rows fresh (scan_packages_of s db)"
    "length (job_packages_of fresh db') = length (scan_packages_of s db)"
  shows "job_packages_of fresh db' = frozen_package_rows fresh (scan_packages_of s db)"
proof -
  let ?rows = "frozen_package_rows fresh (scan_packages_of s db)"
  have "map prow_index ?rows = map prow_index (scan_packages_of s db)" by (simp add: frozen_package_rows_def)
  then have "sorted (map prow_index ?rows)" by (simp add: scan_packages_of_def)
  moreover have own: "filter (\<lambda>r. prow_owner r = fresh) ?rows = ?rows"
    by (simp add: frozen_package_rows_def)
  moreover have "length ?rows = length (scan_packages_of s db)" by (simp add: frozen_package_rows_def)
  ultimately show ?thesis using assms sort_key_append_new[of prow_index ?rows "\<lambda>r. prow_owner r = fresh" "job_packages db"]
    by (simp add: job_packages_of_def)
qed

lemma frozen_probes_read_back:
  assumes "job_probes db' = job_probes db @ frozen_probe_rows fresh contract"
    "length (job_probes_of fresh db') = length (hc_probes contract)"
  shows "map resource_probe (job_probes_of fresh db') = hc_probes contract"
proof -
  let ?rows = "frozen_probe_rows fresh contract"
  have len: "length ?rows = length (hc_probes contract)" by (simp add: frozen_probe_rows_def)
  have idx: "map jp_index (map jpr_probe ?rows) = [0..<length (hc_probes contract)]"
    by (simp add: frozen_probe_rows_def comp_def case_prod_unfold enumerate_eq_zip map_fst_zip)
  have own: "filter (\<lambda>r. jpr_job_id r = fresh) ?rows = ?rows"
    by (auto simp: frozen_probe_rows_def intro!: filter_True)
  from assms own len have "filter (\<lambda>r. jpr_job_id r = fresh) (job_probes db) = []"
    by (simp add: job_probes_of_def)
  with assms(1) own have "job_probes_of fresh db' = sort_key jp_index (map jpr_probe ?rows)"
    by (simp add: job_probes_of_def)
  also have "\<dots> = map jpr_probe ?rows" using idx by (simp add: sort_key_id_if_sorted del: map_map)
  moreover have "map resource_probe (map jpr_probe ?rows) = map snd (enumerate 0 (hc_probes contract))"
    unfolding frozen_probe_rows_def map_map by (rule map_cong) (auto simp: resource_probe_def)
  ultimately show ?thesis by simp
qed

section \<open>Issued jobs are authorised\<close>

lemma executable_contract_Inr:
  "executable_contract db r = Inr c \<longleftrightarrow>
     resource_health_contract_of db r = Inr (Some c) \<and> require_health_contract_execution_eligible (hc_probes c) = Inr ()"
proof -
  have eligible: "(case e of Inl (ValueError _) \<Rightarrow> Inl x | Inl y \<Rightarrow> Inl y | Inr _ \<Rightarrow> Inr d) = (Inr c :: health_contract result)
      \<longleftrightarrow> e = Inr () \<and> d = c" for e :: "unit result" and x d
    by (auto split: sum.splits exn.splits)
  show ?thesis
    unfolding executable_contract_def bindE_Inr_iff
  proof (safe, goal_cases)
    case (1 d)
    then show ?case by (cases d) (simp_all add: eligible)
  next
    case (2 d)
    then show ?case by (cases d) (simp_all add: eligible)
  next
    case 3
    then show ?case by (simp add: eligible)
  qed
qed

lemma issued_rows:
  assumes "issue_new_job now f fresh r a q db = Inr (Some y, db')"
  shows "\<exists>target ap current contract. f = FenceAbsent \<and> issuable db r a target ap current
     \<and> resource_health_contract_of db r = Inr (Some contract)
     \<and> require_health_contract_execution_eligible (hc_probes contract) = Inr ()
     \<and> scan_packages_of (scan_run_id current) db \<noteq> [] \<and> y = fresh
     \<and> jobs db' = jobs db @ [issued_job (new_issuance db fresh q (now 0) target ap current
          (length (scan_packages_of (scan_run_id current) db)) contract)]
     \<and> job_packages db' = job_packages db @ frozen_package_rows fresh (scan_packages_of (scan_run_id current) db)
     \<and> job_probes db' = job_probes db @ frozen_probe_rows fresh contract \<and> job_indexes (jobs db')"
proof -
  from issue_new_job_Inr[OF assms] obtain target ap current x db1 where
    f: "f = FenceAbsent" and ok: "issuable db r a target ap current"
    and ex: "materialize_due_expiry (cx_inventory_source_id (scan_ctx current)) (now 0) None None db = Inr (x, db1)"
    and ins: "insert_issued_job fresh q (now 0) (now 1) target ap current db1 = Inr (Some y, db')" by blast
  from expiry_frame[OF ex] obtain hs b where db1: "db1 = db\<lparr>source_healths := hs, backend := b\<rparr>" by blast
  have same: "jobs db1 = jobs db" "job_packages db1 = job_packages db" "job_probes db1 = job_probes db"
    "scan_packages_of i db1 = scan_packages_of i db" "resource_health_contract_of db1 i = resource_health_contract_of db i"
    "new_issuance db1 = new_issuance db" for i
    unfolding db1 by (simp_all add: scan_packages_of_def resource_health_contract_of_def new_issuance_def next_issuance_sequence_def fun_eq_iff
        cong: option.case_cong)
  from ok have "res_id (tg_resource target) = r"
    by (auto simp: issuable_def require_package_scan_target_def resource_target_of_def result_iffs
        dest: row_by_Some_key split: option.splits if_splits)
  with insert_issued_job_effect[OF ins] f ok show ?thesis
    unfolding same executable_contract_Inr by blast
qed


lemma row_by_appended: "row_by key k xs = None \<Longrightarrow> key y = k \<Longrightarrow> row_by key k (xs @ [y]) = Some y"
  by (induction xs) (auto simp: row_by_def split: if_splits)

lemma latest_scan_resource: "latest_package_scan_row db r = Some s \<Longrightarrow> cx_resource_id (scan_ctx s) = r"
proof -
  have "latest_of rs = Some s \<Longrightarrow> s \<in> set rs" for rs
    by (induction rs) (auto split: option.splits if_splits)
  then show "latest_package_scan_row db r = Some s \<Longrightarrow> cx_resource_id (scan_ctx s) = r"
    by (fastforce simp: latest_package_scan_row_def)
qed

text \<open>A successful call, from its rows to the job it returns.\<close>

lemma issue_Inr:
  "issue_package_update_job now f fresh r a q db = (db', Inr v) \<longleftrightarrow>
     issuance_args r a q = Inr (r, a, q) \<and>
     (\<exists>i. issue_body now f fresh (r, a, q) db = Inr (Some i, db') \<and> store_package_update_job db' i = Inr v)"
proof -
  have args: "issuance_args r a q = Inr x \<Longrightarrow> x = (r, a, q)" for x
    by (auto simp: issuance_args_def result_iffs)
  let ?after = "\<lambda>issued db. case issued of
      None \<Rightarrow> Inl (issuance_refused ''plan_not_approved'' ''approved package plan or its current authority context is stale'')
    | Some i \<Rightarrow> store_package_update_job db i"
  have after: "?after issued db' = Inr v \<longleftrightarrow> (\<exists>i. issued = Some i \<and> store_package_update_job db' i = Inr v)" for issued
    by (cases issued) auto
  have "issue_package_update_job now f fresh r a q db = (db', Inr v) \<longleftrightarrow>
      (\<exists>x issued. issuance_args r a q = Inr x \<and> issue_body now f fresh x db = Inr (issued, db') \<and> ?after issued db' = Inr v)"
    unfolding issue_package_update_job_def run_op_Inr ..
  then show ?thesis unfolding after using args by blast
qed

lemma read_issued_job:
  assumes "job_indexes (jobs db @ [j])" "jobs db' = jobs db @ [j]" "store_package_update_job db' (jid j) = Inr v"
  shows "jv_row v = j \<and> jv_packages v = job_packages_of (jid j) db' \<and> length (jv_packages v) = package_count (iss j)
     \<and> jv_probes v = job_probes_of (jid j) db' \<and> length (jv_probes v) = health_contract_probe_count (iss j)"
proof -
  have "row_by jid (jid j) (jobs db') = Some j"
    using assms(1) unfolding assms(2) by (intro row_by_unique) (auto simp: job_indexes_def)
  with assms(3) obtain probes results where
    "package_update_job_health db' j = Inr (probes, results)" "length (job_packages_of (jid j) db') = package_count (iss j)"
    "v = \<lparr>jv_row = j, jv_packages = job_packages_of (jid j) db', jv_probes = probes, jv_results = results\<rparr>"
    by (auto simp: store_package_update_job_def package_update_job_of_def Let_def result_iffs)
  moreover from this(1) have "probes = job_probes_of (jid j) db'" "map jp_index probes = [0..<health_contract_probe_count (iss j)]"
    by (auto simp: package_update_job_health_def Let_def result_iffs split: option.splits)
  moreover from this(2) have "length probes = health_contract_probe_count (iss j)"
    by (metis length_map length_upt minus_nat.diff_0)
  ultimately show ?thesis by simp
qed

lemma active_slot_was_free:
  assumes "job_indexes (js @ [j])" "status j = ACTIVE"
  shows "active_jobs js = []"
  using assms by (auto simp: job_indexes_def active_jobs_def)

text \<open>
  C29. An issued job is authorised. A call that issues a new job did so without a maintenance fence, with no
  other job active and no refresh pending, for a present container, on the current unconsumed
  approval it names and on the latest scan, successful and with the approved fingerprint; the job
  returned is the one inserted, at the first checkpoint, frozen with exactly the packages of that
  scan and the probes of the resource's executable health contract.
\<close>

theorem issued_job_is_authorised:
  assumes "issue_package_update_job now f fresh r a q db = (db', Inr v)"
    "row_by (\<lambda>j. request_id (iss j)) q (jobs db) = None"
  shows "\<exists>target ap current contract. f = FenceAbsent \<and> active_jobs (jobs db) = [] \<and> issuable db r a target ap current
     \<and> resource_health_contract_of db r = Inr (Some contract)
     \<and> require_health_contract_execution_eligible (hc_probes contract) = Inr ()
     \<and> jobs db' = jobs db @ [jv_row v]
     \<and> jv_row v = issued_job (new_issuance db fresh q (now 0) target ap current (length (jv_packages v)) contract)
     \<and> map prow_package (jv_packages v) = map prow_package (scan_packages_of (scan_run_id current) db) \<and> jv_packages v \<noteq> []
     \<and> map resource_probe (jv_probes v) = hc_probes contract"
proof -
  from assms obtain i where new: "issue_new_job now f fresh r a q db = Inr (Some i, db')"
    and v: "store_package_update_job db' i = Inr v"
    by (auto simp: issue_Inr issue_body_Inr)
  from issued_rows[OF new] obtain target ap current contract where f: "f = FenceAbsent" "issuable db r a target ap current"
      "resource_health_contract_of db r = Inr (Some contract)"
      "require_health_contract_execution_eligible (hc_probes contract) = Inr ()"
    and ps: "scan_packages_of (scan_run_id current) db \<noteq> []" and i: "i = fresh"
    and js: "jobs db' = jobs db @ [issued_job (new_issuance db fresh q (now 0) target ap current
          (length (scan_packages_of (scan_run_id current) db)) contract)]" (is "_ = _ @ [?j]")
    and pk: "job_packages db' = job_packages db @ frozen_package_rows fresh (scan_packages_of (scan_run_id current) db)"
    and pr: "job_probes db' = job_probes db @ frozen_probe_rows fresh contract" and idx: "job_indexes (jobs db')"
    by blast
  have j: "jid ?j = fresh" "status ?j = ACTIVE" "package_count (iss ?j) = length (scan_packages_of (scan_run_id current) db)"
    "health_contract_probe_count (iss ?j) = length (hc_probes contract)"
    by (simp_all add: issued_job_def new_issuance_def)
  have read: "jv_row v = ?j \<and> jv_packages v = job_packages_of fresh db' \<and> jv_probes v = job_probes_of fresh db'
      \<and> length (jv_packages v) = length (scan_packages_of (scan_run_id current) db)
      \<and> length (jv_probes v) = length (hc_probes contract)"
    using read_issued_job[OF idx[unfolded js] js] v i unfolding j by blast
  have "active_jobs (jobs db) = []" by (rule active_slot_was_free[OF idx[unfolded js] j(2)])
  moreover have "jv_packages v = frozen_package_rows fresh (scan_packages_of (scan_run_id current) db)"
    using frozen_packages_read_back[OF pk] read by metis
  moreover have "map resource_probe (jv_probes v) = hc_probes contract"
    using frozen_probes_read_back[OF pr] read by metis
  ultimately show ?thesis using f ps js read by (auto simp: frozen_package_rows_def comp_def)
qed

text \<open>
  C30. Issuing is idempotent. Repeating a successful request with the same request id, resource and
  approval, at any later time and under any fence, returns the same job and changes nothing; the
  same request id with another resource or approval is refused and changes nothing.
\<close>

theorem issuance_is_idempotent:
  assumes "issue_package_update_job now f fresh r a q db = (db', Inr v)"
  shows "issue_package_update_job now' f' fresh' r a q db' = (db', Inr v)
     \<and> (issuance_args r' a' q = Inr (r', a', q) \<and> (r', a') \<noteq> (r, a) \<longrightarrow>
          issue_package_update_job now' f' fresh' r' a' q db' = (db', Inl (PackageUpdateIssuanceRefused ''request_id_conflict''
             ''request_id was already used for another package update request'')))"
proof -
  from assms obtain i where args: "issuance_args r a q = Inr (r, a, q)"
    and body: "issue_body now f fresh (r, a, q) db = Inr (Some i, db')" and v: "store_package_update_job db' i = Inr v"
    by (auto simp: issue_Inr)
  have "\<exists>j. row_by (\<lambda>j. request_id (iss j)) q (jobs db') = Some j \<and> job_resource_id j = r \<and> job_approval_id (iss j) = a
          \<and> jid j = i"
  proof (cases "row_by (\<lambda>j. request_id (iss j)) q (jobs db)")
    case None
    with body have "issue_new_job now f fresh r a q db = Inr (Some i, db')" by (simp add: issue_body_Inr)
    from issued_rows[OF this] obtain j where "jobs db' = jobs db @ [j]" "request_id (iss j) = q" "job_approval_id (iss j) = a"
      "job_resource_id j = r" "jid j = i"
      by (auto simp: issued_job_def new_issuance_def issuable_def latest_scan_resource)
    with None row_by_appended[of "\<lambda>j. request_id (iss j)" q "jobs db" j] show ?thesis by auto
  next
    case (Some j)
    with body show ?thesis by (auto simp: issue_body_Inr)
  qed
  then obtain j where j: "row_by (\<lambda>j. request_id (iss j)) q (jobs db') = Some j" "job_resource_id j = r"
    "job_approval_id (iss j) = a" "jid j = i" by blast
  have "issue_package_update_job now' f' fresh' r a q db' = (db', Inr v)"
    using j args v by (simp add: issue_Inr issue_body_Inr)
  moreover have "issue_body now' f' fresh' (r', a', q) db' = Inl (PackageUpdateIssuanceRefused ''request_id_conflict''
             ''request_id was already used for another package update request'')" if "(r', a') \<noteq> (r, a)"
    using j that by (auto simp: issue_body_def seq_def fetch_def need_def issuance_refused_def PACKAGE_UPDATE_ISSUANCE_REFUSALS_def)
  ultimately show ?thesis
    by (auto simp: issue_package_update_job_def run_op_def precheck_def afterwards_def transaction_def)
qed


section \<open>The fixture issues its job\<close>

lemma demo_issuable_plan:
  "approved_plan (demo_db []) (demo_uuid (CHR ''1'')) (demo_uuid (CHR ''8'')) = Inr (hd (approvals (demo_db [])), demo_scan)"
  "current_plan (demo_db []) (demo_uuid (CHR ''1'')) (hd (approvals (demo_db []))) = Inr demo_scan"
proof -
  have rows: "row_by appr_resource_id (demo_uuid (CHR ''1'')) (approvals (demo_db [])) = Some (hd (approvals (demo_db [])))"
    "require_package_scan_run_row (demo_db []) (demo_uuid (CHR ''9'')) = Inr demo_scan"
    "latest_package_scan_row (demo_db []) (demo_uuid (CHR ''1'')) = Some demo_scan"
    by (simp_all add: row_by_def demo_db_def require_package_scan_run_row_def demo_scan_def latest_package_scan_row_def demo_context_def)
  have cols: "appr_reviewed_scan_run_id (hd (approvals (demo_db []))) = demo_uuid (CHR ''9'')"
    "approval_id (hd (approvals (demo_db []))) = demo_uuid (CHR ''8'')"
    "appr_plan_fingerprint (hd (approvals (demo_db []))) = demo_plan_fingerprint"
    "\<not> package_plan_approval_is_consumed (demo_db []) (demo_uuid (CHR ''8''))"
    "cx_resource_id (scan_ctx demo_scan) = demo_uuid (CHR ''1'')" "scan_succeeded demo_scan"
    by (simp_all add: demo_db_def package_plan_approval_is_consumed_def demo_scan_def demo_context_def scan_succeeded_def)
  from rows cols demo_scan_plan[of "[]"] show
    "approved_plan (demo_db []) (demo_uuid (CHR ''1'')) (demo_uuid (CHR ''8'')) = Inr (hd (approvals (demo_db [])), demo_scan)"
    "current_plan (demo_db []) (demo_uuid (CHR ''1'')) (hd (approvals (demo_db []))) = Inr demo_scan"
    by (simp_all add: approved_plan_def current_plan_def Let_def)
qed


definition demo_target :: resource_target where
  "demo_target = the (resource_target_of (demo_db []) (demo_uuid (CHR ''1'')))"

lemma demo_target_ok:
  "require_issuance_target (demo_db []) (demo_uuid (CHR ''1'')) = Inr demo_target"
  "res_type (tg_resource demo_target) = ''lxc''" "res_id (tg_resource demo_target) = demo_uuid (CHR ''1'')"
  unfolding require_issuance_target_Inr demo_target_def
  by (simp_all add: require_package_scan_target_def resource_target_of_def demo_db_def row_by_def)

lemma demo_frozen:
  "executable_contract (demo_db []) (demo_uuid (CHR ''1'')) = Inr \<lparr>hc_resource_id = demo_uuid (CHR ''1''), hc_revision = 1,
     hc_fingerprint = demo_contract_fingerprint, hc_created_at = 600, hc_updated_at = 600, hc_probes = DEFAULT_HEALTH_PROBES\<rparr>"
  "scan_packages_of (scan_run_id demo_scan) (demo_db []) = [\<lparr>prow_owner = demo_uuid (CHR ''9''), prow_index = 0, prow_package = demo_package\<rparr>]"
  using demo_contract default_health_probes_eligible
  by (simp_all add: executable_contract_Inr resource_health_contract_of_def row_by_def demo_db_def DEFAULT_HEALTH_PROBES_def
      scan_packages_of_def demo_scan_def)

lemma demo_new_issuance:
  "new_issuance (demo_db []) (demo_uuid (CHR ''6'')) (demo_uuid (CHR ''7'')) 1000 demo_target (hd (approvals (demo_db []))) demo_scan 1
     \<lparr>hc_resource_id = demo_uuid (CHR ''1''), hc_revision = 1, hc_fingerprint = demo_contract_fingerprint,
      hc_created_at = 600, hc_updated_at = 600, hc_probes = DEFAULT_HEALTH_PROBES\<rparr> = demo_issuance"
  using demo_target_ok
  by (simp add: new_issuance_def demo_issuance_def next_issuance_sequence_def demo_db_def max_or_zero_def demo_scan_def
      DEFAULT_HEALTH_PROBES_def)

lemma demo_insertions:
  "executemany insert_job_probe [\<lparr>jpr_job_id = demo_uuid (CHR ''6''), jpr_probe = \<lparr>jp_index = 0, jp_kind = GUEST_OPERATIONAL, jp_target = None\<rparr>\<rparr>]
     (demo_db []) = Inr ((demo_db [])\<lparr>job_probes := job_probes (demo_db [demo_issued])\<rparr>)"
  "executemany insert_job_package [\<lparr>prow_owner = demo_uuid (CHR ''6''), prow_index = 0, prow_package = demo_package\<rparr>]
     ((demo_db [])\<lparr>job_probes := job_probes (demo_db [demo_issued])\<rparr>)
     = Inr ((demo_db [])\<lparr>job_probes := job_probes (demo_db [demo_issued]), job_packages := job_packages (demo_db [demo_issued])\<rparr>)"
  "insert_job demo_issued ((demo_db [])\<lparr>job_probes := job_probes (demo_db [demo_issued]), job_packages := job_packages (demo_db [demo_issued])\<rparr>)
     = Inr (demo_db [demo_issued])"
proof -
  have cols: "package_columns_check demo_package"
    unfolding demo_package_def by code_simp
  have wf: "job_checks demo_issued" using demo_issued_wf by (simp add: job_wf_def)
  show "executemany insert_job_probe [\<lparr>jpr_job_id = demo_uuid (CHR ''6''), jpr_probe = \<lparr>jp_index = 0, jp_kind = GUEST_OPERATIONAL, jp_target = None\<rparr>\<rparr>]
     (demo_db []) = Inr ((demo_db [])\<lparr>job_probes := job_probes (demo_db [demo_issued])\<rparr>)"
    by (simp add: insert_job_probe_def demo_db_def demo_issued_def demo_issuance_def issued_job_def probe_target_check_def MAX_HEALTH_PROBES_def)
  show "executemany insert_job_package [\<lparr>prow_owner = demo_uuid (CHR ''6''), prow_index = 0, prow_package = demo_package\<rparr>]
     ((demo_db [])\<lparr>job_probes := job_probes (demo_db [demo_issued])\<rparr>)
     = Inr ((demo_db [])\<lparr>job_probes := job_probes (demo_db [demo_issued]), job_packages := job_packages (demo_db [demo_issued])\<rparr>)"
    using cols by (simp add: insert_job_package_def demo_db_def demo_issued_def demo_issuance_def issued_job_def)
  show "insert_job demo_issued ((demo_db [])\<lparr>job_probes := job_probes (demo_db [demo_issued]), job_packages := job_packages (demo_db [demo_issued])\<rparr>)
     = Inr (demo_db [demo_issued])"
    using wf by (simp add: insert_job_Inr job_indexes_single job_insert_triggers_def job_foreign_keys_def demo_db_def
        demo_issued_def issued_job_def demo_issuance_def demo_context_def demo_scan_def)
qed


lemma demo_insert_job:
  "\<exists>db'. insert_issued_job (demo_uuid (CHR ''6'')) (demo_uuid (CHR ''7'')) 1000 1000 demo_target (hd (approvals (demo_db []))) demo_scan
     (demo_db []) = Inr (Some (demo_uuid (CHR ''6'')), db') \<and> same_jobs (demo_db [demo_issued]) db'"
proof -
  have "\<exists>e. log_event (demo_uuid (CHR ''6'')) 1000 INFO ISSUED EV_JOB_ISSUED ''package update job authority issued''
      (issuance_details demo_issuance) (demo_db [demo_issued])
      = Inr ((), (demo_db [demo_issued])\<lparr>job_events := job_events (demo_db [demo_issued]) @ [e]\<rparr>)"
  proof (rule log_event_succeeds)
    show "demo_uuid (CHR ''6'') \<in> jid ` set (jobs (demo_db [demo_issued]))"
      by (simp add: demo_db_def demo_issued_def demo_issuance_def)
    show "is_text 500 ''package update job authority issued''" by code_simp
    have "length (json_string (demo_uuid c)) \<le> 218" "length (json_string demo_contract_fingerprint) \<le> 386"
      "length (decimal_int 1) = 1" for c
      using demo_digests length_json_string_le[of "demo_uuid c"] length_json_string_le[of demo_contract_fingerprint]
      by (auto simp: demo_uuid_def is_hex_digest_def decimal_int_def decimal_nat.simps[of 1, simplified])
    note bounds = this(1)[of "CHR ''9''"] this(2,3)
    show "length (json_dumps (issuance_details demo_issuance)) \<le> 4000" using bounds
      unfolding issuance_details_def by (intro order_trans[OF length_json_obj_le]) (simp add: demo_issuance_def)
  qed
  then obtain e where ev: "log_event (demo_uuid (CHR ''6'')) 1000 INFO ISSUED EV_JOB_ISSUED ''package update job authority issued''
      (issuance_details demo_issuance) (demo_db [demo_issued])
      = Inr ((), (demo_db [demo_issued])\<lparr>job_events := job_events (demo_db [demo_issued]) @ [e]\<rparr>)" ..
  have rows: "frozen_probe_rows (demo_uuid (CHR ''6'')) \<lparr>hc_resource_id = demo_uuid (CHR ''1''), hc_revision = 1,
     hc_fingerprint = demo_contract_fingerprint, hc_created_at = 600, hc_updated_at = 600, hc_probes = DEFAULT_HEALTH_PROBES\<rparr>
     = [\<lparr>jpr_job_id = demo_uuid (CHR ''6''), jpr_probe = \<lparr>jp_index = 0, jp_kind = GUEST_OPERATIONAL, jp_target = None\<rparr>\<rparr>]"
    "frozen_package_rows (demo_uuid (CHR ''6'')) [\<lparr>prow_owner = demo_uuid (CHR ''9''), prow_index = 0, prow_package = demo_package\<rparr>]
     = [\<lparr>prow_owner = demo_uuid (CHR ''6''), prow_index = 0, prow_package = demo_package\<rparr>]"
    by (simp_all add: frozen_probe_rows_def frozen_package_rows_def DEFAULT_HEALTH_PROBES_def)
  have "insert_job_or_refuse demo_issued ((demo_db [])\<lparr>job_probes := job_probes (demo_db [demo_issued]), job_packages := job_packages (demo_db [demo_issued])\<rparr>)
     = Inr (demo_db [demo_issued])" unfolding insert_job_or_refuse_Inr by (rule demo_insertions(3))
  then have "insert_issued_job (demo_uuid (CHR ''6'')) (demo_uuid (CHR ''7'')) 1000 1000 demo_target (hd (approvals (demo_db []))) demo_scan
     (demo_db []) = seq (publish 1000) (\<lambda>_. ret (Some (demo_uuid (CHR ''6''))))
       ((demo_db [demo_issued])\<lparr>job_events := job_events (demo_db [demo_issued]) @ [e]\<rparr>)"
    using demo_insertions(1,2) ev
    by (simp add: insert_issued_job_def andthen_def seq_def fetch_def commit_def need_def demo_frozen demo_target_ok(3) rows
        demo_new_issuance[simplified] demo_issued_def)
  then show ?thesis by (simp add: seq_def publish_succeeds ret_def same_jobs_def)
qed

lemma demo_issues:
  "\<exists>db' v. issue_package_update_job (\<lambda>_. 1000) FenceAbsent (demo_uuid (CHR ''6'')) (demo_uuid (CHR ''1'')) (demo_uuid (CHR ''8''))
     (demo_uuid (CHR ''7'')) (demo_db []) = (db', Inr v)"
proof -
  let ?db = "demo_db []"
  from demo_insert_job obtain db' where
    ins: "insert_issued_job (demo_uuid (CHR ''6'')) (demo_uuid (CHR ''7'')) 1000 1000 demo_target (hd (approvals ?db)) demo_scan ?db
      = Inr (Some (demo_uuid (CHR ''6'')), db')" and same: "same_jobs (demo_db [demo_issued]) db'" by blast
  have "\<not> post_update_package_scan_is_pending ?db r" for r
    by (simp add: post_update_package_scan_is_pending_def pending_post_update_package_scan_request_rows_def demo_db_def)
  moreover have "materialize_due_expiry (cx_inventory_source_id (scan_ctx demo_scan)) 1000 None None ?db = Inr (False, ?db)"
    using demo_no_expiry[of 1000 "[]"] by (simp add: demo_scan_def demo_context_def)
  moreover have "package_scan_context_matches_reviewed demo_scan demo_scan"
    by (simp add: package_scan_context_matches_reviewed_def)
  moreover have "read_product_update_fence FenceAbsent = Inr None" by (simp add: read_fence_None)
  ultimately have "issue_new_job (\<lambda>_. 1000) FenceAbsent (demo_uuid (CHR ''6'')) (demo_uuid (CHR ''1'')) (demo_uuid (CHR ''8''))
      (demo_uuid (CHR ''7'')) ?db = Inr (Some (demo_uuid (CHR ''6'')), db')"
    using ins demo_approvable[of "[]"] demo_issuable_plan demo_target_ok
    by (simp add: issue_new_job_def body_iffs) blast
  moreover have "row_by (\<lambda>j. request_id (iss j)) (demo_uuid (CHR ''7'')) (jobs ?db) = None" by (simp add: row_by_def demo_db_def)
  moreover have "\<exists>v. store_package_update_job db' (demo_uuid (CHR ''6'')) = Inr v"
    by (rule demo_read_back[of demo_issued]) (use same in \<open>simp_all add: same_jobs_def demo_db_def demo_issued_def issued_job_def\<close>)
  moreover have "issuance_args (demo_uuid (CHR ''1'')) (demo_uuid (CHR ''8'')) (demo_uuid (CHR ''7''))
      = Inr (demo_uuid (CHR ''1''), demo_uuid (CHR ''8''), demo_uuid (CHR ''7''))"
    using demo_uuid_canonical by (simp add: issuance_args_def require_uuid_def)
  ultimately show ?thesis by (simp add: issue_Inr issue_body_Inr)
qed

theorem issued_job_is_authorised_witness:
  "\<exists>db' v. issue_package_update_job (\<lambda>_. 1000) FenceAbsent (demo_uuid (CHR ''6'')) (demo_uuid (CHR ''1'')) (demo_uuid (CHR ''8''))
     (demo_uuid (CHR ''7'')) (demo_db []) = (db', Inr v) \<and> jobs db' = [jv_row v] \<and> jv_packages v \<noteq> []"
proof -
  obtain db' v where run: "issue_package_update_job (\<lambda>_. 1000) FenceAbsent (demo_uuid (CHR ''6'')) (demo_uuid (CHR ''1''))
     (demo_uuid (CHR ''8'')) (demo_uuid (CHR ''7'')) (demo_db []) = (db', Inr v)" using demo_issues by blast
  moreover have "jobs (demo_db []) = []" by (simp add: demo_db_def)
  ultimately show ?thesis using issued_job_is_authorised[OF run] by (auto simp: row_by_def)
qed

theorem issuance_is_idempotent_witness:
  "\<exists>db' v. issue_package_update_job (\<lambda>_. 1000) FenceAbsent (demo_uuid (CHR ''6'')) (demo_uuid (CHR ''1'')) (demo_uuid (CHR ''8''))
       (demo_uuid (CHR ''7'')) (demo_db []) = (db', Inr v)
     \<and> issue_package_update_job (\<lambda>_. 2000) (FenceUnreadable ''denied'') (demo_uuid (CHR ''5'')) (demo_uuid (CHR ''1''))
       (demo_uuid (CHR ''8'')) (demo_uuid (CHR ''7'')) db' = (db', Inr v)"
  using demo_issues issuance_is_idempotent by blast

end
