(* ===== verification/Component_Properties.thy ===== *)
theory Component_Properties
  imports Demo_Fixture
begin

text \<open>
  Properties of the pure components: the completion proof of a mutation, the plan and contract
  fingerprints, the derived identities, the snapshot a job owns, the health verdict and the fence file.
\<close>

section \<open>The completion proof\<close>



section \<open>Fingerprints\<close>

text \<open>
  C23. Fingerprints do not depend on the order in which a plan or a contract is given: two lists with the
  same members are accepted together and hash to the same digest of 64 lowercase hexadecimal digits.
\<close>

theorem fingerprints_ignore_order:
  assumes "mset ps = mset qs" "mset cs = mset ds"
  shows "(package_plan_fingerprint ps = Inr fp \<longleftrightarrow> package_plan_fingerprint qs = Inr fp)
     \<and> (health_contract_fingerprint cs = Inr hp \<longleftrightarrow> health_contract_fingerprint ds = Inr hp)
     \<and> (package_plan_fingerprint ps = Inr fp \<longrightarrow> is_hex_digest 64 fp)
     \<and> (health_contract_fingerprint cs = Inr hp \<longrightarrow> is_hex_digest 64 hp)"
proof (intro conjI impI iffI)
  show "package_plan_fingerprint qs = Inr fp" if "package_plan_fingerprint ps = Inr fp"
    using package_plan_fingerprint_mset[OF assms(1) that] .
  show "package_plan_fingerprint ps = Inr fp" if "package_plan_fingerprint qs = Inr fp"
    using package_plan_fingerprint_mset[OF assms(1)[symmetric] that] .
  show "health_contract_fingerprint ds = Inr hp" if "health_contract_fingerprint cs = Inr hp"
    using health_contract_fingerprint_mset[OF assms(2) that] .
  show "health_contract_fingerprint cs = Inr hp" if "health_contract_fingerprint ds = Inr hp"
    using health_contract_fingerprint_mset[OF assms(2)[symmetric] that] .
qed (rule package_plan_fingerprint_hex health_contract_fingerprint_hex, assumption)+

theorem fingerprints_ignore_order_witness:
  "\<forall>fp. package_plan_fingerprint [demo_package, demo_package\<lparr>pkg_name := ''bash''\<rparr>] = Inr fp
     \<longleftrightarrow> package_plan_fingerprint [demo_package\<lparr>pkg_name := ''bash''\<rparr>, demo_package] = Inr fp"
proof
  fix fp
  show "package_plan_fingerprint [demo_package, demo_package\<lparr>pkg_name := ''bash''\<rparr>] = Inr fp
     \<longleftrightarrow> package_plan_fingerprint [demo_package\<lparr>pkg_name := ''bash''\<rparr>, demo_package] = Inr fp"
    using fingerprints_ignore_order[of "[demo_package, demo_package\<lparr>pkg_name := ''bash''\<rparr>]"
        "[demo_package\<lparr>pkg_name := ''bash''\<rparr>, demo_package]" "[]" "[]" fp] by simp
qed

section \<open>Derived identities\<close>

text \<open>
  C24. The identities a job derives are canonical and its own. Every derived operation id is a canonical
  UUID and the snapshot name is one PVE accepts, of 39 characters; the three ids and the name hash
  texts that differ between the kinds of operation and between any two job keys.
\<close>

theorem derived_identities_are_canonical_and_separate:
  assumes "derive_pre_update_snapshot_identity k = Inr (sid, name)"
    "derive_package_mutation_identity k = Inr mid" "derive_package_rollback_identity k sid name = Inr rid"
  shows "is_canonical_uuid sid \<and> is_canonical_uuid mid \<and> is_canonical_uuid rid
     \<and> validate_pve_snapshot_name name = Inr name \<and> length name = 39
     \<and> sid = operation_uuid (snapshot_operation_text k) \<and> mid = operation_uuid (mutation_operation_text k)
     \<and> rid = operation_uuid (rollback_operation_text (k, sid, name))
     \<and> snapshot_operation_text k \<noteq> mutation_operation_text k'
     \<and> mutation_operation_text k \<noteq> rollback_operation_text (k', sid', name')
     \<and> snapshot_operation_text k \<noteq> rollback_operation_text (k', sid', name')
     \<and> (k \<noteq> k' \<longrightarrow> snapshot_operation_text k \<noteq> snapshot_operation_text k'
          \<and> mutation_operation_text k \<noteq> mutation_operation_text k'
          \<and> rollback_operation_text (k, sid, name) \<noteq> rollback_operation_text (k', sid', name')
          \<and> snapshot_name_text k \<noteq> snapshot_name_text k')"
proof -
  have hex: "is_hex_digest 24 (take 24 (sha256_hex (snapshot_name_text k)))"
    by (rule is_hex_digest_take[OF sha256_hex_digest]) simp
  then have "length (take 24 (sha256_hex (snapshot_name_text k))) = 24" by (simp only: is_hex_digest_def)
  with hex assms show ?thesis
    using validate_hubinet_name[OF hex] operation_texts_disjoint snapshot_name_id.text_inj[of k k']
      snapshot_operation_id.text_inj[of k k'] mutation_operation_id.text_inj[of k k']
      rollback_operation_id.text_inj[of "(k, sid, name)" "(k', sid', name')"]
    by (auto simp: derive_snapshot_identity_Inr derive_mutation_identity_Inr derive_rollback_identity_Inr
        snapshot_identity_of_def operation_uuid_canonical SNAPSHOT_NAME_PREFIX_def simp del: length_take)
qed

theorem derived_identities_are_canonical_and_separate_witness:
  "\<exists>sid name mid rid. derive_pre_update_snapshot_identity demo_key = Inr (sid, name)
     \<and> derive_package_mutation_identity demo_key = Inr mid \<and> derive_package_rollback_identity demo_key sid name = Inr rid
     \<and> is_canonical_uuid rid \<and> length name = 39"
proof -
  obtain sid name where i: "(sid, name) = snapshot_identity_of demo_key" by (metis prod.exhaust)
  then have "is_canonical_uuid sid" "name \<noteq> []"
    by (simp_all add: snapshot_identity_of_def operation_uuid_canonical SNAPSHOT_NAME_PREFIX_def)
  then have d: "derive_pre_update_snapshot_identity demo_key = Inr (sid, name)"
    "derive_package_mutation_identity demo_key = Inr (operation_uuid (mutation_operation_text demo_key))"
    "derive_package_rollback_identity demo_key sid name = Inr (operation_uuid (rollback_operation_text (demo_key, sid, name)))"
    using i demo_key_ok
    by (simp_all add: derive_snapshot_identity_Inr derive_mutation_identity_Inr derive_rollback_identity_Inr)
  from derived_identities_are_canonical_and_separate[OF d] d show ?thesis by blast
qed

section \<open>The snapshot a job owns\<close>

definition claims_job :: "uuid \<Rightarrow> string \<Rightarrow> observed_snapshot \<Rightarrow> bool" where
  "claims_job job name s \<longleftrightarrow>
     \<not> os_is_current_pseudo_entry s \<and> (os_name s = name \<or> (\<exists>w. os_ownership s = Some w \<and> own_job_id w = job))"

definition unambiguous_entry :: "string \<Rightarrow> observed_snapshot \<Rightarrow> bool" where
  "unambiguous_entry name s \<longleftrightarrow>
     (if os_is_current_pseudo_entry s then os_name s \<noteq> name else \<not> os_ownership_malformed s)"

definition exact_match :: "string \<Rightarrow> snapshot_ownership \<Rightarrow> observed_snapshot \<Rightarrow> bool" where
  "exact_match name expected s \<longleftrightarrow> os_name s = name \<and> \<not> os_incomplete s \<and> os_ownership s = Some expected"

lemma owned_snapshot_matches_Inr:
  "owned_snapshot_matches job name expected ss = Inr ms \<longleftrightarrow>
     list_all (unambiguous_entry name) ss \<and> ms = filter (claims_job job name) ss \<and> list_all (exact_match name expected) ms"
proof (induction ss arbitrary: ms)
  case (Cons s ss)
  let ?claim = "case os_ownership s of None \<Rightarrow> False | Some w \<Rightarrow> own_job_id w = job"
  have claims: "claims_job job name s \<longleftrightarrow> \<not> os_is_current_pseudo_entry s \<and> (os_name s = name \<or> ?claim)"
    by (simp add: claims_job_def split: option.splits)
  show ?case
  proof (cases "claims_job job name s")
    case True
    then have "owned_snapshot_matches job name expected (s # ss) = Inr ms \<longleftrightarrow>
        \<not> os_ownership_malformed s \<and> exact_match name expected s
        \<and> (\<exists>rest. owned_snapshot_matches job name expected ss = Inr rest \<and> ms = s # rest)"
      unfolding claims by (simp add: exact_match_def result_iffs) blast
    moreover from True have "unambiguous_entry name s \<longleftrightarrow> \<not> os_ownership_malformed s"
      unfolding claims by (simp add: unambiguous_entry_def)
    ultimately show ?thesis
      using True unfolding Cons.IH by (auto simp del: owned_snapshot_matches.simps)
  next
    case False
    then have "owned_snapshot_matches job name expected (s # ss) = Inr ms \<longleftrightarrow>
        unambiguous_entry name s \<and> owned_snapshot_matches job name expected ss = Inr ms"
      unfolding claims by (auto simp: unambiguous_entry_def result_iffs)
    with False show ?thesis unfolding Cons.IH by (auto simp del: owned_snapshot_matches.simps)
  qed
qed auto

text \<open>
  C25. The search for the snapshot a job owns accepts exactly one shape of the guest's snapshot list:
  no entry with unreadable Hubinet metadata, the pseudo-entry not called like the snapshot, and a
  single entry that carries the name or claims the job, complete and with exactly the expected
  ownership.
\<close>

theorem owned_snapshot_is_exact:
  "require_exactly_one_job_owned_snapshot job (Some name) observed expected = Inr s \<longleftrightarrow>
     list_all (unambiguous_entry name) observed \<and> filter (claims_job job name) observed = [s]
     \<and> exact_match name expected s"
  by (auto simp: require_exactly_one_job_owned_snapshot_def owned_snapshot_matches_Inr result_iffs length_Suc_conv)

section \<open>Health observations\<close>

lemma observations_by_index_Inr:
  "observations_by_index seen obs = Inr kvs \<longleftrightarrow>
     distinct (map obs_index obs) \<and> obs_index ` set obs \<inter> set seen = {} \<and> kvs = map (\<lambda>x. (obs_index x, x)) obs"
  by (induction obs arbitrary: seen kvs) (auto simp: result_iffs)

definition observes :: "job_health_probe \<Rightarrow> health_probe_observation \<Rightarrow> bool" where
  "observes p x \<longleftrightarrow> obs_index x = jp_index p \<and> obs_kind x = jp_kind p \<and> obs_target x = jp_target p
     \<and> obs_reason x \<in> set (reasons_by_outcome (obs_outcome x))
     \<and> (case map_of reason_kinds (obs_reason x) of None \<Rightarrow> True | Some ks \<Rightarrow> jp_kind p \<in> set ks)"

lemma coherent_health_observation_Inr:
  assumes "obs_index x = jp_index p" "obs_kind x = jp_kind p" "obs_target x = jp_target p"
  shows "coherent_health_observation p x = Inr y \<longleftrightarrow> y = x \<and> observes p x"
proof -
  have "coherent_health_observation p x = Inr y \<longleftrightarrow>
      (\<exists>r. require_health_probe_semantics (jp_kind p) (obs_outcome x) (obs_reason x) = Inr r
        \<and> y = \<lparr>obs_index = jp_index p, obs_kind = jp_kind p, obs_target = jp_target p,
               obs_outcome = obs_outcome x, obs_reason = r\<rparr>)"
    by (auto simp: coherent_health_observation_def split: sum.splits exn.splits)
  with assms show ?thesis
    unfolding require_health_probe_semantics_Inr by (cases x) (auto simp: observes_def)
qed

lemma map_of_observations:
  assumes "distinct (map obs_index obs)"
  shows "map_of (map (\<lambda>x. (obs_index x, x)) obs) i = Some x \<longleftrightarrow> x \<in> set obs \<and> obs_index x = i"
  using assms by (subst map_of_eq_Some_iff) (auto simp: comp_def)

lemma match_observations_Inr:
  assumes "distinct (map obs_index obs)"
  shows "match_observations (map (\<lambda>x. (obs_index x, x)) obs) ps = Inr xs \<longleftrightarrow>
     set xs \<subseteq> set obs \<and> list_all2 observes ps xs"
proof (induction ps arbitrary: xs)
  case (Cons p ps)
  have "match_observations (map (\<lambda>x. (obs_index x, x)) obs) (p # ps) = Inr xs \<longleftrightarrow>
      (\<exists>x rest. x \<in> set obs \<and> observes p x \<and> xs = x # rest
         \<and> match_observations (map (\<lambda>x. (obs_index x, x)) obs) ps = Inr rest)"
  proof (cases "map_of (map (\<lambda>x. (obs_index x, x)) obs) (jp_index p)")
    case None
    then have "\<nexists>x. x \<in> set obs \<and> obs_index x = jp_index p"
      using map_of_observations[OF assms, of "jp_index p"] by simp
    with None show ?thesis by (auto simp: observes_def)
  next
    case (Some x)
    then have x: "x \<in> set obs" "obs_index x = jp_index p" by (simp_all add: map_of_observations[OF assms])
    have only: "y = x" if "y \<in> set obs" "observes p y" for y
      using that x assms by (auto simp: observes_def distinct_map inj_on_def)
    have "match_observations (map (\<lambda>x. (obs_index x, x)) obs) (p # ps) = Inr xs \<longleftrightarrow>
        observes p x \<and> (\<exists>rest. match_observations (map (\<lambda>x. (obs_index x, x)) obs) ps = Inr rest \<and> xs = x # rest)"
      using coherent_health_observation_Inr[OF x(2)] Some by (auto simp: result_iffs observes_def)
    with x only show ?thesis by blast
  qed
  then show ?case by (auto simp: Cons.IH list_all2_Cons1)
qed auto

lemma match_health_observations_Inr:
  assumes "distinct (map jp_index probes)"
  shows "match_health_observations_to_frozen_probes probes obs = Inr xs \<longleftrightarrow>
     mset xs = mset obs \<and> list_all2 observes probes xs"
proof -
  have idx: "list_all2 observes probes ys \<Longrightarrow> map obs_index ys = map jp_index probes" for ys
    by (induction rule: list_all2_induct) (auto simp: observes_def)
  have "match_health_observations_to_frozen_probes probes obs = Inr xs \<longleftrightarrow>
      length obs = length probes \<and> distinct (map obs_index obs) \<and> set xs \<subseteq> set obs \<and> list_all2 observes probes xs"
    by (auto simp: match_health_observations_to_frozen_probes_def result_iffs observations_by_index_Inr match_observations_Inr)
  also have "\<dots> \<longleftrightarrow> mset xs = mset obs \<and> list_all2 observes probes xs"
  proof safe
    assume *: "length obs = length probes" "set xs \<subseteq> set obs" "list_all2 observes probes xs"
    have "distinct xs" using idx[OF *(3)] assms by (metis distinct_map)
    moreover have "length xs = length obs" using *(1) list_all2_lengthD[OF *(3)] by simp
    ultimately have "set xs = set obs" using *(2)
      by (metis card_length card_seteq distinct_card List.finite_set)
    then show "mset xs = mset obs" using \<open>distinct xs\<close> \<open>length xs = length obs\<close>
      by (metis card_distinct distinct_card set_eq_iff_mset_eq_distinct)
  next
    assume *: "mset xs = mset obs" "list_all2 observes probes xs"
    show "length obs = length probes" using mset_eq_length[OF *(1)] list_all2_lengthD[OF *(2)] by simp
    have "mset (map obs_index obs) = mset (map jp_index probes)" using idx[OF *(2)] *(1) by (metis mset_map)
    then show "distinct (map obs_index obs)" using assms mset_eq_imp_distinct_iff by blast
    fix x assume "x \<in> set xs" then show "x \<in> set obs" using mset_eq_setD[OF *(1)] by simp
  qed
  finally show ?thesis .
qed

text \<open>
  C26. Matching health observations to the frozen probes accepts a set of observations exactly when it is
  a reordering of one observation per probe, each describing its probe and carrying a reason that
  belongs to its outcome and its kind; the result is that reordering, in probe order.
\<close>

theorem observations_match_probes_exactly:
  assumes "distinct (map jp_index probes)"
  shows "match_health_observations_to_frozen_probes probes obs = Inr xs \<longleftrightarrow>
     mset xs = mset obs \<and> list_all2 observes probes xs"
  using assms by (rule match_health_observations_Inr)

theorem observations_match_probes_exactly_witness:
  "match_health_observations_to_frozen_probes
     [\<lparr>jp_index = 0, jp_kind = SYSTEMD_UNIT_ACTIVE, jp_target = Some ''a.service''\<rparr>,
      \<lparr>jp_index = 1, jp_kind = SYSTEMD_UNIT_ACTIVE, jp_target = Some ''b.service''\<rparr>]
     [\<lparr>obs_index = 1, obs_kind = SYSTEMD_UNIT_ACTIVE, obs_target = Some ''b.service'', obs_outcome = PROBE_FAILED, obs_reason = ''unit_not_active''\<rparr>,
      \<lparr>obs_index = 0, obs_kind = SYSTEMD_UNIT_ACTIVE, obs_target = Some ''a.service'', obs_outcome = PROBE_PASSED, obs_reason = ''unit_active''\<rparr>]
   = Inr [\<lparr>obs_index = 0, obs_kind = SYSTEMD_UNIT_ACTIVE, obs_target = Some ''a.service'', obs_outcome = PROBE_PASSED, obs_reason = ''unit_active''\<rparr>,
      \<lparr>obs_index = 1, obs_kind = SYSTEMD_UNIT_ACTIVE, obs_target = Some ''b.service'', obs_outcome = PROBE_FAILED, obs_reason = ''unit_not_active''\<rparr>]"
  by (subst observations_match_probes_exactly)
    (simp_all add: observes_def reason_kinds_def PASSED_REASONS_def FAILED_REASONS_def add_mset_commute)

end
