(* ===== verification/Verdict_Properties.thy ===== *)
theory Verdict_Properties
  imports Component_Properties
begin

text \<open>
  The two operations that record what the guest was observed to be: the completion of a mutation and
  the verdict of a health evaluation.
\<close>

section \<open>Completion of a mutation\<close>

lemma complete_mutation_Inr:
  assumes "store_ok db" "complete_mutation_body now post i db = Inr (u, db')"
  shows "\<exists>j pf. row_by jid i (jobs db) = Some j \<and> status j = ACTIVE
     \<and> prove_package_mutation_completion (job_material db i) post = Inr pf \<and> proven pf
     \<and> (job_checkpoint j = MUTATION_COMPLETED \<and> db' = db
        \<or> job_checkpoint j = MUTATION_MAY_HAVE_STARTED
          \<and> row_by jid i (jobs db') = Some (j\<lparr>job_checkpoint := MUTATION_COMPLETED, mutation_completed_at := Some (now 0)\<rparr>)
          \<and> (\<forall>k. k \<noteq> i \<longrightarrow> row_by jid k (jobs db') = row_by jid k (jobs db)))"
proof -
  let ?w = "\<lambda>r. owned_at i MUTATION_MAY_HAVE_STARTED r \<and> mutation_completed_at r = None"
    and ?s = "\<lambda>r. r\<lparr>job_checkpoint := MUTATION_COMPLETED, mutation_completed_at := Some (now 0)\<rparr>"
  from assms(2) obtain j pf where j: "row_by jid i (jobs db) = Some j" "status j = ACTIVE"
      "prove_package_mutation_completion (job_material db i) post = Inr pf" "proven pf"
      "job_checkpoint j \<in> {MUTATION_MAY_HAVE_STARTED, MUTATION_COMPLETED}"
    and rest: "\<exists>lost lv et m d. (if job_checkpoint j = MUTATION_COMPLETED then ret ()
       else andthen (update_job ?w ?s lost) (andthen (log_event i (now 0) lv MUTATION_COMPLETED et m d) (publish (now 1)))) db
       = Inr (u, db')"
    unfolding complete_mutation_body_def seq_Inr fetch_Inr pure_Inr job_row_Inr need_Inr by blast
  show ?thesis
  proof (cases "job_checkpoint j = MUTATION_COMPLETED")
    case True
    with j rest show ?thesis by auto
  next
    case False
    with rest obtain lost db1 db2 lv et m d where upd: "update_job ?w ?s lost db = Inr ((), db1)"
      and "log_event i (now 0) lv MUTATION_COMPLETED et m d db1 = Inr ((), db2)" "publish (now 1) db2 = Inr (u, db')"
      by (auto simp: andthen_Inr)
    then have "jobs db' = jobs db1" by (auto dest!: log_event_same publish_same simp: same_jobs_def)
    with update_job_row[OF assms(1) upd, of i] j False show ?thesis by (auto simp: owned_at_def)
  qed
qed

text \<open>
  C33. A mutation is recorded complete only on an exact proof. When completing succeeds, the job was active
  inside its mutation, the observed package state is exactly the approved change of the job's frozen
  material, and the job is at the completed checkpoint with no other job touched; repeating the call
  changes nothing.
\<close>

theorem mutation_completed_only_on_proof:
  assumes "store_ok db" "complete_package_update_mutation now i post db = (db', Inr v)"
    "distinct (map material_identity (job_material db i))" "job_material db i \<noteq> []" "distinct (map fst (post_installed post))"
  shows "mutation_exact (job_material db i) post
     \<and> (\<exists>j. row_by jid i (jobs db) = Some j \<and> status j = ACTIVE
          \<and> (job_checkpoint j = MUTATION_COMPLETED \<and> db' = db
             \<or> job_checkpoint j = MUTATION_MAY_HAVE_STARTED
               \<and> row_by jid i (jobs db') = Some (j\<lparr>job_checkpoint := MUTATION_COMPLETED, mutation_completed_at := Some (now 0)\<rparr>)
               \<and> (\<forall>k. k \<noteq> i \<longrightarrow> row_by jid k (jobs db') = row_by jid k (jobs db))))"
proof -
  from assms(2) have "complete_mutation_body now post i db = Inr ((), db')"
    by (auto simp: complete_package_update_mutation_def run_op_Inr job_arg_def)
  from complete_mutation_Inr[OF assms(1) this] obtain j pf where j: "row_by jid i (jobs db) = Some j" "status j = ACTIVE"
    "prove_package_mutation_completion (job_material db i) post = Inr pf" "proven pf"
    "job_checkpoint j = MUTATION_COMPLETED \<and> db' = db \<or> job_checkpoint j = MUTATION_MAY_HAVE_STARTED
       \<and> row_by jid i (jobs db') = Some (j\<lparr>job_checkpoint := MUTATION_COMPLETED, mutation_completed_at := Some (now 0)\<rparr>)
       \<and> (\<forall>k. k \<noteq> i \<longrightarrow> row_by jid k (jobs db') = row_by jid k (jobs db))" by blast
  moreover from j(3,4) have "mutation_exact (job_material db i) post"
    using prove_completion_checks[OF assms(3-5)] completion_checks_exact[OF assms(3)] by auto
  ultimately show ?thesis by blast
qed


definition demo_post :: post_state where
  "demo_post = \<lparr>pre_installed = [((''openssl'', ''amd64''), ''3.0.1''), ((''bash'', ''amd64''), ''5'')],
      post_installed = [((''openssl'', ''amd64''), ''3.0.2''), ((''bash'', ''amd64''), ''5'')], post_unfinished = []\<rparr>"

lemma demo_post_exact: "mutation_exact [package_material demo_package] demo_post"
  by (auto simp: mutation_exact_def package_material_def demo_package_def demo_post_def map_add_def fun_eq_iff)

lemma is_text_completed: "is_text 500 ''independent dpkg post-state proves the exact approved package mutation is complete''"
  by code_simp

lemma json_completed: "length (json_dumps (JObj [(''package_count'', JInt 1)])) \<le> 4000"
  by (rule order_trans[OF length_json_obj_le]) (simp add: decimal_int_def decimal_nat.simps[of 1, simplified])

text \<open>The armed job of the fixture, and the same job with its mutation recorded complete.\<close>

abbreviation demo_mutated :: job where
  "demo_mutated \<equiv> demo_armed\<lparr>job_checkpoint := MUTATION_COMPLETED, mutation_completed_at := Some 1400\<rparr>"

lemma demo_armed_facts:
  "iss demo_armed = demo_issuance" "status demo_armed = ACTIVE" "job_checkpoint demo_armed = MUTATION_MAY_HAVE_STARTED"
  "mutation_completed_at demo_armed = None" "job_health_outcome demo_armed = None" "health_completed_at demo_armed = None"
  "job_id demo_issuance = demo_uuid (CHR ''6'')"
  by (simp_all add: demo_armed_def demo_issued_def issued_job_def demo_issuance_def)

lemma demo_records_mutation:
  "update_job (\<lambda>r. owned_at (demo_uuid (CHR ''6'')) MUTATION_MAY_HAVE_STARTED r \<and> mutation_completed_at r = None)
      (\<lambda>r. r\<lparr>job_checkpoint := MUTATION_COMPLETED, mutation_completed_at := Some 1400\<rparr>) lost (demo_db [demo_armed])
    = Inr ((), (demo_db [demo_armed])\<lparr>jobs := [demo_mutated]\<rparr>)"
proof (rule update_single_job[OF demo_store_ok[OF demo_armed_wf]])
  show "job_column_checks demo_mutated" using demo_armed_wf by (simp add: job_wf_def job_checks_def job_column_checks_def)
  show "job_transition demo_armed demo_mutated" using demo_armed_facts by (intro job_transition.mutation_completed)
qed (use demo_armed_facts in \<open>simp_all add: demo_db_def owned_at_def\<close>)

lemma demo_logs_mutation:
  "\<exists>e. log_event (demo_uuid (CHR ''6'')) 1400 INFO MUTATION_COMPLETED EV_MUTATION_COMPLETED
      ''independent dpkg post-state proves the exact approved package mutation is complete''
      (JObj [(''package_count'', JInt 1)]) ((demo_db [demo_armed])\<lparr>jobs := [demo_mutated]\<rparr>)
    = Inr ((), (demo_db [demo_armed])\<lparr>jobs := [demo_mutated], job_events := [e]\<rparr>)"
  using log_event_succeeds[OF _ is_text_completed json_completed,
      of "demo_uuid (CHR ''6'')" "(demo_db [demo_armed])\<lparr>jobs := [demo_mutated]\<rparr>" 1400 INFO MUTATION_COMPLETED EV_MUTATION_COMPLETED]
  by (simp add: demo_armed_facts) (simp add: demo_db_def)

lemma demo_completes_mutation:
  "\<exists>db' v. complete_package_update_mutation (\<lambda>_. 1400) (demo_uuid (CHR ''6'')) demo_post (demo_db [demo_armed]) = (db', Inr v)"
proof -
  let ?db = "demo_db [demo_armed]" and ?i = "demo_uuid (CHR ''6'')"
  have row: "row_by jid ?i (jobs ?db) = Some demo_armed" by (rule demo_row) (simp add: demo_armed_facts)
  have mat: "job_material ?db ?i = [package_material demo_package]" by (rule demo_material) (simp add: demo_armed_facts)
  obtain pf where pf: "prove_package_mutation_completion [package_material demo_package] demo_post = Inr pf" "proven pf"
    using prove_completion_checks[of "[package_material demo_package]" demo_post]
      completion_checks_exact[of "[package_material demo_package]" demo_post] demo_post_exact by (auto simp: demo_post_def)
  have "\<exists>db'. complete_mutation_body (\<lambda>_. 1400) demo_post ?i ?db = Inr ((), db') \<and> same_jobs (?db\<lparr>jobs := [demo_mutated]\<rparr>) db'"
    using demo_records_mutation demo_logs_mutation demo_armed_facts row pf
    by (auto simp: complete_mutation_body_def seq_def job_row_def fetch_def require_package_update_job_row_def need_def pure_def
        mat andthen_def publish_succeeds same_jobs_def)
  then obtain db' where body: "complete_mutation_body (\<lambda>_. 1400) demo_post ?i ?db = Inr ((), db')"
    and same: "same_jobs (?db\<lparr>jobs := [demo_mutated]\<rparr>) db'" by blast
  have "\<exists>v. store_package_update_job db' ?i = Inr v"
    by (rule demo_read_back[of demo_mutated]) (use same demo_armed_facts in \<open>simp_all add: same_jobs_def demo_db_def\<close>)
  with body show ?thesis by (auto simp: complete_package_update_mutation_def run_op_Inr job_arg_def then_job_def require_uuid_def)
qed

theorem mutation_completed_only_on_proof_witness:
  "\<exists>db' v. complete_package_update_mutation (\<lambda>_. 1400) (demo_uuid (CHR ''6'')) demo_post (demo_db [demo_armed]) = (db', Inr v)
     \<and> mutation_exact (job_material (demo_db [demo_armed]) (demo_uuid (CHR ''6''))) demo_post"
proof -
  obtain db' v where run: "complete_package_update_mutation (\<lambda>_. 1400) (demo_uuid (CHR ''6'')) demo_post (demo_db [demo_armed]) = (db', Inr v)"
    using demo_completes_mutation by blast
  have mat: "job_material (demo_db [demo_armed]) (demo_uuid (CHR ''6'')) = [package_material demo_package]"
    by (rule demo_material) (simp add: demo_armed_facts)
  from mutation_completed_only_on_proof[OF demo_store_ok[OF demo_armed_wf] run] run show ?thesis
    unfolding mat by (simp add: demo_post_def)
qed


section \<open>The health verdict\<close>

lemma frozen_probes_distinct:
  assumes "require_coherent_frozen_health_contract db i = Inr probes"
  shows "distinct (map jp_index probes)" "probes \<noteq> []"
proof -
  from assms obtain row results where "package_update_job_health db row = Inr (probes, results)" and ne: "probes \<noteq> []"
    by (auto simp: require_coherent_frozen_health_contract_def result_iffs)
  then have "map jp_index probes = [0..<health_contract_probe_count (iss row)]"
    by (auto simp: package_update_job_health_def Let_def result_iffs split: option.splits)
  then show "distinct (map jp_index probes)" by simp
  show "probes \<noteq> []" by (rule ne)
qed

lemma executemany_job_results:
  "executemany insert_job_result rs db = Inr db' \<Longrightarrow> db' = db\<lparr>job_results := job_results db @ rs\<rparr>"
  by (induction rs arbitrary: db) (fastforce simp: bindE_Inr_iff dest!: insert_job_result_Inr)+

definition verdict_of :: "time \<Rightarrow> bool \<Rightarrow> job \<Rightarrow> job" where
  "verdict_of t passed j =
     (if passed then terminate_job SUCCEEDED t PASSED_REASON
        (j\<lparr>job_checkpoint := HEALTH_COMPLETED, health_completed_at := Some t, job_health_outcome := Some HEALTH_PASSED\<rparr>)
      else j\<lparr>job_checkpoint := HEALTH_COMPLETED, health_completed_at := Some t, job_health_outcome := Some HEALTH_FAILED\<rparr>)"

lemma record_verdict_row:
  assumes "store_ok db" "record_verdict i t passed db = Inr (u, db')"
  shows "\<exists>j. row_by jid i (jobs db) = Some j \<and> row_by jid i (jobs db') = Some (verdict_of t passed j)
     \<and> (\<forall>k. k \<noteq> i \<longrightarrow> row_by jid k (jobs db') = row_by jid k (jobs db))
     \<and> job_results db' = job_results db \<and> post_scan_requests db' = post_scan_requests db"
proof -
  have s: "(if passed then \<lambda>r. terminate_job SUCCEEDED t PASSED_REASON
                 (r\<lparr>job_checkpoint := HEALTH_COMPLETED, health_completed_at := Some t, job_health_outcome := Some HEALTH_PASSED\<rparr>)
        else (\<lambda>r. r\<lparr>job_checkpoint := HEALTH_COMPLETED, health_completed_at := Some t, job_health_outcome := Some HEALTH_FAILED\<rparr>))
      = verdict_of t passed" by (auto simp: verdict_of_def)
  note run = assms(2)[unfolded record_verdict_def s]
  from run have "job_results db' = job_results db" "post_scan_requests db' = post_scan_requests db"
    by (auto simp: update_job_def commit_Inr update_one_job_Inr)
  moreover have "jid (verdict_of t passed r) = jid r" for r by (simp add: verdict_of_def)
  ultimately show ?thesis using update_job_row[OF assms(1) run, of i] by (auto simp: owned_at_def)
qed

lemma request_scan_effect:
  assumes "request_post_update_scan i r t db = Inr (u, db')"
  shows "jobs db' = jobs db \<and> job_results db' = job_results db
     \<and> post_scan_requests db' = post_scan_requests db
          @ [\<lparr>ps_job_id = i, ps_resource_id = r, ps_requested_at = t, ps_scan_run_id = None\<rparr>]"
  using assms by (auto simp: request_post_update_scan_def andthen_Inr commit_Inr same_jobs_def
      dest!: insert_post_scan_request_Inr log_event_same)


lemma outcome_of_matched:
  assumes "aggregate_health_outcome (map obs_outcome ordered) = Inr out" "out \<in> set DEFINITIVE_HEALTH_OUTCOMES"
    "list_all (\<lambda>x. obs_outcome x \<noteq> PROBE_UNKNOWN) ordered"
  shows "out = HEALTH_PASSED \<longleftrightarrow> (\<forall>x \<in> set ordered. obs_outcome x = PROBE_PASSED)"
proof -
  from assms(2) consider "out = HEALTH_PASSED" | "out = HEALTH_FAILED" by (auto simp: DEFINITIVE_HEALTH_OUTCOMES_def)
  then show ?thesis
  proof cases
    case 2
    with assms(1) obtain x where "x \<in> set ordered" "obs_outcome x = PROBE_FAILED" by (auto simp: aggregate_failed_iff)
    with 2 show ?thesis by force
  qed (use assms(1) in \<open>auto simp: aggregate_passed_iff\<close>)
qed

lemma complete_health_Inr:
  assumes ok: "store_ok db" and run: "complete_health_body now reported i db = Inr (u, db')"
  shows "\<exists>j probes ordered. row_by jid i (jobs db) = Some j \<and> status j = ACTIVE \<and> job_checkpoint j = HEALTH_STARTED
     \<and> require_coherent_frozen_health_contract db i = Inr probes \<and> post_mutation_job_context_is_current db (jctx j)
     \<and> match_health_observations_to_frozen_probes probes reported = Inr ordered
     \<and> list_all (\<lambda>x. obs_outcome x \<noteq> PROBE_UNKNOWN) ordered
     \<and> job_results db' = job_results db @ result_rows i (now 0) probes ordered
     \<and> row_by jid i (jobs db') = Some (verdict_of (now 0) (\<forall>x \<in> set ordered. obs_outcome x = PROBE_PASSED) j)
     \<and> (\<forall>k. k \<noteq> i \<longrightarrow> row_by jid k (jobs db') = row_by jid k (jobs db))
     \<and> post_scan_requests db' = post_scan_requests db @ (if \<forall>x \<in> set ordered. obs_outcome x = PROBE_PASSED
          then [\<lparr>ps_job_id = i, ps_resource_id = job_resource_id j, ps_requested_at = now 0, ps_scan_run_id = None\<rparr>] else [])"
proof -
  from run obtain j probes ordered out db1 db2 db3 db4 where
    j: "row_by jid i (jobs db) = Some j" "status j = ACTIVE" "job_checkpoint j = HEALTH_STARTED"
      "require_coherent_frozen_health_contract db i = Inr probes" "post_mutation_job_context_is_current db (jctx j)"
      "match_health_observations_to_frozen_probes probes reported = Inr ordered"
      "list_all (\<lambda>x. obs_outcome x \<noteq> PROBE_UNKNOWN) ordered"
    and out: "aggregate_health_outcome (map obs_outcome ordered) = Inr out" "out \<in> set DEFINITIVE_HEALTH_OUTCOMES"
    and res: "executemany insert_job_result (result_rows i (now 0) probes ordered) db = Inr db1"
    and ver: "record_verdict i (now 0) (out = HEALTH_PASSED) db1 = Inr ((), db2)"
    and log: "log_verdict i (now 0) (out = HEALTH_PASSED) (verdict_details j probes ordered) db2 = Inr ((), db3)"
    and req: "(if out = HEALTH_PASSED then request_post_update_scan i (job_resource_id j) (now 0) else ret ()) db3 = Inr ((), db4)"
    and pub: "publish (now 1) db4 = Inr (u, db')"
    unfolding complete_health_body_def seq_Inr fetch_Inr pure_Inr job_row_Inr need_Inr andthen_Inr commit_Inr by blast
  have passed: "out = HEALTH_PASSED \<longleftrightarrow> (\<forall>x \<in> set ordered. obs_outcome x = PROBE_PASSED)"
    by (rule outcome_of_matched[OF out j(7)])
  have db1: "db1 = db\<lparr>job_results := job_results db @ result_rows i (now 0) probes ordered\<rparr>"
    by (rule executemany_job_results[OF res])
  have "store_ok db1" using ok by (simp add: db1 store_ok_def)
  from record_verdict_row[OF this ver] j(1) have v: "row_by jid i (jobs db2) = Some (verdict_of (now 0) (out = HEALTH_PASSED) j)"
    "\<forall>k. k \<noteq> i \<longrightarrow> row_by jid k (jobs db2) = row_by jid k (jobs db)" "job_results db2 = job_results db1"
    "post_scan_requests db2 = post_scan_requests db" by (auto simp: db1)
  have tail: "jobs db3 = jobs db2" "job_results db3 = job_results db2" "post_scan_requests db3 = post_scan_requests db2"
    "jobs db' = jobs db4" "job_results db' = job_results db4" "post_scan_requests db' = post_scan_requests db4"
    using log_event_same[OF log[unfolded log_verdict_def]] publish_same[OF pub] by (simp_all add: same_jobs_def)
  have "jobs db4 = jobs db3 \<and> job_results db4 = job_results db3 \<and> post_scan_requests db4 = post_scan_requests db3
      @ (if out = HEALTH_PASSED then [\<lparr>ps_job_id = i, ps_resource_id = job_resource_id j, ps_requested_at = now 0, ps_scan_run_id = None\<rparr>] else [])"
    using req request_scan_effect[of i "job_resource_id j" "now 0" db3 "()" db4] by (cases "out = HEALTH_PASSED") auto
  note effects = j v tail db1 this
  show ?thesis
    by (rule exI[of _ j], rule exI[of _ probes], rule exI[of _ ordered], unfold passed[symmetric]) (simp add: effects)
qed

text \<open>
  C34. A health verdict is exactly what was observed. When completing a health evaluation succeeds, the job
  was active in its evaluation with its guest still where it was, the reported observations are one
  resolved observation per frozen probe, and they are stored as such; the job succeeds and requests
  one fresh package scan when every probe passed, and otherwise stays active with a failed verdict
  and requests nothing. No other job is touched.
\<close>

theorem health_verdict_is_exact:
  assumes "store_ok db" "complete_package_update_health now i reported db = (db', Inr v)"
  shows "\<exists>j probes ordered. row_by jid i (jobs db) = Some j \<and> status j = ACTIVE \<and> job_checkpoint j = HEALTH_STARTED
     \<and> post_mutation_job_context_is_current db (jctx j) \<and> require_coherent_frozen_health_contract db i = Inr probes
     \<and> mset ordered = mset reported \<and> list_all2 observes probes ordered
     \<and> (\<forall>x \<in> set reported. obs_outcome x \<noteq> PROBE_UNKNOWN)
     \<and> job_results db' = job_results db @ result_rows i (now 0) probes ordered
     \<and> row_by jid i (jobs db') = Some (verdict_of (now 0) (\<forall>x \<in> set reported. obs_outcome x = PROBE_PASSED) j)
     \<and> (\<forall>k. k \<noteq> i \<longrightarrow> row_by jid k (jobs db') = row_by jid k (jobs db))
     \<and> post_scan_requests db' = post_scan_requests db @ (if \<forall>x \<in> set reported. obs_outcome x = PROBE_PASSED
          then [\<lparr>ps_job_id = i, ps_resource_id = job_resource_id j, ps_requested_at = now 0, ps_scan_run_id = None\<rparr>] else [])"
proof -
  from assms(2) have "complete_health_body now reported i db = Inr ((), db')"
    by (auto simp: complete_package_update_health_def run_op_Inr job_arg_def)
  from complete_health_Inr[OF assms(1) this] obtain j probes ordered where
    m: "match_health_observations_to_frozen_probes probes reported = Inr ordered"
    and c: "require_coherent_frozen_health_contract db i = Inr probes"
    and known: "list_all (\<lambda>x. obs_outcome x \<noteq> PROBE_UNKNOWN) ordered"
    and rest: "row_by jid i (jobs db) = Some j" "status j = ACTIVE" "job_checkpoint j = HEALTH_STARTED"
     "post_mutation_job_context_is_current db (jctx j)"
     "job_results db' = job_results db @ result_rows i (now 0) probes ordered"
     "row_by jid i (jobs db') = Some (verdict_of (now 0) (\<forall>x \<in> set ordered. obs_outcome x = PROBE_PASSED) j)"
     "\<forall>k. k \<noteq> i \<longrightarrow> row_by jid k (jobs db') = row_by jid k (jobs db)"
     "post_scan_requests db' = post_scan_requests db @ (if \<forall>x \<in> set ordered. obs_outcome x = PROBE_PASSED
          then [\<lparr>ps_job_id = i, ps_resource_id = job_resource_id j, ps_requested_at = now 0, ps_scan_run_id = None\<rparr>] else [])"
    by blast
  have o: "mset ordered = mset reported" "list_all2 observes probes ordered"
    using m match_health_observations_Inr[OF frozen_probes_distinct(1)[OF c]] by auto
  have s: "set ordered = set reported" by (rule mset_eq_setD[OF o(1)])
  from known rest c o show ?thesis unfolding s list_all_iff by blast
qed


section \<open>The fixture's job passes its evaluation\<close>

definition demo_checked :: job where
  "demo_checked = demo_armed\<lparr>job_checkpoint := HEALTH_STARTED, mutation_completed_at := Some 1400, health_started_at := Some 1500\<rparr>"

definition demo_observation :: health_probe_observation where
  "demo_observation = \<lparr>obs_index = 0, obs_kind = GUEST_OPERATIONAL, obs_target = None, obs_outcome = PROBE_PASSED,
     obs_reason = ''guest_operational_confirmed''\<rparr>"

abbreviation demo_frozen_probe :: job_health_probe where
  "demo_frozen_probe \<equiv> \<lparr>jp_index = 0, jp_kind = GUEST_OPERATIONAL, jp_target = None\<rparr>"

abbreviation demo_results :: "job_result_row list" where
  "demo_results \<equiv> result_rows (demo_uuid (CHR ''6'')) 1600 [demo_frozen_probe] [demo_observation]"

lemma demo_checked_wf: "job_wf demo_checked"
  using demo_issuance_checks demo_digests demo_name_ok
  by (simp add: job_wf_def job_checks_defs demo_checked_def demo_armed_def demo_issued_def issued_job_def demo_uuid_def)

lemma demo_checked_facts:
  "iss demo_checked = demo_issuance" "status demo_checked = ACTIVE" "job_checkpoint demo_checked = HEALTH_STARTED"
  "job_health_outcome demo_checked = None" "health_started_at demo_checked = Some 1500" "health_completed_at demo_checked = None"
  by (simp_all add: demo_checked_def demo_armed_facts)

lemma demo_evaluation:
  "require_coherent_frozen_health_contract (demo_db [demo_checked]) (demo_uuid (CHR ''6'')) = Inr [demo_frozen_probe]"
  "match_health_observations_to_frozen_probes [demo_frozen_probe] [demo_observation] = Inr [demo_observation]"
  "aggregate_health_outcome (map obs_outcome [demo_observation]) = Inr HEALTH_PASSED"
proof -
  show "require_coherent_frozen_health_contract (demo_db [demo_checked]) (demo_uuid (CHR ''6'')) = Inr [demo_frozen_probe]"
    using demo_row[OF demo_checked_facts(1)] demo_contract
    by (simp add: require_coherent_frozen_health_contract_def require_package_update_job_row_def package_update_job_health_def
       demo_checked_facts results_of_def resource_probe_def demo_db_def job_probes_of_def demo_issuance_def)
  show "match_health_observations_to_frozen_probes [demo_frozen_probe] [demo_observation] = Inr [demo_observation]"
    by (subst match_health_observations_Inr) (simp_all add: observes_def demo_observation_def PASSED_REASONS_def reason_kinds_def)
qed (simp add: aggregate_passed_iff demo_observation_def)

lemma demo_stores_results:
  "executemany insert_job_result demo_results (demo_db [demo_checked]) = Inr ((demo_db [demo_checked])\<lparr>job_results := demo_results\<rparr>)"
proof -
  have "reason_column_check ''guest_operational_confirmed''" by code_simp
  then show ?thesis
    by (simp add: result_rows_def insert_job_result_def demo_db_def demo_checked_facts demo_observation_def
        demo_issuance_def)
qed


lemma demo_records_verdict:
  "record_verdict (demo_uuid (CHR ''6'')) 1600 True ((demo_db [demo_checked])\<lparr>job_results := demo_results\<rparr>)
   = Inr ((), (demo_db [demo_checked])\<lparr>job_results := demo_results, jobs := [verdict_of 1600 True demo_checked]\<rparr>)"
proof -
  let ?db = "(demo_db [demo_checked])\<lparr>job_results := demo_results\<rparr>" and ?s = "verdict_of 1600 True"
    and ?w = "\<lambda>r. owned_at (demo_uuid (CHR ''6'')) HEALTH_STARTED r \<and> health_completed_at r = None"
  have js: "jobs ?db = [demo_checked]" by (simp add: demo_db_def)
  have ok: "store_ok ?db" using demo_store_ok[OF demo_checked_wf] by (simp add: store_ok_def)
  have w: "?w demo_checked" by (simp add: owned_at_def demo_checked_facts) (simp add: demo_issuance_def)
  have bounded: "is_text 500 PASSED_REASON" by code_simp
  have reason: "sql_nonblank PASSED_REASON" "length PASSED_REASON \<le> 500"
    using bounded by (rule is_text_nonblank) (use bounded in \<open>simp add: is_text_def\<close>)
  have rows: "rows_update ?w ?s (jobs ?db) = [?s demo_checked]" using w unfolding js by (simp add: rows_update_def)
  have "update_job ?w ?s lost ?db = Inr ((), ?db\<lparr>jobs := rows_update ?w ?s (jobs ?db)\<rparr>)" for lost
  proof (rule update_job_succeeds[OF ok])
    show "row_by jid (demo_uuid (CHR ''6'')) (jobs ?db) = Some demo_checked" using demo_row[OF demo_checked_facts(1)] by simp
    show "job_transition demo_checked (?s demo_checked)"
      unfolding verdict_of_def by (simp add: job_transition.health_passed demo_checked_facts)
    show "job_column_checks (?s demo_checked)"
      using demo_checked_wf reason
      by (simp add: job_wf_def job_checks_def job_column_checks_def verdict_of_def terminate_job_def)
    show "job_health_outcome (?s demo_checked) = job_health_outcome demo_checked
        \<or> health_verdict_backed (results_of (demo_uuid (CHR ''6'')) ?db) (?s demo_checked)"
      by (simp add: health_verdict_backed_def results_of_def result_rows_def demo_observation_def verdict_of_def
          terminate_job_def demo_checked_facts) (simp add: demo_issuance_def)
    show "job_indexes (rows_update ?w ?s (jobs ?db))" unfolding rows by (rule job_indexes_single)
  qed (use w js in \<open>auto simp: owned_at_def\<close>)
  then show ?thesis unfolding rows by (simp add: record_verdict_def verdict_of_def[abs_def])
qed

lemma demo_logs_verdict:
  assumes "jid j = demo_uuid (CHR ''6'')" "jobs db = [j]"
  shows "\<exists>e. log_verdict (demo_uuid (CHR ''6'')) 1600 True (verdict_details demo_checked [demo_frozen_probe] [demo_observation]) db
     = Inr ((), db\<lparr>job_events := job_events db @ [e]\<rparr>)"
proof -
  have "is_text 500 ''every frozen health probe passed; this update job succeeded''" by code_simp
  moreover have "length (json_string demo_contract_fingerprint) \<le> 386" "length (decimal_int 1) = 1"
    using demo_digests length_json_string_le[of demo_contract_fingerprint]
    by (auto simp: is_hex_digest_def decimal_int_def decimal_nat.simps[of 1, simplified])
  then have "length (json_dumps (verdict_details demo_checked [demo_frozen_probe] [demo_observation])) \<le> 4000"
    unfolding verdict_details_def
    by (intro order_trans[OF length_json_obj_le]) (simp add: demo_checked_facts demo_issuance_def probe_indexes_def demo_observation_def)
  ultimately show ?thesis unfolding log_verdict_def using assms by (simp add: log_event_succeeds)
qed


lemma demo_requests_scan:
  assumes "jobs db = [verdict_of 1600 True demo_checked]" "resources db = resources (demo_db [])" "post_scan_requests db = []"
  shows "\<exists>e. request_post_update_scan (demo_uuid (CHR ''6'')) (job_resource_id demo_checked) 1600 db
     = Inr ((), db\<lparr>post_scan_requests := [\<lparr>ps_job_id = demo_uuid (CHR ''6''), ps_resource_id = job_resource_id demo_checked,
          ps_requested_at = 1600, ps_scan_run_id = None\<rparr>], job_events := job_events db @ [e]\<rparr>)"
proof -
  let ?r = "\<lparr>ps_job_id = demo_uuid (CHR ''6''), ps_resource_id = job_resource_id demo_checked, ps_requested_at = 1600, ps_scan_run_id = None\<rparr>"
  have ids: "job_resource_id demo_checked = demo_uuid (CHR ''1'')" "jid demo_checked = demo_uuid (CHR ''6'')"
    by (simp_all add: demo_checked_facts) (simp_all add: demo_issuance_def demo_context_def)
  have ins: "insert_post_scan_request ?r db = Inr (db\<lparr>post_scan_requests := [?r]\<rparr>)"
    using assms ids by (simp add: insert_post_scan_request_def verdict_of_def terminate_job_def demo_uuid_def)
      (simp add: demo_db_def demo_uuid_def)
  have "is_text 500 ''successful update requested one fresh package scan from the independent scan scheduler''" by code_simp
  moreover have "length (json_dumps (JObj [(''resource_id'', JStr (demo_uuid (CHR ''1'')))])) \<le> 4000"
    using length_json_string_le[of "demo_uuid (CHR ''1'')"]
    by (intro order_trans[OF length_json_obj_le]) (simp add: demo_uuid_def)
  moreover have "demo_uuid (CHR ''6'') \<in> jid ` set (jobs (db\<lparr>post_scan_requests := [?r]\<rparr>))"
    using assms(1) ids by (simp add: verdict_of_def)
  ultimately show ?thesis
    using log_event_succeeds[of "demo_uuid (CHR ''6'')" "db\<lparr>post_scan_requests := [?r]\<rparr>"] ins
    by (simp add: request_post_update_scan_def andthen_def seq_def commit_def ids)
qed

lemma demo_completes_health:
  "\<exists>db' v. complete_package_update_health (\<lambda>_. 1600) (demo_uuid (CHR ''6'')) [demo_observation] (demo_db [demo_checked]) = (db', Inr v)"
proof -
  let ?i = "demo_uuid (CHR ''6'')" and ?db = "demo_db [demo_checked]" and ?j = "verdict_of 1600 True demo_checked"
  let ?db2 = "?db\<lparr>job_results := demo_results, jobs := [?j]\<rparr>"
  have jid: "jid ?j = ?i" by (simp add: verdict_of_def demo_checked_facts) (simp add: demo_issuance_def)
  obtain e where log: "log_verdict ?i 1600 True (verdict_details demo_checked [demo_frozen_probe] [demo_observation]) ?db2
      = Inr ((), ?db2\<lparr>job_events := job_events ?db2 @ [e]\<rparr>)"
    using demo_logs_verdict[OF jid, of ?db2] by auto
  let ?db3 = "?db2\<lparr>job_events := job_events ?db2 @ [e]\<rparr>"
  obtain db4 where req: "request_post_update_scan ?i (job_resource_id demo_checked) 1600 ?db3 = Inr ((), db4)"
    and db4: "jobs db4 = [?j]" "job_packages db4 = job_packages ?db" "job_probes db4 = job_probes ?db" "job_results db4 = demo_results"
    using demo_requests_scan[of ?db3] by (auto simp: demo_db_def)
  have ctx: "post_mutation_job_context_is_current ?db (jctx demo_checked)"
    using demo_context_current(2) by (simp add: demo_checked_facts) (simp add: demo_issuance_def)
  have "complete_health_body (\<lambda>_. 1600) [demo_observation] ?i ?db = publish 1600 db4"
    using demo_row[OF demo_checked_facts(1)] demo_evaluation ctx demo_stores_results demo_records_verdict log req
    by (simp add: complete_health_body_def seq_def job_row_def fetch_def require_package_update_job_row_def need_def pure_def
        andthen_def commit_def demo_checked_facts DEFINITIVE_HEALTH_OUTCOMES_def) (simp add: demo_observation_def)
  then obtain db' where body: "complete_health_body (\<lambda>_. 1600) [demo_observation] ?i ?db = Inr ((), db')" and same: "same_jobs db4 db'"
    using publish_same[of 1600 db4] publish_succeeds[of 1600 db4] by auto
  have "\<exists>v. store_package_update_job db' ?i = Inr v"
    using same db4 jid demo_contract
    by (simp add: store_package_update_job_def same_jobs_def row_by_def package_update_job_of_def package_update_job_health_def
       job_packages_of_def job_probes_of_def results_of_def resource_probe_def result_rows_def demo_observation_def verdict_of_def
       terminate_job_def demo_checked_facts demo_db_def demo_issuance_def)
  with body show ?thesis by (auto simp: complete_package_update_health_def run_op_Inr job_arg_def then_job_def require_uuid_def)
qed

theorem health_verdict_is_exact_witness:
  "\<exists>db' v. complete_package_update_health (\<lambda>_. 1600) (demo_uuid (CHR ''6'')) [demo_observation] (demo_db [demo_checked]) = (db', Inr v)
     \<and> row_by jid (demo_uuid (CHR ''6'')) (jobs db') = Some (verdict_of 1600 True demo_checked)"
proof -
  obtain db' v where run: "complete_package_update_health (\<lambda>_. 1600) (demo_uuid (CHR ''6'')) [demo_observation] (demo_db [demo_checked]) = (db', Inr v)"
    using demo_completes_health by blast
  from health_verdict_is_exact[OF demo_store_ok[OF demo_checked_wf] run] demo_row[OF demo_checked_facts(1)] run show ?thesis
    by (auto simp: demo_observation_def)
qed

end
