(* ===== verification/Discovery_Histories.thy ===== *)
theory Discovery_Histories
  imports Catalog_Histories
begin

text \<open>
  Who owns a source: the discovery run that is not terminal. What every run of the backend keeps of the
  discovery runs and of the counters of the sources.
\<close>

section \<open>Ownership\<close>

abbreviation rid :: "discovery_run \<Rightarrow> uuid" where
  "rid r \<equiv> run_id (run_iss r)"

abbreviation rsource :: "discovery_run \<Rightarrow> uuid" where
  "rsource r \<equiv> run_source_id (run_iss r)"

text \<open>
  A source names a run as active exactly when that run is its own and not terminal; the sequence numbers
  of its runs and of its last commit were issued.
\<close>

definition owned :: "inventory_source list \<Rightarrow> discovery_run list \<Rightarrow> bool" where
  "owned ss rs \<longleftrightarrow>
     distinct (map src_id ss) \<and> run_indexes rs
     \<and> (\<forall>r \<in> set rs. \<exists>s \<in> set ss. src_id s = rsource r \<and> run_sequence (run_iss r) \<le> src_last_issued_run_sequence s
          \<and> (nonterminal_run r \<longrightarrow> src_active_discovery_run_id s = Some (rid r)))
     \<and> (\<forall>s \<in> set ss. \<forall>j. src_active_discovery_run_id s = Some j \<longrightarrow>
          (\<exists>r \<in> set rs. rid r = j \<and> rsource r = src_id s \<and> nonterminal_run r))
     \<and> (\<forall>s \<in> set ss. \<forall>n. src_last_committed_run_sequence s = Some n \<longrightarrow> n \<le> src_last_issued_run_sequence s)"

definition run_ownership :: "authority_db \<Rightarrow> bool" where
  "run_ownership db \<longleftrightarrow> owned (sources db) (discovery_runs db)"

definition run_advances :: "discovery_run \<Rightarrow> discovery_run \<Rightarrow> bool" where
  "run_advances a b \<longleftrightarrow> b = a \<or> run_iss b = run_iss a \<and> nonterminal_run a"

definition source_advances :: "inventory_source \<Rightarrow> inventory_source \<Rightarrow> bool" where
  "source_advances a b \<longleftrightarrow>
     src_id b = src_id a \<and> src_last_issued_run_sequence a \<le> src_last_issued_run_sequence b
     \<and> (\<forall>n. src_last_committed_run_sequence a = Some n \<longrightarrow>
          (\<exists>m. src_last_committed_run_sequence b = Some m \<and> n \<le> m))"

definition runs_evolve :: "authority_db \<Rightarrow> authority_db \<Rightarrow> bool" where
  "runs_evolve db db' \<longleftrightarrow> (run_ownership db \<longrightarrow>
     run_ownership db'
     \<and> (\<forall>r \<in> set (discovery_runs db). \<exists>r' \<in> set (discovery_runs db'). run_advances r r')
     \<and> (\<forall>s \<in> set (sources db). \<exists>s' \<in> set (sources db'). source_advances s s'))"

lemma run_advances_trans: "run_advances a b \<Longrightarrow> run_advances b c \<Longrightarrow> run_advances a c"
  by (auto simp: run_advances_def)

lemma source_advances_trans: "source_advances a b \<Longrightarrow> source_advances b c \<Longrightarrow> source_advances a c"
  unfolding source_advances_def by (metis order.trans)

lemma runs_evolve_refl: "runs_evolve db db"
  by (auto simp: runs_evolve_def run_advances_def source_advances_def)

lemma runs_evolve_trans: "runs_evolve a b \<Longrightarrow> runs_evolve b c \<Longrightarrow> runs_evolve a c"
  unfolding runs_evolve_def by (meson run_advances_trans source_advances_trans)

section \<open>What leaves ownership alone\<close>

definition source_view :: "inventory_source \<Rightarrow> uuid \<times> uuid option \<times> int \<times> int option" where
  "source_view s = (src_id s, src_active_discovery_run_id s, src_last_issued_run_sequence s, src_last_committed_run_sequence s)"

definition ownership_same :: "authority_db \<Rightarrow> authority_db \<Rightarrow> bool" where
  "ownership_same db db' \<longleftrightarrow>
     map source_view (sources db') = map source_view (sources db) \<and> discovery_runs db' = discovery_runs db"

lemma view_set: "map f ys = map f xs \<Longrightarrow> x \<in> set xs \<Longrightarrow> \<exists>y \<in> set ys. f y = f x"
  by (metis image_iff list.set_map)

lemma owned_view:
  assumes "map source_view ss' = map source_view ss" "owned ss rs"
  shows "owned ss' rs"
proof -
  have ids: "map src_id ss' = map src_id ss"
    using arg_cong[OF assms(1), of "map fst"] by (simp add: source_view_def comp_def)
  note fwd = view_set[OF assms(1)] and bwd = view_set[OF assms(1)[symmetric]]
  show ?thesis unfolding owned_def
  proof (intro conjI ballI allI impI)
    fix r assume "r \<in> set rs"
    with assms(2) obtain s where "s \<in> set ss" "src_id s = rsource r"
      "run_sequence (run_iss r) \<le> src_last_issued_run_sequence s"
      "nonterminal_run r \<longrightarrow> src_active_discovery_run_id s = Some (rid r)" unfolding owned_def by blast
    with fwd[of s] show "\<exists>s \<in> set ss'. src_id s = rsource r \<and> run_sequence (run_iss r) \<le> src_last_issued_run_sequence s
        \<and> (nonterminal_run r \<longrightarrow> src_active_discovery_run_id s = Some (rid r))"
      by (auto simp: source_view_def)
  next
    fix s' j assume s': "s' \<in> set ss'" "src_active_discovery_run_id s' = Some j"
    from bwd[OF s'(1)] obtain s where s: "s \<in> set ss" "source_view s = source_view s'" by blast
    with s' have "src_active_discovery_run_id s = Some j" "src_id s = src_id s'" by (auto simp: source_view_def)
    with assms(2) s(1) show "\<exists>r \<in> set rs. rid r = j \<and> rsource r = src_id s' \<and> nonterminal_run r"
      unfolding owned_def by metis
  next
    fix s' n assume s': "s' \<in> set ss'" "src_last_committed_run_sequence s' = Some n"
    from bwd[OF s'(1)] obtain s where s: "s \<in> set ss" "source_view s = source_view s'" by blast
    with s' have "src_last_committed_run_sequence s = Some n" "src_last_issued_run_sequence s = src_last_issued_run_sequence s'"
      by (auto simp: source_view_def)
    with assms(2) s(1) show "n \<le> src_last_issued_run_sequence s'" unfolding owned_def by metis
  qed (use assms(2) ids in \<open>auto simp: owned_def\<close>)
qed

lemma ownership_same_evolves: "ownership_same db db' \<Longrightarrow> runs_evolve db db'"
proof -
  assume same: "ownership_same db db'"
  then have "run_ownership db'" if "run_ownership db"
    using that owned_view by (auto simp: ownership_same_def run_ownership_def)
  moreover have "\<exists>s' \<in> set (sources db'). source_advances s s'" if "s \<in> set (sources db)" for s
    using view_set[of source_view "sources db'" "sources db" s] same that
    by (auto simp: ownership_same_def source_view_def source_advances_def)
  ultimately show ?thesis using same by (auto simp: runs_evolve_def ownership_same_def run_advances_def)
qed

lemma view_rows_update: "(\<And>x. w x \<Longrightarrow> source_view (s x) = source_view x) \<Longrightarrow>
    map source_view (rows_update w s rows) = map source_view rows"
  by (simp add: rows_update_def)

lemma ownership_same_trans: "ownership_same a b \<Longrightarrow> ownership_same b c \<Longrightarrow> ownership_same a c"
  by (simp add: ownership_same_def)

lemma update_sources_Inr:
  "update_sources w s db = Inr (n, db') \<longleftrightarrow>
     n = rows_matched w (sources db) \<and> db' = db\<lparr>sources := rows_update w s (sources db)\<rparr>
     \<and> (\<forall>x \<in> set (sources db). w x \<longrightarrow> source_update_triggers db x (s x) \<and> source_checks (s x))"
  by (auto simp: update_sources_def result_iffs list_all_iff)

lemma update_sources_view:
  assumes "\<And>x. source_view (s x) = source_view x" "update_sources w s db = Inr (n, db')"
  shows "ownership_same db db'"
  using assms by (auto simp: update_sources_Inr ownership_same_def intro!: view_rows_update)

lemma inventory_same_ownership: "inventory_same db db' \<Longrightarrow> ownership_same db db'"
  by (simp add: inventory_same_def ownership_same_def)

interpretation ownership_catalog: catalog_relation ownership_same
  by unfold_locales (auto simp: ownership_same_def catalog_writes Let_def result_iffs)

interpretation ownership_reconcile: reconcile_relation ownership_same
proof
  show "ownership_same db db'" if "update_sources (\<lambda>x. src_id x = i) (\<lambda>x. x\<lparr>src_facts := facts\<rparr>) db = Inr (n, db')"
    for db db' i facts n
    by (rule update_sources_view[OF _ that]) (simp add: source_view_def)
qed (auto simp: ownership_same_def discovery_writes Let_def result_iffs split: if_splits)

section \<open>What changes ownership\<close>

lemma unique_row: "distinct (map key rows) \<Longrightarrow> a \<in> set rows \<Longrightarrow> b \<in> set rows \<Longrightarrow> key a = key b \<Longrightarrow> a = b"
  by (auto simp: distinct_map inj_on_def)

lemma rows_update_mem: "a \<in> set rows \<Longrightarrow> (if w a then s a else a) \<in> set (rows_update w s rows)"
  by (auto simp: set_rows_update)

lemma owned_distinct: "owned ss rs \<Longrightarrow> distinct (map src_id ss)" "owned ss rs \<Longrightarrow> distinct (map rid rs)"
  by (auto simp: owned_def run_indexes_def)

lemma owned_issue:
  assumes own: "owned ss rs" and s: "s \<in> set ss" "src_active_discovery_run_id s = None"
    and r: "rsource r = src_id s" "run_sequence (run_iss r) = src_last_issued_run_sequence s + 1" "nonterminal_run r"
      "run_indexes (rs @ [r])"
  shows "owned (rows_update (\<lambda>x. src_id x = src_id s)
            (\<lambda>x. x\<lparr>src_last_issued_run_sequence := src_last_issued_run_sequence s + 1, src_active_discovery_run_id := Some (rid r)\<rparr>) ss)
          (rs @ [r])" (is "owned (rows_update ?w ?u ss) _")
  unfolding owned_def
proof (intro conjI ballI allI impI)
  note one = unique_row[OF owned_distinct(1)[OF own] _ s(1)]
  have idle: "\<not> nonterminal_run x" if x: "x \<in> set rs" "rsource x = src_id s" for x
  proof
    assume "nonterminal_run x"
    with own x obtain y where "y \<in> set ss" "src_id y = src_id s" "src_active_discovery_run_id y = Some (rid x)"
      unfolding owned_def by metis
    with one s(2) show False by fastforce
  qed
  show "distinct (map src_id (rows_update ?w ?u ss))"
    using owned_distinct(1)[OF own] by (simp add: map_rows_update_key)
  show "run_indexes (rs @ [r])" by (rule r(4))
  fix x
  { assume "x \<in> set (rs @ [r])"
    then show "\<exists>y \<in> set (rows_update ?w ?u ss). src_id y = rsource x \<and> run_sequence (run_iss x) \<le> src_last_issued_run_sequence y
        \<and> (nonterminal_run x \<longrightarrow> src_active_discovery_run_id y = Some (rid x))"
    proof (cases "x = r")
      case True
      then show ?thesis using r rows_update_mem[OF s(1), of ?w ?u] by (intro bexI[of _ "?u s"]) auto
    next
      case False
      with \<open>x \<in> set (rs @ [r])\<close> have x: "x \<in> set rs" by simp
      with own obtain y where y: "y \<in> set ss" "src_id y = rsource x" "run_sequence (run_iss x) \<le> src_last_issued_run_sequence y"
        "nonterminal_run x \<longrightarrow> src_active_discovery_run_id y = Some (rid x)" unfolding owned_def by blast
      have "?w y \<Longrightarrow> y = s" using one[OF y(1)] by simp
      with y idle[OF x] rows_update_mem[OF y(1), of ?w ?u] show ?thesis
        by (intro bexI[of _ "if ?w y then ?u y else y"]) (auto split: if_splits)
    qed }
  { fix j assume "x \<in> set (rows_update ?w ?u ss)" "src_active_discovery_run_id x = Some j"
    then obtain y where y: "y \<in> set ss" "x = (if ?w y then ?u y else y)" by (auto simp: set_rows_update)
    with \<open>src_active_discovery_run_id x = Some j\<close> own r show "\<exists>z \<in> set (rs @ [r]). rid z = j \<and> rsource z = src_id x \<and> nonterminal_run z"
      unfolding owned_def by (auto split: if_splits) }
  { fix n assume "x \<in> set (rows_update ?w ?u ss)" "src_last_committed_run_sequence x = Some n"
    then obtain y where y: "y \<in> set ss" "x = (if ?w y then ?u y else y)" by (auto simp: set_rows_update)
    with \<open>src_last_committed_run_sequence x = Some n\<close> have "src_last_committed_run_sequence y = Some n" by (auto split: if_splits)
    with own y(1) have "n \<le> src_last_issued_run_sequence y" unfolding owned_def by blast
    with y(2) one[OF y(1)] show "n \<le> src_last_issued_run_sequence x" by (cases "?w y") auto }
qed

lemma owned_release:
  assumes own: "owned ss rs" and r: "r \<in> set rs" "nonterminal_run r"
    and f: "\<And>x. run_iss (f x) = run_iss x" "\<And>x. \<not> nonterminal_run (f x)"
  shows "owned (rows_update (\<lambda>x. src_id x = rsource r \<and> src_active_discovery_run_id x = Some (rid r))
            (\<lambda>x. x\<lparr>src_active_discovery_run_id := None\<rparr>) ss)
          (rows_update (\<lambda>x. rid x = rid r \<and> nonterminal_run x) f rs)" (is "owned (rows_update ?w ?u ss) (rows_update ?v f rs)")
  unfolding owned_def
proof (intro conjI ballI allI impI)
  note one = unique_row[OF owned_distinct(2)[OF own] _ r(1)]
  have isss: "map run_iss (rows_update ?v f rs) = map run_iss rs" by (simp add: rows_update_def f)
  show "distinct (map src_id (rows_update ?w ?u ss))"
    using owned_distinct(1)[OF own] by (simp add: map_rows_update_key)
  have "map (\<lambda>r. g (run_iss r)) (rows_update ?v f rs) = map (\<lambda>r. g (run_iss r)) rs" for g :: "run_issuance \<Rightarrow> 'z"
    by (simp add: rows_update_def f)
  with own show "run_indexes (rows_update ?v f rs)" by (simp add: owned_def run_indexes_def f map_rows_update_key)
  fix x
  { assume "x \<in> set (rows_update ?v f rs)"
    then obtain z where z: "z \<in> set rs" "x = (if ?v z then f z else z)" by (auto simp: set_rows_update)
    with own obtain y where y: "y \<in> set ss" "src_id y = rsource z" "run_sequence (run_iss z) \<le> src_last_issued_run_sequence y"
      "nonterminal_run z \<longrightarrow> src_active_discovery_run_id y = Some (rid z)" unfolding owned_def by blast
    have iss: "run_iss x = run_iss z" using z(2) f(1)[of z] by simp
    have keep: "nonterminal_run z \<and> \<not> ?w y" if "nonterminal_run x" using that z y(4) f(2)[of z] by (cases "?v z") auto
    show "\<exists>y \<in> set (rows_update ?w ?u ss). src_id y = rsource x \<and> run_sequence (run_iss x) \<le> src_last_issued_run_sequence y
        \<and> (nonterminal_run x \<longrightarrow> src_active_discovery_run_id y = Some (rid x))"
      by (rule bexI[OF _ rows_update_mem[OF y(1), of ?w ?u]]) (use y keep in \<open>auto simp: iss\<close>) }
  { fix j assume x: "x \<in> set (rows_update ?w ?u ss)" "src_active_discovery_run_id x = Some j"
    then obtain y where y: "y \<in> set ss" "x = (if ?w y then ?u y else y)" by (auto simp: set_rows_update)
    with x have xy: "x = y" "\<not> ?w y" by (auto split: if_splits)
    with own y(1) x(2) obtain z where z: "z \<in> set rs" "rid z = j" "rsource z = src_id x" "nonterminal_run z"
      unfolding owned_def by metis
    have "\<not> ?v z" using one[OF z(1)] z xy x(2) by auto
    with z show "\<exists>z \<in> set (rows_update ?v f rs). rid z = j \<and> rsource z = src_id x \<and> nonterminal_run z"
      by (intro bexI[of _ z]) (auto simp: set_rows_update intro!: bexI[of _ z]) }
  { fix n assume "x \<in> set (rows_update ?w ?u ss)" "src_last_committed_run_sequence x = Some n"
    with own show "n \<le> src_last_issued_run_sequence x" unfolding owned_def by (auto simp: set_rows_update) }
qed

section \<open>The operations\<close>

lemma one_row_Inr: "one_row f lost db = Inr (u, db') \<longleftrightarrow> f db = Inr (1, db')"
  by (auto simp: one_row_def commit_Inr result_iffs split: prod.splits)

lemma any_rows_Inr: "any_rows f db = Inr (u, db') \<longleftrightarrow> (\<exists>n. f db = Inr (n, db'))"
  by (auto simp: any_rows_def commit_Inr result_iffs split: prod.splits)

lemma update_runs_Inr:
  "update_discovery_runs w s db = Inr (n, db') \<longleftrightarrow>
     n = rows_matched w (discovery_runs db) \<and> db' = db\<lparr>discovery_runs := rows_update w s (discovery_runs db)\<rparr>
     \<and> (\<forall>r \<in> set (discovery_runs db). w r \<longrightarrow> run_update_triggers db r (s r) \<and> run_checks (s r))"
  by (auto simp: update_discovery_runs_def result_iffs list_all_iff)

lemma source_row_Inr: "source_row i db = Inr (x, db') \<longleftrightarrow> row_by src_id i (sources db) = Some x \<and> db' = db"
  by (auto simp: source_row_def fetch_Inr require_source_row_def split: option.splits)

lemma run_row_Inr: "run_row i db = Inr (x, db') \<longleftrightarrow> row_by (\<lambda>r. run_id (run_iss r)) i (discovery_runs db) = Some x \<and> db' = db"
  by (auto simp: run_row_def fetch_Inr require_run_row_def split: option.splits)

lemma endpoint_row_Inr: "endpoint_row i db = Inr (x, db') \<longleftrightarrow> require_active_endpoint_row db i = Inr x \<and> db' = db"
  by (auto simp: endpoint_row_def fetch_Inr)

lemmas statement_iffs = seq_Inr andthen_Inr need_Inr one_row_Inr any_rows_Inr source_row_Inr run_row_Inr endpoint_row_Inr
  require_exact_run_owner_def require_nonterminal_run_def require_no_active_run_def

interpretation runs_steady: steady_relation runs_evolve
proof
  show "runs_evolve db db'" if "bump_global_revisions False True t db = Inr db'" for t db db'
    by (rule ownership_same_evolves) (rule ownership_catalog.on_publish[OF that])
  show "runs_evolve db (write_expiry src reason db)" for db src reason
    by (rule ownership_same_evolves) (rule ownership_catalog.on_expiry)
qed (auto intro: runs_evolve_refl runs_evolve_trans)

lemma same_evolves: "steady ownership_same m \<Longrightarrow> steady runs_evolve m"
  by (auto simp: steady_def intro: ownership_same_evolves)

text \<open>The rows stay apart from the owned source and its run.\<close>

lemma evolves_owned:
  assumes "run_ownership db \<Longrightarrow> owned (sources db') (discovery_runs db')"
    and "\<And>r. run_ownership db \<Longrightarrow> r \<in> set (discovery_runs db) \<Longrightarrow> \<exists>r' \<in> set (discovery_runs db'). run_advances r r'"
    and "\<And>s. run_ownership db \<Longrightarrow> s \<in> set (sources db) \<Longrightarrow> \<exists>s' \<in> set (sources db'). source_advances s s'"
  shows "runs_evolve db db'"
  using assms by (auto simp: runs_evolve_def run_ownership_def)

lemma source_rows_advance:
  assumes "\<And>x. x \<in> set ss \<Longrightarrow> w x \<Longrightarrow> source_advances x (s x)" "x \<in> set ss"
  shows "\<exists>y \<in> set (rows_update w s ss). source_advances x y"
  using assms(1)[OF assms(2)] rows_update_mem[OF assms(2), of w s]
  by (intro bexI[of _ "if w x then s x else x"]) (auto simp: source_advances_def)

lemma run_rows_advance:
  assumes "\<And>x. x \<in> set rs \<Longrightarrow> w x \<Longrightarrow> run_advances x (s x)" "x \<in> set rs"
  shows "\<exists>y \<in> set (rows_update w s rs). run_advances x y"
  using assms(1)[OF assms(2)] rows_update_mem[OF assms(2), of w s]
  by (intro bexI[of _ "if w x then s x else x"]) (auto simp: run_advances_def)

text \<open>An issued run: the source counts it and names it, and its row is appended.\<close>

lemma issue_run_rows:
  assumes "issue_run_body now fresh (i, version) db = Inr (u, db')" "distinct (map src_id (sources db))"
  obtains s e r db3 where "s \<in> set (sources db)" "src_id s = i" "src_active_discovery_run_id s = None"
    "r = issued_run fresh i (src_last_issued_run_sequence s + 1) (now 0) (current_context s e) version"
    "discovery_runs db3 = discovery_runs db @ [r]" "run_indexes (discovery_runs db @ [r])"
    "sources db3 = rows_update (\<lambda>x. src_id x = src_id s)
       (\<lambda>x. x\<lparr>src_last_issued_run_sequence := src_last_issued_run_sequence s + 1, src_active_discovery_run_id := Some (rid r)\<rparr>)
       (sources db)"
    "publish (now 1) db3 = Inr (u, db')"
proof -
  let ?w1 = "\<lambda>s x. src_id x = i \<and> src_last_issued_run_sequence x = src_last_issued_run_sequence s \<and> src_active_discovery_run_id x = None"
  let ?s1 = "\<lambda>s x. x\<lparr>src_last_issued_run_sequence := src_last_issued_run_sequence s + 1\<rparr>"
  let ?w2 = "\<lambda>x. src_id x = i \<and> src_active_discovery_run_id x = None"
  let ?s2 = "\<lambda>x. x\<lparr>src_active_discovery_run_id := Some fresh\<rparr>"
  from assms(1) obtain s e db1 db2 db3 where s: "row_by src_id i (sources db) = Some s" "src_active_discovery_run_id s = None"
    and st: "update_sources (?w1 s) (?s1 s) db = Inr (1, db1)"
      "insert_discovery_run (issued_run fresh i (src_last_issued_run_sequence s + 1) (now 0) (current_context s e) version) db1 = Inr db2"
      "claim_active_run i fresh db2 = Inr ((), db3)" and pub: "publish (now 1) db3 = Inr (u, db')"
    unfolding issue_run_body_def prod.case statement_iffs commit_Inr Let_def by blast
  let ?r = "issued_run fresh i (src_last_issued_run_sequence s + 1) (now 0) (current_context s e) version"
  let ?u = "\<lambda>x. x\<lparr>src_last_issued_run_sequence := src_last_issued_run_sequence s + 1, src_active_discovery_run_id := Some (rid ?r)\<rparr>"
  note sm = row_by_Some_key[OF s(1)]
  from st have claimed: "sources db3 = rows_update ?w2 ?s2 (rows_update (?w1 s) (?s1 s) (sources db))"
    and runs: "discovery_runs db3 = discovery_runs db @ [?r]" "run_indexes (discovery_runs db @ [?r])"
    by (auto simp: claim_active_run_def one_row_Inr update_sources_Inr insert_discovery_run_def result_iffs)
  have "sources db3 = rows_update (\<lambda>x. src_id x = src_id s) ?u (sources db)"
    unfolding claimed unfolding rows_update_def map_map comp_def
  proof (rule map_cong[OF refl])
    fix x assume "x \<in> set (sources db)"
    from unique_row[OF assms(2) this conjunct1[OF sm]] sm s(2)
    show "(if ?w2 (if ?w1 s x then ?s1 s x else x) then ?s2 (if ?w1 s x then ?s1 s x else x)
        else (if ?w1 s x then ?s1 s x else x)) = (if src_id x = src_id s then ?u x else x)"
      by (cases "src_id x = src_id s") (auto simp: issued_run_def)
  qed
  with that[of s ?r e db3] sm s(2) runs pub show ?thesis by blast
qed

lemma issue_run_evolves: "steady runs_evolve (issue_run_body now fresh x)"
  unfolding steady_def
proof (intro allI impI)
  fix db u db' assume run: "issue_run_body now fresh x db = Inr (u, db')"
  obtain i version where x: "x = (i, version)" by force
  { assume own: "run_ownership db"
    then have ow: "owned (sources db) (discovery_runs db)" by (simp add: run_ownership_def)
    note dist = owned_distinct(1)[OF ow]
    obtain s e r db3 where s: "s \<in> set (sources db)" "src_id s = i"
        "src_active_discovery_run_id s = None"
      and r: "r = issued_run fresh i (src_last_issued_run_sequence s + 1) (now 0) (current_context s e) version"
      and runs: "discovery_runs db3 = discovery_runs db @ [r]" "run_indexes (discovery_runs db @ [r])"
      and srcs: "sources db3 = rows_update (\<lambda>x. src_id x = src_id s)
       (\<lambda>x. x\<lparr>src_last_issued_run_sequence := src_last_issued_run_sequence s + 1, src_active_discovery_run_id := Some (rid r)\<rparr>)
       (sources db)" and pub: "publish (now 1) db3 = Inr (u, db')"
      by (rule issue_run_rows[OF run[unfolded x] dist])
    have "owned (sources db3) (discovery_runs db3)" unfolding srcs runs(1)
      by (rule owned_issue[OF ow s(1) s(3)]) (use s runs(2) in \<open>auto simp: r issued_run_def nonterminal_run_def\<close>)
    moreover have "\<exists>y \<in> set (sources db3). source_advances x y" if "x \<in> set (sources db)" for x
      unfolding srcs
    proof (rule source_rows_advance[OF _ that])
      fix y assume "y \<in> set (sources db)" "src_id y = src_id s"
      with unique_row[OF dist _ s(1)] have "y = s" by blast
      then show "source_advances y (y\<lparr>src_last_issued_run_sequence := src_last_issued_run_sequence s + 1,
          src_active_discovery_run_id := Some (rid r)\<rparr>)" by (simp add: source_advances_def)
    qed
    ultimately have "runs_evolve db db3" by (intro evolves_owned) (auto simp: runs run_advances_def)
    moreover from pub have "runs_evolve db3 db'" using runs_steady.steady_publish[of "now 1"] by (simp add: steady_def)
    ultimately have "runs_evolve db db'" by (rule runs_evolve_trans) }
  then show "runs_evolve db db'" by (auto simp: runs_evolve_def)
qed

text \<open>The end of a run: its source releases it, then its row becomes terminal.\<close>

lemma end_run_evolves:
  assumes row: "row_by rid j (discovery_runs db) = Some r" and r: "rsource r = i" "nonterminal_run r"
    and f: "\<And>x. run_iss (f x) = run_iss x" "\<And>x. \<not> nonterminal_run (f x)"
    and rel: "release_run i j db = Inr (u, db1)"
    and upd: "update_discovery_runs (\<lambda>r. rid r = j \<and> nonterminal_run r) f db1 = Inr (n, db2)"
  shows "runs_evolve db db2"
proof (rule evolves_owned)
  let ?w = "\<lambda>x. src_id x = rsource r \<and> src_active_discovery_run_id x = Some (rid r)"
  note rm = row_by_Some_key[OF row]
  from rel have db1: "db1 = db\<lparr>sources := rows_update ?w (\<lambda>x. x\<lparr>src_active_discovery_run_id := None\<rparr>) (sources db)\<rparr>"
    using rm r by (auto simp: release_run_def one_row_Inr update_sources_Inr)
  from upd have db2: "discovery_runs db2 = rows_update (\<lambda>x. rid x = rid r \<and> nonterminal_run x) f (discovery_runs db)"
    "sources db2 = sources db1"
    using rm by (auto simp: update_runs_Inr db1)
  show "owned (sources db2) (discovery_runs db2)" if "run_ownership db"
    unfolding db2 db1 using owned_release[of "sources db" "discovery_runs db" r f] that rm r f
    by (simp add: run_ownership_def)
  show "\<exists>y \<in> set (discovery_runs db2). run_advances x y" if "x \<in> set (discovery_runs db)" for x
    unfolding db2(1) by (rule run_rows_advance[OF _ that]) (simp add: run_advances_def f)
  show "\<exists>y \<in> set (sources db2). source_advances x y" if "x \<in> set (sources db)" for x
    unfolding db2(2) db1 using source_rows_advance[OF _ that, of ?w] by (simp add: source_advances_def)
qed

lemma complete_run_evolves:
  assumes "row_by rid j (discovery_runs db) = Some r" "rsource r = i" "nonterminal_run r"
    and "release_run i (rid r) db = Inr (u, db1)" "complete_run r t out reason e c db1 = Inr (v, db2)"
  shows "runs_evolve db db2"
  by (rule end_run_evolves[OF assms(1-3), of "completed_run t out reason e c" u db1 1])
     (use assms row_by_Some_key[OF assms(1)] in
       \<open>auto simp: complete_run_def one_row_Inr completed_run_def nonterminal_run_def\<close>)

lemma abandon_evolves: "steady runs_evolve (abandon_body now x)"
  unfolding steady_def
proof (intro allI impI)
  fix db u db' assume run: "abandon_body now x db = Inr (u, db')"
  obtain i j reason where x: "x = (i, j, reason)" by (cases x) auto
  from run obtain r db1 db2 where row: "row_by rid j (discovery_runs db) = Some r" "rsource r = i" "nonterminal_run r"
    and st: "release_run i j db = Inr ((), db1)" "terminalize_abandoned_run j (now 0) reason db1 = Inr ((), db2)"
      "publish (now 1) db2 = Inr (u, db')"
    unfolding x abandon_body_def prod.case statement_iffs by blast
  have "runs_evolve db db2"
    by (rule end_run_evolves[OF row, of "abandoned_run (now 0) reason" "()" db1 1])
       (use st in \<open>auto simp: terminalize_abandoned_run_def one_row_Inr abandoned_run_def nonterminal_run_def\<close>)
  moreover from st(3) have "runs_evolve db2 db'" using runs_steady.steady_publish[of "now 1"] by (simp add: steady_def)
  ultimately show "runs_evolve db db'" by (rule runs_evolve_trans)
qed

text \<open>Ownership looks at the issuance of a run and at whether it is terminal.\<close>

lemma owned_run_view:
  assumes view: "map (\<lambda>r. (run_iss r, nonterminal_run r)) rs' = map (\<lambda>r. (run_iss r, nonterminal_run r)) rs" and own: "owned ss rs"
  shows "owned ss rs'"
proof -
  have iss: "map run_iss rs' = map run_iss rs" using arg_cong[OF view, of "map fst"] by (simp add: comp_def)
  have "run_indexes rs'" using own arg_cong[OF iss, of "map run_id"] arg_cong[OF iss, of "map (\<lambda>i. (run_source_id i, run_sequence i))"]
    by (simp add: owned_def run_indexes_def comp_def)
  moreover have "\<exists>s \<in> set ss. src_id s = rsource r \<and> run_sequence (run_iss r) \<le> src_last_issued_run_sequence s
      \<and> (nonterminal_run r \<longrightarrow> src_active_discovery_run_id s = Some (rid r))" if "r \<in> set rs'" for r
  proof -
    from view_set[OF view[symmetric] that] obtain x where "x \<in> set rs" "run_iss x = run_iss r" "nonterminal_run x = nonterminal_run r" by auto
    with own show ?thesis unfolding owned_def by metis
  qed
  moreover have "\<exists>r \<in> set rs'. rid r = j \<and> rsource r = src_id s \<and> nonterminal_run r"
    if s: "s \<in> set ss" "src_active_discovery_run_id s = Some j" for s j
  proof -
    from own s obtain x where x: "x \<in> set rs" "rid x = j" "rsource x = src_id s" "nonterminal_run x" unfolding owned_def by metis
    from view_set[OF view x(1)] obtain y where "y \<in> set rs'" "run_iss y = run_iss x" "nonterminal_run y = nonterminal_run x" by auto
    with x show ?thesis by metis
  qed
  ultimately show ?thesis using own unfolding owned_def by blast
qed

lemma mark_running_evolves: "steady runs_evolve (mark_running_body now x)"
proof -
  let ?s = "\<lambda>r. r\<lparr>run_lifecycle := RUN_RUNNING\<rparr>"
  have "runs_evolve db db'" if "update_discovery_runs (\<lambda>r. rid r = j) ?s db = Inr (n, db')" for j db n db'
  proof (rule evolves_owned)
    from that have db': "db' = db\<lparr>discovery_runs := rows_update (\<lambda>r. rid r = j) ?s (discovery_runs db)\<rparr>"
      and tr: "\<And>r. r \<in> set (discovery_runs db) \<Longrightarrow> rid r = j \<Longrightarrow> nonterminal_run r"
      by (auto simp: update_runs_Inr run_update_triggers_def)
    show "owned (sources db') (discovery_runs db')" if "run_ownership db"
    proof (rule owned_run_view)
      show "map (\<lambda>r. (run_iss r, nonterminal_run r)) (discovery_runs db') = map (\<lambda>r. (run_iss r, nonterminal_run r)) (discovery_runs db)"
        using tr by (simp add: db' rows_update_def) (simp add: nonterminal_run_def)
    qed (use that in \<open>simp add: run_ownership_def db'\<close>)
    show "\<exists>y \<in> set (discovery_runs db'). run_advances x y" if "x \<in> set (discovery_runs db)" for x
      unfolding db' using run_rows_advance[OF _ that, of "\<lambda>r. rid r = j" ?s] tr by (simp add: run_advances_def)
  qed (use that in \<open>auto simp: update_runs_Inr source_advances_def\<close>)
  then have "steady runs_evolve (any_rows (update_discovery_runs (\<lambda>r. rid r = j) ?s))" for j
    by (auto simp: steady_def any_rows_Inr)
  moreover have "steady runs_evolve (source_row i)" "steady runs_evolve (run_row i)" for i
    by (auto simp: steady_def source_row_Inr run_row_Inr runs_evolve_refl)
  ultimately show ?thesis unfolding mark_running_body_def split_beta require_exact_run_owner_def
    by (intro runs_steady.steady_parts)
qed

text \<open>Statements that leave ownership alone.\<close>

lemma same_health: "steady ownership_same (commit (update_source_health w s))"
  by (auto simp: steady_def commit_Inr update_source_health_def result_iffs ownership_same_def)

lemma same_set_health: "steady ownership_same (set_health i s)"
  by (simp add: set_health_def same_health)

lemma same_provenance: "steady ownership_same (update_completion_provenance i q out)"
  by (simp add: update_completion_provenance_def same_health)

lemma same_publish_inventory: "steady ownership_same (publish_inventory t)"
  by (auto simp: steady_def publish_inventory_def commit_Inr bump_global_revisions_def ownership_same_def)

lemma same_reads: "steady ownership_same (source_row i)" "steady ownership_same (run_row i)"
    "steady ownership_same (endpoint_row i)" "steady ownership_same (health_row i)"
  by (auto simp: steady_def source_row_def run_row_def endpoint_row_def health_row_def fetch_Inr ownership_catalog.refl)

lemma same_set_source:
  assumes "\<And>x. source_view (s x) = source_view x"
  shows "steady ownership_same (set_source i s)"
  by (auto simp: steady_def set_source_def any_rows_Inr intro: update_sources_view[OF assms])

lemmas same_statements = ownership_catalog.steady_parts same_set_health same_provenance same_publish_inventory same_reads

lemma failed_health_same: "steady ownership_same (apply_failed_health i q out reason)"
  unfolding apply_failed_health_def by (intro same_statements)

lemma steadyD: "steady R m \<Longrightarrow> m db = Inr (x, db') \<Longrightarrow> R db db'"
  by (simp add: steady_def)

lemma fail_run_evolves: "steady runs_evolve (fail_run_body now e x)"
  unfolding steady_def
proof (intro allI impI)
  fix db u db' assume run: "fail_run_body now e x db = Inr (u, db')"
  obtain i j out reason where x: "x = (i, j, out, reason)" by (cases x) auto
  from run obtain b r db1 db2 where row: "row_by rid j (discovery_runs db) = Some r" "rsource r = i" "nonterminal_run r"
    and st: "release_run i j db = Inr ((), db1)" "complete_run r (now 0) out (Some reason) e None db1 = Inr ((), db2)"
    and rest: "andthen (if b then apply_failed_health i (run_sequence (run_iss r)) out reason else ret ())
      (andthen (update_completion_provenance i (run_sequence (run_iss r)) out) (publish (now 1))) db2 = Inr (u, db')"
    unfolding x fail_run_body_def prod.case statement_iffs Let_def by blast
  from row_by_Some_key[OF row(1)] st(1) have "release_run i (rid r) db = Inr ((), db1)" by simp
  from complete_run_evolves[OF row this st(2)] have "runs_evolve db db2" .
  moreover have "runs_evolve db2 db'"
    by (rule ownership_same_evolves, rule steadyD[rotated], rule rest) (intro same_statements failed_health_same)
  ultimately show "runs_evolve db db'" by (rule runs_evolve_trans)
qed

lemma reject_evolves:
  assumes "row_by rid j (discovery_runs db) = Some r" "rsource r = i" "nonterminal_run r"
    and run: "reject_changed_context now i r e db = Inr (x, db')"
  shows "runs_evolve db db'"
proof -
  from run obtain db1 db2 where st: "release_run i (rid r) db = Inr ((), db1)"
      "complete_run r (now 0) RUN_INVALID (Some ''completion_context_changed'') e None db1 = Inr ((), db2)"
    and rest: "andthen (update_completion_provenance i (run_sequence (run_iss r)) RUN_INVALID)
      (andthen (publish (now 1)) (ret None)) db2 = Inr (x, db')"
    unfolding reject_changed_context_def andthen_Inr by blast
  from complete_run_evolves[OF assms(1-3) st] have "runs_evolve db db2" .
  moreover have "runs_evolve db2 db'" by (rule ownership_same_evolves, rule steadyD[rotated], rule rest) (intro same_statements)
  ultimately show ?thesis by (rule runs_evolve_trans)
qed

text \<open>The commit of a sequence number that was issued.\<close>

lemma commit_sequence_evolves:
  assumes r: "r \<in> set (discovery_runs db)" "rsource r = i"
    and adv: "\<And>x. x \<in> set (sources db) \<Longrightarrow> src_id x = i \<Longrightarrow> advances (run_sequence (run_iss r)) (src_last_committed_run_sequence x)"
    and upd: "set_source i (\<lambda>x. x\<lparr>src_last_committed_run_sequence := Some (run_sequence (run_iss r))\<rparr>) db = Inr (u, db')"
  shows "runs_evolve db db'"
proof (rule evolves_owned)
  let ?s = "\<lambda>x. x\<lparr>src_last_committed_run_sequence := Some (run_sequence (run_iss r))\<rparr>"
  from upd have db': "db' = db\<lparr>sources := rows_update (\<lambda>x. src_id x = i) ?s (sources db)\<rparr>"
    by (auto simp: set_source_def any_rows_Inr update_sources_Inr)
  show "owned (sources db') (discovery_runs db')" if own: "run_ownership db"
  proof -
    have ow: "owned (sources db) (discovery_runs db)" using own by (simp add: run_ownership_def)
    from ow r obtain y where y: "y \<in> set (sources db)" "src_id y = i" "run_sequence (run_iss r) \<le> src_last_issued_run_sequence y"
      unfolding owned_def by metis
    note one = unique_row[OF owned_distinct(1)[OF ow] _ y(1)]
    have "n \<le> src_last_issued_run_sequence x" if "x \<in> set (sources db')" "src_last_committed_run_sequence x = Some n" for x n
    proof -
      from that(1) obtain z where z: "z \<in> set (sources db)" "x = (if src_id z = i then ?s z else z)"
        unfolding db' by (auto simp: set_rows_update)
      show ?thesis
      proof (cases "src_id z = i")
        case True
        with one[OF z(1)] y(2) have "z = y" by simp
        with True z(2) that(2) y(3) show ?thesis by simp
      next
        case False
        with z ow that(2) show ?thesis unfolding owned_def by simp
      qed
    qed
    moreover have "\<exists>s \<in> set (sources db'). src_id s = rsource x \<and> run_sequence (run_iss x) \<le> src_last_issued_run_sequence s
        \<and> (nonterminal_run x \<longrightarrow> src_active_discovery_run_id s = Some (rid x))" if x: "x \<in> set (discovery_runs db)" for x
    proof -
      from ow x obtain s where s: "s \<in> set (sources db)" "src_id s = rsource x" "run_sequence (run_iss x) \<le> src_last_issued_run_sequence s"
        "nonterminal_run x \<longrightarrow> src_active_discovery_run_id s = Some (rid x)" unfolding owned_def by blast
      with rows_update_mem[OF s(1), of "\<lambda>x. src_id x = i" ?s] show ?thesis unfolding db'
        by (intro bexI[of _ "if src_id s = i then ?s s else s"]) auto
    qed
    ultimately show ?thesis using ow unfolding owned_def db'
      by (auto simp: map_rows_update_key set_rows_update split: if_splits)
  qed
  show "\<exists>y \<in> set (sources db'). source_advances x y" if "x \<in> set (sources db)" for x
  proof -
    have "source_advances y (?s y)" if "y \<in> set (sources db)" "src_id y = i" for y
      using adv[OF that] by (auto simp: source_advances_def advances_def)
    from source_rows_advance[OF this \<open>x \<in> set (sources db)\<close>] show ?thesis by (simp add: db')
  qed
qed (use upd in \<open>auto simp: set_source_def any_rows_Inr update_sources_Inr run_advances_def\<close>)

lemma accept_evolves:
  assumes row: "row_by rid j (discovery_runs db) = Some r" "rsource r = i" "nonterminal_run r"
    and src: "row_by src_id i (sources db) = Some source"
    and run: "accept_snapshot now u i r source endpoint s e db = Inr (x, db')"
  shows "runs_evolve db db'"
proof -
  let ?seq = "run_sequence (run_iss r)"
  from run obtain health summary n db1 db2 ref dl db3 db4 db5 db6 where
      adv: "advances ?seq (src_last_committed_run_sequence source)"
    and st: "health_row i db = Inr (health, db)" "reconcile u s (now 0) db = Inr (summary, db1)"
      "provision_default_health_contracts (now 0) db1 = Inr (n, db2)"
      "set_source i (\<lambda>x. x\<lparr>src_last_committed_run_sequence := Some ?seq\<rparr>) db2 = Inr ((), db3)"
      "set_health i (healthy_source source endpoint s ?seq ref dl (freshness_at_commit ref dl (now 0))) db3 = Inr ((), db4)"
      "release_run i (rid r) db4 = Inr ((), db5)"
      "complete_run r (now 0) RUN_SUCCESS None e (Some (current_context source endpoint)) db5 = Inr ((), db6)"
    and rest: "andthen (publish_inventory (now 1)) (ret (Some summary)) db6 = Inr (x, db')"
    unfolding accept_snapshot_def Let_def health_row_def seq_Inr fetch_Inr pure_Inr andthen_Inr need_Inr by blast
  have s1: "ownership_same db db2"
    using ownership_same_trans[OF steadyD[OF ownership_reconcile.steady_reconcile st(2)] steadyD[OF ownership_catalog.steady_provision st(3)]] .
  from s1 have runs2: "discovery_runs db2 = discovery_runs db" by (simp add: ownership_same_def)
  have e1: "runs_evolve db db2" by (rule ownership_same_evolves[OF s1])
  have e2: "runs_evolve db3 db4" by (rule ownership_same_evolves, rule steadyD[OF same_set_health st(5)])
  have runs4: "discovery_runs db4 = discovery_runs db"
    using st(4) steadyD[OF same_set_health st(5)] runs2
    by (auto simp: set_source_def any_rows_Inr update_sources_Inr ownership_same_def)
  have e3: "runs_evolve db4 db6" using complete_run_evolves[OF _ row(2,3) st(6,7), of j] row(1) by (simp add: runs4)
  have e4: "runs_evolve db6 db'" by (rule ownership_same_evolves, rule steadyD[rotated], rule rest) (intro same_statements)
  have e5: "runs_evolve db2 db3" if "run_ownership db"
  proof (rule commit_sequence_evolves[OF _ row(2) _ st(4)])
    show "r \<in> set (discovery_runs db2)" using row_by_Some_key[OF row(1)] by (simp add: runs2)
    fix y assume y: "y \<in> set (sources db2)" "src_id y = i"
    from s1 view_set[of source_view "sources db" "sources db2" y] y obtain z where
      z: "z \<in> set (sources db)" "source_view z = source_view y" by (auto simp: ownership_same_def)
    have "z = source"
      using unique_row[OF owned_distinct(1), of "sources db" "discovery_runs db" z source] that z y row_by_Some_key[OF src]
      by (simp add: run_ownership_def source_view_def)
    with adv z(2) show "advances ?seq (src_last_committed_run_sequence y)" by (simp add: source_view_def)
  qed
  have "runs_evolve db db'" if "run_ownership db"
    using runs_evolve_trans[OF e1 runs_evolve_trans[OF e5[OF that] runs_evolve_trans[OF e2 runs_evolve_trans[OF e3 e4]]]] .
  then show ?thesis by (auto simp: runs_evolve_def)
qed

lemma finalize_evolves: "steady runs_evolve (finalize_run_body now u s x)"
  unfolding steady_def
proof (intro allI impI)
  fix db y db' assume run: "finalize_run_body now u s x db = Inr (y, db')"
  obtain i j e where x: "x = ((i, j), e)" by (cases x) auto
  from run obtain source r endpoint where src: "row_by src_id i (sources db) = Some source"
    and row: "row_by rid j (discovery_runs db) = Some r" "rsource r = i" "nonterminal_run r"
    and k: "(if run_context_is_current source endpoint r then accept_snapshot now u i r source endpoint s e
          else reject_changed_context now i r e) db = Inr (y, db')"
    unfolding x finalize_run_body_def prod.case statement_iffs validate_snapshot_issuance_def by blast
  from k accept_evolves[OF row src] reject_evolves[OF row] show "runs_evolve db db'" by (auto split: if_splits)
qed

lemma create_source_evolves: "steady runs_evolve (create_source_body now i e x)"
proof -
  have "runs_evolve db db'" if "insert_source (new_source i t q) db = Inr db'" for t q db db'
  proof (rule evolves_owned)
    from that have db': "db' = db\<lparr>sources := sources db @ [new_source i t q]\<rparr>" and new: "i \<notin> src_id ` set (sources db)"
      by (auto simp: insert_source_def result_iffs new_source_def)
    show "owned (sources db') (discovery_runs db')" if "run_ownership db"
      using that new unfolding run_ownership_def owned_def db'
      by (auto simp: new_source_def intro: bexI)
  qed (use that in \<open>auto simp: insert_source_def result_iffs run_advances_def source_advances_def\<close>)
  then have "steady runs_evolve (commit (insert_source (new_source i t q)))" for t q
    by (auto simp: steady_def commit_Inr)
  moreover have "steady ownership_same (commit (insert_endpoint ep))" "steady ownership_same (commit (insert_source_health h))" for ep h
    by (auto simp: steady_def commit_Inr insert_endpoint_def insert_source_health_def result_iffs ownership_same_def)
  ultimately show ?thesis unfolding create_source_body_def split_beta
    by (intro runs_steady.steady_andthen) (auto intro: same_evolves same_publish_inventory)
qed

lemma same_rename: "steady ownership_same (rename_body now x)"
  unfolding rename_body_def split_beta by (intro same_statements same_set_source) (simp add: source_view_def)

lemma same_transition: "steady ownership_same (mark_controlled_context_transition i reason)"
  unfolding mark_controlled_context_transition_def by (rule same_set_health)

lemma same_next_revision: "steady ownership_same (set_source i next_config_revision)"
  by (rule same_set_source) (simp add: next_config_revision_def source_view_def)

lemma same_configuration: "steady ownership_same (change_configuration_body now reason x)"
proof -
  have "source_view (configure c y) = source_view y" for c y by (cases c) (auto simp: source_view_def)
  then show ?thesis unfolding change_configuration_body_def split_beta require_no_active_run_def
    by (intro same_statements same_set_source same_transition) simp
qed

lemma same_update_endpoint: "steady ownership_same (commit (update_endpoint i s))"
  by (auto simp: steady_def commit_Inr update_endpoint_def Let_def result_iffs ownership_same_def)

lemma same_rotate: "steady ownership_same (rotate_trust_body now i)"
  unfolding rotate_trust_body_def require_no_active_run_def
  by (intro same_statements same_update_endpoint same_next_revision same_transition)

lemma same_migrate: "steady ownership_same (migrate_body now fresh x)"
proof -
  have "ownership_same db db'" if "migrate_endpoint fresh i v t p db = Inr db'" for i v t p db db'
    using that by (auto simp: migrate_endpoint_def insert_migration_def update_endpoint_def Let_def result_iffs
        ownership_same_def split: prod.splits)
  then have "steady ownership_same (commit (executemany (migrate_endpoint fresh i v t) pairs))" for i v t pairs
    by (intro ownership_catalog.steady_commit) (rule ownership_catalog.executemany_keeps)
  then show ?thesis unfolding migrate_body_def split_beta require_no_active_run_def
    by (intro same_statements same_next_revision same_transition)
qed

lemma inventory_runs_evolve: "inventory_step db db' \<Longrightarrow> runs_evolve db db'"
  by (induction rule: inventory_step.induct)
     (auto simp: inventory_defs intro!: runs_steady.run_op_steady create_source_evolves issue_run_evolves mark_running_evolves
        abandon_evolves finalize_evolves fail_run_evolves same_evolves[OF same_rename] same_evolves[OF same_configuration]
        same_evolves[OF same_rotate] same_evolves[OF same_migrate] runs_steady.steady_expiry runs_steady.steady_seq
        runs_steady.steady_fetch)

section \<open>Every run of the backend\<close>

lemma backend_runs_evolve:
  assumes "backend_step\<^sup>*\<^sup>* s s'" "store_ok (fst s)"
  shows "runs_evolve (fst s) (fst s')"
proof (rule backend_run_keeps[OF assms])
  show "runs_evolve db db'" if "operation_step (db, f, h) (db', f', h')" "store_ok db"
    for db db' f f' and h h' :: 'a
    by (rule ownership_same_evolves, rule inventory_same_ownership)
       (use job_frame.operation_keeps[OF that] in \<open>simp add: outside_jobs_same_def\<close>)
qed (auto intro: inventory_runs_evolve ownership_same_evolves ownership_catalog.catalog_keeps runs_evolve_refl runs_evolve_trans)

end
