(* ===== verification/Inventory_Slots.thy ===== *)
theory Inventory_Slots
  imports Discovery_Histories
begin

text \<open>
  Reconciliation as a function on slots. The slot of a source and a VMID holds the resource
  incarnations that ever lived there and their locator bindings, in the order of the tables. The
  reconciler works on the whole tables, statement by statement; the reference definitions below say
  what one observation, or its absence, does to one slot. The result of the theory is that the
  reconciler is the reference definition on every slot of its source and the identity on every other.
\<close>

section \<open>Slots\<close>

type_synonym slot = "resource_incarnation list \<times> locator_binding list"

definition slot :: "authority_db \<Rightarrow> uuid \<Rightarrow> int \<Rightarrow> slot" where
  "slot db i v =
     (filter (\<lambda>r. res_source_id r = i \<and> res_vmid r = v) (resources db),
      filter (\<lambda>b. bind_source_id b = i \<and> bind_vmid b = v) (bindings db))"

definition inventory_ok :: "authority_db \<Rightarrow> bool" where
  "inventory_ok db \<longleftrightarrow>
     distinct (map res_id (resources db)) \<and> binding_indexes (bindings db)
     \<and> (\<forall>b \<in> set (bindings db). \<exists>r \<in> set (resources db). res_id r = bind_resource_id b
          \<and> res_source_id r = bind_source_id b \<and> res_vmid r = bind_vmid b)"

text \<open>The resource that holds the slot, with its open binding.\<close>

definition slot_holder :: "slot \<Rightarrow> active_row option" where
  "slot_holder x =
     (case find (\<lambda>b. bind_valid_to b = None) (snd x) of
        None \<Rightarrow> None
      | Some b \<Rightarrow> map_option (\<lambda>r. \<lparr>ar_resource = r, ar_binding_id = bind_id b, ar_generation = bind_generation b\<rparr>)
          (find (\<lambda>r. res_id r = bind_resource_id b) (fst x)))"

section \<open>The reference definition\<close>

definition slot_generation :: "slot \<Rightarrow> int" where
  "slot_generation x = foldr max (map bind_generation (snd x)) 0 + 1"

definition update_holder :: "active_row \<Rightarrow> (resource_incarnation \<Rightarrow> resource_incarnation) \<Rightarrow> slot \<Rightarrow> slot" where
  "update_holder a f x = (rows_update (\<lambda>r. res_id r = res_id (ar_resource a)) f (fst x), snd x)"

definition close_holder :: "active_row \<Rightarrow> int \<Rightarrow> slot \<Rightarrow> slot" where
  "close_holder a q x =
     (fst x, rows_update (\<lambda>b. bind_id b = ar_binding_id a \<and> bind_valid_to b = None)
        (\<lambda>b. b\<lparr>bind_valid_to := Some q, bind_closure_reason := Some ''replaced''\<rparr>) (snd x))"

definition observed_slot ::
    "reconcile_uuids \<Rightarrow> discovery_snapshot \<Rightarrow> time \<Rightarrow> discovered_resource \<Rightarrow> uuid option \<Rightarrow> string \<Rightarrow> slot \<Rightarrow> slot" where
  "observed_slot u s t r node avail x =
     (let i = snap_source_id s; v = dv_vmid r;
          arrival = new_resource (fresh_resource u v) i r node avail t;
          binding = (\<lambda>g. new_binding (fresh_binding u v) s v g (fresh_resource u v)) in
      case slot_holder x of
        None \<Rightarrow> (fst x @ [arrival], snd x @ [binding (slot_generation x)])
      | Some a \<Rightarrow>
          if res_type (ar_resource a) \<noteq> dv_type r
          then (let y = close_holder a (snap_sequence s)
                          (update_holder a (retired_resource (last_known_node (ar_resource a)) (fresh_resource u v) t) x)
                in (fst y @ [arrival], snd y @ [binding (ar_generation a + 1)]))
          else update_holder a (refreshed_resource (ar_resource a) r node avail t) x)"

definition absent_slot :: "time \<Rightarrow> slot \<Rightarrow> slot" where
  "absent_slot t x =
     (case slot_holder x of
        None \<Rightarrow> x
      | Some a \<Rightarrow> if res_presence (ar_resource a) = ''missing'' then x
          else update_holder a (missing_resource (last_known_node (ar_resource a)) t) x)"

section \<open>Primitive writes on a slot\<close>

lemma filter_rows_update:
  assumes "\<And>r. r \<in> set rows \<Longrightarrow> w r \<Longrightarrow> P (s r) = P r"
  shows "filter P (rows_update w s rows) = rows_update w s (filter P rows)"
  using assms by (induction rows) (auto simp: rows_update_def)

lemma rows_update_absent: "(\<And>r. r \<in> set rows \<Longrightarrow> \<not> w r) \<Longrightarrow> rows_update w s rows = rows"
  by (auto simp: rows_update_def intro!: map_idI)

lemma slot_update_resource:
  assumes "update_resource k f db = Inr db'"
  shows "slot db' i v = (rows_update (\<lambda>r. res_id r = k) f (fst (slot db i v)), snd (slot db i v))"
proof -
  from assms have kept: "\<And>r. r \<in> set (resources db) \<Longrightarrow> res_id r = k \<Longrightarrow> resource_identity_kept r (f r)"
    and db': "db' = db\<lparr>resources := rows_update (\<lambda>r. res_id r = k) f (resources db)\<rparr>"
    by (auto simp: update_resource_def result_iffs list_all_iff)
  show ?thesis unfolding db' slot_def
    by (simp, rule filter_rows_update) (use kept in \<open>auto simp: resource_identity_kept_def\<close>)
qed

lemma slot_insert_resource:
  assumes "insert_resource r db = Inr db'"
  shows "slot db' i v = (fst (slot db i v) @ (if res_source_id r = i \<and> res_vmid r = v then [r] else []), snd (slot db i v))"
  using assms by (auto simp: insert_resource_def result_iffs slot_def)

lemma slot_insert_binding:
  assumes "insert_binding b db = Inr db'"
  shows "slot db' i v = (fst (slot db i v), snd (slot db i v) @ (if bind_source_id b = i \<and> bind_vmid b = v then [b] else []))"
  using assms by (auto simp: insert_binding_def result_iffs slot_def)

lemma slot_close_binding:
  assumes "close_binding k q reason db = Inr db'"
  shows "slot db' i v = (fst (slot db i v), rows_update (\<lambda>b. bind_id b = k \<and> bind_valid_to b = None)
     (\<lambda>b. b\<lparr>bind_valid_to := Some q, bind_closure_reason := Some reason\<rparr>) (snd (slot db i v)))"
proof -
  from assms have "db' = db\<lparr>bindings := rows_update (\<lambda>b. bind_id b = k \<and> bind_valid_to b = None)
     (\<lambda>b. b\<lparr>bind_valid_to := Some q, bind_closure_reason := Some reason\<rparr>) (bindings db)\<rparr>"
    by (auto simp: close_binding_def Let_def result_iffs)
  then show ?thesis by (simp add: slot_def filter_rows_update)
qed

lemma slot_termination: "insert_termination x db = Inr db' \<Longrightarrow> slot db' i v = slot db i v"
  by (auto simp: insert_termination_def result_iffs slot_def)

lemmas slot_writes = slot_update_resource slot_insert_resource slot_insert_binding slot_close_binding slot_termination

section \<open>Primitive writes and the invariant\<close>

lemma inventory_update_resource:
  assumes "update_resource k f db = Inr db'" "inventory_ok db"
  shows "inventory_ok db'"
proof -
  from assms(1) have kept: "\<And>r. r \<in> set (resources db) \<Longrightarrow> res_id r = k \<Longrightarrow> resource_identity_kept r (f r)"
    and db': "db' = db\<lparr>resources := rows_update (\<lambda>r. res_id r = k) f (resources db)\<rparr>"
    by (auto simp: update_resource_def result_iffs list_all_iff)
  have "map res_id (rows_update (\<lambda>r. res_id r = k) f (resources db)) = map res_id (resources db)"
    using kept by (auto simp: rows_update_def resource_identity_kept_def)
  moreover have "\<exists>r \<in> set (rows_update (\<lambda>r. res_id r = k) f (resources db)). res_id r = bind_resource_id b
      \<and> res_source_id r = bind_source_id b \<and> res_vmid r = bind_vmid b" if "b \<in> set (bindings db)" for b
  proof -
    from assms(2) that obtain r where r: "r \<in> set (resources db)" "res_id r = bind_resource_id b"
      "res_source_id r = bind_source_id b" "res_vmid r = bind_vmid b" by (auto simp: inventory_ok_def)
    from rows_update_mem[OF r(1), of "\<lambda>r. res_id r = k" f] r kept[OF r(1)] show ?thesis
      by (intro bexI[of _ "if res_id r = k then f r else r"]) (auto simp: resource_identity_kept_def)
  qed
  ultimately show ?thesis using assms(2) by (simp add: inventory_ok_def db')
qed

lemma inventory_insert_resource:
  "insert_resource r db = Inr db' \<Longrightarrow> inventory_ok db \<Longrightarrow> inventory_ok db'"
  by (auto simp: insert_resource_def result_iffs inventory_ok_def intro: bexI)

lemma inventory_insert_binding:
  assumes "insert_binding b db = Inr db'" "inventory_ok db"
    "\<exists>r \<in> set (resources db). res_id r = bind_resource_id b \<and> res_source_id r = bind_source_id b \<and> res_vmid r = bind_vmid b"
  shows "inventory_ok db'"
proof -
  from assms(1) have "binding_indexes (bindings db @ [b])" "db' = db\<lparr>bindings := bindings db @ [b]\<rparr>"
    by (auto simp: insert_binding_def result_iffs)
  with assms(2,3) show ?thesis by (simp add: inventory_ok_def)
qed

lemma inventory_close_binding:
  assumes "close_binding k q reason db = Inr db'" "inventory_ok db"
  shows "inventory_ok db'"
proof -
  let ?w = "\<lambda>b. bind_id b = k \<and> bind_valid_to b = None"
  let ?s = "\<lambda>b. b\<lparr>bind_valid_to := Some q, bind_closure_reason := Some reason\<rparr>"
  from assms(1) have db': "db' = db\<lparr>bindings := rows_update ?w ?s (bindings db)\<rparr>"
    by (auto simp: close_binding_def Let_def result_iffs)
  have still: "map f (open_bindings (rows_update ?w ?s bs)) = map f (filter (\<lambda>b. \<not> ?w b) (open_bindings bs))"
    for f :: "locator_binding \<Rightarrow> 'z" and bs
    by (induction bs) (auto simp: open_bindings_def rows_update_def)
  have "binding_indexes (rows_update ?w ?s (bindings db))"
    using assms(2) unfolding inventory_ok_def binding_indexes_def still
    by (auto simp: map_rows_update_key distinct_map_filter)
  then show ?thesis using assms(2) by (auto simp: inventory_ok_def db' set_rows_update)
qed

lemma inventory_termination: "insert_termination x db = Inr db' \<Longrightarrow> inventory_ok db \<Longrightarrow> inventory_ok db'"
  by (auto simp: insert_termination_def result_iffs inventory_ok_def)

lemmas inventory_writes = inventory_update_resource inventory_insert_resource inventory_insert_binding
  inventory_close_binding inventory_termination

section \<open>One observed resource\<close>

lemma slot_members:
  "r \<in> set (fst (slot db i v)) \<longleftrightarrow> r \<in> set (resources db) \<and> res_source_id r = i \<and> res_vmid r = v"
  "b \<in> set (snd (slot db i v)) \<longleftrightarrow> b \<in> set (bindings db) \<and> bind_source_id b = i \<and> bind_vmid b = v"
  by (auto simp: slot_def)

lemma slot_holder_Some:
  assumes "slot_holder x = Some a"
  shows "ar_resource a \<in> set (fst x)"
    "\<exists>b \<in> set (snd x). bind_id b = ar_binding_id a \<and> bind_valid_to b = None \<and> bind_resource_id b = res_id (ar_resource a)
       \<and> bind_generation b = ar_generation a"
  using assms by (auto simp: slot_holder_def find_Some_iff split: option.splits)

text \<open>A holder is in no other slot.\<close>

lemma holder_elsewhere:
  assumes "inventory_ok db" "slot_holder (slot db i v) = Some a" "(j, w) \<noteq> (i, v)"
  shows "rows_update (\<lambda>r. res_id r = res_id (ar_resource a)) f (fst (slot db j w)) = fst (slot db j w)"
    "rows_update (\<lambda>b. bind_id b = ar_binding_id a \<and> bind_valid_to b = None) g (snd (slot db j w)) = snd (slot db j w)"
proof -
  from assms(1) have dist: "distinct (map res_id (resources db))" "distinct (map bind_id (bindings db))"
    by (auto simp: inventory_ok_def binding_indexes_def)
  from slot_holder_Some[OF assms(2)] obtain b where a: "ar_resource a \<in> set (resources db)" "res_source_id (ar_resource a) = i"
      "res_vmid (ar_resource a) = v"
    and b: "b \<in> set (bindings db)" "bind_source_id b = i" "bind_vmid b = v" "bind_id b = ar_binding_id a"
    by (auto simp: slot_members)
  have "res_id r \<noteq> res_id (ar_resource a)" if "r \<in> set (fst (slot db j w))" for r
  proof
    assume "res_id r = res_id (ar_resource a)"
    with that unique_row[OF dist(1) _ a(1), of r] have "r = ar_resource a" by (simp add: slot_members)
    with that a assms(3) show False by (simp add: slot_members)
  qed
  then show "rows_update (\<lambda>r. res_id r = res_id (ar_resource a)) f (fst (slot db j w)) = fst (slot db j w)"
    by (rule rows_update_absent)
  have "bind_id y \<noteq> ar_binding_id a" if "y \<in> set (snd (slot db j w))" for y
  proof
    assume "bind_id y = ar_binding_id a"
    with that unique_row[OF dist(2) _ b(1), of y] b(4) have "y = b" by (simp add: slot_members)
    with that b assms(3) show False by (simp add: slot_members)
  qed
  then show "rows_update (\<lambda>b. bind_id b = ar_binding_id a \<and> bind_valid_to b = None) g (snd (slot db j w)) = snd (slot db j w)"
    by (intro rows_update_absent) blast
qed

lemma new_resource_sel [simp]: "res_id (new_resource k i r n a t) = k" "res_source_id (new_resource k i r n a t) = i"
    "res_vmid (new_resource k i r n a t) = dv_vmid r"
  by (simp_all add: new_resource_def)

lemma new_binding_sel [simp]: "bind_source_id (new_binding k s v g r) = snap_source_id s" "bind_vmid (new_binding k s v g r) = v"
    "bind_resource_id (new_binding k s v g r) = r"
  by (simp_all add: new_binding_def)

text \<open>An arrival: the resource row and its binding.\<close>

lemma arrival_slots:
  assumes "inventory_ok db" "insert_resource (new_resource k (snap_source_id s) r n a t) db = Inr db1"
    "insert_binding (new_binding l s (dv_vmid r) g k) db1 = Inr db2"
  shows "inventory_ok db2"
    "slot db2 i v = (if i = snap_source_id s \<and> v = dv_vmid r
       then (fst (slot db i v) @ [new_resource k (snap_source_id s) r n a t], snd (slot db i v) @ [new_binding l s (dv_vmid r) g k])
       else slot db i v)"
proof -
  from assms(2) have "new_resource k (snap_source_id s) r n a t \<in> set (resources db1)"
    by (auto simp: insert_resource_def result_iffs)
  with inventory_insert_binding[OF assms(3) inventory_insert_resource[OF assms(2,1)]] show "inventory_ok db2"
    by (force intro: bexI)
  show "slot db2 i v = (if i = snap_source_id s \<and> v = dv_vmid r
       then (fst (slot db i v) @ [new_resource k (snap_source_id s) r n a t], snd (slot db i v) @ [new_binding l s (dv_vmid r) g k])
       else slot db i v)"
    by (auto simp: slot_insert_binding[OF assms(3)] slot_insert_resource[OF assms(2)])
qed

lemma create_resource_slots:
  assumes "inventory_ok db" "create_resource u s r node a t db = Inr (x, db')"
    "slot_holder (slot db (snap_source_id s) (dv_vmid r)) = None"
  shows "inventory_ok db'"
    "slot db' i v = (if i = snap_source_id s \<and> v = dv_vmid r then observed_slot u s t r node a (slot db i v) else slot db i v)"
proof -
  let ?g = "slot_generation (slot db (snap_source_id s) (dv_vmid r))"
  have "next_generation db (snap_source_id s) (dv_vmid r) = ?g"
    by (simp add: next_generation_def slot_generation_def slot_def)
  with assms(2) obtain db1 where st: "insert_resource (new_resource (fresh_resource u (dv_vmid r)) (snap_source_id s) r node a t) db = Inr db1"
      "insert_binding (new_binding (fresh_binding u (dv_vmid r)) s (dv_vmid r) ?g (fresh_resource u (dv_vmid r))) db1 = Inr db'"
    by (auto simp: create_resource_def Let_def body_iffs)
  from arrival_slots[OF assms(1) st] assms(3) show "inventory_ok db'"
    "slot db' i v = (if i = snap_source_id s \<and> v = dv_vmid r then observed_slot u s t r node a (slot db i v) else slot db i v)"
    by (auto simp: observed_slot_def Let_def)
qed

lemma replace_resource_slots:
  assumes ok: "inventory_ok db" and run: "replace_resource u s r a node av t db = Inr (x, db')"
    and h: "slot_holder (slot db (snap_source_id s) (dv_vmid r)) = Some a" "res_type (ar_resource a) \<noteq> dv_type r"
  shows "inventory_ok db'"
    "slot db' i v = (if i = snap_source_id s \<and> v = dv_vmid r then observed_slot u s t r node av (slot db i v) else slot db i v)"
proof -
  let ?k = "fresh_resource u (dv_vmid r)"
  from run obtain db1 db2 db3 db4 where
    c: "close_binding (ar_binding_id a) (snap_sequence s) ''replaced'' db = Inr db1" and
    up: "update_resource (res_id (ar_resource a)) (retired_resource (last_known_node (ar_resource a)) ?k t) db1 = Inr db2" and
    st: "insert_resource (new_resource ?k (snap_source_id s) r node av t) db2 = Inr db3"
      "insert_binding (new_binding (fresh_binding u (dv_vmid r)) s (dv_vmid r) (ar_generation a + 1) ?k) db3 = Inr db4"
    and fin: "\<exists>z. insert_termination z db4 = Inr db'"
    unfolding replace_resource_def Let_def body_iffs by blast
  have ok2: "inventory_ok db2" by (rule inventory_update_resource[OF up inventory_close_binding[OF c ok]])
  have slot2: "slot db2 i v = (if i = snap_source_id s \<and> v = dv_vmid r
      then close_holder a (snap_sequence s) (update_holder a (retired_resource (last_known_node (ar_resource a)) ?k t) (slot db i v))
      else slot db i v)" for i v
    using holder_elsewhere[OF ok h(1), of i v] by (auto simp: slot_update_resource[OF up] slot_close_binding[OF c]
        close_holder_def update_holder_def prod_eq_iff)
  from fin inventory_termination arrival_slots(1)[OF ok2 st] show "inventory_ok db'" by blast
  from fin have "slot db' i v = slot db4 i v" by (auto dest: slot_termination)
  then show "slot db' i v = (if i = snap_source_id s \<and> v = dv_vmid r then observed_slot u s t r node av (slot db i v) else slot db i v)"
    using h by (auto simp: arrival_slots(2)[OF ok2 st] slot2 observed_slot_def Let_def)
qed

lemma reconcile_resource_slots:
  assumes ok: "inventory_ok db" and act: "map_of active (dv_vmid r) = slot_holder (slot db (snap_source_id s) (dv_vmid r))"
    and run: "reconcile_resource u s t ids active r counts db = Inr (c, db')"
  obtains av where "observed_availability s r = Inr av" "inventory_ok db'"
    "\<And>i v. slot db' i v = (if i = snap_source_id s \<and> v = dv_vmid r
       then observed_slot u s t r (Option.bind (dv_node r) (map_of ids)) av (slot db i v) else slot db i v)"
proof -
  let ?node = "Option.bind (dv_node r) (map_of ids)" and ?x = "slot db (snap_source_id s) (dv_vmid r)"
  from run obtain av where av: "observed_availability s r = Inr av" by (auto simp: reconcile_resource_def Let_def body_iffs)
  consider (create) "slot_holder ?x = None" "create_resource u s r ?node av t db = Inr ((), db')"
    | (replace) a where "slot_holder ?x = Some a" "res_type (ar_resource a) \<noteq> dv_type r" "replace_resource u s r a ?node av t db = Inr ((), db')"
    | (refresh) a where "slot_holder ?x = Some a" "res_type (ar_resource a) = dv_type r"
        "update_resource (res_id (ar_resource a)) (refreshed_resource (ar_resource a) r ?node av t) db = Inr db'"
    using run av by (auto simp: reconcile_resource_def Let_def body_iffs act split: option.splits if_splits)
  then show ?thesis
  proof cases
    case create
    from that[OF av create_resource_slots[OF ok create(2,1)]] show ?thesis .
  next
    case replace
    from that[OF av replace_resource_slots[OF ok replace(3,1,2)]] show ?thesis .
  next
    case refresh
    have "slot db' i v = (if i = snap_source_id s \<and> v = dv_vmid r
       then observed_slot u s t r ?node av (slot db i v) else slot db i v)" for i v
      using holder_elsewhere(1)[OF ok refresh(1), of i v] refresh(1,2)
      by (auto simp: slot_update_resource[OF refresh(3)] observed_slot_def update_holder_def Let_def)
    from that[OF av inventory_update_resource[OF refresh(3) ok] this] show ?thesis .
  qed
qed

section \<open>The rows the reconciler starts from\<close>

lemma py_dict_map: "map_of (py_dict rows) = map_of (rev rows)" "distinct (map fst (py_dict rows))"
proof -
  have "map_of (foldl (\<lambda>d (k, v). AList.update k v d) d rows) = map_of (rev rows @ d)" for d
    by (induction rows arbitrary: d) (simp_all add: update_conv' split_beta)
  from this[of "[]"] show "map_of (py_dict rows) = map_of (rev rows)" by (simp add: py_dict_def)
  have "distinct (map fst d) \<Longrightarrow> distinct (map fst (foldl (\<lambda>d (k, v). AList.update k v d) d rows))" for d
    by (induction rows arbitrary: d) (auto simp: distinct_update)
  from this[of "[]"] show "distinct (map fst (py_dict rows))" by (simp add: py_dict_def)
qed

lemma find_unique: "x \<in> set xs \<Longrightarrow> P x \<Longrightarrow> (\<And>y. y \<in> set xs \<Longrightarrow> P y \<Longrightarrow> y = x) \<Longrightarrow> find P xs = Some x"
proof (induction xs)
  case (Cons y ys)
  show ?case
  proof (cases "P y")
    case True
    with Cons.prems(3)[of y] show ?thesis by simp
  next
    case False
    with Cons.prems(1,2) have "x \<in> set ys" by auto
    have "find P ys = Some x"
      by (rule Cons.IH[OF \<open>x \<in> set ys\<close> Cons.prems(2)]) (rule Cons.prems(3), simp_all)
    with False show ?thesis by simp
  qed
qed simp

lemma joined_rows_holder:
  assumes ok: "inventory_ok db"
  shows "(v, a) \<in> set (joined_rows db i) \<longleftrightarrow> slot_holder (slot db i v) = Some a"
proof
  assume "slot_holder (slot db i v) = Some a"
  then obtain b r where b: "find (\<lambda>b. bind_valid_to b = None) (snd (slot db i v)) = Some b"
    and r: "find (\<lambda>r. res_id r = bind_resource_id b) (fst (slot db i v)) = Some r"
    and a: "a = \<lparr>ar_resource = r, ar_binding_id = bind_id b, ar_generation = bind_generation b\<rparr>"
    by (auto simp: slot_holder_def split: option.splits)
  from b r have "b \<in> set (snd (slot db i v))" "bind_valid_to b = None" "r \<in> set (fst (slot db i v))" "res_id r = bind_resource_id b"
    by (auto simp: find_Some_iff)
  then show "(v, a) \<in> set (joined_rows db i)" by (auto simp: joined_rows_def a slot_members)
next
  assume "(v, a) \<in> set (joined_rows db i)"
  then obtain r b where r: "r \<in> set (resources db)" "res_source_id r = i" "res_vmid r = v"
    and b: "b \<in> set (bindings db)" "bind_resource_id b = res_id r" "bind_valid_to b = None"
    and a: "a = \<lparr>ar_resource = r, ar_binding_id = bind_id b, ar_generation = bind_generation b\<rparr>"
    by (auto simp: joined_rows_def)
  from ok b(1) obtain r' where r': "r' \<in> set (resources db)" "res_id r' = bind_resource_id b"
    "res_source_id r' = bind_source_id b" "res_vmid r' = bind_vmid b" by (auto simp: inventory_ok_def)
  from ok have dist: "distinct (map res_id (resources db))"
    "distinct (map (\<lambda>b. (bind_source_id b, bind_vmid b)) (open_bindings (bindings db)))"
    by (auto simp: inventory_ok_def binding_indexes_def)
  have "r' = r" using unique_row[OF dist(1) r'(1) r(1)] r'(2) b(2) by simp
  with r' r have key: "bind_source_id b = i" "bind_vmid b = v" by auto
  have "find (\<lambda>b. bind_valid_to b = None) (snd (slot db i v)) = Some b"
  proof (rule find_unique)
    fix y assume "y \<in> set (snd (slot db i v))" "bind_valid_to y = None"
    with unique_row[OF dist(2), of y b] b key show "y = b" by (simp add: slot_members open_bindings_def)
  qed (use b key in \<open>simp_all add: slot_members\<close>)
  moreover have "find (\<lambda>x. res_id x = bind_resource_id b) (fst (slot db i v)) = Some r"
  proof (rule find_unique)
    fix y assume "y \<in> set (fst (slot db i v))" "res_id y = bind_resource_id b"
    with unique_row[OF dist(1), of y r] r(1) b(2) show "y = r" by (simp add: slot_members)
  qed (use r b(2) in \<open>simp_all add: slot_members\<close>)
  ultimately show "slot_holder (slot db i v) = Some a" by (simp add: slot_holder_def a)
qed

lemma active_rows_holder:
  assumes "inventory_ok db"
  shows "map_of (active_rows db i) v = slot_holder (slot db i v)" "distinct (map fst (active_rows db i))"
proof -
  note j = joined_rows_holder[OF assms, of v _ i]
  show "map_of (active_rows db i) v = slot_holder (slot db i v)"
  proof (cases "map_of (rev (joined_rows db i)) v")
    case None
    then have "v \<notin> fst ` set (joined_rows db i)" by (simp add: map_of_eq_None_iff)
    with j have "\<not> (\<exists>a. slot_holder (slot db i v) = Some a)" by force
    with None show ?thesis by (simp add: active_rows_def py_dict_map)
  next
    case (Some a)
    from map_of_SomeD[OF this] j show ?thesis by (simp add: active_rows_def py_dict_map Some)
  qed
qed (simp add: active_rows_def py_dict_map)

section \<open>The loops\<close>

definition observed_at_slot ::
    "reconcile_uuids \<Rightarrow> discovery_snapshot \<Rightarrow> time \<Rightarrow> (string \<times> uuid) list \<Rightarrow> discovered_resource \<Rightarrow> slot \<Rightarrow> slot" where
  "observed_at_slot u s t ids r x =
     observed_slot u s t r (Option.bind (dv_node r) (map_of ids)) (projr (observed_availability s r)) x"

definition seen_slot ::
    "reconcile_uuids \<Rightarrow> discovery_snapshot \<Rightarrow> time \<Rightarrow> (string \<times> uuid) list \<Rightarrow> discovered_resource list \<Rightarrow> int \<Rightarrow> slot \<Rightarrow> slot" where
  "seen_slot u s t ids rs v x =
     (case find (\<lambda>r. dv_vmid r = v) rs of None \<Rightarrow> x | Some r \<Rightarrow> observed_at_slot u s t ids r x)"

lemma reconcile_resources_slots:
  assumes "inventory_ok db" "distinct (map dv_vmid rs)"
    "\<And>r. r \<in> set rs \<Longrightarrow> map_of active (dv_vmid r) = slot_holder (slot db (snap_source_id s) (dv_vmid r))"
    "reconcile_resources u s t ids active rs counts db = Inr (c, db')"
  shows "inventory_ok db' \<and> (\<forall>i v. slot db' i v = (if i = snap_source_id s then seen_slot u s t ids rs v (slot db i v) else slot db i v))"
  using assms
proof (induction rs arbitrary: db counts)
  case Nil
  then show ?case by (simp add: seen_slot_def)
next
  case (Cons r rs)
  from Cons.prems(4) obtain c1 db1 where st: "reconcile_resource u s t ids active r counts db = Inr (c1, db1)"
    and rest: "reconcile_resources u s t ids active rs c1 db1 = Inr (c, db')"
    by (auto simp: seq_Inr)
  obtain av where av: "observed_availability s r = Inr av" and ok1: "inventory_ok db1"
    and slot1: "\<And>i v. slot db1 i v = (if i = snap_source_id s \<and> v = dv_vmid r
       then observed_slot u s t r (Option.bind (dv_node r) (map_of ids)) av (slot db i v) else slot db i v)"
    by (rule reconcile_resource_slots[OF Cons.prems(1) Cons.prems(3) st]) simp_all
  have other: "dv_vmid x \<noteq> dv_vmid r" if "x \<in> set rs" for x
    using Cons.prems(2) that by (auto simp: image_iff)
  with Cons.IH[OF ok1 _ _ rest] Cons.prems(2,3) have ih: "inventory_ok db'"
    "\<And>i v. slot db' i v = (if i = snap_source_id s then seen_slot u s t ids rs v (slot db1 i v) else slot db1 i v)"
    by (auto simp: slot1)
  have "find (\<lambda>x. dv_vmid x = dv_vmid r) rs = None" using other by (simp add: find_None_iff)
  with ih(1) show ?case by (auto simp: ih(2) slot1 seen_slot_def observed_at_slot_def av)
qed

lemma mark_missing_slots:
  assumes "inventory_ok db" "distinct (map fst rows)"
    "\<And>v a. (v, a) \<in> set rows \<Longrightarrow> v \<notin> set observed \<Longrightarrow> slot_holder (slot db i v) = Some a"
    "mark_missing t observed rows counts db = Inr (c, db')"
  shows "inventory_ok db' \<and> (\<forall>j v. slot db' j v =
    (if j = i \<and> v \<in> fst ` set rows \<and> v \<notin> set observed then absent_slot t (slot db j v) else slot db j v))"
  using assms
proof (induction t observed rows counts arbitrary: db rule: mark_missing.induct)
  case (2 t observed v a rest counts)
  show ?case
  proof (cases "v \<in> set observed \<or> res_presence (ar_resource a) = ''missing''")
    case True
    with "2.prems" have "mark_missing t observed rest counts db = Inr (c, db')" by auto
    from "2.IH"(1)[OF True "2.prems"(1) _ _ this] "2.prems"(2,3) have ih: "inventory_ok db'"
      "\<And>j w. slot db' j w = (if j = i \<and> w \<in> fst ` set rest \<and> w \<notin> set observed then absent_slot t (slot db j w) else slot db j w)"
      by auto
    from True "2.prems"(3)[of v a] have "v \<notin> set observed \<Longrightarrow> absent_slot t (slot db i v) = slot db i v"
      by (auto simp: absent_slot_def)
    with ih(1) show ?thesis by (auto simp: ih(2))
  next
    case False
    with "2.prems"(4) obtain db1 where up: "update_resource (res_id (ar_resource a))
        (missing_resource (last_known_node (ar_resource a)) t) db = Inr db1"
      and rest: "mark_missing t observed rest (counts\<lparr>missing_resources := missing_resources counts + 1\<rparr>) db1 = Inr (c, db')"
      by (auto simp: body_iffs)
    from False "2.prems"(3)[of v a] have h: "slot_holder (slot db i v) = Some a" by simp
    have slot1: "slot db1 j w = (if j = i \<and> w = v then absent_slot t (slot db j w) else slot db j w)" for j w
      using holder_elsewhere(1)[OF "2.prems"(1) h, of j w] h False
      by (auto simp: slot_update_resource[OF up] absent_slot_def update_holder_def)
    have new: "v \<notin> fst ` set rest" "distinct (map fst rest)" using "2.prems"(2) by auto
    have "slot_holder (slot db1 i w) = Some y" if "(w, y) \<in> set rest" "w \<notin> set observed" for w y
    proof -
      from that(1) new(1) have "w \<noteq> v" by force
      with "2.prems"(3)[of w y] that show ?thesis by (simp add: slot1)
    qed
    from "2.IH"(2)[OF False inventory_update_resource[OF up "2.prems"(1)] new(2) this rest] new(1) False
    show ?thesis by (auto simp: slot1)
  qed
qed simp

end
