(* ===== verification/Inventory_Continuity.thy ===== *)
theory Inventory_Continuity
  imports Inventory_Slots
begin

text \<open>
  The whole reconciler on slots, and the continuity of resources along every run of the backend: a
  resource keeps its identity, its continuity revision never decreases, a resource that stopped being
  active never becomes active again, and a closed binding stays as it was closed.
\<close>

section \<open>The reconciler\<close>

definition reconciled_slot ::
    "reconcile_uuids \<Rightarrow> discovery_snapshot \<Rightarrow> time \<Rightarrow> (string \<times> uuid) list \<Rightarrow> int \<Rightarrow> slot \<Rightarrow> slot" where
  "reconciled_slot u s t ids v x =
     (case find (\<lambda>r. dv_vmid r = v) (snap_resources s) of
        None \<Rightarrow> absent_slot t x
      | Some r \<Rightarrow> observed_at_slot u s t ids r x)"

text \<open>The identity each node name of the snapshot resolves to.\<close>

definition snapshot_node_ids :: "reconcile_uuids \<Rightarrow> discovery_snapshot \<Rightarrow> authority_db \<Rightarrow> (string \<times> uuid) list" where
  "snapshot_node_ids u s db =
     map (\<lambda>n. (dn_name n, chosen_node_id u (existing_nodes db (snap_source_id s)) (dn_name n))) (snap_nodes s)"

definition places_same :: "authority_db \<Rightarrow> authority_db \<Rightarrow> bool" where
  "places_same db db' \<longleftrightarrow> resources db' = resources db \<and> bindings db' = bindings db"

lemma places_same_slot: "places_same db db' \<Longrightarrow> slot db' i v = slot db i v"
  by (simp add: places_same_def slot_def)

lemma places_same_ok: "places_same db db' \<Longrightarrow> inventory_ok db \<Longrightarrow> inventory_ok db'"
  by (simp add: places_same_def inventory_ok_def)

lemma executemany_places:
  "executemany upsert_node rows db = Inr db' \<Longrightarrow> places_same db db'"
  by (induction rows arbitrary: db)
     (auto simp: result_iffs upsert_node_def Let_def places_same_def split: if_splits)

lemma reconcile_nodes_places:
  assumes "reconcile_nodes u s t db = Inr (ids, db')"
  shows "places_same db db'" "ids = snapshot_node_ids u s db"
  using assms executemany_places
  by (fastforce simp: reconcile_nodes_def Let_def body_iffs mark_nodes_unavailable_def places_same_def snapshot_node_ids_def)+

lemma write_facts_places: "write_source_facts i facts db = Inr (x, db') \<Longrightarrow> places_same db db'"
  by (auto simp: write_source_facts_def commit_Inr result_iffs update_sources_def places_same_def)

lemma reconcile_slots:
  assumes ok: "inventory_ok db" and dist: "distinct (map dv_vmid (snap_resources s))"
    and run: "reconcile u s t db = Inr (summary, db')"
  shows "inventory_ok db'"
    "slot db' i v = (if i = snap_source_id s then reconciled_slot u s t (snapshot_node_ids u s db) v (slot db i v) else slot db i v)"
proof -
  let ?src = "snap_source_id s" and ?rs = "snap_resources s"
  let ?obs = "map dv_vmid ?rs"
  from run obtain ids db1 db2 db3 counts where nodes: "reconcile_nodes u s t db = Inr (ids, db1)"
    and facts: "write_source_facts ?src (snap_source_facts s) db1 = Inr ((), db2)"
    and loop: "reconcile_resources u s t ids (active_rows db2 ?src) ?rs no_changes db2 = Inr (counts, db3)"
    and miss: "mark_missing t ?obs (active_rows db2 ?src) counts db3 = Inr (summary, db')"
    unfolding reconcile_def need_Inr seq_Inr andthen_Inr fetch_Inr by blast
  from reconcile_nodes_places[OF nodes] write_facts_places[OF facts]
  have same: "places_same db db2" and ids: "ids = snapshot_node_ids u s db" by (auto simp: places_same_def)
  note ok2 = places_same_ok[OF same ok]
  note act = active_rows_holder[OF ok2, of ?src]
  from reconcile_resources_slots[OF ok2 dist act(1) loop] have ok3: "inventory_ok db3"
    and slot3: "\<And>i v. slot db3 i v = (if i = ?src then seen_slot u s t ids ?rs v (slot db2 i v) else slot db2 i v)" by blast+
  have unseen: "seen_slot u s t ids ?rs v x = x" if "v \<notin> set ?obs" for v x
    using that by (auto simp: seen_slot_def find_None_iff split: option.splits dest!: find_Some_iff[THEN iffD1])
  have "slot_holder (slot db3 ?src v) = Some a" if "(v, a) \<in> set (active_rows db2 ?src)" "v \<notin> set ?obs" for v a
    using map_of_is_SomeI[OF act(2) that(1)] act(1)[of v] unseen[OF that(2)] by (simp add: slot3)
  from mark_missing_slots[OF ok3 act(2) this miss] have fin: "inventory_ok db'"
    "\<And>i v. slot db' i v = (if i = ?src \<and> v \<in> fst ` set (active_rows db2 ?src) \<and> v \<notin> set ?obs
       then absent_slot t (slot db3 i v) else slot db3 i v)" by blast+
  have idle: "absent_slot t (slot db2 ?src v) = slot db2 ?src v" if "v \<notin> fst ` set (active_rows db2 ?src)"
    using act(1)[of v] that by (auto simp: absent_slot_def map_of_eq_None_iff[THEN iffD2] split: option.splits)
  show "inventory_ok db'" by (rule fin(1))
  show "slot db' i v = (if i = ?src then reconciled_slot u s t (snapshot_node_ids u s db) v (slot db i v) else slot db i v)"
  proof (cases "v \<in> set ?obs")
    case True
    then obtain r where "find (\<lambda>r. dv_vmid r = v) ?rs = Some r"
      by (cases "find (\<lambda>r. dv_vmid r = v) ?rs") (auto simp: find_None_iff)
    with True show ?thesis
      by (auto simp: fin(2) slot3 places_same_slot[OF same] reconciled_slot_def seen_slot_def ids)
  next
    case False
    then have "find (\<lambda>r. dv_vmid r = v) ?rs = None" by (auto simp: find_None_iff)
    with False idle show ?thesis
      by (auto simp: fin(2) slot3 unseen places_same_slot[OF same] reconciled_slot_def)
  qed
qed

section \<open>Continuity of a slot\<close>

definition resource_continues :: "resource_incarnation \<Rightarrow> resource_incarnation \<Rightarrow> bool" where
  "resource_continues r r' \<longleftrightarrow>
     resource_identity_kept r r' \<and> res_continuity_revision r \<le> res_continuity_revision r'
     \<and> (res_lifecycle r \<noteq> ''active'' \<longrightarrow> res_lifecycle r' \<noteq> ''active'')"

definition binding_continues :: "locator_binding \<Rightarrow> locator_binding \<Rightarrow> bool" where
  "binding_continues b b' \<longleftrightarrow> b' = b \<or>
     bind_valid_to b = None \<and> bind_id b' = bind_id b \<and> bind_source_id b' = bind_source_id b
     \<and> bind_vmid b' = bind_vmid b \<and> bind_generation b' = bind_generation b \<and> bind_resource_id b' = bind_resource_id b"

definition slot_continues :: "slot \<Rightarrow> slot \<Rightarrow> bool" where
  "slot_continues x y \<longleftrightarrow>
     (\<forall>r \<in> set (fst x). \<exists>r' \<in> set (fst y). resource_continues r r')
     \<and> (\<forall>b \<in> set (snd x). \<exists>b' \<in> set (snd y). binding_continues b b')"

lemma resource_continues_refl [simp]: "resource_continues r r"
  by (simp add: resource_continues_def resource_identity_kept_def)

lemma binding_continues_refl [simp]: "binding_continues b b"
  by (simp add: binding_continues_def)

lemma slot_continues_refl: "slot_continues x x"
  unfolding slot_continues_def by (meson resource_continues_refl binding_continues_refl)

lemma slot_continues_append: "slot_continues x y \<Longrightarrow> slot_continues x (fst y @ rs, snd y @ bs)"
  by (auto simp: slot_continues_def)

lemma update_holder_continues:
  assumes "distinct (map res_id (fst x))" "slot_holder x = Some a" "resource_continues (ar_resource a) (f (ar_resource a))"
  shows "slot_continues x (update_holder a f x)"
proof -
  note mem = slot_holder_Some(1)[OF assms(2)]
  have "\<exists>r' \<in> set (rows_update (\<lambda>r. res_id r = res_id (ar_resource a)) f (fst x)). resource_continues r r'" if "r \<in> set (fst x)" for r
    using rows_update_mem[OF that, of "\<lambda>r. res_id r = res_id (ar_resource a)" f] unique_row[OF assms(1) that mem] assms(3)
    by (intro bexI[of _ "if res_id r = res_id (ar_resource a) then f r else r"]) auto
  moreover have "\<forall>b \<in> set (snd x). \<exists>b' \<in> set (snd x). binding_continues b b'"
    by (meson binding_continues_refl)
  ultimately show ?thesis by (simp add: slot_continues_def update_holder_def)
qed

lemma close_holder_continues: "slot_continues x y \<Longrightarrow> snd y = snd x \<Longrightarrow> slot_continues x (close_holder a q y)"
proof -
  assume cont: "slot_continues x y" and same: "snd y = snd x"
  let ?w = "\<lambda>b. bind_id b = ar_binding_id a \<and> bind_valid_to b = None"
  let ?s = "\<lambda>b. b\<lparr>bind_valid_to := Some q, bind_closure_reason := Some ''replaced''\<rparr>"
  have "\<exists>b' \<in> set (rows_update ?w ?s (snd x)). binding_continues b b'" if "b \<in> set (snd x)" for b
    using rows_update_mem[OF that, of ?w ?s]
    by (intro bexI[of _ "if ?w b then ?s b else b"]) (auto simp: binding_continues_def)
  with cont same show ?thesis by (auto simp: slot_continues_def close_holder_def)
qed

lemma reconciled_slot_continues:
  assumes "distinct (map res_id (fst x))"
  shows "slot_continues x (reconciled_slot u s t ids v x)"
proof -
  note upd = update_holder_continues[OF assms]
  have "slot_continues x (absent_slot t x)"
    using upd by (auto simp: absent_slot_def slot_continues_refl missing_resource_def resource_continues_def
        resource_identity_kept_def split: option.splits)
  moreover have "slot_continues x (observed_slot u s t r node av x)" for r node av
  proof (cases "slot_holder x")
    case None
    then show ?thesis using slot_continues_append[OF slot_continues_refl] by (simp add: observed_slot_def Let_def)
  next
    case (Some a)
    have "slot_continues x (update_holder a (refreshed_resource (ar_resource a) r node av t) x)"
      by (rule upd[OF Some]) (auto simp: refreshed_resource_def Let_def resource_continues_def resource_identity_kept_def)
    moreover have "slot_continues x (close_holder a (snap_sequence s)
        (update_holder a (retired_resource (last_known_node (ar_resource a)) k t) x))" for k
      by (rule close_holder_continues[OF upd[OF Some]])
         (auto simp: retired_resource_def resource_continues_def resource_identity_kept_def update_holder_def)
    ultimately show ?thesis using Some slot_continues_append by (auto simp: observed_slot_def Let_def)
  qed
  ultimately show ?thesis by (auto simp: reconciled_slot_def observed_at_slot_def split: option.splits)
qed

section \<open>Continuity of the inventory\<close>

definition continuity :: "authority_db \<Rightarrow> authority_db \<Rightarrow> bool" where
  "continuity db db' \<longleftrightarrow> (inventory_ok db \<longrightarrow>
     inventory_ok db'
     \<and> (\<forall>r \<in> set (resources db). \<exists>r' \<in> set (resources db'). resource_continues r r')
     \<and> (\<forall>b \<in> set (bindings db). \<exists>b' \<in> set (bindings db'). binding_continues b b'))"

lemma resource_continues_trans: "resource_continues a b \<Longrightarrow> resource_continues b c \<Longrightarrow> resource_continues a c"
  by (auto simp: resource_continues_def resource_identity_kept_def)

lemma binding_continues_trans: "binding_continues a b \<Longrightarrow> binding_continues b c \<Longrightarrow> binding_continues a c"
  by (auto simp: binding_continues_def)

lemma continuity_trans:
  assumes "continuity a b" "continuity b c"
  shows "continuity a c"
  using assms unfolding continuity_def by (meson resource_continues_trans binding_continues_trans)

lemma places_same_continuity: "places_same db db' \<Longrightarrow> continuity db db'"
  unfolding continuity_def places_same_def inventory_ok_def
  by (metis resource_continues_refl binding_continues_refl)

lemma continuity_refl: "continuity db db"
  by (rule places_same_continuity) (simp add: places_same_def)

text \<open>Every row lies in the slot of its own source and VMID.\<close>

lemma slots_continuity:
  assumes "inventory_ok db'" "\<And>i v. slot_continues (slot db i v) (slot db' i v)"
  shows "continuity db db'"
proof -
  have "\<exists>r' \<in> set (resources db'). resource_continues r r'" if "r \<in> set (resources db)" for r
    using assms(2)[of "res_source_id r" "res_vmid r"] that by (force simp: slot_continues_def slot_members)
  moreover have "\<exists>b' \<in> set (bindings db'). binding_continues b b'" if "b \<in> set (bindings db)" for b
    using assms(2)[of "bind_source_id b" "bind_vmid b"] that by (force simp: slot_continues_def slot_members)
  ultimately show ?thesis using assms(1) by (simp add: continuity_def)
qed

lemma reconcile_continuity:
  assumes "distinct (map dv_vmid (snap_resources s))" "reconcile u s t db = Inr (y, db')"
  shows "continuity db db'"
proof (cases "inventory_ok db")
  case True
  note slots = reconcile_slots[OF True assms]
  have "distinct (map res_id (fst (slot db i v)))" for i v
    using True by (simp add: slot_def inventory_ok_def distinct_map_filter)
  then show ?thesis
    by (intro slots_continuity slots(1)) (simp add: slots(2) slot_continues_refl reconciled_slot_continues)
qed (simp add: continuity_def)

lemma inventory_same_continuity: "inventory_same db db' \<Longrightarrow> continuity db db'"
  by (rule places_same_continuity) (simp add: inventory_same_def places_same_def)

interpretation resource_continuity: discovery_relation continuity
proof
  show "continuity a c" if "continuity a b" "continuity b c" for a b c using that by (rule continuity_trans)
  show "continuity db db'" if "distinct (map dv_vmid (snap_resources s))" "reconcile u s t db = Inr (y, db')" for s u t db y db'
    using that by (rule reconcile_continuity)
  show "continuity db db'" if "provision_default_health_contracts t db = Inr (k, db')" for t db k db'
    by (rule inventory_same_continuity, rule steadyD[OF inventory_catalog.steady_provision that])
qed (auto intro!: places_same_continuity simp: places_same_def discovery_writes bump_global_revisions_def write_expiry_def
   Let_def result_iffs split: if_splits)

lemma backend_continuity:
  assumes "backend_step\<^sup>*\<^sup>* s s'" "store_ok (fst s)"
  shows "continuity (fst s) (fst s')"
proof (rule backend_run_keeps[OF assms])
  show "continuity db db'" if "operation_step (db, f, h) (db', f', h')" "store_ok db"
    for db db' f f' and h h' :: 'a
    by (rule inventory_same_continuity) (use job_frame.operation_keeps[OF that] in \<open>simp add: outside_jobs_same_def\<close>)
qed (auto intro: continuity_refl continuity_trans resource_continuity.inventory_keeps inventory_same_continuity
   inventory_catalog.catalog_keeps)

end
