(* ===== verification/Discovery_Properties.thy ===== *)
theory Discovery_Properties
  imports Inventory_Continuity Demo_Fixture
begin

text \<open>
  The properties of discovery: which run owns a source, what the reconciler does to the inventory, what
  a lost continuity means for good, and what an accepted snapshot establishes.
\<close>

section \<open>Contexts and continuity\<close>

text \<open>What makes a recorded context out of date.\<close>

definition continuity_lost :: "authority_db \<Rightarrow> scan_context \<Rightarrow> bool" where
  "continuity_lost db c \<longleftrightarrow>
     (\<exists>r \<in> set (resources db). res_id r = cx_resource_id c
        \<and> (res_lifecycle r \<noteq> ''active'' \<or> cx_expected_resource_continuity_revision c < res_continuity_revision r))
     \<or> (\<exists>b \<in> set (bindings db). bind_id b = cx_expected_binding_id c \<and> bind_valid_to b \<noteq> None)"

lemma continuity_keeps_lost:
  assumes "continuity db db'" "inventory_ok db" "continuity_lost db c"
  shows "continuity_lost db' c"
proof -
  have "\<exists>r' \<in> set (resources db'). res_id r' = cx_resource_id c
      \<and> (res_lifecycle r' \<noteq> ''active'' \<or> cx_expected_resource_continuity_revision c < res_continuity_revision r')"
    if "r \<in> set (resources db)" "res_id r = cx_resource_id c"
      "res_lifecycle r \<noteq> ''active'' \<or> cx_expected_resource_continuity_revision c < res_continuity_revision r" for r
  proof -
    from assms(1,2) that(1) obtain r' where "r' \<in> set (resources db')" "resource_continues r r'"
      by (auto simp: continuity_def)
    with that(2,3) show ?thesis
      by (intro bexI[of _ r']) (auto simp: resource_continues_def resource_identity_kept_def)
  qed
  moreover have "b \<in> set (bindings db')" if "b \<in> set (bindings db)" "bind_valid_to b \<noteq> None" for b
    using assms(1,2) that by (auto simp: continuity_def binding_continues_def)
  ultimately show ?thesis using assms(3) unfolding continuity_lost_def by blast
qed

lemma lost_target:
  assumes "inventory_ok db" "continuity_lost db c" "resource_target_of db (cx_resource_id c) = Some t"
    "tg_binding t = Some b" "bind_id b = cx_expected_binding_id c"
  shows "res_lifecycle (tg_resource t) \<noteq> ''active'' \<or> res_continuity_revision (tg_resource t) \<noteq> cx_expected_resource_continuity_revision c"
proof -
  from assms(1) have dist: "distinct (map res_id (resources db))" "distinct (map bind_id (bindings db))"
    by (auto simp: inventory_ok_def binding_indexes_def)
  from assms(3) obtain r where row: "row_by res_id (cx_resource_id c) (resources db) = Some r" and t: "tg_resource t = r"
    and tb: "tg_binding t = find (\<lambda>b. bind_resource_id b = cx_resource_id c \<and> bind_valid_to b = None) (bindings db)"
    by (auto simp: resource_target_of_def split: option.splits)
  from assms(4) tb have b: "b \<in> set (bindings db)" "bind_valid_to b = None"
    by (auto simp: find_Some_iff)
  have same: "y = r" if "y \<in> set (resources db)" "res_id y = cx_resource_id c" for y
    using unique_row[OF dist(1) that(1), of r] row_by_Some_key[OF row] that(2) by simp
  have "bind_valid_to x = None" if "x \<in> set (bindings db)" "bind_id x = cx_expected_binding_id c" for x
    using unique_row[OF dist(2) that(1) b(1)] that(2) assms(5) b(2) by simp
  then have "\<not> (\<exists>x \<in> set (bindings db). bind_id x = cx_expected_binding_id c \<and> bind_valid_to x \<noteq> None)" by auto
  with assms(2) obtain y where y: "y \<in> set (resources db)" "res_id y = cx_resource_id c"
    "res_lifecycle y \<noteq> ''active'' \<or> cx_expected_resource_continuity_revision c < res_continuity_revision y"
    unfolding continuity_lost_def by blast
  from same[OF y(1,2)] y(3) t show ?thesis by auto
qed

lemma current_target:
  assumes "post_mutation_job_context_is_current db c \<or> package_scan_context_is_current db c"
  obtains t b where "resource_target_of db (cx_resource_id c) = Some t" "tg_binding t = Some b"
    "bind_id b = cx_expected_binding_id c" "res_lifecycle (tg_resource t) = ''active''"
    "res_continuity_revision (tg_resource t) = cx_expected_resource_continuity_revision c"
proof -
  from assms obtain t where t: "resource_target_of db (cx_resource_id c) = Some t"
    unfolding post_mutation_job_context_is_current_def package_scan_context_is_current_def
    by (cases "resource_target_of db (cx_resource_id c)") simp_all
  with assms obtain b where b: "tg_binding t = Some b"
    unfolding post_mutation_job_context_is_current_def package_scan_context_is_current_def by (cases "tg_binding t") simp_all
  from assms t b show thesis
    unfolding post_mutation_job_context_is_current_def package_scan_context_is_current_def
    by (cases "tg_node t") (simp, fastforce intro: that)
qed

lemma lost_context:
  assumes "inventory_ok db" "continuity_lost db c"
  shows "\<not> (post_mutation_job_context_is_current db c \<or> package_scan_context_is_current db c)"
proof
  assume "post_mutation_job_context_is_current db c \<or> package_scan_context_is_current db c"
  then obtain t b where "resource_target_of db (cx_resource_id c) = Some t" "tg_binding t = Some b"
    "bind_id b = cx_expected_binding_id c" "res_lifecycle (tg_resource t) = ''active''"
    "res_continuity_revision (tg_resource t) = cx_expected_resource_continuity_revision c" by (rule current_target)
  with lost_target[OF assms this(1-3)] show False by simp
qed

section \<open>A source has one owner\<close>

lemma owned_single:
  assumes "owned ss rs" "r \<in> set rs" "q \<in> set rs" "nonterminal_run r" "nonterminal_run q" "rsource r = rsource q"
  shows "r = q"
proof -
  from assms obtain x y where x: "x \<in> set ss" "src_id x = rsource r" "src_active_discovery_run_id x = Some (rid r)"
    and y: "y \<in> set ss" "src_id y = rsource q" "src_active_discovery_run_id y = Some (rid q)"
    unfolding owned_def by metis
  from assms(1) have dist: "distinct (map src_id ss)" "distinct (map rid rs)"
    by (auto simp: owned_def run_indexes_def comp_def)
  from unique_row[OF dist(1) x(1) y(1)] x y assms(6) have "rid r = rid q" by simp
  from unique_row[OF dist(2) assms(2,3) this] show ?thesis .
qed

section \<open>Counting\<close>

definition observations_counted :: "reconciliation_summary \<Rightarrow> nat" where
  "observations_counted c = created_resources c + updated_resources c + replacements c"

lemma reconcile_resources_counts:
  "reconcile_resources u s t ids active rs counts db = Inr (c, db') \<Longrightarrow>
     observations_counted c = observations_counted counts + length rs \<and> missing_resources c = missing_resources counts"
proof (induction rs arbitrary: counts db)
  case (Cons r rs)
  from Cons.prems obtain c1 db1 where one: "reconcile_resource u s t ids active r counts db = Inr (c1, db1)"
    and rest: "reconcile_resources u s t ids active rs c1 db1 = Inr (c, db')" by (auto simp: seq_Inr)
  from one have "observations_counted c1 = observations_counted counts + 1 \<and> missing_resources c1 = missing_resources counts"
    by (auto simp: reconcile_resource_def Let_def body_iffs observations_counted_def split: option.splits if_splits)
  with Cons.IH[OF rest] show ?case by simp
qed (simp add: ret_def)

lemma mark_missing_counts:
  "mark_missing t observed rows counts db = Inr (c, db') \<Longrightarrow>
     observations_counted c = observations_counted counts
     \<and> missing_resources c = missing_resources counts
         + length (filter (\<lambda>(v, a). v \<notin> set observed \<and> res_presence (ar_resource a) \<noteq> ''missing'') rows)"
proof (induction t observed rows counts arbitrary: db rule: mark_missing.induct)
  case (2 t observed vmid old rest counts)
  show ?case
  proof (cases "vmid \<in> set observed \<or> res_presence (ar_resource old) = ''missing''")
    case True
    with 2 show ?thesis by auto
  next
    case False
    with "2.prems" obtain db1 where "mark_missing t observed rest (counts\<lparr>missing_resources := missing_resources counts + 1\<rparr>) db1 = Inr (c, db')"
      by (auto simp: body_iffs)
    from "2.IH"(2)[OF False this] False show ?thesis by (simp add: observations_counted_def)
  qed
qed (simp add: ret_def)

section \<open>The properties\<close>

text \<open>
  C35. Along every run of the backend a source is owned by at most one discovery run, the one that is not
  terminal, and by that run exactly while it is not; a run keeps the context it was issued with and is
  never changed once terminal; the sequence numbers issued and committed for a source never decrease, and
  only an issued number is committed.
\<close>

theorem discovery_runs_own_their_source:
  assumes "backend_step\<^sup>*\<^sup>* s s'" "store_ok (fst s)" "run_ownership (fst s)"
  shows "run_ownership (fst s')
    \<and> (\<forall>r \<in> set (discovery_runs (fst s)). \<exists>r' \<in> set (discovery_runs (fst s')).
         run_iss r' = run_iss r \<and> (nonterminal_run r \<or> r' = r))
    \<and> (\<forall>x \<in> set (sources (fst s)). \<exists>y \<in> set (sources (fst s')). source_advances x y)
    \<and> (\<forall>r \<in> set (discovery_runs (fst s')). \<forall>q \<in> set (discovery_runs (fst s')).
         nonterminal_run r \<and> nonterminal_run q \<and> rsource r = rsource q \<longrightarrow> r = q)"
proof -
  note ev = backend_runs_evolve[OF assms(1,2), unfolded runs_evolve_def, THEN mp, OF assms(3)]
  have "\<exists>r' \<in> set (discovery_runs (fst s')). run_iss r' = run_iss r \<and> (nonterminal_run r \<or> r' = r)"
    if "r \<in> set (discovery_runs (fst s))" for r
    using ev that by (auto simp: run_advances_def dest!: bspec)
  moreover have "r = q" if "r \<in> set (discovery_runs (fst s'))" "q \<in> set (discovery_runs (fst s'))"
    "nonterminal_run r" "nonterminal_run q" "rsource r = rsource q" for r q
    using ev that by (blast intro: owned_single dest: run_ownership_def[THEN iffD1])
  ultimately show ?thesis using ev by blast
qed

lemma demo_ownership: "run_ownership (demo_db js)"
  by (simp add: run_ownership_def owned_def demo_db_def demo_run_row_def run_indexes_def nonterminal_run_def)

text \<open>The fixture's source issues its second run, whose owner it becomes.\<close>

theorem discovery_runs_own_their_source_witness:
  "let db = fst (issue_discovery_run (\<lambda>n. 2000) (demo_uuid (CHR ''e'')) (demo_uuid (CHR ''2'')) 1 (demo_db [demo_issued])) in
   run_ownership db \<and> demo_run_row \<in> set (discovery_runs db)"
proof -
  let ?s = "(demo_db [demo_issued], FenceAbsent, ())"
  let ?db = "fst (issue_discovery_run (\<lambda>n. 2000) (demo_uuid (CHR ''e'')) (demo_uuid (CHR ''2'')) 1 (demo_db [demo_issued]))"
  have "backend_step\<^sup>*\<^sup>* ?s (?db, FenceAbsent, ())"
    by (rule r_into_rtranclp, rule inventory_operation, rule inventory_step.issue_run)
  from discovery_runs_own_their_source[OF this] demo_store_ok[OF demo_issued_wf] demo_ownership[of "[demo_issued]"]
  have "run_ownership ?db" "\<forall>r \<in> set (discovery_runs (demo_db [demo_issued])). \<exists>r' \<in> set (discovery_runs ?db).
      run_iss r' = run_iss r \<and> (nonterminal_run r \<or> r' = r)" by simp_all
  then show ?thesis by (simp add: Let_def demo_db_def demo_run_row_def nonterminal_run_def)
qed

text \<open>
  C36. Reconciling a validated snapshot does to each slot of its source exactly what the reference
  definition says of the observation found there, or of its absence, and nothing to any other slot: a first
  observation opens the next generation of the slot, a change of kind retires the holder and opens the
  generation after it, an absence quarantines the holder under a new continuity revision, and everything
  else updates the holder in place. The invariant of the inventory is kept, and every observation is
  counted once as created, updated or replaced.
\<close>

theorem reconciliation_is_exact:
  assumes "inventory_ok db" "normalized_snapshot raw = Inr s" "reconcile u s t db = Inr (summary, db')"
  shows "inventory_ok db'
    \<and> (\<forall>i v. slot db' i v = (if i = snap_source_id s
         then reconciled_slot u s t (snapshot_node_ids u s db) v (slot db i v) else slot db i v))
    \<and> created_resources summary + updated_resources summary + replacements summary = length (snap_resources s)"
proof -
  note slots = reconcile_slots[OF assms(1) normalized_distinct[OF assms(2)] assms(3)]
  from assms(3) have "observations_counted summary = length (snap_resources s)"
    using reconcile_resources_counts mark_missing_counts
    by (fastforce simp: reconcile_def body_iffs no_changes_def observations_counted_def)
  with slots show ?thesis by (simp add: observations_counted_def)
qed

text \<open>A snapshot of the fixture's node in which guest 101 is gone and guest 102 has appeared.\<close>

definition demo_stamp :: stamp where
  "demo_stamp = \<lparr>stamp_text = ''1970-01-01T00:00:00+00:00'', stamp_instant = Some 1500\<rparr>"

definition demo_snapshot :: discovery_snapshot where
  "demo_snapshot = \<lparr>snap_run_id = demo_uuid (CHR ''6''), snap_sequence = 2, snap_source_id = demo_uuid (CHR ''2''),
     snap_expected = demo_run_context, snap_provider_contract_version = 1, snap_observed_at = demo_stamp,
     snap_source_facts = JObj [], snap_availability = SOURCE_AVAILABLE, snap_completeness = BASE_COMPLETE,
     snap_mode = STANDALONE_MODE, snap_topology_hashes = (Some ''t'', Some ''t''), snap_permission_hashes = (Some ''p'', Some ''p''),
     snap_permission_coverage_complete = True, snap_boundary_consistent = True, snap_covered_nodes = [''pve1''],
     snap_failed_baseline_scopes = [],
     snap_detail_summary = [(''ok_count'', JInt 1), (''temporarily_unavailable_count'', JInt 0), (''error_count'', JInt 0)],
     snap_failed_detail_scopes = [],
     snap_nodes = [\<lparr>dn_name = ''pve1'', dn_status = ''online'', dn_available = True, dn_observed_at = demo_stamp, dn_facts = JObj []\<rparr>],
     snap_resources = [\<lparr>dv_source_id = demo_uuid (CHR ''2''), dv_vmid = 102, dv_type = ''qemu'', dv_name = ''db'',
        dv_status = ''running'', dv_node = Some ''pve1'', dv_observed_at = demo_stamp, dv_detail = DETAIL_OK,
        dv_facts = JObj [], dv_evidence = []\<rparr>],
     snap_node_scope = Some \<lparr>scope_mode = STANDALONE_MODE, scope_names = [''pve1'']\<rparr>,
     snap_guest_locators = Some [(102, ''qemu'', ''pve1'')]\<rparr>"

definition demo_uuids :: reconcile_uuids where
  "demo_uuids = \<lparr>fresh_node = (\<lambda>n. demo_uuid (CHR ''7'')), fresh_resource = (\<lambda>v. demo_uuid (CHR ''8'')),
     fresh_binding = (\<lambda>v. demo_uuid (CHR ''9''))\<rparr>"

lemma demo_snapshot_normalized: "normalized_snapshot demo_snapshot = Inr demo_snapshot"
  unfolding demo_snapshot_def demo_uuid_def by code_simp

text \<open>The fixture's inventory alone, with its second discovery run issued.\<close>

definition demo_inventory :: authority_db where
  "demo_inventory = \<lparr>
     backend = \<lparr>be_id = demo_uuid (CHR ''a''), be_inventory_revision = 1, be_published_state_revision = 1, be_published_at = 0\<rparr>,
     sources = [\<lparr>src_id = demo_uuid (CHR ''2''), src_config_revision = 1, src_last_committed_run_sequence = Some 1,
        src_active_discovery_run_id = Some (demo_uuid (CHR ''6'')), src_provider_contract_version = 1,
        src_freshness_duration_seconds = 3600, src_provider_kind = ''proxmox'', src_display_name = ''lab'',
        src_credential_reference = ''secret://lab'', src_created_at = 0, src_last_issued_run_sequence = 2, src_facts = JObj []\<rparr>],
     endpoints = endpoints (demo_db []), source_healths = source_healths (demo_db []), nodes = nodes (demo_db []),
     resources = resources (demo_db []), bindings = bindings (demo_db []),
     scan_runs = [], scan_packages = [], approvals = [], revision_states = [], contracts = [], contract_probes = [],
     jobs = [], job_packages = [], job_probes = [], job_results = [], job_events = [], post_scan_requests = [],
     discovery_runs = [issued_run (demo_uuid (CHR ''6'')) (demo_uuid (CHR ''2'')) 2 1000 demo_run_context 1],
     terminations = [], migrations = []\<rparr>"

lemmas demo_inventory_eq = demo_inventory_def[unfolded demo_db_def, simplified, unfolded demo_uuid_def]

lemma demo_inventory_ok: "inventory_ok demo_inventory"
  unfolding demo_inventory_eq by code_simp

definition demo_summary :: reconciliation_summary where
  "demo_summary = \<lparr>created_resources = 1, updated_resources = 0, missing_resources = 1, replacements = 0\<rparr>"

definition demo_reconciled :: authority_db where
  "demo_reconciled = snd (projr (reconcile demo_uuids demo_snapshot 2000 demo_inventory))"

lemma demo_reconciles: "reconcile demo_uuids demo_snapshot 2000 demo_inventory = Inr (demo_summary, demo_reconciled)"
proof -
  have "map_sum id fst (reconcile demo_uuids demo_snapshot 2000 demo_inventory) = Inr demo_summary"
    unfolding demo_inventory_eq demo_uuids_def demo_snapshot_def demo_uuid_def by code_simp
  then show ?thesis
    by (cases "reconcile demo_uuids demo_snapshot 2000 demo_inventory") (auto simp: demo_reconciled_def)
qed

text \<open>Guest 101 leaves its slot quarantined, and guest 102 is the one observation counted.\<close>

theorem reconciliation_is_exact_witness:
  "inventory_ok demo_reconciled
   \<and> slot demo_reconciled (demo_uuid (CHR ''2'')) 101 = absent_slot 2000 (slot demo_inventory (demo_uuid (CHR ''2'')) 101)
   \<and> slot demo_reconciled (demo_uuid (CHR ''3'')) 101 = slot demo_inventory (demo_uuid (CHR ''3'')) 101"
proof -
  note exact = reconciliation_is_exact[OF demo_inventory_ok demo_snapshot_normalized demo_reconciles]
  from exact have "\<forall>i v. slot demo_reconciled i v = (if i = snap_source_id demo_snapshot then reconciled_slot demo_uuids demo_snapshot 2000
      (snapshot_node_ids demo_uuids demo_snapshot demo_inventory) v (slot demo_inventory i v) else slot demo_inventory i v)" by blast
  moreover have "snap_source_id demo_snapshot = demo_uuid (CHR ''2'')" "find (\<lambda>r. dv_vmid r = 101) (snap_resources demo_snapshot) = None"
    by (simp_all add: demo_snapshot_def)
  ultimately show ?thesis using exact by (simp add: reconciled_slot_def)
qed

text \<open>
  C37. Lost continuity is never regained. Once a resource is not active any more, or its continuity
  revision has moved past the one a scan or a job recorded, or the recorded binding is closed, no later
  state of any run of the backend accepts that recorded context as current, whatever discovery observes
  afterwards: neither for starting or approving a scan nor for the operations of a job after its mutation.
\<close>

theorem lost_continuity_is_permanent:
  assumes "backend_step\<^sup>*\<^sup>* s s'" "store_ok (fst s)" "inventory_ok (fst s)"
    and "(\<exists>r \<in> set (resources (fst s)). res_id r = cx_resource_id c
           \<and> (res_lifecycle r \<noteq> ''active'' \<or> cx_expected_resource_continuity_revision c < res_continuity_revision r))
         \<or> (\<exists>b \<in> set (bindings (fst s)). bind_id b = cx_expected_binding_id c \<and> bind_valid_to b \<noteq> None)"
  shows "\<not> package_scan_context_is_current (fst s') c \<and> \<not> post_mutation_job_context_is_current (fst s') c"
proof -
  note cont = backend_continuity[OF assms(1,2)]
  have "inventory_ok (fst s')" using cont assms(3) by (simp add: continuity_def)
  moreover have "continuity_lost (fst s') c"
    using continuity_keeps_lost[OF cont assms(3)] assms(4) by (simp add: continuity_lost_def)
  ultimately show ?thesis using lost_context by blast
qed

text \<open>The guest that one snapshot missed: the scan of the fixture can never be used again.\<close>

theorem lost_continuity_is_permanent_witness:
  "\<not> package_scan_context_is_current
      (fst (issue_discovery_run (\<lambda>n. 3000) (demo_uuid (CHR ''e'')) (demo_uuid (CHR ''2'')) 1 demo_reconciled)) demo_context"
proof -
  let ?db = "fst (issue_discovery_run (\<lambda>n. 3000) (demo_uuid (CHR ''e'')) (demo_uuid (CHR ''2'')) 1 demo_reconciled)"
  have "backend_step\<^sup>*\<^sup>* (demo_reconciled, FenceAbsent, ()) (?db, FenceAbsent, ())"
    by (rule r_into_rtranclp, rule inventory_operation, rule inventory_step.issue_run)
  moreover have "store_ok demo_reconciled" "inventory_ok demo_reconciled"
    "\<exists>r \<in> set (resources demo_reconciled). res_id r = cx_resource_id demo_context \<and> res_lifecycle r \<noteq> ''active''"
    unfolding demo_reconciled_def demo_inventory_eq demo_uuids_def demo_snapshot_def demo_uuid_def demo_context_def by code_simp+
  ultimately show ?thesis using lost_continuity_is_permanent[of "(demo_reconciled, FenceAbsent, ())" "(?db, FenceAbsent, ())" demo_context]
    by auto
qed

end
