(* ===== verification/Acceptance_Properties.thy ===== *)
theory Acceptance_Properties
  imports Discovery_Properties
begin

text \<open>
  What an accepted snapshot establishes: the source's authority is current exactly within the freshness
  interval of the snapshot's earliest observation; and what a refused one leaves alone.
\<close>

section \<open>What keeps the committed context readable\<close>

definition config_view :: "inventory_source \<Rightarrow> uuid \<times> int" where
  "config_view x = (src_id x, src_config_revision x)"

definition authority_frame :: "authority_db \<Rightarrow> authority_db \<Rightarrow> bool" where
  "authority_frame db db' \<longleftrightarrow>
     endpoints db' = endpoints db \<and> map sh_source_id (source_healths db') = map sh_source_id (source_healths db)
     \<and> map config_view (sources db') = map config_view (sources db)"

lemma map_update_view: "(\<And>x. view (s x) = view x) \<Longrightarrow> map view (rows_update w s rows) = map view rows"
  by (simp add: rows_update_def)

lemma frame_sources:
  assumes "update_sources w s db = Inr (n, db')" "\<And>x. config_view (s x) = config_view x"
  shows "authority_frame db db'"
  using assms by (simp add: update_sources_Inr authority_frame_def map_update_view)

interpretation acceptance_reconcile: reconcile_relation authority_frame
proof
  show "authority_frame db db'" if "update_sources (\<lambda>x. src_id x = i) (\<lambda>x. x\<lparr>src_facts := facts\<rparr>) db = Inr (n, db')"
    for db db' i facts n
    by (rule frame_sources[OF that]) (simp add: config_view_def)
qed (auto simp: authority_frame_def discovery_writes bump_global_revisions_def write_expiry_def map_update_view Let_def result_iffs
   split: if_splits)

interpretation acceptance_catalog: catalog_relation authority_frame
  by unfold_locales (auto simp: authority_frame_def catalog_writes map_update_view Let_def result_iffs)

lemma row_by_view:
  assumes "map view rows' = map view rows" "\<And>x. key x = k' (view x)" "row_by key i rows = Some r"
  shows "\<exists>r'. row_by key i rows' = Some r' \<and> view r' = view r"
  using assms(1,3)
proof (induction rows arbitrary: rows')
  case (Cons x xs)
  then obtain y ys where y: "rows' = y # ys" "view y = view x" "map view ys = map view xs" by (cases rows') auto
  with assms(2) have "key y = key x" by simp
  with Cons y show ?case by (auto simp: row_by_def)
qed (simp add: row_by_def)

lemma frame_source:
  assumes "authority_frame db db'" "row_by src_id i (sources db) = Some r"
  shows "\<exists>r'. row_by src_id i (sources db') = Some r' \<and> src_config_revision r' = src_config_revision r"
proof -
  from row_by_view[of config_view "sources db'" "sources db" src_id fst, OF _ _ assms(2)] assms(1)
  obtain r' where "row_by src_id i (sources db') = Some r'" "config_view r' = config_view r"
    by (auto simp: authority_frame_def config_view_def)
  then show ?thesis by (simp add: config_view_def)
qed

lemma frame_health:
  assumes "authority_frame db db'" "row_by sh_source_id i (source_healths db) = Some h"
  shows "\<exists>h'. row_by sh_source_id i (source_healths db') = Some h'"
  using row_by_view[of sh_source_id "source_healths db'" "source_healths db" sh_source_id id, OF _ _ assms(2)] assms(1)
  by (auto simp: authority_frame_def)

lemma frame_endpoint: "authority_frame db db' \<Longrightarrow> require_active_endpoint_row db' i = require_active_endpoint_row db i"
  by (simp add: authority_frame_def require_active_endpoint_row_def)

section \<open>Acceptance\<close>

lemma accept_parts:
  assumes "accept_snapshot now u i r source endpoint s e db = Inr (x, db')"
  obtains health ref dl db2 db3 db4 where "row_by sh_source_id i (source_healths db) = Some health" "authority_frame db db2"
    "freshness_reference_at s = Inr ref" "freshness_deadline ref (src_freshness_duration_seconds source) = Inr dl"
    "set_source i (\<lambda>x. x\<lparr>src_last_committed_run_sequence := Some (run_sequence (run_iss r))\<rparr>) db2 = Inr ((), db3)"
    "set_health i (healthy_source source endpoint s (run_sequence (run_iss r)) ref dl (freshness_at_commit ref dl (now 0))) db3 = Inr ((), db4)"
    "sources db' = rows_update (\<lambda>x. src_id x = i \<and> src_active_discovery_run_id x = Some (rid r))
       (\<lambda>x. x\<lparr>src_active_discovery_run_id := None\<rparr>) (sources db4)"
    "source_healths db' = source_healths db4" "endpoints db' = endpoints db4"
    "discovery_runs db' = rows_update (\<lambda>q. rid q = rid r \<and> nonterminal_run q)
       (completed_run (now 0) RUN_SUCCESS None e (Some (current_context source endpoint))) (discovery_runs db4)"
    "rows_matched (\<lambda>q. rid q = rid r \<and> nonterminal_run q) (discovery_runs db4) = 1"
proof -
  let ?seq = "run_sequence (run_iss r)"
  from assms obtain health summary n db1 db2 ref dl db3 db4 db5 db6 where
    st: "health_row i db = Inr (health, db)" "reconcile u s (now 0) db = Inr (summary, db1)"
      "provision_default_health_contracts (now 0) db1 = Inr (n, db2)"
      "freshness_reference_at s = Inr ref" "freshness_deadline ref (src_freshness_duration_seconds source) = Inr dl"
      "set_source i (\<lambda>x. x\<lparr>src_last_committed_run_sequence := Some ?seq\<rparr>) db2 = Inr ((), db3)"
      "set_health i (healthy_source source endpoint s ?seq ref dl (freshness_at_commit ref dl (now 0))) db3 = Inr ((), db4)"
      "release_run i (rid r) db4 = Inr ((), db5)"
      "complete_run r (now 0) RUN_SUCCESS None e (Some (current_context source endpoint)) db5 = Inr ((), db6)"
      "publish_inventory (now 1) db6 = Inr ((), db')"
    unfolding accept_snapshot_def Let_def health_row_def seq_Inr fetch_Inr pure_Inr andthen_Inr need_Inr ret_iff by blast
  have "authority_frame db db2"
    using acceptance_reconcile.trans[OF steadyD[OF acceptance_reconcile.steady_reconcile st(2)] steadyD[OF acceptance_catalog.steady_provision st(3)]] .
  moreover have "row_by sh_source_id i (source_healths db) = Some health"
    using st(1) by (auto simp: health_row_def fetch_Inr split: option.splits)
  moreover have "sources db' = rows_update (\<lambda>x. src_id x = i \<and> src_active_discovery_run_id x = Some (rid r))
       (\<lambda>x. x\<lparr>src_active_discovery_run_id := None\<rparr>) (sources db4)"
    "source_healths db' = source_healths db4" "endpoints db' = endpoints db4"
    "discovery_runs db' = rows_update (\<lambda>q. rid q = rid r \<and> nonterminal_run q)
       (completed_run (now 0) RUN_SUCCESS None e (Some (current_context source endpoint))) (discovery_runs db4)"
    "rows_matched (\<lambda>q. rid q = rid r \<and> nonterminal_run q) (discovery_runs db4) = 1"
    using st(8-10) by (auto simp: release_run_def complete_run_def one_row_Inr update_sources_Inr update_runs_Inr
        publish_inventory_def commit_Inr bump_global_revisions_def result_iffs)
  ultimately show thesis using that st(4-7) by blast
qed

lemma healthy_source_id [simp]: "sh_source_id (healthy_source a b s q r d v h) = sh_source_id h"
  by (simp add: healthy_source_def)

lemma fresh_at_commit:
  "fst (freshness_at_commit reference deadline now) = FRESH \<longleftrightarrow> reference \<le> now \<and> now < deadline"
  by (auto simp: freshness_at_commit_def)

lemma rows_matched_mem: "rows_matched w rows = 1 \<Longrightarrow> \<exists>q \<in> set rows. w q"
  by (induction rows) (auto simp: rows_matched_def split: if_splits)

lemma accept_authority:
  assumes src: "row_by src_id i (sources db) = Some source" and ep: "require_active_endpoint_row db i = Inr endpoint"
    and run: "accept_snapshot now u i r source endpoint s e db = Inr (x, db')"
  obtains ref where "freshness_reference_at s = Inr ref"
    "source_has_current_authority db' i = Inr (ref \<le> now 0 \<and> now 0 < ref + src_freshness_duration_seconds source * 1000000)"
    "\<exists>y. row_by src_id i (sources db') = Some y \<and> src_last_committed_run_sequence y = Some (run_sequence (run_iss r))"
    "\<exists>q \<in> set (discovery_runs db'). rid q = rid r \<and> run_lifecycle q = RUN_COMPLETED \<and> run_provider_outcome q = Some RUN_SUCCESS"
proof (rule accept_parts[OF run])
  fix health ref dl db2 db3 db4
  let ?seq = "run_sequence (run_iss r)"
  let ?commit = "\<lambda>x. x\<lparr>src_last_committed_run_sequence := Some ?seq\<rparr>"
  let ?healthy = "healthy_source source endpoint s ?seq ref dl (freshness_at_commit ref dl (now 0))"
  let ?w = "\<lambda>q. rid q = rid r \<and> nonterminal_run q"
  assume h: "row_by sh_source_id i (source_healths db) = Some health" and frame: "authority_frame db db2"
    and ref: "freshness_reference_at s = Inr ref" and dl: "freshness_deadline ref (src_freshness_duration_seconds source) = Inr dl"
    and a: "set_source i ?commit db2 = Inr ((), db3)" and b: "set_health i ?healthy db3 = Inr ((), db4)"
    and fin: "sources db' = rows_update (\<lambda>x. src_id x = i \<and> src_active_discovery_run_id x = Some (rid r))
       (\<lambda>x. x\<lparr>src_active_discovery_run_id := None\<rparr>) (sources db4)"
      "source_healths db' = source_healths db4" "endpoints db' = endpoints db4"
      "discovery_runs db' = rows_update ?w (completed_run (now 0) RUN_SUCCESS None e (Some (current_context source endpoint))) (discovery_runs db4)"
      "rows_matched ?w (discovery_runs db4) = 1"
  from dl have deadline: "dl = ref + src_freshness_duration_seconds source * 1000000"
    by (auto simp: freshness_deadline_def Let_def result_iffs)
  from a b have step: "sources db4 = rows_update (\<lambda>x. src_id x = i) ?commit (sources db2)" "endpoints db4 = endpoints db2"
      "source_healths db4 = rows_update (\<lambda>h. sh_source_id h = i) ?healthy (source_healths db2)"
    by (auto simp: set_source_def set_health_def any_rows_Inr commit_Inr update_sources_Inr update_source_health_def result_iffs)
  from frame_source[OF frame src] obtain y where y: "row_by src_id i (sources db2) = Some y" "src_config_revision y = src_config_revision source"
    by blast
  from frame_health[OF frame h] obtain k where k: "row_by sh_source_id i (source_healths db2) = Some k" by blast
  define z where "z = (let c = ?commit y in
    if src_active_discovery_run_id y = Some (rid r) then c\<lparr>src_active_discovery_run_id := None\<rparr> else c)"
  have z: "row_by src_id i (sources db') = Some z" "src_last_committed_run_sequence z = Some ?seq"
    "src_config_revision z = src_config_revision source"
    using y row_by_Some_key[OF y(1)] by (simp_all add: fin(1) step(1) row_by_rows_update z_def Let_def)
  have health': "row_by sh_source_id i (source_healths db') = Some (?healthy k)"
    using k row_by_Some_key[OF k] by (simp add: fin(2) step(3) row_by_rows_update)
  have "require_active_endpoint_row db' i = Inr endpoint"
    using ep frame_endpoint[OF frame, of i] by (simp add: require_active_endpoint_row_def fin(3) step(2))
  then have "source_has_current_authority db' i = Inr (fst (freshness_at_commit ref dl (now 0)) = FRESH)"
    using z health' by (simp add: source_has_current_authority_def require_source_row_def require_source_health_row_def
        committed_context_is_current_def healthy_source_def)
  moreover from rows_matched_mem[OF fin(5)] obtain q where q: "q \<in> set (discovery_runs db4)" "?w q" by blast
  let ?done = "completed_run (now 0) RUN_SUCCESS None e (Some (current_context source endpoint))"
  have "?done q \<in> set (discovery_runs db')" using rows_update_mem[OF q(1), of ?w ?done] q(2) by (simp add: fin(4))
  moreover have "rid (?done q) = rid r \<and> run_lifecycle (?done q) = RUN_COMPLETED \<and> run_provider_outcome (?done q) = Some RUN_SUCCESS"
    using q(2) by (simp add: completed_run_def)
  ultimately show thesis using z(1,2) by (intro that[OF ref]) (auto simp: fresh_at_commit deadline)
qed

lemma reject_places:
  "reject_changed_context now i r e db = Inr (x, db') \<Longrightarrow> x = None \<and> nodes db' = nodes db \<and> places_same db db'"
  by (auto simp: reject_changed_context_def andthen_Inr release_run_def complete_run_def update_completion_provenance_def one_row_Inr
     update_sources_Inr update_runs_Inr commit_Inr update_source_health_def publish_def bump_global_revisions_def result_iffs places_same_def)

lemma accept_Some: "accept_snapshot now u i r source endpoint s e db = Inr (x, db') \<Longrightarrow> x \<noteq> None"
  by (auto simp: accept_snapshot_def Let_def body_iffs)

section \<open>The property\<close>

text \<open>
  C38. Finalizing a discovery run as successful either accepts its snapshot or changes no node, no resource
  and no binding. When it returns a summary, the run is completed as a success, the source's committed
  sequence is the run's, and the source has current authority afterwards exactly when the clock lies between
  the earliest observation of the snapshot and that observation plus the configured freshness duration;
  a snapshot observed in the future or already expired is committed without authority.
\<close>

theorem accepted_snapshot_is_authoritative:
  assumes "finalize_successful_discovery_run now u i j s db = (db', result)"
  shows "case result of
      Inl e \<Rightarrow> nodes db' = nodes db \<and> resources db' = resources db \<and> bindings db' = bindings db
    | Inr summary \<Rightarrow> (\<exists>source ref. row_by src_id i (sources db) = Some source \<and> freshness_reference_at s = Inr ref
        \<and> source_has_current_authority db' i = Inr (ref \<le> now 0 \<and> now 0 < ref + src_freshness_duration_seconds source * 1000000)
        \<and> (\<exists>y. row_by src_id i (sources db') = Some y \<and> src_last_committed_run_sequence y = Some (snap_sequence s))
        \<and> (\<exists>q \<in> set (discovery_runs db'). rid q = j \<and> run_lifecycle q = RUN_COMPLETED \<and> run_provider_outcome q = Some RUN_SUCCESS))"
proof (cases "bindE (source_and_run i j) (\<lambda>p. bindE (evidence_from_snapshot s) (\<lambda>e. Inr (p, e)))")
  case (Inl e)
  with assms show ?thesis by (auto simp: finalize_successful_discovery_run_def run_op_def precheck_def)
next
  case (Inr x)
  then obtain e where x: "x = ((i, j), e)" by (auto simp: result_iffs source_and_run_def)
  show ?thesis
  proof (cases "finalize_run_body now u s x db")
    case (Inl e)
    with Inr assms show ?thesis
      by (auto simp: finalize_successful_discovery_run_def run_op_def precheck_def transaction_def afterwards_def)
  next
    case ok: (Inr y)
    obtain out db1 where y: "y = (out, db1)" by (cases y)
    with ok Inr assms have db1: "db1 = db'" and result: "result = (case out of
        None \<Rightarrow> Inl (AuthorityConflict ''discovery run context changed; completion audited without reconciliation'')
      | Some summary \<Rightarrow> Inr summary)"
      by (auto simp: finalize_successful_discovery_run_def run_op_def precheck_def transaction_def afterwards_def)
    from ok obtain source r endpoint where src: "row_by src_id i (sources db) = Some source"
      and row: "row_by rid j (discovery_runs db) = Some r" and ep: "require_active_endpoint_row db i = Inr endpoint"
      and seq: "snap_sequence s = run_sequence (run_iss r)"
      and k: "(if run_context_is_current source endpoint r then accept_snapshot now u i r source endpoint s e
          else reject_changed_context now i r e) db = Inr (out, db')"
      unfolding x y db1 finalize_run_body_def prod.case statement_iffs validate_snapshot_issuance_def by blast
    show ?thesis
    proof (cases "run_context_is_current source endpoint r")
      case True
      with k have acc: "accept_snapshot now u i r source endpoint s e db = Inr (out, db')" by simp
      from accept_Some[OF acc] obtain summary where out: "out = Some summary" by blast
      from accept_authority[OF src ep acc] obtain ref where "freshness_reference_at s = Inr ref"
        "source_has_current_authority db' i = Inr (ref \<le> now 0 \<and> now 0 < ref + src_freshness_duration_seconds source * 1000000)"
        "\<exists>y. row_by src_id i (sources db') = Some y \<and> src_last_committed_run_sequence y = Some (run_sequence (run_iss r))"
        "\<exists>q \<in> set (discovery_runs db'). rid q = rid r \<and> run_lifecycle q = RUN_COMPLETED \<and> run_provider_outcome q = Some RUN_SUCCESS"
        by blast
      with src row_by_Some_key[OF row] seq show ?thesis by (simp add: result out)
    next
      case False
      with k reject_places[of now i r e db out db'] show ?thesis by (simp add: result places_same_def)
    qed
  qed
qed

text \<open>The fixture's snapshot is accepted, and its source has current authority.\<close>

definition demo_evidence :: "string \<Rightarrow> completion_evidence" where
  "demo_evidence h = \<lparr>ce_completeness = BASE_COMPLETE, ce_observed_at = Some demo_stamp, ce_availability = Some SOURCE_AVAILABLE,
     ce_mode = Some STANDALONE_MODE, ce_permission_coverage_complete = Some True, ce_boundary_consistent = Some True,
     ce_covered_nodes = Some [''pve1''], ce_failed_baseline_scopes = Some [],
     ce_topology_hashes = (Some ''t'', Some ''t''), ce_permission_hashes = (Some ''p'', Some ''p''), ce_snapshot_hash = Some h,
     ce_detail_counts = (Some 1, Some 0, Some 0), ce_failed_detail_scopes = Some []\<rparr>"

lemma demo_evidence_ok: "evidence_from_snapshot demo_snapshot = Inr (demo_evidence (snapshot_hash demo_snapshot))"
proof -
  have "is_hex_digest 64 (snapshot_hash demo_snapshot)" by (simp add: snapshot_hash_def sha256_hex_digest)
  moreover have "completion_text_tuple (Some [''pve1'']) ''covered_nodes'' True = Inr ()"
    "optional_text (Some ''t'') f = Inr ()" "optional_text (Some ''p'') f = Inr ()" for f
    by (code_simp | simp add: optional_text_def snapshot_text_def)+
  moreover have "optional_text (Some (stamp_text demo_stamp)) f = Inr ()" for f
    by (simp add: optional_text_def snapshot_text_def demo_stamp_def py_isspace_def)
  ultimately show ?thesis
    by (simp add: evidence_from_snapshot_def completion_evidence_check_def demo_evidence_def demo_snapshot_def summary_count_def
        completion_text_tuple_def)
qed

definition demo_run :: discovery_run where
  "demo_run = issued_run (demo_uuid (CHR ''6'')) (demo_uuid (CHR ''2'')) 2 1000 demo_run_context 1"

definition demo_released :: "authority_db result" where
  "demo_released = map_sum id snd
     (seq (provision_default_health_contracts 2000) (\<lambda>n.
      andthen (set_source (demo_uuid (CHR ''2'')) (\<lambda>x. x\<lparr>src_last_committed_run_sequence := Some 2\<rparr>))
     (andthen (set_health (demo_uuid (CHR ''2'')) (healthy_source (hd (sources demo_inventory)) (hd (endpoints demo_inventory)) demo_snapshot 2
          1500 3600001500 (freshness_at_commit 1500 3600001500 2000)))
        (release_run (demo_uuid (CHR ''2'')) (demo_uuid (CHR ''6''))))) demo_reconciled)"

lemma demo_released_ok: "map_sum id (\<lambda>db. (discovery_runs db, list_ex (\<lambda>s. src_active_discovery_run_id s = Some (demo_uuid (CHR ''6''))) (sources db)))
    demo_released = Inr ([demo_run], False)"
  unfolding demo_released_def demo_reconciled_def demo_inventory_eq demo_uuids_def demo_snapshot_def demo_uuid_def demo_stamp_def
    demo_run_def demo_run_context_def
  by code_simp

lemma map_sum_Inr: "map_sum id f x = Inr y \<longleftrightarrow> (\<exists>z. x = Inr z \<and> f z = y)"
  by (cases x) auto

lemma demo_accepts:
  "\<exists>db'. accept_snapshot (\<lambda>n. 2000) demo_uuids (demo_uuid (CHR ''2'')) demo_run (hd (sources demo_inventory)) (hd (endpoints demo_inventory))
     demo_snapshot (demo_evidence h) demo_inventory = Inr (Some demo_summary, db')"
proof -
  let ?i = "demo_uuid (CHR ''2'')" and ?src = "hd (sources demo_inventory)" and ?ep = "hd (endpoints demo_inventory)"
  let ?h = "healthy_source ?src ?ep demo_snapshot 2 1500 3600001500 (freshness_at_commit 1500 3600001500 2000)"
  from demo_released_ok obtain d5 where d5: "demo_released = Inr d5" "discovery_runs d5 = [demo_run]"
    "\<not> list_ex (\<lambda>s. src_active_discovery_run_id s = Some (demo_uuid (CHR ''6''))) (sources d5)" unfolding map_sum_Inr by blast
  from d5(1) obtain n d2 d3 d4 where st: "provision_default_health_contracts 2000 demo_reconciled = Inr (n, d2)"
    "set_source ?i (\<lambda>x. x\<lparr>src_last_committed_run_sequence := Some 2\<rparr>) d2 = Inr ((), d3)" "set_health ?i ?h d3 = Inr ((), d4)"
    "release_run ?i (demo_uuid (CHR ''6'')) d4 = Inr ((), d5)"
    unfolding demo_released_def map_sum_Inr by (auto simp: seq_Inr andthen_Inr)
  let ?done = "completed_run 2000 RUN_SUCCESS None (demo_evidence h) (Some (current_context ?src ?ep))"
  have "run_checks (?done demo_run)" "run_update_triggers d5 demo_run (?done demo_run)"
    using d5(3) by (simp_all add: run_checks_defs success_evidence_check_def evidence_counts_check_def completed_run_def demo_run_def
        demo_evidence_def issued_run_def demo_run_context_def current_context_def demo_inventory_eq context_positive_def
        run_update_triggers_def nonterminal_run_def sql_nonblank_def demo_uuid_def null_or_def)
  then have "complete_run demo_run 2000 RUN_SUCCESS None (demo_evidence h) (Some (current_context ?src ?ep)) d5 =
      Inr ((), d5\<lparr>discovery_runs := [?done demo_run]\<rparr>)"
    using d5(2) by (simp add: complete_run_def one_row_Inr update_runs_Inr rows_update_def rows_matched_def)
      (simp add: demo_run_def issued_run_def nonterminal_run_def)
  moreover have "\<exists>d. publish_inventory 2000 d6 = Inr ((), d)" for d6
    by (simp add: publish_inventory_def commit_Inr bump_global_revisions_def)
  moreover have "freshness_reference_at demo_snapshot = Inr 1500" "freshness_deadline 1500 3600 = Inr 3600001500"
    unfolding demo_snapshot_def demo_stamp_def demo_uuid_def by code_simp+
  moreover have "\<exists>k. health_row ?i demo_inventory = Inr (k, demo_inventory) \<and> sh_last_health_run_sequence k = Some 1"
    "src_freshness_duration_seconds ?src = 3600" "src_last_committed_run_sequence ?src = Some 1" "rid demo_run = demo_uuid (CHR ''6'')"
    "run_sequence (run_iss demo_run) = 2"
    by (simp_all add: health_row_def fetch_def demo_inventory_eq demo_uuid_def row_by_def demo_run_def issued_run_def)
  ultimately show ?thesis using st demo_reconciles unfolding accept_snapshot_def Let_def
    by (fastforce simp: seq_Inr andthen_Inr need_Inr pure_Inr advances_def null_or_def)
qed

lemma demo_finalizes:
  "\<exists>db'. finalize_successful_discovery_run (\<lambda>n. 2000) demo_uuids (demo_uuid (CHR ''2'')) (demo_uuid (CHR ''6'')) demo_snapshot demo_inventory
     = (db', Inr demo_summary)"
proof -
  let ?i = "demo_uuid (CHR ''2'')" and ?j = "demo_uuid (CHR ''6'')" and ?e = "demo_evidence (snapshot_hash demo_snapshot)"
  from demo_accepts[of "snapshot_hash demo_snapshot"] obtain db' where acc: "accept_snapshot (\<lambda>n. 2000) demo_uuids ?i demo_run
     (hd (sources demo_inventory)) (hd (endpoints demo_inventory)) demo_snapshot ?e demo_inventory = Inr (Some demo_summary, db')" by blast
  have "source_row ?i demo_inventory = Inr (hd (sources demo_inventory), demo_inventory)"
    "run_row ?j demo_inventory = Inr (demo_run, demo_inventory)"
    "endpoint_row ?i demo_inventory = Inr (hd (endpoints demo_inventory), demo_inventory)"
    "src_active_discovery_run_id (hd (sources demo_inventory)) = Some ?j" "rsource demo_run = ?i" "nonterminal_run demo_run"
    "run_context_is_current (hd (sources demo_inventory)) (hd (endpoints demo_inventory)) demo_run"
    "snap_run_id demo_snapshot = rid demo_run \<and> snap_source_id demo_snapshot = rsource demo_run
       \<and> snap_sequence demo_snapshot = run_sequence (run_iss demo_run) \<and> snap_expected demo_snapshot = run_expected (run_iss demo_run)
       \<and> snap_provider_contract_version demo_snapshot = run_provider_contract_version (run_iss demo_run)
       \<and> snap_completeness demo_snapshot = BASE_COMPLETE"
    unfolding demo_inventory_eq demo_snapshot_def demo_run_def demo_run_context_def demo_uuid_def by code_simp+
  with acc have "finalize_run_body (\<lambda>n. 2000) demo_uuids demo_snapshot ((?i, ?j), ?e) demo_inventory = Inr (Some demo_summary, db')"
    by (simp add: finalize_run_body_def seq_Inr need_Inr require_exact_run_owner_def require_nonterminal_run_def
        validate_snapshot_issuance_def)
  then show ?thesis by (simp add: finalize_successful_discovery_run_def run_op_def precheck_def transaction_def afterwards_def
      source_and_run_def demo_evidence_ok require_uuid_def)
qed

theorem accepted_snapshot_is_authoritative_witness:
  "source_has_current_authority (fst (finalize_successful_discovery_run (\<lambda>n. 2000) demo_uuids (demo_uuid (CHR ''2'')) (demo_uuid (CHR ''6''))
     demo_snapshot demo_inventory)) (demo_uuid (CHR ''2'')) = Inr True"
proof -
  from demo_finalizes obtain db' where run: "finalize_successful_discovery_run (\<lambda>n. 2000) demo_uuids (demo_uuid (CHR ''2''))
     (demo_uuid (CHR ''6'')) demo_snapshot demo_inventory = (db', Inr demo_summary)" by blast
  have "freshness_reference_at demo_snapshot = Inr 1500"
    unfolding demo_snapshot_def demo_stamp_def demo_uuid_def by code_simp
  moreover have "row_by src_id (demo_uuid (CHR ''2'')) (sources demo_inventory) = Some (hd (sources demo_inventory))"
    "src_freshness_duration_seconds (hd (sources demo_inventory)) = 3600"
    by (simp_all add: demo_inventory_eq demo_uuid_def row_by_def)
  ultimately show ?thesis using accepted_snapshot_is_authoritative[OF run] run by auto
qed

end
