(* ===== verification/Spec2Isabelle.thy ===== *)
theory Spec2Isabelle
  imports Host_Properties Guard_Properties Catalog_Properties Issuance_Properties Verdict_Properties Acceptance_Properties
begin

text \<open>
  A verification library for the job authority of \<open>hubinet-ops\<close>: the part of the backend
  (\<open>src/app/inventory\<close>) that decides whether a package update of an LXC guest may be issued,
  snapshotted, mutated, health-checked, rolled back or released, and that records every decision in
  one SQLite database.

  \<^bold>\<open>The program.\<close> \<open>InventoryAuthority\<close> (authority.py) owns the database (store.py) and exposes one
  method per decision. A worker outside the authority calls the methods and the host-control helpers
  in turn. The safety argument of the program rests on the authority alone: it holds at most one
  active job, arms an irreversible step before the host may perform it, hands out a host submission
  only under current authority, never forgets an armed step, and frees the slot only on a proof.

  \<^bold>\<open>The theories, in import order.\<close>
  \<^item> \<open>Ops_Prelude\<close>: exceptions as a datatype, \<open>result = exn + 'a\<close>, \<open>bindE\<close>/\<open>checkE\<close>, transactions,
    argument checks (\<open>_require_text\<close>, \<open>_require_uuid\<close>, ...), row lookups and updates on tables.
  \<^item> \<open>Digest\<close>: SHA-256 on 32-bit words, hexadecimal text and \<open>json.dumps(sort_keys=True)\<close>, with the
    injectivity of the encodings the identities rely on.
  \<^item> \<open>Ops_Models\<close>: the enums and records of models.py, the checkpoint order as a \<open>linorder\<close>.
  \<^item> \<open>Health_Contract\<close>, \<open>Operation_Identity\<close>, \<open>Mutation_Completion\<close>, \<open>Package_Plan\<close>: the pure modules
    health_contract.py, health_observation.py, health_execution.py, snapshot_identity.py,
    mutation_identity.py, rollback_identity.py, mutation_completion.py, and the plan functions of
    authority.py.
  \<^item> \<open>Authority_Store\<close>: the tables as one record \<open>authority_db\<close> of row lists; CHECK constraints,
    triggers and unique indexes as predicates every write primitive tests; the row readers.
  \<^item> \<open>Authority_Context\<close>, \<open>Job_Authority\<close>: freshness expiry, context currency, and the authority
    decision of a job; derived identities, owned snapshots, health observations.
  \<^item> \<open>Job_Lifecycle\<close>: the abstract job machine, an inductive \<open>job_transition\<close> on rows, and what each
    transition keeps.
  \<^item> \<open>Authority_Body\<close>: transaction bodies (\<open>seq\<close>, \<open>need\<close>, \<open>fetch\<close>, \<open>commit\<close>) and \<open>run_op\<close>.
  \<^item> \<open>Product_Fence\<close>, \<open>Job_Issuance\<close>, \<open>Snapshot_Operations\<close>, \<open>Mutation_Operations\<close>,
    \<open>Health_Operations\<close>, \<open>Rollback_Operations\<close>: every operation of authority.py on jobs, one
    definition per method, with host callbacks as functions on a host state of arbitrary type.
  \<^item> \<open>Authority_Effects\<close>, \<open>Operation_Effects\<close>: the locale \<open>authority_relation\<close> states what a relation
    on databases must admit so that every operation stays inside it; each body is proved to.
  \<^item> \<open>Authority_System\<close>, \<open>Authority_Histories\<close>: one step of the system (any operation, any callback
    behaviour, any environment change of the tables the operations only read), and the
    interpretations of the locale: the job machine, the event log, revisions, frozen material,
    health evidence, refresh obligations.
  \<^item> \<open>Scan_Operations\<close>, \<open>Contract_Operations\<close>: the package scan, approval and health contract
    lifecycles of authority.py with the schema of their tables. \<open>Catalog_System\<close>: the locales
    \<open>scan_relation\<close> and \<open>catalog_relation\<close> for them, and their steps.
  \<^item> \<open>Catalog_Histories\<close>, \<open>Contract_Coherence\<close>: runs of the whole backend (\<open>backend_step\<close>), which refine
    runs of the job authority; how scans evolve, the revision counter, the coherence of the contract tables.
  \<^item> \<open>Write_Success\<close>: when the schema accepts a write. \<open>Demo_Fixture\<close>: a concrete database for the
    witnesses.
  \<^item> \<open>Guard_Properties\<close>, \<open>Catalog_Properties\<close>, \<open>Component_Properties\<close>, \<open>Operation_Properties\<close>,
    \<open>Issuance_Properties\<close>, \<open>Verdict_Properties\<close>: properties of single operations and components (who may
    submit, arm, release, approve, declare, issue, complete; what a proof, an identity, a fingerprint or an
    observation is). This theory: properties of every run.
  \<^item> \<open>Discovery_Models\<close>, \<open>Discovery_Store\<close>, \<open>Canonicalization\<close>, \<open>Reconciliation\<close>, \<open>Discovery_Operations\<close>: the
    discovery snapshot and its completion evidence (discovery.py), the tables of sources, runs, nodes, resources
    and bindings with their schema, the canonical transport locators (canonicalization.py), the reconciler
    (reconciliation.py), and the operations of authority.py on sources and discovery runs.
  \<^item> \<open>Discovery_System\<close>: the locales \<open>reconcile_relation\<close> and \<open>discovery_relation\<close> for them, and their steps.
    \<open>Discovery_Histories\<close>: which run owns a source, along every run of the backend. \<open>Inventory_Slots\<close>,
    \<open>Inventory_Continuity\<close>: the reference definition of reconciliation on the slot of one source and VMID, that
    the reconciler implements it, and the continuity of resources and bindings along every run.
    \<open>Discovery_Properties\<close>, \<open>Acceptance_Properties\<close>: the properties of discovery.
  \<^item> \<open>Json_Codec\<close>: \<open>json.loads\<close> and its round trip with \<open>json.dumps\<close>. \<open>Snapshot_Description\<close>: the ownership claim in
    a snapshot's description, as snapshot_identity.py and the snapshot helper write and parse it.
  \<^item> \<open>Host_Runtime\<close>: actions on the state of a PVE host (journal, captured output, leases, executors) with every
    place where a write fails or the process is killed. \<open>Snapshot_Helper\<close>: the whole of
    deploy/hubinet-package-snapshot-helper.py over it, one definition per function. \<open>Host_Safety\<close>: what it takes for a
    helper to submit at most once, as the locale \<open>submitting_helper\<close>, and runs of a host; \<open>Snapshot_Safety\<close>: the snapshot
    helper meets it. \<open>Rollback_Helper\<close>, \<open>Rollback_Safety\<close>: the same for deploy/hubinet-package-rollback-helper.py.
    \<open>Mutation_Helper\<close>, \<open>Mutation_Safety\<close>: the same for deploy/hubinet-package-mutation-helper.py, whose runner writes
    the terminal record of the operation, with the preparation and the action gate staged in the guest.
    \<open>Host_Properties\<close>: what the host promises the backend.
  \<^bold>\<open>How state and effects are modelled.\<close> Timestamps are integers (microseconds); the injected clock
  is an argument \<open>now\<close> whose k-th value is the k-th reading, with no assumption of monotonicity.
  A raised exception inside a transaction restores the database, an SQLite constraint is an
  \<open>IntegrityError\<close>. UUIDs drawn at random are arguments. Strings are lists of 8-bit characters: the
  code points above 255 are outside the model. A loop of the code is a structural recursion over the
  rows or the arguments it iterates; the one non-structural recursion, the decimal numeral, has its
  termination proof by a measure. The one fuel is that of the JSON scanner, one more than the length of the
  text, which the round trip of \<open>Json_Codec\<close> shows to be enough for every text \<open>json.dumps\<close> writes.

  \<^bold>\<open>Not modelled.\<close> The opening and validation of the database file, the provider boundary (provider.py), the publication and
  HTTP layers, schedulers and workers, the Home Assistant integration, and the helpers under \<open>src/deploy\<close> that only read
  (health, scan, update). Of the snapshot and the mutation helper the framing of standard input in \<open>main\<close>, of the snapshot
  and the rollback helper the branch for injected test runners, and of the mutation helper what the staged shell script
  does in the guest are left out; two calls of one operation are taken as serialized, which the lease enforces for calls
  that name the same VMID.
\<close>

section \<open>Every run of the authority\<close>

text \<open>
  C1. In every state that any sequence of authority operations, host callbacks and environment steps
  can reach from a well-formed store, at most one package update job is active and every job row
  satisfies the CHECK constraints of the schema.
\<close>

theorem one_active_job:
  assumes "authority_step\<^sup>*\<^sup>* (db, f, h) (db', f', h')" "store_ok db"
  shows "length (active_jobs (jobs db')) \<le> 1 \<and> list_all job_checks (jobs db')"
  using job_history.steps_keep[OF assms(1)] assms(2)
  by (auto simp: store_ok_def job_indexes_def list_all_iff job_wf_def)

text \<open>A run of the witnesses: the fixture's backend restarts with its job just issued.\<close>

lemma demo_run:
  "authority_step\<^sup>*\<^sup>* (demo_db [demo_issued], FenceAbsent, ())
     (fst (recover_interrupted_package_update_jobs (\<lambda>_. 2000) (demo_db [demo_issued])), FenceAbsent, ())"
  by (rule r_into_rtranclp) (rule authority_step.operation[OF operation_step.on_job[OF job_step.recover]])

lemma demo_run_start: "store_ok (demo_db [demo_issued])"
  by (rule demo_store_ok[OF demo_issued_wf])

theorem one_active_job_witness:
  "length (active_jobs (jobs (fst (recover_interrupted_package_update_jobs (\<lambda>_. 2000) (demo_db [demo_issued]))))) \<le> 1"
  using one_active_job[OF demo_run demo_run_start] by blast

text \<open>
  C2. The operations refine the abstract job machine: along every run the job table only grows, each
  old row has moved by transitions of the machine alone, and each new row has come from an issued
  job by such transitions.
\<close>

theorem operations_refine_job_machine:
  assumes "authority_step\<^sup>*\<^sup>* (db, f, h) (db', f', h')" "store_ok db"
  shows "evolves (jobs db) (jobs db')"
  using job_history.steps_keep[OF assms(1)] assms(2) by simp

theorem operations_refine_job_machine_witness:
  "evolves [demo_issued] (jobs (fst (recover_interrupted_package_update_jobs (\<lambda>_. 2000) (demo_db [demo_issued]))))"
  using operations_refine_job_machine[OF demo_run demo_run_start] by (simp add: demo_db_def)

text \<open>
  C3. Along every run a job keeps its identity: the row under its id is still there with the frozen
  issuance it started with, its checkpoint has not gone back, every fact it had recorded is
  unchanged, and a terminal row is unchanged as a whole.
\<close>

theorem job_rows_only_advance:
  assumes "authority_step\<^sup>*\<^sup>* (db, f, h) (db', f', h')" "store_ok db" "j \<in> set (jobs db)"
  shows "\<exists>j' \<in> set (jobs db'). iss j' = iss j \<and> job_checkpoint j \<le> job_checkpoint j'
           \<and> job_write_once j j' \<and> (status j \<noteq> ACTIVE \<longrightarrow> j' = j)"
proof -
  from job_history.steps_keep[OF assms(1)] assms(2)
  have ok: "store_ok db'" and "evolves (jobs db) (jobs db')" by auto
  then obtain olds news where "jobs db' = olds @ news" and moved: "list_all2 job_reaches (jobs db) olds"
    by (auto simp: evolves_def)
  from moved assms(3) obtain j' where "j' \<in> set olds" and reach: "job_reaches j j'"
    by (metis in_set_conv_nth list_all2_conv_all_nth)
  moreover from assms(2,3) have "job_shape j" by (simp add: store_ok_def list_all_iff job_wf_shape)
  ultimately show ?thesis
    using \<open>jobs db' = olds @ news\<close> reaches_issuance[OF reach] reaches_rank[OF reach] reaches_terminal[OF reach]
      reaches_write_once[OF reach] by auto
qed

theorem job_rows_only_advance_witness:
  "\<exists>j' \<in> set (jobs (fst (recover_interrupted_package_update_jobs (\<lambda>_. 2000) (demo_db [demo_issued])))).
     iss j' = demo_issuance \<and> ISSUED \<le> job_checkpoint j'"
  using job_rows_only_advance[OF demo_run demo_run_start, of demo_issued]
  by (auto simp: demo_db_def demo_issued_def)

text \<open>
  C4. A job that succeeded was proven healthy: in every reachable state its health verdict is backed by
  as many passing probe results as its frozen contract has probes and by no other result, its
  mutation is recorded complete and its pre-update snapshot confirmed.
\<close>

theorem succeeded_jobs_are_proven_healthy:
  assumes "authority_step\<^sup>*\<^sup>* (db, f, h) (db', f', h')" "store_ok db" "verdicts_backed db"
    and "j \<in> set (jobs db')" "status j = SUCCEEDED"
  shows "length (results_of (jid j) db') = health_contract_probe_count (iss j)
    \<and> (\<forall>r \<in> set (results_of (jid j) db'). pr_outcome r = PROBE_PASSED)
    \<and> mutation_completed_at j \<noteq> None \<and> snapshot_confirmed_at j \<noteq> None"
proof -
  from run_job[OF assms(1,2,4)] have wf: "job_checks j" by (simp add: job_wf_def)
  from run_verdicts[OF assms(1,2,3)] assms(4) have backed: "health_verdict_backed (results_of (jid j) db') j"
    by (simp add: verdicts_backed_def)
  from wf have groups: "job_outcome_checks j" "job_snapshot_checks j" by (simp_all add: job_checks_def)
  with assms(5) have out: "job_health_outcome j = Some HEALTH_PASSED" "mutation_completed_at j \<noteq> None"
    and "job_checkpoint j = HEALTH_COMPLETED"
    by (simp_all add: job_outcome_checks_def)
  with groups(2) have "snapshot_confirmed_at j \<noteq> None" by (simp add: job_snapshot_checks_def)
  moreover from backed out(1) have passed: "\<forall>r \<in> set (results_of (jid j) db'). pr_outcome r = PROBE_PASSED"
    and "length (filter (\<lambda>r. pr_outcome r = PROBE_PASSED) (results_of (jid j) db')) = health_contract_probe_count (iss j)"
    by (auto simp: health_verdict_backed_def)
  ultimately show ?thesis using out(2) by (simp add: filter_id_conv[THEN iffD2, of "results_of (jid j) db'"])
qed

lemma demo_succeeded_db:
  "store_ok (demo_succeeded_db) \<and> verdicts_backed demo_succeeded_db"
  using demo_store_ok[OF demo_succeeded_wf]
  by (simp add: demo_succeeded_db_def store_ok_def verdicts_backed_def health_verdict_backed_def results_of_def
      demo_db_def demo_succeeded_def demo_armed_def demo_issued_def issued_job_def demo_issuance_def terminate_job_def)

theorem succeeded_jobs_are_proven_healthy_witness:
  "length (results_of (jid demo_succeeded) demo_succeeded_db) = 1"
  using succeeded_jobs_are_proven_healthy[of demo_succeeded_db FenceAbsent "()" demo_succeeded_db FenceAbsent "()" demo_succeeded]
    demo_succeeded_db
  by (simp add: demo_succeeded_db_def demo_db_def demo_succeeded_def demo_armed_def demo_issued_def demo_issuance_def)

text \<open>
  C5. A package plan approval authorises at most one successful job: in every reachable state two
  succeeded jobs with the same approval are the same job.
\<close>

theorem approval_consumed_once:
  assumes "authority_step\<^sup>*\<^sup>* (db, f, h) (db', f', h')" "store_ok db"
    and "m < length (jobs db')" "n < length (jobs db')"
    and "status (jobs db' ! m) = SUCCEEDED" "status (jobs db' ! n) = SUCCEEDED"
    and "job_approval_id (iss (jobs db' ! m)) = job_approval_id (iss (jobs db' ! n))"
  shows "m = n"
proof -
  from run_store_ok[OF assms(1,2)]
  have "unique_non_null (\<lambda>j. if status j = SUCCEEDED then Some (job_approval_id (iss j)) else None) (jobs db')"
    by (simp add: store_ok_def job_indexes_def)
  from unique_non_nullD[OF this assms(3,4)] assms(5-7) show ?thesis by simp
qed

theorem approval_consumed_once_witness:
  "\<exists>n < length (jobs demo_succeeded_db). status (jobs demo_succeeded_db ! n) = SUCCEEDED \<and> 0 = n"
  using approval_consumed_once[of demo_succeeded_db FenceAbsent "()" demo_succeeded_db FenceAbsent "()" 0 0] demo_succeeded_db
  by (simp add: demo_succeeded_db_def demo_db_def demo_succeeded_def)

text \<open>
  C6. The event log of the jobs is append-only, and along every run the events of each job keep the
  sequence numbers 1, 2, 3, ... without a gap.
\<close>

theorem event_log_contiguous:
  assumes "authority_step\<^sup>*\<^sup>* (db, f, h) (db', f', h')" "store_ok db" "event_log_ok db"
  shows "(\<exists>es. job_events db' = job_events db @ es)
    \<and> map ev_sequence (events_of i db') = [1..<Suc (length (events_of i db'))]"
  using event_log.steps_keep[OF assms(1)] assms(2,3) by (simp add: log_extends_def event_log_ok_def)

theorem event_log_contiguous_witness:
  "map ev_sequence (events_of (demo_uuid (CHR ''6''))
      (fst (recover_interrupted_package_update_jobs (\<lambda>_. 2000) (demo_db [demo_issued]))))
   = [1..<Suc (length (events_of (demo_uuid (CHR ''6''))
      (fst (recover_interrupted_package_update_jobs (\<lambda>_. 2000) (demo_db [demo_issued])))))]"
  using event_log_contiguous[OF demo_run demo_run_start, of "demo_uuid (CHR ''6'')"]
  by (simp add: event_log_ok_def events_of_def demo_db_def)

text \<open>
  C7. What a job was approved for is frozen: along every run the packages and the health probes stored
  under the id of an existing job stay exactly as they are.
\<close>

theorem frozen_material_immutable:
  assumes "authority_step\<^sup>*\<^sup>* (db, f, h) (db', f', h')" "store_ok db" "i \<in> jid ` set (jobs db)"
  shows "job_packages_of i db' = job_packages_of i db \<and> job_probes_of i db' = job_probes_of i db
    \<and> i \<in> jid ` set (jobs db')"
  using frozen_material.steps_keep[OF assms(1)] assms(2,3) by (auto simp: material_frozen_def)

theorem frozen_material_immutable_witness:
  "job_packages_of (demo_uuid (CHR ''6''))
     (fst (recover_interrupted_package_update_jobs (\<lambda>_. 2000) (demo_db [demo_issued])))
   = job_packages_of (demo_uuid (CHR ''6'')) (demo_db [demo_issued])"
  using frozen_material_immutable[OF demo_run demo_run_start, of "demo_uuid (CHR ''6'')"]
  by (simp add: demo_db_def demo_issued_def demo_issuance_def)

text \<open>
  C8. A rolled back job is one whose rollback was really performed from its own confirmed snapshot: in
  every reachable state it has a recorded PVE task, a completion time, a confirmed snapshot, a
  mutation that may have started, and no passing health verdict.
\<close>

theorem rolled_back_jobs_had_a_snapshot:
  assumes "authority_step\<^sup>*\<^sup>* (db, f, h) (db', f', h')" "store_ok db"
    and "j \<in> set (jobs db')" "status j = ROLLED_BACK"
  shows "rollback_task_upid j \<noteq> None \<and> rollback_completed_at j \<noteq> None \<and> snapshot_confirmed_at j \<noteq> None
    \<and> mutation_may_have_started_at j \<noteq> None \<and> job_health_outcome j \<noteq> Some HEALTH_PASSED"
proof -
  from run_job[OF assms(1,2,3)] have "job_rollback_checks j" "job_outcome_checks j"
    by (simp_all add: job_wf_def job_checks_def)
  moreover from this(2) assms(4) have "rollback_completed_at j \<noteq> None" by (simp add: job_outcome_checks_def)
  ultimately show ?thesis using assms(4) unfolding job_rollback_checks_def job_outcome_checks_def by auto
qed

theorem rolled_back_jobs_had_a_snapshot_witness:
  "rollback_task_upid demo_rolled_back \<noteq> None \<and> snapshot_confirmed_at demo_rolled_back \<noteq> None"
  using rolled_back_jobs_had_a_snapshot[of "demo_db [demo_rolled_back]" FenceAbsent "()" "demo_db [demo_rolled_back]"
      FenceAbsent "()" demo_rolled_back] demo_store_ok[OF demo_rolled_back_wf]
  by (simp add: demo_db_def demo_rolled_back_def terminate_job_def)

text \<open>
  C9. The published revision never goes back and the backend keeps its identity along every run, and a
  refresh obligation exists only for a job that succeeded on that resource.
\<close>

theorem revisions_and_obligations:
  assumes "authority_step\<^sup>*\<^sup>* (db, f, h) (db', f', h')" "store_ok db" "obligations_earned db"
  shows "be_published_state_revision (backend db) \<le> be_published_state_revision (backend db')
    \<and> be_id (backend db') = be_id (backend db)
    \<and> (\<forall>q \<in> set (post_scan_requests db'). \<exists>j \<in> set (jobs db').
         jid j = ps_job_id q \<and> job_resource_id j = ps_resource_id q \<and> status j = SUCCEEDED)"
  using revisions.steps_keep[OF assms(1)] obligations.steps_keep[OF assms(1)] assms(2,3)
  by (auto simp: revisions_advance_def obligations_earned_def)

theorem revisions_and_obligations_witness:
  "1 \<le> be_published_state_revision (backend (fst (recover_interrupted_package_update_jobs (\<lambda>_. 2000) (demo_db [demo_issued]))))"
  using revisions_and_obligations[OF demo_run demo_run_start] by (simp add: demo_db_def obligations_earned_def)

end
